(* ===== verification/Gy_Prelude.thy ===== *)
theory Gy_Prelude
  imports Main "HOL-Library.Word" "HOL-Library.Monad_Syntax" "HOL-Library.Code_Target_Nat"
begin

text \<open>
  Shared base of the development: the byte memory in which a received message lies, little
  endian loads and one byte stores that fail outside of it, frame relations between two
  memories, the C struct layout rules of the x86-64 ABI, and \<open>gy_align_up_2\<close> of
  \<open>common/gy_common_inc.h\<close>.

  Failing is \<open>None\<close>: a load or store outside of the message memory is undefined behaviour of
  the C++ code, and a definition that performs one returns \<open>None\<close>. A theorem that some
  validator never returns \<open>None\<close> is therefore a memory safety theorem.
\<close>

unbundle bit_operations_syntax

named_theorems gy_size \<open>offsets and sizes of the members of the wire structs\<close>
named_theorems gy_mem \<open>loads and stores that are in range\<close>

type_synonym byte = "8 word"
type_synonym mem = "byte list"

section \<open>Loads and stores\<close>

fun le_nat :: "byte list \<Rightarrow> nat" where
  "le_nat [] = 0"
| "le_nat (b # bs) = unat b + 256 * le_nat bs"

text \<open>The value of the \<open>n\<close> bytes at address \<open>a\<close>, when they are there.\<close>

definition rdv :: "mem \<Rightarrow> nat \<Rightarrow> nat \<Rightarrow> nat" where
  "rdv m a n = le_nat (take n (drop a m))"

definition rd :: "mem \<Rightarrow> nat \<Rightarrow> nat \<Rightarrow> nat option" where
  "rd m a n = (if a + n \<le> length m then Some (rdv m a n) else None)"

definition wr8 :: "mem \<Rightarrow> nat \<Rightarrow> byte \<Rightarrow> mem option" where
  "wr8 m a v = (if a < length m then Some (m[a := v]) else None)"

text \<open>Storing the terminating NUL of a string whose length (with the NUL) is \<open>len\<close>, when it is
  not empty: \<open>if (len) *((uint8_t *)p + off + len - 1) = 0\<close>.\<close>

definition put_nul :: "mem \<Rightarrow> nat \<Rightarrow> nat \<Rightarrow> mem option" where
  "put_nul m base len = (if len \<noteq> 0 then wr8 m (base + len - 1) 0 else Some m)"

lemma le_nat_bound: "le_nat bs < 256 ^ length bs"
proof (induction bs)
  case (Cons b bs)
  have "unat b < 256" using unsigned_less [of b] by simp
  with Cons show ?case by simp
qed simp

lemma le_nat_zeros [simp]: "le_nat (replicate n 0) = 0"
  by (induction n) simp_all

lemma rdv_bound: "rdv m a n < 256 ^ n"
proof -
  have "le_nat (take n (drop a m)) < 256 ^ length (take n (drop a m))" by (rule le_nat_bound)
  also have "\<dots> \<le> 256 ^ n" by (rule power_increasing) auto
  finally show ?thesis by (simp add: rdv_def)
qed

lemma rdv_1_bound: "rdv m a (Suc 0) < 256"
  using rdv_bound [of m a "Suc 0"] by simp

lemma rdv_2_bound: "rdv m a 2 < 65536"
  using rdv_bound [of m a 2] by simp

lemma rdv_4_bound: "rdv m a 4 < 4294967296"
  using rdv_bound [of m a 4] by simp

lemma rd_in [gy_mem]: "a + n \<le> length m \<Longrightarrow> rd m a n = Some (rdv m a n)"
  by (simp add: rd_def)

lemma rd_Some_iff: "rd m a n = Some v \<longleftrightarrow> a + n \<le> length m \<and> v = rdv m a n"
  by (auto simp: rd_def)

lemma rd_None_iff: "rd m a n = None \<longleftrightarrow> length m < a + n"
  by (auto simp: rd_def)

lemma wr8_in [gy_mem]: "a < length m \<Longrightarrow> wr8 m a v = Some (m[a := v])"
  by (simp add: wr8_def)

section \<open>Frames\<close>

text \<open>\<open>same_on m m' lo hi\<close>: two memories of one size hold the same bytes in \<open>[lo, hi)\<close>;
  \<open>same_off\<close>: they hold the same bytes everywhere else.\<close>

definition same_on :: "mem \<Rightarrow> mem \<Rightarrow> nat \<Rightarrow> nat \<Rightarrow> bool" where
  "same_on m m' lo hi \<longleftrightarrow> length m' = length m \<and> (\<forall>i. lo \<le> i \<and> i < hi \<longrightarrow> m' ! i = m ! i)"

definition same_off :: "mem \<Rightarrow> mem \<Rightarrow> nat \<Rightarrow> nat \<Rightarrow> bool" where
  "same_off m m' lo hi \<longleftrightarrow> length m' = length m \<and> (\<forall>i. i < lo \<or> hi \<le> i \<longrightarrow> m' ! i = m ! i)"

lemma same_off_refl [simp]: "same_off m m lo hi"
  by (simp add: same_off_def)

lemma same_off_len: "same_off m m' lo hi \<Longrightarrow> length m' = length m"
  by (simp add: same_off_def)

lemma same_off_trans: "same_off m m' lo hi \<Longrightarrow> same_off m' m'' lo hi \<Longrightarrow> same_off m m'' lo hi"
  by (simp add: same_off_def)

lemma same_off_mono: "same_off m m' lo hi \<Longrightarrow> lo' \<le> lo \<Longrightarrow> hi \<le> hi' \<Longrightarrow> same_off m m' lo' hi'"
  by (auto simp: same_off_def)

lemma same_off_on: "same_off m m' lo hi \<Longrightarrow> hi' \<le> lo \<or> hi \<le> lo' \<Longrightarrow> same_on m m' lo' hi'"
  by (auto simp: same_off_def same_on_def)

lemma same_on_refl [simp]: "same_on m m lo hi"
  by (simp add: same_on_def)

lemma same_on_sym: "same_on m m' lo hi \<Longrightarrow> same_on m' m lo hi"
  by (simp add: same_on_def)

lemma same_on_sub: "same_on m m' lo hi \<Longrightarrow> lo \<le> lo' \<Longrightarrow> hi' \<le> hi \<Longrightarrow> same_on m m' lo' hi'"
  by (auto simp: same_on_def)

lemma same_on_trans: "same_on m m' lo hi \<Longrightarrow> same_on m' m'' lo hi \<Longrightarrow> same_on m m'' lo hi"
  by (simp add: same_on_def)

lemma same_on_rdv:
  assumes "same_on m m' lo hi" and "lo \<le> a" and "a + n \<le> hi"
  shows "rdv m' a n = rdv m a n"
proof -
  have "take n (drop a m') = take n (drop a m)"
    using assms by (intro nth_equalityI) (auto simp: same_on_def)
  then show ?thesis by (simp add: rdv_def)
qed

lemma same_on_rd:
  assumes "same_on m m' lo hi" and "lo \<le> a" and "a + n \<le> hi"
  shows "rd m' a n = rd m a n"
  using assms same_on_rdv [OF assms] by (simp add: rd_def same_on_def)

lemma same_off_update: "lo \<le> a \<Longrightarrow> a < hi \<Longrightarrow> same_off m (m[a := v]) lo hi"
  by (auto simp: same_off_def)

lemma put_nul_in:
  assumes "base + len \<le> length m"
  shows "\<exists>m'. put_nul m base len = Some m' \<and> same_off m m' base (base + len)"
proof (cases "len = 0")
  case True
  then show ?thesis by (simp add: put_nul_def)
next
  case False
  then have "put_nul m base len = Some (m[base + len - 1 := 0])"
    using assms by (simp add: put_nul_def wr8_def)
  moreover have "same_off m (m[base + len - 1 := 0]) base (base + len)"
    using False by (intro same_off_update) auto
  ultimately show ?thesis by blast
qed

lemma put_nul_same_off: "put_nul m base len = Some m' \<Longrightarrow> same_off m m' base (base + len)"
  by (auto simp: put_nul_def wr8_def intro!: same_off_update split: if_splits)

text \<open>Terminating the strings of the given lengths that lie one after the other from \<open>base\<close> on.\<close>

primrec put_nuls :: "mem \<Rightarrow> nat \<Rightarrow> nat list \<Rightarrow> mem option" where
  "put_nuls m base [] = Some m"
| "put_nuls m base (len # lens) = do {
     m' \<leftarrow> put_nul m base len;
     put_nuls m' (base + len) lens
   }"

lemma put_nuls_in:
  assumes "base + sum_list lens \<le> length m"
  shows "\<exists>m'. put_nuls m base lens = Some m' \<and> same_off m m' base (base + sum_list lens)"
  using assms
proof (induction lens arbitrary: m base)
  case (Cons len lens)
  then obtain m1 where m1: "put_nul m base len = Some m1" "same_off m m1 base (base + len)"
    using put_nul_in [of base len m] by auto
  then obtain m2 where m2: "put_nuls m1 (base + len) lens = Some m2"
      "same_off m1 m2 (base + len) (base + len + sum_list lens)"
    using Cons.IH [of "base + len" m1] Cons.prems same_off_len [OF m1(2)] by auto
  have "same_off m m1 base (base + sum_list (len # lens))"
    by (rule same_off_mono [OF m1(2)]) simp_all
  moreover have "same_off m1 m2 base (base + sum_list (len # lens))"
    by (rule same_off_mono [OF m2(2)]) simp_all
  ultimately have "same_off m m2 base (base + sum_list (len # lens))" by (rule same_off_trans)
  then show ?case using m1(1) m2(1) by simp
qed simp

lemma put_nuls_before: "put_nuls m base lens = Some m' \<Longrightarrow> same_on m m' lo base"
proof (induction lens arbitrary: m base)
  case (Cons len lens)
  then obtain m1 where m1: "put_nul m base len = Some m1" "put_nuls m1 (base + len) lens = Some m'"
    by (auto split: bind_splits)
  have "same_on m m1 lo base" by (rule same_off_on [OF put_nul_same_off [OF m1(1)]]) simp
  moreover have "same_on m1 m' lo base" by (rule same_on_sub [OF Cons.IH [OF m1(2)]]) simp_all
  ultimately show ?case by (rule same_on_trans)
qed simp

section \<open>Struct layout\<close>

text \<open>
  A C type is its size and alignment; a struct is its list of named members in order. A member
  starts at the first multiple of its alignment after the member before it, and the size of the
  struct is rounded up to its alignment, the largest of the members' and of \<open>alignas\<close>. This is
  the System V x86-64 layout, under which the wire structs of \<open>common/gy_comm_proto.h\<close> are read
  in place from the receive buffer.
\<close>

type_synonym ctype = "nat \<times> nat"
type_synonym cfields = "(string \<times> ctype) list"

abbreviation csizeof :: "ctype \<Rightarrow> nat" where "csizeof t \<equiv> fst t"
abbreviation calignof :: "ctype \<Rightarrow> nat" where "calignof t \<equiv> snd t"

definition align_to :: "nat \<Rightarrow> nat \<Rightarrow> nat" where
  "align_to n a = (n + a - 1) div a * a"

fun fields_end :: "nat \<Rightarrow> cfields \<Rightarrow> nat" where
  "fields_end pos [] = pos"
| "fields_end pos ((_, t) # fs) = fields_end (align_to pos (calignof t) + csizeof t) fs"

fun max_align :: "nat \<Rightarrow> cfields \<Rightarrow> nat" where
  "max_align al [] = al"
| "max_align al ((_, t) # fs) = max_align (max al (calignof t)) fs"

definition struct_ty :: "nat \<Rightarrow> cfields \<Rightarrow> ctype" where
  "struct_ty al fs = (align_to (fields_end 0 fs) (max_align al fs), max_align al fs)"

definition packed_ty :: "nat \<Rightarrow> cfields \<Rightarrow> ctype" where
  "packed_ty al fs = (align_to (sum_list (map (csizeof \<circ> snd) fs)) al, al)"

fun offset_from :: "nat \<Rightarrow> cfields \<Rightarrow> string \<Rightarrow> nat \<times> nat" where
  "offset_from pos [] nm = (0, 0)"
| "offset_from pos ((n, t) # fs) nm =
     (let off = align_to pos (calignof t)
      in if n = nm then (off, csizeof t) else offset_from (off + csizeof t) fs nm)"

text \<open>Offset and size of the member \<open>nm\<close>. A name that is no member has size 0; every use below
  names a member, which the size and offset lemmas in \<open>gy_size\<close> show.\<close>

definition cmember :: "cfields \<Rightarrow> string \<Rightarrow> nat \<times> nat" where
  "cmember fs nm = offset_from 0 fs nm"

definition fld :: "mem \<Rightarrow> nat \<Rightarrow> cfields \<Rightarrow> string \<Rightarrow> nat option" where
  "fld m p fs nm = rd m (p + fst (cmember fs nm)) (snd (cmember fs nm))"

text \<open>The store \<open>p->nm[sizeof(p->nm) - 1] = 0\<close> into the char array member \<open>nm\<close>.\<close>

definition put_last_nul :: "mem \<Rightarrow> nat \<Rightarrow> cfields \<Rightarrow> string \<Rightarrow> mem option" where
  "put_last_nul m p fs nm = wr8 m (p + fst (cmember fs nm) + snd (cmember fs nm) - 1) 0"

definition fldv :: "mem \<Rightarrow> nat \<Rightarrow> cfields \<Rightarrow> string \<Rightarrow> nat" where
  "fldv m p fs nm = rdv m (p + fst (cmember fs nm)) (snd (cmember fs nm))"

lemma fld_in:
  "p + fst (cmember fs nm) + snd (cmember fs nm) \<le> length m \<Longrightarrow> fld m p fs nm = Some (fldv m p fs nm)"
  by (simp add: fld_def fldv_def rd_def)

lemma fld_Some_iff: "fld m p fs nm = Some v \<longleftrightarrow>
    p + fst (cmember fs nm) + snd (cmember fs nm) \<le> length m \<and> v = fldv m p fs nm"
  by (auto simp: fld_def fldv_def rd_def)

lemma fld_local:
  assumes "same_on m m' p (p + n)" and "fst (cmember fs nm) + snd (cmember fs nm) \<le> n"
  shows "fld m' p fs nm = fld m p fs nm"
  unfolding fld_def by (rule same_on_rd [OF assms(1)]) (use assms(2) in simp_all)

lemma fldv_local:
  assumes "same_on m m' p (p + n)" and "fst (cmember fs nm) + snd (cmember fs nm) \<le> n"
  shows "fldv m' p fs nm = fldv m p fs nm"
  unfolding fldv_def by (rule same_on_rdv [OF assms(1)]) (use assms(2) in simp_all)

text \<open>A NUL stored after the struct does not change its members.\<close>

lemma fld_put_nul:
  assumes "put_nul m base len = Some m'" and "p + fst (cmember fs nm) + snd (cmember fs nm) \<le> base"
  shows "fld m' p fs nm = fld m p fs nm"
proof (rule fld_local)
  show "same_on m m' p (p + (fst (cmember fs nm) + snd (cmember fs nm)))"
    by (rule same_off_on [OF put_nul_same_off [OF assms(1)]]) (use assms(2) in simp)
qed simp

text \<open>A NUL stored into a char array member changes this member only.\<close>

lemma put_last_nul_in:
  assumes "p + fst (cmember fs nm) + snd (cmember fs nm) \<le> length m" and "0 < snd (cmember fs nm)"
  shows "\<exists>m'. put_last_nul m p fs nm = Some m' \<and>
    same_off m m' (p + fst (cmember fs nm)) (p + fst (cmember fs nm) + snd (cmember fs nm))"
  using assms by (auto simp: put_last_nul_def wr8_def intro!: same_off_update)

lemma put_last_nul_same_off:
  assumes "put_last_nul m p fs nm = Some m'" and "0 < snd (cmember fs nm)"
  shows "same_off m m' (p + fst (cmember fs nm)) (p + fst (cmember fs nm) + snd (cmember fs nm))"
  using assms by (auto simp: put_last_nul_def wr8_def intro!: same_off_update split: if_splits)

lemma put_last_nul_len: "put_last_nul m p fs nm = Some m' \<Longrightarrow> length m' = length m"
  by (auto simp: put_last_nul_def wr8_def split: if_splits)

definition members_apart :: "cfields \<Rightarrow> string \<Rightarrow> string \<Rightarrow> bool" where
  "members_apart fs nm nm' \<longleftrightarrow>
     fst (cmember fs nm) + snd (cmember fs nm) \<le> fst (cmember fs nm') \<or>
     fst (cmember fs nm') + snd (cmember fs nm') \<le> fst (cmember fs nm)"

lemma same_on_put_last_nul:
  assumes "put_last_nul m p fs nm' = Some m'" and "0 < snd (cmember fs nm')" and "members_apart fs nm nm'"
  shows "same_on m m' (p + fst (cmember fs nm)) (p + fst (cmember fs nm) + snd (cmember fs nm))"
  by (rule same_off_on [OF put_last_nul_same_off [OF assms(1,2)]])
    (use assms(3) in \<open>auto simp: members_apart_def\<close>)

lemma fld_put_last_nul:
  assumes "put_last_nul m p fs nm' = Some m'" and "0 < snd (cmember fs nm')" and "members_apart fs nm nm'"
  shows "fld m' p fs nm = fld m p fs nm"
  unfolding fld_def by (rule same_on_rd [OF same_on_put_last_nul [OF assms]]) simp_all

lemma fldv_put_last_nul:
  assumes "put_last_nul m p fs nm' = Some m'" and "0 < snd (cmember fs nm')" and "members_apart fs nm nm'"
  shows "fldv m' p fs nm = fldv m p fs nm"
  unfolding fldv_def by (rule same_on_rdv [OF same_on_put_last_nul [OF assms]]) simp_all

lemma fldv_put_nul:
  assumes "put_nul m base len = Some m'" and "p + fst (cmember fs nm) + snd (cmember fs nm) \<le> base"
  shows "fldv m' p fs nm = fldv m p fs nm"
proof (rule fldv_local)
  show "same_on m m' p (p + (fst (cmember fs nm) + snd (cmember fs nm)))"
    by (rule same_off_on [OF put_nul_same_off [OF assms(1)]]) (use assms(2) in simp)
qed simp

text \<open>Terminating several char array members of a struct.\<close>

primrec put_last_nuls :: "mem \<Rightarrow> nat \<Rightarrow> cfields \<Rightarrow> string list \<Rightarrow> mem option" where
  "put_last_nuls m p fs [] = Some m"
| "put_last_nuls m p fs (nm # nms) = do {
     m' \<leftarrow> put_last_nul m p fs nm;
     put_last_nuls m' p fs nms
   }"

definition members_within :: "cfields \<Rightarrow> nat \<Rightarrow> string list \<Rightarrow> bool" where
  "members_within fs n nms \<longleftrightarrow>
     list_all (\<lambda>nm. fst (cmember fs nm) + snd (cmember fs nm) \<le> n \<and> 0 < snd (cmember fs nm)) nms"

lemma put_last_nuls_in:
  assumes "p + n \<le> length m" and "members_within fs n nms"
  shows "\<exists>m'. put_last_nuls m p fs nms = Some m' \<and> same_off m m' p (p + n)"
  using assms
proof (induction nms arbitrary: m)
  case (Cons nm nms)
  have within: "fst (cmember fs nm) + snd (cmember fs nm) \<le> n" "0 < snd (cmember fs nm)"
      "members_within fs n nms"
    using Cons.prems(2) by (simp_all add: members_within_def)
  then obtain m1 where m1: "put_last_nul m p fs nm = Some m1"
      "same_off m m1 (p + fst (cmember fs nm)) (p + fst (cmember fs nm) + snd (cmember fs nm))"
    using put_last_nul_in [of p fs nm m] Cons.prems(1) by auto
  then obtain m2 where m2: "put_last_nuls m1 p fs nms = Some m2" "same_off m1 m2 p (p + n)"
    using Cons.IH [of m1] within(3) Cons.prems(1) same_off_len [OF m1(2)] by auto
  have "same_off m m1 p (p + n)" by (rule same_off_mono [OF m1(2)]) (use within(1) in simp_all)
  from same_off_trans [OF this m2(2)] show ?case using m1(1) m2(1) by simp
qed simp

lemma fldv_put_last_nuls:
  assumes "put_last_nuls m p fs nms = Some m'"
    and "list_all (\<lambda>nm'. 0 < snd (cmember fs nm') \<and> members_apart fs nm nm') nms"
  shows "fldv m' p fs nm = fldv m p fs nm"
  using assms
proof (induction nms arbitrary: m)
  case (Cons nm' nms)
  then obtain m1 where "put_last_nul m p fs nm' = Some m1" "put_last_nuls m1 p fs nms = Some m'"
    by (auto split: bind_splits)
  then show ?case using Cons.IH [of m1] Cons.prems(2) fldv_put_last_nul [of m p fs nm' m1 nm] by simp
qed simp

text \<open>Once stored, a terminating NUL stays: the later stores are NULs as well.\<close>

lemma put_last_nuls_keep: "put_last_nuls m p fs nms = Some m' \<Longrightarrow> m ! i = 0 \<Longrightarrow> m' ! i = 0"
proof (induction nms arbitrary: m)
  case (Cons nm nms)
  then obtain m1 where m1: "put_last_nul m p fs nm = Some m1" "put_last_nuls m1 p fs nms = Some m'"
    by (auto split: bind_splits)
  then have "m1 ! i = 0" using Cons.prems(2)
    by (cases "i = p + fst (cmember fs nm) + snd (cmember fs nm) - 1")
      (auto simp: put_last_nul_def wr8_def split: if_splits)
  then show ?case using Cons.IH m1(2) by blast
qed simp

lemma put_last_nuls_terminated:
  assumes "put_last_nuls m p fs nms = Some m'" and "nm \<in> set nms"
  shows "m' ! (p + fst (cmember fs nm) + snd (cmember fs nm) - 1) = 0"
  using assms
proof (induction nms arbitrary: m)
  case (Cons nm' nms)
  then obtain m1 where m1: "put_last_nul m p fs nm' = Some m1" "put_last_nuls m1 p fs nms = Some m'"
    by (auto split: bind_splits)
  show ?case
  proof (cases "nm = nm'")
    case True
    then have "m1 ! (p + fst (cmember fs nm) + snd (cmember fs nm) - 1) = 0"
      using m1(1) by (auto simp: put_last_nul_def wr8_def split: if_splits)
    then show ?thesis by (rule put_last_nuls_keep [OF m1(2)])
  next
    case False
    then show ?thesis using Cons.IH [OF m1(2)] Cons.prems(2) by simp
  qed
qed simp

text \<open>Storing an unsigned integer member, least significant byte first.\<close>

primrec le_bytes :: "nat \<Rightarrow> nat \<Rightarrow> byte list" where
  "le_bytes 0 v = []"
| "le_bytes (Suc n) v = of_nat v # le_bytes n (v div 256)"

primrec store_bytes :: "mem \<Rightarrow> nat \<Rightarrow> byte list \<Rightarrow> mem" where
  "store_bytes m a [] = m"
| "store_bytes m a (b # bs) = store_bytes (m[a := b]) (Suc a) bs"

definition wr :: "mem \<Rightarrow> nat \<Rightarrow> nat \<Rightarrow> nat \<Rightarrow> mem option" where
  "wr m a n v = (if a + n \<le> length m then Some (store_bytes m a (le_bytes n v)) else None)"

definition put_fld :: "mem \<Rightarrow> nat \<Rightarrow> cfields \<Rightarrow> string \<Rightarrow> nat \<Rightarrow> mem option" where
  "put_fld m p fs nm v = wr m (p + fst (cmember fs nm)) (snd (cmember fs nm)) v"

lemma length_le_bytes [simp]: "length (le_bytes n v) = n"
  by (induction n arbitrary: v) simp_all

lemma le_nat_le_bytes: "le_nat (le_bytes n v) = v mod 256 ^ n"
proof (induction n arbitrary: v)
  case (Suc n)
  have "unat (of_nat v :: byte) = v mod 256"
    by (simp add: unat_of_nat take_bit_eq_mod)
  then show ?case by (simp add: Suc mod_mult2_eq)
qed simp

lemma length_store_bytes [simp]: "length (store_bytes m a bs) = length m"
  by (induction bs arbitrary: m a) simp_all

lemma nth_store_bytes:
  "a + length bs \<le> length m \<Longrightarrow> store_bytes m a bs ! i =
     (if a \<le> i \<and> i < a + length bs then bs ! (i - a) else m ! i)"
proof (induction bs arbitrary: m a)
  case (Cons b bs)
  then show ?case by (cases "i = a") (auto simp: Cons.IH nth_Cons' Suc_diff_le)
qed auto

lemma rdv_store_bytes:
  assumes "a + length bs \<le> length m"
  shows "rdv (store_bytes m a bs) a (length bs) = le_nat bs"
proof -
  have "take (length bs) (drop a (store_bytes m a bs)) = bs"
    using assms by (intro nth_equalityI) (auto simp: nth_store_bytes)
  then show ?thesis by (simp add: rdv_def)
qed

lemma put_fld_in:
  assumes "p + fst (cmember fs nm) + snd (cmember fs nm) \<le> length m" and "v < 256 ^ snd (cmember fs nm)"
  shows "\<exists>m'. put_fld m p fs nm v = Some m' \<and> fldv m' p fs nm = v \<and>
    same_off m m' (p + fst (cmember fs nm)) (p + fst (cmember fs nm) + snd (cmember fs nm))"
  using assms rdv_store_bytes [of "p + fst (cmember fs nm)" "le_bytes (snd (cmember fs nm)) v" m]
  by (auto simp: put_fld_def wr_def fldv_def le_nat_le_bytes same_off_def nth_store_bytes)

lemma fldv_same_off:
  assumes "same_off m m' lo hi"
    and "hi \<le> p + fst (cmember fs nm) \<or> p + fst (cmember fs nm) + snd (cmember fs nm) \<le> lo"
  shows "fldv m' p fs nm = fldv m p fs nm"
  unfolding fldv_def
  by (rule same_on_rdv [OF same_off_on [OF assms(1)] order.refl order.refl]) (use assms(2) in auto)

abbreviation carr :: "nat \<Rightarrow> ctype \<Rightarrow> ctype" where
  "carr n t \<equiv> (n * csizeof t, calignof t)"

abbreviation (input) uint8_t :: ctype where "uint8_t \<equiv> (1, 1)"
abbreviation (input) uint16_t :: ctype where "uint16_t \<equiv> (2, 2)"
abbreviation (input) uint32_t :: ctype where "uint32_t \<equiv> (4, 4)"
abbreviation (input) uint64_t :: ctype where "uint64_t \<equiv> (8, 8)"
abbreviation (input) cint :: ctype where "cint \<equiv> (4, 4)"
abbreviation (input) cfloat :: ctype where "cfloat \<equiv> (4, 4)"
abbreviation (input) cbool :: ctype where "cbool \<equiv> (1, 1)"
abbreviation (input) cchar :: ctype where "cchar \<equiv> (1, 1)"
abbreviation (input) int64_t :: ctype where "int64_t \<equiv> (8, 8)"
abbreviation (input) pid_t :: ctype where "pid_t \<equiv> (4, 4)"

lemmas layout_simps =
  struct_ty_def packed_ty_def align_to_def cmember_def Let_def

section \<open>Rounding up\<close>

text \<open>\<open>gy_align_up_2\<close>: all arithmetic is on \<open>uint64_t\<close>.\<close>

definition gy_align_up_2 :: "64 word \<Rightarrow> 64 word \<Rightarrow> 64 word" where
  "gy_align_up_2 nsize nalign = ((nsize - 1) AND NOT (nalign - 1)) + nalign"

lemma align_to_dvd: "a dvd align_to n a"
  by (simp add: align_to_def)

lemma align_to_ge:
  assumes "0 < a"
  shows "n \<le> align_to n a"
proof -
  have "n + a - 1 = (n + a - 1) div a * a + (n + a - 1) mod a" by simp
  moreover have "(n + a - 1) mod a < a" using assms by simp
  ultimately have "n + a - 1 < align_to n a + a" unfolding align_to_def by linarith
  with assms show ?thesis by linarith
qed

lemma align_to_less:
  assumes "0 < a"
  shows "align_to n a < n + a"
proof -
  have "align_to n a \<le> n + a - 1" unfolding align_to_def by (rule div_times_less_eq_dividend)
  with assms show ?thesis by linarith
qed

text \<open>On powers of two the bit operations compute the rounding up of \<open>align_to\<close>, as long as the
  result fits in 64 bits.\<close>

lemma and_not_mask_word: "(x::'a::len word) AND NOT (mask k) = push_bit k (drop_bit k x)"
  by (rule bit_word_eqI) (auto simp: bit_simps)

lemma unat_and_not_mask: "unat ((x::'a::len word) AND NOT (mask k)) = unat x div 2 ^ k * 2 ^ k"
proof -
  have "x AND NOT (mask k) = x - take_bit k x"
  proof -
    have "x = push_bit k (drop_bit k x) + take_bit k x" by (simp add: bits_ident)
    then show ?thesis by (simp add: and_not_mask_word eq_diff_eq)
  qed
  moreover have t: "unat (take_bit k x) = unat x mod 2 ^ k"
    by (simp only: unsigned_take_bit_eq take_bit_eq_mod [of k "unat x"])
  moreover have "take_bit k x \<le> x"
    by (simp only: word_le_nat_alt t mod_less_eq_dividend)
  ultimately show ?thesis by (simp add: unat_sub minus_mod_eq_div_mult)
qed

lemma unat_gy_align_up_2:
  assumes "k < 64" and "n \<noteq> 0" and "unat n + 2 ^ k \<le> 2 ^ 64"
  shows "unat (gy_align_up_2 n (2 ^ k)) = align_to (unat n) (2 ^ k)"
proof -
  let ?q = "(unat n - 1) div 2 ^ k"
  have n1: "unat (n - 1) = unat n - 1" using assms(2) by (simp add: unat_minus_one)
  have m: "(2 ^ k :: 64 word) - 1 = mask k" by (simp add: mask_eq_decr_exp)
  have "uint (2 ^ k :: 64 word) = 2 ^ k" using assms(1) by (intro uint_2p) (simp add: word_gt_0)
  then have p: "unat (2 ^ k :: 64 word) = 2 ^ k" by (simp add: nat_power_eq flip: nat_uint_eq)
  have pos: "0 < unat n" using assms(2) by (simp add: unat_gt_0)
  have "?q * 2 ^ k \<le> unat n - 1" by (rule div_times_less_eq_dividend)
  then have lt: "?q * 2 ^ k + 2 ^ k < 2 ^ 64" using assms(3) pos by linarith
  have "unat (gy_align_up_2 n (2 ^ k)) = ?q * 2 ^ k + 2 ^ k"
    using lt by (simp add: gy_align_up_2_def m unat_and_not_mask n1 p unat_word_ariths(1))
  moreover have "(unat n + 2 ^ k - 1) div 2 ^ k = ?q + 1"
  proof -
    have "unat n + 2 ^ k - 1 = (unat n - 1) + 2 ^ k" using pos by linarith
    then show ?thesis by (simp add: div_add_self2)
  qed
  ultimately show ?thesis by (simp add: align_to_def)
qed

end
