(* ===== verification/Gy_Wire_Types.thy ===== *)
theory Gy_Wire_Types
  imports Gy_Prelude
begin

text \<open>
  The wire structs of \<open>common/gy_comm_proto.h\<close>, \<open>common/gy_proto_common.h\<close> and the address
  types they embed (\<open>common/gy_common_inc.h\<close>, \<open>common/gy_inet_inc.h\<close>,
  \<open>common/gy_sys_hardware.h\<close>, \<open>common/gy_statistics.h\<close>), as member lists in the order of the
  source. \<open>X_fields\<close> are the members of the struct \<open>X\<close>, \<open>X_t\<close> is its size and alignment under
  the layout rules of \<open>Gy_Prelude\<close>, computed by the lemma \<open>X_t_eq\<close>. Consecutive one bit members
  share one byte, named \<open>bit_flags_\<close>. Enumerations are their underlying integer type.
\<close>

section \<open>Limits\<close>

abbreviation (input) MAX_DOMAINNAME_SIZE :: nat where "MAX_DOMAINNAME_SIZE \<equiv> 256"
abbreviation (input) TASK_COMM_LEN :: nat where "TASK_COMM_LEN \<equiv> 16"
abbreviation (input) MAX_TOTAL_TAG_LEN :: nat where "MAX_TOTAL_TAG_LEN \<equiv> 1024"
abbreviation (input) ACCESS_KEY_LEN :: nat where "ACCESS_KEY_LEN \<equiv> 64"
abbreviation (input) MAX_ZONE_LEN :: nat where "MAX_ZONE_LEN \<equiv> 64"
abbreviation (input) COMM_MAX_ERROR_LEN :: nat where "COMM_MAX_ERROR_LEN \<equiv> 256"
abbreviation (input) MAX_PROC_CMDLINE_LEN :: nat where "MAX_PROC_CMDLINE_LEN \<equiv> 256"
abbreviation (input) MAX_CLUSTER_NAME_LEN :: nat where "MAX_CLUSTER_NAME_LEN \<equiv> 64"
abbreviation (input) MAX_INSTANCE_ID_LEN :: nat where "MAX_INSTANCE_ID_LEN \<equiv> 128"
abbreviation (input) MAX_PARTHA_PER_MADHAVA :: nat where "MAX_PARTHA_PER_MADHAVA \<equiv> 512"

text \<open>\<open>std::max\<close> of the bucket counts of \<open>SEMI_LOG_HASH\<close> (12 thresholds) and \<open>DURATION_HASH\<close> (13),
  each with two more for the values below and above.\<close>

abbreviation (input) MAX_HIST_HASH_BUCKETS :: nat where
  "MAX_HIST_HASH_BUCKETS \<equiv> max (12 + 2) (13 + 2)"

section \<open>Embedded types\<close>

definition GY_IP_ADDR_fields :: cfields where
  "GY_IP_ADDR_fields =
    [(''ip128_be_'', (16, 16)), (''ip32_be_'', uint32_t), (''aftype_'', uint16_t),
     (''ipflags_'', uint16_t)]"

text \<open>\<open>[[gnu::packed]] [[gnu::aligned(8)]]\<close>\<close>

definition GY_IP_ADDR_t :: ctype where
  "GY_IP_ADDR_t = packed_ty 8 GY_IP_ADDR_fields"

lemma GY_IP_ADDR_t_eq [simp]: "GY_IP_ADDR_t = (24, 8)"
  by code_simp

definition IP_PORT_t :: ctype where
  "IP_PORT_t = struct_ty 1 [(''ipaddr_'', GY_IP_ADDR_t), (''port_'', uint16_t)]"

lemma IP_PORT_t_eq [simp]: "IP_PORT_t = (32, 8)"
  by code_simp

definition NS_IP_PORT_t :: ctype where
  "NS_IP_PORT_t = struct_ty 1 [(''ip_port_'', IP_PORT_t), (''inode_'', uint64_t)]"

lemma NS_IP_PORT_t_eq [simp]: "NS_IP_PORT_t = (40, 8)"
  by code_simp

definition PAIR_IP_PORT_t :: ctype where
  "PAIR_IP_PORT_t = struct_ty 1 [(''cli_'', IP_PORT_t), (''ser_'', IP_PORT_t)]"

lemma PAIR_IP_PORT_t_eq [simp]: "PAIR_IP_PORT_t = (64, 8)"
  by code_simp

definition GY_MACHINE_ID_t :: ctype where
  "GY_MACHINE_ID_t = struct_ty 1 [(''first'', uint64_t), (''second'', uint64_t)]"

lemma GY_MACHINE_ID_t_eq [simp]: "GY_MACHINE_ID_t = (16, 8)"
  by code_simp

definition HIST_SERIAL_t :: ctype where
  "HIST_SERIAL_t = struct_ty 1 [(''count'', uint64_t), (''sum'', int64_t)]"

lemma HIST_SERIAL_t_eq [simp]: "HIST_SERIAL_t = (16, 8)"
  by code_simp

text \<open>The header of a traced request, sent as \<open>REQ_TRACE_TRAN\<close>, which adds no member to it.\<close>

definition API_TRAN_fields :: cfields where
  "API_TRAN_fields =
    [(''treq_usec_'', uint64_t), (''tres_usec_'', uint64_t), (''tupd_usec_'', uint64_t),
     (''reqlen_'', uint64_t), (''reslen_'', uint64_t), (''reqnum_'', uint64_t),
     (''response_usec_'', uint64_t), (''reaction_usec_'', uint64_t), (''tconnect_usec_'', uint64_t),
     (''cliip_'', GY_IP_ADDR_t), (''serip_'', GY_IP_ADDR_t), (''glob_id_'', uint64_t),
     (''conn_id_'', uint64_t), (''comm_'', carr TASK_COMM_LEN cchar), (''errorcode_'', cint),
     (''app_sleep_ms_'', uint32_t), (''tran_type_'', uint32_t), (''proto_'', uint16_t),
     (''cliport_'', uint16_t), (''serport_'', uint16_t), (''request_len_'', uint16_t),
     (''lenext_'', uint16_t), (''padlen_'', uint8_t)]"

definition API_TRAN_t :: ctype where
  "API_TRAN_t = struct_ty 1 API_TRAN_fields"

lemma API_TRAN_t_eq [simp]: "API_TRAN_t = (176, 8)"
  by code_simp

section \<open>The structs of \<open>gy_comm_proto.h\<close>\<close>

definition COMM_HEADER_fields :: cfields where
  "COMM_HEADER_fields =
    [(''magic_'', uint32_t), (''total_sz_'', uint32_t), (''data_type_'', uint32_t),
     (''padding_sz_'', uint32_t)]"

definition COMM_HEADER_t :: ctype where
  "COMM_HEADER_t = struct_ty 8 COMM_HEADER_fields"

lemma COMM_HEADER_t_eq [simp]: "COMM_HEADER_t = (16, 8)"
  by code_simp

definition EVENT_NOTIFY_fields :: cfields where
  "EVENT_NOTIFY_fields =
    [(''subtype_'', uint32_t), (''nevents_'', uint32_t)]"

definition EVENT_NOTIFY_t :: ctype where
  "EVENT_NOTIFY_t = struct_ty 8 EVENT_NOTIFY_fields"

lemma EVENT_NOTIFY_t_eq [simp]: "EVENT_NOTIFY_t = (8, 8)"
  by code_simp

definition QUERY_CMD_fields :: cfields where
  "QUERY_CMD_fields =
    [(''seqid_'', uint64_t), (''timeoutsec_'', int64_t), (''subtype_'', uint32_t),
     (''respformat_'', uint32_t)]"

definition QUERY_CMD_t :: ctype where
  "QUERY_CMD_t = struct_ty 8 QUERY_CMD_fields"

lemma QUERY_CMD_t_eq [simp]: "QUERY_CMD_t = (24, 8)"
  by code_simp

definition QUERY_RESPONSE_fields :: cfields where
  "QUERY_RESPONSE_fields =
    [(''seqid_'', uint64_t), (''subtype_'', uint32_t), (''respcode_'', cint),
     (''respformat_'', uint32_t), (''resp_len_'', uint32_t), (''respflags_'', uint32_t),
     (''is_resp_complete_'', uint32_t)]"

definition QUERY_RESPONSE_t :: ctype where
  "QUERY_RESPONSE_t = struct_ty 8 QUERY_RESPONSE_fields"

lemma QUERY_RESPONSE_t_eq [simp]: "QUERY_RESPONSE_t = (32, 8)"
  by code_simp

definition ERROR_NOTIFY_fields :: cfields where
  "ERROR_NOTIFY_fields =
    [(''error_code_'', cint), (''error_string_len_'', uint32_t)]"

definition ERROR_NOTIFY_t :: ctype where
  "ERROR_NOTIFY_t = struct_ty 8 ERROR_NOTIFY_fields"

lemma ERROR_NOTIFY_t_eq [simp]: "ERROR_NOTIFY_t = (8, 8)"
  by code_simp

definition PS_REGISTER_REQ_S_fields :: cfields where
  "PS_REGISTER_REQ_S_fields =
    [(''comm_version_'', uint32_t), (''partha_version_'', uint32_t),
     (''min_shyama_version_'', uint32_t), (''machine_id_hi_'', uint64_t),
     (''machine_id_lo_'', uint64_t), (''hostname_'', carr MAX_DOMAINNAME_SIZE cchar),
     (''write_access_key_'', carr ACCESS_KEY_LEN cchar),
     (''cluster_name_'', carr MAX_CLUSTER_NAME_LEN cchar),
     (''region_name_'', carr MAX_ZONE_LEN cchar), (''zone_name_'', carr MAX_ZONE_LEN cchar),
     (''kern_version_num_'', uint32_t), (''curr_sec_'', int64_t),
     (''last_mdisconn_sec_'', int64_t), (''last_madhava_id_'', uint64_t),
     (''flags_'', uint64_t), (''extra_bytes_'', carr 512 uint8_t)]"

definition PS_REGISTER_REQ_S_t :: ctype where
  "PS_REGISTER_REQ_S_t = struct_ty 8 PS_REGISTER_REQ_S_fields"

lemma PS_REGISTER_REQ_S_t_eq [simp]: "PS_REGISTER_REQ_S_t = (1096, 8)"
  by code_simp

definition PS_REGISTER_RESP_S_fields :: cfields where
  "PS_REGISTER_RESP_S_fields =
    [(''error_code_'', cint), (''error_string_'', carr COMM_MAX_ERROR_LEN cchar),
     (''comm_version_'', uint32_t), (''shyama_version_'', uint32_t), (''shyama_id_'', uint64_t),
     (''flags_'', uint64_t), (''partha_ident_key_'', uint64_t),
     (''madhava_expiry_sec_'', int64_t), (''madhava_id_'', uint64_t),
     (''madhava_port_'', uint16_t), (''madhava_hostname_'', carr MAX_DOMAINNAME_SIZE cchar),
     (''madhava_name_'', carr MAX_CLUSTER_NAME_LEN cchar),
     (''extra_bytes_'', carr 800 uint8_t)]"

definition PS_REGISTER_RESP_S_t :: ctype where
  "PS_REGISTER_RESP_S_t = struct_ty 8 PS_REGISTER_RESP_S_fields"

lemma PS_REGISTER_RESP_S_t_eq [simp]: "PS_REGISTER_RESP_S_t = (1440, 8)"
  by code_simp

definition PM_CONNECT_CMD_S_fields :: cfields where
  "PM_CONNECT_CMD_S_fields =
    [(''comm_version_'', uint32_t), (''partha_version_'', uint32_t),
     (''min_madhava_version_'', uint32_t), (''machine_id_hi_'', uint64_t),
     (''machine_id_lo_'', uint64_t), (''partha_ident_key_'', uint64_t),
     (''hostname_'', carr MAX_DOMAINNAME_SIZE cchar),
     (''write_access_key_'', carr ACCESS_KEY_LEN cchar),
     (''cluster_name_'', carr MAX_CLUSTER_NAME_LEN cchar),
     (''region_name_'', carr MAX_ZONE_LEN cchar), (''zone_name_'', carr MAX_ZONE_LEN cchar),
     (''madhava_id_'', uint64_t), (''cli_type_'', uint32_t), (''kern_version_num_'', uint32_t),
     (''curr_sec_'', int64_t), (''clock_sec_'', int64_t), (''process_uptime_sec_'', int64_t),
     (''last_connect_sec_'', int64_t), (''flags_'', uint64_t),
     (''extra_bytes_'', carr 512 uint8_t)]"

definition PM_CONNECT_CMD_S_t :: ctype where
  "PM_CONNECT_CMD_S_t = struct_ty 8 PM_CONNECT_CMD_S_fields"

lemma PM_CONNECT_CMD_S_t_eq [simp]: "PM_CONNECT_CMD_S_t = (1120, 8)"
  by code_simp

definition PM_CONNECT_RESP_S_fields :: cfields where
  "PM_CONNECT_RESP_S_fields =
    [(''error_code_'', cint), (''error_string_'', carr COMM_MAX_ERROR_LEN cchar),
     (''madhava_id_'', uint64_t), (''comm_version_'', uint32_t),
     (''madhava_version_'', uint32_t), (''region_name_'', carr MAX_ZONE_LEN cchar),
     (''zone_name_'', carr MAX_ZONE_LEN cchar),
     (''madhava_name_'', carr MAX_CLUSTER_NAME_LEN cchar), (''curr_sec_'', int64_t),
     (''clock_sec_'', uint64_t), (''flags_'', uint64_t), (''extra_bytes_'', carr 512 uint8_t)]"

definition PM_CONNECT_RESP_S_t :: ctype where
  "PM_CONNECT_RESP_S_t = struct_ty 8 PM_CONNECT_RESP_S_fields"

lemma PM_CONNECT_RESP_S_t_eq [simp]: "PM_CONNECT_RESP_S_t = (1008, 8)"
  by code_simp

definition MS_REGISTER_REQ_S_fields :: cfields where
  "MS_REGISTER_REQ_S_fields =
    [(''comm_version_'', uint32_t), (''madhava_version_'', uint32_t),
     (''min_shyama_version_'', uint32_t), (''madhava_id_'', uint64_t),
     (''madhava_hostname_'', carr MAX_DOMAINNAME_SIZE cchar), (''madhava_port_'', uint16_t),
     (''region_name_'', carr MAX_ZONE_LEN cchar), (''zone_name_'', carr MAX_ZONE_LEN cchar),
     (''madhava_name_'', carr MAX_CLUSTER_NAME_LEN cchar),
     (''shyama_secret_'', carr MAX_CLUSTER_NAME_LEN cchar), (''cli_type_'', uint32_t),
     (''kern_version_num_'', uint32_t), (''curr_sec_'', int64_t), (''clock_sec_'', int64_t),
     (''max_partha_nodes_'', uint32_t), (''last_partha_nodes_'', uint32_t),
     (''extra_bytes_'', carr 800 uint8_t)]"

definition MS_REGISTER_REQ_S_t :: ctype where
  "MS_REGISTER_REQ_S_t = struct_ty 8 MS_REGISTER_REQ_S_fields"

lemma MS_REGISTER_REQ_S_t_eq [simp]: "MS_REGISTER_REQ_S_t = (1376, 8)"
  by code_simp

definition MS_REGISTER_RESP_S_fields :: cfields where
  "MS_REGISTER_RESP_S_fields =
    [(''error_code_'', cint), (''error_string_'', carr COMM_MAX_ERROR_LEN cchar),
     (''comm_version_'', uint32_t), (''shyama_version_'', uint32_t), (''shyama_id_'', uint64_t),
     (''madhava_id_'', uint64_t), (''nmadhava_reg_'', uint64_t),
     (''nmadhava_partha_'', uint64_t), (''region_name_'', carr MAX_ZONE_LEN cchar),
     (''zone_name_'', carr MAX_ZONE_LEN cchar),
     (''shyama_name_'', carr MAX_CLUSTER_NAME_LEN cchar), (''curr_sec_'', int64_t),
     (''clock_sec_'', uint64_t), (''flags_'', uint64_t), (''extra_bytes_'', carr 512 uint8_t)]"

definition MS_REGISTER_RESP_S_t :: ctype where
  "MS_REGISTER_RESP_S_t = struct_ty 8 MS_REGISTER_RESP_S_fields"

lemma MS_REGISTER_RESP_S_t_eq [simp]: "MS_REGISTER_RESP_S_t = (1032, 8)"
  by code_simp

definition MM_CONNECT_CMD_S_fields :: cfields where
  "MM_CONNECT_CMD_S_fields =
    [(''comm_version_'', uint32_t), (''local_version_'', uint32_t),
     (''min_remote_version_'', uint32_t),
     (''madhava_hostname_'', carr MAX_DOMAINNAME_SIZE cchar), (''madhava_port_'', uint16_t),
     (''region_name_'', carr MAX_ZONE_LEN cchar), (''zone_name_'', carr MAX_ZONE_LEN cchar),
     (''madhava_name_'', carr MAX_CLUSTER_NAME_LEN cchar), (''local_madhava_id_'', uint64_t),
     (''remote_madhava_id_'', uint64_t), (''cli_type_'', uint32_t),
     (''kern_version_num_'', uint32_t), (''curr_sec_'', int64_t), (''clock_sec_'', uint64_t),
     (''curr_partha_nodes_'', uint32_t), (''extra_bytes_'', carr 512 uint8_t)]"

definition MM_CONNECT_CMD_S_t :: ctype where
  "MM_CONNECT_CMD_S_t = struct_ty 8 MM_CONNECT_CMD_S_fields"

lemma MM_CONNECT_CMD_S_t_eq [simp]: "MM_CONNECT_CMD_S_t = (1024, 8)"
  by code_simp

definition MM_CONNECT_RESP_S_fields :: cfields where
  "MM_CONNECT_RESP_S_fields =
    [(''error_code_'', cint), (''error_string_'', carr COMM_MAX_ERROR_LEN cchar),
     (''comm_version_'', uint32_t), (''region_name_'', carr MAX_ZONE_LEN cchar),
     (''zone_name_'', carr MAX_ZONE_LEN cchar),
     (''madhava_name_'', carr MAX_CLUSTER_NAME_LEN cchar), (''curr_sec_'', int64_t),
     (''clock_sec_'', uint64_t), (''flags_'', uint64_t), (''extra_bytes_'', carr 512 uint8_t)]"

definition MM_CONNECT_RESP_S_t :: ctype where
  "MM_CONNECT_RESP_S_t = struct_ty 8 MM_CONNECT_RESP_S_fields"

lemma MM_CONNECT_RESP_S_t_eq [simp]: "MM_CONNECT_RESP_S_t = (992, 8)"
  by code_simp

definition NS_REGISTER_REQ_S_fields :: cfields where
  "NS_REGISTER_REQ_S_fields =
    [(''curr_sec_'', int64_t), (''comm_version_'', uint32_t), (''node_version_'', uint32_t),
     (''min_shyama_version_'', uint32_t), (''cli_type_'', uint32_t), (''node_port_'', uint32_t),
     (''node_hostname_'', carr MAX_DOMAINNAME_SIZE cchar),
     (''extra_bytes_'', carr 128 uint8_t)]"

definition NS_REGISTER_REQ_S_t :: ctype where
  "NS_REGISTER_REQ_S_t = struct_ty 8 NS_REGISTER_REQ_S_fields"

lemma NS_REGISTER_REQ_S_t_eq [simp]: "NS_REGISTER_REQ_S_t = (416, 8)"
  by code_simp

definition NS_REGISTER_RESP_S_fields :: cfields where
  "NS_REGISTER_RESP_S_fields =
    [(''error_code_'', cint), (''shyama_version_'', uint32_t), (''shyama_id_'', carr 32 cchar),
     (''error_string_'', carr COMM_MAX_ERROR_LEN cchar), (''extra_bytes_'', carr 128 uint8_t)]"

definition NS_REGISTER_RESP_S_t :: ctype where
  "NS_REGISTER_RESP_S_t = struct_ty 8 NS_REGISTER_RESP_S_fields"

lemma NS_REGISTER_RESP_S_t_eq [simp]: "NS_REGISTER_RESP_S_t = (424, 8)"
  by code_simp

definition NM_CONNECT_CMD_S_fields :: cfields where
  "NM_CONNECT_CMD_S_fields =
    [(''curr_sec_'', int64_t), (''comm_version_'', uint32_t), (''node_version_'', uint32_t),
     (''min_madhava_version_'', uint32_t), (''cli_type_'', uint32_t),
     (''node_port_'', uint32_t), (''node_hostname_'', carr MAX_DOMAINNAME_SIZE cchar),
     (''extra_bytes_'', carr 128 uint8_t)]"

definition NM_CONNECT_CMD_S_t :: ctype where
  "NM_CONNECT_CMD_S_t = struct_ty 8 NM_CONNECT_CMD_S_fields"

lemma NM_CONNECT_CMD_S_t_eq [simp]: "NM_CONNECT_CMD_S_t = (416, 8)"
  by code_simp

definition NM_CONNECT_RESP_S_fields :: cfields where
  "NM_CONNECT_RESP_S_fields =
    [(''error_code_'', cint), (''madhava_version_'', uint32_t),
     (''madhava_id_'', carr 32 cchar), (''error_string_'', carr COMM_MAX_ERROR_LEN cchar),
     (''extra_bytes_'', carr 128 uint8_t)]"

definition NM_CONNECT_RESP_S_t :: ctype where
  "NM_CONNECT_RESP_S_t = struct_ty 8 NM_CONNECT_RESP_S_fields"

lemma NM_CONNECT_RESP_S_t_eq [simp]: "NM_CONNECT_RESP_S_t = (424, 8)"
  by code_simp

definition SM_PARTHA_IDENT_NOTIFY_fields :: cfields where
  "SM_PARTHA_IDENT_NOTIFY_fields =
    [(''machine_id_hi_'', uint64_t), (''machine_id_lo_'', uint64_t),
     (''partha_ident_key_'', uint64_t), (''texpiry_sec_'', int64_t), (''is_new_host_'', cint),
     (''hostname_'', carr MAX_DOMAINNAME_SIZE cchar)]"

definition SM_PARTHA_IDENT_NOTIFY_t :: ctype where
  "SM_PARTHA_IDENT_NOTIFY_t = struct_ty 8 SM_PARTHA_IDENT_NOTIFY_fields"

lemma SM_PARTHA_IDENT_NOTIFY_t_eq [simp]: "SM_PARTHA_IDENT_NOTIFY_t = (296, 8)"
  by code_simp

definition PARTHA_STATUS_fields :: cfields where
  "PARTHA_STATUS_fields =
    [(''is_ok_'', cbool)]"

definition PARTHA_STATUS_t :: ctype where
  "PARTHA_STATUS_t = struct_ty 8 PARTHA_STATUS_fields"

lemma PARTHA_STATUS_t_eq [simp]: "PARTHA_STATUS_t = (8, 8)"
  by code_simp

definition MADHAVA_PARTHA_STATUS_fields :: cfields where
  "MADHAVA_PARTHA_STATUS_fields =
    [(''madhava_id_'', uint64_t), (''npartha_nodes_'', uint64_t),
     (''is_active_madhava_id_'', cbool)]"

definition MADHAVA_PARTHA_STATUS_t :: ctype where
  "MADHAVA_PARTHA_STATUS_t = struct_ty 8 MADHAVA_PARTHA_STATUS_fields"

lemma MADHAVA_PARTHA_STATUS_t_eq [simp]: "MADHAVA_PARTHA_STATUS_t = (24, 8)"
  by code_simp

definition MADHAVA_SHYAMA_STATUS_fields :: cfields where
  "MADHAVA_SHYAMA_STATUS_fields =
    [(''madhava_id_'', uint64_t), (''npartha_nodes_'', uint64_t),
     (''approx_partha_conns_'', uint64_t)]"

definition MADHAVA_SHYAMA_STATUS_t :: ctype where
  "MADHAVA_SHYAMA_STATUS_t = struct_ty 8 MADHAVA_SHYAMA_STATUS_fields"

lemma MADHAVA_SHYAMA_STATUS_t_eq [simp]: "MADHAVA_SHYAMA_STATUS_t = (24, 8)"
  by code_simp

definition SHYAMA_MADHAVA_STATUS_fields :: cfields where
  "SHYAMA_MADHAVA_STATUS_fields =
    [(''nmadhava_reg_'', uint64_t), (''nmadhava_partha_'', uint64_t),
     (''active_madhava_id_'', uint64_t)]"

definition SHYAMA_MADHAVA_STATUS_t :: ctype where
  "SHYAMA_MADHAVA_STATUS_t = struct_ty 8 SHYAMA_MADHAVA_STATUS_fields"

lemma SHYAMA_MADHAVA_STATUS_t_eq [simp]: "SHYAMA_MADHAVA_STATUS_t = (24, 8)"
  by code_simp

definition MADHAVA_MADHAVA_STATUS_fields :: cfields where
  "MADHAVA_MADHAVA_STATUS_fields =
    [(''madhava_id_'', uint64_t), (''npartha_nodes_'', uint64_t)]"

definition MADHAVA_MADHAVA_STATUS_t :: ctype where
  "MADHAVA_MADHAVA_STATUS_t = struct_ty 8 MADHAVA_MADHAVA_STATUS_fields"

lemma MADHAVA_MADHAVA_STATUS_t_eq [simp]: "MADHAVA_MADHAVA_STATUS_t = (16, 8)"
  by code_simp

definition ERROR_STRING_RESP_fields :: cfields where
  "ERROR_STRING_RESP_fields =
    [(''error_string_'', carr COMM_MAX_ERROR_LEN cchar)]"

definition ERROR_STRING_RESP_t :: ctype where
  "ERROR_STRING_RESP_t = struct_ty 8 ERROR_STRING_RESP_fields"

lemma ERROR_STRING_RESP_t_eq [simp]: "ERROR_STRING_RESP_t = (256, 8)"
  by code_simp

definition PARTHA_MADHAVA_REQ_fields :: cfields where
  "PARTHA_MADHAVA_REQ_fields =
    [(''partha_machine_id_hi_'', uint64_t), (''partha_machine_id_lo_'', uint64_t),
     (''partha_hostname_len_'', uint32_t), (''extra_tags_len_'', uint32_t)]"

definition PARTHA_MADHAVA_REQ_t :: ctype where
  "PARTHA_MADHAVA_REQ_t = struct_ty 8 PARTHA_MADHAVA_REQ_fields"

lemma PARTHA_MADHAVA_REQ_t_eq [simp]: "PARTHA_MADHAVA_REQ_t = (24, 8)"
  by code_simp

definition PARTHA_MADHAVA_RESP_fields :: cfields where
  "PARTHA_MADHAVA_RESP_fields =
    [(''madhava_id_'', uint64_t), (''madhava_svc_hostname_'', carr MAX_DOMAINNAME_SIZE cchar),
     (''madhava_svc_port_'', uint16_t)]"

definition PARTHA_MADHAVA_RESP_t :: ctype where
  "PARTHA_MADHAVA_RESP_t = struct_ty 8 PARTHA_MADHAVA_RESP_fields"

lemma PARTHA_MADHAVA_RESP_t_eq [simp]: "PARTHA_MADHAVA_RESP_t = (272, 8)"
  by code_simp

definition NUM_PARTHA_REQ_fields :: cfields where
  "NUM_PARTHA_REQ_fields =
    [(''send_state_'', cbool)]"

definition NUM_PARTHA_REQ_t :: ctype where
  "NUM_PARTHA_REQ_t = struct_ty 8 NUM_PARTHA_REQ_fields"

lemma NUM_PARTHA_REQ_t_eq [simp]: "NUM_PARTHA_REQ_t = (8, 8)"
  by code_simp

definition NUM_PARTHA_RESP_fields :: cfields where
  "NUM_PARTHA_RESP_fields =
    [(''nconnected_'', uint64_t), (''nhandled_'', uint64_t), (''ngood_'', uint64_t),
     (''nok_'', uint64_t), (''nbad_'', uint64_t), (''nsevere_'', uint64_t)]"

definition NUM_PARTHA_RESP_t :: ctype where
  "NUM_PARTHA_RESP_t = struct_ty 8 NUM_PARTHA_RESP_fields"

lemma NUM_PARTHA_RESP_t_eq [simp]: "NUM_PARTHA_RESP_t = (48, 8)"
  by code_simp

definition MADHAVA_LIST_fields :: cfields where
  "MADHAVA_LIST_fields =
    [(''madhava_id_'', uint64_t), (''npartha_nodes_'', uint64_t),
     (''madhava_version_'', uint32_t),
     (''madhava_svc_hostname_'', carr MAX_DOMAINNAME_SIZE cchar),
     (''madhava_svc_port_'', uint16_t)]"

definition MADHAVA_LIST_t :: ctype where
  "MADHAVA_LIST_t = struct_ty 8 MADHAVA_LIST_fields"

lemma MADHAVA_LIST_t_eq [simp]: "MADHAVA_LIST_t = (280, 8)"
  by code_simp

definition MP_RESET_STATS_fields :: cfields where
  "MP_RESET_STATS_fields =
    [(''reset_stats_'', cbool)]"

definition MP_RESET_STATS_t :: ctype where
  "MP_RESET_STATS_t = struct_ty 8 MP_RESET_STATS_fields"

lemma MP_RESET_STATS_t_eq [simp]: "MP_RESET_STATS_t = (8, 8)"
  by code_simp

definition TASK_MINI_ADD_fields :: cfields where
  "TASK_MINI_ADD_fields =
    [(''start_tusec_'', uint64_t), (''exit_tusec_'', uint64_t), (''task_pid_'', pid_t),
     (''task_ppid_'', pid_t), (''task_pgid_'', pid_t),
     (''task_comm_'', carr TASK_COMM_LEN cchar),
     (''task_parent_comm_'', carr TASK_COMM_LEN cchar), (''aggr_task_id_'', uint64_t),
     (''task_effuid_'', uint32_t), (''task_effgid_'', uint32_t), (''is_rt_process_'', cbool),
     (''task_cmdline_len_'', uint32_t), (''padding_len_'', uint32_t)]"

definition TASK_MINI_ADD_t :: ctype where
  "TASK_MINI_ADD_t = struct_ty 8 TASK_MINI_ADD_fields"

lemma TASK_MINI_ADD_t_eq [simp]: "TASK_MINI_ADD_t = (96, 8)"
  by code_simp

definition TASK_FULL_ADD_fields :: cfields where
  "TASK_FULL_ADD_fields =
    [(''task_pid_'', pid_t), (''task_ppid_'', pid_t), (''task_pgid_'', pid_t),
     (''task_sid_'', pid_t), (''task_nspid_'', pid_t), (''task_nspgid_'', pid_t),
     (''task_nssid_'', pid_t), (''task_comm_'', carr TASK_COMM_LEN cchar),
     (''task_parent_comm_'', carr TASK_COMM_LEN cchar), (''aggr_task_id_'', uint64_t),
     (''task_realuid_'', uint32_t), (''task_effuid_'', uint32_t), (''task_realgid_'', uint32_t),
     (''task_effgid_'', uint32_t), (''ncpus_allowed_'', uint32_t),
     (''nmems_allowed_'', uint32_t), (''task_flags_'', uint32_t), (''start_tusec_'', uint64_t),
     (''task_priority_'', int64_t), (''task_nice_'', int64_t),
     (''task_rt_priority_'', uint32_t), (''task_sched_policy_'', uint32_t),
     (''ntcp_listeners_'', cint), (''is_tcp_server_'', cbool), (''is_tcp_client_'', cbool),
     (''is_parent_tcp_client_'', cbool), (''is_high_cap_'', cbool),
     (''listen_tbl_inherited_'', cbool), (''task_exe_path_len_'', uint16_t),
     (''task_cmdline_len_'', uint16_t), (''task_tags_len_'', uint16_t),
     (''padding_len_'', uint8_t)]"

definition TASK_FULL_ADD_t :: ctype where
  "TASK_FULL_ADD_t = struct_ty 8 TASK_FULL_ADD_fields"

lemma TASK_FULL_ADD_t_eq [simp]: "TASK_FULL_ADD_t = (160, 8)"
  by code_simp

definition TASK_AGGR_NOTIFY_fields :: cfields where
  "TASK_AGGR_NOTIFY_fields =
    [(''aggr_task_id_'', uint64_t), (''related_listen_id_'', uint64_t),
     (''comm_'', carr TASK_COMM_LEN cchar), (''uid_'', uint32_t), (''gid_'', uint32_t),
     (''cmdline_len_'', uint16_t), (''tag_len_'', uint8_t), (''bit_flags_'', uint8_t),
     (''padding_len_'', uint8_t)]"

definition TASK_AGGR_NOTIFY_t :: ctype where
  "TASK_AGGR_NOTIFY_t = struct_ty 8 TASK_AGGR_NOTIFY_fields"

lemma TASK_AGGR_NOTIFY_t_eq [simp]: "TASK_AGGR_NOTIFY_t = (48, 8)"
  by code_simp

definition PING_TASK_AGGR_fields :: cfields where
  "PING_TASK_AGGR_fields =
    [(''aggr_task_id_'', uint64_t), (''related_listen_id_'', uint64_t), (''ntasks_'', uint32_t),
     (''keep_task_'', cbool)]"

definition PING_TASK_AGGR_t :: ctype where
  "PING_TASK_AGGR_t = struct_ty 8 PING_TASK_AGGR_fields"

lemma PING_TASK_AGGR_t_eq [simp]: "PING_TASK_AGGR_t = (24, 8)"
  by code_simp

definition MM_TASK_AGGR_PING_fields :: cfields where
  "MM_TASK_AGGR_PING_fields =
    [(''aggr_task_id_'', uint64_t)]"

definition MM_TASK_AGGR_PING_t :: ctype where
  "MM_TASK_AGGR_PING_t = struct_ty 8 MM_TASK_AGGR_PING_fields"

lemma MM_TASK_AGGR_PING_t_eq [simp]: "MM_TASK_AGGR_PING_t = (8, 8)"
  by code_simp

definition MM_TASK_AGGR_DEL_fields :: cfields where
  "MM_TASK_AGGR_DEL_fields =
    [(''aggr_task_id_'', uint64_t)]"

definition MM_TASK_AGGR_DEL_t :: ctype where
  "MM_TASK_AGGR_DEL_t = struct_ty 8 MM_TASK_AGGR_DEL_fields"

lemma MM_TASK_AGGR_DEL_t_eq [simp]: "MM_TASK_AGGR_DEL_t = (8, 8)"
  by code_simp

definition TOP_TASK_fields :: cfields where
  "TOP_TASK_fields =
    [(''aggr_task_id_'', uint64_t), (''pid_'', pid_t), (''ppid_'', pid_t),
     (''rss_mb_'', uint32_t), (''cpupct_'', cfloat), (''comm_'', carr TASK_COMM_LEN cchar)]"

definition TOP_TASK_t :: ctype where
  "TOP_TASK_t = struct_ty 1 TOP_TASK_fields"

lemma TOP_TASK_t_eq [simp]: "TOP_TASK_t = (40, 8)"
  by code_simp

definition TOP_PG_TASK_fields :: cfields where
  "TOP_PG_TASK_fields =
    [(''aggr_task_id_'', uint64_t), (''pg_pid_'', pid_t), (''cpid_'', pid_t),
     (''ntasks_'', cint), (''tot_rss_mb_'', uint32_t), (''tot_cpupct_'', cfloat),
     (''pg_comm_'', carr TASK_COMM_LEN cchar), (''child_comm_'', carr TASK_COMM_LEN cchar)]"

definition TOP_PG_TASK_t :: ctype where
  "TOP_PG_TASK_t = struct_ty 1 TOP_PG_TASK_fields"

lemma TOP_PG_TASK_t_eq [simp]: "TOP_PG_TASK_t = (64, 8)"
  by code_simp

definition TOP_FORK_TASK_fields :: cfields where
  "TOP_FORK_TASK_fields =
    [(''aggr_task_id_'', uint64_t), (''pid_'', pid_t), (''ppid_'', pid_t),
     (''nfork_per_sec_'', cint), (''comm_'', carr TASK_COMM_LEN cchar)]"

definition TOP_FORK_TASK_t :: ctype where
  "TOP_FORK_TASK_t = struct_ty 1 TOP_FORK_TASK_fields"

lemma TOP_FORK_TASK_t_eq [simp]: "TOP_FORK_TASK_t = (40, 8)"
  by code_simp

definition TASK_TOP_PROCS_fields :: cfields where
  "TASK_TOP_PROCS_fields =
    [(''nprocs_'', uint16_t), (''npg_procs_'', uint16_t), (''nrss_procs_'', uint16_t),
     (''nfork_procs_'', uint16_t), (''ext_data_len_'', uint16_t)]"

definition TASK_TOP_PROCS_t :: ctype where
  "TASK_TOP_PROCS_t = struct_ty 8 TASK_TOP_PROCS_fields"

lemma TASK_TOP_PROCS_t_eq [simp]: "TASK_TOP_PROCS_t = (16, 8)"
  by code_simp

definition TASK_ONE_fields :: cfields where
  "TASK_ONE_fields =
    [(''stats_'', carr MAX_HIST_HASH_BUCKETS HIST_SERIAL_t), (''total_count_'', uint64_t),
     (''max_val_'', int64_t), (''nbuckets_'', uint32_t)]"

definition TASK_ONE_t :: ctype where
  "TASK_ONE_t = struct_ty 1 TASK_ONE_fields"

lemma TASK_ONE_t_eq [simp]: "TASK_ONE_t = (264, 8)"
  by code_simp

definition TASK_HISTOGRAM_fields :: cfields where
  "TASK_HISTOGRAM_fields =
    [(''cpu_delay_histogram_'', TASK_ONE_t), (''blkio_delay_histogram_'', TASK_ONE_t),
     (''vol_cs_histogram_'', TASK_ONE_t), (''invol_cs_histogram_'', TASK_ONE_t),
     (''cpu_pct_histogram_'', TASK_ONE_t), (''last_update_tsec_'', int64_t),
     (''aggr_task_id_'', uint64_t), (''comm_'', carr TASK_COMM_LEN cchar), (''pid_'', pid_t)]"

definition TASK_HISTOGRAM_t :: ctype where
  "TASK_HISTOGRAM_t = struct_ty 8 TASK_HISTOGRAM_fields"

lemma TASK_HISTOGRAM_t_eq [simp]: "TASK_HISTOGRAM_t = (1360, 8)"
  by code_simp

definition NEW_LISTENER_fields :: cfields where
  "NEW_LISTENER_fields =
    [(''ns_ip_port_'', NS_IP_PORT_t), (''glob_id_'', uint64_t), (''aggr_glob_id_'', uint64_t),
     (''related_listen_id_'', uint64_t), (''tstart_usec_'', uint64_t),
     (''ser_aggr_task_id_'', uint64_t), (''is_any_ip_'', cbool), (''is_pre_existing_'', cbool),
     (''no_aggr_stats_'', cbool), (''no_resp_stats_'', cbool),
     (''comm_'', carr TASK_COMM_LEN cchar), (''start_pid_'', pid_t),
     (''cmdline_len_'', uint16_t), (''padding_len_'', uint8_t)]"

definition NEW_LISTENER_t :: ctype where
  "NEW_LISTENER_t = struct_ty 8 NEW_LISTENER_fields"

lemma NEW_LISTENER_t_eq [simp]: "NEW_LISTENER_t = (112, 8)"
  by code_simp

definition LISTENER_INFO_REQ_fields :: cfields where
  "LISTENER_INFO_REQ_fields =
    [(''ntcp_listeners_'', uint32_t)]"

definition LISTENER_INFO_REQ_t :: ctype where
  "LISTENER_INFO_REQ_t = struct_ty 8 LISTENER_INFO_REQ_fields"

lemma LISTENER_INFO_REQ_t_eq [simp]: "LISTENER_INFO_REQ_t = (8, 8)"
  by code_simp

definition LISTENER_DAY_STATS_fields :: cfields where
  "LISTENER_DAY_STATS_fields =
    [(''glob_id_'', uint64_t), (''tcount_5d_'', int64_t), (''tsum_5d_'', int64_t),
     (''p95_5d_respms_'', uint32_t), (''p25_5d_respms_'', uint32_t), (''p95_qps_'', uint32_t),
     (''p25_qps_'', uint32_t), (''p95_nactive_'', uint32_t), (''p25_nactive_'', uint32_t)]"

definition LISTENER_DAY_STATS_t :: ctype where
  "LISTENER_DAY_STATS_t = struct_ty 8 LISTENER_DAY_STATS_fields"

lemma LISTENER_DAY_STATS_t_eq [simp]: "LISTENER_DAY_STATS_t = (48, 8)"
  by code_simp

definition LISTENERS_INFO_STATS_RESP_fields :: cfields where
  "LISTENERS_INFO_STATS_RESP_fields =
    [(''ntcp_listeners_'', uint32_t)]"

definition LISTENERS_INFO_STATS_RESP_t :: ctype where
  "LISTENERS_INFO_STATS_RESP_t = struct_ty 8 LISTENERS_INFO_STATS_RESP_fields"

lemma LISTENERS_INFO_STATS_RESP_t_eq [simp]: "LISTENERS_INFO_STATS_RESP_t = (8, 8)"
  by code_simp

definition TCP_CONN_NOTIFY_fields :: cfields where
  "TCP_CONN_NOTIFY_fields =
    [(''cli_'', IP_PORT_t), (''ser_'', IP_PORT_t), (''nat_cli_'', IP_PORT_t),
     (''nat_ser_'', IP_PORT_t), (''tusec_start_'', uint64_t), (''tusec_close_'', uint64_t),
     (''cli_task_aggr_id_'', uint64_t), (''cli_related_listen_id_'', uint64_t),
     (''cli_madhava_id_'', uint64_t), (''cli_ser_machine_id_'', GY_MACHINE_ID_t),
     (''ser_related_listen_id_'', uint64_t), (''ser_glob_id_'', uint64_t),
     (''ser_madhava_id_'', uint64_t), (''bytes_sent_'', uint64_t), (''bytes_rcvd_'', uint64_t),
     (''cli_pid_'', pid_t), (''ser_pid_'', pid_t), (''ser_conn_hash_'', uint32_t),
     (''ser_sock_inode_'', uint32_t), (''cli_comm_'', carr TASK_COMM_LEN cchar),
     (''ser_comm_'', carr TASK_COMM_LEN cchar), (''cli_cmdline_len_'', uint16_t),
     (''is_tcp_connect_event_'', cbool), (''is_tcp_accept_event_'', cbool),
     (''is_loopback_conn_'', cbool), (''is_pre_existing_'', cbool),
     (''notified_before_'', cbool), (''padding_len_'', uint8_t)]"

definition TCP_CONN_NOTIFY_t :: ctype where
  "TCP_CONN_NOTIFY_t = struct_ty 8 TCP_CONN_NOTIFY_fields"

lemma TCP_CONN_NOTIFY_t_eq [simp]: "TCP_CONN_NOTIFY_t = (280, 8)"
  by code_simp

definition NAT_TCP_NOTIFY_fields :: cfields where
  "NAT_TCP_NOTIFY_fields =
    [(''orig_tup_'', PAIR_IP_PORT_t), (''nat_tup_'', PAIR_IP_PORT_t), (''is_snat_'', cbool),
     (''is_dnat_'', cbool), (''is_ipvs_'', cbool)]"

definition NAT_TCP_NOTIFY_t :: ctype where
  "NAT_TCP_NOTIFY_t = struct_ty 8 NAT_TCP_NOTIFY_fields"

lemma NAT_TCP_NOTIFY_t_eq [simp]: "NAT_TCP_NOTIFY_t = (136, 8)"
  by code_simp

definition MS_TCP_CONN_CLOSE_fields :: cfields where
  "MS_TCP_CONN_CLOSE_fields =
    [(''tup_'', PAIR_IP_PORT_t), (''close_cli_bytes_sent_'', uint64_t),
     (''close_cli_bytes_rcvd_'', uint64_t)]"

definition MS_TCP_CONN_CLOSE_t :: ctype where
  "MS_TCP_CONN_CLOSE_t = struct_ty 8 MS_TCP_CONN_CLOSE_fields"

lemma MS_TCP_CONN_CLOSE_t_eq [simp]: "MS_TCP_CONN_CLOSE_t = (80, 8)"
  by code_simp

definition MP_CLI_TCP_INFO_fields :: cfields where
  "MP_CLI_TCP_INFO_fields =
    [(''tup_'', PAIR_IP_PORT_t), (''ser_partha_machine_id_'', GY_MACHINE_ID_t),
     (''ser_glob_id_'', uint64_t), (''ser_madhava_id_'', uint64_t),
     (''ser_related_listen_id_'', uint64_t), (''cli_ser_diff_clusters_'', cbool),
     (''ser_comm_'', carr TASK_COMM_LEN cchar)]"

definition MP_CLI_TCP_INFO_t :: ctype where
  "MP_CLI_TCP_INFO_t = struct_ty 8 MP_CLI_TCP_INFO_fields"

lemma MP_CLI_TCP_INFO_t_eq [simp]: "MP_CLI_TCP_INFO_t = (128, 8)"
  by code_simp

definition MP_SER_TCP_INFO_fields :: cfields where
  "MP_SER_TCP_INFO_fields =
    [(''cli_partha_machine_id_'', GY_MACHINE_ID_t), (''cli_task_aggr_id_'', uint64_t),
     (''cli_madhava_id_'', uint64_t), (''cli_related_listen_id_'', uint64_t),
     (''cli_comm_'', carr TASK_COMM_LEN cchar), (''ser_nat_ip_port_'', IP_PORT_t),
     (''ser_nat_conn_hash_'', uint64_t), (''ser_conn_hash_'', uint32_t),
     (''ser_sock_inode_'', uint32_t)]"

definition MP_SER_TCP_INFO_t :: ctype where
  "MP_SER_TCP_INFO_t = struct_ty 8 MP_SER_TCP_INFO_fields"

lemma MP_SER_TCP_INFO_t_eq [simp]: "MP_SER_TCP_INFO_t = (104, 8)"
  by code_simp

definition MS_TCP_CONN_NOTIFY_fields :: cfields where
  "MS_TCP_CONN_NOTIFY_fields =
    [(''cli_'', IP_PORT_t), (''ser_'', IP_PORT_t), (''nat_cli_'', IP_PORT_t),
     (''nat_ser_'', IP_PORT_t), (''tusec_mstart_'', uint64_t),
     (''cli_task_aggr_id_'', uint64_t), (''cli_related_listen_id_'', uint64_t),
     (''ser_glob_id_'', uint64_t), (''ser_tusec_pstart_'', uint64_t),
     (''ser_nat_conn_hash_'', uint64_t), (''ser_conn_hash_'', uint32_t),
     (''ser_sock_inode_'', uint32_t), (''ser_related_listen_id_'', uint64_t),
     (''close_cli_bytes_sent_'', uint64_t), (''close_cli_bytes_rcvd_'', uint64_t),
     (''cli_ser_partha_machine_id_'', GY_MACHINE_ID_t), (''cli_ser_cluster_hash_'', uint64_t),
     (''cli_ser_comm_'', carr TASK_COMM_LEN cchar), (''cli_ser_cmdline_trunc_'', carr 63 cchar),
     (''cli_ser_cmdline_len_'', uint8_t)]"

definition MS_TCP_CONN_NOTIFY_t :: ctype where
  "MS_TCP_CONN_NOTIFY_t = struct_ty 8 MS_TCP_CONN_NOTIFY_fields"

lemma MS_TCP_CONN_NOTIFY_t_eq [simp]: "MS_TCP_CONN_NOTIFY_t = (312, 8)"
  by code_simp

definition SHYAMA_SER_TCP_INFO_fields :: cfields where
  "SHYAMA_SER_TCP_INFO_fields =
    [(''ser_glob_id_'', uint64_t), (''cli_madhava_id_'', uint64_t),
     (''cli_task_aggr_id_'', uint64_t), (''cli_related_listen_id_'', uint64_t),
     (''cli_partha_machine_id_'', GY_MACHINE_ID_t), (''ser_comm_'', carr TASK_COMM_LEN cchar),
     (''ser_partha_machine_id_'', GY_MACHINE_ID_t), (''ser_nat_ip_port_'', IP_PORT_t),
     (''ser_nat_conn_hash_'', uint64_t), (''ser_conn_hash_'', uint32_t),
     (''ser_sock_inode_'', uint32_t), (''close_cli_bytes_sent_'', uint64_t),
     (''close_cli_bytes_rcvd_'', uint64_t), (''tusec_pstart_'', uint64_t),
     (''tusec_mstart_'', uint64_t), (''cli_comm_'', carr TASK_COMM_LEN cchar),
     (''cli_cmdline_trunc_'', carr 63 cchar), (''cli_cmdline_len_'', uint8_t)]"

definition SHYAMA_SER_TCP_INFO_t :: ctype where
  "SHYAMA_SER_TCP_INFO_t = struct_ty 8 SHYAMA_SER_TCP_INFO_fields"

lemma SHYAMA_SER_TCP_INFO_t_eq [simp]: "SHYAMA_SER_TCP_INFO_t = (240, 8)"
  by code_simp

definition SHYAMA_CLI_TCP_INFO_fields :: cfields where
  "SHYAMA_CLI_TCP_INFO_fields =
    [(''tup_'', PAIR_IP_PORT_t), (''ser_glob_id_'', uint64_t), (''ser_madhava_id_'', uint64_t),
     (''ser_related_listen_id_'', uint64_t), (''ser_ip_port_'', IP_PORT_t),
     (''cli_task_aggr_id_'', uint64_t), (''cli_related_listen_id_'', uint64_t),
     (''cli_partha_machine_id_'', GY_MACHINE_ID_t), (''cli_comm_'', carr TASK_COMM_LEN cchar),
     (''ser_partha_machine_id_'', GY_MACHINE_ID_t), (''close_cli_bytes_sent_'', uint64_t),
     (''close_cli_bytes_rcvd_'', uint64_t), (''tusec_mstart_'', uint64_t),
     (''cli_ser_diff_clusters_'', cbool), (''ser_comm_'', carr TASK_COMM_LEN cchar),
     (''ser_cmdline_trunc_'', carr 63 cchar), (''ser_cmdline_len_'', uint8_t)]"

definition SHYAMA_CLI_TCP_INFO_t :: ctype where
  "SHYAMA_CLI_TCP_INFO_t = struct_ty 8 SHYAMA_CLI_TCP_INFO_fields"

lemma SHYAMA_CLI_TCP_INFO_t_eq [simp]: "SHYAMA_CLI_TCP_INFO_t = (296, 8)"
  by code_simp

definition CPU_MEM_STATE_NOTIFY_fields :: cfields where
  "CPU_MEM_STATE_NOTIFY_fields =
    [(''cpu_pct_'', cfloat), (''usercpu_pct_'', cfloat), (''syscpu_pct_'', cfloat),
     (''iowait_pct_'', cfloat), (''cumul_core_cpu_pct_'', cfloat), (''forks_sec_'', uint32_t),
     (''procs_running_'', uint32_t), (''cs_sec_'', uint32_t), (''cs_p95_sec_'', uint32_t),
     (''cs_5min_p95_sec_'', uint32_t), (''cpu_p95_'', uint32_t), (''cpu_5min_p95_'', uint32_t),
     (''fork_p95_sec_'', uint32_t), (''fork_5min_p95_sec_'', uint32_t),
     (''procs_p95_'', uint32_t), (''procs_5min_p95_'', uint32_t), (''cpu_state_'', uint8_t),
     (''cpu_issue_'', uint8_t), (''cpu_issue_bit_hist_'', uint8_t),
     (''cpu_severe_issue_hist_'', uint8_t), (''cpu_state_string_len_'', uint8_t),
     (''rss_pct_'', cfloat), (''rss_memory_mb_'', uint64_t), (''total_memory_mb_'', uint64_t),
     (''cached_memory_mb_'', uint64_t), (''locked_memory_mb_'', uint64_t),
     (''committed_memory_mb_'', uint64_t), (''committed_pct_'', cfloat),
     (''swap_free_mb_'', uint64_t), (''swap_total_mb_'', uint64_t),
     (''pg_inout_sec_'', uint32_t), (''swap_inout_sec_'', uint32_t),
     (''reclaim_stalls_'', uint32_t), (''pgmajfault_'', uint32_t), (''oom_kill_'', uint32_t),
     (''rss_pct_p95_'', uint32_t), (''pginout_p95_'', uint64_t), (''swpinout_p95_'', uint64_t),
     (''allocstall_p95_'', uint64_t), (''mem_state_'', uint8_t), (''mem_issue_'', uint8_t),
     (''mem_issue_bit_hist_'', uint8_t), (''mem_severe_issue_hist_'', uint8_t),
     (''mem_state_string_len_'', uint8_t), (''padding_len_'', uint8_t)]"

definition CPU_MEM_STATE_NOTIFY_t :: ctype where
  "CPU_MEM_STATE_NOTIFY_t = struct_ty 8 CPU_MEM_STATE_NOTIFY_fields"

lemma CPU_MEM_STATE_NOTIFY_t_eq [simp]: "CPU_MEM_STATE_NOTIFY_t = (200, 8)"
  by code_simp

definition AGGR_TASK_STATE_NOTIFY_fields :: cfields where
  "AGGR_TASK_STATE_NOTIFY_fields =
    [(''aggr_task_id_'', uint64_t), (''onecomm_'', carr TASK_COMM_LEN cchar),
     (''pid_arr_'', carr 2 pid_t), (''tcp_kbytes_'', uint32_t), (''tcp_conns_'', uint32_t),
     (''total_cpu_pct_'', cfloat), (''rss_mb_'', uint32_t), (''cpu_delay_msec_'', uint32_t),
     (''vm_delay_msec_'', uint32_t), (''blkio_delay_msec_'', uint32_t),
     (''ntasks_total_'', uint16_t), (''ntasks_issue_'', uint16_t), (''curr_state_'', uint8_t),
     (''curr_issue_'', uint8_t), (''issue_bit_hist_'', uint8_t),
     (''severe_issue_bit_hist_'', uint8_t), (''issue_string_len_'', uint8_t),
     (''padding_len_'', uint8_t)]"

definition AGGR_TASK_STATE_NOTIFY_t :: ctype where
  "AGGR_TASK_STATE_NOTIFY_t = struct_ty 8 AGGR_TASK_STATE_NOTIFY_fields"

lemma AGGR_TASK_STATE_NOTIFY_t_eq [simp]: "AGGR_TASK_STATE_NOTIFY_t = (72, 8)"
  by code_simp

definition LISTENER_STATE_NOTIFY_fields :: cfields where
  "LISTENER_STATE_NOTIFY_fields =
    [(''glob_id_'', uint64_t), (''nqrys_5s_'', uint32_t), (''total_resp_5sec_'', uint32_t),
     (''nconns_'', uint32_t), (''nconns_active_'', uint32_t), (''ntasks_'', uint32_t),
     (''p95_5s_resp_ms_'', uint32_t), (''p95_5min_resp_ms_'', uint32_t),
     (''curr_kbytes_inbound_'', uint32_t), (''curr_kbytes_outbound_'', uint32_t),
     (''ser_errors_'', uint32_t), (''cli_errors_'', uint32_t),
     (''tasks_delay_usec_'', uint32_t), (''tasks_cpudelay_usec_'', uint32_t),
     (''tasks_blkiodelay_usec_'', uint32_t), (''tasks_user_cpu_'', uint32_t),
     (''tasks_sys_cpu_'', uint32_t), (''tasks_rss_mb_'', uint32_t),
     (''ntasks_issue_'', uint16_t), (''is_http_svc_'', cbool), (''curr_state_'', uint8_t),
     (''curr_issue_'', uint8_t), (''issue_bit_hist_'', uint8_t),
     (''high_resp_bit_hist_'', uint8_t), (''last_issue_subsrc_'', uint8_t),
     (''query_flags_'', uint8_t), (''issue_string_len_'', uint8_t),
     (''padding_len_'', uint8_t)]"

definition LISTENER_STATE_NOTIFY_t :: ctype where
  "LISTENER_STATE_NOTIFY_t = struct_ty 8 LISTENER_STATE_NOTIFY_fields"

lemma LISTENER_STATE_NOTIFY_t_eq [simp]: "LISTENER_STATE_NOTIFY_t = (88, 8)"
  by code_simp

definition HOST_STATE_NOTIFY__V000100_fields :: cfields where
  "HOST_STATE_NOTIFY__V000100_fields =
    [(''curr_time_usec_'', uint64_t), (''ntasks_issue_'', uint32_t),
     (''ntasks_severe_'', uint32_t), (''ntasks_'', uint32_t), (''nlisten_issue_'', uint32_t),
     (''nlisten_severe_'', uint32_t), (''nlisten_'', uint32_t), (''curr_state_'', uint8_t),
     (''issue_bit_hist_'', uint8_t), (''cpu_issue_'', cbool), (''mem_issue_'', cbool),
     (''severe_cpu_issue_'', cbool), (''severe_mem_issue_'', cbool)]"

definition HOST_STATE_NOTIFY__V000100_t :: ctype where
  "HOST_STATE_NOTIFY__V000100_t = struct_ty 8 HOST_STATE_NOTIFY__V000100_fields"

lemma HOST_STATE_NOTIFY__V000100_t_eq [simp]: "HOST_STATE_NOTIFY__V000100_t = (40, 8)"
  by code_simp

definition HOST_STATE_NOTIFY_fields :: cfields where
  "HOST_STATE_NOTIFY_fields =
    [(''curr_time_usec_'', uint64_t), (''ntasks_issue_'', uint32_t),
     (''ntasks_severe_'', uint32_t), (''ntasks_'', uint32_t), (''nlisten_issue_'', uint32_t),
     (''nlisten_severe_'', uint32_t), (''nlisten_'', uint32_t), (''curr_state_'', uint8_t),
     (''issue_bit_hist_'', uint8_t), (''cpu_issue_'', cbool), (''mem_issue_'', cbool),
     (''severe_cpu_issue_'', cbool), (''severe_mem_issue_'', cbool),
     (''total_cpu_delayms_'', (4, 8)), (''total_vm_delayms_'', uint32_t),
     (''total_io_delayms_'', uint32_t)]"

definition HOST_STATE_NOTIFY_t :: ctype where
  "HOST_STATE_NOTIFY_t = struct_ty 8 HOST_STATE_NOTIFY_fields"

lemma HOST_STATE_NOTIFY_t_eq [simp]: "HOST_STATE_NOTIFY_t = (56, 8)"
  by code_simp

definition DEPENDS_ONE_fields :: cfields where
  "DEPENDS_ONE_fields =
    [(''glob_id_'', uint64_t), (''madhava_id_'', uint64_t), (''ns_ip_port_'', NS_IP_PORT_t),
     (''is_new_'', cbool), (''is_localhost_'', cbool), (''delete_depends_'', cbool),
     (''is_load_balanced_'', cbool)]"

definition DEPENDS_ONE_t :: ctype where
  "DEPENDS_ONE_t = struct_ty 8 DEPENDS_ONE_fields"

lemma DEPENDS_ONE_t_eq [simp]: "DEPENDS_ONE_t = (64, 8)"
  by code_simp

definition LISTENER_DEPENDENCY_NOTIFY_fields :: cfields where
  "LISTENER_DEPENDENCY_NOTIFY_fields =
    [(''related_listen_id_'', uint64_t), (''one_listener_glob_id_'', uint64_t),
     (''ndepends_'', uint32_t), (''nlisteners_'', uint32_t)]"

definition LISTENER_DEPENDENCY_NOTIFY_t :: ctype where
  "LISTENER_DEPENDENCY_NOTIFY_t = struct_ty 8 LISTENER_DEPENDENCY_NOTIFY_fields"

lemma LISTENER_DEPENDENCY_NOTIFY_t_eq [simp]: "LISTENER_DEPENDENCY_NOTIFY_t = (24, 8)"
  by code_simp

definition RELSVC_CLUSTER_ONE_fields :: cfields where
  "RELSVC_CLUSTER_ONE_fields =
    [(''partha_machine_id_'', GY_MACHINE_ID_t), (''madhava_id_'', uint64_t),
     (''related_listen_id_'', uint64_t)]"

definition RELSVC_CLUSTER_ONE_t :: ctype where
  "RELSVC_CLUSTER_ONE_t = struct_ty 8 RELSVC_CLUSTER_ONE_fields"

lemma RELSVC_CLUSTER_ONE_t_eq [simp]: "RELSVC_CLUSTER_ONE_t = (32, 8)"
  by code_simp

definition LISTENER_CLUSTER_NOTIFY_fields :: cfields where
  "LISTENER_CLUSTER_NOTIFY_fields =
    [(''related_listen_id_'', uint64_t), (''ncluster_elems_'', uint32_t)]"

definition LISTENER_CLUSTER_NOTIFY_t :: ctype where
  "LISTENER_CLUSTER_NOTIFY_t = struct_ty 8 LISTENER_CLUSTER_NOTIFY_fields"

lemma LISTENER_CLUSTER_NOTIFY_t_eq [simp]: "LISTENER_CLUSTER_NOTIFY_t = (16, 8)"
  by code_simp

definition MS_SVC_CLUSTER_MESH_fields :: cfields where
  "MS_SVC_CLUSTER_MESH_fields =
    [(''svc_cluster_id_'', uint64_t), (''ncluster_elems_'', uint32_t),
     (''cluster_name_'', carr MAX_CLUSTER_NAME_LEN cchar),
     (''init_comm_'', carr TASK_COMM_LEN cchar)]"

definition MS_SVC_CLUSTER_MESH_t :: ctype where
  "MS_SVC_CLUSTER_MESH_t = struct_ty 8 MS_SVC_CLUSTER_MESH_fields"

lemma MS_SVC_CLUSTER_MESH_t_eq [simp]: "MS_SVC_CLUSTER_MESH_t = (96, 8)"
  by code_simp

definition SM_SVC_CLUSTER_MESH_fields :: cfields where
  "SM_SVC_CLUSTER_MESH_fields =
    [(''svc_cluster_id_'', uint64_t), (''ntotal_cluster_svc_'', uint32_t),
     (''nmadhava_elems_'', uint32_t), (''cluster_name_'', carr MAX_CLUSTER_NAME_LEN cchar),
     (''init_comm_'', carr TASK_COMM_LEN cchar)]"

definition SM_SVC_CLUSTER_MESH_t :: ctype where
  "SM_SVC_CLUSTER_MESH_t = struct_ty 8 SM_SVC_CLUSTER_MESH_fields"

lemma SM_SVC_CLUSTER_MESH_t_eq [simp]: "SM_SVC_CLUSTER_MESH_t = (96, 8)"
  by code_simp

definition LISTENER_NAT_IP_EVENT_fields :: cfields where
  "LISTENER_NAT_IP_EVENT_fields =
    [(''nat_ip_port_arr_'', carr 2 IP_PORT_t), (''glob_id_'', uint64_t)]"

definition LISTENER_NAT_IP_EVENT_t :: ctype where
  "LISTENER_NAT_IP_EVENT_t = struct_ty 8 LISTENER_NAT_IP_EVENT_fields"

lemma LISTENER_NAT_IP_EVENT_t_eq [simp]: "LISTENER_NAT_IP_EVENT_t = (72, 8)"
  by code_simp

definition MS_LISTENER_NAT_IP_fields :: cfields where
  "MS_LISTENER_NAT_IP_fields =
    [(''partha_machine_id_'', GY_MACHINE_ID_t), (''madhava_id_'', uint64_t),
     (''glob_id_'', uint64_t), (''cluster_name_'', carr MAX_CLUSTER_NAME_LEN cchar),
     (''comm_'', carr TASK_COMM_LEN cchar), (''nelems_new_'', uint8_t),
     (''nelems_del_'', uint8_t)]"

definition MS_LISTENER_NAT_IP_t :: ctype where
  "MS_LISTENER_NAT_IP_t = struct_ty 8 MS_LISTENER_NAT_IP_fields"

lemma MS_LISTENER_NAT_IP_t_eq [simp]: "MS_LISTENER_NAT_IP_t = (120, 8)"
  by code_simp

definition SM_SVC_NAT_IP_CLUSTER_fields :: cfields where
  "SM_SVC_NAT_IP_CLUSTER_fields =
    [(''nat_ip_cluster_id_'', uint64_t), (''glob_id_'', uint64_t),
     (''nat_ip_port_'', IP_PORT_t), (''ntotal_cluster_svc_'', uint32_t)]"

definition SM_SVC_NAT_IP_CLUSTER_t :: ctype where
  "SM_SVC_NAT_IP_CLUSTER_t = struct_ty 8 SM_SVC_NAT_IP_CLUSTER_fields"

lemma SM_SVC_NAT_IP_CLUSTER_t_eq [simp]: "SM_SVC_NAT_IP_CLUSTER_t = (56, 8)"
  by code_simp

definition DOWNSTREAM_ONE_fields :: cfields where
  "DOWNSTREAM_ONE_fields =
    [(''downstream_glob_id_buf_'', carr 8 uint8_t), (''downstream_state_'', uint8_t),
     (''downstream_issue_'', uint8_t), (''downstream_issue_bit_hist_'', uint8_t),
     (''src_upstream_tier_'', uint8_t)]"

definition DOWNSTREAM_ONE_t :: ctype where
  "DOWNSTREAM_ONE_t = struct_ty 1 DOWNSTREAM_ONE_fields"

lemma DOWNSTREAM_ONE_t_eq [simp]: "DOWNSTREAM_ONE_t = (12, 1)"
  by code_simp

definition MM_LISTENER_ISSUE_RESOL_fields :: cfields where
  "MM_LISTENER_ISSUE_RESOL_fields =
    [(''issue_src_glob_id_'', uint64_t), (''issue_src_madhava_id_'', uint64_t),
     (''issue_src_time_usec_'', uint64_t), (''issue_src_comm_'', carr TASK_COMM_LEN cchar),
     (''ndownstreams_'', uint16_t), (''src_is_load_balanced_'', cbool),
     (''src_state_'', uint8_t), (''src_issue_'', uint8_t), (''issue_bit_hist_'', uint8_t),
     (''padding_len_'', uint8_t)]"

definition MM_LISTENER_ISSUE_RESOL_t :: ctype where
  "MM_LISTENER_ISSUE_RESOL_t = struct_ty 8 MM_LISTENER_ISSUE_RESOL_fields"

lemma MM_LISTENER_ISSUE_RESOL_t_eq [simp]: "MM_LISTENER_ISSUE_RESOL_t = (48, 8)"
  by code_simp

definition MM_LISTENER_PING_fields :: cfields where
  "MM_LISTENER_PING_fields =
    [(''glob_id_'', uint64_t)]"

definition MM_LISTENER_PING_t :: ctype where
  "MM_LISTENER_PING_t = struct_ty 8 MM_LISTENER_PING_fields"

lemma MM_LISTENER_PING_t_eq [simp]: "MM_LISTENER_PING_t = (8, 8)"
  by code_simp

definition MM_LISTENER_DELETE_fields :: cfields where
  "MM_LISTENER_DELETE_fields =
    [(''glob_id_'', uint64_t)]"

definition MM_LISTENER_DELETE_t :: ctype where
  "MM_LISTENER_DELETE_t = struct_ty 8 MM_LISTENER_DELETE_fields"

lemma MM_LISTENER_DELETE_t_eq [simp]: "MM_LISTENER_DELETE_t = (8, 8)"
  by code_simp

definition MM_LISTENER_DEPENDS_fields :: cfields where
  "MM_LISTENER_DEPENDS_fields =
    [(''glob_id_'', uint64_t), (''delete_depends_'', cbool), (''is_load_balanced_'', cbool)]"

definition MM_LISTENER_DEPENDS_t :: ctype where
  "MM_LISTENER_DEPENDS_t = struct_ty 8 MM_LISTENER_DEPENDS_fields"

lemma MM_LISTENER_DEPENDS_t_eq [simp]: "MM_LISTENER_DEPENDS_t = (16, 8)"
  by code_simp

definition LISTENER_DOMAIN_NOTIFY_fields :: cfields where
  "LISTENER_DOMAIN_NOTIFY_fields =
    [(''glob_id_'', uint64_t), (''domain_string_len_'', uint8_t), (''tag_len_'', uint8_t),
     (''padding_len_'', uint8_t)]"

definition LISTENER_DOMAIN_NOTIFY_t :: ctype where
  "LISTENER_DOMAIN_NOTIFY_t = struct_ty 8 LISTENER_DOMAIN_NOTIFY_fields"

lemma LISTENER_DOMAIN_NOTIFY_t_eq [simp]: "LISTENER_DOMAIN_NOTIFY_t = (16, 8)"
  by code_simp

definition ACTIVE_CONN_STATS_fields :: cfields where
  "ACTIVE_CONN_STATS_fields =
    [(''listener_glob_id_'', uint64_t), (''cli_aggr_task_id_'', uint64_t),
     (''ser_comm_'', carr TASK_COMM_LEN cchar), (''cli_comm_'', carr TASK_COMM_LEN cchar),
     (''remote_machine_id_'', GY_MACHINE_ID_t), (''remote_madhava_id_'', uint64_t),
     (''bytes_sent_'', uint64_t), (''bytes_received_'', uint64_t),
     (''cli_delay_msec_'', uint32_t), (''ser_delay_msec_'', uint32_t),
     (''max_rtt_msec_'', cfloat), (''active_conns_'', uint16_t), (''bit_flags_'', uint8_t)]"

definition ACTIVE_CONN_STATS_t :: ctype where
  "ACTIVE_CONN_STATS_t = struct_ty 8 ACTIVE_CONN_STATS_fields"

lemma ACTIVE_CONN_STATS_t_eq [simp]: "ACTIVE_CONN_STATS_t = (104, 8)"
  by code_simp

definition LISTEN_TASKMAP_NOTIFY_fields :: cfields where
  "LISTEN_TASKMAP_NOTIFY_fields =
    [(''related_listen_id_'', uint64_t), (''ser_comm_'', carr TASK_COMM_LEN cchar),
     (''nlisten_'', uint16_t), (''naggr_taskid_'', uint16_t)]"

definition LISTEN_TASKMAP_NOTIFY_t :: ctype where
  "LISTEN_TASKMAP_NOTIFY_t = struct_ty 8 LISTEN_TASKMAP_NOTIFY_fields"

lemma LISTEN_TASKMAP_NOTIFY_t_eq [simp]: "LISTEN_TASKMAP_NOTIFY_t = (32, 8)"
  by code_simp

definition HOST_INFO_NOTIFY_fields :: cfields where
  "HOST_INFO_NOTIFY_fields =
    [(''distribution_name_'', carr 128 cchar), (''kern_version_string_'', carr 64 cchar),
     (''kern_version_num_'', uint32_t), (''instance_id_'', carr MAX_INSTANCE_ID_LEN cchar),
     (''cloud_type_'', carr 64 cchar), (''processor_model_'', carr 128 cchar),
     (''cpu_vendor_'', carr 64 cchar), (''cores_online_'', uint16_t),
     (''cores_offline_'', uint16_t), (''max_cores_'', uint16_t),
     (''isolated_cores_'', uint16_t), (''ram_mb_'', uint32_t),
     (''corrupted_ram_mb_'', uint32_t), (''num_numa_nodes_'', uint16_t),
     (''max_cores_per_socket_'', uint16_t), (''threads_per_core_'', uint16_t),
     (''boot_time_sec_'', int64_t), (''l1_dcache_kb_'', uint32_t), (''l2_cache_kb_'', uint32_t),
     (''l3_cache_kb_'', uint32_t), (''l4_cache_kb_'', uint32_t), (''is_virtual_cpu_'', cbool),
     (''virtualization_type_'', carr 64 cchar)]"

definition HOST_INFO_NOTIFY_t :: ctype where
  "HOST_INFO_NOTIFY_t = struct_ty 8 HOST_INFO_NOTIFY_fields"

lemma HOST_INFO_NOTIFY_t_eq [simp]: "HOST_INFO_NOTIFY_t = (704, 8)"
  by code_simp

definition HOST_CPU_MEM_CHANGE_fields :: cfields where
  "HOST_CPU_MEM_CHANGE_fields =
    [(''cpu_changed_'', cbool), (''new_cores_online_'', uint16_t),
     (''new_cores_offline_'', uint16_t), (''old_cores_online_'', uint16_t),
     (''old_cores_offline_'', uint16_t), (''mem_changed_'', cbool), (''new_ram_mb_'', uint32_t),
     (''old_ram_mb_'', uint32_t), (''mem_corrupt_changed_'', cbool),
     (''new_corrupted_ram_mb_'', uint32_t), (''old_corrupted_ram_mb_'', uint32_t)]"

definition HOST_CPU_MEM_CHANGE_t :: ctype where
  "HOST_CPU_MEM_CHANGE_t = struct_ty 8 HOST_CPU_MEM_CHANGE_fields"

lemma HOST_CPU_MEM_CHANGE_t_eq [simp]: "HOST_CPU_MEM_CHANGE_t = (32, 8)"
  by code_simp

definition NOTIFICATION_MSG_fields :: cfields where
  "NOTIFICATION_MSG_fields =
    [(''type_'', uint8_t), (''msglen_'', uint16_t), (''padding_len_'', uint8_t)]"

definition NOTIFICATION_MSG_t :: ctype where
  "NOTIFICATION_MSG_t = struct_ty 8 NOTIFICATION_MSG_fields"

lemma NOTIFICATION_MSG_t_eq [simp]: "NOTIFICATION_MSG_t = (8, 8)"
  by code_simp

definition AGGR_TASK_HIST_STATS_fields :: cfields where
  "AGGR_TASK_HIST_STATS_fields =
    [(''aggr_task_id_'', uint64_t), (''starttimeusec_'', uint64_t),
     (''p95_cpu_pct_'', uint32_t), (''p95_cpu_delay_ms_'', uint32_t),
     (''p95_blkio_delay_ms_'', uint32_t), (''nprocs_'', uint32_t), (''nthreads_'', uint32_t),
     (''max_cores_allowed_'', uint16_t), (''cpu_cg_pct_limit_'', uint8_t),
     (''max_mem_cg_pct_rss_'', uint8_t)]"

definition AGGR_TASK_HIST_STATS_t :: ctype where
  "AGGR_TASK_HIST_STATS_t = struct_ty 8 AGGR_TASK_HIST_STATS_fields"

lemma AGGR_TASK_HIST_STATS_t_eq [simp]: "AGGR_TASK_HIST_STATS_t = (40, 8)"
  by code_simp

definition SM_ALERT_ADEF_NEW_fields :: cfields where
  "SM_ALERT_ADEF_NEW_fields =
    [(''adef_id_'', uint32_t), (''state_'', uint8_t), (''asubsys_'', cint),
     (''isrealtime_'', cbool), (''for_partha_'', cbool), (''lenjson_'', uint16_t),
     (''padding_len_'', uint8_t)]"

definition SM_ALERT_ADEF_NEW_t :: ctype where
  "SM_ALERT_ADEF_NEW_t = struct_ty 8 SM_ALERT_ADEF_NEW_fields"

lemma SM_ALERT_ADEF_NEW_t_eq [simp]: "SM_ALERT_ADEF_NEW_t = (24, 8)"
  by code_simp

definition SM_ALERT_ADEF_UPD_fields :: cfields where
  "SM_ALERT_ADEF_UPD_fields =
    [(''adef_id_'', uint32_t), (''type_'', uint8_t), (''isrealtime_'', cbool),
     (''for_partha_'', cbool)]"

definition SM_ALERT_ADEF_UPD_t :: ctype where
  "SM_ALERT_ADEF_UPD_t = struct_ty 8 SM_ALERT_ADEF_UPD_fields"

lemma SM_ALERT_ADEF_UPD_t_eq [simp]: "SM_ALERT_ADEF_UPD_t = (8, 8)"
  by code_simp

definition SM_ALERT_STAT_DISABLE_fields :: cfields where
  "SM_ALERT_STAT_DISABLE_fields =
    [(''tdisable_end_'', int64_t)]"

definition SM_ALERT_STAT_DISABLE_t :: ctype where
  "SM_ALERT_STAT_DISABLE_t = struct_ty 8 SM_ALERT_STAT_DISABLE_fields"

lemma SM_ALERT_STAT_DISABLE_t_eq [simp]: "SM_ALERT_STAT_DISABLE_t = (8, 8)"
  by code_simp

definition ALERT_STAT_INFO_fields :: cfields where
  "ALERT_STAT_INFO_fields =
    [(''talert_'', int64_t), (''alertid_'', uint32_t), (''adef_id_'', uint32_t),
     (''ahdlr_'', uint8_t), (''asubsys_'', cint), (''numhits_'', uint8_t),
     (''numcheckfor_'', uint8_t), (''nrepeats_'', uint8_t), (''isrealtime_'', cbool),
     (''lenjson_'', uint16_t), (''padding_len_'', uint8_t)]"

definition ALERT_STAT_INFO_t :: ctype where
  "ALERT_STAT_INFO_t = struct_ty 8 ALERT_STAT_INFO_fields"

lemma ALERT_STAT_INFO_t_eq [simp]: "ALERT_STAT_INFO_t = (32, 8)"
  by code_simp

definition ALERT_STAT_CLOSE_fields :: cfields where
  "ALERT_STAT_CLOSE_fields =
    [(''tlast_hit_'', int64_t), (''tcurr_'', int64_t), (''alertid_'', uint32_t),
     (''adef_id_'', uint32_t), (''is_force_close_'', cbool), (''isrealtime_'', cbool)]"

definition ALERT_STAT_CLOSE_t :: ctype where
  "ALERT_STAT_CLOSE_t = struct_ty 8 ALERT_STAT_CLOSE_fields"

lemma ALERT_STAT_CLOSE_t_eq [simp]: "ALERT_STAT_CLOSE_t = (32, 8)"
  by code_simp

definition STATE_ONE_fields :: cfields where
  "STATE_ONE_fields =
    [(''nhosts_'', uint32_t), (''ntasks_issue_'', uint32_t), (''ntaskissue_hosts_'', uint32_t),
     (''ntasks_'', uint32_t), (''nsvc_issue_'', uint32_t), (''nsvcissue_hosts_'', uint32_t),
     (''nsvc_'', uint32_t), (''total_qps_'', uint32_t), (''svc_net_mb_'', uint32_t),
     (''ncpu_issue_'', uint32_t), (''nmem_issue_'', uint32_t)]"

definition STATE_ONE_t :: ctype where
  "STATE_ONE_t = struct_ty 8 STATE_ONE_fields"

lemma STATE_ONE_t_eq [simp]: "STATE_ONE_t = (48, 8)"
  by code_simp

definition MS_CLUSTER_STATE_fields :: cfields where
  "MS_CLUSTER_STATE_fields =
    [(''state_'', STATE_ONE_t), (''clustname_'', carr MAX_CLUSTER_NAME_LEN cchar)]"

definition MS_CLUSTER_STATE_t :: ctype where
  "MS_CLUSTER_STATE_t = struct_ty 8 MS_CLUSTER_STATE_fields"

lemma MS_CLUSTER_STATE_t_eq [simp]: "MS_CLUSTER_STATE_t = (112, 8)"
  by code_simp

definition MS_PARTHA_PING_fields :: cfields where
  "MS_PARTHA_PING_fields =
    [(''machine_id_'', GY_MACHINE_ID_t), (''is_deleted_'', cbool)]"

definition MS_PARTHA_PING_t :: ctype where
  "MS_PARTHA_PING_t = struct_ty 8 MS_PARTHA_PING_fields"

lemma MS_PARTHA_PING_t_eq [simp]: "MS_PARTHA_PING_t = (24, 8)"
  by code_simp

definition MS_REG_PARTHA_fields :: cfields where
  "MS_REG_PARTHA_fields =
    [(''machine_id_'', GY_MACHINE_ID_t), (''comm_version_'', uint32_t),
     (''partha_version_'', uint32_t), (''hostname_'', carr MAX_DOMAINNAME_SIZE cchar),
     (''cluster_name_'', carr MAX_CLUSTER_NAME_LEN cchar),
     (''region_name_'', carr MAX_ZONE_LEN cchar), (''zone_name_'', carr MAX_ZONE_LEN cchar),
     (''kern_version_num_'', uint32_t)]"

definition MS_REG_PARTHA_t :: ctype where
  "MS_REG_PARTHA_t = struct_ty 8 MS_REG_PARTHA_fields"

lemma MS_REG_PARTHA_t_eq [simp]: "MS_REG_PARTHA_t = (480, 8)"
  by code_simp

definition REQ_TRACE_SET_fields :: cfields where
  "REQ_TRACE_SET_fields =
    [(''glob_id_'', uint64_t), (''ns_ip_port_'', NS_IP_PORT_t), (''tend_'', int64_t),
     (''comm_'', carr TASK_COMM_LEN cchar)]"

definition REQ_TRACE_SET_t :: ctype where
  "REQ_TRACE_SET_t = struct_ty 8 REQ_TRACE_SET_fields"

lemma REQ_TRACE_SET_t_eq [simp]: "REQ_TRACE_SET_t = (72, 8)"
  by code_simp

definition REQ_TRACE_STATUS_fields :: cfields where
  "REQ_TRACE_STATUS_fields =
    [(''glob_id_'', uint64_t), (''ns_ip_port_'', NS_IP_PORT_t), (''nrequests_'', uint64_t),
     (''nerrors_'', uint64_t), (''comm_'', carr TASK_COMM_LEN cchar), (''proto_'', uint16_t),
     (''status_'', uint8_t), (''is_ssl_'', cbool),
     (''errstr_'', carr COMM_MAX_ERROR_LEN cchar)]"

definition REQ_TRACE_STATUS_t :: ctype where
  "REQ_TRACE_STATUS_t = struct_ty 8 REQ_TRACE_STATUS_fields"

lemma REQ_TRACE_STATUS_t_eq [simp]: "REQ_TRACE_STATUS_t = (344, 8)"
  by code_simp

definition SM_REQ_TRACE_DEF_NEW_fields :: cfields where
  "SM_REQ_TRACE_DEF_NEW_fields =
    [(''reqdefid_'', uint32_t), (''tend_'', int64_t), (''name_'', carr 64 cchar),
     (''ncap_glob_id_arr_'', uint16_t), (''lencrit_'', uint16_t), (''padding_len_'', uint8_t)]"

definition SM_REQ_TRACE_DEF_NEW_t :: ctype where
  "SM_REQ_TRACE_DEF_NEW_t = struct_ty 8 SM_REQ_TRACE_DEF_NEW_fields"

lemma SM_REQ_TRACE_DEF_NEW_t_eq [simp]: "SM_REQ_TRACE_DEF_NEW_t = (88, 8)"
  by code_simp

definition SM_REQ_TRACE_DEF_DISABLE_fields :: cfields where
  "SM_REQ_TRACE_DEF_DISABLE_fields =
    [(''tend_'', int64_t), (''reqdefid_'', uint32_t)]"

definition SM_REQ_TRACE_DEF_DISABLE_t :: ctype where
  "SM_REQ_TRACE_DEF_DISABLE_t = struct_ty 8 SM_REQ_TRACE_DEF_DISABLE_fields"

lemma SM_REQ_TRACE_DEF_DISABLE_t_eq [simp]: "SM_REQ_TRACE_DEF_DISABLE_t = (16, 8)"
  by code_simp

end
