(* ===== verification/Gy_Comm_Header.thy ===== *)
theory Gy_Comm_Header
  imports Gy_Wire_Types
begin

text \<open>
  \<open>COMM_HEADER\<close>, the 16 byte header of every message between Partha, Madhava, Shyama and the Node
  web servers (\<open>common/gy_comm_proto.h\<close>, \<open>common/gy_comm_proto.cc\<close>): the header magics, the main
  message types, \<open>set_type_len\<close>, which the sender runs, and \<open>validate\<close>, which the receiver runs,
  with the small classification methods of the header. The members are \<open>uint32_t\<close> and stay
  32 bit words; an enumeration read from the wire can hold any value of its underlying type, so
  the switches decode it with \<open>magic_of\<close> and \<open>comm_type_of\<close>, whose \<open>None\<close> is the \<open>default:\<close> label.
\<close>

section \<open>Host types, magics and message types\<close>

datatype HOST_TYPES_E =
    HOST_INVALID
  | HOST_PARTHA
  | HOST_MADHAVA
  | HOST_SHYAMA
  | HOST_NODE_WEB

datatype HDR_MAGIC_E =
    PS_ADHOC_MAGIC
  | PM_HDR_MAGIC
  | MS_HDR_MAGIC
  | MM_HDR_MAGIC
  | NS_HDR_MAGIC
  | NM_HDR_MAGIC
  | NS_ADHOC_MAGIC
  | NM_ADHOC_MAGIC

fun magic_val :: "HDR_MAGIC_E \<Rightarrow> 32 word" where
  "magic_val PS_ADHOC_MAGIC = 0x05555505"
| "magic_val PM_HDR_MAGIC = 0x05666605"
| "magic_val MS_HDR_MAGIC = 0x05777705"
| "magic_val MM_HDR_MAGIC = 0x05888805"
| "magic_val NS_HDR_MAGIC = 0x05999905"
| "magic_val NM_HDR_MAGIC = 0x05AAAA05"
| "magic_val NS_ADHOC_MAGIC = 0x05B00105"
| "magic_val NM_ADHOC_MAGIC = 0x05C00105"

abbreviation (input) INV_HDR_MAGIC :: "32 word" where "INV_HDR_MAGIC \<equiv> 0"
abbreviation (input) MAX_HDR_MAGIC :: "32 word" where "MAX_HDR_MAGIC \<equiv> 0x05C00106"
abbreviation (input) MIN_HDR_MAGIC :: "32 word" where "MIN_HDR_MAGIC \<equiv> 0x05555504"

definition all_magics :: "HDR_MAGIC_E list" where
  "all_magics = [PS_ADHOC_MAGIC, PM_HDR_MAGIC, MS_HDR_MAGIC, MM_HDR_MAGIC, NS_HDR_MAGIC,
     NM_HDR_MAGIC, NS_ADHOC_MAGIC, NM_ADHOC_MAGIC]"

definition magic_of :: "32 word \<Rightarrow> HDR_MAGIC_E option" where
  "magic_of w = find (\<lambda>t. magic_val t = w) all_magics"

datatype COMM_TYPE_E =
    PS_REGISTER_REQ
  | PM_CONNECT_CMD
  | MS_REGISTER_REQ
  | MM_CONNECT_CMD
  | NS_REGISTER_REQ
  | NM_CONNECT_CMD
  | PS_REGISTER_RESP
  | PM_CONNECT_RESP
  | MS_REGISTER_RESP
  | MM_CONNECT_RESP
  | NS_REGISTER_RESP
  | NM_CONNECT_RESP
  | COMM_EVENT_NOTIFY
  | COMM_QUERY_CMD
  | COMM_QUERY_RESP
  | NS_ALERT_REGISTER

fun comm_type_val :: "COMM_TYPE_E \<Rightarrow> 32 word" where
  "comm_type_val PS_REGISTER_REQ = 2"
| "comm_type_val PM_CONNECT_CMD = 3"
| "comm_type_val MS_REGISTER_REQ = 4"
| "comm_type_val MM_CONNECT_CMD = 5"
| "comm_type_val NS_REGISTER_REQ = 6"
| "comm_type_val NM_CONNECT_CMD = 7"
| "comm_type_val PS_REGISTER_RESP = 8"
| "comm_type_val PM_CONNECT_RESP = 9"
| "comm_type_val MS_REGISTER_RESP = 10"
| "comm_type_val MM_CONNECT_RESP = 11"
| "comm_type_val NS_REGISTER_RESP = 12"
| "comm_type_val NM_CONNECT_RESP = 13"
| "comm_type_val COMM_EVENT_NOTIFY = 14"
| "comm_type_val COMM_QUERY_CMD = 15"
| "comm_type_val COMM_QUERY_RESP = 16"
| "comm_type_val NS_ALERT_REGISTER = 17"

abbreviation (input) COMM_MIN_TYPE :: "32 word" where "COMM_MIN_TYPE \<equiv> 1"
abbreviation (input) COMM_MAX_TYPE :: "32 word" where "COMM_MAX_TYPE \<equiv> 18"

definition all_comm_types :: "COMM_TYPE_E list" where
  "all_comm_types = [PS_REGISTER_REQ, PM_CONNECT_CMD, MS_REGISTER_REQ, MM_CONNECT_CMD,
     NS_REGISTER_REQ, NM_CONNECT_CMD, PS_REGISTER_RESP, PM_CONNECT_RESP, MS_REGISTER_RESP,
     MM_CONNECT_RESP, NS_REGISTER_RESP, NM_CONNECT_RESP, COMM_EVENT_NOTIFY, COMM_QUERY_CMD,
     COMM_QUERY_RESP, NS_ALERT_REGISTER]"

definition comm_type_of :: "32 word \<Rightarrow> COMM_TYPE_E option" where
  "comm_type_of w = find (\<lambda>t. comm_type_val t = w) all_comm_types"

section \<open>The header\<close>

text \<open>The member \<open>total_sz_\<close> of the source is \<open>total_sz\<close> here, and so on: a trailing underscore is
  not allowed in the name of a record field.\<close>

record COMM_HEADER =
  magic :: "32 word"
  total_sz :: "32 word"
  data_type :: "32 word"
  padding_sz :: "32 word"

abbreviation MAX_COMM_DATA_SZ :: nat where "MAX_COMM_DATA_SZ \<equiv> 16 * 1024 * 1024"

definition empty_header :: COMM_HEADER where
  "empty_header = \<lparr>magic = INV_HDR_MAGIC, total_sz = 0, data_type = 0, padding_sz = 0\<rparr>"

text \<open>Reading the header in place from the receive buffer at address \<open>p\<close>.\<close>

definition load_header :: "mem \<Rightarrow> nat \<Rightarrow> COMM_HEADER option" where
  "load_header m p = do {
     mg \<leftarrow> fld m p COMM_HEADER_fields ''magic_'';
     tot \<leftarrow> fld m p COMM_HEADER_fields ''total_sz_'';
     dt \<leftarrow> fld m p COMM_HEADER_fields ''data_type_'';
     pad \<leftarrow> fld m p COMM_HEADER_fields ''padding_sz_'';
     Some \<lparr>magic = of_nat mg, total_sz = of_nat tot, data_type = of_nat dt,
           padding_sz = of_nat pad\<rparr>
   }"

definition get_host_types :: "32 word \<Rightarrow> HOST_TYPES_E \<times> HOST_TYPES_E" where
  "get_host_types mg = (case magic_of mg of
       Some PS_ADHOC_MAGIC \<Rightarrow> (HOST_PARTHA, HOST_SHYAMA)
     | Some PM_HDR_MAGIC \<Rightarrow> (HOST_PARTHA, HOST_MADHAVA)
     | Some MS_HDR_MAGIC \<Rightarrow> (HOST_MADHAVA, HOST_SHYAMA)
     | Some MM_HDR_MAGIC \<Rightarrow> (HOST_MADHAVA, HOST_MADHAVA)
     | Some NS_HDR_MAGIC \<Rightarrow> (HOST_NODE_WEB, HOST_SHYAMA)
     | Some NM_HDR_MAGIC \<Rightarrow> (HOST_NODE_WEB, HOST_MADHAVA)
     | Some NS_ADHOC_MAGIC \<Rightarrow> (HOST_NODE_WEB, HOST_SHYAMA)
     | Some NM_ADHOC_MAGIC \<Rightarrow> (HOST_NODE_WEB, HOST_MADHAVA)
     | None \<Rightarrow> (HOST_INVALID, HOST_INVALID))"

definition is_host_node :: "32 word \<Rightarrow> bool" where
  "is_host_node mg = (let (host1, host2) = get_host_types mg in host1 = HOST_NODE_WEB)"

text \<open>\<open>new_total_sz\<close> is a \<open>uint32_t\<close>: the \<open>uint64_t\<close> result of \<open>gy_align_up_2\<close> is truncated. The
  result is the return value and the updated header; only \<open>magic\<close> changes on failure.\<close>

definition set_type_len ::
  "COMM_HEADER \<Rightarrow> 32 word \<Rightarrow> 32 word \<Rightarrow> 32 word \<Rightarrow> bool \<times> COMM_HEADER" where
  "set_type_len h dtype tsz mg =
     (let new_tsz :: 32 word =
            (if \<not> is_host_node mg then ucast (gy_align_up_2 (ucast tsz) 8) else tsz)
      in if unat new_tsz < MAX_COMM_DATA_SZ \<and> csizeof COMM_HEADER_t \<le> unat tsz \<and>
            COMM_MIN_TYPE < dtype \<and> dtype < COMM_MAX_TYPE \<and>
            MIN_HDR_MAGIC < mg \<and> mg < MAX_HDR_MAGIC
         then (True, h\<lparr>magic := mg, total_sz := new_tsz, data_type := dtype,
                       padding_sz := new_tsz - tsz\<rparr>)
         else (False, h\<lparr>magic := INV_HDR_MAGIC\<rparr>))"

definition get_pad_len :: "COMM_HEADER \<Rightarrow> 32 word" where
  "get_pad_len h = padding_sz h"

definition get_act_len :: "COMM_HEADER \<Rightarrow> 32 word" where
  "get_act_len h = total_sz h - padding_sz h"

definition get_total_len :: "COMM_HEADER \<Rightarrow> 32 word" where
  "get_total_len h = total_sz h"

text \<open>The length in bytes, which the validators compare as a \<open>size_t\<close> with sizes of structs.\<close>

abbreviation act_len :: "COMM_HEADER \<Rightarrow> nat" where
  "act_len h \<equiv> unat (get_act_len h)"

text \<open>The switch at the end of \<open>COMM_HEADER::validate\<close>: the struct that has to follow the header.\<close>

fun header_payload :: "COMM_TYPE_E \<Rightarrow> nat" where
  "header_payload COMM_EVENT_NOTIFY = csizeof EVENT_NOTIFY_t"
| "header_payload COMM_QUERY_CMD = csizeof QUERY_CMD_t"
| "header_payload COMM_QUERY_RESP = csizeof QUERY_RESPONSE_t"
| "header_payload PS_REGISTER_REQ = csizeof PS_REGISTER_REQ_S_t"
| "header_payload PM_CONNECT_CMD = csizeof PM_CONNECT_CMD_S_t"
| "header_payload MS_REGISTER_REQ = csizeof MS_REGISTER_REQ_S_t"
| "header_payload MM_CONNECT_CMD = csizeof MM_CONNECT_CMD_S_t"
| "header_payload NS_REGISTER_REQ = csizeof NS_REGISTER_REQ_S_t"
| "header_payload NS_ALERT_REGISTER = csizeof NS_REGISTER_REQ_S_t"
| "header_payload NM_CONNECT_CMD = csizeof NM_CONNECT_CMD_S_t"
| "header_payload PS_REGISTER_RESP = csizeof PS_REGISTER_RESP_S_t"
| "header_payload PM_CONNECT_RESP = csizeof PM_CONNECT_RESP_S_t"
| "header_payload MS_REGISTER_RESP = csizeof MS_REGISTER_RESP_S_t"
| "header_payload MM_CONNECT_RESP = csizeof MM_CONNECT_RESP_S_t"
| "header_payload NS_REGISTER_RESP = csizeof NS_REGISTER_RESP_S_t"
| "header_payload NM_CONNECT_RESP = csizeof NM_CONNECT_RESP_S_t"

definition validate_hdr :: "COMM_HEADER \<Rightarrow> nat \<Rightarrow> 32 word \<Rightarrow> bool" where
  "validate_hdr h pdata req_magic =
     (if \<not> (magic h = req_magic \<and> unat (total_sz h) < MAX_COMM_DATA_SZ \<and>
             csizeof COMM_HEADER_t \<le> unat (total_sz h) \<and> padding_sz h < 8 \<and>
             COMM_MIN_TYPE < data_type h \<and> data_type h < COMM_MAX_TYPE) then False
      else if total_sz h AND (8 - 1) \<noteq> 0 then False
      else if pdata mod 8 \<noteq> 0 then False
      else (let act_tsz = total_sz h - padding_sz h
            in case comm_type_of (data_type h) of
                 Some t \<Rightarrow> csizeof COMM_HEADER_t + header_payload t \<le> unat act_tsz
               | None \<Rightarrow> False))"

definition is_valid_header_byte :: "byte \<Rightarrow> bool" where
  "is_valid_header_byte c = (c = 0x05)"

definition is_valid_register_req :: "COMM_HEADER \<Rightarrow> bool" where
  "is_valid_register_req h = (let dt = comm_type_of (data_type h) in case magic_of (magic h) of
       Some PS_ADHOC_MAGIC \<Rightarrow> dt = Some PS_REGISTER_REQ
     | Some PM_HDR_MAGIC \<Rightarrow> dt = Some PM_CONNECT_CMD
     | Some MS_HDR_MAGIC \<Rightarrow> dt = Some MS_REGISTER_REQ
     | Some MM_HDR_MAGIC \<Rightarrow> dt = Some MM_CONNECT_CMD
     | Some NS_HDR_MAGIC \<Rightarrow> dt = Some NS_REGISTER_REQ \<or> dt = Some NS_ALERT_REGISTER
     | Some NM_HDR_MAGIC \<Rightarrow> dt = Some NM_CONNECT_CMD
     | Some NS_ADHOC_MAGIC \<Rightarrow> True
     | Some NM_ADHOC_MAGIC \<Rightarrow> True
     | None \<Rightarrow> False)"

definition is_adhoc :: "COMM_HEADER \<Rightarrow> bool" where
  "is_adhoc h = (magic_of (magic h) \<in> {Some PS_ADHOC_MAGIC, Some NS_ADHOC_MAGIC, Some NM_ADHOC_MAGIC})"

definition is_node_action :: "COMM_HEADER \<Rightarrow> bool" where
  "is_node_action h = (is_host_node (magic h) \<and> comm_type_of (data_type h) = Some NS_ALERT_REGISTER)"

section \<open>Decoding\<close>

declare magic_val.simps [simp del] and comm_type_val.simps [simp del]

lemma comm_type_of_val [simp]: "comm_type_of (comm_type_val t) = Some t"
  by (cases t) (simp_all add: comm_type_of_def all_comm_types_def comm_type_val.simps)

lemma comm_type_of_Some_iff [simp]: "comm_type_of w = Some t \<longleftrightarrow> w = comm_type_val t"
proof
  assume "comm_type_of w = Some t"
  then show "w = comm_type_val t" by (auto simp: comm_type_of_def find_Some_iff)
qed simp

lemma comm_type_val_inject [simp]: "comm_type_val t = comm_type_val t' \<longleftrightarrow> t = t'"
  by (metis comm_type_of_val option.inject)

lemma magic_of_val [simp]: "magic_of (magic_val g) = Some g"
  by (cases g) (simp_all add: magic_of_def all_magics_def magic_val.simps)

lemma magic_of_Some_iff [simp]: "magic_of w = Some g \<longleftrightarrow> w = magic_val g"
proof
  assume "magic_of w = Some g"
  then show "w = magic_val g" by (auto simp: magic_of_def find_Some_iff)
qed simp

lemma comm_type_val_range: "COMM_MIN_TYPE < comm_type_val t \<and> comm_type_val t < COMM_MAX_TYPE"
  by (cases t) (simp_all add: comm_type_val.simps)

lemma magic_val_range: "MIN_HDR_MAGIC < magic_val g \<and> magic_val g < MAX_HDR_MAGIC"
  by (cases g) (simp_all add: magic_val.simps)

lemma is_host_node_iff [simp]: "is_host_node (magic_val g) \<longleftrightarrow>
    g \<in> {NS_HDR_MAGIC, NM_HDR_MAGIC, NS_ADHOC_MAGIC, NM_ADHOC_MAGIC}"
  by (cases g) (simp_all add: is_host_node_def get_host_types_def)

lemma and_7_eq_0_iff: "(w :: 32 word) AND 7 = 0 \<longleftrightarrow> unat w mod 8 = 0"
proof -
  have "w AND 7 = take_bit 3 w" by (simp add: take_bit_eq_mask mask_eq_decr_exp)
  then have "unat (w AND 7) = unat w mod 8"
    by (simp only: unsigned_take_bit_eq take_bit_eq_mod [of 3 "unat w"]) simp
  then show ?thesis by (metis unat_eq_zero)
qed

lemma header_payload_pos: "8 \<le> header_payload t"
  by (cases t) simp_all

lemma act_len_eq:
  assumes "padding_sz h \<le> total_sz h"
  shows "act_len h = unat (total_sz h) - unat (padding_sz h)"
  using assms by (simp add: get_act_len_def unat_sub)

text \<open>\<open>COMM_HEADER::validate\<close> written out over natural numbers: no field underflows, the sizes are
  multiples of 8 and the struct of the message type lies inside of the unpadded length.\<close>

lemma validate_hdr_iff:
  "validate_hdr h pdata mg \<longleftrightarrow>
     magic h = mg \<and> 8 dvd pdata \<and> 8 dvd unat (total_sz h) \<and> unat (total_sz h) < MAX_COMM_DATA_SZ \<and>
     unat (padding_sz h) < 8 \<and>
     (\<exists>t. data_type h = comm_type_val t \<and>
          csizeof COMM_HEADER_t + header_payload t + unat (padding_sz h) \<le> unat (total_sz h))"
  (is "?L \<longleftrightarrow> ?R")
proof -
  have pad: "padding_sz h < 8 \<longleftrightarrow> unat (padding_sz h) < 8" by (simp add: word_less_nat_alt)
  show ?thesis
  proof (cases "comm_type_of (data_type h)")
    case None
    then have "data_type h \<noteq> comm_type_val t" for t by auto
    with None show ?thesis by (simp add: validate_hdr_def)
  next
    case (Some t)
    then have dt: "data_type h = comm_type_val t" by simp
    let ?tot = "unat (total_sz h)" and ?pad = "unat (padding_sz h)"
    have sub: "csizeof COMM_HEADER_t + header_payload t \<le> unat (total_sz h - padding_sz h) \<longleftrightarrow>
        csizeof COMM_HEADER_t + header_payload t + ?pad \<le> ?tot" if "16 \<le> ?tot" "?pad < 8"
    proof -
      have "padding_sz h \<le> total_sz h" using that by (simp add: word_le_nat_alt)
      then show ?thesis using that by (simp add: unat_sub) linarith
    qed
    have "validate_hdr h pdata mg \<longleftrightarrow> magic h = mg \<and> ?tot < MAX_COMM_DATA_SZ \<and> 16 \<le> ?tot \<and> ?pad < 8 \<and>
        8 dvd ?tot \<and> 8 dvd pdata \<and>
        csizeof COMM_HEADER_t + header_payload t \<le> unat (total_sz h - padding_sz h)"
      using comm_type_val_range [of t]
      by (auto simp: validate_hdr_def dt and_7_eq_0_iff pad dvd_eq_mod_eq_0 Let_def)
    then show ?thesis using sub by (auto simp: dt)
  qed
qed

section \<open>Lengths\<close>

lemma act_len_bound: "act_len h < 2 ^ 32"
  using unsigned_less [of "get_act_len h"] by simp

text \<open>What a validator relies on when it counts down a copy of the header.\<close>

definition hdr_ok :: "COMM_HEADER \<Rightarrow> bool" where
  "hdr_ok h \<longleftrightarrow> padding_sz h \<le> total_sz h \<and> unat (total_sz h) < 2 ^ 31 \<and> unat (padding_sz h) < 8"

lemma hdr_ok_validate: "validate_hdr h p mg \<Longrightarrow> hdr_ok h"
  by (auto simp: validate_hdr_iff hdr_ok_def word_le_nat_alt)

lemma hdr_ok_act_len: "hdr_ok h \<Longrightarrow> act_len h = unat (total_sz h) - unat (padding_sz h)"
  by (simp add: hdr_ok_def act_len_eq)

lemma hdr_ok_sint:
  assumes "hdr_ok h"
  shows "sint (total_sz h) = int (unat (total_sz h))"
proof -
  have "unat (total_sz h) < 2 ^ 31" using assms by (simp add: hdr_ok_def)
  then have "int (unat (total_sz h)) < int (2 ^ 31)" by (simp only: of_nat_less_iff)
  then have "uint (total_sz h) < 2 ^ 31" by simp
  moreover have "- (2 ^ 31) \<le> uint (total_sz h)" by (rule order.trans [of _ 0]) simp_all
  ultimately have "signed_take_bit 31 (uint (total_sz h)) = uint (total_sz h)"
    by (intro signed_take_bit_int_eq_self)
  then show ?thesis by (simp add: sint_uint)
qed

lemma hdr_ok_shrink:
  assumes "hdr_ok h" and "e \<le> act_len h"
  shows "hdr_ok (h\<lparr>total_sz := total_sz h - of_nat e\<rparr>)"
    and "act_len (h\<lparr>total_sz := total_sz h - of_nat e\<rparr>) = act_len h - e"
proof -
  let ?h = "h\<lparr>total_sz := total_sz h - of_nat e\<rparr>"
  have a: "act_len h = unat (total_sz h) - unat (padding_sz h)" by (rule hdr_ok_act_len [OF assms(1)])
  have "e < 2 ^ 32" using assms(2) act_len_bound [of h] by linarith
  then have e: "unat (of_nat e :: 32 word) = e" by (simp add: unat_of_nat take_bit_nat_eq_self)
  have "of_nat e \<le> total_sz h" using assms(2) a e by (simp add: word_le_nat_alt)
  then have t: "unat (total_sz ?h) = unat (total_sz h) - e" using e by (simp add: unat_sub)
  show ok: "hdr_ok ?h"
    using assms(1) t a assms(2) by (auto simp: hdr_ok_def word_le_nat_alt)
  show "act_len ?h = act_len h - e" using hdr_ok_act_len [OF ok] a t by simp
qed

section \<open>Sender and receiver\<close>

lemma unat_pad64:
  fixes tsz :: "32 word"
  assumes "tsz \<noteq> 0"
  shows "unat (gy_align_up_2 (ucast tsz) 8) = align_to (unat tsz) 8"
proof -
  have lt: "unat tsz < 2 ^ 32" using unsigned_less [of tsz] by simp
  then have u: "unat (ucast tsz :: 64 word) = unat tsz"
    by (simp add: unsigned_ucast_eq take_bit_nat_eq_self)
  show ?thesis
    using lt unat_gy_align_up_2 [of 3 "ucast tsz"] assms u by (simp flip: unat_eq_zero)
qed

lemma unat_pad32:
  fixes tsz :: "32 word"
  assumes "tsz \<noteq> 0"
  shows "unat (ucast (gy_align_up_2 (ucast tsz) 8) :: 32 word) =
    (if unat tsz \<le> 2 ^ 32 - 8 then align_to (unat tsz) 8 else 0)"
proof -
  let ?a = "align_to (unat tsz) 8"
  have lt: "unat tsz < 2 ^ 32" using unsigned_less [of tsz] by simp
  have eq: "unat (ucast (gy_align_up_2 (ucast tsz) 8) :: 32 word) = ?a mod 2 ^ 32"
    using unat_pad64 [OF assms] by (simp add: unsigned_ucast_eq take_bit_eq_mod)
  have d: "8 dvd ?a" and le: "unat tsz \<le> ?a" and up: "?a < unat tsz + 8"
    by (simp_all add: align_to_dvd align_to_ge align_to_less)
  show ?thesis
  proof (cases "unat tsz \<le> 2 ^ 32 - 8")
    case True
    then have "?a < 2 ^ 32" using up by simp
    then show ?thesis using True eq by simp
  next
    case False
    then have "?a = 2 ^ 32" using d le up lt by (elim dvdE) simp
    then show ?thesis using False eq by simp
  qed
qed

lemma align_to_8_less_iff: "align_to n 8 < MAX_COMM_DATA_SZ \<longleftrightarrow> n \<le> MAX_COMM_DATA_SZ - 8"
proof -
  have "8 dvd align_to n 8" "n \<le> align_to n 8" "align_to n 8 < n + 8"
    by (simp_all add: align_to_dvd align_to_ge align_to_less)
  then show ?thesis by (elim dvdE) (simp; linarith)
qed



text \<open>(C35) The 32 bit length of \<open>set_type_len\<close> can wrap: for a total length of more than
  \<open>2^32 - 8\<close> bytes the rounded up length is truncated to 0, the size check passes and
  \<open>set_type_len\<close> returns true with a header of total length 0, which no receiver accepts.\<close>

theorem set_type_len_wraps:
  assumes "\<not> is_host_node (magic_val g)" and "2 ^ 32 - 8 < unat tsz"
  shows "\<exists>h'. set_type_len h (comm_type_val t) tsz (magic_val g) = (True, h') \<and> total_sz h' = 0 \<and>
     get_act_len h' = tsz \<and> \<not> validate_hdr h' pdata (magic_val g)"
proof -
  let ?n = "ucast (gy_align_up_2 (ucast tsz) 8) :: 32 word"
  have nz: "tsz \<noteq> 0" using assms(2) by auto
  have n: "?n = 0" using unat_pad32 [OF nz] assms(2) by (simp flip: unat_eq_zero)
  have r: "set_type_len h (comm_type_val t) tsz (magic_val g) = 
      (True, h\<lparr>magic := magic_val g, total_sz := 0, data_type := comm_type_val t,
               padding_sz := 0 - tsz\<rparr>)"
    using assms n comm_type_val_range [of t] magic_val_range [of g]
    by (simp add: set_type_len_def)
  then show ?thesis by (simp add: validate_hdr_iff get_act_len_def)
qed

theorem set_type_len_wraps_witness:
  "\<exists>h'. set_type_len empty_header 14 0xFFFFFFFF 0x05666605 = (True, h') \<and> total_sz h' = 0"
proof -
  have "\<exists>h'. set_type_len empty_header (comm_type_val COMM_EVENT_NOTIFY) 0xFFFFFFFF
          (magic_val PM_HDR_MAGIC) = (True, h') \<and> total_sz h' = 0 \<and> get_act_len h' = 0xFFFFFFFF \<and>
        \<not> validate_hdr h' 0 (magic_val PM_HDR_MAGIC)"
    by (rule set_type_len_wraps) simp_all
  then show ?thesis by (auto simp: magic_val.simps comm_type_val.simps)
qed

text \<open>Headers for the Node web servers are not padded: \<open>set_type_len\<close> keeps the length as it is
  given, and the receiving \<open>validate\<close> accepts such a header exactly for lengths that are multiples
  of 8.\<close>

theorem set_type_len_node:
  assumes g: "is_host_node (magic_val g)"
    and len: "csizeof COMM_HEADER_t + header_payload t \<le> unat tsz" "unat tsz < MAX_COMM_DATA_SZ"
    and al: "8 dvd pdata"
  shows "\<exists>h'. set_type_len h (comm_type_val t) tsz (magic_val g) = (True, h') \<and>
     padding_sz h' = 0 \<and> get_act_len h' = tsz \<and>
     (validate_hdr h' pdata (magic_val g) \<longleftrightarrow> 8 dvd unat tsz)"
proof -
  have "set_type_len h (comm_type_val t) tsz (magic_val g) =
      (True, h\<lparr>magic := magic_val g, total_sz := tsz, data_type := comm_type_val t,
               padding_sz := 0\<rparr>)"
    using g len comm_type_val_range [of t] magic_val_range [of g]
    by (simp add: set_type_len_def Let_def del: is_host_node_iff)
  then show ?thesis using len al by (simp add: validate_hdr_iff get_act_len_def)
qed

theorem set_type_len_node_witness:
  "\<exists>h'. set_type_len empty_header 15 (16 + 24 + 3) 0x05999905 = (True, h') \<and>
     \<not> validate_hdr h' 0 0x05999905"
proof -
  have "\<exists>h'. set_type_len empty_header (comm_type_val COMM_QUERY_CMD) (16 + 24 + 3)
          (magic_val NS_HDR_MAGIC) = (True, h') \<and> padding_sz h' = 0 \<and>
        get_act_len h' = 16 + 24 + 3 \<and>
        (validate_hdr h' 0 (magic_val NS_HDR_MAGIC) \<longleftrightarrow> 8 dvd unat (16 + 24 + 3 :: 32 word))"
    by (rule set_type_len_node) simp_all
  then show ?thesis by (auto simp: magic_val.simps comm_type_val.simps)
qed

end
