(* ===== verification/Gy_Elem_Loop.thy ===== *)
theory Gy_Elem_Loop
  imports Gy_Comm_Header
begin

text \<open>
  The loop that the \<open>validate\<close> methods of the variable length events share
  (\<open>common/gy_comm_proto.cc\<close>: \<open>TASK_AGGR_NOTIFY\<close>, \<open>NEW_LISTENER\<close>, \<open>TCP_CONN_NOTIFY\<close> and so on): an
  \<open>EVENT_NOTIFY\<close> is followed by \<open>nevents_\<close> elements, each a struct with length members, the strings
  or arrays of those lengths and padding. The loop walks the elements with \<open>get_elem_size\<close>, checks
  each of them and stores the terminating NULs into the receive buffer.

  The locale \<open>elem_msg\<close> is the contract between this loop and one kind of element: what
  \<open>get_elem_size\<close> and the checks may read and write. The lemmas of the locale are the properties of
  every such validator: it never touches memory outside of the message, it accepts exactly the
  messages whose elements lie one after the other inside of the message, and the consumers of an
  accepted message, which walk it again with \<open>get_elem_size\<close>, find the same elements.
\<close>

section \<open>The loop\<close>

text \<open>\<open>sz\<close> is \<open>sizeof\<close> of the element struct, \<open>esz\<close> its \<open>get_elem_size\<close> and \<open>one\<close> the statements
  between the length check and the step to the next element, which return \<open>False\<close> for a
  \<open>return false\<close>. \<open>k\<close> is \<open>nelems - i\<close>; \<open>totallen\<close> is an \<open>ssize_t\<close>. The result \<open>True\<close> is
  \<open>i == nelems\<close> at the end of the loop.\<close>

primrec elem_loop ::
  "nat \<Rightarrow> (mem \<Rightarrow> nat \<Rightarrow> nat option) \<Rightarrow> (mem \<Rightarrow> nat \<Rightarrow> nat \<Rightarrow> (bool \<times> mem) option) \<Rightarrow>
   nat \<Rightarrow> int \<Rightarrow> nat \<Rightarrow> mem \<Rightarrow> (bool \<times> mem) option" where
  "elem_loop sz esz one 0 totallen pone m = Some (True, m)"
| "elem_loop sz esz one (Suc k) totallen pone m =
     (if totallen \<ge> int sz then do {
        elem_sz \<leftarrow> esz m pone;
        if totallen < int elem_sz then Some (False, m)
        else do {
          (ok, m') \<leftarrow> one m pone elem_sz;
          if ok then elem_loop sz esz one k (totallen - int elem_sz) (pone + elem_sz) m'
          else Some (False, m')
        }
      }
      else Some (False, m))"

text \<open>The whole method. \<open>pnotify\<close> is the address of the \<open>EVENT_NOTIFY\<close>, \<open>max_elems\<close> the limit on
  \<open>nevents_\<close>. Where the source keeps \<open>nelems\<close> in an \<open>int\<close>, the limit check is on the unsigned value
  and precedes the loop, so that the number of rounds is the unsigned value.\<close>

definition validate_elems ::
  "nat \<Rightarrow> nat \<Rightarrow> (mem \<Rightarrow> nat \<Rightarrow> nat option) \<Rightarrow> (mem \<Rightarrow> nat \<Rightarrow> nat \<Rightarrow> (bool \<times> mem) option) \<Rightarrow>
   COMM_HEADER \<Rightarrow> mem \<Rightarrow> nat \<Rightarrow> (bool \<times> mem) option" where
  "validate_elems max_elems sz esz one h m pnotify =
     (let fixed_sz = csizeof COMM_HEADER_t + csizeof EVENT_NOTIFY_t in
      if act_len h < fixed_sz then Some (False, m)
      else do {
        nelems \<leftarrow> fld m pnotify EVENT_NOTIFY_fields ''nevents_'';
        if nelems > max_elems then Some (False, m)
        else elem_loop sz esz one nelems (int (act_len h) - int fixed_sz)
               (pnotify + csizeof EVENT_NOTIFY_t) m
      })"

text \<open>The walk of a consumer over \<open>k\<close> elements: their addresses and sizes.\<close>

primrec elem_walk :: "(mem \<Rightarrow> nat \<Rightarrow> nat option) \<Rightarrow> nat \<Rightarrow> nat \<Rightarrow> mem \<Rightarrow> (nat \<times> nat) list option" where
  "elem_walk esz 0 p m = Some []"
| "elem_walk esz (Suc k) p m = do {
     e \<leftarrow> esz m p;
     w \<leftarrow> elem_walk esz k (p + e) m;
     Some ((p, e) # w)
   }"

text \<open>What it means that the \<open>len\<close> bytes at \<open>p\<close> hold \<open>k\<close> elements that satisfy \<open>okp\<close>.\<close>

definition elems_wf ::
  "(mem \<Rightarrow> nat \<Rightarrow> nat option) \<Rightarrow> (mem \<Rightarrow> nat \<Rightarrow> nat \<Rightarrow> bool) \<Rightarrow> nat \<Rightarrow> nat \<Rightarrow> nat \<Rightarrow> mem \<Rightarrow> bool" where
  "elems_wf esz okp k len p m = (case elem_walk esz k p m of
       Some w \<Rightarrow> list_all (\<lambda>(q, e). okp m q e) w \<and> sum_list (map snd w) \<le> len
     | None \<Rightarrow> False)"

text \<open>The value of \<open>pnotify->nevents_\<close>, and what the validator of a kind of element accepts.\<close>

definition nevents_of :: "mem \<Rightarrow> nat \<Rightarrow> nat" where
  "nevents_of m pnotify = rdv m (pnotify + 4) 4"

definition event_wf ::
  "nat \<Rightarrow> (mem \<Rightarrow> nat \<Rightarrow> nat option) \<Rightarrow> (mem \<Rightarrow> nat \<Rightarrow> nat \<Rightarrow> bool) \<Rightarrow> COMM_HEADER \<Rightarrow> mem \<Rightarrow> nat \<Rightarrow> bool"
  where
  "event_wf max_elems esz okp h m pnotify \<longleftrightarrow>
     24 \<le> act_len h \<and> nevents_of m pnotify \<le> max_elems \<and>
     elems_wf esz okp (nevents_of m pnotify) (act_len h - 24) (pnotify + 8) m"

text \<open>The bytes of the message after the header, \<open>EVENT_NOTIFY\<close> first, are in the memory.\<close>

definition event_in :: "COMM_HEADER \<Rightarrow> mem \<Rightarrow> nat \<Rightarrow> bool" where
  "event_in h m pnotify \<longleftrightarrow> pnotify + act_len h \<le> length m + 16"

text \<open>\<open>w\<close> are elements inside of the message, each of at least \<open>sz\<close> bytes, of a size that is a
  multiple of 8, and aligned when the message is.\<close>

definition elems_inside :: "nat \<Rightarrow> COMM_HEADER \<Rightarrow> nat \<Rightarrow> (nat \<times> nat) list \<Rightarrow> bool" where
  "elems_inside sz h pnotify w \<longleftrightarrow>
     list_all (\<lambda>(q, e). pnotify + 8 \<le> q \<and> q + e + 16 \<le> pnotify + act_len h \<and> sz \<le> e \<and> 8 dvd e \<and>
                        (8 dvd pnotify \<longrightarrow> 8 dvd q)) w"

lemma EVENT_NOTIFY_nevents [gy_size]: "cmember EVENT_NOTIFY_fields ''nevents_'' = (4, 4)"
  by code_simp

lemma fld_nevents: "fld m pnotify EVENT_NOTIFY_fields ''nevents_'' =
    (if pnotify + 8 \<le> length m then Some (nevents_of m pnotify) else None)"
  by (auto simp: fld_def gy_size rd_def nevents_of_def)

lemma nevents_of_bound: "nevents_of m pn < 2 ^ 32"
  using rdv_4_bound [of m "pn + 4"] by (simp add: nevents_of_def)

lemma elem_walk_positions:
  assumes "elem_walk esz k p m = Some w" and "(q, e) \<in> set w"
  shows "p \<le> q \<and> q + e \<le> p + sum_list (map snd w)"
  using assms
proof (induction k arbitrary: p w)
  case (Suc k)
  then obtain e0 w0 where w: "elem_walk esz k (p + e0) m = Some w0" "w = (p, e0) # w0"
    by (auto split: bind_splits)
  show ?case
  proof (cases "(q, e) = (p, e0)")
    case False
    then have "(q, e) \<in> set w0" using w(2) Suc.prems(2) by auto
    from Suc.IH [OF w(1) this] show ?thesis using w(2) by simp
  qed (simp add: w(2))
qed simp

lemma elem_walk_length: "elem_walk esz k p m = Some w \<Longrightarrow> length w = k"
  by (induction k arbitrary: p w) (auto split: bind_splits)

section \<open>The contract of an element\<close>

locale elem_msg =
  fixes sz :: nat
    and esz :: "mem \<Rightarrow> nat \<Rightarrow> nat option"
    and one :: "mem \<Rightarrow> nat \<Rightarrow> nat \<Rightarrow> (bool \<times> mem) option"
    and okp :: "mem \<Rightarrow> nat \<Rightarrow> nat \<Rightarrow> bool"
  assumes esz_in: "p + sz \<le> length m \<Longrightarrow> \<exists>e. esz m p = Some e"
    and esz_ge: "esz m p = Some e \<Longrightarrow> sz \<le> e"
    and one_in: "esz m p = Some e \<Longrightarrow> p + e \<le> length m \<Longrightarrow>
      \<exists>m'. one m p e = Some (okp m p e, m') \<and> same_off m m' p (p + e)"
    and one_keeps: "esz m p = Some e \<Longrightarrow> p + e \<le> length m \<Longrightarrow> one m p e = Some (True, m') \<Longrightarrow>
      esz m' p = Some e \<and> okp m' p e"
    and esz_local: "same_on m m' p (p + sz) \<Longrightarrow> esz m' p = esz m p"
    and okp_local: "same_on m m' p (p + sz) \<Longrightarrow> okp m' p e = okp m p e"
    and okp_aligned: "esz m p = Some e \<Longrightarrow> okp m p e \<Longrightarrow> 8 dvd e"
begin

text \<open>A store before \<open>p\<close> does not change the walk from \<open>p\<close> on.\<close>

lemma elem_walk_frame:
  assumes "same_off m m' lo p"
  shows "elem_walk esz k p m' = elem_walk esz k p m"
  using assms
proof (induction k arbitrary: p)
  case (Suc k)
  have "esz m' p = esz m p"
    by (rule esz_local) (rule same_off_on [OF Suc.prems], simp)
  moreover have "elem_walk esz k (p + e) m' = elem_walk esz k (p + e) m" for e
    by (rule Suc.IH) (rule same_off_mono [OF Suc.prems], simp_all)
  ultimately show ?case by simp
qed simp

lemma elem_walk_okp_frame:
  assumes "same_off m m' lo p" and "elem_walk esz k p m = Some w"
  shows "list_all (\<lambda>(q, e). okp m' q e) w = list_all (\<lambda>(q, e). okp m q e) w"
proof (rule list_all_cong [OF refl], clarify)
  fix q e assume "(q, e) \<in> set w"
  then have "p \<le> q" using elem_walk_positions [OF assms(2)] by blast
  then have "same_on m m' q (q + sz)" by (intro same_off_on [OF assms(1)]) simp
  then show "okp m' q e = okp m q e" by (rule okp_local)
qed

lemma elems_wf_frame:
  assumes "same_off m m' lo p"
  shows "elems_wf esz okp k len p m' = elems_wf esz okp k len p m"
  using elem_walk_frame [OF assms, of k] elem_walk_okp_frame [OF assms, of k]
  by (simp add: elems_wf_def split: option.splits)

lemma elems_wf_Suc:
  "elems_wf esz okp (Suc k) len p m \<longleftrightarrow>
     (\<exists>e. esz m p = Some e \<and> e \<le> len \<and> okp m p e \<and> elems_wf esz okp k (len - e) (p + e) m)"
  by (auto simp: elems_wf_def split: option.splits bind_splits)

text \<open>The loop neither faults nor writes outside of the message, and accepts exactly the well
  formed sequences of elements.\<close>

lemma elem_loop_correct:
  assumes "p + len \<le> length m"
  shows "\<exists>m'. elem_loop sz esz one k (int len) p m = Some (elems_wf esz okp k len p m, m') \<and>
           same_off m m' p (p + len)"
  using assms
proof (induction k arbitrary: p len m)
  case 0
  then show ?case by (simp add: elems_wf_def)
next
  case (Suc k)
  show ?case
  proof (cases "sz \<le> len")
    case False
    then have "\<not> elems_wf esz okp (Suc k) len p m" using esz_ge by (fastforce simp: elems_wf_Suc)
    then show ?thesis using False by simp
  next
    case True
    then obtain e where e: "esz m p = Some e" using esz_in Suc.prems by fastforce
    show ?thesis
    proof (cases "e \<le> len")
      case False
      then show ?thesis using True e by (auto simp: elems_wf_Suc)
    next
      case le: True
      then obtain m1 where m1: "one m p e = Some (okp m p e, m1)" "same_off m m1 p (p + e)"
        using one_in [OF e] Suc.prems by fastforce
      have len1: "p + e + (len - e) \<le> length m1" using le Suc.prems same_off_len [OF m1(2)] by simp
      have wf1: "elems_wf esz okp k (len - e) (p + e) m1 = elems_wf esz okp k (len - e) (p + e) m"
        by (rule elems_wf_frame [OF m1(2)])
      obtain m2 where m2: "elem_loop sz esz one k (int (len - e)) (p + e) m1 =
            Some (elems_wf esz okp k (len - e) (p + e) m1, m2)" "same_off m1 m2 (p + e) (p + len)"
        using Suc.IH [OF len1] le by auto
      have a: "same_off m m1 p (p + len)" by (rule same_off_mono [OF m1(2)]) (use le in simp_all)
      have "same_off m1 m2 p (p + len)" by (rule same_off_mono [OF m2(2)]) simp_all
      then have b: "same_off m m2 p (p + len)" by (rule same_off_trans [OF a])
      show ?thesis
        using True le e m1(1) m2(1) wf1 a b
        by (cases "okp m p e") (auto simp: elems_wf_Suc of_nat_diff)
    qed
  qed
qed

text \<open>A consumer of the accepted message walks the same elements in the memory with the NULs.\<close>

lemma elem_loop_rewalk:
  assumes "p + len \<le> length m" and "elem_loop sz esz one k (int len) p m = Some (True, m')"
  shows "elem_walk esz k p m' = elem_walk esz k p m \<and> elems_wf esz okp k len p m'"
  using assms
proof (induction k arbitrary: p len m)
  case 0
  then show ?case by (simp add: elems_wf_def)
next
  case (Suc k)
  from Suc.prems(2) obtain e m1 where e: "sz \<le> len" "esz m p = Some e" "e \<le> len"
      "one m p e = Some (True, m1)" and
      rest: "elem_loop sz esz one k (int (len - e)) (p + e) m1 = Some (True, m')"
    by (auto simp: of_nat_diff split: if_splits bind_splits prod.splits)
  have m1: "same_off m m1 p (p + e)" and ok: "okp m p e"
    using one_in [OF e(2)] e(3,4) Suc.prems(1) by fastforce+
  have in1: "p + e + (len - e) \<le> length m1" using e(3) Suc.prems(1) same_off_len [OF m1] by simp
  have m2: "same_off m1 m' (p + e) (p + len)"
    using elem_loop_correct [OF in1, of k] rest e(3) by auto
  have on: "same_on m1 m' p (p + sz)" using esz_ge [OF e(2)] by (intro same_off_on [OF m2]) simp
  have "esz m' p = Some e \<and> okp m' p e"
    using one_keeps [OF e(2) _ e(4)] e(3) Suc.prems(1) esz_local [OF on] okp_local [OF on] by simp
  moreover have "elem_walk esz k (p + e) m1 = elem_walk esz k (p + e) m"
    by (rule elem_walk_frame [OF m1])
  ultimately show ?case
    using Suc.IH [OF in1 rest] e(2,3) by (auto simp: elems_wf_Suc)
qed

lemma elem_sizes_aligned:
  assumes "elem_walk esz k p m = Some w" and "list_all (\<lambda>(q, e). okp m q e) w"
  shows "list_all (\<lambda>(q, e). 8 dvd e) w"
  using assms
  by (induction k arbitrary: p w) (auto split: bind_splits dest: okp_aligned)

lemma elem_walk_aligned:
  assumes "elem_walk esz k p m = Some w" and "list_all (\<lambda>(q, e). okp m q e) w" and "8 dvd p"
  shows "list_all (\<lambda>(q, e). 8 dvd q) w"
  using assms
proof (induction k arbitrary: p w)
  case (Suc k)
  then obtain e w0 where e: "esz m p = Some e" "elem_walk esz k (p + e) m = Some w0" "w = (p, e) # w0"
    by (auto split: bind_splits)
  moreover have "8 dvd e" using okp_aligned [OF e(1)] Suc.prems(2) e(3) by simp
  ultimately show ?case using Suc.IH [OF e(2)] Suc.prems(2,3) by simp
qed simp

lemma elem_walk_ge:
  assumes "elem_walk esz k p m = Some w"
  shows "list_all (\<lambda>(q, e). sz \<le> e) w"
  using assms by (induction k arbitrary: p w) (auto split: bind_splits dest: esz_ge)

lemma validate_elems_correct:
  assumes "event_in h m pn"
  shows "\<exists>m'. validate_elems mx sz esz one h m pn = Some (event_wf mx esz okp h m pn, m') \<and>
           same_off m m' (pn + 8) (pn + act_len h - 16)"
proof (cases "24 \<le> act_len h \<and> nevents_of m pn \<le> mx")
  case True
  then have "pn + 8 + (act_len h - 24) \<le> length m" using assms by (simp add: event_in_def)
  from elem_loop_correct [OF this, of "nevents_of m pn"] True assms show ?thesis
    by (auto simp: validate_elems_def event_wf_def fld_nevents of_nat_diff event_in_def Let_def)
next
  case False
  then show ?thesis using assms
    by (auto simp: validate_elems_def event_wf_def fld_nevents event_in_def Let_def)
qed

lemma validate_elems_rewalk:
  assumes ein: "event_in h m pn" and val: "validate_elems mx sz esz one h m pn = Some (True, m')"
  shows "\<exists>w. elem_walk esz (nevents_of m' pn) (pn + 8) m' = Some w \<and>
             elem_walk esz (nevents_of m pn) (pn + 8) m = Some w \<and>
             length w = nevents_of m pn \<and> length w \<le> mx \<and> elems_inside sz h pn w \<and>
             list_all (\<lambda>(q, e). okp m' q e) w"
proof -
  let ?n = "nevents_of m pn" and ?len = "act_len h - 24"
  have h: "24 \<le> act_len h" "?n \<le> mx"
    and loop: "elem_loop sz esz one ?n (int ?len) (pn + 8) m = Some (True, m')"
    using val ein by (auto simp: validate_elems_def fld_nevents of_nat_diff event_in_def Let_def
        split: if_splits)
  have inm: "pn + 8 + ?len \<le> length m" using h ein by (simp add: event_in_def)
  have "same_off m m' (pn + 8) (pn + 8 + ?len)"
    using elem_loop_correct [OF inm, of ?n] loop by auto
  then have "same_on m m' pn (pn + 8)" by (rule same_off_on) simp
  then have n: "nevents_of m' pn = ?n"
    unfolding nevents_of_def by (rule same_on_rdv) simp_all
  obtain w where w: "elem_walk esz ?n (pn + 8) m' = Some w" "elem_walk esz ?n (pn + 8) m = Some w"
      "list_all (\<lambda>(q, e). okp m' q e) w" "sum_list (map snd w) \<le> ?len"
    using elem_loop_rewalk [OF inm loop] by (auto simp: elems_wf_def split: option.splits)
  have "elems_inside sz h pn w"
    using elem_walk_positions [OF w(1)] elem_walk_ge [OF w(1)] w(4) h(1)
      elem_walk_aligned [OF w(1,3)] elem_sizes_aligned [OF w(1,3)]
    by (fastforce simp: elems_inside_def list_all_iff)
  then show ?thesis using n w elem_walk_length [OF w(1)] h(2) by simp
qed

end

text \<open>The usual element: its checks read length members of the struct only; then the char array members
  \<open>names\<close> of the struct \<open>fs\<close> and the strings that follow the struct are terminated. \<open>lens\<close> are the
  lengths of these strings.\<close>

locale nul_elem =
  fixes sz :: nat
    and esz :: "mem \<Rightarrow> nat \<Rightarrow> nat option"
    and one :: "mem \<Rightarrow> nat \<Rightarrow> nat \<Rightarrow> (bool \<times> mem) option"
    and okp :: "mem \<Rightarrow> nat \<Rightarrow> nat \<Rightarrow> bool"
    and fs :: cfields
    and names :: "string list"
    and lens :: "mem \<Rightarrow> nat \<Rightarrow> nat list"
  assumes size_in: "p + sz \<le> length m \<Longrightarrow> \<exists>e. esz m p = Some e"
    and size_fits: "esz m p = Some e \<Longrightarrow> sz + sum_list (lens m p) \<le> e"
    and names_within: "members_within fs sz names"
    and one_eq: "p + sz \<le> length m \<Longrightarrow> one m p e =
      (if okp m p e then do {
         m1 \<leftarrow> put_last_nuls m p fs names;
         m2 \<leftarrow> put_nuls m1 (p + sz) (lens m p);
         Some (True, m2)
       } else Some (False, m))"
    and names_keep: "put_last_nuls m p fs names = Some m' \<Longrightarrow>
      esz m' p = esz m p \<and> okp m' p e = okp m p e"
    and size_local: "same_on m m' p (p + sz) \<Longrightarrow> esz m' p = esz m p"
    and ok_local: "same_on m m' p (p + sz) \<Longrightarrow> okp m' p e = okp m p e"
    and ok_aligned: "esz m p = Some e \<Longrightarrow> okp m p e \<Longrightarrow> 8 dvd e"
begin

lemma stores:
  assumes "esz m p = Some e" and "p + e \<le> length m"
  obtains m1 m2 where "put_last_nuls m p fs names = Some m1" "same_off m m1 p (p + sz)"
    "put_nuls m1 (p + sz) (lens m p) = Some m2" "same_off m m2 p (p + e)"
proof -
  note le = size_fits [OF assms(1)]
  obtain m1 where m1: "put_last_nuls m p fs names = Some m1" "same_off m m1 p (p + sz)"
    using put_last_nuls_in [OF _ names_within, of p m] le assms(2) by auto
  obtain m2 where m2: "put_nuls m1 (p + sz) (lens m p) = Some m2"
      "same_off m1 m2 (p + sz) (p + sz + sum_list (lens m p))"
    using put_nuls_in [of "p + sz" "lens m p" m1] le assms(2) same_off_len [OF m1(2)] by auto
  have "same_off m m1 p (p + e)" by (rule same_off_mono [OF m1(2)]) (use le in simp_all)
  moreover have "same_off m1 m2 p (p + e)" by (rule same_off_mono [OF m2(2)]) (use le in simp_all)
  ultimately have "same_off m m2 p (p + e)" by (rule same_off_trans)
  with that m1 m2(1) show thesis by blast
qed

end

sublocale nul_elem \<subseteq> elem_msg sz esz one okp
proof unfold_locales
  fix m m' :: mem and p e :: nat
  show "p + sz \<le> length m \<Longrightarrow> \<exists>e. esz m p = Some e" by (rule size_in)
  show "esz m p = Some e \<Longrightarrow> sz \<le> e" using size_fits by fastforce
  show "same_on m m' p (p + sz) \<Longrightarrow> esz m' p = esz m p" by (rule size_local)
  show "same_on m m' p (p + sz) \<Longrightarrow> okp m' p e = okp m p e" by (rule ok_local)
  show "esz m p = Some e \<Longrightarrow> okp m p e \<Longrightarrow> 8 dvd e" by (rule ok_aligned)
next
  fix m :: mem and p e :: nat
  assume e: "esz m p = Some e" and fits: "p + e \<le> length m"
  then have sz: "p + sz \<le> length m" using size_fits [OF e] by linarith
  obtain m1 m2 where m1: "put_last_nuls m p fs names = Some m1" "same_off m m1 p (p + sz)"
    and m2: "put_nuls m1 (p + sz) (lens m p) = Some m2" "same_off m m2 p (p + e)"
    by (rule stores [OF e fits])
  have one: "one m p e = Some (if okp m p e then (True, m2) else (False, m))"
    using one_eq [OF sz, of e] m1(1) m2(1) by simp
  then show "\<exists>m'. one m p e = Some (okp m p e, m') \<and> same_off m m' p (p + e)"
    using m2(2) by simp
  show "esz m' p = Some e \<and> okp m' p e" if "one m p e = Some (True, m')" for m'
  proof -
    have m': "m' = m2" and ok: "okp m p e" using that one by (auto split: if_splits)
    have on: "same_on m1 m2 p (p + sz)" by (rule put_nuls_before [OF m2(1)])
    have "esz m2 p = esz m1 p" and "okp m2 p e = okp m1 p e"
      using size_local [OF on] ok_local [OF on] by simp_all
    moreover have "esz m1 p = esz m p \<and> okp m1 p e = okp m p e"
      by (rule names_keep [OF m1(1)])
    ultimately show ?thesis using e ok m' by simp
  qed
qed

end
