(* ===== verification/Gy_Var_Events.thy ===== *)
theory Gy_Var_Events
  imports Gy_Elem_Loop
begin

text \<open>
  The events with elements of variable length (\<open>common/gy_comm_proto.h\<close> and
  \<open>common/gy_comm_proto.cc\<close>). For each of them: the limits, \<open>get_act_size\<close> and \<open>get_elem_size\<close>, the
  checks and stores of one round of the loop of \<open>validate\<close> (\<open>X_one\<close>), \<open>validate\<close> itself, what an
  acceptable element is (\<open>X_ok\<close>), and the interpretation of the element contract. The sums of
  \<open>get_elem_size\<close> are of type \<open>size_t\<close> and their terms are at most 32 bits wide, so they do not
  wrap.
\<close>

definition aligned_elem :: "mem \<Rightarrow> nat \<Rightarrow> nat \<Rightarrow> bool" where
  "aligned_elem m p e \<longleftrightarrow> e mod 8 = 0"

definition no_strings :: "mem \<Rightarrow> nat \<Rightarrow> nat list" where
  "no_strings m p = []"

lemma mod_8_array: "a mod 8 = 0 \<Longrightarrow> k mod 8 = 0 \<Longrightarrow> (a + n * k) mod 8 = (0 :: nat)"
  by (simp add: mod_eq_0_iff_dvd)

lemma mod_8_arrays: "a mod 8 = 0 \<Longrightarrow> k mod 8 = 0 \<Longrightarrow> k' mod 8 = 0 \<Longrightarrow>
    (a + (n * k + n' * k')) mod 8 = (0 :: nat)"
  by (simp add: mod_eq_0_iff_dvd)

lemmas elem_simps = fld_in fld_Some_iff fld_put_nul fld_local fldv_local dvd_eq_mod_eq_0
  aligned_elem_def no_strings_def members_within_def mod_8_array mod_8_arrays

section \<open>Elements with strings\<close>

subsection \<open>\<open>TASK_AGGR_NOTIFY\<close>\<close>

abbreviation (input) TASK_AGGR_NOTIFY_MAX_NUM_AGGR_TASK :: nat where "TASK_AGGR_NOTIFY_MAX_NUM_AGGR_TASK \<equiv> 1200"

definition TASK_AGGR_NOTIFY_get_act_size :: "mem \<Rightarrow> nat \<Rightarrow> nat option" where
  "TASK_AGGR_NOTIFY_get_act_size m p = do {
     cmdline_len \<leftarrow> fld m p TASK_AGGR_NOTIFY_fields ''cmdline_len_'';
     tag_len \<leftarrow> fld m p TASK_AGGR_NOTIFY_fields ''tag_len_'';
     Some (csizeof TASK_AGGR_NOTIFY_t + cmdline_len + tag_len)
   }"

definition TASK_AGGR_NOTIFY_get_elem_size :: "mem \<Rightarrow> nat \<Rightarrow> nat option" where
  "TASK_AGGR_NOTIFY_get_elem_size m p = do {
     act_size \<leftarrow> TASK_AGGR_NOTIFY_get_act_size m p;
     padding_len \<leftarrow> fld m p TASK_AGGR_NOTIFY_fields ''padding_len_'';
     Some (act_size + padding_len)
   }"

definition TASK_AGGR_NOTIFY_one :: "mem \<Rightarrow> nat \<Rightarrow> nat \<Rightarrow> (bool \<times> mem) option" where
  "TASK_AGGR_NOTIFY_one m pone elem_sz =
     (if elem_sz mod 8 \<noteq> 0 then Some (False, m)
      else do {
        cmdline_len \<leftarrow> fld m pone TASK_AGGR_NOTIFY_fields ''cmdline_len_'';
        m1 \<leftarrow> put_nul m (pone + csizeof TASK_AGGR_NOTIFY_t) cmdline_len;
        cmdline_len \<leftarrow> fld m1 pone TASK_AGGR_NOTIFY_fields ''cmdline_len_'';
        tag_len \<leftarrow> fld m1 pone TASK_AGGR_NOTIFY_fields ''tag_len_'';
        m2 \<leftarrow> put_nul m1 (pone + csizeof TASK_AGGR_NOTIFY_t + cmdline_len) tag_len;
        Some (True, m2)
      })"

definition TASK_AGGR_NOTIFY_validate :: "COMM_HEADER \<Rightarrow> mem \<Rightarrow> nat \<Rightarrow> (bool \<times> mem) option" where
  "TASK_AGGR_NOTIFY_validate = validate_elems TASK_AGGR_NOTIFY_MAX_NUM_AGGR_TASK (csizeof TASK_AGGR_NOTIFY_t)
     TASK_AGGR_NOTIFY_get_elem_size TASK_AGGR_NOTIFY_one"

definition TASK_AGGR_NOTIFY_lens :: "mem \<Rightarrow> nat \<Rightarrow> nat list" where
  "TASK_AGGR_NOTIFY_lens m p = [fldv m p TASK_AGGR_NOTIFY_fields ''cmdline_len_'',
     fldv m p TASK_AGGR_NOTIFY_fields ''tag_len_'']"

lemma TASK_AGGR_NOTIFY_members [gy_size]:
  "cmember TASK_AGGR_NOTIFY_fields ''cmdline_len_'' = (40, 2)"
  "cmember TASK_AGGR_NOTIFY_fields ''tag_len_'' = (42, 1)"
  "cmember TASK_AGGR_NOTIFY_fields ''padding_len_'' = (44, 1)"
  by code_simp+

interpretation task_aggr: nul_elem "csizeof TASK_AGGR_NOTIFY_t" TASK_AGGR_NOTIFY_get_elem_size
  TASK_AGGR_NOTIFY_one aligned_elem TASK_AGGR_NOTIFY_fields "[]" TASK_AGGR_NOTIFY_lens
  by unfold_locales
    (auto simp: TASK_AGGR_NOTIFY_get_act_size_def
       TASK_AGGR_NOTIFY_get_elem_size_def
       TASK_AGGR_NOTIFY_one_def
       TASK_AGGR_NOTIFY_lens_def
       elem_simps gy_size split: bind_splits)

subsection \<open>\<open>NEW_LISTENER\<close>\<close>

abbreviation (input) NEW_LISTENER_MAX_NUM_LISTENERS :: nat where "NEW_LISTENER_MAX_NUM_LISTENERS \<equiv> 2048"

definition NEW_LISTENER_get_act_size :: "mem \<Rightarrow> nat \<Rightarrow> nat option" where
  "NEW_LISTENER_get_act_size m p = do {
     cmdline_len \<leftarrow> fld m p NEW_LISTENER_fields ''cmdline_len_'';
     Some (csizeof NEW_LISTENER_t + cmdline_len)
   }"

definition NEW_LISTENER_get_elem_size :: "mem \<Rightarrow> nat \<Rightarrow> nat option" where
  "NEW_LISTENER_get_elem_size m p = do {
     act_size \<leftarrow> NEW_LISTENER_get_act_size m p;
     padding_len \<leftarrow> fld m p NEW_LISTENER_fields ''padding_len_'';
     Some (act_size + padding_len)
   }"

definition NEW_LISTENER_one :: "mem \<Rightarrow> nat \<Rightarrow> nat \<Rightarrow> (bool \<times> mem) option" where
  "NEW_LISTENER_one m pone elem_sz =
     (if elem_sz mod 8 \<noteq> 0 then Some (False, m)
      else do {
        cmdline_len \<leftarrow> fld m pone NEW_LISTENER_fields ''cmdline_len_'';
        m1 \<leftarrow> put_nul m (pone + csizeof NEW_LISTENER_t) cmdline_len;
        Some (True, m1)
      })"

definition NEW_LISTENER_validate :: "COMM_HEADER \<Rightarrow> mem \<Rightarrow> nat \<Rightarrow> (bool \<times> mem) option" where
  "NEW_LISTENER_validate = validate_elems NEW_LISTENER_MAX_NUM_LISTENERS (csizeof NEW_LISTENER_t)
     NEW_LISTENER_get_elem_size NEW_LISTENER_one"

definition NEW_LISTENER_lens :: "mem \<Rightarrow> nat \<Rightarrow> nat list" where
  "NEW_LISTENER_lens m p = [fldv m p NEW_LISTENER_fields ''cmdline_len_'']"

lemma NEW_LISTENER_members [gy_size]:
  "cmember NEW_LISTENER_fields ''cmdline_len_'' = (104, 2)"
  "cmember NEW_LISTENER_fields ''padding_len_'' = (106, 1)"
  by code_simp+

interpretation new_listener: nul_elem "csizeof NEW_LISTENER_t" NEW_LISTENER_get_elem_size
  NEW_LISTENER_one aligned_elem NEW_LISTENER_fields "[]" NEW_LISTENER_lens
  by unfold_locales
    (auto simp: NEW_LISTENER_get_act_size_def
       NEW_LISTENER_get_elem_size_def
       NEW_LISTENER_one_def
       NEW_LISTENER_lens_def
       elem_simps gy_size split: bind_splits)

subsection \<open>\<open>TCP_CONN_NOTIFY\<close>\<close>

abbreviation (input) TCP_CONN_NOTIFY_MAX_NUM_CONNS :: nat where "TCP_CONN_NOTIFY_MAX_NUM_CONNS \<equiv> 2048"

definition TCP_CONN_NOTIFY_get_act_size :: "mem \<Rightarrow> nat \<Rightarrow> nat option" where
  "TCP_CONN_NOTIFY_get_act_size m p = do {
     cli_cmdline_len \<leftarrow> fld m p TCP_CONN_NOTIFY_fields ''cli_cmdline_len_'';
     Some (csizeof TCP_CONN_NOTIFY_t + cli_cmdline_len)
   }"

definition TCP_CONN_NOTIFY_get_elem_size :: "mem \<Rightarrow> nat \<Rightarrow> nat option" where
  "TCP_CONN_NOTIFY_get_elem_size m p = do {
     act_size \<leftarrow> TCP_CONN_NOTIFY_get_act_size m p;
     padding_len \<leftarrow> fld m p TCP_CONN_NOTIFY_fields ''padding_len_'';
     Some (act_size + padding_len)
   }"

definition TCP_CONN_NOTIFY_one :: "mem \<Rightarrow> nat \<Rightarrow> nat \<Rightarrow> (bool \<times> mem) option" where
  "TCP_CONN_NOTIFY_one m pone elem_sz =
     (if elem_sz mod 8 \<noteq> 0 then Some (False, m)
      else do {
        cli_cmdline_len \<leftarrow> fld m pone TCP_CONN_NOTIFY_fields ''cli_cmdline_len_'';
        m1 \<leftarrow> put_nul m (pone + csizeof TCP_CONN_NOTIFY_t) cli_cmdline_len;
        Some (True, m1)
      })"

definition TCP_CONN_NOTIFY_validate :: "COMM_HEADER \<Rightarrow> mem \<Rightarrow> nat \<Rightarrow> (bool \<times> mem) option" where
  "TCP_CONN_NOTIFY_validate = validate_elems TCP_CONN_NOTIFY_MAX_NUM_CONNS (csizeof TCP_CONN_NOTIFY_t)
     TCP_CONN_NOTIFY_get_elem_size TCP_CONN_NOTIFY_one"

definition TCP_CONN_NOTIFY_lens :: "mem \<Rightarrow> nat \<Rightarrow> nat list" where
  "TCP_CONN_NOTIFY_lens m p = [fldv m p TCP_CONN_NOTIFY_fields ''cli_cmdline_len_'']"

lemma TCP_CONN_NOTIFY_members [gy_size]:
  "cmember TCP_CONN_NOTIFY_fields ''cli_cmdline_len_'' = (272, 2)"
  "cmember TCP_CONN_NOTIFY_fields ''padding_len_'' = (279, 1)"
  by code_simp+

interpretation tcp_conn: nul_elem "csizeof TCP_CONN_NOTIFY_t" TCP_CONN_NOTIFY_get_elem_size
  TCP_CONN_NOTIFY_one aligned_elem TCP_CONN_NOTIFY_fields "[]" TCP_CONN_NOTIFY_lens
  by unfold_locales
    (auto simp: TCP_CONN_NOTIFY_get_act_size_def
       TCP_CONN_NOTIFY_get_elem_size_def
       TCP_CONN_NOTIFY_one_def
       TCP_CONN_NOTIFY_lens_def
       elem_simps gy_size split: bind_splits)

subsection \<open>\<open>AGGR_TASK_STATE_NOTIFY\<close>\<close>

abbreviation (input) AGGR_TASK_STATE_NOTIFY_MAX_NUM_TASKS :: nat where "AGGR_TASK_STATE_NOTIFY_MAX_NUM_TASKS \<equiv> 1200"

definition AGGR_TASK_STATE_NOTIFY_get_act_size :: "mem \<Rightarrow> nat \<Rightarrow> nat option" where
  "AGGR_TASK_STATE_NOTIFY_get_act_size m p = do {
     issue_string_len \<leftarrow> fld m p AGGR_TASK_STATE_NOTIFY_fields ''issue_string_len_'';
     Some (csizeof AGGR_TASK_STATE_NOTIFY_t + issue_string_len)
   }"

definition AGGR_TASK_STATE_NOTIFY_get_elem_size :: "mem \<Rightarrow> nat \<Rightarrow> nat option" where
  "AGGR_TASK_STATE_NOTIFY_get_elem_size m p = do {
     act_size \<leftarrow> AGGR_TASK_STATE_NOTIFY_get_act_size m p;
     padding_len \<leftarrow> fld m p AGGR_TASK_STATE_NOTIFY_fields ''padding_len_'';
     Some (act_size + padding_len)
   }"

definition AGGR_TASK_STATE_NOTIFY_one :: "mem \<Rightarrow> nat \<Rightarrow> nat \<Rightarrow> (bool \<times> mem) option" where
  "AGGR_TASK_STATE_NOTIFY_one m pone elem_sz =
     (if elem_sz mod 8 \<noteq> 0 then Some (False, m)
      else do {
        issue_string_len \<leftarrow> fld m pone AGGR_TASK_STATE_NOTIFY_fields ''issue_string_len_'';
        m1 \<leftarrow> put_nul m (pone + csizeof AGGR_TASK_STATE_NOTIFY_t) issue_string_len;
        Some (True, m1)
      })"

definition AGGR_TASK_STATE_NOTIFY_validate :: "COMM_HEADER \<Rightarrow> mem \<Rightarrow> nat \<Rightarrow> (bool \<times> mem) option" where
  "AGGR_TASK_STATE_NOTIFY_validate = validate_elems AGGR_TASK_STATE_NOTIFY_MAX_NUM_TASKS (csizeof AGGR_TASK_STATE_NOTIFY_t)
     AGGR_TASK_STATE_NOTIFY_get_elem_size AGGR_TASK_STATE_NOTIFY_one"

definition AGGR_TASK_STATE_NOTIFY_lens :: "mem \<Rightarrow> nat \<Rightarrow> nat list" where
  "AGGR_TASK_STATE_NOTIFY_lens m p = [fldv m p AGGR_TASK_STATE_NOTIFY_fields ''issue_string_len_'']"

lemma AGGR_TASK_STATE_NOTIFY_members [gy_size]:
  "cmember AGGR_TASK_STATE_NOTIFY_fields ''issue_string_len_'' = (68, 1)"
  "cmember AGGR_TASK_STATE_NOTIFY_fields ''padding_len_'' = (69, 1)"
  by code_simp+

interpretation aggr_task_state: nul_elem "csizeof AGGR_TASK_STATE_NOTIFY_t" AGGR_TASK_STATE_NOTIFY_get_elem_size
  AGGR_TASK_STATE_NOTIFY_one aligned_elem AGGR_TASK_STATE_NOTIFY_fields "[]" AGGR_TASK_STATE_NOTIFY_lens
  by unfold_locales
    (auto simp: AGGR_TASK_STATE_NOTIFY_get_act_size_def
       AGGR_TASK_STATE_NOTIFY_get_elem_size_def
       AGGR_TASK_STATE_NOTIFY_one_def
       AGGR_TASK_STATE_NOTIFY_lens_def
       elem_simps gy_size split: bind_splits)

subsection \<open>\<open>LISTENER_STATE_NOTIFY\<close>\<close>

abbreviation (input) LISTENER_STATE_NOTIFY_MAX_NUM_LISTENERS :: nat where "LISTENER_STATE_NOTIFY_MAX_NUM_LISTENERS \<equiv> 512"

definition LISTENER_STATE_NOTIFY_get_act_size :: "mem \<Rightarrow> nat \<Rightarrow> nat option" where
  "LISTENER_STATE_NOTIFY_get_act_size m p = do {
     issue_string_len \<leftarrow> fld m p LISTENER_STATE_NOTIFY_fields ''issue_string_len_'';
     Some (csizeof LISTENER_STATE_NOTIFY_t + issue_string_len)
   }"

definition LISTENER_STATE_NOTIFY_get_elem_size :: "mem \<Rightarrow> nat \<Rightarrow> nat option" where
  "LISTENER_STATE_NOTIFY_get_elem_size m p = do {
     act_size \<leftarrow> LISTENER_STATE_NOTIFY_get_act_size m p;
     padding_len \<leftarrow> fld m p LISTENER_STATE_NOTIFY_fields ''padding_len_'';
     Some (act_size + padding_len)
   }"

definition LISTENER_STATE_NOTIFY_one :: "mem \<Rightarrow> nat \<Rightarrow> nat \<Rightarrow> (bool \<times> mem) option" where
  "LISTENER_STATE_NOTIFY_one m pone elem_sz =
     (if elem_sz mod 8 \<noteq> 0 then Some (False, m)
      else do {
        issue_string_len \<leftarrow> fld m pone LISTENER_STATE_NOTIFY_fields ''issue_string_len_'';
        m1 \<leftarrow> put_nul m (pone + csizeof LISTENER_STATE_NOTIFY_t) issue_string_len;
        Some (True, m1)
      })"

definition LISTENER_STATE_NOTIFY_validate :: "COMM_HEADER \<Rightarrow> mem \<Rightarrow> nat \<Rightarrow> (bool \<times> mem) option" where
  "LISTENER_STATE_NOTIFY_validate = validate_elems LISTENER_STATE_NOTIFY_MAX_NUM_LISTENERS (csizeof LISTENER_STATE_NOTIFY_t)
     LISTENER_STATE_NOTIFY_get_elem_size LISTENER_STATE_NOTIFY_one"

definition LISTENER_STATE_NOTIFY_lens :: "mem \<Rightarrow> nat \<Rightarrow> nat list" where
  "LISTENER_STATE_NOTIFY_lens m p = [fldv m p LISTENER_STATE_NOTIFY_fields ''issue_string_len_'']"

lemma LISTENER_STATE_NOTIFY_members [gy_size]:
  "cmember LISTENER_STATE_NOTIFY_fields ''issue_string_len_'' = (85, 1)"
  "cmember LISTENER_STATE_NOTIFY_fields ''padding_len_'' = (86, 1)"
  by code_simp+

interpretation listener_state: nul_elem "csizeof LISTENER_STATE_NOTIFY_t" LISTENER_STATE_NOTIFY_get_elem_size
  LISTENER_STATE_NOTIFY_one aligned_elem LISTENER_STATE_NOTIFY_fields "[]" LISTENER_STATE_NOTIFY_lens
  by unfold_locales
    (auto simp: LISTENER_STATE_NOTIFY_get_act_size_def
       LISTENER_STATE_NOTIFY_get_elem_size_def
       LISTENER_STATE_NOTIFY_one_def
       LISTENER_STATE_NOTIFY_lens_def
       elem_simps gy_size split: bind_splits)

subsection \<open>\<open>LISTENER_DOMAIN_NOTIFY\<close>\<close>

abbreviation (input) LISTENER_DOMAIN_NOTIFY_MAX_NUM_LISTENERS :: nat where "LISTENER_DOMAIN_NOTIFY_MAX_NUM_LISTENERS \<equiv> 512"

definition LISTENER_DOMAIN_NOTIFY_get_act_size :: "mem \<Rightarrow> nat \<Rightarrow> nat option" where
  "LISTENER_DOMAIN_NOTIFY_get_act_size m p = do {
     domain_string_len \<leftarrow> fld m p LISTENER_DOMAIN_NOTIFY_fields ''domain_string_len_'';
     tag_len \<leftarrow> fld m p LISTENER_DOMAIN_NOTIFY_fields ''tag_len_'';
     Some (csizeof LISTENER_DOMAIN_NOTIFY_t + domain_string_len + tag_len)
   }"

definition LISTENER_DOMAIN_NOTIFY_get_elem_size :: "mem \<Rightarrow> nat \<Rightarrow> nat option" where
  "LISTENER_DOMAIN_NOTIFY_get_elem_size m p = do {
     act_size \<leftarrow> LISTENER_DOMAIN_NOTIFY_get_act_size m p;
     padding_len \<leftarrow> fld m p LISTENER_DOMAIN_NOTIFY_fields ''padding_len_'';
     Some (act_size + padding_len)
   }"

definition LISTENER_DOMAIN_NOTIFY_one :: "mem \<Rightarrow> nat \<Rightarrow> nat \<Rightarrow> (bool \<times> mem) option" where
  "LISTENER_DOMAIN_NOTIFY_one m pone elem_sz =
     (if elem_sz mod 8 \<noteq> 0 then Some (False, m)
      else do {
        domain_string_len \<leftarrow> fld m pone LISTENER_DOMAIN_NOTIFY_fields ''domain_string_len_'';
        m1 \<leftarrow> put_nul m (pone + csizeof LISTENER_DOMAIN_NOTIFY_t) domain_string_len;
        domain_string_len \<leftarrow> fld m1 pone LISTENER_DOMAIN_NOTIFY_fields ''domain_string_len_'';
        tag_len \<leftarrow> fld m1 pone LISTENER_DOMAIN_NOTIFY_fields ''tag_len_'';
        m2 \<leftarrow> put_nul m1 (pone + csizeof LISTENER_DOMAIN_NOTIFY_t + domain_string_len) tag_len;
        Some (True, m2)
      })"

definition LISTENER_DOMAIN_NOTIFY_validate :: "COMM_HEADER \<Rightarrow> mem \<Rightarrow> nat \<Rightarrow> (bool \<times> mem) option" where
  "LISTENER_DOMAIN_NOTIFY_validate = validate_elems LISTENER_DOMAIN_NOTIFY_MAX_NUM_LISTENERS (csizeof LISTENER_DOMAIN_NOTIFY_t)
     LISTENER_DOMAIN_NOTIFY_get_elem_size LISTENER_DOMAIN_NOTIFY_one"

definition LISTENER_DOMAIN_NOTIFY_lens :: "mem \<Rightarrow> nat \<Rightarrow> nat list" where
  "LISTENER_DOMAIN_NOTIFY_lens m p = [fldv m p LISTENER_DOMAIN_NOTIFY_fields ''domain_string_len_'',
     fldv m p LISTENER_DOMAIN_NOTIFY_fields ''tag_len_'']"

lemma LISTENER_DOMAIN_NOTIFY_members [gy_size]:
  "cmember LISTENER_DOMAIN_NOTIFY_fields ''domain_string_len_'' = (8, 1)"
  "cmember LISTENER_DOMAIN_NOTIFY_fields ''tag_len_'' = (9, 1)"
  "cmember LISTENER_DOMAIN_NOTIFY_fields ''padding_len_'' = (10, 1)"
  by code_simp+

interpretation listener_domain: nul_elem "csizeof LISTENER_DOMAIN_NOTIFY_t" LISTENER_DOMAIN_NOTIFY_get_elem_size
  LISTENER_DOMAIN_NOTIFY_one aligned_elem LISTENER_DOMAIN_NOTIFY_fields "[]" LISTENER_DOMAIN_NOTIFY_lens
  by unfold_locales
    (auto simp: LISTENER_DOMAIN_NOTIFY_get_act_size_def
       LISTENER_DOMAIN_NOTIFY_get_elem_size_def
       LISTENER_DOMAIN_NOTIFY_one_def
       LISTENER_DOMAIN_NOTIFY_lens_def
       elem_simps gy_size split: bind_splits)

subsection \<open>\<open>NOTIFICATION_MSG\<close>\<close>

abbreviation (input) NOTIFICATION_MSG_MAX_NUM_MSG :: nat where "NOTIFICATION_MSG_MAX_NUM_MSG \<equiv> 128"

definition NOTIFICATION_MSG_get_act_size :: "mem \<Rightarrow> nat \<Rightarrow> nat option" where
  "NOTIFICATION_MSG_get_act_size m p = do {
     msglen \<leftarrow> fld m p NOTIFICATION_MSG_fields ''msglen_'';
     Some (csizeof NOTIFICATION_MSG_t + msglen)
   }"

definition NOTIFICATION_MSG_get_elem_size :: "mem \<Rightarrow> nat \<Rightarrow> nat option" where
  "NOTIFICATION_MSG_get_elem_size m p = do {
     act_size \<leftarrow> NOTIFICATION_MSG_get_act_size m p;
     padding_len \<leftarrow> fld m p NOTIFICATION_MSG_fields ''padding_len_'';
     Some (act_size + padding_len)
   }"

definition NOTIFICATION_MSG_one :: "mem \<Rightarrow> nat \<Rightarrow> nat \<Rightarrow> (bool \<times> mem) option" where
  "NOTIFICATION_MSG_one m pone elem_sz =
     (if elem_sz mod 8 \<noteq> 0 then Some (False, m)
      else do {
        msglen \<leftarrow> fld m pone NOTIFICATION_MSG_fields ''msglen_'';
        m1 \<leftarrow> put_nul m (pone + csizeof NOTIFICATION_MSG_t) msglen;
        Some (True, m1)
      })"

definition NOTIFICATION_MSG_validate :: "COMM_HEADER \<Rightarrow> mem \<Rightarrow> nat \<Rightarrow> (bool \<times> mem) option" where
  "NOTIFICATION_MSG_validate = validate_elems NOTIFICATION_MSG_MAX_NUM_MSG (csizeof NOTIFICATION_MSG_t)
     NOTIFICATION_MSG_get_elem_size NOTIFICATION_MSG_one"

definition NOTIFICATION_MSG_lens :: "mem \<Rightarrow> nat \<Rightarrow> nat list" where
  "NOTIFICATION_MSG_lens m p = [fldv m p NOTIFICATION_MSG_fields ''msglen_'']"

lemma NOTIFICATION_MSG_members [gy_size]:
  "cmember NOTIFICATION_MSG_fields ''msglen_'' = (2, 2)"
  "cmember NOTIFICATION_MSG_fields ''padding_len_'' = (4, 1)"
  by code_simp+

interpretation notification_msg: nul_elem "csizeof NOTIFICATION_MSG_t" NOTIFICATION_MSG_get_elem_size
  NOTIFICATION_MSG_one aligned_elem NOTIFICATION_MSG_fields "[]" NOTIFICATION_MSG_lens
  by unfold_locales
    (auto simp: NOTIFICATION_MSG_get_act_size_def
       NOTIFICATION_MSG_get_elem_size_def
       NOTIFICATION_MSG_one_def
       NOTIFICATION_MSG_lens_def
       elem_simps gy_size split: bind_splits)

subsection \<open>\<open>SM_ALERT_ADEF_NEW\<close>\<close>

abbreviation (input) SM_ALERT_ADEF_NEW_MAX_NUM_DEFS :: nat where "SM_ALERT_ADEF_NEW_MAX_NUM_DEFS \<equiv> 128"

definition SM_ALERT_ADEF_NEW_get_act_size :: "mem \<Rightarrow> nat \<Rightarrow> nat option" where
  "SM_ALERT_ADEF_NEW_get_act_size m p = do {
     lenjson \<leftarrow> fld m p SM_ALERT_ADEF_NEW_fields ''lenjson_'';
     Some (csizeof SM_ALERT_ADEF_NEW_t + lenjson)
   }"

definition SM_ALERT_ADEF_NEW_get_elem_size :: "mem \<Rightarrow> nat \<Rightarrow> nat option" where
  "SM_ALERT_ADEF_NEW_get_elem_size m p = do {
     act_size \<leftarrow> SM_ALERT_ADEF_NEW_get_act_size m p;
     padding_len \<leftarrow> fld m p SM_ALERT_ADEF_NEW_fields ''padding_len_'';
     Some (act_size + padding_len)
   }"

definition SM_ALERT_ADEF_NEW_one :: "mem \<Rightarrow> nat \<Rightarrow> nat \<Rightarrow> (bool \<times> mem) option" where
  "SM_ALERT_ADEF_NEW_one m pone elem_sz =
     (if elem_sz mod 8 \<noteq> 0 then Some (False, m)
      else do {
        lenjson \<leftarrow> fld m pone SM_ALERT_ADEF_NEW_fields ''lenjson_'';
        if lenjson = 0 then Some (False, m)
        else do {
          m1 \<leftarrow> wr8 m (pone + csizeof SM_ALERT_ADEF_NEW_t + lenjson - 1) 0;
          Some (True, m1)
        }
      })"

definition SM_ALERT_ADEF_NEW_validate :: "COMM_HEADER \<Rightarrow> mem \<Rightarrow> nat \<Rightarrow> (bool \<times> mem) option" where
  "SM_ALERT_ADEF_NEW_validate = validate_elems SM_ALERT_ADEF_NEW_MAX_NUM_DEFS (csizeof SM_ALERT_ADEF_NEW_t)
     SM_ALERT_ADEF_NEW_get_elem_size SM_ALERT_ADEF_NEW_one"

definition SM_ALERT_ADEF_NEW_ok :: "mem \<Rightarrow> nat \<Rightarrow> nat \<Rightarrow> bool" where
  "SM_ALERT_ADEF_NEW_ok m p e \<longleftrightarrow> e mod 8 = 0 \<and> fldv m p SM_ALERT_ADEF_NEW_fields ''lenjson_'' \<noteq> 0"

definition SM_ALERT_ADEF_NEW_lens :: "mem \<Rightarrow> nat \<Rightarrow> nat list" where
  "SM_ALERT_ADEF_NEW_lens m p = [fldv m p SM_ALERT_ADEF_NEW_fields ''lenjson_'']"

lemma SM_ALERT_ADEF_NEW_members [gy_size]:
  "cmember SM_ALERT_ADEF_NEW_fields ''lenjson_'' = (14, 2)"
  "cmember SM_ALERT_ADEF_NEW_fields ''padding_len_'' = (16, 1)"
  by code_simp+

interpretation alert_adef_new: nul_elem "csizeof SM_ALERT_ADEF_NEW_t" SM_ALERT_ADEF_NEW_get_elem_size
  SM_ALERT_ADEF_NEW_one SM_ALERT_ADEF_NEW_ok SM_ALERT_ADEF_NEW_fields "[]" SM_ALERT_ADEF_NEW_lens
  by unfold_locales
    (auto simp: SM_ALERT_ADEF_NEW_get_act_size_def
       SM_ALERT_ADEF_NEW_get_elem_size_def
       SM_ALERT_ADEF_NEW_one_def
       SM_ALERT_ADEF_NEW_lens_def
       SM_ALERT_ADEF_NEW_ok_def
       put_nul_def elem_simps gy_size split: bind_splits if_splits)

subsection \<open>\<open>ALERT_STAT_INFO\<close>\<close>

abbreviation (input) ALERT_STAT_INFO_MAX_NUM_STATS :: nat where "ALERT_STAT_INFO_MAX_NUM_STATS \<equiv> 128"

definition ALERT_STAT_INFO_get_act_size :: "mem \<Rightarrow> nat \<Rightarrow> nat option" where
  "ALERT_STAT_INFO_get_act_size m p = do {
     lenjson \<leftarrow> fld m p ALERT_STAT_INFO_fields ''lenjson_'';
     Some (csizeof ALERT_STAT_INFO_t + lenjson)
   }"

definition ALERT_STAT_INFO_get_elem_size :: "mem \<Rightarrow> nat \<Rightarrow> nat option" where
  "ALERT_STAT_INFO_get_elem_size m p = do {
     act_size \<leftarrow> ALERT_STAT_INFO_get_act_size m p;
     padding_len \<leftarrow> fld m p ALERT_STAT_INFO_fields ''padding_len_'';
     Some (act_size + padding_len)
   }"

definition ALERT_STAT_INFO_one :: "mem \<Rightarrow> nat \<Rightarrow> nat \<Rightarrow> (bool \<times> mem) option" where
  "ALERT_STAT_INFO_one m pone elem_sz =
     (if elem_sz mod 8 \<noteq> 0 then Some (False, m)
      else do {
        lenjson \<leftarrow> fld m pone ALERT_STAT_INFO_fields ''lenjson_'';
        if lenjson = 0 then Some (False, m)
        else do {
          m1 \<leftarrow> wr8 m (pone + csizeof ALERT_STAT_INFO_t + lenjson - 1) 0;
          Some (True, m1)
        }
      })"

definition ALERT_STAT_INFO_validate :: "COMM_HEADER \<Rightarrow> mem \<Rightarrow> nat \<Rightarrow> (bool \<times> mem) option" where
  "ALERT_STAT_INFO_validate = validate_elems ALERT_STAT_INFO_MAX_NUM_STATS (csizeof ALERT_STAT_INFO_t)
     ALERT_STAT_INFO_get_elem_size ALERT_STAT_INFO_one"

definition ALERT_STAT_INFO_ok :: "mem \<Rightarrow> nat \<Rightarrow> nat \<Rightarrow> bool" where
  "ALERT_STAT_INFO_ok m p e \<longleftrightarrow> e mod 8 = 0 \<and> fldv m p ALERT_STAT_INFO_fields ''lenjson_'' \<noteq> 0"

definition ALERT_STAT_INFO_lens :: "mem \<Rightarrow> nat \<Rightarrow> nat list" where
  "ALERT_STAT_INFO_lens m p = [fldv m p ALERT_STAT_INFO_fields ''lenjson_'']"

lemma ALERT_STAT_INFO_members [gy_size]:
  "cmember ALERT_STAT_INFO_fields ''lenjson_'' = (28, 2)"
  "cmember ALERT_STAT_INFO_fields ''padding_len_'' = (30, 1)"
  by code_simp+

interpretation alert_stat_info: nul_elem "csizeof ALERT_STAT_INFO_t" ALERT_STAT_INFO_get_elem_size
  ALERT_STAT_INFO_one ALERT_STAT_INFO_ok ALERT_STAT_INFO_fields "[]" ALERT_STAT_INFO_lens
  by unfold_locales
    (auto simp: ALERT_STAT_INFO_get_act_size_def
       ALERT_STAT_INFO_get_elem_size_def
       ALERT_STAT_INFO_one_def
       ALERT_STAT_INFO_lens_def
       ALERT_STAT_INFO_ok_def
       put_nul_def elem_simps gy_size split: bind_splits if_splits)

section \<open>Elements with arrays\<close>

subsection \<open>\<open>LISTENER_DEPENDENCY_NOTIFY\<close>\<close>

abbreviation (input) LISTENER_DEPENDENCY_NOTIFY_MAX_DEPENDS_PER_LISTEN :: nat where "LISTENER_DEPENDENCY_NOTIFY_MAX_DEPENDS_PER_LISTEN \<equiv> 512"
abbreviation (input) LISTENER_DEPENDENCY_NOTIFY_MAX_NUM_LISTENERS :: nat where "LISTENER_DEPENDENCY_NOTIFY_MAX_NUM_LISTENERS \<equiv> 256"

definition LISTENER_DEPENDENCY_NOTIFY_get_elem_size :: "mem \<Rightarrow> nat \<Rightarrow> nat option" where
  "LISTENER_DEPENDENCY_NOTIFY_get_elem_size m p = do {
     ndepends \<leftarrow> fld m p LISTENER_DEPENDENCY_NOTIFY_fields ''ndepends_'';
     Some (csizeof LISTENER_DEPENDENCY_NOTIFY_t + ndepends * csizeof DEPENDS_ONE_t)
   }"

definition LISTENER_DEPENDENCY_NOTIFY_one :: "mem \<Rightarrow> nat \<Rightarrow> nat \<Rightarrow> (bool \<times> mem) option" where
  "LISTENER_DEPENDENCY_NOTIFY_one m pone elem_sz = do {
     ndepends \<leftarrow> fld m pone LISTENER_DEPENDENCY_NOTIFY_fields ''ndepends_'';
     if ndepends > LISTENER_DEPENDENCY_NOTIFY_MAX_DEPENDS_PER_LISTEN then Some (False, m) else Some (True, m)
   }"

definition LISTENER_DEPENDENCY_NOTIFY_validate :: "COMM_HEADER \<Rightarrow> mem \<Rightarrow> nat \<Rightarrow> (bool \<times> mem) option" where
  "LISTENER_DEPENDENCY_NOTIFY_validate = validate_elems LISTENER_DEPENDENCY_NOTIFY_MAX_NUM_LISTENERS (csizeof LISTENER_DEPENDENCY_NOTIFY_t)
     LISTENER_DEPENDENCY_NOTIFY_get_elem_size LISTENER_DEPENDENCY_NOTIFY_one"

definition LISTENER_DEPENDENCY_NOTIFY_ok :: "mem \<Rightarrow> nat \<Rightarrow> nat \<Rightarrow> bool" where
  "LISTENER_DEPENDENCY_NOTIFY_ok m p e \<longleftrightarrow> fldv m p LISTENER_DEPENDENCY_NOTIFY_fields ''ndepends_'' \<le> LISTENER_DEPENDENCY_NOTIFY_MAX_DEPENDS_PER_LISTEN"

lemma LISTENER_DEPENDENCY_NOTIFY_members [gy_size]:
  "cmember LISTENER_DEPENDENCY_NOTIFY_fields ''ndepends_'' = (16, 4)"
  by code_simp+

interpretation listener_dependency: nul_elem "csizeof LISTENER_DEPENDENCY_NOTIFY_t" LISTENER_DEPENDENCY_NOTIFY_get_elem_size
  LISTENER_DEPENDENCY_NOTIFY_one LISTENER_DEPENDENCY_NOTIFY_ok LISTENER_DEPENDENCY_NOTIFY_fields "[]" no_strings
  by unfold_locales
    (auto simp: LISTENER_DEPENDENCY_NOTIFY_get_elem_size_def
       LISTENER_DEPENDENCY_NOTIFY_one_def
       LISTENER_DEPENDENCY_NOTIFY_ok_def
       elem_simps gy_size split: bind_splits if_splits)

subsection \<open>\<open>LISTENER_CLUSTER_NOTIFY\<close>\<close>

abbreviation (input) LISTENER_CLUSTER_NOTIFY_MAX_CLUSTER_ELEMS :: nat where "LISTENER_CLUSTER_NOTIFY_MAX_CLUSTER_ELEMS \<equiv> 1024"
abbreviation (input) LISTENER_CLUSTER_NOTIFY_MAX_NUM_LISTENERS :: nat where "LISTENER_CLUSTER_NOTIFY_MAX_NUM_LISTENERS \<equiv> 256"

definition LISTENER_CLUSTER_NOTIFY_get_elem_size :: "mem \<Rightarrow> nat \<Rightarrow> nat option" where
  "LISTENER_CLUSTER_NOTIFY_get_elem_size m p = do {
     ncluster_elems \<leftarrow> fld m p LISTENER_CLUSTER_NOTIFY_fields ''ncluster_elems_'';
     Some (csizeof LISTENER_CLUSTER_NOTIFY_t + ncluster_elems * csizeof RELSVC_CLUSTER_ONE_t)
   }"

definition LISTENER_CLUSTER_NOTIFY_one :: "mem \<Rightarrow> nat \<Rightarrow> nat \<Rightarrow> (bool \<times> mem) option" where
  "LISTENER_CLUSTER_NOTIFY_one m pone elem_sz = do {
     ncluster_elems \<leftarrow> fld m pone LISTENER_CLUSTER_NOTIFY_fields ''ncluster_elems_'';
     if ncluster_elems > LISTENER_CLUSTER_NOTIFY_MAX_CLUSTER_ELEMS then Some (False, m) else Some (True, m)
   }"

definition LISTENER_CLUSTER_NOTIFY_validate :: "COMM_HEADER \<Rightarrow> mem \<Rightarrow> nat \<Rightarrow> (bool \<times> mem) option" where
  "LISTENER_CLUSTER_NOTIFY_validate = validate_elems LISTENER_CLUSTER_NOTIFY_MAX_NUM_LISTENERS (csizeof LISTENER_CLUSTER_NOTIFY_t)
     LISTENER_CLUSTER_NOTIFY_get_elem_size LISTENER_CLUSTER_NOTIFY_one"

definition LISTENER_CLUSTER_NOTIFY_ok :: "mem \<Rightarrow> nat \<Rightarrow> nat \<Rightarrow> bool" where
  "LISTENER_CLUSTER_NOTIFY_ok m p e \<longleftrightarrow> fldv m p LISTENER_CLUSTER_NOTIFY_fields ''ncluster_elems_'' \<le> LISTENER_CLUSTER_NOTIFY_MAX_CLUSTER_ELEMS"

lemma LISTENER_CLUSTER_NOTIFY_members [gy_size]:
  "cmember LISTENER_CLUSTER_NOTIFY_fields ''ncluster_elems_'' = (8, 4)"
  by code_simp+

interpretation listener_cluster: nul_elem "csizeof LISTENER_CLUSTER_NOTIFY_t" LISTENER_CLUSTER_NOTIFY_get_elem_size
  LISTENER_CLUSTER_NOTIFY_one LISTENER_CLUSTER_NOTIFY_ok LISTENER_CLUSTER_NOTIFY_fields "[]" no_strings
  by unfold_locales
    (auto simp: LISTENER_CLUSTER_NOTIFY_get_elem_size_def
       LISTENER_CLUSTER_NOTIFY_one_def
       LISTENER_CLUSTER_NOTIFY_ok_def
       elem_simps gy_size split: bind_splits if_splits)

subsection \<open>\<open>MS_SVC_CLUSTER_MESH\<close>\<close>

abbreviation (input) MS_SVC_CLUSTER_MESH_MAX_CLUSTER_ELEMS :: nat where "MS_SVC_CLUSTER_MESH_MAX_CLUSTER_ELEMS \<equiv> 1024"
abbreviation (input) MS_SVC_CLUSTER_MESH_MAX_NUM_CLUSTERS :: nat where "MS_SVC_CLUSTER_MESH_MAX_NUM_CLUSTERS \<equiv> 256"

definition MS_SVC_CLUSTER_MESH_get_elem_size :: "mem \<Rightarrow> nat \<Rightarrow> nat option" where
  "MS_SVC_CLUSTER_MESH_get_elem_size m p = do {
     ncluster_elems \<leftarrow> fld m p MS_SVC_CLUSTER_MESH_fields ''ncluster_elems_'';
     Some (csizeof MS_SVC_CLUSTER_MESH_t + ncluster_elems * csizeof RELSVC_CLUSTER_ONE_t)
   }"

definition MS_SVC_CLUSTER_MESH_one :: "mem \<Rightarrow> nat \<Rightarrow> nat \<Rightarrow> (bool \<times> mem) option" where
  "MS_SVC_CLUSTER_MESH_one m pone elem_sz = do {
     ncluster_elems \<leftarrow> fld m pone MS_SVC_CLUSTER_MESH_fields ''ncluster_elems_'';
     if ncluster_elems > MS_SVC_CLUSTER_MESH_MAX_CLUSTER_ELEMS then Some (False, m) else Some (True, m)
   }"

definition MS_SVC_CLUSTER_MESH_validate :: "COMM_HEADER \<Rightarrow> mem \<Rightarrow> nat \<Rightarrow> (bool \<times> mem) option" where
  "MS_SVC_CLUSTER_MESH_validate = validate_elems MS_SVC_CLUSTER_MESH_MAX_NUM_CLUSTERS (csizeof MS_SVC_CLUSTER_MESH_t)
     MS_SVC_CLUSTER_MESH_get_elem_size MS_SVC_CLUSTER_MESH_one"

definition MS_SVC_CLUSTER_MESH_ok :: "mem \<Rightarrow> nat \<Rightarrow> nat \<Rightarrow> bool" where
  "MS_SVC_CLUSTER_MESH_ok m p e \<longleftrightarrow> fldv m p MS_SVC_CLUSTER_MESH_fields ''ncluster_elems_'' \<le> MS_SVC_CLUSTER_MESH_MAX_CLUSTER_ELEMS"

lemma MS_SVC_CLUSTER_MESH_members [gy_size]:
  "cmember MS_SVC_CLUSTER_MESH_fields ''ncluster_elems_'' = (8, 4)"
  by code_simp+

interpretation ms_svc_cluster: nul_elem "csizeof MS_SVC_CLUSTER_MESH_t" MS_SVC_CLUSTER_MESH_get_elem_size
  MS_SVC_CLUSTER_MESH_one MS_SVC_CLUSTER_MESH_ok MS_SVC_CLUSTER_MESH_fields "[]" no_strings
  by unfold_locales
    (auto simp: MS_SVC_CLUSTER_MESH_get_elem_size_def
       MS_SVC_CLUSTER_MESH_one_def
       MS_SVC_CLUSTER_MESH_ok_def
       elem_simps gy_size split: bind_splits if_splits)

subsection \<open>\<open>SM_SVC_CLUSTER_MESH\<close>\<close>

abbreviation (input) SM_SVC_CLUSTER_MESH_MAX_CLUSTER_ELEMS :: nat where "SM_SVC_CLUSTER_MESH_MAX_CLUSTER_ELEMS \<equiv> 2048"
abbreviation (input) SM_SVC_CLUSTER_MESH_MAX_NUM_CLUSTERS :: nat where "SM_SVC_CLUSTER_MESH_MAX_NUM_CLUSTERS \<equiv> 1024"

definition SM_SVC_CLUSTER_MESH_get_elem_size :: "mem \<Rightarrow> nat \<Rightarrow> nat option" where
  "SM_SVC_CLUSTER_MESH_get_elem_size m p = do {
     nmadhava_elems \<leftarrow> fld m p SM_SVC_CLUSTER_MESH_fields ''nmadhava_elems_'';
     Some (csizeof SM_SVC_CLUSTER_MESH_t + nmadhava_elems * csizeof RELSVC_CLUSTER_ONE_t)
   }"

definition SM_SVC_CLUSTER_MESH_one :: "mem \<Rightarrow> nat \<Rightarrow> nat \<Rightarrow> (bool \<times> mem) option" where
  "SM_SVC_CLUSTER_MESH_one m pone elem_sz = do {
     nmadhava_elems \<leftarrow> fld m pone SM_SVC_CLUSTER_MESH_fields ''nmadhava_elems_'';
     if nmadhava_elems > SM_SVC_CLUSTER_MESH_MAX_CLUSTER_ELEMS then Some (False, m) else Some (True, m)
   }"

definition SM_SVC_CLUSTER_MESH_validate :: "COMM_HEADER \<Rightarrow> mem \<Rightarrow> nat \<Rightarrow> (bool \<times> mem) option" where
  "SM_SVC_CLUSTER_MESH_validate = validate_elems SM_SVC_CLUSTER_MESH_MAX_NUM_CLUSTERS (csizeof SM_SVC_CLUSTER_MESH_t)
     SM_SVC_CLUSTER_MESH_get_elem_size SM_SVC_CLUSTER_MESH_one"

definition SM_SVC_CLUSTER_MESH_ok :: "mem \<Rightarrow> nat \<Rightarrow> nat \<Rightarrow> bool" where
  "SM_SVC_CLUSTER_MESH_ok m p e \<longleftrightarrow> fldv m p SM_SVC_CLUSTER_MESH_fields ''nmadhava_elems_'' \<le> SM_SVC_CLUSTER_MESH_MAX_CLUSTER_ELEMS"

lemma SM_SVC_CLUSTER_MESH_members [gy_size]:
  "cmember SM_SVC_CLUSTER_MESH_fields ''nmadhava_elems_'' = (12, 4)"
  by code_simp+

interpretation sm_svc_cluster: nul_elem "csizeof SM_SVC_CLUSTER_MESH_t" SM_SVC_CLUSTER_MESH_get_elem_size
  SM_SVC_CLUSTER_MESH_one SM_SVC_CLUSTER_MESH_ok SM_SVC_CLUSTER_MESH_fields "[]" no_strings
  by unfold_locales
    (auto simp: SM_SVC_CLUSTER_MESH_get_elem_size_def
       SM_SVC_CLUSTER_MESH_one_def
       SM_SVC_CLUSTER_MESH_ok_def
       elem_simps gy_size split: bind_splits if_splits)

subsection \<open>\<open>MS_LISTENER_NAT_IP\<close>\<close>

abbreviation (input) MS_LISTENER_NAT_IP_MAX_ELEMS :: nat where "MS_LISTENER_NAT_IP_MAX_ELEMS \<equiv> 8"
abbreviation (input) MS_LISTENER_NAT_IP_MAX_NUM_LISTENERS :: nat where "MS_LISTENER_NAT_IP_MAX_NUM_LISTENERS \<equiv> 256"

definition MS_LISTENER_NAT_IP_get_elem_size :: "mem \<Rightarrow> nat \<Rightarrow> nat option" where
  "MS_LISTENER_NAT_IP_get_elem_size m p = do {
     nelems_new \<leftarrow> fld m p MS_LISTENER_NAT_IP_fields ''nelems_new_'';
     nelems_del \<leftarrow> fld m p MS_LISTENER_NAT_IP_fields ''nelems_del_'';
     Some (csizeof MS_LISTENER_NAT_IP_t + (nelems_new + nelems_del) * csizeof IP_PORT_t)
   }"

definition MS_LISTENER_NAT_IP_one :: "mem \<Rightarrow> nat \<Rightarrow> nat \<Rightarrow> (bool \<times> mem) option" where
  "MS_LISTENER_NAT_IP_one m pone elem_sz = do {
     nelems_new \<leftarrow> fld m pone MS_LISTENER_NAT_IP_fields ''nelems_new_'';
     nelems_del \<leftarrow> fld m pone MS_LISTENER_NAT_IP_fields ''nelems_del_'';
     if nelems_new + nelems_del > MS_LISTENER_NAT_IP_MAX_ELEMS then Some (False, m)
     else Some (True, m)
   }"

definition MS_LISTENER_NAT_IP_validate :: "COMM_HEADER \<Rightarrow> mem \<Rightarrow> nat \<Rightarrow> (bool \<times> mem) option" where
  "MS_LISTENER_NAT_IP_validate = validate_elems MS_LISTENER_NAT_IP_MAX_NUM_LISTENERS (csizeof MS_LISTENER_NAT_IP_t)
     MS_LISTENER_NAT_IP_get_elem_size MS_LISTENER_NAT_IP_one"

definition MS_LISTENER_NAT_IP_ok :: "mem \<Rightarrow> nat \<Rightarrow> nat \<Rightarrow> bool" where
  "MS_LISTENER_NAT_IP_ok m p e \<longleftrightarrow>
     fldv m p MS_LISTENER_NAT_IP_fields ''nelems_new_'' +
     fldv m p MS_LISTENER_NAT_IP_fields ''nelems_del_'' \<le> MS_LISTENER_NAT_IP_MAX_ELEMS"

lemma MS_LISTENER_NAT_IP_members [gy_size]:
  "cmember MS_LISTENER_NAT_IP_fields ''nelems_new_'' = (112, 1)"
  "cmember MS_LISTENER_NAT_IP_fields ''nelems_del_'' = (113, 1)"
  by code_simp+

interpretation ms_listener_nat_ip: nul_elem "csizeof MS_LISTENER_NAT_IP_t" MS_LISTENER_NAT_IP_get_elem_size
  MS_LISTENER_NAT_IP_one MS_LISTENER_NAT_IP_ok MS_LISTENER_NAT_IP_fields "[]" no_strings
  by unfold_locales
    (auto simp: MS_LISTENER_NAT_IP_get_elem_size_def
       MS_LISTENER_NAT_IP_one_def
       MS_LISTENER_NAT_IP_ok_def
       elem_simps gy_size split: bind_splits if_splits)

subsection \<open>\<open>MM_LISTENER_ISSUE_RESOL\<close>\<close>

abbreviation (input) MM_LISTENER_ISSUE_RESOL_MAX_NUM_LISTENERS :: nat where "MM_LISTENER_ISSUE_RESOL_MAX_NUM_LISTENERS \<equiv> 512"
abbreviation (input) MM_LISTENER_ISSUE_RESOL_MAX_DOWNSTREAM_IDS :: nat where "MM_LISTENER_ISSUE_RESOL_MAX_DOWNSTREAM_IDS \<equiv> 2048"

definition MM_LISTENER_ISSUE_RESOL_get_act_size :: "mem \<Rightarrow> nat \<Rightarrow> nat option" where
  "MM_LISTENER_ISSUE_RESOL_get_act_size m p = do {
     ndownstreams \<leftarrow> fld m p MM_LISTENER_ISSUE_RESOL_fields ''ndownstreams_'';
     Some (csizeof MM_LISTENER_ISSUE_RESOL_t + ndownstreams * csizeof DOWNSTREAM_ONE_t)
   }"

definition MM_LISTENER_ISSUE_RESOL_get_elem_size :: "mem \<Rightarrow> nat \<Rightarrow> nat option" where
  "MM_LISTENER_ISSUE_RESOL_get_elem_size m p = do {
     act_size \<leftarrow> MM_LISTENER_ISSUE_RESOL_get_act_size m p;
     padding_len \<leftarrow> fld m p MM_LISTENER_ISSUE_RESOL_fields ''padding_len_'';
     Some (act_size + padding_len)
   }"

definition MM_LISTENER_ISSUE_RESOL_one :: "mem \<Rightarrow> nat \<Rightarrow> nat \<Rightarrow> (bool \<times> mem) option" where
  "MM_LISTENER_ISSUE_RESOL_one m pone elem_sz = do {
     ndownstreams \<leftarrow> fld m pone MM_LISTENER_ISSUE_RESOL_fields ''ndownstreams_'';
     if ndownstreams > MM_LISTENER_ISSUE_RESOL_MAX_DOWNSTREAM_IDS then Some (False, m)
     else if elem_sz mod 8 \<noteq> 0 then Some (False, m)
     else Some (True, m)
   }"

definition MM_LISTENER_ISSUE_RESOL_validate :: "COMM_HEADER \<Rightarrow> mem \<Rightarrow> nat \<Rightarrow> (bool \<times> mem) option" where
  "MM_LISTENER_ISSUE_RESOL_validate = validate_elems MM_LISTENER_ISSUE_RESOL_MAX_NUM_LISTENERS (csizeof MM_LISTENER_ISSUE_RESOL_t)
     MM_LISTENER_ISSUE_RESOL_get_elem_size MM_LISTENER_ISSUE_RESOL_one"

definition MM_LISTENER_ISSUE_RESOL_ok :: "mem \<Rightarrow> nat \<Rightarrow> nat \<Rightarrow> bool" where
  "MM_LISTENER_ISSUE_RESOL_ok m p e \<longleftrightarrow>
     fldv m p MM_LISTENER_ISSUE_RESOL_fields ''ndownstreams_''
       \<le> MM_LISTENER_ISSUE_RESOL_MAX_DOWNSTREAM_IDS \<and>
     e mod 8 = 0"

lemma MM_LISTENER_ISSUE_RESOL_members [gy_size]:
  "cmember MM_LISTENER_ISSUE_RESOL_fields ''ndownstreams_'' = (40, 2)"
  "cmember MM_LISTENER_ISSUE_RESOL_fields ''padding_len_'' = (46, 1)"
  by code_simp+

interpretation mm_issue_resol: nul_elem "csizeof MM_LISTENER_ISSUE_RESOL_t" MM_LISTENER_ISSUE_RESOL_get_elem_size
  MM_LISTENER_ISSUE_RESOL_one MM_LISTENER_ISSUE_RESOL_ok MM_LISTENER_ISSUE_RESOL_fields "[]" no_strings
  by unfold_locales
    (auto simp: MM_LISTENER_ISSUE_RESOL_get_act_size_def
       MM_LISTENER_ISSUE_RESOL_get_elem_size_def
       MM_LISTENER_ISSUE_RESOL_one_def
       MM_LISTENER_ISSUE_RESOL_ok_def
       elem_simps gy_size split: bind_splits if_splits)

subsection \<open>\<open>LISTEN_TASKMAP_NOTIFY\<close>\<close>

text \<open>The limit is checked on \<open>(size_t)nelems\<close> with an \<open>int nelems\<close>: a value of \<open>2^31\<close> and more is sign
  extended and above the limit as well.\<close>

abbreviation (input) LISTEN_TASKMAP_NOTIFY_MAX_NUM_LISTENERS :: nat where "LISTEN_TASKMAP_NOTIFY_MAX_NUM_LISTENERS \<equiv> 2048"
abbreviation (input) LISTEN_TASKMAP_NOTIFY_MAX_NUM_TASKS :: nat where "LISTEN_TASKMAP_NOTIFY_MAX_NUM_TASKS \<equiv> 128"

definition LISTEN_TASKMAP_NOTIFY_get_elem_size :: "mem \<Rightarrow> nat \<Rightarrow> nat option" where
  "LISTEN_TASKMAP_NOTIFY_get_elem_size m p = do {
     nlisten \<leftarrow> fld m p LISTEN_TASKMAP_NOTIFY_fields ''nlisten_'';
     naggr_taskid \<leftarrow> fld m p LISTEN_TASKMAP_NOTIFY_fields ''naggr_taskid_'';
     Some (csizeof LISTEN_TASKMAP_NOTIFY_t + nlisten * 8 + naggr_taskid * 8)
   }"

definition LISTEN_TASKMAP_NOTIFY_one :: "mem \<Rightarrow> nat \<Rightarrow> nat \<Rightarrow> (bool \<times> mem) option" where
  "LISTEN_TASKMAP_NOTIFY_one m pone elem_sz = do {
     nlisten \<leftarrow> fld m pone LISTEN_TASKMAP_NOTIFY_fields ''nlisten_'';
     if nlisten > LISTEN_TASKMAP_NOTIFY_MAX_NUM_LISTENERS then Some (False, m)
     else do {
       naggr_taskid \<leftarrow> fld m pone LISTEN_TASKMAP_NOTIFY_fields ''naggr_taskid_'';
       if naggr_taskid > LISTEN_TASKMAP_NOTIFY_MAX_NUM_TASKS then Some (False, m)
       else Some (True, m)
     }
   }"

definition LISTEN_TASKMAP_NOTIFY_validate :: "COMM_HEADER \<Rightarrow> mem \<Rightarrow> nat \<Rightarrow> (bool \<times> mem) option" where
  "LISTEN_TASKMAP_NOTIFY_validate = validate_elems LISTEN_TASKMAP_NOTIFY_MAX_NUM_LISTENERS (csizeof LISTEN_TASKMAP_NOTIFY_t)
     LISTEN_TASKMAP_NOTIFY_get_elem_size LISTEN_TASKMAP_NOTIFY_one"

definition LISTEN_TASKMAP_NOTIFY_ok :: "mem \<Rightarrow> nat \<Rightarrow> nat \<Rightarrow> bool" where
  "LISTEN_TASKMAP_NOTIFY_ok m p e \<longleftrightarrow>
     fldv m p LISTEN_TASKMAP_NOTIFY_fields ''nlisten_'' \<le> LISTEN_TASKMAP_NOTIFY_MAX_NUM_LISTENERS \<and>
     fldv m p LISTEN_TASKMAP_NOTIFY_fields ''naggr_taskid_'' \<le> LISTEN_TASKMAP_NOTIFY_MAX_NUM_TASKS"

lemma LISTEN_TASKMAP_NOTIFY_members [gy_size]:
  "cmember LISTEN_TASKMAP_NOTIFY_fields ''nlisten_'' = (24, 2)"
  "cmember LISTEN_TASKMAP_NOTIFY_fields ''naggr_taskid_'' = (26, 2)"
  by code_simp+

interpretation listen_taskmap: nul_elem "csizeof LISTEN_TASKMAP_NOTIFY_t" LISTEN_TASKMAP_NOTIFY_get_elem_size
  LISTEN_TASKMAP_NOTIFY_one LISTEN_TASKMAP_NOTIFY_ok LISTEN_TASKMAP_NOTIFY_fields "[]" no_strings
  by unfold_locales
    (auto simp: LISTEN_TASKMAP_NOTIFY_get_elem_size_def
       LISTEN_TASKMAP_NOTIFY_one_def
       LISTEN_TASKMAP_NOTIFY_ok_def
       elem_simps gy_size split: bind_splits if_splits)

section \<open>Request traces\<close>

subsection \<open>\<open>REQ_TRACE_TRAN\<close>\<close>

text \<open>A \<open>REQ_TRACE_TRAN\<close> is an \<open>API_TRAN\<close> (\<open>common/gy_proto_common.h\<close>). Its sizes are \<open>uint32_t\<close> sums
  of 16 bit lengths. The terminating NUL of the request is stored without a zero check, which the
  check of \<open>request_len_\<close> before it makes up for.\<close>

abbreviation (input) MAX_PARSE_API_LEN :: nat where "MAX_PARSE_API_LEN \<equiv> 16 * 1024"
abbreviation (input) MAX_PARSE_EXT_LEN :: nat where "MAX_PARSE_EXT_LEN \<equiv> 1400"
abbreviation (input) API_TRAN_MAX_NUM_REQS :: nat where "API_TRAN_MAX_NUM_REQS \<equiv> 256"
abbreviation (input) API_TRAN_MAX_SEND_SZ :: nat where "API_TRAN_MAX_SEND_SZ \<equiv> 512 * 1024"

definition API_TRAN_get_max_actual_send_size :: nat where
  "API_TRAN_get_max_actual_send_size =
     API_TRAN_MAX_SEND_SZ + MAX_PARSE_API_LEN + MAX_PARSE_EXT_LEN + csizeof API_TRAN_t + 512"

definition REQ_TRACE_TRAN_get_act_len :: "mem \<Rightarrow> nat \<Rightarrow> nat option" where
  "REQ_TRACE_TRAN_get_act_len m p = do {
     request_len \<leftarrow> fld m p API_TRAN_fields ''request_len_'';
     lenext \<leftarrow> fld m p API_TRAN_fields ''lenext_'';
     Some (csizeof API_TRAN_t + request_len + lenext)
   }"

definition REQ_TRACE_TRAN_get_elem_size :: "mem \<Rightarrow> nat \<Rightarrow> nat option" where
  "REQ_TRACE_TRAN_get_elem_size m p = do {
     act_size \<leftarrow> REQ_TRACE_TRAN_get_act_len m p;
     padlen \<leftarrow> fld m p API_TRAN_fields ''padlen_'';
     Some (act_size + padlen)
   }"

definition REQ_TRACE_TRAN_one :: "mem \<Rightarrow> nat \<Rightarrow> nat \<Rightarrow> (bool \<times> mem) option" where
  "REQ_TRACE_TRAN_one m pone elem_sz =
     (if elem_sz mod 8 \<noteq> 0 then Some (False, m)
      else do {
        request_len \<leftarrow> fld m pone API_TRAN_fields ''request_len_'';
        if request_len = 0 \<or> request_len > MAX_PARSE_API_LEN then Some (False, m)
        else do {
          lenext \<leftarrow> fld m pone API_TRAN_fields ''lenext_'';
          if lenext > MAX_PARSE_EXT_LEN then Some (False, m)
          else do {
            m1 \<leftarrow> wr8 m (pone + csizeof API_TRAN_t + request_len - 1) 0;
            Some (True, m1)
          }
        }
      })"

definition REQ_TRACE_TRAN_validate :: "COMM_HEADER \<Rightarrow> mem \<Rightarrow> nat \<Rightarrow> (bool \<times> mem) option" where
  "REQ_TRACE_TRAN_validate h m pnotify =
     (let fixed_sz = csizeof COMM_HEADER_t + csizeof EVENT_NOTIFY_t in
      if act_len h < fixed_sz then Some (False, m)
      else do {
        nelems \<leftarrow> fld m pnotify EVENT_NOTIFY_fields ''nevents_'';
        if nelems > API_TRAN_MAX_NUM_REQS then Some (False, m)
        else if unat (get_total_len h) \<ge> API_TRAN_get_max_actual_send_size then Some (False, m)
        else elem_loop (csizeof API_TRAN_t) REQ_TRACE_TRAN_get_elem_size REQ_TRACE_TRAN_one nelems
               (int (act_len h) - int fixed_sz) (pnotify + csizeof EVENT_NOTIFY_t) m
      })"

definition REQ_TRACE_TRAN_ok :: "mem \<Rightarrow> nat \<Rightarrow> nat \<Rightarrow> bool" where
  "REQ_TRACE_TRAN_ok m p e \<longleftrightarrow> e mod 8 = 0 \<and>
     fldv m p API_TRAN_fields ''request_len_'' \<in> {1..MAX_PARSE_API_LEN} \<and>
     fldv m p API_TRAN_fields ''lenext_'' \<le> MAX_PARSE_EXT_LEN"

definition REQ_TRACE_TRAN_lens :: "mem \<Rightarrow> nat \<Rightarrow> nat list" where
  "REQ_TRACE_TRAN_lens m p = [fldv m p API_TRAN_fields ''request_len_'']"

lemma API_TRAN_members [gy_size]:
  "cmember API_TRAN_fields ''request_len_'' = (170, 2)"
  "cmember API_TRAN_fields ''lenext_'' = (172, 2)"
  "cmember API_TRAN_fields ''padlen_'' = (174, 1)"
  by code_simp+

interpretation req_trace_tran: nul_elem "csizeof API_TRAN_t" REQ_TRACE_TRAN_get_elem_size
  REQ_TRACE_TRAN_one REQ_TRACE_TRAN_ok API_TRAN_fields "[]" REQ_TRACE_TRAN_lens
  by unfold_locales
    (auto simp: REQ_TRACE_TRAN_get_act_len_def
       REQ_TRACE_TRAN_get_elem_size_def
       REQ_TRACE_TRAN_one_def
       REQ_TRACE_TRAN_lens_def
       REQ_TRACE_TRAN_ok_def
       put_nul_def elem_simps gy_size split: bind_splits if_splits)

subsection \<open>\<open>SM_REQ_TRACE_DEF_NEW\<close>\<close>

abbreviation (input) SM_REQ_TRACE_DEF_NEW_MAX_GLOB_ID_ARR :: nat where "SM_REQ_TRACE_DEF_NEW_MAX_GLOB_ID_ARR \<equiv> 1024"
abbreviation (input) SM_REQ_TRACE_DEF_NEW_MAX_NUM_DEFS :: nat where "SM_REQ_TRACE_DEF_NEW_MAX_NUM_DEFS \<equiv> 128"

definition SM_REQ_TRACE_DEF_NEW_get_act_size :: "mem \<Rightarrow> nat \<Rightarrow> nat option" where
  "SM_REQ_TRACE_DEF_NEW_get_act_size m p = do {
     ncap_glob_id_arr \<leftarrow> fld m p SM_REQ_TRACE_DEF_NEW_fields ''ncap_glob_id_arr_'';
     lencrit \<leftarrow> fld m p SM_REQ_TRACE_DEF_NEW_fields ''lencrit_'';
     Some (csizeof SM_REQ_TRACE_DEF_NEW_t + ncap_glob_id_arr * 8 + lencrit)
   }"

definition SM_REQ_TRACE_DEF_NEW_get_elem_size :: "mem \<Rightarrow> nat \<Rightarrow> nat option" where
  "SM_REQ_TRACE_DEF_NEW_get_elem_size m p = do {
     act_size \<leftarrow> SM_REQ_TRACE_DEF_NEW_get_act_size m p;
     padding_len \<leftarrow> fld m p SM_REQ_TRACE_DEF_NEW_fields ''padding_len_'';
     Some (act_size + padding_len)
   }"

definition SM_REQ_TRACE_DEF_NEW_one :: "mem \<Rightarrow> nat \<Rightarrow> nat \<Rightarrow> (bool \<times> mem) option" where
  "SM_REQ_TRACE_DEF_NEW_one m pone elem_sz =
     (if elem_sz mod 8 \<noteq> 0 then Some (False, m)
      else do {
        ncap_glob_id_arr \<leftarrow> fld m pone SM_REQ_TRACE_DEF_NEW_fields ''ncap_glob_id_arr_'';
        lencrit \<leftarrow> fld m pone SM_REQ_TRACE_DEF_NEW_fields ''lencrit_'';
        if ncap_glob_id_arr = 0 \<and> lencrit = 0 then Some (False, m)
        else if ncap_glob_id_arr \<noteq> 0 \<and> lencrit \<noteq> 0 then Some (False, m)
        else if ncap_glob_id_arr > SM_REQ_TRACE_DEF_NEW_MAX_GLOB_ID_ARR then Some (False, m)
        else do {
          m1 \<leftarrow> put_last_nul m pone SM_REQ_TRACE_DEF_NEW_fields ''name_'';
          lencrit \<leftarrow> fld m1 pone SM_REQ_TRACE_DEF_NEW_fields ''lencrit_'';
          m2 \<leftarrow> put_nul m1 (pone + csizeof SM_REQ_TRACE_DEF_NEW_t) lencrit;
          Some (True, m2)
        }
      })"

definition SM_REQ_TRACE_DEF_NEW_validate :: "COMM_HEADER \<Rightarrow> mem \<Rightarrow> nat \<Rightarrow> (bool \<times> mem) option" where
  "SM_REQ_TRACE_DEF_NEW_validate = validate_elems SM_REQ_TRACE_DEF_NEW_MAX_NUM_DEFS (csizeof SM_REQ_TRACE_DEF_NEW_t)
     SM_REQ_TRACE_DEF_NEW_get_elem_size SM_REQ_TRACE_DEF_NEW_one"

definition SM_REQ_TRACE_DEF_NEW_ok :: "mem \<Rightarrow> nat \<Rightarrow> nat \<Rightarrow> bool" where
  "SM_REQ_TRACE_DEF_NEW_ok m p e \<longleftrightarrow> e mod 8 = 0 \<and>
     (fldv m p SM_REQ_TRACE_DEF_NEW_fields ''ncap_glob_id_arr_'' = 0 \<longleftrightarrow>
      fldv m p SM_REQ_TRACE_DEF_NEW_fields ''lencrit_'' \<noteq> 0) \<and>
     fldv m p SM_REQ_TRACE_DEF_NEW_fields ''ncap_glob_id_arr_''
       \<le> SM_REQ_TRACE_DEF_NEW_MAX_GLOB_ID_ARR"

lemma SM_REQ_TRACE_DEF_NEW_members [gy_size]:
  "cmember SM_REQ_TRACE_DEF_NEW_fields ''name_'' = (16, 64)"
  "cmember SM_REQ_TRACE_DEF_NEW_fields ''ncap_glob_id_arr_'' = (80, 2)"
  "cmember SM_REQ_TRACE_DEF_NEW_fields ''lencrit_'' = (82, 2)"
  "cmember SM_REQ_TRACE_DEF_NEW_fields ''padding_len_'' = (84, 1)"
  by code_simp+

definition SM_REQ_TRACE_DEF_NEW_lens :: "mem \<Rightarrow> nat \<Rightarrow> nat list" where
  "SM_REQ_TRACE_DEF_NEW_lens m p = [fldv m p SM_REQ_TRACE_DEF_NEW_fields ''lencrit_'']"

interpretation req_trace_def: nul_elem "csizeof SM_REQ_TRACE_DEF_NEW_t"
  SM_REQ_TRACE_DEF_NEW_get_elem_size SM_REQ_TRACE_DEF_NEW_one SM_REQ_TRACE_DEF_NEW_ok
  SM_REQ_TRACE_DEF_NEW_fields "[''name_'']" SM_REQ_TRACE_DEF_NEW_lens
  by unfold_locales
    (auto simp: SM_REQ_TRACE_DEF_NEW_get_act_size_def SM_REQ_TRACE_DEF_NEW_get_elem_size_def
       SM_REQ_TRACE_DEF_NEW_one_def SM_REQ_TRACE_DEF_NEW_ok_def SM_REQ_TRACE_DEF_NEW_lens_def
       fldv_put_last_nul fld_put_last_nul members_apart_def elem_simps gy_size
       split: bind_splits if_splits)

end
