(* ===== verification/Gy_Fixed_Events.thy ===== *)
theory Gy_Fixed_Events
  imports Gy_Elem_Loop
begin

text \<open>
  The events whose elements have a fixed size (\<open>common/gy_comm_proto.h\<close>, \<open>common/gy_comm_proto.cc\<close>).
  Their \<open>validate\<close> methods compare the length of the message with \<open>nevents_\<close> times the size of the
  struct; the product of a \<open>uint32_t\<close> and a \<open>size_t\<close> is a 64 bit product that does not wrap. All but
  \<open>MS_REG_PARTHA\<close> leave the message as it is. The methods of the first two groups read \<open>nevents_\<close>
  without a check that the \<open>EVENT_NOTIFY\<close> is there: \<open>COMM_HEADER::validate\<close> did this check before.
\<close>

abbreviation (input) event_fixed_sz :: nat where
  "event_fixed_sz \<equiv> csizeof COMM_HEADER_t + csizeof EVENT_NOTIFY_t"

section \<open>Arrays of structs\<close>

definition array_validate :: "ctype \<Rightarrow> COMM_HEADER \<Rightarrow> mem \<Rightarrow> nat \<Rightarrow> bool option" where
  "array_validate t h m pnotify = do {
     nevents \<leftarrow> fld m pnotify EVENT_NOTIFY_fields ''nevents_'';
     Some (act_len h \<ge> event_fixed_sz + nevents * csizeof t)
   }"

definition SM_PARTHA_IDENT_NOTIFY_validate :: "COMM_HEADER \<Rightarrow> mem \<Rightarrow> nat \<Rightarrow> bool option" where
  "SM_PARTHA_IDENT_NOTIFY_validate = array_validate SM_PARTHA_IDENT_NOTIFY_t"

definition PING_TASK_AGGR_validate :: "COMM_HEADER \<Rightarrow> mem \<Rightarrow> nat \<Rightarrow> bool option" where
  "PING_TASK_AGGR_validate = array_validate PING_TASK_AGGR_t"

definition MM_TASK_AGGR_PING_validate :: "COMM_HEADER \<Rightarrow> mem \<Rightarrow> nat \<Rightarrow> bool option" where
  "MM_TASK_AGGR_PING_validate = array_validate MM_TASK_AGGR_PING_t"

definition MM_TASK_AGGR_DEL_validate :: "COMM_HEADER \<Rightarrow> mem \<Rightarrow> nat \<Rightarrow> bool option" where
  "MM_TASK_AGGR_DEL_validate = array_validate MM_TASK_AGGR_DEL_t"

definition TASK_HISTOGRAM_validate :: "COMM_HEADER \<Rightarrow> mem \<Rightarrow> nat \<Rightarrow> bool option" where
  "TASK_HISTOGRAM_validate = array_validate TASK_HISTOGRAM_t"

definition MM_LISTENER_PING_validate :: "COMM_HEADER \<Rightarrow> mem \<Rightarrow> nat \<Rightarrow> bool option" where
  "MM_LISTENER_PING_validate = array_validate MM_LISTENER_PING_t"

definition MM_LISTENER_DELETE_validate :: "COMM_HEADER \<Rightarrow> mem \<Rightarrow> nat \<Rightarrow> bool option" where
  "MM_LISTENER_DELETE_validate = array_validate MM_LISTENER_DELETE_t"

definition MM_LISTENER_DEPENDS_validate :: "COMM_HEADER \<Rightarrow> mem \<Rightarrow> nat \<Rightarrow> bool option" where
  "MM_LISTENER_DEPENDS_validate = array_validate MM_LISTENER_DEPENDS_t"

definition AGGR_TASK_HIST_STATS_validate :: "COMM_HEADER \<Rightarrow> mem \<Rightarrow> nat \<Rightarrow> bool option" where
  "AGGR_TASK_HIST_STATS_validate = array_validate AGGR_TASK_HIST_STATS_t"

definition SM_ALERT_ADEF_UPD_validate :: "COMM_HEADER \<Rightarrow> mem \<Rightarrow> nat \<Rightarrow> bool option" where
  "SM_ALERT_ADEF_UPD_validate = array_validate SM_ALERT_ADEF_UPD_t"

definition ALERT_STAT_CLOSE_validate :: "COMM_HEADER \<Rightarrow> mem \<Rightarrow> nat \<Rightarrow> bool option" where
  "ALERT_STAT_CLOSE_validate = array_validate ALERT_STAT_CLOSE_t"

definition SM_REQ_TRACE_DEF_DISABLE_validate :: "COMM_HEADER \<Rightarrow> mem \<Rightarrow> nat \<Rightarrow> bool option" where
  "SM_REQ_TRACE_DEF_DISABLE_validate = array_validate SM_REQ_TRACE_DEF_DISABLE_t"

section \<open>Arrays of structs with a limit\<close>

definition bounded_array_validate :: "ctype \<Rightarrow> nat \<Rightarrow> COMM_HEADER \<Rightarrow> mem \<Rightarrow> nat \<Rightarrow> bool option" where
  "bounded_array_validate t max_elems h m pnotify = do {
     nevents \<leftarrow> fld m pnotify EVENT_NOTIFY_fields ''nevents_'';
     Some (act_len h \<ge> event_fixed_sz + nevents * csizeof t \<and> nevents \<le> max_elems)
   }"

abbreviation (input) NAT_TCP_NOTIFY_MAX_NUM_CONNS :: nat where "NAT_TCP_NOTIFY_MAX_NUM_CONNS \<equiv> 2048"

definition NAT_TCP_NOTIFY_validate :: "COMM_HEADER \<Rightarrow> mem \<Rightarrow> nat \<Rightarrow> bool option" where
  "NAT_TCP_NOTIFY_validate = bounded_array_validate NAT_TCP_NOTIFY_t NAT_TCP_NOTIFY_MAX_NUM_CONNS"

abbreviation (input) MS_TCP_CONN_CLOSE_MAX_NUM_CONNS :: nat where "MS_TCP_CONN_CLOSE_MAX_NUM_CONNS \<equiv> 2048"

definition MS_TCP_CONN_CLOSE_validate :: "COMM_HEADER \<Rightarrow> mem \<Rightarrow> nat \<Rightarrow> bool option" where
  "MS_TCP_CONN_CLOSE_validate = bounded_array_validate MS_TCP_CONN_CLOSE_t MS_TCP_CONN_CLOSE_MAX_NUM_CONNS"

abbreviation (input) MP_CLI_TCP_INFO_MAX_NUM_CONNS :: nat where "MP_CLI_TCP_INFO_MAX_NUM_CONNS \<equiv> 2048"

definition MP_CLI_TCP_INFO_validate :: "COMM_HEADER \<Rightarrow> mem \<Rightarrow> nat \<Rightarrow> bool option" where
  "MP_CLI_TCP_INFO_validate = bounded_array_validate MP_CLI_TCP_INFO_t MP_CLI_TCP_INFO_MAX_NUM_CONNS"

abbreviation (input) MP_SER_TCP_INFO_MAX_NUM_CONNS :: nat where "MP_SER_TCP_INFO_MAX_NUM_CONNS \<equiv> 2048"

definition MP_SER_TCP_INFO_validate :: "COMM_HEADER \<Rightarrow> mem \<Rightarrow> nat \<Rightarrow> bool option" where
  "MP_SER_TCP_INFO_validate = bounded_array_validate MP_SER_TCP_INFO_t MP_SER_TCP_INFO_MAX_NUM_CONNS"

abbreviation (input) MS_TCP_CONN_NOTIFY_MAX_NUM_CONNS :: nat where "MS_TCP_CONN_NOTIFY_MAX_NUM_CONNS \<equiv> 2048"

definition MS_TCP_CONN_NOTIFY_validate :: "COMM_HEADER \<Rightarrow> mem \<Rightarrow> nat \<Rightarrow> bool option" where
  "MS_TCP_CONN_NOTIFY_validate = bounded_array_validate MS_TCP_CONN_NOTIFY_t MS_TCP_CONN_NOTIFY_MAX_NUM_CONNS"

abbreviation (input) SHYAMA_SER_TCP_INFO_MAX_NUM_CONNS :: nat where "SHYAMA_SER_TCP_INFO_MAX_NUM_CONNS \<equiv> 2048"

definition SHYAMA_SER_TCP_INFO_validate :: "COMM_HEADER \<Rightarrow> mem \<Rightarrow> nat \<Rightarrow> bool option" where
  "SHYAMA_SER_TCP_INFO_validate = bounded_array_validate SHYAMA_SER_TCP_INFO_t SHYAMA_SER_TCP_INFO_MAX_NUM_CONNS"

abbreviation (input) SHYAMA_CLI_TCP_INFO_MAX_NUM_CONNS :: nat where "SHYAMA_CLI_TCP_INFO_MAX_NUM_CONNS \<equiv> 2048"

definition SHYAMA_CLI_TCP_INFO_validate :: "COMM_HEADER \<Rightarrow> mem \<Rightarrow> nat \<Rightarrow> bool option" where
  "SHYAMA_CLI_TCP_INFO_validate = bounded_array_validate SHYAMA_CLI_TCP_INFO_t SHYAMA_CLI_TCP_INFO_MAX_NUM_CONNS"

abbreviation (input) LISTENER_NAT_IP_EVENT_MAX_NUM_LISTENERS :: nat where "LISTENER_NAT_IP_EVENT_MAX_NUM_LISTENERS \<equiv> 512"

definition LISTENER_NAT_IP_EVENT_validate :: "COMM_HEADER \<Rightarrow> mem \<Rightarrow> nat \<Rightarrow> bool option" where
  "LISTENER_NAT_IP_EVENT_validate = bounded_array_validate LISTENER_NAT_IP_EVENT_t LISTENER_NAT_IP_EVENT_MAX_NUM_LISTENERS"

abbreviation (input) SM_SVC_NAT_IP_CLUSTER_MAX_NUM_LISTENERS :: nat where "SM_SVC_NAT_IP_CLUSTER_MAX_NUM_LISTENERS \<equiv> 2048"

definition SM_SVC_NAT_IP_CLUSTER_validate :: "COMM_HEADER \<Rightarrow> mem \<Rightarrow> nat \<Rightarrow> bool option" where
  "SM_SVC_NAT_IP_CLUSTER_validate = bounded_array_validate SM_SVC_NAT_IP_CLUSTER_t SM_SVC_NAT_IP_CLUSTER_MAX_NUM_LISTENERS"

abbreviation (input) ACTIVE_CONN_STATS_MAX_NUM_CONNS :: nat where "ACTIVE_CONN_STATS_MAX_NUM_CONNS \<equiv> 2048"

definition ACTIVE_CONN_STATS_validate :: "COMM_HEADER \<Rightarrow> mem \<Rightarrow> nat \<Rightarrow> bool option" where
  "ACTIVE_CONN_STATS_validate = bounded_array_validate ACTIVE_CONN_STATS_t ACTIVE_CONN_STATS_MAX_NUM_CONNS"

abbreviation (input) MS_CLUSTER_STATE_MAX_NUM_CLUSTERS :: nat where "MS_CLUSTER_STATE_MAX_NUM_CLUSTERS \<equiv> 512"

definition MS_CLUSTER_STATE_validate :: "COMM_HEADER \<Rightarrow> mem \<Rightarrow> nat \<Rightarrow> bool option" where
  "MS_CLUSTER_STATE_validate = bounded_array_validate MS_CLUSTER_STATE_t MS_CLUSTER_STATE_MAX_NUM_CLUSTERS"

abbreviation (input) MS_PARTHA_PING_MAX_PARTHA_PING :: nat where "MS_PARTHA_PING_MAX_PARTHA_PING \<equiv> MAX_PARTHA_PER_MADHAVA"

definition MS_PARTHA_PING_validate :: "COMM_HEADER \<Rightarrow> mem \<Rightarrow> nat \<Rightarrow> bool option" where
  "MS_PARTHA_PING_validate = bounded_array_validate MS_PARTHA_PING_t MS_PARTHA_PING_MAX_PARTHA_PING"

abbreviation (input) REQ_TRACE_SET_MAX_REQ_TRACE_ELEM :: nat where "REQ_TRACE_SET_MAX_REQ_TRACE_ELEM \<equiv> 128"

definition REQ_TRACE_SET_validate :: "COMM_HEADER \<Rightarrow> mem \<Rightarrow> nat \<Rightarrow> bool option" where
  "REQ_TRACE_SET_validate = bounded_array_validate REQ_TRACE_SET_t REQ_TRACE_SET_MAX_REQ_TRACE_ELEM"

abbreviation (input) REQ_TRACE_STATUS_MAX_REQ_TRACE_ELEM :: nat where "REQ_TRACE_STATUS_MAX_REQ_TRACE_ELEM \<equiv> 128"

definition REQ_TRACE_STATUS_validate :: "COMM_HEADER \<Rightarrow> mem \<Rightarrow> nat \<Rightarrow> bool option" where
  "REQ_TRACE_STATUS_validate = bounded_array_validate REQ_TRACE_STATUS_t REQ_TRACE_STATUS_MAX_REQ_TRACE_ELEM"

section \<open>One struct\<close>

definition single_validate :: "ctype \<Rightarrow> COMM_HEADER \<Rightarrow> mem \<Rightarrow> nat \<Rightarrow> bool option" where
  "single_validate t h m pnotify =
     (if act_len h \<ge> event_fixed_sz + csizeof t
      then do {
        nevents \<leftarrow> fld m pnotify EVENT_NOTIFY_fields ''nevents_'';
        Some (nevents = 1)
      }
      else Some False)"

definition HOST_STATE_NOTIFY__V000100_validate :: "COMM_HEADER \<Rightarrow> mem \<Rightarrow> nat \<Rightarrow> bool option" where
  "HOST_STATE_NOTIFY__V000100_validate = single_validate HOST_STATE_NOTIFY__V000100_t"

definition HOST_STATE_NOTIFY_validate :: "COMM_HEADER \<Rightarrow> mem \<Rightarrow> nat \<Rightarrow> bool option" where
  "HOST_STATE_NOTIFY_validate = single_validate HOST_STATE_NOTIFY_t"

definition HOST_INFO_NOTIFY_validate :: "COMM_HEADER \<Rightarrow> mem \<Rightarrow> nat \<Rightarrow> bool option" where
  "HOST_INFO_NOTIFY_validate = single_validate HOST_INFO_NOTIFY_t"

definition HOST_CPU_MEM_CHANGE_validate :: "COMM_HEADER \<Rightarrow> mem \<Rightarrow> nat \<Rightarrow> bool option" where
  "HOST_CPU_MEM_CHANGE_validate = single_validate HOST_CPU_MEM_CHANGE_t"

definition SM_ALERT_STAT_DISABLE_validate :: "COMM_HEADER \<Rightarrow> mem \<Rightarrow> nat \<Rightarrow> bool option" where
  "SM_ALERT_STAT_DISABLE_validate = single_validate SM_ALERT_STAT_DISABLE_t"

text \<open>The status events are methods of the struct behind the \<open>EVENT_NOTIFY\<close> and look at the length
  only.\<close>

definition exact_validate :: "ctype \<Rightarrow> COMM_HEADER \<Rightarrow> bool" where
  "exact_validate t h \<longleftrightarrow> act_len h = event_fixed_sz + csizeof t"

definition PARTHA_STATUS_validate :: "COMM_HEADER \<Rightarrow> bool" where
  "PARTHA_STATUS_validate = exact_validate PARTHA_STATUS_t"

definition MADHAVA_PARTHA_STATUS_validate :: "COMM_HEADER \<Rightarrow> bool" where
  "MADHAVA_PARTHA_STATUS_validate = exact_validate MADHAVA_PARTHA_STATUS_t"

definition MADHAVA_SHYAMA_STATUS_validate :: "COMM_HEADER \<Rightarrow> bool" where
  "MADHAVA_SHYAMA_STATUS_validate = exact_validate MADHAVA_SHYAMA_STATUS_t"

definition SHYAMA_MADHAVA_STATUS_validate :: "COMM_HEADER \<Rightarrow> bool" where
  "SHYAMA_MADHAVA_STATUS_validate = exact_validate SHYAMA_MADHAVA_STATUS_t"

definition MADHAVA_MADHAVA_STATUS_validate :: "COMM_HEADER \<Rightarrow> bool" where
  "MADHAVA_MADHAVA_STATUS_validate = exact_validate MADHAVA_MADHAVA_STATUS_t"

definition MP_RESET_STATS_validate :: "COMM_HEADER \<Rightarrow> bool" where
  "MP_RESET_STATS_validate = exact_validate MP_RESET_STATS_t"

section \<open>Arrays of an exact size\<close>

definition MADHAVA_LIST_validate :: "COMM_HEADER \<Rightarrow> mem \<Rightarrow> nat \<Rightarrow> bool option" where
  "MADHAVA_LIST_validate h m pnotify =
     (if act_len h < event_fixed_sz then Some False
      else do {
        nevents \<leftarrow> fld m pnotify EVENT_NOTIFY_fields ''nevents_'';
        Some (act_len h = event_fixed_sz + nevents * csizeof MADHAVA_LIST_t)
      })"

abbreviation (input) LISTENER_DAY_STATS_MAX_NUM_LISTENERS :: nat where
  "LISTENER_DAY_STATS_MAX_NUM_LISTENERS \<equiv> 2048"

text \<open>The static \<open>validate\<close> on the number of elements and the length; \<open>totallen\<close> is an \<open>ssize_t\<close> that
  is compared as a \<open>size_t\<close>.\<close>

definition LISTENER_DAY_STATS_validate_elems :: "nat \<Rightarrow> int \<Rightarrow> bool" where
  "LISTENER_DAY_STATS_validate_elems nelems totallen \<longleftrightarrow>
     nelems \<le> LISTENER_DAY_STATS_MAX_NUM_LISTENERS \<and>
     totallen mod 2 ^ 64 \<ge> int (nelems * csizeof LISTENER_DAY_STATS_t)"

definition LISTENER_DAY_STATS_validate :: "COMM_HEADER \<Rightarrow> mem \<Rightarrow> nat \<Rightarrow> bool option" where
  "LISTENER_DAY_STATS_validate h m pnotify =
     (if act_len h < event_fixed_sz then Some False
      else do {
        nelems \<leftarrow> fld m pnotify EVENT_NOTIFY_fields ''nevents_'';
        Some (LISTENER_DAY_STATS_validate_elems nelems (int (act_len h) - int event_fixed_sz))
      })"

text \<open>\<open>MS_REG_PARTHA\<close> terminates the names of each element.\<close>

abbreviation (input) MS_REG_PARTHA_MAX_REG_PARTHA :: nat where
  "MS_REG_PARTHA_MAX_REG_PARTHA \<equiv> MAX_PARTHA_PER_MADHAVA"

primrec MS_REG_PARTHA_terminate :: "nat \<Rightarrow> nat \<Rightarrow> mem \<Rightarrow> mem option" where
  "MS_REG_PARTHA_terminate 0 pone m = Some m"
| "MS_REG_PARTHA_terminate (Suc k) pone m = do {
     m' \<leftarrow> put_last_nuls m pone MS_REG_PARTHA_fields
             [''hostname_'', ''cluster_name_'', ''region_name_'', ''zone_name_''];
     MS_REG_PARTHA_terminate k (pone + csizeof MS_REG_PARTHA_t) m'
   }"

definition MS_REG_PARTHA_validate :: "COMM_HEADER \<Rightarrow> mem \<Rightarrow> nat \<Rightarrow> (bool \<times> mem) option" where
  "MS_REG_PARTHA_validate h m pnotify =
     (if act_len h < event_fixed_sz then Some (False, m)
      else do {
        nevents \<leftarrow> fld m pnotify EVENT_NOTIFY_fields ''nevents_'';
        if nevents > MS_REG_PARTHA_MAX_REG_PARTHA then Some (False, m)
        else if act_len h \<noteq> event_fixed_sz + nevents * csizeof MS_REG_PARTHA_t then Some (False, m)
        else do {
          m' \<leftarrow> MS_REG_PARTHA_terminate nevents (pnotify + csizeof EVENT_NOTIFY_t) m;
          Some (True, m')
        }
      })"

section \<open>What the methods guarantee\<close>

text \<open>\<open>nevents_\<close> structs of \<open>sz\<close> bytes lie inside of the message.\<close>

definition array_inside :: "nat \<Rightarrow> COMM_HEADER \<Rightarrow> mem \<Rightarrow> nat \<Rightarrow> bool" where
  "array_inside sz h m pnotify \<longleftrightarrow> 24 + nevents_of m pnotify * sz \<le> act_len h"

text \<open>Where the \<open>EVENT_NOTIFY\<close> is in the message, the answer is this.\<close>

definition event_hdr_in :: "COMM_HEADER \<Rightarrow> mem \<Rightarrow> nat \<Rightarrow> bool" where
  "event_hdr_in h m pnotify \<longleftrightarrow> event_in h m pnotify \<and> 24 \<le> act_len h"

lemma event_hdr_nevents:
  "event_hdr_in h m pn \<Longrightarrow> fld m pn EVENT_NOTIFY_fields ''nevents_'' = Some (nevents_of m pn)"
  by (simp add: event_hdr_in_def event_in_def fld_nevents)

lemma array_validate_eq:
  "event_hdr_in h m pn \<Longrightarrow> array_validate t h m pn = Some (array_inside (csizeof t) h m pn)"
  by (simp add: array_validate_def event_hdr_nevents array_inside_def)

lemma bounded_array_validate_eq:
  "event_hdr_in h m pn \<Longrightarrow> bounded_array_validate t mx h m pn =
     Some (array_inside (csizeof t) h m pn \<and> nevents_of m pn \<le> mx)"
  by (simp add: bounded_array_validate_def event_hdr_nevents array_inside_def)

lemma single_validate_eq:
  "event_hdr_in h m pn \<Longrightarrow> single_validate t h m pn =
     Some (array_inside (csizeof t) h m pn \<and> nevents_of m pn = 1)"
  by (auto simp: single_validate_def event_hdr_nevents array_inside_def)

lemma MADHAVA_LIST_validate_eq:
  "event_hdr_in h m pn \<Longrightarrow> MADHAVA_LIST_validate h m pn =
     Some (act_len h = 24 + nevents_of m pn * csizeof MADHAVA_LIST_t)"
  by (simp add: MADHAVA_LIST_validate_def event_hdr_nevents event_hdr_in_def)

text \<open>The comparison as a \<open>size_t\<close> is the comparison of the numbers, since \<open>totallen\<close> is not negative
  after the length check.\<close>

lemma LISTENER_DAY_STATS_validate_elems_eq:
  assumes "24 \<le> n" and "n < 2 ^ 32"
  shows "LISTENER_DAY_STATS_validate_elems k (int n - int event_fixed_sz) \<longleftrightarrow>
     k \<le> LISTENER_DAY_STATS_MAX_NUM_LISTENERS \<and> 24 + k * csizeof LISTENER_DAY_STATS_t \<le> n"
proof -
  have "(int n - 24) mod 2 ^ 64 = int n - 24"
    using assms by (intro mod_pos_pos_trivial) simp_all
  then show ?thesis by (auto simp: LISTENER_DAY_STATS_validate_elems_def)
qed

lemma LISTENER_DAY_STATS_validate_eq:
  assumes "event_hdr_in h m pn"
  shows "LISTENER_DAY_STATS_validate h m pn =
     Some (nevents_of m pn \<le> LISTENER_DAY_STATS_MAX_NUM_LISTENERS \<and>
           array_inside (csizeof LISTENER_DAY_STATS_t) h m pn)"
proof -
  have "24 \<le> act_len h" using assms by (simp add: event_hdr_in_def)
  moreover have "act_len h < 2 ^ 32" by (rule act_len_bound)
  ultimately show ?thesis
    unfolding LISTENER_DAY_STATS_validate_def event_hdr_nevents [OF assms] array_inside_def
    by (simp add: LISTENER_DAY_STATS_validate_elems_eq [simplified] del: of_nat_unat)
qed

lemma MS_REG_PARTHA_members [gy_size]:
  "cmember MS_REG_PARTHA_fields ''hostname_'' = (24, 256)"
  "cmember MS_REG_PARTHA_fields ''cluster_name_'' = (280, 64)"
  "cmember MS_REG_PARTHA_fields ''region_name_'' = (344, 64)"
  "cmember MS_REG_PARTHA_fields ''zone_name_'' = (408, 64)"
  by code_simp+

lemma MS_REG_PARTHA_terminate_in:
  "p + k * 480 \<le> length m \<Longrightarrow>
     \<exists>m'. MS_REG_PARTHA_terminate k p m = Some m' \<and> same_off m m' p (p + k * 480)"
proof (induction k arbitrary: p m)
  case (Suc k)
  let ?names = "[''hostname_'', ''cluster_name_'', ''region_name_'', ''zone_name_'']"
  have within: "members_within MS_REG_PARTHA_fields 480 ?names"
    by (simp add: members_within_def gy_size)
  obtain m1 where m1: "put_last_nuls m p MS_REG_PARTHA_fields ?names = Some m1"
      "same_off m m1 p (p + 480)"
    using put_last_nuls_in [OF _ within, of p m] Suc.prems by auto
  obtain m2 where m2: "MS_REG_PARTHA_terminate k (p + 480) m1 = Some m2"
      "same_off m1 m2 (p + 480) (p + 480 + k * 480)"
    using Suc.IH [of "p + 480" m1] Suc.prems same_off_len [OF m1(2)] by (auto simp: algebra_simps)
  have "same_off m m1 p (p + Suc k * 480)" by (rule same_off_mono [OF m1(2)]) simp_all
  moreover have "same_off m1 m2 p (p + Suc k * 480)" by (rule same_off_mono [OF m2(2)]) simp_all
  ultimately have "same_off m m2 p (p + Suc k * 480)" by (rule same_off_trans)
  then show ?case using m1(1) m2(1) by (simp del: put_last_nuls.simps)
qed simp

lemma MS_REG_PARTHA_validate_correct:
  assumes "event_hdr_in h m pn"
  shows "\<exists>m'. MS_REG_PARTHA_validate h m pn =
      Some (nevents_of m pn \<le> MS_REG_PARTHA_MAX_REG_PARTHA \<and>
            act_len h = 24 + nevents_of m pn * csizeof MS_REG_PARTHA_t, m') \<and>
      same_off m m' (pn + 8) (pn + act_len h - 16)"
proof (cases "nevents_of m pn \<le> MS_REG_PARTHA_MAX_REG_PARTHA \<and>
    act_len h = 24 + nevents_of m pn * csizeof MS_REG_PARTHA_t")
  case True
  then have "pn + 8 + nevents_of m pn * 480 \<le> length m"
    using assms by (simp add: event_hdr_in_def event_in_def)
  from MS_REG_PARTHA_terminate_in [OF this] True show ?thesis
    by (auto simp: MS_REG_PARTHA_validate_def event_hdr_nevents [OF assms] ac_simps)
next
  case False
  then show ?thesis using assms
    by (auto simp: MS_REG_PARTHA_validate_def event_hdr_nevents [OF assms] event_hdr_in_def)
qed

end
