(* ===== verification/Gy_Task_Events.thy ===== *)
theory Gy_Task_Events
  imports Gy_Var_Events Gy_Fixed_Events
begin

text \<open>
  \<open>TASK_MINI_ADD\<close>, \<open>TASK_FULL_ADD\<close>, \<open>TASK_TOP_PROCS\<close> and \<open>CPU_MEM_STATE_NOTIFY\<close> of
  \<open>common/gy_comm_proto.cc\<close>, whose validators do not have the shape of the other variable length
  events. The two task validators count down a copy of the header: the method of one element
  checks it against the remaining header and returns its size with the 24 bytes of \<open>COMM_HEADER\<close> and
  \<open>EVENT_NOTIFY\<close>, and the loop subtracts this size from \<open>total_sz_\<close>. The result of the method of one
  element is \<open>None\<close> for \<open>return false\<close> and the size otherwise.
\<close>

section \<open>\<open>TASK_MINI_ADD\<close>\<close>

definition TASK_MINI_ADD_get_elem_size :: "mem \<Rightarrow> nat \<Rightarrow> nat option" where
  "TASK_MINI_ADD_get_elem_size m p = do {
     task_cmdline_len \<leftarrow> fld m p TASK_MINI_ADD_fields ''task_cmdline_len_'';
     padding_len \<leftarrow> fld m p TASK_MINI_ADD_fields ''padding_len_'';
     Some ((csizeof TASK_MINI_ADD_t + task_cmdline_len + padding_len) mod 2 ^ 32)
   }"

definition TASK_MINI_ADD_validate_one ::
  "COMM_HEADER \<Rightarrow> mem \<Rightarrow> nat \<Rightarrow> (nat option \<times> mem) option" where
  "TASK_MINI_ADD_validate_one h m p =
     (let fixed_sz = csizeof COMM_HEADER_t + csizeof EVENT_NOTIFY_t + csizeof TASK_MINI_ADD_t in
      if act_len h < fixed_sz then Some (None, m)
      else do {
        task_cmdline_len \<leftarrow> fld m p TASK_MINI_ADD_fields ''task_cmdline_len_'';
        padding_len \<leftarrow> fld m p TASK_MINI_ADD_fields ''padding_len_'';
        if act_len h < fixed_sz + task_cmdline_len + padding_len then Some (None, m)
        else do {
          task_pid \<leftarrow> fld m p TASK_MINI_ADD_fields ''task_pid_'';
          if task_pid = 0 then Some (None, m)
          else let elem_sz = fixed_sz + task_cmdline_len + padding_len in
          if elem_sz mod 8 \<noteq> 0 then Some (None, m)
          else do {
            m1 \<leftarrow> put_last_nuls m p TASK_MINI_ADD_fields [''task_comm_'', ''task_parent_comm_''];
            task_cmdline_len \<leftarrow> fld m1 p TASK_MINI_ADD_fields ''task_cmdline_len_'';
            m2 \<leftarrow> put_nul m1 (p + csizeof TASK_MINI_ADD_t) task_cmdline_len;
            Some (Some elem_sz, m2)
          }
        }
      })"

text \<open>The loop; \<open>k\<close> is \<open>nevents - i\<close>. \<open>(int)hdr.total_sz_\<close> is the signed value of the 32 bit word.\<close>

primrec TASK_MINI_ADD_loop :: "nat \<Rightarrow> COMM_HEADER \<Rightarrow> nat \<Rightarrow> mem \<Rightarrow> (bool \<times> mem) option" where
  "TASK_MINI_ADD_loop 0 hdr ptmptask m = Some (True, m)"
| "TASK_MINI_ADD_loop (Suc k) hdr ptmptask m =
     (if sint (total_sz hdr) > int (csizeof COMM_HEADER_t) then do {
        (bret, m') \<leftarrow> TASK_MINI_ADD_validate_one hdr m ptmptask;
        case bret of
          None \<Rightarrow> Some (False, m')
        | Some elem_sz \<Rightarrow>
            TASK_MINI_ADD_loop k (hdr\<lparr>total_sz := total_sz hdr - of_nat elem_sz\<rparr>)
              (ptmptask + elem_sz) m'
      }
      else Some (False, m))"

definition TASK_MINI_ADD_validate :: "COMM_HEADER \<Rightarrow> mem \<Rightarrow> nat \<Rightarrow> (bool \<times> mem) option" where
  "TASK_MINI_ADD_validate h m pnotify = do {
     nevents \<leftarrow> fld m pnotify EVENT_NOTIFY_fields ''nevents_'';
     TASK_MINI_ADD_loop nevents h (pnotify + csizeof EVENT_NOTIFY_t) m
   }"

section \<open>\<open>TASK_FULL_ADD\<close>\<close>

definition TASK_FULL_ADD_get_elem_size :: "mem \<Rightarrow> nat \<Rightarrow> nat option" where
  "TASK_FULL_ADD_get_elem_size m p = do {
     task_exe_path_len \<leftarrow> fld m p TASK_FULL_ADD_fields ''task_exe_path_len_'';
     task_cmdline_len \<leftarrow> fld m p TASK_FULL_ADD_fields ''task_cmdline_len_'';
     task_tags_len \<leftarrow> fld m p TASK_FULL_ADD_fields ''task_tags_len_'';
     padding_len \<leftarrow> fld m p TASK_FULL_ADD_fields ''padding_len_'';
     Some (csizeof TASK_FULL_ADD_t + task_exe_path_len + task_cmdline_len + task_tags_len + padding_len)
   }"

text \<open>The stores of the terminating NULs.\<close>

definition TASK_FULL_ADD_terminate :: "mem \<Rightarrow> nat \<Rightarrow> mem option" where
  "TASK_FULL_ADD_terminate m p = do {
     m1 \<leftarrow> put_last_nuls m p TASK_FULL_ADD_fields [''task_comm_'', ''task_parent_comm_''];
     task_exe_path_len \<leftarrow> fld m1 p TASK_FULL_ADD_fields ''task_exe_path_len_'';
     m2 \<leftarrow> put_nul m1 (p + csizeof TASK_FULL_ADD_t) task_exe_path_len;
     task_cmdline_len \<leftarrow> fld m2 p TASK_FULL_ADD_fields ''task_cmdline_len_'';
     m3 \<leftarrow> put_nul m2 (p + csizeof TASK_FULL_ADD_t + task_exe_path_len) task_cmdline_len;
     task_tags_len \<leftarrow> fld m3 p TASK_FULL_ADD_fields ''task_tags_len_'';
     put_nul m3 (p + csizeof TASK_FULL_ADD_t + task_exe_path_len + task_cmdline_len) task_tags_len
   }"

definition TASK_FULL_ADD_validate_one ::
  "COMM_HEADER \<Rightarrow> mem \<Rightarrow> nat \<Rightarrow> (nat option \<times> mem) option" where
  "TASK_FULL_ADD_validate_one h m p =
     (let fixed_sz = csizeof COMM_HEADER_t + csizeof EVENT_NOTIFY_t + csizeof TASK_FULL_ADD_t in
      if act_len h < fixed_sz then Some (None, m)
      else do {
        task_exe_path_len \<leftarrow> fld m p TASK_FULL_ADD_fields ''task_exe_path_len_'';
        task_cmdline_len \<leftarrow> fld m p TASK_FULL_ADD_fields ''task_cmdline_len_'';
        task_tags_len \<leftarrow> fld m p TASK_FULL_ADD_fields ''task_tags_len_'';
        padding_len \<leftarrow> fld m p TASK_FULL_ADD_fields ''padding_len_'';
        let elem_sz = fixed_sz + task_exe_path_len + task_cmdline_len + task_tags_len + padding_len in
        if act_len h < elem_sz then Some (None, m)
        else if elem_sz mod 8 \<noteq> 0 then Some (None, m)
        else do {
          m' \<leftarrow> TASK_FULL_ADD_terminate m p;
          Some (Some elem_sz, m')
        }
      })"

primrec TASK_FULL_ADD_loop :: "nat \<Rightarrow> COMM_HEADER \<Rightarrow> nat \<Rightarrow> mem \<Rightarrow> (bool \<times> mem) option" where
  "TASK_FULL_ADD_loop 0 hdr ptmptask m = Some (True, m)"
| "TASK_FULL_ADD_loop (Suc k) hdr ptmptask m =
     (if sint (total_sz hdr) > int (csizeof COMM_HEADER_t) then do {
        (bret, m') \<leftarrow> TASK_FULL_ADD_validate_one hdr m ptmptask;
        case bret of
          None \<Rightarrow> Some (False, m')
        | Some elem_sz0 \<Rightarrow>
            let elem_sz = elem_sz0 - (csizeof COMM_HEADER_t + csizeof EVENT_NOTIFY_t) in
            TASK_FULL_ADD_loop k (hdr\<lparr>total_sz := total_sz hdr - of_nat elem_sz\<rparr>)
              (ptmptask + elem_sz) m'
      }
      else Some (False, m))"

definition TASK_FULL_ADD_validate :: "COMM_HEADER \<Rightarrow> mem \<Rightarrow> nat \<Rightarrow> (bool \<times> mem) option" where
  "TASK_FULL_ADD_validate h m pnotify = do {
     nevents \<leftarrow> fld m pnotify EVENT_NOTIFY_fields ''nevents_'';
     TASK_FULL_ADD_loop nevents h (pnotify + csizeof EVENT_NOTIFY_t) m
   }"

section \<open>\<open>TASK_TOP_PROCS\<close>\<close>

abbreviation (input) TASK_MAX_TOP_N :: nat where "TASK_MAX_TOP_N \<equiv> 15"
abbreviation (input) TASK_MAX_TOPPG_N :: nat where "TASK_MAX_TOPPG_N \<equiv> 10"
abbreviation (input) TASK_MAX_RSS_TOP_N :: nat where "TASK_MAX_RSS_TOP_N \<equiv> 8"
abbreviation (input) TASK_MAX_FORKS_TOP_N :: nat where "TASK_MAX_FORKS_TOP_N \<equiv> 5"

definition TASK_TOP_PROCS_get_elem_size :: "mem \<Rightarrow> nat \<Rightarrow> nat option" where
  "TASK_TOP_PROCS_get_elem_size m p = do {
     nprocs \<leftarrow> fld m p TASK_TOP_PROCS_fields ''nprocs_'';
     npg_procs \<leftarrow> fld m p TASK_TOP_PROCS_fields ''npg_procs_'';
     nrss_procs \<leftarrow> fld m p TASK_TOP_PROCS_fields ''nrss_procs_'';
     nfork_procs \<leftarrow> fld m p TASK_TOP_PROCS_fields ''nfork_procs_'';
     Some (csizeof TASK_TOP_PROCS_t + nprocs * csizeof TOP_TASK_t + npg_procs * csizeof TOP_PG_TASK_t +
           nrss_procs * csizeof TOP_TASK_t + nfork_procs * csizeof TOP_FORK_TASK_t)
   }"

definition TASK_TOP_PROCS_get_max_elem_size :: nat where
  "TASK_TOP_PROCS_get_max_elem_size =
     csizeof TASK_TOP_PROCS_t + TASK_MAX_TOP_N * csizeof TOP_TASK_t +
     TASK_MAX_TOPPG_N * csizeof TOP_PG_TASK_t + TASK_MAX_RSS_TOP_N * csizeof TOP_TASK_t +
     TASK_MAX_FORKS_TOP_N * csizeof TOP_FORK_TASK_t"

definition TASK_TOP_PROCS_validate :: "COMM_HEADER \<Rightarrow> mem \<Rightarrow> nat \<Rightarrow> bool option" where
  "TASK_TOP_PROCS_validate h m p =
     (let fixed_sz = csizeof COMM_HEADER_t + csizeof EVENT_NOTIFY_t + csizeof TASK_TOP_PROCS_t in
      if act_len h < fixed_sz then Some False
      else do {
        ext_data_len \<leftarrow> fld m p TASK_TOP_PROCS_fields ''ext_data_len_'';
        if act_len h - fixed_sz \<noteq> ext_data_len then Some False
        else do {
          nprocs \<leftarrow> fld m p TASK_TOP_PROCS_fields ''nprocs_'';
          npg_procs \<leftarrow> fld m p TASK_TOP_PROCS_fields ''npg_procs_'';
          nrss_procs \<leftarrow> fld m p TASK_TOP_PROCS_fields ''nrss_procs_'';
          nfork_procs \<leftarrow> fld m p TASK_TOP_PROCS_fields ''nfork_procs_'';
          if nprocs > TASK_MAX_TOP_N \<or> npg_procs > TASK_MAX_TOP_N \<or> nrss_procs > TASK_MAX_RSS_TOP_N \<or>
             nfork_procs > TASK_MAX_FORKS_TOP_N
          then Some False
          else do {
            elem_sz \<leftarrow> TASK_TOP_PROCS_get_elem_size m p;
            Some (act_len h = fixed_sz - csizeof TASK_TOP_PROCS_t + elem_sz)
          }
        }
      })"

section \<open>\<open>CPU_MEM_STATE_NOTIFY\<close>\<close>

definition CPU_MEM_STATE_NOTIFY_get_act_size :: "mem \<Rightarrow> nat \<Rightarrow> nat option" where
  "CPU_MEM_STATE_NOTIFY_get_act_size m p = do {
     cpu_len \<leftarrow> fld m p CPU_MEM_STATE_NOTIFY_fields ''cpu_state_string_len_'';
     mem_len \<leftarrow> fld m p CPU_MEM_STATE_NOTIFY_fields ''mem_state_string_len_'';
     Some (csizeof CPU_MEM_STATE_NOTIFY_t + cpu_len + mem_len)
   }"

definition CPU_MEM_STATE_NOTIFY_get_elem_size :: "mem \<Rightarrow> nat \<Rightarrow> nat option" where
  "CPU_MEM_STATE_NOTIFY_get_elem_size m p = do {
     act_size \<leftarrow> CPU_MEM_STATE_NOTIFY_get_act_size m p;
     padding_len \<leftarrow> fld m p CPU_MEM_STATE_NOTIFY_fields ''padding_len_'';
     Some (act_size + padding_len)
   }"

text \<open>\<open>this\<close> is the struct right after the \<open>EVENT_NOTIFY\<close> at \<open>pnotify\<close>.\<close>

definition CPU_MEM_STATE_NOTIFY_validate :: "COMM_HEADER \<Rightarrow> mem \<Rightarrow> nat \<Rightarrow> (bool \<times> mem) option" where
  "CPU_MEM_STATE_NOTIFY_validate h m pnotify =
     (let fixed_sz = csizeof COMM_HEADER_t + csizeof EVENT_NOTIFY_t;
          this = pnotify + csizeof EVENT_NOTIFY_t in
      if act_len h < fixed_sz then Some (False, m)
      else do {
        nevents \<leftarrow> fld m pnotify EVENT_NOTIFY_fields ''nevents_'';
        if nevents \<noteq> 1 then Some (False, m)
        else do {
          elem_sz \<leftarrow> CPU_MEM_STATE_NOTIFY_get_elem_size m this;
          if act_len h \<noteq> fixed_sz + elem_sz then Some (False, m)
          else do {
            cpu_len \<leftarrow> fld m this CPU_MEM_STATE_NOTIFY_fields ''cpu_state_string_len_'';
            m1 \<leftarrow> put_nul m (this + csizeof CPU_MEM_STATE_NOTIFY_t) cpu_len;
            mem_len \<leftarrow> fld m1 this CPU_MEM_STATE_NOTIFY_fields ''mem_state_string_len_'';
            m2 \<leftarrow> put_nul m1 (this + csizeof CPU_MEM_STATE_NOTIFY_t + cpu_len) mem_len;
            Some (True, m2)
          }
        }
      })"

section \<open>\<open>TASK_FULL_ADD\<close> has the shape of the other events\<close>

text \<open>One round of the loop in terms of the size without the fixed part, and the strings it
  terminates.\<close>

definition TASK_FULL_ADD_one :: "mem \<Rightarrow> nat \<Rightarrow> nat \<Rightarrow> (bool \<times> mem) option" where
  "TASK_FULL_ADD_one m p elem_sz =
     (if elem_sz mod 8 \<noteq> 0 then Some (False, m)
      else do {
        m' \<leftarrow> TASK_FULL_ADD_terminate m p;
        Some (True, m')
      })"

definition TASK_FULL_ADD_lens :: "mem \<Rightarrow> nat \<Rightarrow> nat list" where
  "TASK_FULL_ADD_lens m p = [fldv m p TASK_FULL_ADD_fields ''task_exe_path_len_'',
     fldv m p TASK_FULL_ADD_fields ''task_cmdline_len_'',
     fldv m p TASK_FULL_ADD_fields ''task_tags_len_'']"

lemma TASK_FULL_ADD_members [gy_size]:
  "cmember TASK_FULL_ADD_fields ''task_comm_'' = (28, 16)"
  "cmember TASK_FULL_ADD_fields ''task_parent_comm_'' = (44, 16)"
  "cmember TASK_FULL_ADD_fields ''task_exe_path_len_'' = (146, 2)"
  "cmember TASK_FULL_ADD_fields ''task_cmdline_len_'' = (148, 2)"
  "cmember TASK_FULL_ADD_fields ''task_tags_len_'' = (150, 2)"
  "cmember TASK_FULL_ADD_fields ''padding_len_'' = (152, 1)"
  by code_simp+

interpretation task_full: nul_elem "csizeof TASK_FULL_ADD_t" TASK_FULL_ADD_get_elem_size
  TASK_FULL_ADD_one aligned_elem TASK_FULL_ADD_fields "[''task_comm_'', ''task_parent_comm_'']"
  TASK_FULL_ADD_lens
  by unfold_locales
    (auto simp: TASK_FULL_ADD_get_elem_size_def TASK_FULL_ADD_one_def TASK_FULL_ADD_terminate_def
       TASK_FULL_ADD_lens_def fldv_put_last_nul fld_put_last_nul members_apart_def elem_simps gy_size
       dest!: put_last_nul_len split: bind_splits)

lemma mod_24: "(184 + a + b + c + d) mod 8 = (160 + a + b + c + d) mod (8 :: nat)"
proof -
  have "184 + a + b + c + d = (160 + a + b + c + d) + 3 * 8" by simp
  then show ?thesis by (simp only: mod_mult_self1)
qed

text \<open>The loop on the header copy is the loop on the remaining length.\<close>

lemma TASK_FULL_ADD_validate_one_eq:
  assumes "act_len h = 24 + n"
  shows "TASK_FULL_ADD_validate_one h m p = (if n < 160 then Some (None, m)
      else do {
        e \<leftarrow> TASK_FULL_ADD_get_elem_size m p;
        if n < e then Some (None, m)
        else if e mod 8 \<noteq> 0 then Some (None, m)
        else do {m' \<leftarrow> TASK_FULL_ADD_terminate m p; Some (Some (24 + e), m')}
      })"
  using assms
  by (auto simp: TASK_FULL_ADD_validate_one_def TASK_FULL_ADD_get_elem_size_def Let_def
      mod_24 split: bind_splits)

lemma TASK_FULL_ADD_loop_eq:
  assumes "hdr_ok h" and "act_len h = 24 + n"
  shows "TASK_FULL_ADD_loop k h p m =
    elem_loop (csizeof TASK_FULL_ADD_t) TASK_FULL_ADD_get_elem_size TASK_FULL_ADD_one k (int n) p m"
  using assms
proof (induction k arbitrary: h p m n)
  case (Suc k)
  have pos: "sint (total_sz h) > 16"
    using hdr_ok_sint [OF Suc.prems(1)] hdr_ok_act_len [OF Suc.prems(1)] Suc.prems(2) by linarith
  have step: "TASK_FULL_ADD_loop k (h\<lparr>total_sz := total_sz h - of_nat e\<rparr>) (p + e) m' =
      elem_loop (csizeof TASK_FULL_ADD_t) TASK_FULL_ADD_get_elem_size TASK_FULL_ADD_one k
        (int n - int e) (p + e) m'" if "e \<le> n" for e m'
    using Suc.IH [of "h\<lparr>total_sz := total_sz h - of_nat e\<rparr>" "n - e"]
      hdr_ok_shrink [OF Suc.prems(1), of e] that Suc.prems(2)
    by (simp add: of_nat_diff)
  show ?case
    using pos step
    by (auto simp: TASK_FULL_ADD_one_def [of m p] TASK_FULL_ADD_validate_one_eq [OF Suc.prems(2)]
        Let_def split: bind_splits)
qed simp

lemma TASK_FULL_ADD_validate_eq:
  assumes "event_hdr_in h m pn" and "hdr_ok h"
  shows "TASK_FULL_ADD_validate h m pn =
    validate_elems (2 ^ 32) (csizeof TASK_FULL_ADD_t) TASK_FULL_ADD_get_elem_size TASK_FULL_ADD_one h m pn"
proof -
  obtain n where n: "act_len h = 24 + n"
    using assms(1) by (auto simp: event_hdr_in_def le_iff_add)
  then have "int (act_len h) - 24 = int n" by linarith
  then show ?thesis
    using n TASK_FULL_ADD_loop_eq [OF assms(2) n] nevents_of_bound [of m pn]
    by (simp add: TASK_FULL_ADD_validate_def validate_elems_def event_hdr_nevents [OF assms(1)] Let_def
        del: of_nat_unat)
qed

section \<open>\<open>TASK_MINI_ADD\<close> stays inside of the message\<close>

lemma TASK_MINI_ADD_members [gy_size]:
  "cmember TASK_MINI_ADD_fields ''task_pid_'' = (16, 4)"
  "cmember TASK_MINI_ADD_fields ''task_comm_'' = (28, 16)"
  "cmember TASK_MINI_ADD_fields ''task_parent_comm_'' = (44, 16)"
  "cmember TASK_MINI_ADD_fields ''task_cmdline_len_'' = (84, 4)"
  "cmember TASK_MINI_ADD_fields ''padding_len_'' = (88, 4)"
  by code_simp+

lemma TASK_MINI_ADD_validate_one_in:
  assumes "p + act_len h \<le> length m + 24"
  shows "\<exists>r m'. TASK_MINI_ADD_validate_one h m p = Some (r, m') \<and>
    same_off m m' p (p + act_len h - 24) \<and>
    (\<forall>e. r = Some e \<longrightarrow> 120 \<le> e \<and> e \<le> act_len h \<and> TASK_MINI_ADD_get_elem_size m p = Some (e - 24) \<and>
       TASK_MINI_ADD_get_elem_size m' p = Some (e - 24))"
proof (cases "act_len h < 120")
  case True
  then show ?thesis by (simp add: TASK_MINI_ADD_validate_one_def)
next
  case False
  let ?F = TASK_MINI_ADD_fields
  let ?c = "fldv m p ?F ''task_cmdline_len_''" and ?pad = "fldv m p ?F ''padding_len_''"
  have inm: "p + 96 \<le> length m" using False assms by simp
  show ?thesis
  proof (cases "act_len h < 120 + ?c + ?pad \<or> fldv m p ?F ''task_pid_'' = 0 \<or> (120 + ?c + ?pad) mod 8 \<noteq> 0")
    case True
    then show ?thesis using False inm
      by (auto simp: TASK_MINI_ADD_validate_one_def fld_in gy_size Let_def)
  next
    case ok: False
    then have le: "120 + ?c + ?pad \<le> act_len h" by linarith
    have within: "members_within ?F 96 [''task_comm_'', ''task_parent_comm_'']"
      by (simp add: members_within_def gy_size)
    obtain m1 where m1: "put_last_nuls m p ?F [''task_comm_'', ''task_parent_comm_''] = Some m1"
        "same_off m m1 p (p + 96)"
      using put_last_nuls_in [OF inm within] by auto
    have c1: "fldv m1 p ?F nm = fldv m p ?F nm" if "nm \<in> {''task_cmdline_len_'', ''padding_len_''}" for nm
      by (rule fldv_put_last_nuls [OF m1(1)]) (use that in \<open>auto simp: members_apart_def gy_size\<close>)
    have len1: "length m1 = length m" by (rule same_off_len [OF m1(2)])
    obtain m2 where m2: "put_nul m1 (p + 96) ?c = Some m2" "same_off m1 m2 (p + 96) (p + 96 + ?c)"
      using put_nul_in [of "p + 96" ?c m1] ok assms len1 by auto
    have "same_off m m1 p (p + act_len h - 24)" by (rule same_off_mono [OF m1(2)]) (use False in simp_all)
    moreover have "same_off m1 m2 p (p + act_len h - 24)" by (rule same_off_mono [OF m2(2)]) (use le in simp_all)
    ultimately have "same_off m m2 p (p + act_len h - 24)" by (rule same_off_trans)
    moreover have "TASK_MINI_ADD_validate_one h m p = Some (Some (120 + ?c + ?pad), m2)"
      using False ok inm m1(1) m2(1) c1 len1
      by (simp add: TASK_MINI_ADD_validate_one_def fld_in gy_size Let_def del: put_last_nuls.simps)
    moreover have "fldv m2 p ?F nm = fldv m p ?F nm" if "nm \<in> {''task_cmdline_len_'', ''padding_len_''}" for nm
      using fldv_put_nul [OF m2(1), of p ?F nm] c1 [OF that] that by (auto simp: gy_size)
    then have "TASK_MINI_ADD_get_elem_size m p = Some (96 + ?c + ?pad)"
        "TASK_MINI_ADD_get_elem_size m2 p = Some (96 + ?c + ?pad)"
      using inm le act_len_bound [of h] len1 same_off_len [OF m2(2)]
      by (simp_all add: TASK_MINI_ADD_get_elem_size_def fld_in gy_size)
    ultimately show ?thesis using le by simp
  qed
qed

lemma TASK_MINI_ADD_loop_in:
  assumes "hdr_ok h" and "p + act_len h \<le> length m + 24"
  shows "\<exists>b m'. TASK_MINI_ADD_loop k h p m = Some (b, m') \<and> same_off m m' p (p + act_len h - 24)"
  using assms
proof (induction k arbitrary: h p m)
  case (Suc k)
  obtain r m1 where r: "TASK_MINI_ADD_validate_one h m p = Some (r, m1)"
      "same_off m m1 p (p + act_len h - 24)" "\<And>e. r = Some e \<Longrightarrow> 120 \<le> e \<and> e \<le> act_len h"
    using TASK_MINI_ADD_validate_one_in [OF Suc.prems(2)] by auto
  show ?case
  proof (cases r)
    case None
    then show ?thesis using r by auto
  next
    case (Some e)
    let ?h = "h\<lparr>total_sz := total_sz h - of_nat e\<rparr>"
    have e: "e \<le> act_len h" using r(3) Some by simp
    note h' = hdr_ok_shrink [OF Suc.prems(1) e]
    have "p + e + act_len ?h \<le> length m1 + 24"
      using Suc.prems(2) e h'(2) same_off_len [OF r(2)] by simp
    then obtain b m2 where m2: "TASK_MINI_ADD_loop k ?h (p + e) m1 = Some (b, m2)"
        "same_off m1 m2 (p + e) (p + e + act_len ?h - 24)"
      using Suc.IH [OF h'(1)] by blast
    have "same_off m1 m2 p (p + act_len h - 24)"
      by (rule same_off_mono [OF m2(2)]) (use h'(2) e in simp_all)
    with r(2) have "same_off m m2 p (p + act_len h - 24)" by (rule same_off_trans)
    then show ?thesis using r(1,2) m2(1) Some by auto
  qed
qed auto

lemma TASK_MINI_ADD_validate_in:
  assumes "event_hdr_in h m pn" and "hdr_ok h"
  shows "\<exists>b m'. TASK_MINI_ADD_validate h m pn = Some (b, m') \<and>
    same_off m m' (pn + 8) (pn + act_len h - 16)"
proof -
  have "pn + 8 + act_len h \<le> length m + 24" using assms(1) by (simp add: event_hdr_in_def event_in_def)
  from TASK_MINI_ADD_loop_in [OF assms(2) this, of "nevents_of m pn"] show ?thesis
    by (simp add: TASK_MINI_ADD_validate_def event_hdr_nevents [OF assms(1)])
qed

section \<open>\<open>TASK_TOP_PROCS\<close> and \<open>CPU_MEM_STATE_NOTIFY\<close>\<close>

lemma TASK_TOP_PROCS_members [gy_size]:
  "cmember TASK_TOP_PROCS_fields ''nprocs_'' = (0, 2)"
  "cmember TASK_TOP_PROCS_fields ''npg_procs_'' = (2, 2)"
  "cmember TASK_TOP_PROCS_fields ''nrss_procs_'' = (4, 2)"
  "cmember TASK_TOP_PROCS_fields ''nfork_procs_'' = (6, 2)"
  "cmember TASK_TOP_PROCS_fields ''ext_data_len_'' = (8, 2)"
  by code_simp+

lemma CPU_MEM_STATE_NOTIFY_members [gy_size]:
  "cmember CPU_MEM_STATE_NOTIFY_fields ''cpu_state_string_len_'' = (68, 1)"
  "cmember CPU_MEM_STATE_NOTIFY_fields ''mem_state_string_len_'' = (196, 1)"
  "cmember CPU_MEM_STATE_NOTIFY_fields ''padding_len_'' = (197, 1)"
  by code_simp+

text \<open>An accepted \<open>TASK_TOP_PROCS\<close> fills the message with its four arrays.\<close>

definition TASK_TOP_PROCS_wf :: "COMM_HEADER \<Rightarrow> mem \<Rightarrow> nat \<Rightarrow> bool" where
  "TASK_TOP_PROCS_wf h m p \<longleftrightarrow>
     (let n = fldv m p TASK_TOP_PROCS_fields ''nprocs_'';
          npg = fldv m p TASK_TOP_PROCS_fields ''npg_procs_'';
          nrss = fldv m p TASK_TOP_PROCS_fields ''nrss_procs_'';
          nfork = fldv m p TASK_TOP_PROCS_fields ''nfork_procs_''
      in n \<le> 15 \<and> npg \<le> 15 \<and> nrss \<le> 8 \<and> nfork \<le> 5 \<and>
         act_len h = 40 + n * 40 + npg * 64 + nrss * 40 + nfork * 40 \<and>
         fldv m p TASK_TOP_PROCS_fields ''ext_data_len_'' = act_len h - 40)"

lemma TASK_TOP_PROCS_validate_eq:
  assumes "p + act_len h \<le> length m + 24"
  shows "TASK_TOP_PROCS_validate h m p = Some (TASK_TOP_PROCS_wf h m p)"
proof (cases "act_len h < 40")
  case True
  then show ?thesis by (auto simp: TASK_TOP_PROCS_validate_def TASK_TOP_PROCS_wf_def Let_def)
next
  case False
  then have "p + 16 \<le> length m" using assms by simp
  then show ?thesis using False
    by (auto simp: TASK_TOP_PROCS_validate_def TASK_TOP_PROCS_get_elem_size_def TASK_TOP_PROCS_wf_def
        fld_in gy_size Let_def)
qed

definition CPU_MEM_STATE_NOTIFY_wf :: "COMM_HEADER \<Rightarrow> mem \<Rightarrow> nat \<Rightarrow> bool" where
  "CPU_MEM_STATE_NOTIFY_wf h m pn \<longleftrightarrow> nevents_of m pn = 1 \<and>
     act_len h = 224 + fldv m (pn + 8) CPU_MEM_STATE_NOTIFY_fields ''cpu_state_string_len_'' +
       fldv m (pn + 8) CPU_MEM_STATE_NOTIFY_fields ''mem_state_string_len_'' +
       fldv m (pn + 8) CPU_MEM_STATE_NOTIFY_fields ''padding_len_''"

lemma CPU_MEM_STATE_NOTIFY_validate_correct:
  assumes "event_hdr_in h m pn" and buf: "pn + 8 + csizeof CPU_MEM_STATE_NOTIFY_t \<le> length m"
  shows "\<exists>m'. CPU_MEM_STATE_NOTIFY_validate h m pn = Some (CPU_MEM_STATE_NOTIFY_wf h m pn, m') \<and>
    same_off m m' (pn + 208) (pn + act_len h - 16)"
proof (cases "CPU_MEM_STATE_NOTIFY_wf h m pn")
  case True
  let ?F = CPU_MEM_STATE_NOTIFY_fields
  let ?c = "fldv m (pn + 8) ?F ''cpu_state_string_len_''" and ?e = "fldv m (pn + 8) ?F ''mem_state_string_len_''"
  have a: "224 + ?c + ?e \<le> act_len h" "pn + act_len h \<le> length m + 16"
    using True assms(1) by (simp_all add: CPU_MEM_STATE_NOTIFY_wf_def event_hdr_in_def event_in_def)
  obtain m' where m': "put_nuls m (208 + pn) [?c, ?e] = Some m'"
      "same_off m m' (208 + pn) (208 + pn + (?c + ?e))"
    using put_nuls_in [of "208 + pn" "[?c, ?e]" m] a by auto
  have off: "same_off m m' (pn + 208) (pn + act_len h - 16)"
    by (rule same_off_mono [OF m'(2)]) (use a in simp_all)
  obtain m1 where m1: "put_nul m (208 + pn) ?c = Some m1" "put_nul m1 (208 + pn + ?c) ?e = Some m'"
    using m'(1) by (auto split: bind_splits)
  have "fld m1 (pn + 8) ?F ''mem_state_string_len_'' = fld m (pn + 8) ?F ''mem_state_string_len_''"
    by (rule fld_put_nul [OF m1(1)]) (simp add: gy_size)
  then show ?thesis
    using True m1 off buf a assms(1)
    by (auto simp: CPU_MEM_STATE_NOTIFY_validate_def CPU_MEM_STATE_NOTIFY_get_elem_size_def
        CPU_MEM_STATE_NOTIFY_get_act_size_def CPU_MEM_STATE_NOTIFY_wf_def fld_in gy_size
        event_hdr_nevents [OF assms(1)] Let_def)
next
  case False
  then show ?thesis
    using buf assms(1)
    by (auto simp: CPU_MEM_STATE_NOTIFY_validate_def CPU_MEM_STATE_NOTIFY_get_elem_size_def
        CPU_MEM_STATE_NOTIFY_get_act_size_def CPU_MEM_STATE_NOTIFY_wf_def fld_in gy_size
        event_hdr_nevents [OF assms(1)] Let_def)
qed

text \<open>The result on every buffer: the members are read whenever one element is announced.\<close>

lemma CPU_MEM_STATE_NOTIFY_validate_short:
  assumes "event_hdr_in h m pn" and "nevents_of m pn = 1" and "length m < pn + 206"
  shows "CPU_MEM_STATE_NOTIFY_validate h m pn = None"
proof -
  have "CPU_MEM_STATE_NOTIFY_get_elem_size m (pn + 8) = None"
    using assms(3)
    by (auto simp: CPU_MEM_STATE_NOTIFY_get_elem_size_def CPU_MEM_STATE_NOTIFY_get_act_size_def
        fld_def rd_def gy_size split: bind_splits)
  then show ?thesis
    using assms(1,2)
    by (simp add: CPU_MEM_STATE_NOTIFY_validate_def event_hdr_nevents event_hdr_in_def Let_def)
qed

lemma CPU_MEM_STATE_NOTIFY_validate_reach:
  assumes "event_hdr_in h m pn" and "nevents_of m pn \<noteq> 1 \<or> pn + 206 \<le> length m"
  shows "\<exists>m'. CPU_MEM_STATE_NOTIFY_validate h m pn = Some (CPU_MEM_STATE_NOTIFY_wf h m pn, m') \<and>
    same_off m m' (pn + 208) (pn + act_len h - 16)"
proof (cases "nevents_of m pn = 1 \<and> \<not> pn + 208 \<le> length m")
  case True
  then have "act_len h < 224" using assms(1) by (simp add: event_hdr_in_def event_in_def)
  then show ?thesis using True assms
    by (auto simp: CPU_MEM_STATE_NOTIFY_validate_def CPU_MEM_STATE_NOTIFY_get_elem_size_def
        CPU_MEM_STATE_NOTIFY_get_act_size_def CPU_MEM_STATE_NOTIFY_wf_def fld_in gy_size
        event_hdr_nevents [OF assms(1)] Let_def)
next
  case False
  show ?thesis
  proof (cases "nevents_of m pn = 1")
    case True
    then show ?thesis using CPU_MEM_STATE_NOTIFY_validate_correct [OF assms(1)] False by simp
  qed (use assms(1) in \<open>auto simp: CPU_MEM_STATE_NOTIFY_validate_def CPU_MEM_STATE_NOTIFY_wf_def
      event_hdr_nevents [OF assms(1)] event_hdr_in_def Let_def\<close>)
qed

text \<open>The first element of an accepted \<open>TASK_MINI_ADD\<close> is inside of the message.\<close>

lemma TASK_MINI_ADD_validate_first:
  assumes "event_hdr_in h m pn" and "hdr_ok h" and "TASK_MINI_ADD_validate h m pn = Some (True, m')"
    and "nevents_of m pn \<noteq> 0"
  shows "\<exists>n. TASK_MINI_ADD_get_elem_size m' (pn + 8) = Some n \<and> 96 \<le> n \<and> 24 + n \<le> act_len h"
proof -
  let ?p = "pn + 8" and ?F = TASK_MINI_ADD_fields
  obtain k where k: "nevents_of m pn = Suc k" using assms(4) by (cases "nevents_of m pn") auto
  have inm: "?p + act_len h \<le> length m + 24" using assms(1) by (simp add: event_hdr_in_def event_in_def)
  have loop: "TASK_MINI_ADD_loop (Suc k) h ?p m = Some (True, m')"
    using assms(3) k by (simp add: TASK_MINI_ADD_validate_def event_hdr_nevents [OF assms(1)])
  obtain r m1 where r: "TASK_MINI_ADD_validate_one h m ?p = Some (r, m1)" "same_off m m1 ?p (?p + act_len h - 24)"
      "\<And>e. r = Some e \<Longrightarrow> 120 \<le> e \<and> e \<le> act_len h \<and> TASK_MINI_ADD_get_elem_size m1 ?p = Some (e - 24)"
    using TASK_MINI_ADD_validate_one_in [OF inm] by auto
  obtain e where e: "r = Some e" using loop r(1) by (auto split: if_splits option.splits)
  note e' = r(3) [OF e]
  let ?h = "h\<lparr>total_sz := total_sz h - of_nat e\<rparr>"
  note h' = hdr_ok_shrink [OF assms(2), of e]
  have l2: "TASK_MINI_ADD_loop k ?h (?p + e) m1 = Some (True, m')" using loop r(1) e by (simp split: if_splits)
  have "?p + e + act_len ?h \<le> length m1 + 24" using inm e' h'(2) same_off_len [OF r(2)] by simp
  from TASK_MINI_ADD_loop_in [OF h'(1) this, of k] l2 e'
  have off: "same_off m1 m' (?p + e) (?p + e + act_len ?h - 24)" by auto
  have on: "same_on m1 m' ?p (?p + 96)" by (rule same_off_on [OF off]) (use e' in simp)
  have "TASK_MINI_ADD_get_elem_size m' ?p = TASK_MINI_ADD_get_elem_size m1 ?p"
    unfolding TASK_MINI_ADD_get_elem_size_def by (simp add: fld_local [OF on] gy_size)
  then show ?thesis using e' by auto
qed

section \<open>Properties\<close>

text \<open>(C36) Unlike \<open>TASK_FULL_ADD::validate\<close>, the loop of \<open>TASK_MINI_ADD::validate\<close> does not take the 24
  bytes of the headers off the size of an element before it steps to the next one. A message with
  exactly two elements, one after the other, is rejected whenever the second is smaller than 120
  bytes, that is, has a command line of less than 24 bytes with its padding.\<close>

theorem TASK_MINI_ADD_rejects_pair:
  assumes hin: "event_hdr_in h m pn" and ok: "hdr_ok h"
    and two: "nevents_of m pn = 2"
    and e1: "TASK_MINI_ADD_get_elem_size m (pn + 8) = Some e1"
    and len: "act_len h = 24 + e1 + e2" and small: "e2 < 120"
  shows "\<exists>m'. TASK_MINI_ADD_validate h m pn = Some (False, m')"
proof -
  have inm: "pn + 8 + act_len h \<le> length m + 24" using hin by (simp add: event_hdr_in_def event_in_def)
  obtain r m1 where r: "TASK_MINI_ADD_validate_one h m (pn + 8) = Some (r, m1)"
      "\<And>e. r = Some e \<Longrightarrow> 120 \<le> e \<and> e \<le> act_len h \<and> e1 = e - 24"
    using TASK_MINI_ADD_validate_one_in [OF inm] e1 by auto
  have unfold: "TASK_MINI_ADD_validate h m pn = TASK_MINI_ADD_loop (Suc (Suc 0)) h (pn + 8) m"
    using two by (simp add: TASK_MINI_ADD_validate_def event_hdr_nevents [OF hin] numeral_2_eq_2)
  show ?thesis
  proof (cases r)
    case None
    then show ?thesis using r(1) by (simp add: unfold)
  next
    case (Some e)
    let ?h = "h\<lparr>total_sz := total_sz h - of_nat e\<rparr>"
    have "act_len ?h = e2" using hdr_ok_shrink(2) [OF ok, of e] r(2) [OF Some] len by simp
    then have "TASK_MINI_ADD_validate_one ?h m1 (pn + 8 + e) = Some (None, m1)"
      using small by (simp add: TASK_MINI_ADD_validate_one_def)
    then show ?thesis using r(1) Some by (simp add: unfold)
  qed
qed

text \<open>Two elements without command line, with the process ids 1.\<close>

definition mini_pair :: mem where
  "mini_pair = [1, 3, 0, 0, 2, 0, 0, 0] @ replicate 16 0 @ [1] @ replicate 79 0 @
     replicate 16 0 @ [1] @ replicate 79 0"

theorem TASK_MINI_ADD_rejects_pair_witness:
  "\<exists>m'. TASK_MINI_ADD_validate
     \<lparr>magic = 0x05666605, total_sz = 216, data_type = 14, padding_sz = 0\<rparr> mini_pair 0 = Some (False, m')"
proof (rule TASK_MINI_ADD_rejects_pair [where ?e1.0 = 96 and ?e2.0 = 96])
  show "TASK_MINI_ADD_get_elem_size mini_pair (0 + 8) = Some 96"
    by (simp add: TASK_MINI_ADD_get_elem_size_def fld_def rd_def rdv_def gy_size mini_pair_def)
  show "nevents_of mini_pair 0 = 2" by (simp add: nevents_of_def rdv_def mini_pair_def)
qed (simp_all add: event_hdr_in_def event_in_def hdr_ok_def get_act_len_def mini_pair_def)

text \<open>\<open>TASK_TOP_PROCS::validate\<close> limits \<open>npg_procs_\<close> by the limit of another array. It accepts
  messages whose element is larger than \<open>get_max_elem_size\<close>.\<close>

theorem TASK_TOP_PROCS_exceeds_max:
  "\<exists>h m e. TASK_TOP_PROCS_validate h m 0 = Some True \<and> TASK_TOP_PROCS_get_elem_size m 0 = Some e \<and>
     TASK_TOP_PROCS_get_max_elem_size < e"
proof -
  let ?h = "\<lparr>magic = 0x05666605, total_sz = 2120, data_type = 14, padding_sz = 0\<rparr>"
  let ?m = "[15, 0, 15, 0, 8, 0, 5, 0, 0x20, 8, 0, 0, 0, 0, 0, 0] :: mem"
  have e: "TASK_TOP_PROCS_get_elem_size ?m 0 = Some 2096"
    by (simp add: TASK_TOP_PROCS_get_elem_size_def fld_def rd_def rdv_def gy_size)
  then have "TASK_TOP_PROCS_validate ?h ?m 0 = Some True"
    by (simp add: TASK_TOP_PROCS_validate_def get_act_len_def fld_def rd_def rdv_def gy_size Let_def)
  moreover have "TASK_TOP_PROCS_get_max_elem_size < 2096"
    by (simp add: TASK_TOP_PROCS_get_max_elem_size_def)
  ultimately show ?thesis using e by blast
qed



end
