(* ===== verification/Gy_Query_Msgs.thy ===== *)
theory Gy_Query_Msgs
  imports Gy_Var_Events Gy_Fixed_Events
begin

text \<open>
  The structs that follow a \<open>QUERY_CMD\<close> or a \<open>QUERY_RESPONSE\<close>, and \<open>ERROR_NOTIFY\<close>
  (\<open>common/gy_comm_proto.h\<close>, \<open>common/gy_comm_proto.cc\<close>). \<open>p\<close> is the address of the struct, \<open>presp\<close>
  the address of the \<open>QUERY_RESPONSE\<close>, which comes right after the header. The sums of lengths are
  \<open>size_t\<close> sums of 32 bit terms and do not wrap.
\<close>

section \<open>Methods\<close>

definition ERROR_NOTIFY_validate :: "COMM_HEADER \<Rightarrow> mem \<Rightarrow> nat \<Rightarrow> bool option" where
  "ERROR_NOTIFY_validate h m p =
     (let fixed_sz = csizeof COMM_HEADER_t + csizeof EVENT_NOTIFY_t + csizeof ERROR_NOTIFY_t in
      if act_len h < fixed_sz then Some False
      else do {
        error_string_len \<leftarrow> fld m p ERROR_NOTIFY_fields ''error_string_len_'';
        if act_len h < fixed_sz + error_string_len then Some False else Some True
      })"

definition QUERY_RESPONSE_validate :: "COMM_HEADER \<Rightarrow> mem \<Rightarrow> nat \<Rightarrow> bool option" where
  "QUERY_RESPONSE_validate h m p =
     (let fixed_sz = csizeof COMM_HEADER_t + csizeof QUERY_RESPONSE_t in
      if act_len h < fixed_sz then Some False
      else do {
        resp_len \<leftarrow> fld m p QUERY_RESPONSE_fields ''resp_len_'';
        if act_len h \<noteq> fixed_sz + resp_len then Some False else Some True
      })"

definition PARTHA_MADHAVA_REQ_validate :: "COMM_HEADER \<Rightarrow> mem \<Rightarrow> nat \<Rightarrow> bool option" where
  "PARTHA_MADHAVA_REQ_validate h m p =
     (let fixed_sz = csizeof COMM_HEADER_t + csizeof QUERY_CMD_t + csizeof PARTHA_MADHAVA_REQ_t in
      if act_len h < fixed_sz then Some False
      else do {
        hostname_len \<leftarrow> fld m p PARTHA_MADHAVA_REQ_fields ''partha_hostname_len_'';
        tags_len \<leftarrow> fld m p PARTHA_MADHAVA_REQ_fields ''extra_tags_len_'';
        if act_len h < fixed_sz + hostname_len + tags_len then Some False
        else do {
          id_hi \<leftarrow> fld m p PARTHA_MADHAVA_REQ_fields ''partha_machine_id_hi_'';
          id_lo \<leftarrow> fld m p PARTHA_MADHAVA_REQ_fields ''partha_machine_id_lo_'';
          if id_hi > 0 \<and> id_lo > 0 then Some True
          else if hostname_len > MAX_DOMAINNAME_SIZE \<or> tags_len > MAX_TOTAL_TAG_LEN then Some False
          else Some True
        }
      })"

definition PARTHA_MADHAVA_RESP_validate :: "COMM_HEADER \<Rightarrow> mem \<Rightarrow> nat \<Rightarrow> nat \<Rightarrow> bool option" where
  "PARTHA_MADHAVA_RESP_validate h m presp p =
     (let fixed_sz = csizeof COMM_HEADER_t + csizeof QUERY_RESPONSE_t + csizeof PARTHA_MADHAVA_RESP_t in
      if act_len h \<noteq> fixed_sz then Some False
      else do {
        resp_len \<leftarrow> fld m presp QUERY_RESPONSE_fields ''resp_len_'';
        if resp_len \<noteq> csizeof PARTHA_MADHAVA_RESP_t then Some False
        else do {
          madhava_id \<leftarrow> fld m p PARTHA_MADHAVA_RESP_fields ''madhava_id_'';
          port \<leftarrow> fld m p PARTHA_MADHAVA_RESP_fields ''madhava_svc_port_'';
          if madhava_id = 0 \<or> port = 0 then Some False else Some True
        }
      })"

text \<open>The responses of one struct of a fixed size, \<open>ERROR_STRING_RESP\<close> and \<open>NUM_PARTHA_RESP\<close>.\<close>

definition single_resp_validate :: "ctype \<Rightarrow> COMM_HEADER \<Rightarrow> mem \<Rightarrow> nat \<Rightarrow> bool option" where
  "single_resp_validate t h m presp =
     (if act_len h = csizeof COMM_HEADER_t + csizeof QUERY_RESPONSE_t + csizeof t
      then do {
        resp_len \<leftarrow> fld m presp QUERY_RESPONSE_fields ''resp_len_'';
        Some (resp_len = csizeof t)
      }
      else Some False)"

definition ERROR_STRING_RESP_validate :: "COMM_HEADER \<Rightarrow> mem \<Rightarrow> nat \<Rightarrow> bool option" where
  "ERROR_STRING_RESP_validate = single_resp_validate ERROR_STRING_RESP_t"

definition NUM_PARTHA_RESP_validate :: "COMM_HEADER \<Rightarrow> mem \<Rightarrow> nat \<Rightarrow> bool option" where
  "NUM_PARTHA_RESP_validate = single_resp_validate NUM_PARTHA_RESP_t"

definition NUM_PARTHA_REQ_validate :: "COMM_HEADER \<Rightarrow> bool" where
  "NUM_PARTHA_REQ_validate h \<longleftrightarrow>
     act_len h = csizeof COMM_HEADER_t + csizeof QUERY_CMD_t + csizeof NUM_PARTHA_REQ_t"

section \<open>\<open>LISTENER_INFO_REQ\<close>\<close>

definition LISTENER_INFO_REQ_validate :: "COMM_HEADER \<Rightarrow> mem \<Rightarrow> nat \<Rightarrow> (bool \<times> mem) option" where
  "LISTENER_INFO_REQ_validate h m p =
     (let fixed_sz = csizeof COMM_HEADER_t + csizeof QUERY_CMD_t + csizeof LISTENER_INFO_REQ_t in
      if act_len h < fixed_sz then Some (False, m)
      else do {
        nelems \<leftarrow> fld m p LISTENER_INFO_REQ_fields ''ntcp_listeners_'';
        if nelems > NEW_LISTENER_MAX_NUM_LISTENERS then Some (False, m)
        else elem_loop (csizeof NEW_LISTENER_t) NEW_LISTENER_get_elem_size NEW_LISTENER_one nelems
               (int (act_len h) - int fixed_sz) (p + csizeof LISTENER_INFO_REQ_t) m
      })"

text \<open>\<open>totallen\<close> is a \<open>uint32_t\<close>.\<close>

primrec LISTENER_INFO_REQ_sizes :: "nat \<Rightarrow> 32 word \<Rightarrow> nat \<Rightarrow> mem \<Rightarrow> 32 word option" where
  "LISTENER_INFO_REQ_sizes 0 totallen pone m = Some totallen"
| "LISTENER_INFO_REQ_sizes (Suc k) totallen pone m = do {
     elem_sz \<leftarrow> NEW_LISTENER_get_elem_size m pone;
     LISTENER_INFO_REQ_sizes k (totallen + of_nat elem_sz) (pone + elem_sz) m
   }"

definition LISTENER_INFO_REQ_get_elem_size :: "mem \<Rightarrow> nat \<Rightarrow> 32 word option" where
  "LISTENER_INFO_REQ_get_elem_size m p = do {
     nelems \<leftarrow> fld m p LISTENER_INFO_REQ_fields ''ntcp_listeners_'';
     LISTENER_INFO_REQ_sizes nelems (of_nat (csizeof LISTENER_INFO_REQ_t))
       (p + csizeof LISTENER_INFO_REQ_t) m
   }"

section \<open>\<open>LISTENERS_INFO_STATS_RESP\<close>\<close>

definition LISTENERS_INFO_STATS_RESP_validate :: "COMM_HEADER \<Rightarrow> mem \<Rightarrow> nat \<Rightarrow> nat \<Rightarrow> bool option" where
  "LISTENERS_INFO_STATS_RESP_validate h m presp p =
     (let fixed_sz =
            csizeof COMM_HEADER_t + csizeof QUERY_RESPONSE_t + csizeof LISTENERS_INFO_STATS_RESP_t in
      if act_len h < fixed_sz then Some False
      else do {
        resp_len \<leftarrow> fld m presp QUERY_RESPONSE_fields ''resp_len_'';
        if resp_len < csizeof LISTENERS_INFO_STATS_RESP_t then Some False
        else do {
          nelems \<leftarrow> fld m p LISTENERS_INFO_STATS_RESP_fields ''ntcp_listeners_'';
          Some (LISTENER_DAY_STATS_validate_elems nelems
                  (int resp_len - int (csizeof LISTENERS_INFO_STATS_RESP_t)))
        }
      })"

definition LISTENERS_INFO_STATS_RESP_get_elem_size :: "mem \<Rightarrow> nat \<Rightarrow> nat option" where
  "LISTENERS_INFO_STATS_RESP_get_elem_size m p = do {
     ntcp_listeners \<leftarrow> fld m p LISTENERS_INFO_STATS_RESP_fields ''ntcp_listeners_'';
     Some ((csizeof LISTENERS_INFO_STATS_RESP_t + ntcp_listeners * csizeof LISTENER_DAY_STATS_t) mod 2 ^ 32)
   }"

section \<open>Lemmas\<close>

lemma query_members [gy_size]:
  "cmember ERROR_NOTIFY_fields ''error_string_len_'' = (4, 4)"
  "cmember QUERY_RESPONSE_fields ''resp_len_'' = (20, 4)"
  "cmember LISTENER_INFO_REQ_fields ''ntcp_listeners_'' = (0, 4)"
  "cmember LISTENERS_INFO_STATS_RESP_fields ''ntcp_listeners_'' = (0, 4)"
  by code_simp+

text \<open>The sum over the walk, when it does not exceed a 32 bit length.\<close>

lemma LISTENER_INFO_REQ_sizes_eq:
  "elem_walk NEW_LISTENER_get_elem_size k p m = Some w \<Longrightarrow>
     LISTENER_INFO_REQ_sizes k t p m = Some (t + of_nat (sum_list (map snd w)))"
  by (induction k arbitrary: t p w) (auto split: bind_splits simp: algebra_simps)

text \<open>(C19) \<open>LISTENER_INFO_REQ\<close>: on any message in the receive buffer \<open>validate\<close> neither reads nor writes
  outside of the listeners' part of the message. If it accepts, then \<open>get_elem_size\<close>, which walks
  the elements again after the terminating NULs are stored and sums their sizes in 32 bits, returns
  the exact size of the struct and its elements, and this size lies inside of the message.\<close>

theorem LISTENER_INFO_REQ_validated_size:
  assumes "p + act_len h \<le> length m + 40"
  shows "\<exists>b m'. LISTENER_INFO_REQ_validate h m p = Some (b, m') \<and>
     same_off m m' (p + 8) (p + act_len h - 40) \<and>
     (b \<longrightarrow> (\<exists>w s. elem_walk NEW_LISTENER_get_elem_size (rdv m p 4) (p + 8) m' = Some w \<and>
                   LISTENER_INFO_REQ_get_elem_size m' p = Some s \<and>
                   unat s = 8 + sum_list (map snd w) \<and> 40 + unat s \<le> act_len h))"
proof (cases "act_len h < 48 \<or> rdv m p 4 > NEW_LISTENER_MAX_NUM_LISTENERS")
  case True
  have "p + 8 \<le> length m \<or> act_len h < 48" using assms by linarith
  with True show ?thesis
    by (auto simp: LISTENER_INFO_REQ_validate_def fld_def rd_def gy_size Let_def)
next
  case False
  let ?n = "rdv m p 4"
  obtain len where h: "act_len h = 48 + len" using False by (auto simp: not_less le_iff_add)
  have inm: "p + 8 + len \<le> length m" and p8: "p + 8 \<le> length m" using h assms by auto
  have eq: "LISTENER_INFO_REQ_validate h m p = elem_loop (csizeof NEW_LISTENER_t)
      NEW_LISTENER_get_elem_size NEW_LISTENER_one ?n (int len) (p + 8) m"
    using False p8 h
    by (simp add: LISTENER_INFO_REQ_validate_def fld_def rd_def gy_size Let_def del: of_nat_unat)
  obtain b m' where loop: "elem_loop (csizeof NEW_LISTENER_t) NEW_LISTENER_get_elem_size
      NEW_LISTENER_one ?n (int len) (p + 8) m = Some (b, m')" "same_off m m' (p + 8) (p + 8 + len)"
    using new_listener.elem_loop_correct [OF inm, of ?n] by auto
  have off: "same_off m m' (p + 8) (p + act_len h - 40)"
    by (rule same_off_mono [OF loop(2)]) (use h in simp_all)
  have res: "\<exists>w s. elem_walk NEW_LISTENER_get_elem_size ?n (p + 8) m' = Some w \<and>
      LISTENER_INFO_REQ_get_elem_size m' p = Some s \<and> unat s = 8 + sum_list (map snd w) \<and>
      40 + unat s \<le> act_len h" if acc: b
  proof -
    obtain w where w: "elem_walk NEW_LISTENER_get_elem_size ?n (p + 8) m' = Some w"
        "sum_list (map snd w) \<le> len"
      using new_listener.elem_loop_rewalk [OF inm, of ?n m'] loop(1) acc
      by (auto simp: elems_wf_def split: option.splits)
    have on: "same_on m m' p (p + 8)" by (rule same_off_on [OF loop(2)]) simp
    have "rdv m' p 4 = ?n" by (rule same_on_rdv [OF on]) simp_all
    then have s: "LISTENER_INFO_REQ_get_elem_size m' p = Some (8 + of_nat (sum_list (map snd w)))"
      using p8 same_off_len [OF loop(2)] LISTENER_INFO_REQ_sizes_eq [OF w(1), of 8]
      by (simp add: LISTENER_INFO_REQ_get_elem_size_def fld_def rd_def gy_size)
    have "8 + sum_list (map snd w) < 2 ^ 32" using w(2) act_len_bound [of h] h by linarith
    then have "unat (of_nat (8 + sum_list (map snd w)) :: 32 word) = 8 + sum_list (map snd w)"
      by (simp only: unat_of_nat) (simp add: take_bit_nat_eq_self)
    then show ?thesis using w s h by auto
  qed
  show ?thesis using eq loop(1) off res by auto
qed

theorem LISTENER_INFO_REQ_validated_size_witness:
  "\<exists>m' s. LISTENER_INFO_REQ_validate
       \<lparr>magic = 0x05666605, total_sz = 160, data_type = 15, padding_sz = 0\<rparr>
       ([1, 0, 0, 0, 0, 0, 0, 0] @ replicate 112 0) 0 = Some (True, m') \<and>
     LISTENER_INFO_REQ_get_elem_size m' 0 = Some s"
proof -
  let ?h = "\<lparr>magic = 0x05666605, total_sz = 160, data_type = 15, padding_sz = 0\<rparr>"
  let ?m = "[1, 0, 0, 0, 0, 0, 0, 0] @ replicate 112 0 :: mem"
  have "LISTENER_INFO_REQ_validate ?h ?m 0 = Some (True, ?m)"
    by (simp add: LISTENER_INFO_REQ_validate_def NEW_LISTENER_get_elem_size_def
        NEW_LISTENER_get_act_size_def NEW_LISTENER_one_def put_nul_def get_act_len_def
        fld_def rd_def rdv_def gy_size)
  then show ?thesis
    using LISTENER_INFO_REQ_validated_size [of 0 ?h ?m] by (auto simp: get_act_len_def)
qed

text \<open>\<open>LISTENERS_INFO_STATS_RESP::validate\<close> checks its elements against \<open>resp_len_\<close> of the
  response and not against the length of the message. Together with \<open>QUERY_RESPONSE::validate\<close>,
  which ties \<open>resp_len_\<close> to the length, all elements are inside of the message, and
  \<open>get_elem_size\<close> does not wrap.\<close>

theorem LISTENERS_INFO_STATS_RESP_inside:
  assumes "QUERY_RESPONSE_validate h m presp = Some True"
    and "LISTENERS_INFO_STATS_RESP_validate h m presp p = Some True"
  shows "\<exists>n. fld m p LISTENERS_INFO_STATS_RESP_fields ''ntcp_listeners_'' = Some n \<and> n \<le> 2048 \<and>
     LISTENERS_INFO_STATS_RESP_get_elem_size m p = Some (8 + n * 48) \<and>
     csizeof COMM_HEADER_t + csizeof QUERY_RESPONSE_t + (8 + n * 48) \<le> act_len h"
proof -
  obtain r n where r: "act_len h = 48 + r" "8 \<le> r"
    and n: "fld m p LISTENERS_INFO_STATS_RESP_fields ''ntcp_listeners_'' = Some n"
      "LISTENER_DAY_STATS_validate_elems n (int r - 8)"
    using assms
    by (auto simp: QUERY_RESPONSE_validate_def LISTENERS_INFO_STATS_RESP_validate_def Let_def
        split: bind_splits if_splits)
  have eq: "int r - 8 = int (r + 16) - 24" by simp
  have "n \<le> 2048 \<and> 24 + n * 48 \<le> r + 16"
    using n(2) act_len_bound [of h] r LISTENER_DAY_STATS_validate_elems_eq [of "r + 16" n]
    unfolding eq by simp
  then show ?thesis using r n(1) by (simp add: LISTENERS_INFO_STATS_RESP_get_elem_size_def)
qed

theorem LISTENERS_INFO_STATS_RESP_inside_witness:
  "\<exists>n. fld (replicate 20 0 @ [56, 0, 0, 0] @ replicate 8 0 @ [1] @ replicate 55 0) 32
        LISTENERS_INFO_STATS_RESP_fields ''ntcp_listeners_'' = Some n \<and> n \<le> 2048"
proof -
  let ?h = "\<lparr>magic = 0x05666605, total_sz = 104, data_type = 16, padding_sz = 0\<rparr>"
  let ?m = "replicate 20 0 @ [56, 0, 0, 0] @ replicate 8 0 @ [1] @ replicate 55 0 :: mem"
  have "QUERY_RESPONSE_validate ?h ?m 0 = Some True"
    by (simp add: QUERY_RESPONSE_validate_def get_act_len_def fld_def rd_def rdv_def gy_size)
  moreover have "LISTENERS_INFO_STATS_RESP_validate ?h ?m 0 32 = Some True"
    by (simp add: LISTENERS_INFO_STATS_RESP_validate_def LISTENER_DAY_STATS_validate_elems_def
        get_act_len_def fld_def rd_def rdv_def gy_size)
  ultimately show ?thesis using LISTENERS_INFO_STATS_RESP_inside by blast
qed

end
