(* ===== verification/Gy_Registration.thy ===== *)
theory Gy_Registration
  imports Gy_Comm_Header
begin

text \<open>
  The registration messages: \<open>validate_fields\<close> of the requests \<open>PS_REGISTER_REQ_S\<close> (Partha to
  Shyama), \<open>PM_CONNECT_CMD_S\<close> (Partha to Madhava), \<open>MS_REGISTER_REQ_S\<close> (Madhava to Shyama),
  \<open>MM_CONNECT_CMD_S\<close> (Madhava to Madhava), \<open>NS_REGISTER_REQ_S\<close> and \<open>NM_CONNECT_CMD_S\<close> (Node web server)
  of \<open>common/gy_comm_proto.cc\<close>, and the \<open>validate\<close> methods of requests and responses of
  \<open>common/gy_comm_proto.h\<close>. The methods work in place on the receive buffer: they terminate the char
  arrays of the struct at \<open>p\<close> and lower \<open>comm_version_\<close> to the version of this side.

  The result of \<open>validate_fields\<close> is \<open>None\<close> for \<open>return true\<close> and otherwise the error code with the
  format string and the arguments of the \<open>snprintf\<close> into \<open>ebuf\<close>. A version number that the source
  prints with \<open>get_string_from_version_num\<close> is an argument like the others. \<open>tcurr\<close> is the value of
  \<open>time(nullptr)\<close>. The build uses \<open>-fno-strict-overflow\<close>, so signed arithmetic wraps.
\<close>

section \<open>Error codes\<close>

datatype ERR_CODES_E =
    ERR_SUCCESS
  | ERR_WARN_1
  | ERR_WARN_TEMP_UNAVAIL
  | ERR_WARN_100
  | ERR_PROTOCOL_VERSION
  | ERR_MADHAVA_VERSION
  | ERR_PARTHA_VERSION
  | ERR_SHYAMA_VERSION
  | ERR_NODE_VERSION
  | ERR_SYSTEM_TIME_MISMATCH
  | ERR_INVALID_ACCESS_KEY
  | ERR_ACCESS_KEY_EXPIRED
  | ERR_ACCESS_KEY_HOSTS_EXCEEDED
  | ERR_HOST_OVERLOADED
  | ERR_ID_REUSED
  | ERR_INVALID_MACHINE_ID
  | ERR_INVALID_ID
  | ERR_NOT_VALIDATED
  | ERR_MISMATCH_ID
  | ERR_MAX_LIMIT
  | ERR_MADHAVA_UNAVAIL
  | ERR_INVALID_SECRET
  | ERR_INTERNAL_MAX
  | ERR_STATUS_OK
  | ERR_INVALID_REQUEST
  | ERR_CONFLICTS
  | ERR_DATA_NOT_FOUND
  | ERR_SERV_ERROR
  | ERR_TIMED_OUT
  | ERR_BLOCKING_ERROR
  | ERR_MAX_SZ_BREACHED
  | ERR_SYSERROR
  | ERR_MAX_NUM

fun err_val :: "ERR_CODES_E \<Rightarrow> int" where
  "err_val ERR_SUCCESS = 0"
| "err_val ERR_WARN_1 = 1"
| "err_val ERR_WARN_TEMP_UNAVAIL = 2"
| "err_val ERR_WARN_100 = 100"
| "err_val ERR_PROTOCOL_VERSION = 101"
| "err_val ERR_MADHAVA_VERSION = 102"
| "err_val ERR_PARTHA_VERSION = 103"
| "err_val ERR_SHYAMA_VERSION = 104"
| "err_val ERR_NODE_VERSION = 105"
| "err_val ERR_SYSTEM_TIME_MISMATCH = 106"
| "err_val ERR_INVALID_ACCESS_KEY = 107"
| "err_val ERR_ACCESS_KEY_EXPIRED = 108"
| "err_val ERR_ACCESS_KEY_HOSTS_EXCEEDED = 109"
| "err_val ERR_HOST_OVERLOADED = 110"
| "err_val ERR_ID_REUSED = 111"
| "err_val ERR_INVALID_MACHINE_ID = 112"
| "err_val ERR_INVALID_ID = 113"
| "err_val ERR_NOT_VALIDATED = 114"
| "err_val ERR_MISMATCH_ID = 115"
| "err_val ERR_MAX_LIMIT = 116"
| "err_val ERR_MADHAVA_UNAVAIL = 117"
| "err_val ERR_INVALID_SECRET = 118"
| "err_val ERR_INTERNAL_MAX = 199"
| "err_val ERR_STATUS_OK = 200"
| "err_val ERR_INVALID_REQUEST = 400"
| "err_val ERR_CONFLICTS = 409"
| "err_val ERR_DATA_NOT_FOUND = 410"
| "err_val ERR_SERV_ERROR = 500"
| "err_val ERR_TIMED_OUT = 504"
| "err_val ERR_BLOCKING_ERROR = 503"
| "err_val ERR_MAX_SZ_BREACHED = 507"
| "err_val ERR_SYSERROR = 510"
| "err_val ERR_MAX_NUM = 511"

definition is_comm_error :: "int \<Rightarrow> bool" where
  "is_comm_error errcode \<longleftrightarrow> errcode \<ge> 101"

definition is_comm_warning :: "int \<Rightarrow> bool" where
  "is_comm_warning errcode \<longleftrightarrow> errcode \<ge> 1 \<and> errcode < 101"

type_synonym reg_error = "ERR_CODES_E \<times> string \<times> nat list"

abbreviation (input) COMM_VERSION_NUM :: nat where "COMM_VERSION_NUM \<equiv> 1"
abbreviation (input) MIN_COMM_VERSION_NUM :: nat where "MIN_COMM_VERSION_NUM \<equiv> 1"
abbreviation (input) CLI_TYPE_MAX :: nat where "CLI_TYPE_MAX \<equiv> 4"

section \<open>Shared steps\<close>

definition reg_fail :: "ERR_CODES_E \<Rightarrow> string \<Rightarrow> nat list \<Rightarrow> mem \<Rightarrow> (reg_error option \<times> mem) option" where
  "reg_fail errcode fmt args m = Some (Some (errcode, fmt, args), m)"

text \<open>The version check: \<open>comm_version_\<close> is lowered to \<open>COMM_VERSION_NUM\<close>; a version that is too old is
  returned.\<close>

definition clamp_version :: "mem \<Rightarrow> nat \<Rightarrow> cfields \<Rightarrow> (nat option \<times> mem) option" where
  "clamp_version m p fs = do {
     comm_version \<leftarrow> fld m p fs ''comm_version_'';
     if comm_version > COMM_VERSION_NUM then do {
       m' \<leftarrow> put_fld m p fs ''comm_version_'' COMM_VERSION_NUM;
       Some (None, m')
     }
     else if comm_version < MIN_COMM_VERSION_NUM then Some (Some comm_version, m)
     else Some (None, m)
   }"

definition labs64 :: "64 word \<Rightarrow> 64 word" where
  "labs64 x = (if sint x < 0 then - x else x)"

text \<open>\<open>labs(diff_sys_sec) >= 60\<close> for \<open>diff_sys_sec = time(nullptr) - curr_sec_\<close>.\<close>

definition clock_differs :: "64 word \<Rightarrow> 64 word \<Rightarrow> bool" where
  "clock_differs tcurr curr_sec \<longleftrightarrow> sint (labs64 (tcurr - curr_sec)) \<ge> 60"

text \<open>The bytes of a member; a C string is the bytes up to the first NUL and \<open>strcmp\<close> is 0 exactly for equal strings.\<close>

definition member_bytes :: "mem \<Rightarrow> nat \<Rightarrow> cfields \<Rightarrow> string \<Rightarrow> byte list" where
  "member_bytes m p fs nm = take (snd (cmember fs nm)) (drop (p + fst (cmember fs nm)) m)"

definition strcmp_differs :: "byte list \<Rightarrow> byte list \<Rightarrow> bool" where
  "strcmp_differs s t \<longleftrightarrow> takeWhile (\<lambda>b. b \<noteq> 0) s \<noteq> takeWhile (\<lambda>b. b \<noteq> 0) t"

section \<open>The requests\<close>

definition PS_REGISTER_REQ_S_validate_fields ::
  "nat \<Rightarrow> nat \<Rightarrow> 64 word \<Rightarrow> mem \<Rightarrow> nat \<Rightarrow> (reg_error option \<times> mem) option" where
  "PS_REGISTER_REQ_S_validate_fields min_partha_version shyama_version tcurr m0 p = do {
     m1 \<leftarrow> put_last_nuls m0 p PS_REGISTER_REQ_S_fields
             [''hostname_'', ''write_access_key_'', ''cluster_name_'',
              ''region_name_'', ''zone_name_''];
     (old_version, m) \<leftarrow> clamp_version m1 p PS_REGISTER_REQ_S_fields;
     case old_version of
       Some comm_version \<Rightarrow> reg_fail ERR_PROTOCOL_VERSION
         ''Protocol Version %u not supported : Please upgrade the Partha install'' [comm_version] m
     | None \<Rightarrow> do {
       partha_version \<leftarrow> fld m p PS_REGISTER_REQ_S_fields ''partha_version_'';
       if partha_version < min_partha_version then reg_fail ERR_PARTHA_VERSION
         ''Partha Version %s (0x%08X) not supported : Please upgrade the Partha install'' [partha_version, partha_version] m
       else do {
         min_shyama_version \<leftarrow> fld m p PS_REGISTER_REQ_S_fields ''min_shyama_version_'';
         if min_shyama_version > shyama_version then reg_fail ERR_SHYAMA_VERSION
           ''Shyama Version %s (0x%08X) not supported by Partha : Please upgrade Shyama install'' [shyama_version, shyama_version] m
         else do {
           machine_id_hi \<leftarrow> fld m p PS_REGISTER_REQ_S_fields ''machine_id_hi_'';
           machine_id_lo \<leftarrow> fld m p PS_REGISTER_REQ_S_fields ''machine_id_lo_'';
           if machine_id_hi = 0 \<and> machine_id_lo = 0 then reg_fail ERR_INVALID_MACHINE_ID
             ''Invalid MachineID sent by Partha'' [] m
           else do {
             curr_sec \<leftarrow> fld m p PS_REGISTER_REQ_S_fields ''curr_sec_'';
             if clock_differs tcurr (of_nat curr_sec) then reg_fail ERR_SYSTEM_TIME_MISMATCH
               ''Partha Register failed as Partha Host system time differs from Shyama by %ld seconds. Please sync the system times first''
               [unat (tcurr - of_nat curr_sec)] m
             else Some (None, m)
           }
         }
       }
     }
   }"

definition MM_CONNECT_CMD_S_validate_fields ::
  "nat \<Rightarrow> nat \<Rightarrow> nat \<Rightarrow> 64 word \<Rightarrow> mem \<Rightarrow> nat \<Rightarrow> (reg_error option \<times> mem) option" where
  "MM_CONNECT_CMD_S_validate_fields madhava_id min_madhava_version curr_madhava_version tcurr m0 p = do {
     m1 \<leftarrow> put_last_nuls m0 p MM_CONNECT_CMD_S_fields
             [''madhava_hostname_'', ''region_name_'', ''zone_name_'',
              ''madhava_name_''];
     remote_madhava_id \<leftarrow> fld m1 p MM_CONNECT_CMD_S_fields ''remote_madhava_id_'';
     if remote_madhava_id \<noteq> madhava_id then reg_fail ERR_MISMATCH_ID
       ''Requested Madhava ID %016lx not valid'' [remote_madhava_id] m1
     else do {
       (old_version, m) \<leftarrow> clamp_version m1 p MM_CONNECT_CMD_S_fields;
       case old_version of
         Some comm_version \<Rightarrow> reg_fail ERR_PROTOCOL_VERSION
           ''Protocol Version %u not supported : Please upgrade the Madhava install'' [comm_version] m
       | None \<Rightarrow> do {
         local_version \<leftarrow> fld m p MM_CONNECT_CMD_S_fields ''local_version_'';
         if local_version < min_madhava_version then reg_fail ERR_MADHAVA_VERSION
           ''Madhava Version %s (0x%08X) not supported : Please upgrade the Madhava install'' [local_version, local_version] m
         else do {
           min_remote_version \<leftarrow> fld m p MM_CONNECT_CMD_S_fields ''min_remote_version_'';
           if min_remote_version > curr_madhava_version then reg_fail ERR_MADHAVA_VERSION
             ''Madhava Version %s (0x%08X) not supported by Remote madhava : Please upgrade the Madhava install'' [curr_madhava_version, curr_madhava_version] m
           else do {
             local_madhava_id \<leftarrow> fld m p MM_CONNECT_CMD_S_fields ''local_madhava_id_'';
             if local_madhava_id = 0 then reg_fail ERR_INVALID_ID
               ''Invalid Madhava ID sent by remote Madhava'' [] m
             else do {
               curr_sec \<leftarrow> fld m p MM_CONNECT_CMD_S_fields ''curr_sec_'';
               if clock_differs tcurr (of_nat curr_sec) then reg_fail ERR_SYSTEM_TIME_MISMATCH
                 ''Madhava Register failed as remote Madhava Host system time differs by %ld seconds. Please sync the system times first''
                 [unat (tcurr - of_nat curr_sec)] m
               else Some (None, m)
             }
           }
         }
       }
     }
   }"

definition PM_CONNECT_CMD_S_validate_fields ::
  "nat \<Rightarrow> nat \<Rightarrow> nat \<Rightarrow> 64 word \<Rightarrow> mem \<Rightarrow> nat \<Rightarrow> (reg_error option \<times> mem) option" where
  "PM_CONNECT_CMD_S_validate_fields madhava_id min_partha_version madhava_version tcurr m0 p = do {
     m1 \<leftarrow> put_last_nuls m0 p PM_CONNECT_CMD_S_fields
             [''hostname_'', ''write_access_key_'', ''cluster_name_'',
              ''region_name_'', ''zone_name_''];
     (old_version, m) \<leftarrow> clamp_version m1 p PM_CONNECT_CMD_S_fields;
     case old_version of
       Some comm_version \<Rightarrow> reg_fail ERR_PROTOCOL_VERSION
         ''Protocol Version %u not supported : Please upgrade the Partha install'' [comm_version] m
     | None \<Rightarrow> do {
       partha_version \<leftarrow> fld m p PM_CONNECT_CMD_S_fields ''partha_version_'';
       if partha_version < min_partha_version then reg_fail ERR_PARTHA_VERSION
         ''Partha Version %s (0x%08X) not supported : Please upgrade the Partha install'' [partha_version, partha_version] m
       else do {
         min_madhava_version \<leftarrow> fld m p PM_CONNECT_CMD_S_fields ''min_madhava_version_'';
         if min_madhava_version > madhava_version then reg_fail ERR_MADHAVA_VERSION
           ''Madhava Version %s (0x%08X) not supported by Partha : Please upgrade the Madhava install'' [madhava_version, madhava_version] m
         else do {
           machine_id_hi \<leftarrow> fld m p PM_CONNECT_CMD_S_fields ''machine_id_hi_'';
           machine_id_lo \<leftarrow> fld m p PM_CONNECT_CMD_S_fields ''machine_id_lo_'';
           if machine_id_hi = 0 \<and> machine_id_lo = 0 then reg_fail ERR_INVALID_MACHINE_ID
             ''Invalid MachineID sent by partha'' [] m
           else do {
             sent_madhava_id \<leftarrow> fld m p PM_CONNECT_CMD_S_fields ''madhava_id_'';
             if sent_madhava_id \<noteq> madhava_id then reg_fail ERR_MISMATCH_ID
               ''Madhava ID sent %016lx not valid'' [sent_madhava_id] m
             else do {
               curr_sec \<leftarrow> fld m p PM_CONNECT_CMD_S_fields ''curr_sec_'';
               if clock_differs tcurr (of_nat curr_sec) then reg_fail ERR_SYSTEM_TIME_MISMATCH
                 ''Partha Register failed as Partha Host system time differs from Madhava by %ld seconds. Please sync the system times first.''
                 [unat (tcurr - of_nat curr_sec)] m
               else Some (None, m)
             }
           }
         }
       }
     }
   }"

definition MS_REGISTER_REQ_S_validate_fields ::
  "nat \<Rightarrow> nat \<Rightarrow> byte list \<Rightarrow> 64 word \<Rightarrow> mem \<Rightarrow> nat \<Rightarrow> (reg_error option \<times> mem) option" where
  "MS_REGISTER_REQ_S_validate_fields min_madhava_version shyama_version shyama_secret tcurr m0 p = do {
     m1 \<leftarrow> put_last_nuls m0 p MS_REGISTER_REQ_S_fields
             [''madhava_hostname_'', ''region_name_'', ''zone_name_'',
              ''madhava_name_'', ''shyama_secret_''];
     (old_version, m) \<leftarrow> clamp_version m1 p MS_REGISTER_REQ_S_fields;
     case old_version of
       Some comm_version \<Rightarrow> reg_fail ERR_PROTOCOL_VERSION
         ''Protocol Version %u not supported : Please upgrade the Madhava install'' [comm_version] m
     | None \<Rightarrow> do {
       madhava_version \<leftarrow> fld m p MS_REGISTER_REQ_S_fields ''madhava_version_'';
       if madhava_version < min_madhava_version then reg_fail ERR_MADHAVA_VERSION
         ''Madhava Version %s (0x%08X) not supported : Please upgrade the Madhava install'' [madhava_version, madhava_version] m
       else do {
         min_shyama_version \<leftarrow> fld m p MS_REGISTER_REQ_S_fields ''min_shyama_version_'';
         if min_shyama_version > shyama_version then reg_fail ERR_SHYAMA_VERSION
           ''Shyama Version %s (0x%08X) not supported by Madhava : Please upgrade the Shyama install'' [shyama_version, shyama_version] m
         else do {
           if strcmp_differs (member_bytes m p MS_REGISTER_REQ_S_fields ''shyama_secret_'') shyama_secret then reg_fail ERR_INVALID_SECRET
             ''Invalid Shyama Secret sent'' [] m
           else do {
             madhava_port \<leftarrow> fld m p MS_REGISTER_REQ_S_fields ''madhava_port_'';
             if madhava_port = 0 then reg_fail ERR_INVALID_REQUEST
               ''Madhava port cannot be 0'' [] m
             else do {
               cli_type \<leftarrow> fld m p MS_REGISTER_REQ_S_fields ''cli_type_'';
               if cli_type \<ge> CLI_TYPE_MAX then reg_fail ERR_INVALID_REQUEST
                 ''Invalid cli_type_ %u'' [cli_type] m
               else do {
                 curr_sec \<leftarrow> fld m p MS_REGISTER_REQ_S_fields ''curr_sec_'';
                 if clock_differs tcurr (of_nat curr_sec) then reg_fail ERR_SYSTEM_TIME_MISMATCH
                   ''Madhava Register failed as Madhava Host system time differs from Shyama by %ld seconds. Please sync the system times first.''
                   [unat (tcurr - of_nat curr_sec)] m
                 else do {
                   max_partha_nodes \<leftarrow> fld m p MS_REGISTER_REQ_S_fields ''max_partha_nodes_'';
                   if max_partha_nodes = 0 \<or> max_partha_nodes > MAX_PARTHA_PER_MADHAVA then reg_fail ERR_INVALID_REQUEST
                     ''Invalid Max Partha Nodes Allowed %u'' [max_partha_nodes] m
                   else do {
                     Some (None, m)
                   }
                 }
               }
             }
           }
         }
       }
     }
   }"

definition NS_REGISTER_REQ_S_validate_fields ::
  "nat \<Rightarrow> nat \<Rightarrow> 64 word \<Rightarrow> mem \<Rightarrow> nat \<Rightarrow> (reg_error option \<times> mem) option" where
  "NS_REGISTER_REQ_S_validate_fields min_node_version shyama_version tcurr m0 p = do {
     m1 \<leftarrow> put_last_nuls m0 p NS_REGISTER_REQ_S_fields
             [''node_hostname_''];
     (old_version, m) \<leftarrow> clamp_version m1 p NS_REGISTER_REQ_S_fields;
     case old_version of
       Some comm_version \<Rightarrow> reg_fail ERR_PROTOCOL_VERSION
         ''Protocol Version %u not supported : Please upgrade the Node install'' [comm_version] m
     | None \<Rightarrow> do {
       node_version \<leftarrow> fld m p NS_REGISTER_REQ_S_fields ''node_version_'';
       if node_version < min_node_version then reg_fail ERR_NODE_VERSION
         ''Node Version %s (0x%08X) not supported : Please upgrade the Node install'' [node_version, node_version] m
       else do {
         min_shyama_version \<leftarrow> fld m p NS_REGISTER_REQ_S_fields ''min_shyama_version_'';
         if min_shyama_version > shyama_version then reg_fail ERR_SHYAMA_VERSION
           ''Shyama Version %s (0x%08X) not supported by Node'' [shyama_version, shyama_version] m
         else do {
           node_port \<leftarrow> fld m p NS_REGISTER_REQ_S_fields ''node_port_'';
           if node_port = 0 then reg_fail ERR_INVALID_REQUEST
             ''Node port cannot be 0'' [] m
           else do {
             cli_type \<leftarrow> fld m p NS_REGISTER_REQ_S_fields ''cli_type_'';
             if cli_type \<ge> CLI_TYPE_MAX then reg_fail ERR_INVALID_REQUEST
               ''Invalid cli_type_ %u'' [cli_type] m
             else do {
               curr_sec \<leftarrow> fld m p NS_REGISTER_REQ_S_fields ''curr_sec_'';
               if clock_differs tcurr (of_nat curr_sec) then reg_fail ERR_SYSTEM_TIME_MISMATCH
                 ''Node Register failed as Node Host system time differs from Shyama by %ld seconds. Please sync the system times first.''
                 [unat (tcurr - of_nat curr_sec)] m
               else Some (None, m)
             }
           }
         }
       }
     }
   }"

definition NM_CONNECT_CMD_S_validate_fields ::
  "nat \<Rightarrow> nat \<Rightarrow> 64 word \<Rightarrow> mem \<Rightarrow> nat \<Rightarrow> (reg_error option \<times> mem) option" where
  "NM_CONNECT_CMD_S_validate_fields min_node_version madhava_version tcurr m0 p = do {
     m1 \<leftarrow> put_last_nuls m0 p NM_CONNECT_CMD_S_fields
             [''node_hostname_''];
     (old_version, m) \<leftarrow> clamp_version m1 p NM_CONNECT_CMD_S_fields;
     case old_version of
       Some comm_version \<Rightarrow> reg_fail ERR_PROTOCOL_VERSION
         ''Protocol Version %u not supported : Please upgrade the Node install'' [comm_version] m
     | None \<Rightarrow> do {
       node_version \<leftarrow> fld m p NM_CONNECT_CMD_S_fields ''node_version_'';
       if node_version < min_node_version then reg_fail ERR_NODE_VERSION
         ''Node Version %s (0x%08X) not supported : Please upgrade the Node install'' [node_version, node_version] m
       else do {
         min_madhava_version \<leftarrow> fld m p NM_CONNECT_CMD_S_fields ''min_madhava_version_'';
         if min_madhava_version > madhava_version then reg_fail ERR_SHYAMA_VERSION
           ''Madhava Version %s (0x%08X) not supported by node'' [madhava_version, madhava_version] m
         else do {
           node_port \<leftarrow> fld m p NM_CONNECT_CMD_S_fields ''node_port_'';
           if node_port = 0 then reg_fail ERR_INVALID_REQUEST
             ''Node port cannot be 0'' [] m
           else do {
             cli_type \<leftarrow> fld m p NM_CONNECT_CMD_S_fields ''cli_type_'';
             if cli_type \<ge> CLI_TYPE_MAX then reg_fail ERR_INVALID_REQUEST
               ''Invalid cli_type_ %u'' [cli_type] m
             else do {
               curr_sec \<leftarrow> fld m p NM_CONNECT_CMD_S_fields ''curr_sec_'';
               if clock_differs tcurr (of_nat curr_sec) then reg_fail ERR_SYSTEM_TIME_MISMATCH
                 ''Node Register failed as Node Host system time differs from Madhava by %ld seconds. Please sync the system times first.''
                 [unat (tcurr - of_nat curr_sec)] m
               else Some (None, m)
             }
           }
         }
       }
     }
   }"

section \<open>\<open>validate\<close> of requests and responses\<close>

definition exact_reg_validate :: "ctype \<Rightarrow> COMM_HEADER \<Rightarrow> bool" where
  "exact_reg_validate t h \<longleftrightarrow> act_len h = csizeof COMM_HEADER_t + csizeof t"

definition PS_REGISTER_REQ_S_validate :: "COMM_HEADER \<Rightarrow> bool" where
  "PS_REGISTER_REQ_S_validate = exact_reg_validate PS_REGISTER_REQ_S_t"

definition PM_CONNECT_CMD_S_validate :: "COMM_HEADER \<Rightarrow> bool" where
  "PM_CONNECT_CMD_S_validate = exact_reg_validate PM_CONNECT_CMD_S_t"

definition MS_REGISTER_REQ_S_validate :: "COMM_HEADER \<Rightarrow> bool" where
  "MS_REGISTER_REQ_S_validate = exact_reg_validate MS_REGISTER_REQ_S_t"

definition MM_CONNECT_CMD_S_validate :: "COMM_HEADER \<Rightarrow> bool" where
  "MM_CONNECT_CMD_S_validate = exact_reg_validate MM_CONNECT_CMD_S_t"

definition NS_REGISTER_REQ_S_validate :: "COMM_HEADER \<Rightarrow> bool" where
  "NS_REGISTER_REQ_S_validate = exact_reg_validate NS_REGISTER_REQ_S_t"

definition NS_REGISTER_RESP_S_validate :: "COMM_HEADER \<Rightarrow> bool" where
  "NS_REGISTER_RESP_S_validate = exact_reg_validate NS_REGISTER_RESP_S_t"

definition NM_CONNECT_CMD_S_validate :: "COMM_HEADER \<Rightarrow> bool" where
  "NM_CONNECT_CMD_S_validate = exact_reg_validate NM_CONNECT_CMD_S_t"

definition NM_CONNECT_RESP_S_validate :: "COMM_HEADER \<Rightarrow> bool" where
  "NM_CONNECT_RESP_S_validate = exact_reg_validate NM_CONNECT_RESP_S_t"

text \<open>The responses from Shyama and Madhava terminate their strings before they look at the length.\<close>

definition PS_REGISTER_RESP_S_validate :: "COMM_HEADER \<Rightarrow> mem \<Rightarrow> nat \<Rightarrow> (bool \<times> mem) option" where
  "PS_REGISTER_RESP_S_validate h m p = do {
     m' \<leftarrow> put_last_nuls m p PS_REGISTER_RESP_S_fields
             [''error_string_'', ''madhava_hostname_'', ''madhava_name_''];
     Some (act_len h = csizeof COMM_HEADER_t + csizeof PS_REGISTER_RESP_S_t, m')
   }"

definition PM_CONNECT_RESP_S_validate :: "COMM_HEADER \<Rightarrow> mem \<Rightarrow> nat \<Rightarrow> (bool \<times> mem) option" where
  "PM_CONNECT_RESP_S_validate h m p = do {
     m' \<leftarrow> put_last_nuls m p PM_CONNECT_RESP_S_fields
             [''error_string_'', ''region_name_'', ''zone_name_'',
              ''madhava_name_''];
     Some (act_len h = csizeof COMM_HEADER_t + csizeof PM_CONNECT_RESP_S_t, m')
   }"

definition MS_REGISTER_RESP_S_validate :: "COMM_HEADER \<Rightarrow> mem \<Rightarrow> nat \<Rightarrow> (bool \<times> mem) option" where
  "MS_REGISTER_RESP_S_validate h m p = do {
     m' \<leftarrow> put_last_nuls m p MS_REGISTER_RESP_S_fields
             [''error_string_'', ''region_name_'', ''zone_name_'',
              ''shyama_name_''];
     Some (act_len h = csizeof COMM_HEADER_t + csizeof MS_REGISTER_RESP_S_t, m')
   }"

definition MM_CONNECT_RESP_S_validate :: "COMM_HEADER \<Rightarrow> mem \<Rightarrow> nat \<Rightarrow> (bool \<times> mem) option" where
  "MM_CONNECT_RESP_S_validate h m p = do {
     m' \<leftarrow> put_last_nuls m p MM_CONNECT_RESP_S_fields
             [''error_string_'', ''region_name_'', ''zone_name_'',
              ''madhava_name_''];
     Some (act_len h = csizeof COMM_HEADER_t + csizeof MM_CONNECT_RESP_S_t, m')
   }"

section \<open>Member offsets\<close>

lemma PS_REGISTER_REQ_S_members [gy_size]:
  "cmember PS_REGISTER_REQ_S_fields ''partha_version_'' = (4, 4)"
  "cmember PS_REGISTER_REQ_S_fields ''min_shyama_version_'' = (8, 4)"
  "cmember PS_REGISTER_REQ_S_fields ''machine_id_hi_'' = (16, 8)"
  "cmember PS_REGISTER_REQ_S_fields ''machine_id_lo_'' = (24, 8)"
  "cmember PS_REGISTER_REQ_S_fields ''hostname_'' = (32, 256)"
  "cmember PS_REGISTER_REQ_S_fields ''write_access_key_'' = (288, 64)"
  "cmember PS_REGISTER_REQ_S_fields ''cluster_name_'' = (352, 64)"
  "cmember PS_REGISTER_REQ_S_fields ''region_name_'' = (416, 64)"
  "cmember PS_REGISTER_REQ_S_fields ''zone_name_'' = (480, 64)"
  "cmember PS_REGISTER_REQ_S_fields ''comm_version_'' = (0, 4)"
  "cmember PS_REGISTER_REQ_S_fields ''curr_sec_'' = (552, 8)"
  by code_simp+

lemma MM_CONNECT_CMD_S_members [gy_size]:
  "cmember MM_CONNECT_CMD_S_fields ''remote_madhava_id_'' = (472, 8)"
  "cmember MM_CONNECT_CMD_S_fields ''local_version_'' = (4, 4)"
  "cmember MM_CONNECT_CMD_S_fields ''min_remote_version_'' = (8, 4)"
  "cmember MM_CONNECT_CMD_S_fields ''local_madhava_id_'' = (464, 8)"
  "cmember MM_CONNECT_CMD_S_fields ''madhava_hostname_'' = (12, 256)"
  "cmember MM_CONNECT_CMD_S_fields ''region_name_'' = (270, 64)"
  "cmember MM_CONNECT_CMD_S_fields ''zone_name_'' = (334, 64)"
  "cmember MM_CONNECT_CMD_S_fields ''madhava_name_'' = (398, 64)"
  "cmember MM_CONNECT_CMD_S_fields ''comm_version_'' = (0, 4)"
  "cmember MM_CONNECT_CMD_S_fields ''curr_sec_'' = (488, 8)"
  by code_simp+

lemma PM_CONNECT_CMD_S_members [gy_size]:
  "cmember PM_CONNECT_CMD_S_fields ''partha_version_'' = (4, 4)"
  "cmember PM_CONNECT_CMD_S_fields ''min_madhava_version_'' = (8, 4)"
  "cmember PM_CONNECT_CMD_S_fields ''machine_id_hi_'' = (16, 8)"
  "cmember PM_CONNECT_CMD_S_fields ''machine_id_lo_'' = (24, 8)"
  "cmember PM_CONNECT_CMD_S_fields ''madhava_id_'' = (552, 8)"
  "cmember PM_CONNECT_CMD_S_fields ''hostname_'' = (40, 256)"
  "cmember PM_CONNECT_CMD_S_fields ''write_access_key_'' = (296, 64)"
  "cmember PM_CONNECT_CMD_S_fields ''cluster_name_'' = (360, 64)"
  "cmember PM_CONNECT_CMD_S_fields ''region_name_'' = (424, 64)"
  "cmember PM_CONNECT_CMD_S_fields ''zone_name_'' = (488, 64)"
  "cmember PM_CONNECT_CMD_S_fields ''comm_version_'' = (0, 4)"
  "cmember PM_CONNECT_CMD_S_fields ''curr_sec_'' = (568, 8)"
  by code_simp+

lemma MS_REGISTER_REQ_S_members [gy_size]:
  "cmember MS_REGISTER_REQ_S_fields ''madhava_version_'' = (4, 4)"
  "cmember MS_REGISTER_REQ_S_fields ''min_shyama_version_'' = (8, 4)"
  "cmember MS_REGISTER_REQ_S_fields ''madhava_port_'' = (280, 2)"
  "cmember MS_REGISTER_REQ_S_fields ''cli_type_'' = (540, 4)"
  "cmember MS_REGISTER_REQ_S_fields ''max_partha_nodes_'' = (568, 4)"
  "cmember MS_REGISTER_REQ_S_fields ''madhava_hostname_'' = (24, 256)"
  "cmember MS_REGISTER_REQ_S_fields ''region_name_'' = (282, 64)"
  "cmember MS_REGISTER_REQ_S_fields ''zone_name_'' = (346, 64)"
  "cmember MS_REGISTER_REQ_S_fields ''madhava_name_'' = (410, 64)"
  "cmember MS_REGISTER_REQ_S_fields ''shyama_secret_'' = (474, 64)"
  "cmember MS_REGISTER_REQ_S_fields ''comm_version_'' = (0, 4)"
  "cmember MS_REGISTER_REQ_S_fields ''curr_sec_'' = (552, 8)"
  by code_simp+

lemma NS_REGISTER_REQ_S_members [gy_size]:
  "cmember NS_REGISTER_REQ_S_fields ''node_version_'' = (12, 4)"
  "cmember NS_REGISTER_REQ_S_fields ''min_shyama_version_'' = (16, 4)"
  "cmember NS_REGISTER_REQ_S_fields ''node_port_'' = (24, 4)"
  "cmember NS_REGISTER_REQ_S_fields ''cli_type_'' = (20, 4)"
  "cmember NS_REGISTER_REQ_S_fields ''node_hostname_'' = (28, 256)"
  "cmember NS_REGISTER_REQ_S_fields ''comm_version_'' = (8, 4)"
  "cmember NS_REGISTER_REQ_S_fields ''curr_sec_'' = (0, 8)"
  by code_simp+

lemma NM_CONNECT_CMD_S_members [gy_size]:
  "cmember NM_CONNECT_CMD_S_fields ''node_version_'' = (12, 4)"
  "cmember NM_CONNECT_CMD_S_fields ''min_madhava_version_'' = (16, 4)"
  "cmember NM_CONNECT_CMD_S_fields ''node_port_'' = (24, 4)"
  "cmember NM_CONNECT_CMD_S_fields ''cli_type_'' = (20, 4)"
  "cmember NM_CONNECT_CMD_S_fields ''node_hostname_'' = (28, 256)"
  "cmember NM_CONNECT_CMD_S_fields ''comm_version_'' = (8, 4)"
  "cmember NM_CONNECT_CMD_S_fields ''curr_sec_'' = (0, 8)"
  by code_simp+

lemma PS_REGISTER_RESP_S_members [gy_size]:
  "cmember PS_REGISTER_RESP_S_fields ''error_string_'' = (4, 256)"
  "cmember PS_REGISTER_RESP_S_fields ''madhava_hostname_'' = (314, 256)"
  "cmember PS_REGISTER_RESP_S_fields ''madhava_name_'' = (570, 64)"
  by code_simp+

lemma PM_CONNECT_RESP_S_members [gy_size]:
  "cmember PM_CONNECT_RESP_S_fields ''error_string_'' = (4, 256)"
  "cmember PM_CONNECT_RESP_S_fields ''region_name_'' = (280, 64)"
  "cmember PM_CONNECT_RESP_S_fields ''zone_name_'' = (344, 64)"
  "cmember PM_CONNECT_RESP_S_fields ''madhava_name_'' = (408, 64)"
  by code_simp+

lemma MS_REGISTER_RESP_S_members [gy_size]:
  "cmember MS_REGISTER_RESP_S_fields ''error_string_'' = (4, 256)"
  "cmember MS_REGISTER_RESP_S_fields ''region_name_'' = (304, 64)"
  "cmember MS_REGISTER_RESP_S_fields ''zone_name_'' = (368, 64)"
  "cmember MS_REGISTER_RESP_S_fields ''shyama_name_'' = (432, 64)"
  by code_simp+

lemma MM_CONNECT_RESP_S_members [gy_size]:
  "cmember MM_CONNECT_RESP_S_fields ''error_string_'' = (4, 256)"
  "cmember MM_CONNECT_RESP_S_fields ''region_name_'' = (264, 64)"
  "cmember MM_CONNECT_RESP_S_fields ''zone_name_'' = (328, 64)"
  "cmember MM_CONNECT_RESP_S_fields ''madhava_name_'' = (392, 64)"
  by code_simp+

section \<open>The clock check\<close>

text \<open>The absolute value of the smallest 64 bit integer is that integer itself, which is below 60.\<close>

lemma clock_differs_iff:
  "clock_differs tcurr curr_sec \<longleftrightarrow> tcurr - curr_sec \<noteq> 2 ^ 63 \<and> \<bar>sint (tcurr - curr_sec)\<bar> \<ge> 60"
proof -
  define d where "d = tcurr - curr_sec"
  have range: "- (2 ^ 63) \<le> sint d" "sint d < 2 ^ 63"
    using sint_greater_eq [of d] sint_lt [of d] by simp_all
  have neg: "sint (- d) = - sint d" if "sint d \<noteq> - (2 ^ 63)"
    unfolding sint_word_minus
    using range that by (simp, intro signed_take_bit_int_eq_self) auto
  have min: "d = 2 ^ 63 \<longleftrightarrow> sint d = - (2 ^ 63)"
  proof
    assume "sint d = - (2 ^ 63)"
    then have "sint d = sint (2 ^ 63 :: 64 word)" by simp
    then show "d = 2 ^ 63" by (rule signed_word_eqI)
  qed simp
  have "sint (- (2 ^ 63 :: 64 word)) = - (2 ^ 63)" by simp
  then show ?thesis
    using range neg min unfolding clock_differs_def labs64_def d_def [symmetric]
    by (cases "d = 2 ^ 63") auto
qed

text \<open>Clocks that are not absurdly far apart are compared by their difference.\<close>

lemma clock_differs_near:
  assumes "\<bar>sint tcurr - sint curr_sec\<bar> < 2 ^ 63"
  shows "clock_differs tcurr curr_sec \<longleftrightarrow> \<bar>sint tcurr - sint curr_sec\<bar> \<ge> 60"
proof -
  have d: "sint (tcurr - curr_sec) = sint tcurr - sint curr_sec"
    unfolding sint_word_diff using assms by (simp, intro signed_take_bit_int_eq_self) auto
  have "tcurr - curr_sec \<noteq> 2 ^ 63"
  proof
    assume "tcurr - curr_sec = 2 ^ 63"
    then have "sint (tcurr - curr_sec) = - (2 ^ 63)" by simp
    then show False using d assms by linarith
  qed
  then show ?thesis using d by (simp add: clock_differs_iff)
qed

section \<open>The shared steps\<close>

text \<open>The result of \<open>validate_fields\<close> up to the text of the message: the error code and the memory.\<close>

definition reg_result :: "(reg_error option \<times> mem) option \<Rightarrow> ERR_CODES_E option \<Rightarrow> mem \<Rightarrow> bool" where
  "reg_result r code m' \<longleftrightarrow> (\<exists>e. r = Some (e, m') \<and> map_option fst e = code)"

lemma reg_result_fail [simp]: "reg_result (reg_fail c f a m) code m' \<longleftrightarrow> code = Some c \<and> m' = m"
  by (auto simp: reg_result_def reg_fail_def)

lemma reg_result_ok [simp]: "reg_result (Some (None, m)) code m' \<longleftrightarrow> code = None \<and> m' = m"
  by (auto simp: reg_result_def)

text \<open>The char arrays \<open>names\<close> end with a NUL.\<close>

definition terminated :: "mem \<Rightarrow> nat \<Rightarrow> cfields \<Rightarrow> string list \<Rightarrow> bool" where
  "terminated m p fs names \<longleftrightarrow>
     list_all (\<lambda>nm. m ! (p + fst (cmember fs nm) + snd (cmember fs nm) - 1) = 0) names"

text \<open>The memory has changed in the last bytes of the arrays \<open>names\<close> and in \<open>comm_version_\<close> at most.\<close>

definition last_byte :: "cfields \<Rightarrow> nat \<Rightarrow> string \<Rightarrow> nat" where
  "last_byte fs p nm = p + fst (cmember fs nm) + snd (cmember fs nm) - 1"

definition reg_frame :: "cfields \<Rightarrow> string list \<Rightarrow> nat \<Rightarrow> mem \<Rightarrow> mem \<Rightarrow> bool" where
  "reg_frame fs names p m m' \<longleftrightarrow> length m' = length m \<and>
     (\<forall>i. i \<notin> last_byte fs p ` set names \<and>
          (i < p + fst (cmember fs ''comm_version_'') \<or>
           p + fst (cmember fs ''comm_version_'') + snd (cmember fs ''comm_version_'') \<le> i) \<longrightarrow>
        m' ! i = m ! i)"

lemma reg_frame_trans:
  "reg_frame fs names p m m1 \<Longrightarrow> reg_frame fs names p m1 m2 \<Longrightarrow> reg_frame fs names p m m2"
  by (simp add: reg_frame_def)

lemma put_last_nuls_nth:
  "put_last_nuls m p fs names = Some m' \<Longrightarrow> i \<notin> last_byte fs p ` set names \<Longrightarrow> m' ! i = m ! i"
proof (induction names arbitrary: m)
  case (Cons nm names)
  then obtain m1 where m1: "put_last_nul m p fs nm = Some m1" "put_last_nuls m1 p fs names = Some m'"
    by (auto split: bind_splits)
  have "m1 ! i = m ! i" using m1(1) Cons.prems(2)
    by (auto simp: put_last_nul_def wr8_def last_byte_def split: if_splits)
  then show ?case using Cons.IH [OF m1(2)] Cons.prems(2) by simp
qed simp

text \<open>A struct whose layout fits the shared steps.\<close>

definition reg_struct :: "cfields \<Rightarrow> nat \<Rightarrow> string list \<Rightarrow> bool" where
  "reg_struct fs n names \<longleftrightarrow> members_within fs n (''comm_version_'' # names) \<and>
     snd (cmember fs ''comm_version_'') = 4 \<and>
     list_all (\<lambda>nm. members_apart fs ''comm_version_'' nm) names"

lemma last_byte_apart:
  assumes "reg_struct fs n names" and "nm \<in> set names" and "members_apart fs nm' nm"
  shows "last_byte fs p nm < p + fst (cmember fs nm') \<or>
    p + fst (cmember fs nm') + snd (cmember fs nm') \<le> last_byte fs p nm"
  using assms by (auto simp: reg_struct_def members_within_def list_all_iff members_apart_def last_byte_def)

text \<open>Members away from the changed bytes have their old values.\<close>

lemma reg_frame_same_on:
  assumes "reg_struct fs n names" and "reg_frame fs names p m m'"
    and "list_all (members_apart fs nm) (''comm_version_'' # names)"
  shows "same_on m m' (p + fst (cmember fs nm)) (p + fst (cmember fs nm) + snd (cmember fs nm))"
proof -
  have "i \<notin> last_byte fs p ` set names"
    if "p + fst (cmember fs nm) \<le> i" "i < p + fst (cmember fs nm) + snd (cmember fs nm)" for i
    using that last_byte_apart [OF assms(1), of _ nm p] assms(3) by (fastforce simp: list_all_iff)
  then show ?thesis
    using assms(2,3) by (auto simp: same_on_def reg_frame_def members_apart_def)
qed

lemma reg_frame_fldv:
  assumes "reg_struct fs n names" and "reg_frame fs names p m m'"
    and "list_all (members_apart fs nm) (''comm_version_'' # names)"
  shows "fldv m' p fs nm = fldv m p fs nm"
  unfolding fldv_def by (rule same_on_rdv [OF reg_frame_same_on [OF assms]]) simp_all

lemma reg_frame_fld:
  assumes "reg_struct fs n names" and "reg_frame fs names p m m'"
    and "p + fst (cmember fs nm) + snd (cmember fs nm) \<le> length m"
    and "list_all (members_apart fs nm) (''comm_version_'' # names)"
  shows "fld m' p fs nm = Some (fldv m p fs nm)"
  using assms(2,3) reg_frame_fldv [OF assms(1,2,4)] by (simp add: reg_frame_def fld_in)

lemma reg_frame_same_off:
  assumes "reg_struct fs n names" and "reg_frame fs names p m m'"
  shows "same_off m m' p (p + n)"
proof -
  have "p \<le> last_byte fs p nm \<and> last_byte fs p nm < p + n" if "nm \<in> set names" for nm
    using assms(1) that by (fastforce simp: reg_struct_def members_within_def list_all_iff last_byte_def)
  then have lb: "i \<notin> last_byte fs p ` set names" if "i < p \<or> p + n \<le> i" for i
    using that by fastforce
  have "fst (cmember fs ''comm_version_'') + snd (cmember fs ''comm_version_'') \<le> n"
    using assms(1) by (simp add: reg_struct_def members_within_def)
  then have "m' ! i = m ! i" if "i < p \<or> p + n \<le> i" for i
    using assms(2) lb [OF that] that unfolding reg_frame_def by auto
  then show ?thesis using assms(2) by (simp add: same_off_def reg_frame_def)
qed

lemma reg_names:
  assumes "reg_struct fs n names" and "p + n \<le> length m"
  obtains m1 where "put_last_nuls m p fs names = Some m1" "reg_frame fs names p m m1"
    "terminated m1 p fs names" "fldv m1 p fs ''comm_version_'' = fldv m p fs ''comm_version_''"
proof -
  have w: "members_within fs n names" using assms(1) by (simp add: reg_struct_def members_within_def)
  then have pos: "0 < snd (cmember fs nm)" if "nm \<in> set names" for nm
    using that by (auto simp: members_within_def list_all_iff)
  obtain m1 where m1: "put_last_nuls m p fs names = Some m1" "same_off m m1 p (p + n)"
    using put_last_nuls_in [OF assms(2) w] by auto
  have t: "terminated m1 p fs names"
    using put_last_nuls_terminated [OF m1(1)] by (simp add: terminated_def list_all_iff)
  have k: "reg_frame fs names p m m1"
    using put_last_nuls_nth [OF m1(1)] same_off_len [OF m1(2)] by (auto simp: reg_frame_def)
  have v: "fldv m1 p fs ''comm_version_'' = fldv m p fs ''comm_version_''"
    using assms(1) pos by (intro fldv_put_last_nuls [OF m1(1)]) (auto simp: reg_struct_def list_all_iff)
  show thesis by (rule that [OF m1(1) k t v])
qed

lemma reg_clamp:
  assumes "reg_struct fs n names" and "p + n \<le> length m" and "terminated m p fs names"
  obtains m' where "clamp_version m p fs =
      Some (if fldv m p fs ''comm_version_'' = 0 then Some 0 else None, m')"
    "reg_frame fs names p m m'" "terminated m' p fs names"
    "fldv m' p fs ''comm_version_'' = min 1 (fldv m p fs ''comm_version_'')"
proof -
  let ?c = "fst (cmember fs ''comm_version_'')" and ?v = "fldv m p fs ''comm_version_''"
  have w: "?c + 4 \<le> n" "snd (cmember fs ''comm_version_'') = 4"
    using assms(1) by (auto simp: reg_struct_def members_within_def)
  have rd: "fld m p fs ''comm_version_'' = Some ?v" using assms(2) w by (simp add: fld_in)
  show thesis
  proof (cases "?v > 1")
    case False
    then have "min 1 ?v = ?v" by simp
    with False rd show thesis
      by (intro that [of m]) (use assms(3) in \<open>auto simp: clamp_version_def reg_frame_def\<close>)
  next
    case True
    obtain m' where m': "put_fld m p fs ''comm_version_'' 1 = Some m'"
        "fldv m' p fs ''comm_version_'' = 1" "same_off m m' (p + ?c) (p + ?c + 4)"
      using put_fld_in [of p fs "''comm_version_''" m 1] w assms(2) by auto
    have frame: "reg_frame fs names p m m'"
      using m'(3) w(2) by (auto simp: reg_frame_def same_off_def)
    have "m' ! last_byte fs p nm = m ! last_byte fs p nm" if "nm \<in> set names" for nm
      using last_byte_apart [OF assms(1) that, of "''comm_version_''" p] assms(1) that m'(3) w(2)
      by (auto simp: reg_struct_def list_all_iff same_off_def)
    then have "terminated m' p fs names"
      using assms(3) by (simp add: terminated_def list_all_iff last_byte_def)
    then show thesis
      using True rd m' frame by (intro that [of m']) (auto simp: clamp_version_def)
  qed
qed

text \<open>Both steps in a row.\<close>

lemma reg_start:
  assumes "reg_struct fs n names" and "p + n \<le> length m"
  obtains m1 m2 where "put_last_nuls m p fs names = Some m1"
    "clamp_version m1 p fs = Some (if fldv m p fs ''comm_version_'' = 0 then Some 0 else None, m2)"
    "reg_frame fs names p m m2" "terminated m2 p fs names"
    "fldv m2 p fs ''comm_version_'' = min 1 (fldv m p fs ''comm_version_'')"
proof -
  obtain m1 where m1: "put_last_nuls m p fs names = Some m1" "reg_frame fs names p m m1"
    "terminated m1 p fs names" "fldv m1 p fs ''comm_version_'' = fldv m p fs ''comm_version_''"
    by (rule reg_names [OF assms])
  have "p + n \<le> length m1" using assms(2) m1(2) by (simp add: reg_frame_def)
  then obtain m2 where m2: "clamp_version m1 p fs =
      Some (if fldv m1 p fs ''comm_version_'' = 0 then Some 0 else None, m2)"
    "reg_frame fs names p m1 m2" "terminated m2 p fs names"
    "fldv m2 p fs ''comm_version_'' = min 1 (fldv m1 p fs ''comm_version_'')"
    using reg_clamp [OF assms(1) _ m1(3)] by blast
  show thesis
    by (rule that [OF m1(1) _ reg_frame_trans [OF m1(2) m2(2)] m2(3)]) (use m1(4) m2 in simp_all)
qed

text \<open>A terminated array has its old bytes up to the last one.\<close>

lemma member_bytes_terminated:
  assumes "reg_struct fs n names" and "reg_frame fs names p m m'" and "terminated m' p fs names"
    and "p + n \<le> length m" and "nm \<in> set names"
    and "list_all (\<lambda>nm'. nm' = nm \<or> members_apart fs nm nm') names"
  shows "member_bytes m' p fs nm =
    take (snd (cmember fs nm) - 1) (member_bytes m p fs nm) @ [0]"
proof -
  have c: "members_apart fs nm ''comm_version_''" "0 < snd (cmember fs nm)"
      "fst (cmember fs nm) + snd (cmember fs nm) \<le> n"
    using assms(1,5)
    by (auto simp: reg_struct_def members_within_def list_all_iff members_apart_def)
  have len: "length m' = length m" using assms(2) by (simp add: reg_frame_def)
  have last: "m' ! last_byte fs p nm = 0"
    using assms(3,5) by (simp add: terminated_def list_all_iff last_byte_def)
  have old: "m' ! (p + fst (cmember fs nm) + i) = m ! (p + fst (cmember fs nm) + i)"
    if "i < snd (cmember fs nm) - 1" for i
  proof -
    have "p + fst (cmember fs nm) + i \<noteq> last_byte fs p nm'" if "nm' \<in> set names" for nm'
      using last_byte_apart [OF assms(1) that, of nm p] assms(6) that \<open>i < _\<close>
      by (fastforce simp: list_all_iff last_byte_def)
    then have "p + fst (cmember fs nm) + i \<notin> last_byte fs p ` set names" by blast
    moreover have "p + fst (cmember fs nm) + i < p + fst (cmember fs ''comm_version_'') \<or>
        p + fst (cmember fs ''comm_version_'') + snd (cmember fs ''comm_version_'') \<le>
          p + fst (cmember fs nm) + i"
      using c(1) that by (auto simp: members_apart_def)
    ultimately show ?thesis using assms(2) unfolding reg_frame_def by blast
  qed
  show ?thesis
  proof (rule nth_equalityI)
    show l: "length (member_bytes m' p fs nm) =
        length (take (snd (cmember fs nm) - 1) (member_bytes m p fs nm) @ [0])"
      using c(2,3) assms(4) len by (simp add: member_bytes_def)
    fix i assume "i < length (member_bytes m' p fs nm)"
    then have i: "i < snd (cmember fs nm)" by (simp add: member_bytes_def)
    show "member_bytes m' p fs nm ! i =
        (take (snd (cmember fs nm) - 1) (member_bytes m p fs nm) @ [0]) ! i"
    proof (cases "i < snd (cmember fs nm) - 1")
      case True
      then show ?thesis
        using old [OF True] c(3) assms(4) len by (simp add: member_bytes_def nth_append)
    next
      case False
      then have "i = snd (cmember fs nm) - 1" using i by simp
      then show ?thesis
        using last c(2,3) assms(4) len by (simp add: member_bytes_def nth_append last_byte_def)
    qed
  qed
qed

lemma takeWhile_terminated: "takeWhile (\<lambda>b. b \<noteq> 0) (xs @ [0 :: byte]) = takeWhile (\<lambda>b. b \<noteq> 0) xs"
  by (induction xs) simp_all

section \<open>The members the methods terminate\<close>

definition PS_REGISTER_REQ_S_names :: "string list" where
  "PS_REGISTER_REQ_S_names = [''hostname_'', ''write_access_key_'', ''cluster_name_'',
      ''region_name_'', ''zone_name_'']"

lemma PS_REGISTER_REQ_S_layout: "reg_struct PS_REGISTER_REQ_S_fields (csizeof PS_REGISTER_REQ_S_t) PS_REGISTER_REQ_S_names"
  by (simp add: reg_struct_def PS_REGISTER_REQ_S_names_def members_within_def members_apart_def gy_size)

definition PM_CONNECT_CMD_S_names :: "string list" where
  "PM_CONNECT_CMD_S_names = [''hostname_'', ''write_access_key_'', ''cluster_name_'',
      ''region_name_'', ''zone_name_'']"

lemma PM_CONNECT_CMD_S_layout: "reg_struct PM_CONNECT_CMD_S_fields (csizeof PM_CONNECT_CMD_S_t) PM_CONNECT_CMD_S_names"
  by (simp add: reg_struct_def PM_CONNECT_CMD_S_names_def members_within_def members_apart_def gy_size)

definition MS_REGISTER_REQ_S_names :: "string list" where
  "MS_REGISTER_REQ_S_names = [''madhava_hostname_'', ''region_name_'', ''zone_name_'',
      ''madhava_name_'', ''shyama_secret_'']"

lemma MS_REGISTER_REQ_S_layout: "reg_struct MS_REGISTER_REQ_S_fields (csizeof MS_REGISTER_REQ_S_t) MS_REGISTER_REQ_S_names"
  by (simp add: reg_struct_def MS_REGISTER_REQ_S_names_def members_within_def members_apart_def gy_size)

definition MM_CONNECT_CMD_S_names :: "string list" where
  "MM_CONNECT_CMD_S_names = [''madhava_hostname_'', ''region_name_'', ''zone_name_'',
      ''madhava_name_'']"

lemma MM_CONNECT_CMD_S_layout: "reg_struct MM_CONNECT_CMD_S_fields (csizeof MM_CONNECT_CMD_S_t) MM_CONNECT_CMD_S_names"
  by (simp add: reg_struct_def MM_CONNECT_CMD_S_names_def members_within_def members_apart_def gy_size)

definition NS_REGISTER_REQ_S_names :: "string list" where
  "NS_REGISTER_REQ_S_names = [''node_hostname_'']"

lemma NS_REGISTER_REQ_S_layout: "reg_struct NS_REGISTER_REQ_S_fields (csizeof NS_REGISTER_REQ_S_t) NS_REGISTER_REQ_S_names"
  by (simp add: reg_struct_def NS_REGISTER_REQ_S_names_def members_within_def members_apart_def gy_size)

definition NM_CONNECT_CMD_S_names :: "string list" where
  "NM_CONNECT_CMD_S_names = [''node_hostname_'']"

lemma NM_CONNECT_CMD_S_layout: "reg_struct NM_CONNECT_CMD_S_fields (csizeof NM_CONNECT_CMD_S_t) NM_CONNECT_CMD_S_names"
  by (simp add: reg_struct_def NM_CONNECT_CMD_S_names_def members_within_def members_apart_def gy_size)

section \<open>Decisions of the methods\<close>

lemma PM_CONNECT_CMD_S_validate_fields_result:
  assumes "p + csizeof PM_CONNECT_CMD_S_t \<le> length m"
  shows "\<exists>m'. reg_result (PM_CONNECT_CMD_S_validate_fields madhava_id min_partha_version madhava_version tcurr m p)
       (if fldv m p PM_CONNECT_CMD_S_fields ''comm_version_'' = 0 then Some ERR_PROTOCOL_VERSION
        else if fldv m p PM_CONNECT_CMD_S_fields ''partha_version_'' < min_partha_version then Some ERR_PARTHA_VERSION
        else if fldv m p PM_CONNECT_CMD_S_fields ''min_madhava_version_'' > madhava_version then Some ERR_MADHAVA_VERSION
        else if fldv m p PM_CONNECT_CMD_S_fields ''machine_id_hi_'' = 0 \<and>
             fldv m p PM_CONNECT_CMD_S_fields ''machine_id_lo_'' = 0 then Some ERR_INVALID_MACHINE_ID
        else if fldv m p PM_CONNECT_CMD_S_fields ''madhava_id_'' \<noteq> madhava_id then Some ERR_MISMATCH_ID
        else if clock_differs tcurr (of_nat (fldv m p PM_CONNECT_CMD_S_fields ''curr_sec_'')) then Some ERR_SYSTEM_TIME_MISMATCH
        else None) m' \<and>
     reg_frame PM_CONNECT_CMD_S_fields PM_CONNECT_CMD_S_names p m m' \<and> terminated m' p PM_CONNECT_CMD_S_fields PM_CONNECT_CMD_S_names \<and>
     fldv m' p PM_CONNECT_CMD_S_fields ''comm_version_'' = min 1 (fldv m p PM_CONNECT_CMD_S_fields ''comm_version_'')"
proof -
  let ?F = PM_CONNECT_CMD_S_fields and ?names = PM_CONNECT_CMD_S_names
  obtain m1 m2 where s: "put_last_nuls m p ?F ?names = Some m1"
      "clamp_version m1 p ?F = Some (if fldv m p ?F ''comm_version_'' = 0 then Some 0 else None, m2)"
    and frame: "reg_frame ?F ?names p m m2" and ends: "terminated m2 p ?F ?names"
    and v: "fldv m2 p ?F ''comm_version_'' = min 1 (fldv m p ?F ''comm_version_'')"
    by (rule reg_start [OF PM_CONNECT_CMD_S_layout assms])
  have rd: "fld m2 p ?F nm = Some (fldv m p ?F nm)"
    if "nm \<in> {''partha_version_'', ''min_madhava_version_'', ''machine_id_hi_'', ''machine_id_lo_'', ''madhava_id_'', ''curr_sec_''}" for nm
    using reg_frame_fld [OF PM_CONNECT_CMD_S_layout frame] assms that
    by (auto simp: PM_CONNECT_CMD_S_names_def members_apart_def gy_size)
  show ?thesis
    using s frame ends v
    by (intro exI [of _ m2])
      (simp add: PM_CONNECT_CMD_S_validate_fields_def PM_CONNECT_CMD_S_names_def rd del: put_last_nuls.simps)
qed

lemma PS_REGISTER_REQ_S_validate_fields_result:
  assumes "p + csizeof PS_REGISTER_REQ_S_t \<le> length m"
  shows "\<exists>m'. reg_result (PS_REGISTER_REQ_S_validate_fields min_partha_version shyama_version tcurr m p)
       (if fldv m p PS_REGISTER_REQ_S_fields ''comm_version_'' = 0 then Some ERR_PROTOCOL_VERSION
        else if fldv m p PS_REGISTER_REQ_S_fields ''partha_version_'' < min_partha_version then Some ERR_PARTHA_VERSION
        else if fldv m p PS_REGISTER_REQ_S_fields ''min_shyama_version_'' > shyama_version then Some ERR_SHYAMA_VERSION
        else if fldv m p PS_REGISTER_REQ_S_fields ''machine_id_hi_'' = 0 \<and>
             fldv m p PS_REGISTER_REQ_S_fields ''machine_id_lo_'' = 0 then Some ERR_INVALID_MACHINE_ID
        else if clock_differs tcurr (of_nat (fldv m p PS_REGISTER_REQ_S_fields ''curr_sec_'')) then Some ERR_SYSTEM_TIME_MISMATCH
        else None) m' \<and>
     reg_frame PS_REGISTER_REQ_S_fields PS_REGISTER_REQ_S_names p m m' \<and> terminated m' p PS_REGISTER_REQ_S_fields PS_REGISTER_REQ_S_names \<and>
     fldv m' p PS_REGISTER_REQ_S_fields ''comm_version_'' = min 1 (fldv m p PS_REGISTER_REQ_S_fields ''comm_version_'')"
proof -
  let ?F = PS_REGISTER_REQ_S_fields and ?names = PS_REGISTER_REQ_S_names
  obtain m1 m2 where s: "put_last_nuls m p ?F ?names = Some m1"
      "clamp_version m1 p ?F = Some (if fldv m p ?F ''comm_version_'' = 0 then Some 0 else None, m2)"
    and frame: "reg_frame ?F ?names p m m2" and ends: "terminated m2 p ?F ?names"
    and v: "fldv m2 p ?F ''comm_version_'' = min 1 (fldv m p ?F ''comm_version_'')"
    by (rule reg_start [OF PS_REGISTER_REQ_S_layout assms])
  have rd: "fld m2 p ?F nm = Some (fldv m p ?F nm)"
    if "nm \<in> {''partha_version_'', ''min_shyama_version_'', ''machine_id_hi_'', ''machine_id_lo_'', ''curr_sec_''}" for nm
    using reg_frame_fld [OF PS_REGISTER_REQ_S_layout frame] assms that
    by (auto simp: PS_REGISTER_REQ_S_names_def members_apart_def gy_size)
  show ?thesis
    using s frame ends v
    by (intro exI [of _ m2])
      (simp add: PS_REGISTER_REQ_S_validate_fields_def PS_REGISTER_REQ_S_names_def rd del: put_last_nuls.simps)
qed

lemma MS_REGISTER_REQ_S_validate_fields_result:
  assumes "p + csizeof MS_REGISTER_REQ_S_t \<le> length m"
  shows "\<exists>m'. reg_result (MS_REGISTER_REQ_S_validate_fields min_madhava_version shyama_version shyama_secret tcurr m p)
       (if fldv m p MS_REGISTER_REQ_S_fields ''comm_version_'' = 0 then Some ERR_PROTOCOL_VERSION
        else if fldv m p MS_REGISTER_REQ_S_fields ''madhava_version_'' < min_madhava_version then Some ERR_MADHAVA_VERSION
        else if fldv m p MS_REGISTER_REQ_S_fields ''min_shyama_version_'' > shyama_version then Some ERR_SHYAMA_VERSION
        else if strcmp_differs (take 63 (member_bytes m p MS_REGISTER_REQ_S_fields ''shyama_secret_'')) shyama_secret then Some ERR_INVALID_SECRET
        else if fldv m p MS_REGISTER_REQ_S_fields ''madhava_port_'' = 0 then Some ERR_INVALID_REQUEST
        else if fldv m p MS_REGISTER_REQ_S_fields ''cli_type_'' \<ge> CLI_TYPE_MAX then Some ERR_INVALID_REQUEST
        else if clock_differs tcurr (of_nat (fldv m p MS_REGISTER_REQ_S_fields ''curr_sec_'')) then Some ERR_SYSTEM_TIME_MISMATCH
        else if fldv m p MS_REGISTER_REQ_S_fields ''max_partha_nodes_'' = 0 \<or>
             fldv m p MS_REGISTER_REQ_S_fields ''max_partha_nodes_'' > MAX_PARTHA_PER_MADHAVA then Some ERR_INVALID_REQUEST
        else None) m' \<and>
     reg_frame MS_REGISTER_REQ_S_fields MS_REGISTER_REQ_S_names p m m' \<and> terminated m' p MS_REGISTER_REQ_S_fields MS_REGISTER_REQ_S_names \<and>
     fldv m' p MS_REGISTER_REQ_S_fields ''comm_version_'' = min 1 (fldv m p MS_REGISTER_REQ_S_fields ''comm_version_'')"
proof -
  let ?F = MS_REGISTER_REQ_S_fields and ?names = MS_REGISTER_REQ_S_names
  obtain m1 m2 where s: "put_last_nuls m p ?F ?names = Some m1"
      "clamp_version m1 p ?F = Some (if fldv m p ?F ''comm_version_'' = 0 then Some 0 else None, m2)"
    and frame: "reg_frame ?F ?names p m m2" and ends: "terminated m2 p ?F ?names"
    and v: "fldv m2 p ?F ''comm_version_'' = min 1 (fldv m p ?F ''comm_version_'')"
    by (rule reg_start [OF MS_REGISTER_REQ_S_layout assms])
  have rd: "fld m2 p ?F nm = Some (fldv m p ?F nm)"
    if "nm \<in> {''madhava_version_'', ''min_shyama_version_'', ''madhava_port_'', ''cli_type_'', ''curr_sec_'', ''max_partha_nodes_''}" for nm
    using reg_frame_fld [OF MS_REGISTER_REQ_S_layout frame] assms that
    by (auto simp: MS_REGISTER_REQ_S_names_def members_apart_def gy_size)
  have secret: "strcmp_differs (member_bytes m2 p ?F ''shyama_secret_'') shyama_secret =
      strcmp_differs (take 63 (member_bytes m p ?F ''shyama_secret_'')) shyama_secret"
    using member_bytes_terminated [OF MS_REGISTER_REQ_S_layout frame ends assms, of "''shyama_secret_''"]
    by (simp add: MS_REGISTER_REQ_S_names_def members_apart_def gy_size strcmp_differs_def
        takeWhile_terminated)
  show ?thesis
    using s frame ends v
    by (intro exI [of _ m2])
      (simp add: MS_REGISTER_REQ_S_validate_fields_def MS_REGISTER_REQ_S_names_def rd secret del: put_last_nuls.simps)
qed

lemma NS_REGISTER_REQ_S_validate_fields_result:
  assumes "p + csizeof NS_REGISTER_REQ_S_t \<le> length m"
  shows "\<exists>m'. reg_result (NS_REGISTER_REQ_S_validate_fields min_node_version shyama_version tcurr m p)
       (if fldv m p NS_REGISTER_REQ_S_fields ''comm_version_'' = 0 then Some ERR_PROTOCOL_VERSION
        else if fldv m p NS_REGISTER_REQ_S_fields ''node_version_'' < min_node_version then Some ERR_NODE_VERSION
        else if fldv m p NS_REGISTER_REQ_S_fields ''min_shyama_version_'' > shyama_version then Some ERR_SHYAMA_VERSION
        else if fldv m p NS_REGISTER_REQ_S_fields ''node_port_'' = 0 then Some ERR_INVALID_REQUEST
        else if fldv m p NS_REGISTER_REQ_S_fields ''cli_type_'' \<ge> CLI_TYPE_MAX then Some ERR_INVALID_REQUEST
        else if clock_differs tcurr (of_nat (fldv m p NS_REGISTER_REQ_S_fields ''curr_sec_'')) then Some ERR_SYSTEM_TIME_MISMATCH
        else None) m' \<and>
     reg_frame NS_REGISTER_REQ_S_fields NS_REGISTER_REQ_S_names p m m' \<and> terminated m' p NS_REGISTER_REQ_S_fields NS_REGISTER_REQ_S_names \<and>
     fldv m' p NS_REGISTER_REQ_S_fields ''comm_version_'' = min 1 (fldv m p NS_REGISTER_REQ_S_fields ''comm_version_'')"
proof -
  let ?F = NS_REGISTER_REQ_S_fields and ?names = NS_REGISTER_REQ_S_names
  obtain m1 m2 where s: "put_last_nuls m p ?F ?names = Some m1"
      "clamp_version m1 p ?F = Some (if fldv m p ?F ''comm_version_'' = 0 then Some 0 else None, m2)"
    and frame: "reg_frame ?F ?names p m m2" and ends: "terminated m2 p ?F ?names"
    and v: "fldv m2 p ?F ''comm_version_'' = min 1 (fldv m p ?F ''comm_version_'')"
    by (rule reg_start [OF NS_REGISTER_REQ_S_layout assms])
  have rd: "fld m2 p ?F nm = Some (fldv m p ?F nm)"
    if "nm \<in> {''node_version_'', ''min_shyama_version_'', ''node_port_'', ''cli_type_'', ''curr_sec_''}" for nm
    using reg_frame_fld [OF NS_REGISTER_REQ_S_layout frame] assms that
    by (auto simp: NS_REGISTER_REQ_S_names_def members_apart_def gy_size)
  show ?thesis
    using s frame ends v
    by (intro exI [of _ m2])
      (simp add: NS_REGISTER_REQ_S_validate_fields_def NS_REGISTER_REQ_S_names_def rd del: put_last_nuls.simps)
qed

lemma NM_CONNECT_CMD_S_validate_fields_result:
  assumes "p + csizeof NM_CONNECT_CMD_S_t \<le> length m"
  shows "\<exists>m'. reg_result (NM_CONNECT_CMD_S_validate_fields min_node_version madhava_version tcurr m p)
       (if fldv m p NM_CONNECT_CMD_S_fields ''comm_version_'' = 0 then Some ERR_PROTOCOL_VERSION
        else if fldv m p NM_CONNECT_CMD_S_fields ''node_version_'' < min_node_version then Some ERR_NODE_VERSION
        else if fldv m p NM_CONNECT_CMD_S_fields ''min_madhava_version_'' > madhava_version then Some ERR_SHYAMA_VERSION
        else if fldv m p NM_CONNECT_CMD_S_fields ''node_port_'' = 0 then Some ERR_INVALID_REQUEST
        else if fldv m p NM_CONNECT_CMD_S_fields ''cli_type_'' \<ge> CLI_TYPE_MAX then Some ERR_INVALID_REQUEST
        else if clock_differs tcurr (of_nat (fldv m p NM_CONNECT_CMD_S_fields ''curr_sec_'')) then Some ERR_SYSTEM_TIME_MISMATCH
        else None) m' \<and>
     reg_frame NM_CONNECT_CMD_S_fields NM_CONNECT_CMD_S_names p m m' \<and> terminated m' p NM_CONNECT_CMD_S_fields NM_CONNECT_CMD_S_names \<and>
     fldv m' p NM_CONNECT_CMD_S_fields ''comm_version_'' = min 1 (fldv m p NM_CONNECT_CMD_S_fields ''comm_version_'')"
proof -
  let ?F = NM_CONNECT_CMD_S_fields and ?names = NM_CONNECT_CMD_S_names
  obtain m1 m2 where s: "put_last_nuls m p ?F ?names = Some m1"
      "clamp_version m1 p ?F = Some (if fldv m p ?F ''comm_version_'' = 0 then Some 0 else None, m2)"
    and frame: "reg_frame ?F ?names p m m2" and ends: "terminated m2 p ?F ?names"
    and v: "fldv m2 p ?F ''comm_version_'' = min 1 (fldv m p ?F ''comm_version_'')"
    by (rule reg_start [OF NM_CONNECT_CMD_S_layout assms])
  have rd: "fld m2 p ?F nm = Some (fldv m p ?F nm)"
    if "nm \<in> {''node_version_'', ''min_madhava_version_'', ''node_port_'', ''cli_type_'', ''curr_sec_''}" for nm
    using reg_frame_fld [OF NM_CONNECT_CMD_S_layout frame] assms that
    by (auto simp: NM_CONNECT_CMD_S_names_def members_apart_def gy_size)
  show ?thesis
    using s frame ends v
    by (intro exI [of _ m2])
      (simp add: NM_CONNECT_CMD_S_validate_fields_def NM_CONNECT_CMD_S_names_def rd del: put_last_nuls.simps)
qed

lemma MM_CONNECT_CMD_S_validate_fields_result:
  assumes "p + csizeof MM_CONNECT_CMD_S_t \<le> length m"
  shows "\<exists>m'. reg_result
       (MM_CONNECT_CMD_S_validate_fields madhava_id min_madhava_version curr_madhava_version tcurr m p)
       (if fldv m p MM_CONNECT_CMD_S_fields ''remote_madhava_id_'' \<noteq> madhava_id then Some ERR_MISMATCH_ID
        else if fldv m p MM_CONNECT_CMD_S_fields ''comm_version_'' = 0 then Some ERR_PROTOCOL_VERSION
        else if fldv m p MM_CONNECT_CMD_S_fields ''local_version_'' < min_madhava_version
             then Some ERR_MADHAVA_VERSION
        else if fldv m p MM_CONNECT_CMD_S_fields ''min_remote_version_'' > curr_madhava_version
             then Some ERR_MADHAVA_VERSION
        else if fldv m p MM_CONNECT_CMD_S_fields ''local_madhava_id_'' = 0 then Some ERR_INVALID_ID
        else if clock_differs tcurr (of_nat (fldv m p MM_CONNECT_CMD_S_fields ''curr_sec_''))
             then Some ERR_SYSTEM_TIME_MISMATCH
        else None) m' \<and>
     reg_frame MM_CONNECT_CMD_S_fields MM_CONNECT_CMD_S_names p m m' \<and>
     terminated m' p MM_CONNECT_CMD_S_fields MM_CONNECT_CMD_S_names"
proof -
  let ?F = MM_CONNECT_CMD_S_fields and ?names = MM_CONNECT_CMD_S_names
  obtain m1 where m1: "put_last_nuls m p ?F ?names = Some m1" "reg_frame ?F ?names p m m1"
      "terminated m1 p ?F ?names" "fldv m1 p ?F ''comm_version_'' = fldv m p ?F ''comm_version_''"
    by (rule reg_names [OF MM_CONNECT_CMD_S_layout assms])
  have "p + csizeof MM_CONNECT_CMD_S_t \<le> length m1" using assms m1(2) by (simp add: reg_frame_def)
  then obtain m2 where m2: "clamp_version m1 p ?F =
      Some (if fldv m1 p ?F ''comm_version_'' = 0 then Some 0 else None, m2)"
      "reg_frame ?F ?names p m1 m2" "terminated m2 p ?F ?names"
    using reg_clamp [OF MM_CONNECT_CMD_S_layout _ m1(3)] by blast
  have frame: "reg_frame ?F ?names p m m2" by (rule reg_frame_trans [OF m1(2) m2(2)])
  have rd: "fld m2 p ?F nm = Some (fldv m p ?F nm) \<and> fld m1 p ?F nm = Some (fldv m p ?F nm)"
    if "nm \<in> {''remote_madhava_id_'', ''local_version_'', ''min_remote_version_'',
               ''local_madhava_id_'', ''curr_sec_''}" for nm
    using reg_frame_fld [OF MM_CONNECT_CMD_S_layout frame] reg_frame_fld [OF MM_CONNECT_CMD_S_layout m1(2)]
      assms that
    by (auto simp: MM_CONNECT_CMD_S_names_def members_apart_def gy_size)
  show ?thesis
  proof (cases "fldv m p ?F ''remote_madhava_id_'' = madhava_id")
    case False
    then show ?thesis using m1(1,2,3)
      by (intro exI [of _ m1])
        (simp add: MM_CONNECT_CMD_S_validate_fields_def MM_CONNECT_CMD_S_names_def rd del: put_last_nuls.simps)
  next
    case True
    then show ?thesis using m1(1,4) m2(1,3) frame
      by (intro exI [of _ m2])
        (simp add: MM_CONNECT_CMD_S_validate_fields_def MM_CONNECT_CMD_S_names_def rd del: put_last_nuls.simps)
  qed
qed

section \<open>Properties of the requests\<close>

text \<open>(C17) A Partha that connects to a Madhava. On a struct in the receive buffer \<open>validate_fields\<close> never
  faults. It accepts exactly the requests with a supported protocol version, versions that both
  sides support, a machine id, the id of this Madhava and a clock within a minute; otherwise the
  error code is that of the first of these conditions that fails, decided on the values as they
  were received. It changes nothing outside of the struct, leaves every string terminated and
  lowers \<open>comm_version_\<close> to the version of this side.\<close>

theorem PM_CONNECT_CMD_S_validate_fields_spec:
  assumes "p + csizeof PM_CONNECT_CMD_S_t \<le> length m"
  shows "\<exists>m'. reg_result (PM_CONNECT_CMD_S_validate_fields madhava_id min_partha_version madhava_version tcurr m p)
       (if fldv m p PM_CONNECT_CMD_S_fields ''comm_version_'' = 0 then Some ERR_PROTOCOL_VERSION
        else if fldv m p PM_CONNECT_CMD_S_fields ''partha_version_'' < min_partha_version then Some ERR_PARTHA_VERSION
        else if fldv m p PM_CONNECT_CMD_S_fields ''min_madhava_version_'' > madhava_version then Some ERR_MADHAVA_VERSION
        else if fldv m p PM_CONNECT_CMD_S_fields ''machine_id_hi_'' = 0 \<and>
             fldv m p PM_CONNECT_CMD_S_fields ''machine_id_lo_'' = 0 then Some ERR_INVALID_MACHINE_ID
        else if fldv m p PM_CONNECT_CMD_S_fields ''madhava_id_'' \<noteq> madhava_id then Some ERR_MISMATCH_ID
        else if clock_differs tcurr (of_nat (fldv m p PM_CONNECT_CMD_S_fields ''curr_sec_'')) then Some ERR_SYSTEM_TIME_MISMATCH
        else None) m' \<and>
     reg_frame PM_CONNECT_CMD_S_fields PM_CONNECT_CMD_S_names p m m' \<and> terminated m' p PM_CONNECT_CMD_S_fields PM_CONNECT_CMD_S_names \<and>
     fldv m' p PM_CONNECT_CMD_S_fields ''comm_version_'' = min 1 (fldv m p PM_CONNECT_CMD_S_fields ''comm_version_'')"
  by (rule PM_CONNECT_CMD_S_validate_fields_result [OF assms])

theorem PM_CONNECT_CMD_S_validate_fields_spec_witness:
  "\<exists>m'. reg_result (PM_CONNECT_CMD_S_validate_fields 0 0 0 0
      ([1] @ replicate 23 0 @ [1] @ replicate 1095 0) 0) None m'"
  using PM_CONNECT_CMD_S_validate_fields_spec
    [of 0 "[1] @ replicate 23 0 @ [1] @ replicate 1095 0" "0" "0" "0" 0]
  by (auto simp: fldv_def rdv_def gy_size clock_differs_def labs64_def)

text \<open>A Partha that registers with Shyama: the same for \<open>PS_REGISTER_REQ_S\<close>, with the conditions of
  Shyama.\<close>

theorem PS_REGISTER_REQ_S_validate_fields_spec:
  assumes "p + csizeof PS_REGISTER_REQ_S_t \<le> length m"
  shows "\<exists>m'. reg_result (PS_REGISTER_REQ_S_validate_fields min_partha_version shyama_version tcurr m p)
       (if fldv m p PS_REGISTER_REQ_S_fields ''comm_version_'' = 0 then Some ERR_PROTOCOL_VERSION
        else if fldv m p PS_REGISTER_REQ_S_fields ''partha_version_'' < min_partha_version then Some ERR_PARTHA_VERSION
        else if fldv m p PS_REGISTER_REQ_S_fields ''min_shyama_version_'' > shyama_version then Some ERR_SHYAMA_VERSION
        else if fldv m p PS_REGISTER_REQ_S_fields ''machine_id_hi_'' = 0 \<and>
             fldv m p PS_REGISTER_REQ_S_fields ''machine_id_lo_'' = 0 then Some ERR_INVALID_MACHINE_ID
        else if clock_differs tcurr (of_nat (fldv m p PS_REGISTER_REQ_S_fields ''curr_sec_'')) then Some ERR_SYSTEM_TIME_MISMATCH
        else None) m' \<and>
     reg_frame PS_REGISTER_REQ_S_fields PS_REGISTER_REQ_S_names p m m' \<and> terminated m' p PS_REGISTER_REQ_S_fields PS_REGISTER_REQ_S_names \<and>
     fldv m' p PS_REGISTER_REQ_S_fields ''comm_version_'' = min 1 (fldv m p PS_REGISTER_REQ_S_fields ''comm_version_'')"
  by (rule PS_REGISTER_REQ_S_validate_fields_result [OF assms])

theorem PS_REGISTER_REQ_S_validate_fields_spec_witness:
  "\<exists>m'. reg_result (PS_REGISTER_REQ_S_validate_fields 0 0 0
      ([1] @ replicate 23 0 @ [1] @ replicate 1071 0) 0) None m'"
  using PS_REGISTER_REQ_S_validate_fields_spec
    [of 0 "[1] @ replicate 23 0 @ [1] @ replicate 1071 0" "0" "0" 0]
  by (auto simp: fldv_def rdv_def gy_size clock_differs_def labs64_def)

text \<open>A Madhava that registers with Shyama: \<open>validate_fields\<close> never faults on a struct in the receive
  buffer, and accepts exactly the requests with a supported protocol version, versions both sides
  support, the secret of this Shyama in the first 63 bytes of its array, a port, a valid
  connection type, a clock within a minute and a number of Parthas from 1 to 512.\<close>

theorem MS_REGISTER_REQ_S_validate_fields_spec:
  assumes "p + csizeof MS_REGISTER_REQ_S_t \<le> length m"
  shows "\<exists>m'. reg_result (MS_REGISTER_REQ_S_validate_fields min_madhava_version shyama_version shyama_secret tcurr m p)
       (if fldv m p MS_REGISTER_REQ_S_fields ''comm_version_'' = 0 then Some ERR_PROTOCOL_VERSION
        else if fldv m p MS_REGISTER_REQ_S_fields ''madhava_version_'' < min_madhava_version then Some ERR_MADHAVA_VERSION
        else if fldv m p MS_REGISTER_REQ_S_fields ''min_shyama_version_'' > shyama_version then Some ERR_SHYAMA_VERSION
        else if strcmp_differs (take 63 (member_bytes m p MS_REGISTER_REQ_S_fields ''shyama_secret_'')) shyama_secret then Some ERR_INVALID_SECRET
        else if fldv m p MS_REGISTER_REQ_S_fields ''madhava_port_'' = 0 then Some ERR_INVALID_REQUEST
        else if fldv m p MS_REGISTER_REQ_S_fields ''cli_type_'' \<ge> CLI_TYPE_MAX then Some ERR_INVALID_REQUEST
        else if clock_differs tcurr (of_nat (fldv m p MS_REGISTER_REQ_S_fields ''curr_sec_'')) then Some ERR_SYSTEM_TIME_MISMATCH
        else if fldv m p MS_REGISTER_REQ_S_fields ''max_partha_nodes_'' = 0 \<or>
             fldv m p MS_REGISTER_REQ_S_fields ''max_partha_nodes_'' > MAX_PARTHA_PER_MADHAVA then Some ERR_INVALID_REQUEST
        else None) m' \<and>
     reg_frame MS_REGISTER_REQ_S_fields MS_REGISTER_REQ_S_names p m m' \<and> terminated m' p MS_REGISTER_REQ_S_fields MS_REGISTER_REQ_S_names \<and>
     fldv m' p MS_REGISTER_REQ_S_fields ''comm_version_'' = min 1 (fldv m p MS_REGISTER_REQ_S_fields ''comm_version_'')"
  by (rule MS_REGISTER_REQ_S_validate_fields_result [OF assms])

theorem MS_REGISTER_REQ_S_validate_fields_spec_witness:
  "\<exists>m'. reg_result (MS_REGISTER_REQ_S_validate_fields 0 0 [] 0
      ([1] @ replicate 279 0 @ [1] @ replicate 287 0 @ [1] @ replicate 807 0) 0) None m'"
  using MS_REGISTER_REQ_S_validate_fields_spec
    [of 0 "[1] @ replicate 279 0 @ [1] @ replicate 287 0 @ [1] @ replicate 807 0" "0" "0" "[]" 0]
  by (auto simp: fldv_def rdv_def gy_size clock_differs_def labs64_def strcmp_differs_def member_bytes_def)

text \<open>A Node web server that connects to a Madhava: the same for \<open>NM_CONNECT_CMD_S\<close>. A Node server that
  needs a newer Madhava gets the code \<open>ERR_SHYAMA_VERSION\<close> with a message about the Madhava version.\<close>

theorem NM_CONNECT_CMD_S_validate_fields_spec:
  assumes "p + csizeof NM_CONNECT_CMD_S_t \<le> length m"
  shows "\<exists>m'. reg_result (NM_CONNECT_CMD_S_validate_fields min_node_version madhava_version tcurr m p)
       (if fldv m p NM_CONNECT_CMD_S_fields ''comm_version_'' = 0 then Some ERR_PROTOCOL_VERSION
        else if fldv m p NM_CONNECT_CMD_S_fields ''node_version_'' < min_node_version then Some ERR_NODE_VERSION
        else if fldv m p NM_CONNECT_CMD_S_fields ''min_madhava_version_'' > madhava_version then Some ERR_SHYAMA_VERSION
        else if fldv m p NM_CONNECT_CMD_S_fields ''node_port_'' = 0 then Some ERR_INVALID_REQUEST
        else if fldv m p NM_CONNECT_CMD_S_fields ''cli_type_'' \<ge> CLI_TYPE_MAX then Some ERR_INVALID_REQUEST
        else if clock_differs tcurr (of_nat (fldv m p NM_CONNECT_CMD_S_fields ''curr_sec_'')) then Some ERR_SYSTEM_TIME_MISMATCH
        else None) m' \<and>
     reg_frame NM_CONNECT_CMD_S_fields NM_CONNECT_CMD_S_names p m m' \<and> terminated m' p NM_CONNECT_CMD_S_fields NM_CONNECT_CMD_S_names \<and>
     fldv m' p NM_CONNECT_CMD_S_fields ''comm_version_'' = min 1 (fldv m p NM_CONNECT_CMD_S_fields ''comm_version_'')"
  by (rule NM_CONNECT_CMD_S_validate_fields_result [OF assms])

theorem NM_CONNECT_CMD_S_validate_fields_spec_witness:
  "\<exists>m'. reg_result (NM_CONNECT_CMD_S_validate_fields 0 0 0
      (replicate 8 0 @ [1] @ replicate 15 0 @ [1] @ replicate 391 0) 0) None m'"
  using NM_CONNECT_CMD_S_validate_fields_spec
    [of 0 "replicate 8 0 @ [1] @ replicate 15 0 @ [1] @ replicate 391 0" "0" "0" 0]
  by (auto simp: fldv_def rdv_def gy_size clock_differs_def labs64_def)

text \<open>A Madhava that connects to another Madhava: the id of the addressed Madhava is checked first,
  before the protocol version is looked at or lowered.\<close>

theorem MM_CONNECT_CMD_S_validate_fields_spec:
  assumes "p + csizeof MM_CONNECT_CMD_S_t \<le> length m"
  shows "\<exists>m'. reg_result
       (MM_CONNECT_CMD_S_validate_fields madhava_id min_madhava_version curr_madhava_version tcurr m p)
       (if fldv m p MM_CONNECT_CMD_S_fields ''remote_madhava_id_'' \<noteq> madhava_id then Some ERR_MISMATCH_ID
        else if fldv m p MM_CONNECT_CMD_S_fields ''comm_version_'' = 0 then Some ERR_PROTOCOL_VERSION
        else if fldv m p MM_CONNECT_CMD_S_fields ''local_version_'' < min_madhava_version
             then Some ERR_MADHAVA_VERSION
        else if fldv m p MM_CONNECT_CMD_S_fields ''min_remote_version_'' > curr_madhava_version
             then Some ERR_MADHAVA_VERSION
        else if fldv m p MM_CONNECT_CMD_S_fields ''local_madhava_id_'' = 0 then Some ERR_INVALID_ID
        else if clock_differs tcurr (of_nat (fldv m p MM_CONNECT_CMD_S_fields ''curr_sec_''))
             then Some ERR_SYSTEM_TIME_MISMATCH
        else None) m' \<and>
     reg_frame MM_CONNECT_CMD_S_fields MM_CONNECT_CMD_S_names p m m' \<and>
     terminated m' p MM_CONNECT_CMD_S_fields MM_CONNECT_CMD_S_names"
  by (rule MM_CONNECT_CMD_S_validate_fields_result [OF assms])

theorem MM_CONNECT_CMD_S_validate_fields_spec_witness:
  "\<exists>m'. reg_result (MM_CONNECT_CMD_S_validate_fields 1 0 0 0
      ([1] @ replicate 463 0 @ [1] @ replicate 7 0 @ [1] @ replicate 551 0) 0) None m'"
  using MM_CONNECT_CMD_S_validate_fields_spec
    [of 0 "[1] @ replicate 463 0 @ [1] @ replicate 7 0 @ [1] @ replicate 551 0" "1" "0" "0" 0]
  by (auto simp: fldv_def rdv_def gy_size clock_differs_def labs64_def)

text \<open>A request whose clock differs by \<open>2 ^ 63\<close> seconds passes the clock check of every registration:
  \<open>labs\<close> of the smallest \<open>int64_t\<close> is negative. Every other difference of a minute or more, as a
  64 bit number, is rejected.\<close>

theorem clock_check_hole:
  "clock_differs tcurr curr_sec \<longleftrightarrow> curr_sec \<noteq> tcurr + 2 ^ 63 \<and> \<bar>sint (tcurr - curr_sec)\<bar> \<ge> 60"
proof -
  have "tcurr - curr_sec = 2 ^ 63 \<longleftrightarrow> curr_sec = tcurr + 2 ^ 63"
  proof
    assume "tcurr - curr_sec = 2 ^ 63"
    then have "curr_sec = tcurr - 2 ^ 63" by (simp add: algebra_simps)
    also have "\<dots> = tcurr + 2 ^ 63" by simp
    finally show "curr_sec = tcurr + 2 ^ 63" .
  qed simp
  then show ?thesis by (simp add: clock_differs_iff)
qed

section \<open>The responses\<close>

text \<open>A result inside of bounds that changed only the struct of \<open>n\<close> bytes at \<open>p\<close> and terminated its
  strings.\<close>

definition resp_ok :: "cfields \<Rightarrow> nat \<Rightarrow> string list \<Rightarrow> mem \<Rightarrow> nat \<Rightarrow> (bool \<times> mem) option \<Rightarrow> bool" where
  "resp_ok fs n names m p r \<longleftrightarrow>
     (\<exists>b m'. r = Some (b, m') \<and> same_off m m' p (p + n) \<and> terminated m' p fs names)"

lemma resp_inside:
  assumes "validate_hdr h q mg" and "data_type h = comm_type_val t" and "q + unat (total_sz h) \<le> length m"
  shows "q + 16 + header_payload t \<le> length m"
  using assms by (auto simp: validate_hdr_iff)

lemma resp_okI:
  assumes "members_within fs n names" and "p + n \<le> length m"
  shows "resp_ok fs n names m p
    (do { m' \<leftarrow> put_last_nuls m p fs names; Some (b, m') })"
  using put_last_nuls_in [OF assms(2,1)] put_last_nuls_terminated
  by (fastforce simp: resp_ok_def terminated_def list_all_iff)

lemma PS_REGISTER_RESP_S_validate_ok:
  "p + csizeof PS_REGISTER_RESP_S_t \<le> length m \<Longrightarrow> resp_ok PS_REGISTER_RESP_S_fields (csizeof PS_REGISTER_RESP_S_t)
     [''error_string_'', ''madhava_hostname_'', ''madhava_name_''] m p
     (PS_REGISTER_RESP_S_validate h m p)"
  unfolding PS_REGISTER_RESP_S_validate_def
  by (rule resp_okI) (simp_all add: members_within_def gy_size)

lemma PM_CONNECT_RESP_S_validate_ok:
  "p + csizeof PM_CONNECT_RESP_S_t \<le> length m \<Longrightarrow> resp_ok PM_CONNECT_RESP_S_fields (csizeof PM_CONNECT_RESP_S_t)
     [''error_string_'', ''region_name_'', ''zone_name_'', ''madhava_name_''] m p
     (PM_CONNECT_RESP_S_validate h m p)"
  unfolding PM_CONNECT_RESP_S_validate_def
  by (rule resp_okI) (simp_all add: members_within_def gy_size)

lemma MS_REGISTER_RESP_S_validate_ok:
  "p + csizeof MS_REGISTER_RESP_S_t \<le> length m \<Longrightarrow> resp_ok MS_REGISTER_RESP_S_fields (csizeof MS_REGISTER_RESP_S_t)
     [''error_string_'', ''region_name_'', ''zone_name_'', ''shyama_name_''] m p
     (MS_REGISTER_RESP_S_validate h m p)"
  unfolding MS_REGISTER_RESP_S_validate_def
  by (rule resp_okI) (simp_all add: members_within_def gy_size)

lemma MM_CONNECT_RESP_S_validate_ok:
  "p + csizeof MM_CONNECT_RESP_S_t \<le> length m \<Longrightarrow> resp_ok MM_CONNECT_RESP_S_fields (csizeof MM_CONNECT_RESP_S_t)
     [''error_string_'', ''region_name_'', ''zone_name_'', ''madhava_name_''] m p
     (MM_CONNECT_RESP_S_validate h m p)"
  unfolding MM_CONNECT_RESP_S_validate_def
  by (rule resp_okI) (simp_all add: members_within_def gy_size)

text \<open>(C18) The \<open>validate\<close> methods of the four registration responses write to the payload before they look
  at its length. They are safe behind \<open>COMM_HEADER::validate\<close>, which has required the struct of the
  message type: on a header that passed it, in a buffer that holds the message, they stay in bounds,
  change only the struct and leave its strings terminated.\<close>

theorem responses_validate_inside:
  assumes "validate_hdr h q mg" and "q + unat (total_sz h) \<le> length m"
  shows "(data_type h = comm_type_val PS_REGISTER_RESP \<longrightarrow>
      resp_ok PS_REGISTER_RESP_S_fields (csizeof PS_REGISTER_RESP_S_t)
        [''error_string_'', ''madhava_hostname_'', ''madhava_name_''] m (q + 16)
        (PS_REGISTER_RESP_S_validate h m (q + 16))) \<and>
    (data_type h = comm_type_val PM_CONNECT_RESP \<longrightarrow>
      resp_ok PM_CONNECT_RESP_S_fields (csizeof PM_CONNECT_RESP_S_t)
        [''error_string_'', ''region_name_'', ''zone_name_'', ''madhava_name_''] m (q + 16)
        (PM_CONNECT_RESP_S_validate h m (q + 16))) \<and>
    (data_type h = comm_type_val MS_REGISTER_RESP \<longrightarrow>
      resp_ok MS_REGISTER_RESP_S_fields (csizeof MS_REGISTER_RESP_S_t)
        [''error_string_'', ''region_name_'', ''zone_name_'', ''shyama_name_''] m (q + 16)
        (MS_REGISTER_RESP_S_validate h m (q + 16))) \<and>
    (data_type h = comm_type_val MM_CONNECT_RESP \<longrightarrow>
      resp_ok MM_CONNECT_RESP_S_fields (csizeof MM_CONNECT_RESP_S_t)
        [''error_string_'', ''region_name_'', ''zone_name_'', ''madhava_name_''] m (q + 16)
        (MM_CONNECT_RESP_S_validate h m (q + 16)))"
proof -
  have "q + 16 + header_payload t \<le> length m" if "data_type h = comm_type_val t" for t
    by (rule resp_inside [OF assms(1) that assms(2)])
  from this [of PS_REGISTER_RESP] this [of PM_CONNECT_RESP] this [of MS_REGISTER_RESP]
    this [of MM_CONNECT_RESP]
  show ?thesis
    by (intro conjI impI PS_REGISTER_RESP_S_validate_ok PM_CONNECT_RESP_S_validate_ok
        MS_REGISTER_RESP_S_validate_ok MM_CONNECT_RESP_S_validate_ok) simp_all
qed

theorem responses_validate_inside_witness:
  "let h = \<lparr>magic = magic_val PM_HDR_MAGIC, total_sz = 1024, data_type = comm_type_val PM_CONNECT_RESP,
            padding_sz = 0\<rparr>;
       m = replicate 1024 0
   in resp_ok PM_CONNECT_RESP_S_fields (csizeof PM_CONNECT_RESP_S_t)
        [''error_string_'', ''region_name_'', ''zone_name_'', ''madhava_name_''] m 16
        (PM_CONNECT_RESP_S_validate h m 16)"
proof -
  let ?h = "\<lparr>magic = magic_val PM_HDR_MAGIC, total_sz = 1024, data_type = comm_type_val PM_CONNECT_RESP,
             padding_sz = 0\<rparr>"
  have "validate_hdr ?h 0 (magic_val PM_HDR_MAGIC)" by (auto simp: validate_hdr_iff)
  from responses_validate_inside [OF this, of "replicate 1024 0"] show ?thesis by (simp add: Let_def)
qed

end
