(* ===== verification/Gy_L1_Base.thy ===== *)
theory Gy_L1_Base
  imports Gy_Task_Events Gy_Query_Msgs Gy_Registration
begin

text \<open>
  What the receiving threads of Madhava and Shyama share: the subtypes of events and queries of
  \<open>common/gy_comm_proto.h\<close>, the state of a connection that the dispatch looks at (\<open>MCONNTRACK\<close> of
  \<open>server/gy_mconnhdlr.h\<close>), and what the dispatch of one message decides. The dispatch runs on the
  message in the receive buffer: \<open>m\<close> is the buffer, \<open>p\<close> the address of the message and \<open>h\<close> its header,
  which has passed \<open>COMM_HEADER::validate\<close>.

  The last section has the property the dispatch needs of every validator, \<open>validator_safe\<close>, for all
  events of the two servers.
\<close>

section \<open>Subtypes\<close>

datatype (plugins only: code size) NOTIFY_TYPE_E =
    NOTIFY_MIN_TYPE
  | NOTIFY_PARTHA_STATUS
  | NOTIFY_MADHAVA_PARTHA_STATUS
  | NOTIFY_MADHAVA_SHYAMA_STATUS
  | NOTIFY_SHYAMA_MADHAVA_STATUS
  | NOTIFY_MADHAVA_MADHAVA_STATUS
  | NOTIFY_MADHAVA_LIST
  | NOTIFY_TASK_MINI_ADD
  | NOTIFY_TASK_FULL_ADD
  | NOTIFY_TASK_TOP_PROCS
  | NOTIFY_TASK_HISTOGRAM
  | NOTIFY_TASK_AGGR
  | NOTIFY_PING_TASK_AGGR
  | NOTIFY_NEW_LISTENER
  | NOTIFY_LISTENER_DAY_STATS
  | NOTIFY_LISTENER_STATE
  | NOTIFY_LISTENER_DEPENDENCY
  | NOTIFY_LISTENER_NAT_IP_EVENT
  | NOTIFY_TCP_CONN
  | NOTIFY_NAT_TCP
  | NOTIFY_MP_CLI_TCP_INFO
  | NOTIFY_CPU_MEM_STATE
  | NOTIFY_AGGR_TASK_STATE
  | NOTIFY_HOST_STATE__V000100
  | NOTIFY_ACTIVE_CONN_STATS
  | NOTIFY_LISTENER_DOMAIN_EVENT
  | NOTIFY_LISTEN_TASKMAP_EVENT
  | NOTIFY_MP_RESET_STATS
  | NOTIFY_MP_SER_TCP_INFO
  | NOTIFY_HOST_INFO
  | NOTIFY_HOST_CPU_MEM_CHANGE
  | NOTIFY_NOTIFICATION_MSG
  | NOTIFY_AGGR_TASK_HIST_STATS
  | NOTIFY_LISTEN_CLUSTER_INFO
  | NOTIFY_HOST_STATE
  | NOTIFY_REQ_TRACE_TRAN
  | NOTIFY_REQ_TRACE_SET
  | NOTIFY_REQ_TRACE_STATUS
  | NOTIFY_PM_EVT_MAX
  | NOTIFY_MS_TCP_CONN
  | NOTIFY_MS_TCP_CONN_CLOSE
  | NOTIFY_SHYAMA_SER_TCP_INFO
  | NOTIFY_SHYAMA_CLI_TCP_INFO
  | NOTIFY_MS_SVC_CLUSTER_MESH
  | NOTIFY_SM_SVC_CLUSTER_MESH
  | NOTIFY_MS_LISTENER_NAT_IP
  | NOTIFY_SM_SVC_NAT_IP_CLUSTER
  | NOTIFY_SM_ALERT_ADEF_NEW
  | NOTIFY_SM_ALERT_ADEF_UPD
  | NOTIFY_SM_ALERT_STAT_DISABLE
  | NOTIFY_ALERT_STAT_INFO
  | NOTIFY_ALERT_STAT_CLOSE
  | NOTIFY_MS_CLUSTER_STATE
  | NOTIFY_MS_PARTHA_PING
  | NOTIFY_MS_REG_PARTHA
  | NOTIFY_SM_REQ_TRACE_DEF_NEW
  | NOTIFY_SM_REQ_TRACE_DEF_DISABLE
  | NOTIFY_MS_EVT_MAX
  | NOTIFY_MM_TASK_AGGR_PING
  | NOTIFY_MM_TASK_AGGR_DEL
  | NOTIFY_MM_TCP_CONN_TASK_CLOSE
  | NOTIFY_MM_AGGR_TASK_STATE
  | NOTIFY_MM_LISTENER_ISSUE_RESOL
  | NOTIFY_MM_LISTENER_PING
  | NOTIFY_MM_LISTENER_DELETE
  | NOTIFY_MM_LISTENER_DEPENDS
  | NOTIFY_MM_ACTIVE_CONN_STATS
  | NOTIFY_MM_EVT_MAX
  | NOTIFY_SM_PARTHA_IDENT
  | NOTIFY_SM_EVT_MAX
  | NOTIFY_PING_CONN
  | NOTIFY_JSON_EVENT
  | NOTIFY_ERROR
  | NOTIFY_MAX_TYPE

fun notify_val :: "NOTIFY_TYPE_E \<Rightarrow> nat" where
  "notify_val NOTIFY_MIN_TYPE = 256"
| "notify_val NOTIFY_PARTHA_STATUS = 257"
| "notify_val NOTIFY_MADHAVA_PARTHA_STATUS = 258"
| "notify_val NOTIFY_MADHAVA_SHYAMA_STATUS = 259"
| "notify_val NOTIFY_SHYAMA_MADHAVA_STATUS = 260"
| "notify_val NOTIFY_MADHAVA_MADHAVA_STATUS = 261"
| "notify_val NOTIFY_MADHAVA_LIST = 262"
| "notify_val NOTIFY_TASK_MINI_ADD = 769"
| "notify_val NOTIFY_TASK_FULL_ADD = 770"
| "notify_val NOTIFY_TASK_TOP_PROCS = 771"
| "notify_val NOTIFY_TASK_HISTOGRAM = 772"
| "notify_val NOTIFY_TASK_AGGR = 773"
| "notify_val NOTIFY_PING_TASK_AGGR = 774"
| "notify_val NOTIFY_NEW_LISTENER = 775"
| "notify_val NOTIFY_LISTENER_DAY_STATS = 776"
| "notify_val NOTIFY_LISTENER_STATE = 777"
| "notify_val NOTIFY_LISTENER_DEPENDENCY = 778"
| "notify_val NOTIFY_LISTENER_NAT_IP_EVENT = 779"
| "notify_val NOTIFY_TCP_CONN = 780"
| "notify_val NOTIFY_NAT_TCP = 781"
| "notify_val NOTIFY_MP_CLI_TCP_INFO = 782"
| "notify_val NOTIFY_CPU_MEM_STATE = 783"
| "notify_val NOTIFY_AGGR_TASK_STATE = 784"
| "notify_val NOTIFY_HOST_STATE__V000100 = 785"
| "notify_val NOTIFY_ACTIVE_CONN_STATS = 786"
| "notify_val NOTIFY_LISTENER_DOMAIN_EVENT = 787"
| "notify_val NOTIFY_LISTEN_TASKMAP_EVENT = 788"
| "notify_val NOTIFY_MP_RESET_STATS = 789"
| "notify_val NOTIFY_MP_SER_TCP_INFO = 790"
| "notify_val NOTIFY_HOST_INFO = 791"
| "notify_val NOTIFY_HOST_CPU_MEM_CHANGE = 792"
| "notify_val NOTIFY_NOTIFICATION_MSG = 793"
| "notify_val NOTIFY_AGGR_TASK_HIST_STATS = 794"
| "notify_val NOTIFY_LISTEN_CLUSTER_INFO = 795"
| "notify_val NOTIFY_HOST_STATE = 796"
| "notify_val NOTIFY_REQ_TRACE_TRAN = 797"
| "notify_val NOTIFY_REQ_TRACE_SET = 798"
| "notify_val NOTIFY_REQ_TRACE_STATUS = 799"
| "notify_val NOTIFY_PM_EVT_MAX = 800"
| "notify_val NOTIFY_MS_TCP_CONN = 1281"
| "notify_val NOTIFY_MS_TCP_CONN_CLOSE = 1282"
| "notify_val NOTIFY_SHYAMA_SER_TCP_INFO = 1283"
| "notify_val NOTIFY_SHYAMA_CLI_TCP_INFO = 1284"
| "notify_val NOTIFY_MS_SVC_CLUSTER_MESH = 1285"
| "notify_val NOTIFY_SM_SVC_CLUSTER_MESH = 1286"
| "notify_val NOTIFY_MS_LISTENER_NAT_IP = 1287"
| "notify_val NOTIFY_SM_SVC_NAT_IP_CLUSTER = 1288"
| "notify_val NOTIFY_SM_ALERT_ADEF_NEW = 1289"
| "notify_val NOTIFY_SM_ALERT_ADEF_UPD = 1290"
| "notify_val NOTIFY_SM_ALERT_STAT_DISABLE = 1291"
| "notify_val NOTIFY_ALERT_STAT_INFO = 1292"
| "notify_val NOTIFY_ALERT_STAT_CLOSE = 1293"
| "notify_val NOTIFY_MS_CLUSTER_STATE = 1294"
| "notify_val NOTIFY_MS_PARTHA_PING = 1295"
| "notify_val NOTIFY_MS_REG_PARTHA = 1296"
| "notify_val NOTIFY_SM_REQ_TRACE_DEF_NEW = 1297"
| "notify_val NOTIFY_SM_REQ_TRACE_DEF_DISABLE = 1298"
| "notify_val NOTIFY_MS_EVT_MAX = 1299"
| "notify_val NOTIFY_MM_TASK_AGGR_PING = 1793"
| "notify_val NOTIFY_MM_TASK_AGGR_DEL = 1794"
| "notify_val NOTIFY_MM_TCP_CONN_TASK_CLOSE = 1795"
| "notify_val NOTIFY_MM_AGGR_TASK_STATE = 1796"
| "notify_val NOTIFY_MM_LISTENER_ISSUE_RESOL = 1797"
| "notify_val NOTIFY_MM_LISTENER_PING = 1798"
| "notify_val NOTIFY_MM_LISTENER_DELETE = 1799"
| "notify_val NOTIFY_MM_LISTENER_DEPENDS = 1800"
| "notify_val NOTIFY_MM_ACTIVE_CONN_STATS = 1801"
| "notify_val NOTIFY_MM_EVT_MAX = 1802"
| "notify_val NOTIFY_SM_PARTHA_IDENT = 2305"
| "notify_val NOTIFY_SM_EVT_MAX = 2306"
| "notify_val NOTIFY_PING_CONN = 2561"
| "notify_val NOTIFY_JSON_EVENT = 2562"
| "notify_val NOTIFY_ERROR = 2817"
| "notify_val NOTIFY_MAX_TYPE = 2818"

definition all_notify_types :: "NOTIFY_TYPE_E list" where
  "all_notify_types = [
     NOTIFY_MIN_TYPE, NOTIFY_PARTHA_STATUS, NOTIFY_MADHAVA_PARTHA_STATUS,
     NOTIFY_MADHAVA_SHYAMA_STATUS, NOTIFY_SHYAMA_MADHAVA_STATUS, NOTIFY_MADHAVA_MADHAVA_STATUS,
     NOTIFY_MADHAVA_LIST, NOTIFY_TASK_MINI_ADD, NOTIFY_TASK_FULL_ADD,
     NOTIFY_TASK_TOP_PROCS, NOTIFY_TASK_HISTOGRAM, NOTIFY_TASK_AGGR,
     NOTIFY_PING_TASK_AGGR, NOTIFY_NEW_LISTENER, NOTIFY_LISTENER_DAY_STATS,
     NOTIFY_LISTENER_STATE, NOTIFY_LISTENER_DEPENDENCY, NOTIFY_LISTENER_NAT_IP_EVENT,
     NOTIFY_TCP_CONN, NOTIFY_NAT_TCP, NOTIFY_MP_CLI_TCP_INFO,
     NOTIFY_CPU_MEM_STATE, NOTIFY_AGGR_TASK_STATE, NOTIFY_HOST_STATE__V000100,
     NOTIFY_ACTIVE_CONN_STATS, NOTIFY_LISTENER_DOMAIN_EVENT, NOTIFY_LISTEN_TASKMAP_EVENT,
     NOTIFY_MP_RESET_STATS, NOTIFY_MP_SER_TCP_INFO, NOTIFY_HOST_INFO,
     NOTIFY_HOST_CPU_MEM_CHANGE, NOTIFY_NOTIFICATION_MSG, NOTIFY_AGGR_TASK_HIST_STATS,
     NOTIFY_LISTEN_CLUSTER_INFO, NOTIFY_HOST_STATE, NOTIFY_REQ_TRACE_TRAN,
     NOTIFY_REQ_TRACE_SET, NOTIFY_REQ_TRACE_STATUS, NOTIFY_PM_EVT_MAX,
     NOTIFY_MS_TCP_CONN, NOTIFY_MS_TCP_CONN_CLOSE, NOTIFY_SHYAMA_SER_TCP_INFO,
     NOTIFY_SHYAMA_CLI_TCP_INFO, NOTIFY_MS_SVC_CLUSTER_MESH, NOTIFY_SM_SVC_CLUSTER_MESH,
     NOTIFY_MS_LISTENER_NAT_IP, NOTIFY_SM_SVC_NAT_IP_CLUSTER, NOTIFY_SM_ALERT_ADEF_NEW,
     NOTIFY_SM_ALERT_ADEF_UPD, NOTIFY_SM_ALERT_STAT_DISABLE, NOTIFY_ALERT_STAT_INFO,
     NOTIFY_ALERT_STAT_CLOSE, NOTIFY_MS_CLUSTER_STATE, NOTIFY_MS_PARTHA_PING,
     NOTIFY_MS_REG_PARTHA, NOTIFY_SM_REQ_TRACE_DEF_NEW, NOTIFY_SM_REQ_TRACE_DEF_DISABLE,
     NOTIFY_MS_EVT_MAX, NOTIFY_MM_TASK_AGGR_PING, NOTIFY_MM_TASK_AGGR_DEL,
     NOTIFY_MM_TCP_CONN_TASK_CLOSE, NOTIFY_MM_AGGR_TASK_STATE, NOTIFY_MM_LISTENER_ISSUE_RESOL,
     NOTIFY_MM_LISTENER_PING, NOTIFY_MM_LISTENER_DELETE, NOTIFY_MM_LISTENER_DEPENDS,
     NOTIFY_MM_ACTIVE_CONN_STATS, NOTIFY_MM_EVT_MAX, NOTIFY_SM_PARTHA_IDENT,
     NOTIFY_SM_EVT_MAX, NOTIFY_PING_CONN, NOTIFY_JSON_EVENT,
     NOTIFY_ERROR, NOTIFY_MAX_TYPE]"

definition notify_of :: "nat \<Rightarrow> NOTIFY_TYPE_E option" where
  "notify_of v = find (\<lambda>t. notify_val t = v) all_notify_types"

datatype QUERY_TYPE_E =
    QUERY_WEB_JSON
  | CRUD_GENERIC_JSON
  | CRUD_ALERT_JSON
  | QUERY_LISTENER_INFO_STATS
  | QUERY_PARTHA_MADHAVA

fun query_val :: "QUERY_TYPE_E \<Rightarrow> nat" where
  "query_val QUERY_WEB_JSON = 1"
| "query_val CRUD_GENERIC_JSON = 2"
| "query_val CRUD_ALERT_JSON = 3"
| "query_val QUERY_LISTENER_INFO_STATS = 200"
| "query_val QUERY_PARTHA_MADHAVA = 201"

definition query_of :: "nat \<Rightarrow> QUERY_TYPE_E option" where
  "query_of v = find (\<lambda>t. query_val t = v)
     [QUERY_WEB_JSON, CRUD_GENERIC_JSON, CRUD_ALERT_JSON, QUERY_LISTENER_INFO_STATS, QUERY_PARTHA_MADHAVA]"

abbreviation (input) RESP_WEB_JSON :: nat where "RESP_WEB_JSON \<equiv> 1000"
abbreviation (input) RESP_BINARY :: nat where "RESP_BINARY \<equiv> 0"
abbreviation (input) CLI_TYPE_REQ_ONLY :: nat where "CLI_TYPE_REQ_ONLY \<equiv> 1"

section \<open>Connections and decisions\<close>

datatype TTYPE_E =
    TTYPE_ACCEPT
  | TTYPE_L1_CLI
  | TTYPE_L1_SHYAMA
  | TTYPE_L2_DB_RD
  | TTYPE_L2_MISC
  | TTYPE_L2_ALERT
  | TTYPE_L2_TRACE

text \<open>\<open>cb_tbl\<close> is the table of callbacks for responses by sequence id; the value tells whether the
  stored callback is valid.\<close>

record CONNTRACK =
  is_registered :: bool
  host_type :: HOST_TYPES_E
  cli_type :: nat
  cb_tbl :: "nat \<rightharpoonup> bool"

text \<open>What the code after the \<open>switch\<close> on the message type goes on with: \<open>L1_THROW\<close> is
  \<open>GY_THROW_EXCEPTION\<close>, \<open>L1_CLOSE\<close> is \<open>return -1\<close>, \<open>L1_NEXT\<close> the end of the \<open>switch\<close> with no further
  effect, \<open>L1_SCHED\<close> a call of \<open>schedule_db_array\<close> with the destination and \<open>is_json_resp\<close>,
  \<open>L1_REGISTER\<close> the same followed by \<open>send_db_array\<close> and \<open>reset_buf\<close>, with the type of the response and
  the counter for a failure. \<open>L1_REGISTER_ERROR\<close> is \<open>send_register_connect_error\<close> and \<open>return -1\<close>. The
  others are calls of the handler of the same name with the addresses of their structs;
  \<open>L1_CALLBACK\<close> is the call of the callback of a sequence id with address and length of the payload.\<close>

datatype 'd L1_ACTION =
    L1_THROW
  | L1_CLOSE
  | L1_NEXT
  | L1_SCHED 'd bool
  | L1_REGISTER COMM_TYPE_E string
  | L1_REGISTER_ERROR COMM_TYPE_E reg_error
  | L1_SET_PARTHA_IDENT "nat list"
  | L1_SHYAMA_STATUS nat
  | L1_SHYAMA_REG_RESP nat
  | L1_MADHAVA_REG_RESP nat
  | L1_CALLBACK nat nat nat

text \<open>The increments of \<open>statsmap\<close>.\<close>

type_synonym stats_upd = "(string \<times> int) list"

type_synonym 'd l1_result = "('d L1_ACTION \<times> stats_upd \<times> mem) option"

text \<open>A \<open>case\<close> for a connection, the header, the buffer and the address of the struct after the header.\<close>

type_synonym ('d, 'c) l1_case = "'c \<Rightarrow> COMM_HEADER \<Rightarrow> mem \<Rightarrow> nat \<Rightarrow> 'd l1_result"

definition invalid_msg :: "stats_upd \<Rightarrow> mem \<Rightarrow> 'd l1_result" where
  "invalid_msg st m = Some (L1_THROW, st @ [(''Invalid Message Error'', 1)], m)"

definition from_host :: "HOST_TYPES_E \<Rightarrow> 'c CONNTRACK_scheme \<Rightarrow> bool" where
  "from_host t c \<longleftrightarrow> is_registered c \<and> host_type c = t"

text \<open>The usual case of the \<open>switch\<close> on the subtype: the sender is checked, then the message, and then
  it goes to the threads \<open>dest\<close>.\<close>

definition l1_sched_valid :: "bool \<Rightarrow> (bool \<times> mem) option \<Rightarrow> 'd \<Rightarrow> mem \<Rightarrow> 'd l1_result" where
  "l1_sched_valid allowed validated dest m =
     (if \<not> allowed then invalid_msg [] m
      else do {
        (bret, m') \<leftarrow> validated;
        if bret = False then invalid_msg [] m'
        else Some (L1_SCHED dest False, [], m')
      })"

text \<open>A validator that changes nothing.\<close>

definition keep_mem :: "mem \<Rightarrow> bool option \<Rightarrow> (bool \<times> mem) option" where
  "keep_mem m r = do { b \<leftarrow> r; Some (b, m) }"

text \<open>A complete response takes its callback out of the table, a part of a response leaves it there. In
  the table a sequence id is not 0, so that a callback is valid when it has a function.\<close>

definition l1_web_json ::
  "'c CONNTRACK_scheme \<Rightarrow> mem \<Rightarrow> nat \<Rightarrow> ('d L1_ACTION \<times> stats_upd \<times> 'c CONNTRACK_scheme \<times> mem) option" where
  "l1_web_json c m p = do {
     respformat \<leftarrow> fld m p QUERY_RESPONSE_fields ''respformat_'';
     seqid \<leftarrow> fld m p QUERY_RESPONSE_fields ''seqid_'';
     if respformat \<noteq> RESP_BINARY \<and> seqid > 0 then do {
       is_completed \<leftarrow> fld m p QUERY_RESPONSE_fields ''is_resp_complete_'';
       resp_len \<leftarrow> fld m p QUERY_RESPONSE_fields ''resp_len_'';
       let call = L1_CALLBACK seqid (p + csizeof QUERY_RESPONSE_t) resp_len;
       let st = [(''Web JSON Resp'', 1)];
       if is_completed \<noteq> 0
       then (let c' = c\<lparr>cb_tbl := (cb_tbl c)(seqid := None)\<rparr>
             in if cb_tbl c seqid = Some True
                then Some (call, st @ [(''Async Callback Handled'', 1)], c', m)
                else Some (L1_NEXT, st @ [(''Async Callback Missed'', 1)], c', m))
       else if cb_tbl c seqid = Some True then Some (call, st, c, m)
       else Some (L1_NEXT, st, c, m)
     }
     else Some (L1_NEXT, [], c, m)
   }"

text \<open>The three requests differ in the struct, the counters and the response. \<open>vfields\<close> is the result of
  \<open>validate_fields\<close>.\<close>

definition l1_connect ::
  "string \<Rightarrow> string \<Rightarrow> string \<Rightarrow> COMM_TYPE_E \<Rightarrow> bool \<Rightarrow> (reg_error option \<times> mem) option \<Rightarrow>
   'c CONNTRACK_scheme \<Rightarrow> mem \<Rightarrow> 'd l1_result" where
  "l1_connect st_req st_fail st_block resp valid vfields c m =
     (if is_registered c then invalid_msg [(st_req, 1)] m
      else if valid = False then Some (L1_CLOSE, [(st_req, 1), (''Invalid Message Error'', 1)], m)
      else do {
        (err, m') \<leftarrow> vfields;
        case err of
          Some e \<Rightarrow> Some (L1_REGISTER_ERROR resp e, [(st_req, 1), (st_fail, 1)], m')
        | None \<Rightarrow> Some (L1_REGISTER resp st_block, [(st_req, 1)], m')
      })"

definition with_conn ::
  "'c \<Rightarrow> 'd l1_result \<Rightarrow> ('d L1_ACTION \<times> stats_upd \<times> 'c \<times> mem) option" where
  "with_conn c r = do { (a, st, m) \<leftarrow> r; Some (a, st, c, m) }"

text \<open>Decisions that are for registered connections, and decisions of a registration.\<close>

fun needs_registration :: "'d L1_ACTION \<Rightarrow> bool" where
  "needs_registration (L1_SCHED d j) = True"
| "needs_registration (L1_SET_PARTHA_IDENT ps) = True"
| "needs_registration (L1_SHYAMA_STATUS p) = True"
| "needs_registration (L1_CALLBACK s p n) = True"
| "needs_registration _ = False"

fun is_registration :: "'d L1_ACTION \<Rightarrow> bool" where
  "is_registration (L1_REGISTER t s) = True"
| "is_registration (L1_REGISTER_ERROR t e) = True"
| "is_registration (L1_SHYAMA_REG_RESP p) = True"
| "is_registration (L1_MADHAVA_REG_RESP p) = True"
| "is_registration _ = False"

section \<open>Decoding\<close>

declare notify_val.simps [simp del] and query_val.simps [simp del]

lemma notify_of_val [simp]: "notify_of (notify_val t) = Some t"
  by (cases t) (simp_all add: notify_of_def all_notify_types_def notify_val.simps)

lemma notify_of_Some_iff [simp]: "notify_of v = Some t \<longleftrightarrow> v = notify_val t"
proof
  assume "notify_of v = Some t"
  then show "v = notify_val t" by (auto simp: notify_of_def find_Some_iff)
qed simp

lemma query_of_val [simp]: "query_of (query_val t) = Some t"
  by (cases t) (simp_all add: query_of_def query_val.simps)

lemma query_of_Some_iff [simp]: "query_of v = Some t \<longleftrightarrow> v = query_val t"
proof
  assume "query_of v = Some t"
  then show "v = query_val t" by (auto simp: query_of_def split: if_splits)
qed simp

lemma dispatch_members [gy_size]:
  "cmember EVENT_NOTIFY_fields ''subtype_'' = (0, 4)"
  "cmember QUERY_CMD_fields ''subtype_'' = (16, 4)"
  "cmember QUERY_RESPONSE_fields ''seqid_'' = (0, 8)"
  "cmember QUERY_RESPONSE_fields ''subtype_'' = (8, 4)"
  "cmember QUERY_RESPONSE_fields ''respformat_'' = (16, 4)"
  "cmember QUERY_RESPONSE_fields ''is_resp_complete_'' = (28, 4)"
  by code_simp+

named_theorems gy_safe

section \<open>What the dispatch needs of a validator\<close>

text \<open>On an event in the buffer whose header has been validated, the validator stays in bounds and
  changes nothing outside of the elements.\<close>

definition payload_only :: "COMM_HEADER \<Rightarrow> nat \<Rightarrow> mem \<Rightarrow> mem \<Rightarrow> bool" where
  "payload_only h pn m m' \<longleftrightarrow> same_off m m' (pn + 8) (pn + act_len h - 16)"

definition validator_safe :: "(COMM_HEADER \<Rightarrow> mem \<Rightarrow> nat \<Rightarrow> (bool \<times> mem) option) \<Rightarrow> bool" where
  "validator_safe v \<longleftrightarrow> (\<forall>h m pn. hdr_ok h \<longrightarrow> event_hdr_in h m pn \<longrightarrow>
     (\<exists>b m'. v h m pn = Some (b, m') \<and> payload_only h pn m m'))"

lemma payload_only_refl [simp]: "payload_only h pn m m"
  by (simp add: payload_only_def)

lemma validator_safeI:
  assumes "\<And>h m pn. hdr_ok h \<Longrightarrow> event_hdr_in h m pn \<Longrightarrow>
    \<exists>b m'. v h m pn = Some (b, m') \<and> same_off m m' (pn + 8) (pn + act_len h - 16)"
  shows "validator_safe v"
  using assms by (simp add: validator_safe_def payload_only_def)

lemma validator_safe_keep:
  assumes "\<And>h m pn. event_hdr_in h m pn \<Longrightarrow> \<exists>b. r h m pn = Some b"
  shows "validator_safe (\<lambda>h m pn. keep_mem m (r h m pn))"
proof (rule validator_safeI)
  fix h m pn assume "event_hdr_in h m pn"
  then obtain b where "r h m pn = Some b" using assms by blast
  then show "\<exists>b m'. keep_mem m (r h m pn) = Some (b, m') \<and> same_off m m' (pn + 8) (pn + act_len h - 16)"
    by (simp add: keep_mem_def)
qed

text \<open>Every validator built from \<open>validate_elems\<close> on an interpretation of \<open>elem_msg\<close> is safe.\<close>

context elem_msg
begin

lemma validate_elems_safe: "validator_safe (validate_elems mx sz esz one)"
  by (rule validator_safeI) (use validate_elems_correct in \<open>fastforce simp: event_hdr_in_def\<close>)

end

text \<open>The events of variable length.\<close>

lemma TASK_AGGR_NOTIFY_safe [gy_safe]: "validator_safe TASK_AGGR_NOTIFY_validate"
  unfolding TASK_AGGR_NOTIFY_validate_def by (rule task_aggr.validate_elems_safe)

lemma NEW_LISTENER_safe [gy_safe]: "validator_safe NEW_LISTENER_validate"
  unfolding NEW_LISTENER_validate_def by (rule new_listener.validate_elems_safe)

lemma TCP_CONN_NOTIFY_safe [gy_safe]: "validator_safe TCP_CONN_NOTIFY_validate"
  unfolding TCP_CONN_NOTIFY_validate_def by (rule tcp_conn.validate_elems_safe)

lemma AGGR_TASK_STATE_NOTIFY_safe [gy_safe]: "validator_safe AGGR_TASK_STATE_NOTIFY_validate"
  unfolding AGGR_TASK_STATE_NOTIFY_validate_def by (rule aggr_task_state.validate_elems_safe)

lemma LISTENER_STATE_NOTIFY_safe [gy_safe]: "validator_safe LISTENER_STATE_NOTIFY_validate"
  unfolding LISTENER_STATE_NOTIFY_validate_def by (rule listener_state.validate_elems_safe)

lemma LISTENER_DOMAIN_NOTIFY_safe [gy_safe]: "validator_safe LISTENER_DOMAIN_NOTIFY_validate"
  unfolding LISTENER_DOMAIN_NOTIFY_validate_def by (rule listener_domain.validate_elems_safe)

lemma NOTIFICATION_MSG_safe [gy_safe]: "validator_safe NOTIFICATION_MSG_validate"
  unfolding NOTIFICATION_MSG_validate_def by (rule notification_msg.validate_elems_safe)

lemma SM_ALERT_ADEF_NEW_safe [gy_safe]: "validator_safe SM_ALERT_ADEF_NEW_validate"
  unfolding SM_ALERT_ADEF_NEW_validate_def by (rule alert_adef_new.validate_elems_safe)

lemma ALERT_STAT_INFO_safe [gy_safe]: "validator_safe ALERT_STAT_INFO_validate"
  unfolding ALERT_STAT_INFO_validate_def by (rule alert_stat_info.validate_elems_safe)

lemma LISTENER_DEPENDENCY_NOTIFY_safe [gy_safe]: "validator_safe LISTENER_DEPENDENCY_NOTIFY_validate"
  unfolding LISTENER_DEPENDENCY_NOTIFY_validate_def by (rule listener_dependency.validate_elems_safe)

lemma LISTENER_CLUSTER_NOTIFY_safe [gy_safe]: "validator_safe LISTENER_CLUSTER_NOTIFY_validate"
  unfolding LISTENER_CLUSTER_NOTIFY_validate_def by (rule listener_cluster.validate_elems_safe)

lemma MS_SVC_CLUSTER_MESH_safe [gy_safe]: "validator_safe MS_SVC_CLUSTER_MESH_validate"
  unfolding MS_SVC_CLUSTER_MESH_validate_def by (rule ms_svc_cluster.validate_elems_safe)

lemma SM_SVC_CLUSTER_MESH_safe [gy_safe]: "validator_safe SM_SVC_CLUSTER_MESH_validate"
  unfolding SM_SVC_CLUSTER_MESH_validate_def by (rule sm_svc_cluster.validate_elems_safe)

lemma MS_LISTENER_NAT_IP_safe [gy_safe]: "validator_safe MS_LISTENER_NAT_IP_validate"
  unfolding MS_LISTENER_NAT_IP_validate_def by (rule ms_listener_nat_ip.validate_elems_safe)

lemma MM_LISTENER_ISSUE_RESOL_safe [gy_safe]: "validator_safe MM_LISTENER_ISSUE_RESOL_validate"
  unfolding MM_LISTENER_ISSUE_RESOL_validate_def by (rule mm_issue_resol.validate_elems_safe)

lemma LISTEN_TASKMAP_NOTIFY_safe [gy_safe]: "validator_safe LISTEN_TASKMAP_NOTIFY_validate"
  unfolding LISTEN_TASKMAP_NOTIFY_validate_def by (rule listen_taskmap.validate_elems_safe)

lemma SM_REQ_TRACE_DEF_NEW_safe [gy_safe]: "validator_safe SM_REQ_TRACE_DEF_NEW_validate"
  unfolding SM_REQ_TRACE_DEF_NEW_validate_def by (rule req_trace_def.validate_elems_safe)

lemma REQ_TRACE_TRAN_safe [gy_safe]: "validator_safe REQ_TRACE_TRAN_validate"
proof (rule validator_safeI)
  fix h m pn assume "hdr_ok h" and inm: "event_hdr_in h m pn"
  have "\<exists>b m'. validate_elems API_TRAN_MAX_NUM_REQS (csizeof API_TRAN_t) REQ_TRACE_TRAN_get_elem_size
      REQ_TRACE_TRAN_one h m pn = Some (b, m') \<and> same_off m m' (pn + 8) (pn + act_len h - 16)"
    using req_trace_tran.validate_elems_correct inm by (fastforce simp: event_hdr_in_def)
  then show "\<exists>b m'. REQ_TRACE_TRAN_validate h m pn = Some (b, m') \<and>
      same_off m m' (pn + 8) (pn + act_len h - 16)"
    by (auto simp: REQ_TRACE_TRAN_validate_def validate_elems_def event_hdr_nevents [OF inm] Let_def)
qed

lemma TASK_FULL_ADD_safe [gy_safe]: "validator_safe TASK_FULL_ADD_validate"
proof (rule validator_safeI)
  fix h m pn assume h: "hdr_ok h" and inm: "event_hdr_in h m pn"
  show "\<exists>b m'. TASK_FULL_ADD_validate h m pn = Some (b, m') \<and> same_off m m' (pn + 8) (pn + act_len h - 16)"
    unfolding TASK_FULL_ADD_validate_eq [OF inm h]
    using task_full.validate_elems_correct inm by (fastforce simp: event_hdr_in_def)
qed

lemma TASK_MINI_ADD_safe [gy_safe]: "validator_safe TASK_MINI_ADD_validate"
  by (rule validator_safeI) (rule TASK_MINI_ADD_validate_in)

text \<open>The others.\<close>

lemma MS_REG_PARTHA_safe [gy_safe]: "validator_safe MS_REG_PARTHA_validate"
  by (rule validator_safeI) (use MS_REG_PARTHA_validate_correct in blast)

lemma TASK_TOP_PROCS_safe [gy_safe]:
  "validator_safe (\<lambda>h m pn. keep_mem m (TASK_TOP_PROCS_validate h m (pn + 8)))"
  by (rule validator_safe_keep)
    (use TASK_TOP_PROCS_validate_eq in \<open>fastforce simp: event_hdr_in_def event_in_def\<close>)

lemma array_safe: "validator_safe (\<lambda>h m pn. keep_mem m (array_validate t h m pn))"
  by (rule validator_safe_keep) (use array_validate_eq in blast)

lemma bounded_array_safe: "validator_safe (\<lambda>h m pn. keep_mem m (bounded_array_validate t mx h m pn))"
  by (rule validator_safe_keep) (use bounded_array_validate_eq in blast)

lemma single_safe: "validator_safe (\<lambda>h m pn. keep_mem m (single_validate t h m pn))"
  by (rule validator_safe_keep) (use single_validate_eq in blast)

lemma MADHAVA_LIST_safe [gy_safe]: "validator_safe (\<lambda>h m pn. keep_mem m (MADHAVA_LIST_validate h m pn))"
  by (rule validator_safe_keep) (use MADHAVA_LIST_validate_eq in blast)

lemma LISTENER_DAY_STATS_safe [gy_safe]:
  "validator_safe (\<lambda>h m pn. keep_mem m (LISTENER_DAY_STATS_validate h m pn))"
  by (rule validator_safe_keep) (use LISTENER_DAY_STATS_validate_eq in blast)

lemma SM_PARTHA_IDENT_NOTIFY_safe [gy_safe]: "validator_safe (\<lambda>h m pn. keep_mem m (SM_PARTHA_IDENT_NOTIFY_validate h m pn))"
  unfolding SM_PARTHA_IDENT_NOTIFY_validate_def by (rule array_safe)

lemma PING_TASK_AGGR_safe [gy_safe]: "validator_safe (\<lambda>h m pn. keep_mem m (PING_TASK_AGGR_validate h m pn))"
  unfolding PING_TASK_AGGR_validate_def by (rule array_safe)

lemma MM_TASK_AGGR_PING_safe [gy_safe]: "validator_safe (\<lambda>h m pn. keep_mem m (MM_TASK_AGGR_PING_validate h m pn))"
  unfolding MM_TASK_AGGR_PING_validate_def by (rule array_safe)

lemma MM_TASK_AGGR_DEL_safe [gy_safe]: "validator_safe (\<lambda>h m pn. keep_mem m (MM_TASK_AGGR_DEL_validate h m pn))"
  unfolding MM_TASK_AGGR_DEL_validate_def by (rule array_safe)

lemma TASK_HISTOGRAM_safe [gy_safe]: "validator_safe (\<lambda>h m pn. keep_mem m (TASK_HISTOGRAM_validate h m pn))"
  unfolding TASK_HISTOGRAM_validate_def by (rule array_safe)

lemma MM_LISTENER_PING_safe [gy_safe]: "validator_safe (\<lambda>h m pn. keep_mem m (MM_LISTENER_PING_validate h m pn))"
  unfolding MM_LISTENER_PING_validate_def by (rule array_safe)

lemma MM_LISTENER_DELETE_safe [gy_safe]: "validator_safe (\<lambda>h m pn. keep_mem m (MM_LISTENER_DELETE_validate h m pn))"
  unfolding MM_LISTENER_DELETE_validate_def by (rule array_safe)

lemma MM_LISTENER_DEPENDS_safe [gy_safe]: "validator_safe (\<lambda>h m pn. keep_mem m (MM_LISTENER_DEPENDS_validate h m pn))"
  unfolding MM_LISTENER_DEPENDS_validate_def by (rule array_safe)

lemma AGGR_TASK_HIST_STATS_safe [gy_safe]: "validator_safe (\<lambda>h m pn. keep_mem m (AGGR_TASK_HIST_STATS_validate h m pn))"
  unfolding AGGR_TASK_HIST_STATS_validate_def by (rule array_safe)

lemma SM_ALERT_ADEF_UPD_safe [gy_safe]: "validator_safe (\<lambda>h m pn. keep_mem m (SM_ALERT_ADEF_UPD_validate h m pn))"
  unfolding SM_ALERT_ADEF_UPD_validate_def by (rule array_safe)

lemma ALERT_STAT_CLOSE_safe [gy_safe]: "validator_safe (\<lambda>h m pn. keep_mem m (ALERT_STAT_CLOSE_validate h m pn))"
  unfolding ALERT_STAT_CLOSE_validate_def by (rule array_safe)

lemma SM_REQ_TRACE_DEF_DISABLE_safe [gy_safe]: "validator_safe (\<lambda>h m pn. keep_mem m (SM_REQ_TRACE_DEF_DISABLE_validate h m pn))"
  unfolding SM_REQ_TRACE_DEF_DISABLE_validate_def by (rule array_safe)

lemma NAT_TCP_NOTIFY_safe [gy_safe]: "validator_safe (\<lambda>h m pn. keep_mem m (NAT_TCP_NOTIFY_validate h m pn))"
  unfolding NAT_TCP_NOTIFY_validate_def by (rule bounded_array_safe)

lemma MS_TCP_CONN_CLOSE_safe [gy_safe]: "validator_safe (\<lambda>h m pn. keep_mem m (MS_TCP_CONN_CLOSE_validate h m pn))"
  unfolding MS_TCP_CONN_CLOSE_validate_def by (rule bounded_array_safe)

lemma MP_CLI_TCP_INFO_safe [gy_safe]: "validator_safe (\<lambda>h m pn. keep_mem m (MP_CLI_TCP_INFO_validate h m pn))"
  unfolding MP_CLI_TCP_INFO_validate_def by (rule bounded_array_safe)

lemma MP_SER_TCP_INFO_safe [gy_safe]: "validator_safe (\<lambda>h m pn. keep_mem m (MP_SER_TCP_INFO_validate h m pn))"
  unfolding MP_SER_TCP_INFO_validate_def by (rule bounded_array_safe)

lemma MS_TCP_CONN_NOTIFY_safe [gy_safe]: "validator_safe (\<lambda>h m pn. keep_mem m (MS_TCP_CONN_NOTIFY_validate h m pn))"
  unfolding MS_TCP_CONN_NOTIFY_validate_def by (rule bounded_array_safe)

lemma SHYAMA_SER_TCP_INFO_safe [gy_safe]: "validator_safe (\<lambda>h m pn. keep_mem m (SHYAMA_SER_TCP_INFO_validate h m pn))"
  unfolding SHYAMA_SER_TCP_INFO_validate_def by (rule bounded_array_safe)

lemma SHYAMA_CLI_TCP_INFO_safe [gy_safe]: "validator_safe (\<lambda>h m pn. keep_mem m (SHYAMA_CLI_TCP_INFO_validate h m pn))"
  unfolding SHYAMA_CLI_TCP_INFO_validate_def by (rule bounded_array_safe)

lemma LISTENER_NAT_IP_EVENT_safe [gy_safe]: "validator_safe (\<lambda>h m pn. keep_mem m (LISTENER_NAT_IP_EVENT_validate h m pn))"
  unfolding LISTENER_NAT_IP_EVENT_validate_def by (rule bounded_array_safe)

lemma SM_SVC_NAT_IP_CLUSTER_safe [gy_safe]: "validator_safe (\<lambda>h m pn. keep_mem m (SM_SVC_NAT_IP_CLUSTER_validate h m pn))"
  unfolding SM_SVC_NAT_IP_CLUSTER_validate_def by (rule bounded_array_safe)

lemma ACTIVE_CONN_STATS_safe [gy_safe]: "validator_safe (\<lambda>h m pn. keep_mem m (ACTIVE_CONN_STATS_validate h m pn))"
  unfolding ACTIVE_CONN_STATS_validate_def by (rule bounded_array_safe)

lemma MS_CLUSTER_STATE_safe [gy_safe]: "validator_safe (\<lambda>h m pn. keep_mem m (MS_CLUSTER_STATE_validate h m pn))"
  unfolding MS_CLUSTER_STATE_validate_def by (rule bounded_array_safe)

lemma MS_PARTHA_PING_safe [gy_safe]: "validator_safe (\<lambda>h m pn. keep_mem m (MS_PARTHA_PING_validate h m pn))"
  unfolding MS_PARTHA_PING_validate_def by (rule bounded_array_safe)

lemma REQ_TRACE_SET_safe [gy_safe]: "validator_safe (\<lambda>h m pn. keep_mem m (REQ_TRACE_SET_validate h m pn))"
  unfolding REQ_TRACE_SET_validate_def by (rule bounded_array_safe)

lemma REQ_TRACE_STATUS_safe [gy_safe]: "validator_safe (\<lambda>h m pn. keep_mem m (REQ_TRACE_STATUS_validate h m pn))"
  unfolding REQ_TRACE_STATUS_validate_def by (rule bounded_array_safe)

lemma HOST_STATE_NOTIFY__V000100_safe [gy_safe]: "validator_safe (\<lambda>h m pn. keep_mem m (HOST_STATE_NOTIFY__V000100_validate h m pn))"
  unfolding HOST_STATE_NOTIFY__V000100_validate_def by (rule single_safe)

lemma HOST_STATE_NOTIFY_safe [gy_safe]: "validator_safe (\<lambda>h m pn. keep_mem m (HOST_STATE_NOTIFY_validate h m pn))"
  unfolding HOST_STATE_NOTIFY_validate_def by (rule single_safe)

lemma HOST_INFO_NOTIFY_safe [gy_safe]: "validator_safe (\<lambda>h m pn. keep_mem m (HOST_INFO_NOTIFY_validate h m pn))"
  unfolding HOST_INFO_NOTIFY_validate_def by (rule single_safe)

lemma HOST_CPU_MEM_CHANGE_safe [gy_safe]: "validator_safe (\<lambda>h m pn. keep_mem m (HOST_CPU_MEM_CHANGE_validate h m pn))"
  unfolding HOST_CPU_MEM_CHANGE_validate_def by (rule single_safe)

lemma SM_ALERT_STAT_DISABLE_safe [gy_safe]: "validator_safe (\<lambda>h m pn. keep_mem m (SM_ALERT_STAT_DISABLE_validate h m pn))"
  unfolding SM_ALERT_STAT_DISABLE_validate_def by (rule single_safe)

section \<open>Safe handlers\<close>

text \<open>On an event in the buffer a safe handler returns, and changes the elements of the event at most.\<close>

definition handler_safe :: "('d, 'c) l1_case \<Rightarrow> bool" where
  "handler_safe f \<longleftrightarrow> (\<forall>c h m pn. hdr_ok h \<longrightarrow> event_hdr_in h m pn \<longrightarrow>
     (\<exists>a st m'. f c h m pn = Some (a, st, m') \<and> payload_only h pn m m'))"

lemma handler_safeI:
  assumes "\<And>c h m pn. f c h m pn = l1_sched_valid (allowed c) (v h m pn) dest m" and "validator_safe v"
  shows "handler_safe f"
  unfolding handler_safe_def
proof (intro allI impI)
  fix c h m pn assume "hdr_ok h" and "event_hdr_in h m pn"
  then obtain b m' where "v h m pn = Some (b, m')" "payload_only h pn m m'"
    using assms(2) unfolding validator_safe_def by blast
  then show "\<exists>a st m'. f c h m pn = Some (a, st, m') \<and> payload_only h pn m m'"
    by (auto simp: assms(1) l1_sched_valid_def invalid_msg_def)
qed

lemma handler_safe_const:
  assumes "\<And>c h m pn. event_hdr_in h m pn \<Longrightarrow> \<exists>a st. f c h m pn = Some (a, st, m)"
  shows "handler_safe f"
  unfolding handler_safe_def using assms payload_only_refl by blast

named_theorems gy_handler_safe

text \<open>The message at \<open>p\<close> is complete in the buffer.\<close>

definition msg_in :: "COMM_HEADER \<Rightarrow> mem \<Rightarrow> nat \<Rightarrow> bool" where
  "msg_in h m p \<longleftrightarrow> p + unat (total_sz h) \<le> length m"

text \<open>Nothing outside of the payload of the message has changed.\<close>

definition msg_only :: "COMM_HEADER \<Rightarrow> nat \<Rightarrow> mem \<Rightarrow> mem \<Rightarrow> bool" where
  "msg_only h p m m' \<longleftrightarrow> same_off m m' (p + 16) (p + act_len h)"

lemma msg_only_refl [simp]: "msg_only h p m m"
  by (simp add: msg_only_def)

text \<open>What \<open>COMM_HEADER::validate\<close> gives for a message in the buffer.\<close>

lemma valid_msg:
  assumes "validate_hdr h p mg" and "msg_in h m p" and "data_type h = comm_type_val t"
  shows "hdr_ok h" and "16 + header_payload t \<le> act_len h" and "p + act_len h \<le> length m"
proof -
  show ok: "hdr_ok h" by (rule hdr_ok_validate [OF assms(1)])
  show "16 + header_payload t \<le> act_len h" "p + act_len h \<le> length m"
    using assms by (auto simp: hdr_ok_act_len [OF ok] validate_hdr_iff msg_in_def)
qed

lemma resp_ok_msg_only:
  assumes "resp_ok fs n names m (p + 16) r" and "16 + n \<le> act_len h"
  shows "\<exists>b m'. r = Some (b, m') \<and> msg_only h p m m'"
proof -
  obtain b m' where r: "r = Some (b, m')" "same_off m m' (p + 16) (p + 16 + n)"
    using assms(1) by (auto simp: resp_ok_def)
  have "msg_only h p m m'"
    unfolding msg_only_def by (rule same_off_mono [OF r(2)]) (use assms(2) in simp_all)
  then show ?thesis using r(1) by blast
qed

lemma l1_connect_safe:
  assumes "reg_struct fs (csizeof T) names" and "p + act_len h \<le> length m"
    and "p + 16 + csizeof T \<le> length m \<Longrightarrow>
      \<exists>m'. reg_result r code m' \<and> reg_frame fs names (p + 16) m m' \<and> X m'"
  shows "\<exists>a st m'. l1_connect s1 s2 s3 t (exact_reg_validate T h) r c m = Some (a, st, m') \<and>
    msg_only h p m m'"
proof (cases "exact_reg_validate T h")
  case True
  then have e: "act_len h = 16 + csizeof T" by (simp add: exact_reg_validate_def)
  then obtain m' where m': "reg_result r code m'" "reg_frame fs names (p + 16) m m'"
    using assms(2,3) by auto
  have "msg_only h p m m'"
    using reg_frame_same_off [OF assms(1) m'(2)] e by (simp add: msg_only_def add.assoc)
  then show ?thesis
    using m'(1) True by (auto simp: l1_connect_def invalid_msg_def reg_result_def split: option.splits)
qed (auto simp: l1_connect_def invalid_msg_def)

lemma with_conn_Some [simp]:
  "with_conn c r = Some (a, st, c', m') \<longleftrightarrow> r = Some (a, st, m') \<and> c' = c"
  by (auto simp: with_conn_def bind_eq_Some_conv)

lemma l1_connect_registers:
  assumes "l1_connect s1 s2 s3 t valid r c m = Some (L1_REGISTER t' s, st, m')"
  shows "valid \<and> r = Some (None, m') \<and> t' = t"
proof -
  obtain e m1 where "valid" and r: "r = Some (e, m1)"
    using assms by (auto simp: l1_connect_def invalid_msg_def bind_eq_Some_conv split: if_splits)
  then show ?thesis using assms
    by (cases e) (auto simp: l1_connect_def invalid_msg_def split: if_splits)
qed

section \<open>The layout a scheduled event has\<close>

text \<open>The elements of an event: of variable size, at most \<open>mx\<close> of at least \<open>sz\<close> bytes each, an array
  of structs of \<open>sz\<close> bytes, one element of variable size that is the whole message, or elements of
  which only the first one is at the place its readers expect it.\<close>

datatype elem_layout =
    Var_elems nat nat "mem \<Rightarrow> nat \<Rightarrow> nat option"
  | Array_elems nat nat
  | Whole_elem nat "mem \<Rightarrow> nat \<Rightarrow> nat option"
  | First_elem nat "mem \<Rightarrow> nat \<Rightarrow> nat option"

text \<open>The walk of a consumer over the announced number of elements stays inside of the message, at
  aligned addresses; the one element ends with the message; the first element, if one is announced, ends
  inside of the message.\<close>

fun layout_ok :: "elem_layout \<Rightarrow> COMM_HEADER \<Rightarrow> mem \<Rightarrow> nat \<Rightarrow> bool" where
  "layout_ok (Var_elems mx sz esz) h m pn \<longleftrightarrow>
     (\<exists>w. elem_walk esz (nevents_of m pn) (pn + 8) m = Some w \<and> length w \<le> mx \<and> elems_inside sz h pn w)"
| "layout_ok (Array_elems mx sz) h m pn \<longleftrightarrow> nevents_of m pn \<le> mx \<and> array_inside sz h m pn"
| "layout_ok (Whole_elem sz esz) h m pn \<longleftrightarrow> (\<exists>n. esz m (pn + 8) = Some n \<and> sz \<le> n \<and> act_len h = 24 + n)"
| "layout_ok (First_elem sz esz) h m pn \<longleftrightarrow>
     nevents_of m pn = 0 \<or> (\<exists>n. esz m (pn + 8) = Some n \<and> sz \<le> n \<and> 24 + n \<le> act_len h)"

definition accepts :: "(COMM_HEADER \<Rightarrow> mem \<Rightarrow> nat \<Rightarrow> (bool \<times> mem) option) \<Rightarrow> elem_layout \<Rightarrow> bool" where
  "accepts v l \<longleftrightarrow> (\<forall>h m pn m'. hdr_ok h \<longrightarrow> event_hdr_in h m pn \<longrightarrow> v h m pn = Some (True, m') \<longrightarrow>
     layout_ok l h m' pn)"

context elem_msg
begin

lemma validate_elems_accepts: "accepts (validate_elems mx sz esz one) (Var_elems mx sz esz)"
  unfolding accepts_def
proof (intro allI impI)
  fix h m pn m'
  assume "event_hdr_in h m pn" and "validate_elems mx sz esz one h m pn = Some (True, m')"
  then show "layout_ok (Var_elems mx sz esz) h m' pn"
    using validate_elems_rewalk [of h m pn mx m'] by (auto simp: event_hdr_in_def)
qed

end

lemma accepts_keep:
  assumes "\<And>h m pn. event_hdr_in h m pn \<Longrightarrow> r h m pn = Some True \<Longrightarrow> layout_ok l h m pn"
  shows "accepts (\<lambda>h m pn. keep_mem m (r h m pn)) l"
  using assms by (auto simp: accepts_def keep_mem_def bind_eq_Some_conv)

lemma TASK_AGGR_NOTIFY_accepts:
  "accepts TASK_AGGR_NOTIFY_validate (Var_elems TASK_AGGR_NOTIFY_MAX_NUM_AGGR_TASK (csizeof TASK_AGGR_NOTIFY_t) TASK_AGGR_NOTIFY_get_elem_size)"
  unfolding TASK_AGGR_NOTIFY_validate_def by (rule task_aggr.validate_elems_accepts)

lemma NEW_LISTENER_accepts:
  "accepts NEW_LISTENER_validate (Var_elems NEW_LISTENER_MAX_NUM_LISTENERS (csizeof NEW_LISTENER_t) NEW_LISTENER_get_elem_size)"
  unfolding NEW_LISTENER_validate_def by (rule new_listener.validate_elems_accepts)

lemma TCP_CONN_NOTIFY_accepts:
  "accepts TCP_CONN_NOTIFY_validate (Var_elems TCP_CONN_NOTIFY_MAX_NUM_CONNS (csizeof TCP_CONN_NOTIFY_t) TCP_CONN_NOTIFY_get_elem_size)"
  unfolding TCP_CONN_NOTIFY_validate_def by (rule tcp_conn.validate_elems_accepts)

lemma AGGR_TASK_STATE_NOTIFY_accepts:
  "accepts AGGR_TASK_STATE_NOTIFY_validate (Var_elems AGGR_TASK_STATE_NOTIFY_MAX_NUM_TASKS (csizeof AGGR_TASK_STATE_NOTIFY_t) AGGR_TASK_STATE_NOTIFY_get_elem_size)"
  unfolding AGGR_TASK_STATE_NOTIFY_validate_def by (rule aggr_task_state.validate_elems_accepts)

lemma LISTENER_STATE_NOTIFY_accepts:
  "accepts LISTENER_STATE_NOTIFY_validate (Var_elems LISTENER_STATE_NOTIFY_MAX_NUM_LISTENERS (csizeof LISTENER_STATE_NOTIFY_t) LISTENER_STATE_NOTIFY_get_elem_size)"
  unfolding LISTENER_STATE_NOTIFY_validate_def by (rule listener_state.validate_elems_accepts)

lemma LISTENER_DOMAIN_NOTIFY_accepts:
  "accepts LISTENER_DOMAIN_NOTIFY_validate (Var_elems LISTENER_DOMAIN_NOTIFY_MAX_NUM_LISTENERS (csizeof LISTENER_DOMAIN_NOTIFY_t) LISTENER_DOMAIN_NOTIFY_get_elem_size)"
  unfolding LISTENER_DOMAIN_NOTIFY_validate_def by (rule listener_domain.validate_elems_accepts)

lemma NOTIFICATION_MSG_accepts:
  "accepts NOTIFICATION_MSG_validate (Var_elems NOTIFICATION_MSG_MAX_NUM_MSG (csizeof NOTIFICATION_MSG_t) NOTIFICATION_MSG_get_elem_size)"
  unfolding NOTIFICATION_MSG_validate_def by (rule notification_msg.validate_elems_accepts)

lemma SM_ALERT_ADEF_NEW_accepts:
  "accepts SM_ALERT_ADEF_NEW_validate (Var_elems SM_ALERT_ADEF_NEW_MAX_NUM_DEFS (csizeof SM_ALERT_ADEF_NEW_t) SM_ALERT_ADEF_NEW_get_elem_size)"
  unfolding SM_ALERT_ADEF_NEW_validate_def by (rule alert_adef_new.validate_elems_accepts)

lemma ALERT_STAT_INFO_accepts:
  "accepts ALERT_STAT_INFO_validate (Var_elems ALERT_STAT_INFO_MAX_NUM_STATS (csizeof ALERT_STAT_INFO_t) ALERT_STAT_INFO_get_elem_size)"
  unfolding ALERT_STAT_INFO_validate_def by (rule alert_stat_info.validate_elems_accepts)

lemma LISTENER_DEPENDENCY_NOTIFY_accepts:
  "accepts LISTENER_DEPENDENCY_NOTIFY_validate (Var_elems LISTENER_DEPENDENCY_NOTIFY_MAX_NUM_LISTENERS (csizeof LISTENER_DEPENDENCY_NOTIFY_t) LISTENER_DEPENDENCY_NOTIFY_get_elem_size)"
  unfolding LISTENER_DEPENDENCY_NOTIFY_validate_def by (rule listener_dependency.validate_elems_accepts)

lemma LISTENER_CLUSTER_NOTIFY_accepts:
  "accepts LISTENER_CLUSTER_NOTIFY_validate (Var_elems LISTENER_CLUSTER_NOTIFY_MAX_NUM_LISTENERS (csizeof LISTENER_CLUSTER_NOTIFY_t) LISTENER_CLUSTER_NOTIFY_get_elem_size)"
  unfolding LISTENER_CLUSTER_NOTIFY_validate_def by (rule listener_cluster.validate_elems_accepts)

lemma MS_SVC_CLUSTER_MESH_accepts:
  "accepts MS_SVC_CLUSTER_MESH_validate (Var_elems MS_SVC_CLUSTER_MESH_MAX_NUM_CLUSTERS (csizeof MS_SVC_CLUSTER_MESH_t) MS_SVC_CLUSTER_MESH_get_elem_size)"
  unfolding MS_SVC_CLUSTER_MESH_validate_def by (rule ms_svc_cluster.validate_elems_accepts)

lemma SM_SVC_CLUSTER_MESH_accepts:
  "accepts SM_SVC_CLUSTER_MESH_validate (Var_elems SM_SVC_CLUSTER_MESH_MAX_NUM_CLUSTERS (csizeof SM_SVC_CLUSTER_MESH_t) SM_SVC_CLUSTER_MESH_get_elem_size)"
  unfolding SM_SVC_CLUSTER_MESH_validate_def by (rule sm_svc_cluster.validate_elems_accepts)

lemma MS_LISTENER_NAT_IP_accepts:
  "accepts MS_LISTENER_NAT_IP_validate (Var_elems MS_LISTENER_NAT_IP_MAX_NUM_LISTENERS (csizeof MS_LISTENER_NAT_IP_t) MS_LISTENER_NAT_IP_get_elem_size)"
  unfolding MS_LISTENER_NAT_IP_validate_def by (rule ms_listener_nat_ip.validate_elems_accepts)

lemma MM_LISTENER_ISSUE_RESOL_accepts:
  "accepts MM_LISTENER_ISSUE_RESOL_validate (Var_elems MM_LISTENER_ISSUE_RESOL_MAX_NUM_LISTENERS (csizeof MM_LISTENER_ISSUE_RESOL_t) MM_LISTENER_ISSUE_RESOL_get_elem_size)"
  unfolding MM_LISTENER_ISSUE_RESOL_validate_def by (rule mm_issue_resol.validate_elems_accepts)

lemma LISTEN_TASKMAP_NOTIFY_accepts:
  "accepts LISTEN_TASKMAP_NOTIFY_validate (Var_elems LISTEN_TASKMAP_NOTIFY_MAX_NUM_LISTENERS (csizeof LISTEN_TASKMAP_NOTIFY_t) LISTEN_TASKMAP_NOTIFY_get_elem_size)"
  unfolding LISTEN_TASKMAP_NOTIFY_validate_def by (rule listen_taskmap.validate_elems_accepts)

lemma SM_REQ_TRACE_DEF_NEW_accepts:
  "accepts SM_REQ_TRACE_DEF_NEW_validate (Var_elems SM_REQ_TRACE_DEF_NEW_MAX_NUM_DEFS (csizeof SM_REQ_TRACE_DEF_NEW_t) SM_REQ_TRACE_DEF_NEW_get_elem_size)"
  unfolding SM_REQ_TRACE_DEF_NEW_validate_def by (rule req_trace_def.validate_elems_accepts)

lemma TASK_FULL_ADD_accepts:
  "accepts TASK_FULL_ADD_validate (Var_elems (2 ^ 32) (csizeof TASK_FULL_ADD_t) TASK_FULL_ADD_get_elem_size)"
  using task_full.validate_elems_accepts [of "2 ^ 32"]
  by (simp add: accepts_def TASK_FULL_ADD_validate_eq)

lemma TASK_TOP_PROCS_accepts:
  "accepts (\<lambda>h m pn. keep_mem m (TASK_TOP_PROCS_validate h m (pn + 8)))
     (Whole_elem (csizeof TASK_TOP_PROCS_t) TASK_TOP_PROCS_get_elem_size)"
proof (rule accepts_keep)
  fix h m pn assume ein: "event_hdr_in h m pn" and v: "TASK_TOP_PROCS_validate h m (pn + 8) = Some True"
  have inm: "pn + 8 + act_len h \<le> length m + 24" using ein by (simp add: event_hdr_in_def event_in_def)
  have wf: "TASK_TOP_PROCS_wf h m (pn + 8)" using v by (simp add: TASK_TOP_PROCS_validate_eq [OF inm])
  then have "40 \<le> act_len h" by (simp add: TASK_TOP_PROCS_wf_def Let_def)
  then show "layout_ok (Whole_elem (csizeof TASK_TOP_PROCS_t) TASK_TOP_PROCS_get_elem_size) h m pn"
    using wf inm by (simp add: TASK_TOP_PROCS_wf_def TASK_TOP_PROCS_get_elem_size_def fld_in gy_size Let_def)
qed

lemma CPU_MEM_STATE_NOTIFY_accepts:
  "accepts CPU_MEM_STATE_NOTIFY_validate
     (Whole_elem (csizeof CPU_MEM_STATE_NOTIFY_t) CPU_MEM_STATE_NOTIFY_get_elem_size)"
  unfolding accepts_def
proof (intro allI impI)
  fix h m pn m' assume ein: "event_hdr_in h m pn" and v: "CPU_MEM_STATE_NOTIFY_validate h m pn = Some (True, m')"
  have "nevents_of m pn \<noteq> 1 \<or> pn + 206 \<le> length m"
    using CPU_MEM_STATE_NOTIFY_validate_short [OF ein] v by fastforce
  from CPU_MEM_STATE_NOTIFY_validate_reach [OF ein this] v
  have wf: "CPU_MEM_STATE_NOTIFY_wf h m pn" and off: "same_off m m' (pn + 208) (pn + act_len h - 16)" by auto
  have inm: "pn + 208 \<le> length m" using wf ein by (simp add: CPU_MEM_STATE_NOTIFY_wf_def event_hdr_in_def event_in_def)
  have on: "same_on m m' (pn + 8) (pn + 8 + 200)" by (rule same_off_on [OF off]) simp
  have "CPU_MEM_STATE_NOTIFY_get_elem_size m' (pn + 8) = CPU_MEM_STATE_NOTIFY_get_elem_size m (pn + 8)"
    unfolding CPU_MEM_STATE_NOTIFY_get_elem_size_def CPU_MEM_STATE_NOTIFY_get_act_size_def
    by (simp add: fld_local [OF on] gy_size)
  then show "layout_ok (Whole_elem (csizeof CPU_MEM_STATE_NOTIFY_t) CPU_MEM_STATE_NOTIFY_get_elem_size) h m' pn"
    using wf inm
    by (simp add: CPU_MEM_STATE_NOTIFY_wf_def CPU_MEM_STATE_NOTIFY_get_elem_size_def
        CPU_MEM_STATE_NOTIFY_get_act_size_def fld_in gy_size)
qed

lemma TASK_MINI_ADD_accepts:
  "accepts TASK_MINI_ADD_validate (First_elem (csizeof TASK_MINI_ADD_t) TASK_MINI_ADD_get_elem_size)"
  unfolding accepts_def
proof (intro allI impI)
  fix h m pn m' assume ok: "hdr_ok h" and ein: "event_hdr_in h m pn" and v: "TASK_MINI_ADD_validate h m pn = Some (True, m')"
  have "same_off m m' (pn + 8) (pn + act_len h - 16)" using TASK_MINI_ADD_validate_in [OF ein ok] v by auto
  then have on: "same_on m m' pn (pn + 8)" by (rule same_off_on) simp
  have "nevents_of m' pn = nevents_of m pn"
    unfolding nevents_of_def by (rule same_on_rdv [OF on]) simp_all
  then show "layout_ok (First_elem (csizeof TASK_MINI_ADD_t) TASK_MINI_ADD_get_elem_size) h m' pn"
    using TASK_MINI_ADD_validate_first [OF ein ok v] by auto
qed

lemma array_accepts: "accepts (\<lambda>h m pn. keep_mem m (array_validate t h m pn)) (Array_elems (2 ^ 32) (csizeof t))"
  by (rule accepts_keep) (use nevents_of_bound less_imp_le in \<open>auto simp: array_validate_eq\<close>)

lemma bounded_array_accepts:
  "accepts (\<lambda>h m pn. keep_mem m (bounded_array_validate t mx h m pn)) (Array_elems mx (csizeof t))"
  by (rule accepts_keep) (simp add: bounded_array_validate_eq)

lemma single_accepts: "accepts (\<lambda>h m pn. keep_mem m (single_validate t h m pn)) (Array_elems 1 (csizeof t))"
  by (rule accepts_keep) (simp add: single_validate_eq)

lemma LISTENER_DAY_STATS_accepts:
  "accepts (\<lambda>h m pn. keep_mem m (LISTENER_DAY_STATS_validate h m pn))
     (Array_elems LISTENER_DAY_STATS_MAX_NUM_LISTENERS (csizeof LISTENER_DAY_STATS_t))"
  by (rule accepts_keep) (simp add: LISTENER_DAY_STATS_validate_eq)

lemma MADHAVA_LIST_accepts:
  "accepts (\<lambda>h m pn. keep_mem m (MADHAVA_LIST_validate h m pn))
     (Array_elems (2 ^ 32) (csizeof MADHAVA_LIST_t))"
  by (rule accepts_keep)
    (use nevents_of_bound less_imp_le in \<open>auto simp: MADHAVA_LIST_validate_eq array_inside_def\<close>)

lemma SM_PARTHA_IDENT_NOTIFY_accepts:
  "accepts (\<lambda>h m pn. keep_mem m (SM_PARTHA_IDENT_NOTIFY_validate h m pn)) (Array_elems (2 ^ 32) (csizeof SM_PARTHA_IDENT_NOTIFY_t))"
  unfolding SM_PARTHA_IDENT_NOTIFY_validate_def by (rule array_accepts)

lemma PING_TASK_AGGR_accepts:
  "accepts (\<lambda>h m pn. keep_mem m (PING_TASK_AGGR_validate h m pn)) (Array_elems (2 ^ 32) (csizeof PING_TASK_AGGR_t))"
  unfolding PING_TASK_AGGR_validate_def by (rule array_accepts)

lemma MM_TASK_AGGR_PING_accepts:
  "accepts (\<lambda>h m pn. keep_mem m (MM_TASK_AGGR_PING_validate h m pn)) (Array_elems (2 ^ 32) (csizeof MM_TASK_AGGR_PING_t))"
  unfolding MM_TASK_AGGR_PING_validate_def by (rule array_accepts)

lemma MM_TASK_AGGR_DEL_accepts:
  "accepts (\<lambda>h m pn. keep_mem m (MM_TASK_AGGR_DEL_validate h m pn)) (Array_elems (2 ^ 32) (csizeof MM_TASK_AGGR_DEL_t))"
  unfolding MM_TASK_AGGR_DEL_validate_def by (rule array_accepts)

lemma TASK_HISTOGRAM_accepts:
  "accepts (\<lambda>h m pn. keep_mem m (TASK_HISTOGRAM_validate h m pn)) (Array_elems (2 ^ 32) (csizeof TASK_HISTOGRAM_t))"
  unfolding TASK_HISTOGRAM_validate_def by (rule array_accepts)

lemma MM_LISTENER_PING_accepts:
  "accepts (\<lambda>h m pn. keep_mem m (MM_LISTENER_PING_validate h m pn)) (Array_elems (2 ^ 32) (csizeof MM_LISTENER_PING_t))"
  unfolding MM_LISTENER_PING_validate_def by (rule array_accepts)

lemma MM_LISTENER_DELETE_accepts:
  "accepts (\<lambda>h m pn. keep_mem m (MM_LISTENER_DELETE_validate h m pn)) (Array_elems (2 ^ 32) (csizeof MM_LISTENER_DELETE_t))"
  unfolding MM_LISTENER_DELETE_validate_def by (rule array_accepts)

lemma MM_LISTENER_DEPENDS_accepts:
  "accepts (\<lambda>h m pn. keep_mem m (MM_LISTENER_DEPENDS_validate h m pn)) (Array_elems (2 ^ 32) (csizeof MM_LISTENER_DEPENDS_t))"
  unfolding MM_LISTENER_DEPENDS_validate_def by (rule array_accepts)

lemma AGGR_TASK_HIST_STATS_accepts:
  "accepts (\<lambda>h m pn. keep_mem m (AGGR_TASK_HIST_STATS_validate h m pn)) (Array_elems (2 ^ 32) (csizeof AGGR_TASK_HIST_STATS_t))"
  unfolding AGGR_TASK_HIST_STATS_validate_def by (rule array_accepts)

lemma SM_ALERT_ADEF_UPD_accepts:
  "accepts (\<lambda>h m pn. keep_mem m (SM_ALERT_ADEF_UPD_validate h m pn)) (Array_elems (2 ^ 32) (csizeof SM_ALERT_ADEF_UPD_t))"
  unfolding SM_ALERT_ADEF_UPD_validate_def by (rule array_accepts)

lemma ALERT_STAT_CLOSE_accepts:
  "accepts (\<lambda>h m pn. keep_mem m (ALERT_STAT_CLOSE_validate h m pn)) (Array_elems (2 ^ 32) (csizeof ALERT_STAT_CLOSE_t))"
  unfolding ALERT_STAT_CLOSE_validate_def by (rule array_accepts)

lemma SM_REQ_TRACE_DEF_DISABLE_accepts:
  "accepts (\<lambda>h m pn. keep_mem m (SM_REQ_TRACE_DEF_DISABLE_validate h m pn)) (Array_elems (2 ^ 32) (csizeof SM_REQ_TRACE_DEF_DISABLE_t))"
  unfolding SM_REQ_TRACE_DEF_DISABLE_validate_def by (rule array_accepts)

lemma NAT_TCP_NOTIFY_accepts:
  "accepts (\<lambda>h m pn. keep_mem m (NAT_TCP_NOTIFY_validate h m pn)) (Array_elems NAT_TCP_NOTIFY_MAX_NUM_CONNS (csizeof NAT_TCP_NOTIFY_t))"
  unfolding NAT_TCP_NOTIFY_validate_def by (rule bounded_array_accepts)

lemma MS_TCP_CONN_CLOSE_accepts:
  "accepts (\<lambda>h m pn. keep_mem m (MS_TCP_CONN_CLOSE_validate h m pn)) (Array_elems MS_TCP_CONN_CLOSE_MAX_NUM_CONNS (csizeof MS_TCP_CONN_CLOSE_t))"
  unfolding MS_TCP_CONN_CLOSE_validate_def by (rule bounded_array_accepts)

lemma MP_CLI_TCP_INFO_accepts:
  "accepts (\<lambda>h m pn. keep_mem m (MP_CLI_TCP_INFO_validate h m pn)) (Array_elems MP_CLI_TCP_INFO_MAX_NUM_CONNS (csizeof MP_CLI_TCP_INFO_t))"
  unfolding MP_CLI_TCP_INFO_validate_def by (rule bounded_array_accepts)

lemma MP_SER_TCP_INFO_accepts:
  "accepts (\<lambda>h m pn. keep_mem m (MP_SER_TCP_INFO_validate h m pn)) (Array_elems MP_SER_TCP_INFO_MAX_NUM_CONNS (csizeof MP_SER_TCP_INFO_t))"
  unfolding MP_SER_TCP_INFO_validate_def by (rule bounded_array_accepts)

lemma MS_TCP_CONN_NOTIFY_accepts:
  "accepts (\<lambda>h m pn. keep_mem m (MS_TCP_CONN_NOTIFY_validate h m pn)) (Array_elems MS_TCP_CONN_NOTIFY_MAX_NUM_CONNS (csizeof MS_TCP_CONN_NOTIFY_t))"
  unfolding MS_TCP_CONN_NOTIFY_validate_def by (rule bounded_array_accepts)

lemma SHYAMA_SER_TCP_INFO_accepts:
  "accepts (\<lambda>h m pn. keep_mem m (SHYAMA_SER_TCP_INFO_validate h m pn)) (Array_elems SHYAMA_SER_TCP_INFO_MAX_NUM_CONNS (csizeof SHYAMA_SER_TCP_INFO_t))"
  unfolding SHYAMA_SER_TCP_INFO_validate_def by (rule bounded_array_accepts)

lemma SHYAMA_CLI_TCP_INFO_accepts:
  "accepts (\<lambda>h m pn. keep_mem m (SHYAMA_CLI_TCP_INFO_validate h m pn)) (Array_elems SHYAMA_CLI_TCP_INFO_MAX_NUM_CONNS (csizeof SHYAMA_CLI_TCP_INFO_t))"
  unfolding SHYAMA_CLI_TCP_INFO_validate_def by (rule bounded_array_accepts)

lemma LISTENER_NAT_IP_EVENT_accepts:
  "accepts (\<lambda>h m pn. keep_mem m (LISTENER_NAT_IP_EVENT_validate h m pn)) (Array_elems LISTENER_NAT_IP_EVENT_MAX_NUM_LISTENERS (csizeof LISTENER_NAT_IP_EVENT_t))"
  unfolding LISTENER_NAT_IP_EVENT_validate_def by (rule bounded_array_accepts)

lemma SM_SVC_NAT_IP_CLUSTER_accepts:
  "accepts (\<lambda>h m pn. keep_mem m (SM_SVC_NAT_IP_CLUSTER_validate h m pn)) (Array_elems SM_SVC_NAT_IP_CLUSTER_MAX_NUM_LISTENERS (csizeof SM_SVC_NAT_IP_CLUSTER_t))"
  unfolding SM_SVC_NAT_IP_CLUSTER_validate_def by (rule bounded_array_accepts)

lemma ACTIVE_CONN_STATS_accepts:
  "accepts (\<lambda>h m pn. keep_mem m (ACTIVE_CONN_STATS_validate h m pn)) (Array_elems ACTIVE_CONN_STATS_MAX_NUM_CONNS (csizeof ACTIVE_CONN_STATS_t))"
  unfolding ACTIVE_CONN_STATS_validate_def by (rule bounded_array_accepts)

lemma MS_CLUSTER_STATE_accepts:
  "accepts (\<lambda>h m pn. keep_mem m (MS_CLUSTER_STATE_validate h m pn)) (Array_elems MS_CLUSTER_STATE_MAX_NUM_CLUSTERS (csizeof MS_CLUSTER_STATE_t))"
  unfolding MS_CLUSTER_STATE_validate_def by (rule bounded_array_accepts)

lemma MS_PARTHA_PING_accepts:
  "accepts (\<lambda>h m pn. keep_mem m (MS_PARTHA_PING_validate h m pn)) (Array_elems MS_PARTHA_PING_MAX_PARTHA_PING (csizeof MS_PARTHA_PING_t))"
  unfolding MS_PARTHA_PING_validate_def by (rule bounded_array_accepts)

lemma REQ_TRACE_SET_accepts:
  "accepts (\<lambda>h m pn. keep_mem m (REQ_TRACE_SET_validate h m pn)) (Array_elems REQ_TRACE_SET_MAX_REQ_TRACE_ELEM (csizeof REQ_TRACE_SET_t))"
  unfolding REQ_TRACE_SET_validate_def by (rule bounded_array_accepts)

lemma REQ_TRACE_STATUS_accepts:
  "accepts (\<lambda>h m pn. keep_mem m (REQ_TRACE_STATUS_validate h m pn)) (Array_elems REQ_TRACE_STATUS_MAX_REQ_TRACE_ELEM (csizeof REQ_TRACE_STATUS_t))"
  unfolding REQ_TRACE_STATUS_validate_def by (rule bounded_array_accepts)

lemma HOST_STATE_NOTIFY__V000100_accepts:
  "accepts (\<lambda>h m pn. keep_mem m (HOST_STATE_NOTIFY__V000100_validate h m pn)) (Array_elems 1 (csizeof HOST_STATE_NOTIFY__V000100_t))"
  unfolding HOST_STATE_NOTIFY__V000100_validate_def by (rule single_accepts)

lemma HOST_STATE_NOTIFY_accepts:
  "accepts (\<lambda>h m pn. keep_mem m (HOST_STATE_NOTIFY_validate h m pn)) (Array_elems 1 (csizeof HOST_STATE_NOTIFY_t))"
  unfolding HOST_STATE_NOTIFY_validate_def by (rule single_accepts)

lemma HOST_INFO_NOTIFY_accepts:
  "accepts (\<lambda>h m pn. keep_mem m (HOST_INFO_NOTIFY_validate h m pn)) (Array_elems 1 (csizeof HOST_INFO_NOTIFY_t))"
  unfolding HOST_INFO_NOTIFY_validate_def by (rule single_accepts)

lemma HOST_CPU_MEM_CHANGE_accepts:
  "accepts (\<lambda>h m pn. keep_mem m (HOST_CPU_MEM_CHANGE_validate h m pn)) (Array_elems 1 (csizeof HOST_CPU_MEM_CHANGE_t))"
  unfolding HOST_CPU_MEM_CHANGE_validate_def by (rule single_accepts)

lemma SM_ALERT_STAT_DISABLE_accepts:
  "accepts (\<lambda>h m pn. keep_mem m (SM_ALERT_STAT_DISABLE_validate h m pn)) (Array_elems 1 (csizeof SM_ALERT_STAT_DISABLE_t))"
  unfolding SM_ALERT_STAT_DISABLE_validate_def by (rule single_accepts)

text \<open>A handler schedules an event only for a registered peer of its kind, for its threads, and in its
  layout if it has one.\<close>

definition handler_sched ::
  "('d, 'c CONNTRACK_scheme) l1_case \<Rightarrow> HOST_TYPES_E \<Rightarrow> 'd \<Rightarrow> elem_layout option \<Rightarrow> bool" where
  "handler_sched f t dest lo \<longleftrightarrow> (\<forall>c h m pn d j st m'. f c h m pn = Some (L1_SCHED d j, st, m') \<longrightarrow>
     from_host t c \<and> d = dest \<and> \<not> j \<and>
     (hdr_ok h \<longrightarrow> event_hdr_in h m pn \<longrightarrow> pred_option (\<lambda>l. layout_ok l h m' pn) lo))"

lemma handler_schedI:
  assumes "\<And>c h m pn. f c h m pn = l1_sched_valid (from_host t c) (v h m pn) dest m"
    and "pred_option (accepts v) lo"
  shows "handler_sched f t dest lo"
  unfolding handler_sched_def
proof (intro allI impI)
  fix c h m pn d j st m' assume "f c h m pn = Some (L1_SCHED d j, st, m')"
  then have "from_host t c" "d = dest" "\<not> j" "v h m pn = Some (True, m')"
    unfolding assms(1)
    by (auto simp: l1_sched_valid_def invalid_msg_def bind_eq_Some_conv split: if_splits)
  then show "from_host t c \<and> d = dest \<and> \<not> j \<and>
      (hdr_ok h \<longrightarrow> event_hdr_in h m pn \<longrightarrow> pred_option (\<lambda>l. layout_ok l h m' pn) lo)"
    using assms(2) by (cases lo) (auto simp: accepts_def)
qed

named_theorems gy_sched

lemma handler_sched_iff:
  "handler_sched f t dest lo \<Longrightarrow> f c h m pn = Some (L1_SCHED d j, st, m') \<Longrightarrow>
     from_host t c \<and> d = dest \<and> \<not> j \<and>
     (hdr_ok h \<longrightarrow> event_hdr_in h m pn \<longrightarrow> pred_option (\<lambda>l. layout_ok l h m' pn) lo)"
  unfolding handler_sched_def by blast

end
