(* ===== verification/Gy_L1_Recv.thy ===== *)
theory Gy_L1_Recv
  imports Gy_L1_Base
begin

text \<open>
  The receive loop of the L1 threads: \<open>handle_recv\<close> of \<open>server/gy_mconnhdlr.cc\<close>, around the dispatch of
  a message, with the receive buffer of a connection (\<open>EPOLL_CONNTRACK::EDIR_STATS\<close> of
  \<open>common/gy_epoll_conntrack.h\<close>) and the array of messages for another thread (\<open>DB_WRITE_ARR\<close> of
  \<open>server/gy_mconnhdlr.h\<close>), which are handed over in the buffer they were received in.
  \<open>server/gy_shconnhdlr.cc\<close> has the same loop around another dispatch, which is why the dispatch and the
  kinds of threads are parameters.

  A buffer is a number, its contents are in a table; a buffer that was given to another thread or
  freed must not be touched any more, and a step that does, or that leaves a buffer, has the result
  \<open>None\<close>. The socket is the list of what the calls of \<open>recv\<close> meet.
\<close>

section \<open>State\<close>

text \<open>\<open>DB_WRITE_ONE\<close>: a message in a buffer.\<close>

record DB_WRITE_ONE =
  pwrbuf :: "nat \<times> nat"
  wrlen :: nat
  wr_type :: "32 word"

text \<open>A call of \<open>send_db_array\<close>: the destination, the buffer that goes with the array, the messages,
  \<open>is_json_resp\<close>, and whether a queue took it.\<close>

record 'd DB_SENT =
  sent_dest :: 'd
  sent_buf :: "nat option"
  sent_arr :: "DB_WRITE_ONE list"
  sent_json :: bool
  sent_ok :: bool

text \<open>What the \<open>switch\<close> on the message type does with a message, for the loop around it.\<close>

datatype 'd RX_ACTION =
    RX_THROW
  | RX_CLOSE
  | RX_NEXT
  | RX_SCHED 'd bool
  | RX_REGISTER string

text \<open>\<open>pdirbuf\<close>, \<open>rd_max\<close>, \<open>rd_data\<close>, \<open>pending_sz\<close>: the members \<open>pdirbuf_\<close>, \<open>max_buf_sz_\<close>, \<open>data_sz_\<close>,
  \<open>pending_sz_\<close> of \<open>rdstat_\<close>; \<open>rd_requests\<close>: the messages that \<open>nrequests_\<close> counts, with what became of
  them. \<open>prdbuf\<close>, \<open>max_buf_sz\<close>, \<open>data_sz\<close> and \<open>hdr\<close>: the local variables. \<open>dbonearr\<close>, \<open>pbufstart\<close>,
  \<open>dest_thr_type\<close>: the members of \<open>dbarr\<close>, with \<open>ndbs_\<close> the length of the list. \<open>heap\<close>: all buffers;
  \<open>released\<close>: those this thread has given away or freed.\<close>

record ('d, 'c) RECV =
  heap :: "mem list"
  released :: "nat set"
  pdirbuf :: "nat option"
  rd_max :: nat
  rd_data :: nat
  pending_sz :: "32 word"
  rd_requests :: "(mem \<times> 'd RX_ACTION \<times> mem) list"
  prdbuf :: "(nat \<times> nat) option"
  max_buf_sz :: nat
  data_sz :: nat
  hdr :: COMM_HEADER
  dbonearr :: "DB_WRITE_ONE list"
  pbufstart :: "nat option"
  dest_thr_type :: 'd
  sent :: "'d DB_SENT list"
  conn :: 'c
  statsmap :: stats_upd

text \<open>The surroundings of the loop. \<open>safe_malloc k n\<close> is the buffer that \<open>POOL_ALLOC_ARRAY::safe_malloc\<close>
  gives for \<open>n\<close> bytes as the \<open>k\<close>-th one, all of its actual size; \<open>mpmc_write k\<close> tells whether one of the four attempts
  to put the \<open>k\<close>-th array into a queue succeeds; \<open>dispatch\<close> is the \<open>switch\<close> on the message type;
  \<open>comm_magic\<close> the magic of the connection, \<open>ttype_misc\<close> the destination of a new array and \<open>ttype_rd\<close>
  the threads that get each request in an array of its own.\<close>

record ('d, 'c) ENV =
  safe_malloc :: "nat \<Rightarrow> nat \<Rightarrow> mem"
  mpmc_write :: "nat \<Rightarrow> bool"
  dispatch :: "'c \<Rightarrow> COMM_HEADER \<Rightarrow> mem \<Rightarrow> nat \<Rightarrow> ('d RX_ACTION \<times> stats_upd \<times> 'c \<times> mem) option"
  comm_magic :: "32 word"
  ttype_misc :: 'd
  ttype_rd :: 'd

text \<open>How a part of the loop ends: it goes on, leaves the inner loop by \<open>break\<close>, throws or returns -1.\<close>

datatype 's rx =
    RX_OK 's
  | RX_BREAK 's
  | RX_EXC 's
  | RX_RET 's

definition rx_then :: "'s rx option \<Rightarrow> ('s \<Rightarrow> 's rx option) \<Rightarrow> 's rx option" where
  "rx_then r f = do { x \<leftarrow> r; case x of RX_OK s \<Rightarrow> f s | _ \<Rightarrow> Some x }"

abbreviation (input) COMM_HEADER_SZ :: nat where "COMM_HEADER_SZ \<equiv> csizeof COMM_HEADER_t"
abbreviation (input) MAX_DBONE :: nat where "MAX_DBONE \<equiv> 8"

definition count :: "string \<Rightarrow> ('d, 'c) RECV \<Rightarrow> ('d, 'c) RECV" where
  "count st s = s\<lparr>statsmap := statsmap s @ [(st, 1)]\<rparr>"

section \<open>Buffers\<close>

text \<open>The bytes of a buffer this thread still owns.\<close>

definition buf :: "('d, 'c) RECV \<Rightarrow> nat \<Rightarrow> mem option" where
  "buf s b = (if b < length (heap s) \<and> b \<notin> released s then Some (heap s ! b) else None)"

definition alloc :: "('d, 'c) ENV \<Rightarrow> nat \<Rightarrow> ('d, 'c) RECV \<Rightarrow> nat \<times> ('d, 'c) RECV" where
  "alloc e n s = (let k = length (heap s) in (k, s\<lparr>heap := heap s @ [safe_malloc e k n]\<rparr>))"

text \<open>\<open>act_size\<close> of a buffer.\<close>

definition act_size :: "('d, 'c) RECV \<Rightarrow> nat \<Rightarrow> nat" where
  "act_size s b = length (heap s ! b)"

text \<open>\<open>memcpy\<close> or \<open>memmove\<close> of \<open>n\<close> bytes from a pointer to the start of the buffer \<open>d\<close>.\<close>

definition copy_to :: "nat option \<Rightarrow> (nat \<times> nat) option \<Rightarrow> nat \<Rightarrow> ('d, 'c) RECV \<Rightarrow> ('d, 'c) RECV option" where
  "copy_to dst src n s = do {
     d \<leftarrow> dst;
     (b, off) \<leftarrow> src;
     from \<leftarrow> buf s b;
     to \<leftarrow> buf s d;
     if off + n \<le> length from \<and> n \<le> length to
     then Some (s\<lparr>heap := (heap s)[d := take n (drop off from) @ drop n to]\<rparr>) else None
   }"

definition dealloc :: "('d, 'c) RECV \<Rightarrow> ('d, 'c) RECV" where
  "dealloc s = s\<lparr>released := released s \<union> set_option (pdirbuf s), pdirbuf := None, rd_max := 0\<rparr>"

definition reset_buf :: "bool \<Rightarrow> ('d, 'c) RECV \<Rightarrow> ('d, 'c) RECV" where
  "reset_buf to_dealloc s =
     (if to_dealloc then dealloc s else s)\<lparr>pdirbuf := None, rd_max := 0, rd_data := 0\<rparr>"

definition set_buf :: "nat \<Rightarrow> nat \<Rightarrow> nat \<Rightarrow> ('d, 'c) RECV \<Rightarrow> ('d, 'c) RECV rx" where
  "set_buf pnewbuf new_maxbufsz new_datasz s =
     (if rd_data s > 0 \<or> new_datasz > new_maxbufsz
      then RX_EXC (s\<lparr>released := insert pnewbuf (released s)\<rparr>)
      else RX_OK ((dealloc s)\<lparr>pdirbuf := Some pnewbuf, rd_max := new_maxbufsz, rd_data := new_datasz\<rparr>))"

definition set_variables :: "('d, 'c) RECV \<Rightarrow> ('d, 'c) RECV" where
  "set_variables s = s\<lparr>max_buf_sz := rd_max s, data_sz := rd_data s,
                       prdbuf := map_option (\<lambda>b. (b, 0)) (pdirbuf s)\<rparr>"

text \<open>\<open>set_buf\<close> of a new buffer that holds the first \<open>n\<close> bytes, followed by \<open>set_variables\<close>.\<close>

definition use_buf :: "nat \<Rightarrow> nat \<Rightarrow> ('d, 'c) RECV \<Rightarrow> ('d, 'c) RECV rx option" where
  "use_buf b n s = rx_then (Some (set_buf b (act_size s b) n s)) (\<lambda>s. Some (RX_OK (set_variables s)))"

section \<open>Handing over\<close>

text \<open>Every array leaves with its buffer: either a queue takes both, or \<open>dealloc\<close> frees the buffer.\<close>

definition send_db_array :: "('d, 'c) ENV \<Rightarrow> bool \<Rightarrow> ('d, 'c) RECV \<Rightarrow> bool \<times> ('d, 'c) RECV" where
  "send_db_array e is_json_resp s =
     (let bret = mpmc_write e (length (sent s));
          s' = s\<lparr>sent := sent s @ [\<lparr>sent_dest = dest_thr_type s, sent_buf = pbufstart s,
                     sent_arr = dbonearr s, sent_json = is_json_resp, sent_ok = bret\<rparr>],
                 released := released s \<union> set_option (pbufstart s), dbonearr := [], pbufstart := None\<rparr>
      in (bret, if bret then s' else count ''Write Array Thread Blocked'' s'))"

text \<open>The tail of the loop that several places share: the array goes, and its buffer is forgotten.\<close>

definition send_and_reset :: "('d, 'c) ENV \<Rightarrow> bool \<Rightarrow> ('d, 'c) RECV \<Rightarrow> ('d, 'c) RECV" where
  "send_and_reset e is_json_resp s = reset_buf False (snd (send_db_array e is_json_resp s))"

definition schedule_db_array ::
  "('d, 'c) ENV \<Rightarrow> nat \<times> nat \<Rightarrow> nat \<Rightarrow> 32 word \<Rightarrow> 'd \<Rightarrow> bool \<Rightarrow> ('d, 'c) RECV \<Rightarrow> ('d, 'c) RECV rx option" where
  "schedule_db_array e pwr len dtype dest is_json_resp s =
     (if length (dbonearr s) \<ge> MAX_DBONE then Some (RX_EXC (count ''Internal L1 Error'' s))
      else rx_then
        (if (dest \<noteq> dest_thr_type s \<or> dest = ttype_rd e) \<and> length (dbonearr s) > 0 then do {
           let maxcopy = max len (data_sz s);
           let (palloc, s1) = alloc e (max 4096 maxcopy) s;
           s2 \<leftarrow> copy_to (Some palloc) (Some pwr) maxcopy s1;
           use_buf palloc maxcopy (send_and_reset e is_json_resp s2)
         }
         else Some (RX_OK s))
        (\<lambda>s. Some (RX_OK (s\<lparr>
           dbonearr := dbonearr s @ [\<lparr>pwrbuf = pwr, wrlen = len, wr_type = dtype\<rparr>],
           pbufstart := (if dbonearr s = [] then pdirbuf s else pbufstart s),
           dest_thr_type := (if dbonearr s = [] then dest else dest_thr_type s)\<rparr>))))"

section \<open>One message\<close>

text \<open>The first part of the inner loop: the header at \<open>prdbuf\<close>, when it is there.\<close>

definition recv_hdr :: "('d, 'c) ENV \<Rightarrow> ('d, 'c) RECV \<Rightarrow> ('d, 'c) RECV rx option" where
  "recv_hdr e s =
     (if data_sz s \<ge> COMM_HEADER_SZ then do {
        (b, off) \<leftarrow> prdbuf s;
        m \<leftarrow> buf s b;
        h \<leftarrow> load_header m off;
        let s1 = s\<lparr>hdr := h\<rparr>;
        Some (if validate_hdr h off (comm_magic e) = False
              then RX_EXC (count ''Invalid Message Error'' s1) else RX_OK s1)
      }
      else Some (RX_OK (s\<lparr>hdr := (hdr s)\<lparr>total_sz := 16\<rparr>\<rparr>)))"

abbreviation hdr_total :: "('d, 'c) RECV \<Rightarrow> nat" where
  "hdr_total s \<equiv> unat (total_sz (hdr s))"

text \<open>An incomplete message moves to a new buffer if the one it is in holds messages for another thread
  or is too small.\<close>

definition recv_grow :: "('d, 'c) ENV \<Rightarrow> ('d, 'c) RECV \<Rightarrow> ('d, 'c) RECV rx option" where
  "recv_grow e s =
     (if data_sz s < hdr_total s \<and> length (dbonearr s) > 0 \<or> max_buf_sz s < hdr_total s then do {
        let (palloc, s1) = alloc e (max 4096 (max (hdr_total s) (data_sz s))) s;
        s2 \<leftarrow> copy_to (Some palloc) (prdbuf s) (data_sz s) s1;
        use_buf palloc (data_sz s)
          (if length (dbonearr s) > 0 then send_and_reset e False s2 else reset_buf True s2)
      }
      else Some (RX_OK s))"

text \<open>\<open>memmove\<close> of the rest to the start of the buffer.\<close>

definition recv_move :: "('d, 'c) RECV \<Rightarrow> ('d, 'c) RECV option" where
  "recv_move s = do {
     s1 \<leftarrow> copy_to (pdirbuf s) (prdbuf s) (data_sz s) s;
     Some (set_variables (s1\<lparr>rd_data := data_sz s\<rparr>))
   }"

definition recv_partial :: "('d, 'c) RECV \<Rightarrow> ('d, 'c) RECV rx option" where
  "recv_partial s =
     (if data_sz s \<noteq> rd_data s then do { s1 \<leftarrow> recv_move s; Some (RX_BREAK s1) } else Some (RX_BREAK s))"

text \<open>What the cases of the \<open>switch\<close> do to the array with the message at \<open>p\<close>. After a registration the
  array is sent at once.\<close>

definition recv_act ::
  "('d, 'c) ENV \<Rightarrow> nat \<times> nat \<Rightarrow> 'd RX_ACTION \<Rightarrow> ('d, 'c) RECV \<Rightarrow> ('d, 'c) RECV rx option" where
  "recv_act e p a s = (case a of
       RX_THROW \<Rightarrow> Some (RX_EXC s)
     | RX_CLOSE \<Rightarrow> Some (RX_RET s)
     | RX_NEXT \<Rightarrow> Some (RX_OK s)
     | RX_SCHED dest is_json \<Rightarrow>
         schedule_db_array e p (hdr_total s) (data_type (hdr s)) dest is_json s
     | RX_REGISTER blocking_fail \<Rightarrow>
         rx_then (schedule_db_array e p (hdr_total s) (data_type (hdr s)) (ttype_misc e) False s)
           (\<lambda>s. let (bret, s1) = send_db_array e False s; s2 = reset_buf False s1
                in Some (if bret then RX_OK s2 else RX_RET (count blocking_fail s2))))"

definition recv_dispatch :: "('d, 'c) ENV \<Rightarrow> ('d, 'c) RECV \<Rightarrow> ('d, 'c) RECV rx option" where
  "recv_dispatch e s = do {
     (b, off) \<leftarrow> prdbuf s;
     m \<leftarrow> buf s b;
     (a, st, c, m') \<leftarrow> dispatch e (conn s) (hdr s) m off;
     let msg = take (hdr_total s) \<circ> drop off;
     recv_act e (b, off) a
       (s\<lparr>heap := (heap s)[b := m'], conn := c, statsmap := statsmap s @ st,
          rd_requests := rd_requests s @ [(msg m, a, msg m')]\<rparr>)
   }"

text \<open>The check of \<open>data_sz < 0\<close> is done before the subtraction.\<close>

definition recv_advance :: "('d, 'c) RECV \<Rightarrow> ('d, 'c) RECV rx option" where
  "recv_advance s =
     (if data_sz s = 0 then Some (if max_buf_sz s < data_sz s
         then RX_EXC (count ''Internal L1 recv stats error'' s) else RX_OK s)
      else if data_sz s < hdr_total s \<or> max_buf_sz s < data_sz s
      then Some (RX_EXC (count ''Internal L1 recv stats error'' s))
      else Some (RX_OK (s\<lparr>data_sz := data_sz s - hdr_total s, max_buf_sz := max_buf_sz s - hdr_total s,
             prdbuf := map_option (\<lambda>(b, off). (b, off + hdr_total s)) (prdbuf s)\<rparr>)))"

text \<open>A full array, or an array in a buffer with no room for another header, is sent.\<close>

definition recv_flush :: "('d, 'c) ENV \<Rightarrow> bool \<Rightarrow> ('d, 'c) RECV \<Rightarrow> ('d, 'c) RECV rx option" where
  "recv_flush e is_again s =
     (let no_room = max_buf_sz s - data_sz s < COMM_HEADER_SZ in
      if length (dbonearr s) = MAX_DBONE \<or> length (dbonearr s) > 0 \<and> no_room then
        (if \<not> is_again \<or> data_sz s > 0 \<or> no_room \<and> max_buf_sz s > 0 then do {
           let (palloc, s1) = alloc e (if data_sz s > 4096 then data_sz s + 1024 else 4096) s;
           s2 \<leftarrow> (if data_sz s > 0 then copy_to (Some palloc) (prdbuf s) (data_sz s) s1 else Some s1);
           use_buf palloc (data_sz s) (send_and_reset e False s2)
         }
         else Some (RX_OK (send_and_reset e False s)))
      else if data_sz s \<noteq> rd_data s \<and> no_room then do { s1 \<leftarrow> recv_move s; Some (RX_OK s1) }
      else Some (RX_OK s))"

definition recv_step :: "('d, 'c) ENV \<Rightarrow> bool \<Rightarrow> ('d, 'c) RECV \<Rightarrow> ('d, 'c) RECV rx option" where
  "recv_step e is_again s =
     rx_then (recv_hdr e s) (\<lambda>s. rx_then (recv_grow e s) (\<lambda>s.
       if data_sz s < hdr_total s then recv_partial s
       else rx_then (recv_dispatch e s) (\<lambda>s. rx_then (recv_advance s) (recv_flush e is_again))))"

section \<open>The loops\<close>

text \<open>The inner loop takes every message out of the buffer. It ends because each round but the last
  makes \<open>data_sz\<close> smaller.\<close>

lemma rx_then_simps [simp]:
  "rx_then None f = None" "rx_then (Some (RX_OK s)) f = f s" "rx_then (Some (RX_BREAK s)) f = Some (RX_BREAK s)"
  "rx_then (Some (RX_EXC s)) f = Some (RX_EXC s)" "rx_then (Some (RX_RET s)) f = Some (RX_RET s)"
  by (simp_all add: rx_then_def)

lemma rx_then_OK: "rx_then r f = Some (RX_OK s') \<longleftrightarrow> (\<exists>s. r = Some (RX_OK s) \<and> f s = Some (RX_OK s'))"
  by (cases r rule: option.exhaust, simp, rename_tac x, case_tac x) auto

lemma count_fields [simp]:
  "data_sz (count st s) = data_sz s" "dbonearr (count st s) = dbonearr s" "hdr (count st s) = hdr s"
  "max_buf_sz (count st s) = max_buf_sz s" "prdbuf (count st s) = prdbuf s"
  "rd_data (count st s) = rd_data s" "rd_max (count st s) = rd_max s" "pdirbuf (count st s) = pdirbuf s"
  "heap (count st s) = heap s" "released (count st s) = released s" "pbufstart (count st s) = pbufstart s"
  "sent (count st s) = sent s" "conn (count st s) = conn s" "rd_requests (count st s) = rd_requests s"
  "dest_thr_type (count st s) = dest_thr_type s" "pending_sz (count st s) = pending_sz s"
  by (simp_all add: count_def)

lemma copy_to_Some: "copy_to d p n s = Some s' \<Longrightarrow> \<exists>hp. s' = s\<lparr>heap := hp\<rparr>"
  by (cases p) (auto simp: copy_to_def bind_eq_Some_conv split: if_splits)

lemma send_fields [simp]:
  "data_sz (snd (send_db_array e j s)) = data_sz s" "hdr (snd (send_db_array e j s)) = hdr s"
  "max_buf_sz (snd (send_db_array e j s)) = max_buf_sz s" "prdbuf (snd (send_db_array e j s)) = prdbuf s"
  "rd_data (snd (send_db_array e j s)) = rd_data s" "rd_max (snd (send_db_array e j s)) = rd_max s"
  "pdirbuf (snd (send_db_array e j s)) = pdirbuf s" "heap (snd (send_db_array e j s)) = heap s"
  "released (snd (send_db_array e j s)) = released s \<union> set_option (pbufstart s)"
  "dbonearr (snd (send_db_array e j s)) = []" "pbufstart (snd (send_db_array e j s)) = None"
  "conn (snd (send_db_array e j s)) = conn s" "rd_requests (snd (send_db_array e j s)) = rd_requests s"
  "dest_thr_type (snd (send_db_array e j s)) = dest_thr_type s"
  "pending_sz (snd (send_db_array e j s)) = pending_sz s"
  by (simp_all add: send_db_array_def Let_def)

lemma reset_fields [simp]:
  "data_sz (reset_buf d s) = data_sz s" "hdr (reset_buf d s) = hdr s"
  "max_buf_sz (reset_buf d s) = max_buf_sz s" "prdbuf (reset_buf d s) = prdbuf s"
  "rd_data (reset_buf d s) = 0" "rd_max (reset_buf d s) = 0" "pdirbuf (reset_buf d s) = None"
  "heap (reset_buf d s) = heap s" "dbonearr (reset_buf d s) = dbonearr s"
  "pbufstart (reset_buf d s) = pbufstart s" "sent (reset_buf d s) = sent s"
  "conn (reset_buf d s) = conn s" "rd_requests (reset_buf d s) = rd_requests s"
  "dest_thr_type (reset_buf d s) = dest_thr_type s" "pending_sz (reset_buf d s) = pending_sz s"
  "released (reset_buf True s) = released s \<union> set_option (pdirbuf s)"
  "released (reset_buf False s) = released s"
  by (simp_all add: reset_buf_def dealloc_def)

lemma use_buf_OK: "use_buf b n s = Some (RX_OK s') \<Longrightarrow> data_sz s' = n \<and> hdr s' = hdr s"
  by (auto simp: use_buf_def rx_then_OK set_buf_def set_variables_def dealloc_def split: if_splits)

lemma schedule_data_sz:
  assumes "schedule_db_array e p n t d j s = Some (RX_OK s')" and "n \<le> data_sz s"
  shows "data_sz s' = data_sz s \<and> hdr s' = hdr s"
  using assms
  by (auto simp: schedule_db_array_def rx_then_OK bind_eq_Some_conv alloc_def send_and_reset_def Let_def
      dest!: copy_to_Some use_buf_OK split: if_splits)

lemma act_data_sz:
  assumes "recv_act e p a s = Some (RX_OK s')" and "hdr_total s \<le> data_sz s"
  shows "data_sz s' = data_sz s \<and> hdr s' = hdr s"
  using assms
  by (cases a) (auto simp: recv_act_def rx_then_OK Let_def split_beta dest!: schedule_data_sz
      split: if_splits)

lemma dispatch_data_sz:
  assumes "recv_dispatch e s = Some (RX_OK s')" and "hdr_total s \<le> data_sz s"
  shows "data_sz s' = data_sz s \<and> hdr s' = hdr s"
  using assms by (auto simp: recv_dispatch_def bind_eq_Some_conv dest!: act_data_sz)

lemma flush_data_sz:
  assumes "recv_flush e ag s = Some (RX_OK s')"
  shows "data_sz s' = data_sz s"
  using assms
  by (auto simp: recv_flush_def recv_move_def rx_then_OK bind_eq_Some_conv alloc_def send_and_reset_def
      set_variables_def Let_def dest!: copy_to_Some use_buf_OK split: if_splits)

lemma hdr_sz:
  assumes "recv_hdr e s = Some (RX_OK s1)"
  shows "data_sz s1 = data_sz s \<and> 16 \<le> hdr_total s1"
  using assms
  by (auto simp: recv_hdr_def bind_eq_Some_conv validate_hdr_iff Let_def split: if_splits)

lemma grow_sz:
  assumes "recv_grow e s = Some (RX_OK s1)"
  shows "data_sz s1 = data_sz s \<and> hdr s1 = hdr s"
  using assms
  by (auto simp: recv_grow_def bind_eq_Some_conv alloc_def send_and_reset_def Let_def
      dest!: copy_to_Some use_buf_OK split: if_splits)

lemma recv_step_consumes:
  assumes "recv_step e ag s = Some (RX_OK s')"
  shows "data_sz s' + 16 \<le> data_sz s"
proof -
  obtain s1 s2 where s1: "recv_hdr e s = Some (RX_OK s1)" "recv_grow e s1 = Some (RX_OK s2)"
    using assms by (auto simp: recv_step_def rx_then_OK)
  then have sz: "data_sz s2 = data_sz s" "16 \<le> hdr_total s2" using hdr_sz grow_sz by fastforce+
  have full: "\<not> data_sz s2 < hdr_total s2"
    using assms s1 by (auto simp: recv_step_def recv_partial_def bind_eq_Some_conv split: if_splits)
  then obtain s3 s4 where s3: "recv_dispatch e s2 = Some (RX_OK s3)" "recv_advance s3 = Some (RX_OK s4)"
      "recv_flush e ag s4 = Some (RX_OK s')"
    using assms s1 by (auto simp: recv_step_def rx_then_OK)
  have "data_sz s3 = data_sz s2" "hdr s3 = hdr s2" using dispatch_data_sz [OF s3(1)] full by auto
  then have "data_sz s4 + 16 \<le> data_sz s" using s3(2) sz full by (auto simp: recv_advance_def split: if_splits)
  then show ?thesis using flush_data_sz [OF s3(3)] by simp
qed

lemma recv_rounds:
  assumes "((\<lambda>s s'. recv_step e ag s = Some (RX_OK s')) ^^ n) s s'"
  shows "16 * n + data_sz s' \<le> data_sz s"
  using assms
proof (induction n arbitrary: s')
  case (Suc n)
  then obtain u where "16 * n + data_sz u \<le> data_sz s" "recv_step e ag u = Some (RX_OK s')" by auto
  then show ?case using recv_step_consumes [of e ag u s'] by simp
qed simp

function recv_parse :: "('d, 'c) ENV \<Rightarrow> bool \<Rightarrow> ('d, 'c) RECV \<Rightarrow> ('d, 'c) RECV rx option" where
  "recv_parse e is_again s = (case recv_step e is_again s of
       Some (RX_OK s') \<Rightarrow> if data_sz s' > 0 then recv_parse e is_again s' else Some (RX_OK s')
     | Some (RX_BREAK s') \<Rightarrow> Some (RX_OK s')
     | r \<Rightarrow> r)"
  by pat_completeness auto
termination
  by (relation "measure (\<lambda>(e, ag, s). data_sz s)") (auto dest: recv_step_consumes)

declare recv_parse.simps [simp del]

text \<open>What the calls of \<open>recv\<close> on the socket meet: bytes, of which a call returns as many as it has room
  for, an interrupt, an error, or the end of the stream; an empty list is \<open>EAGAIN\<close>.\<close>

datatype SOCK_EVENT =
    SOCK_DATA mem
  | SOCK_EINTR
  | SOCK_ERROR
  | SOCK_EOF

text \<open>\<open>EPOLL_CONNTRACK::pending_recv_seen\<close>, with the result and the new \<open>pending_sz_\<close>.\<close>

definition pending_recv_seen :: "32 word \<Rightarrow> nat \<Rightarrow> bool \<times> 32 word" where
  "pending_recv_seen pend nbytes =
     (if pend \<noteq> 0 then if unat pend \<ge> nbytes then (True, 0) else (False, pend - of_nat nbytes)
      else (True, pend))"

text \<open>The bytes of a call of \<open>recv\<close> in the buffer, and the members and variables afterwards.\<close>

definition recv_store :: "mem \<Rightarrow> ('d, 'c) RECV \<Rightarrow> ('d, 'c) RECV option" where
  "recv_store bs s = do {
     (b, off) \<leftarrow> prdbuf s;
     m \<leftarrow> buf s b;
     let p = off + data_sz s;
     if p + length bs \<le> length m
     then Some (s\<lparr>heap := (heap s)[b := take p m @ bs @ drop (p + length bs) m],
                  rd_data := rd_data s + length bs, data_sz := data_sz s + length bs\<rparr>)
     else None
   }"

definition recv_fail :: "('d, 'c) ENV \<Rightarrow> ('d, 'c) RECV \<Rightarrow> ('d, 'c) RECV" where
  "recv_fail e s = (if length (dbonearr s) > 0 \<and> dest_thr_type s \<noteq> ttype_rd e
                    then snd (send_db_array e False s) else s)"

fun sock_left :: "SOCK_EVENT list \<Rightarrow> nat" where
  "sock_left [] = 0"
| "sock_left (SOCK_DATA bs # ev) = Suc (length bs) + sock_left ev"
| "sock_left (_ # ev) = Suc (sock_left ev)"

text \<open>The outer loop. \<open>nsys\<close> is the number of calls of \<open>recv\<close> that are left; the result has what is
  left on the socket and the number of bytes received.\<close>

function recv_loop ::
  "('d, 'c) ENV \<Rightarrow> nat \<Rightarrow> bool \<Rightarrow> nat \<Rightarrow> SOCK_EVENT list \<Rightarrow> ('d, 'c) RECV \<Rightarrow>
   (SOCK_EVENT list \<times> nat \<times> ('d, 'c) RECV rx) option" where
  "recv_loop e nsys pend tot ev s0 =
     (let s = set_variables s0; max_bytes = max_buf_sz s - data_sz s in
      if max_bytes = 0 then Some (ev, tot, RX_EXC (count ''Internal L1 Error'' s))
      else case ev of
        [] \<Rightarrow> Some ([], tot, RX_OK s)
      | SOCK_EINTR # ev' \<Rightarrow> recv_loop e nsys pend tot ev' s
      | SOCK_ERROR # ev' \<Rightarrow> Some (ev', tot, RX_RET (recv_fail e s))
      | SOCK_EOF # ev' \<Rightarrow> Some (ev', tot, RX_RET (recv_fail e s))
      | SOCK_DATA bs # ev' \<Rightarrow>
          if bs = [] then Some (ev', tot, RX_RET (recv_fail e s))
          else do {
            let sret = min max_bytes (length bs);
            let is_again = (sret < max_bytes);
            let (seen, psz) = (if pend then pending_recv_seen (pending_sz s) sret else (True, pending_sz s));
            let left = (if length bs \<le> max_bytes then ev' else SOCK_DATA (drop max_bytes bs) # ev');
            s1 \<leftarrow> recv_store (take sret bs) (s\<lparr>pending_sz := psz\<rparr>);
            r \<leftarrow> recv_parse e is_again s1;
            case r of
              RX_OK s2 \<Rightarrow>
                if is_again \<or> nsys \<le> 1 then Some (left, tot + sret, RX_OK s2)
                else recv_loop e (nsys - 1) (\<not> seen) (tot + sret) left s2
            | _ \<Rightarrow> Some (left, tot + sret, r)
          })"
  by pat_completeness auto
termination
  by (relation "measure (\<lambda>(e, nsys, pend, tot, ev, s). sock_left ev)") (auto split: if_splits)

declare recv_loop.simps [simp del]

text \<open>After the loops: the array is sent, and an incomplete message stays for the next call.\<close>

definition recv_finish :: "('d, 'c) ENV \<Rightarrow> nat \<Rightarrow> ('d, 'c) RECV \<Rightarrow> ('d, 'c) RECV rx option" where
  "recv_finish e totbytes s =
     (if length (dbonearr s) > 0 then
        (if data_sz s > 0 then do {
           let (palloc, s1) = alloc e (max 4096 (data_sz s + 1024)) s;
           s2 \<leftarrow> copy_to (Some palloc) (prdbuf s) (data_sz s) s1;
           let s3 = send_and_reset e False s2;
           Some (set_buf palloc (act_size s3 palloc) (data_sz s) s3)
         }
         else Some (RX_OK (reset_buf True (send_and_reset e False s))))
      else if data_sz s = 0 then Some (RX_OK (reset_buf True s))
      else if totbytes > 0
      then Some (RX_OK (s\<lparr>pending_sz := total_sz (hdr s) - of_nat (data_sz s)\<rparr>))
      else Some (RX_OK s))"

text \<open>The end of the scope: an array that still has the buffer of the connection gives it up without
  freeing it, then the destructor of \<open>dbarr\<close> frees what it still has.\<close>

definition scope_exit :: "('d, 'c) RECV \<Rightarrow> ('d, 'c) RECV" where
  "scope_exit s =
     (let s1 = (if pbufstart s \<noteq> None \<and> pdirbuf s = pbufstart s
                then s\<lparr>pbufstart := None, dbonearr := []\<rparr> else s)
      in s1\<lparr>released := released s1 \<union> set_option (pbufstart s1), pbufstart := None, dbonearr := []\<rparr>)"

definition recv_start :: "('d, 'c) ENV \<Rightarrow> ('d, 'c) RECV \<Rightarrow> ('d, 'c) RECV rx option" where
  "recv_start e s0 =
     (let s = s0\<lparr>dbonearr := [], pbufstart := None, dest_thr_type := ttype_misc e,
                 hdr := snd (set_type_len empty_header COMM_MIN_TYPE 0 INV_HDR_MAGIC)\<rparr>
      in case pdirbuf s of
           None \<Rightarrow> (let (palloc, s1) = alloc e 4096 s in Some (set_buf palloc (act_size s1 palloc) 0 s1))
         | Some _ \<Rightarrow> Some (RX_OK s))"

text \<open>The results of a call: the number of bytes, -1, or an exception.\<close>

datatype RECV_RET =
    RECV_BYTES nat
  | RECV_CLOSE
  | RECV_THROW

fun recv_ret :: "nat \<Rightarrow> ('d, 'c) RECV rx \<Rightarrow> RECV_RET \<times> ('d, 'c) RECV" where
  "recv_ret tot (RX_EXC s) = (RECV_THROW, scope_exit s)"
| "recv_ret tot (RX_RET s) = (RECV_CLOSE, scope_exit s)"
| "recv_ret tot (RX_OK s) = (RECV_BYTES tot, scope_exit s)"
| "recv_ret tot (RX_BREAK s) = (RECV_BYTES tot, scope_exit s)"

definition handle_recv ::
  "('d, 'c) ENV \<Rightarrow> nat \<Rightarrow> SOCK_EVENT list \<Rightarrow> ('d, 'c) RECV \<Rightarrow>
   (SOCK_EVENT list \<times> RECV_RET \<times> ('d, 'c) RECV) option" where
  "handle_recv e max_syscall ev s0 = do {
     r \<leftarrow> recv_start e s0;
     (left, tot, r2) \<leftarrow> (case r of
         RX_OK s \<Rightarrow> recv_loop e max_syscall (pending_sz s0 \<noteq> 0) 0 ev s
       | _ \<Rightarrow> Some (ev, 0, r));
     r3 \<leftarrow> rx_then (Some r2) (recv_finish e tot);
     Some (left, recv_ret tot r3)
   }"

end
