(* ===== verification/Gy_L1_Framing.thy ===== *)
theory Gy_L1_Framing
  imports Gy_L1_Recv
begin

text \<open>
  The receive loop of \<open>Gy_L1_Recv\<close> against what it is to do: cut the stream of bytes into messages
  whatever the pieces are in which it arrives, give each message to the dispatch once, and hand over
  each scheduled message once, in order, in a buffer that goes with it, unless the queue of the other thread
  does not take the array. The locale \<open>recv_disp\<close> says what
  the loop needs of the dispatch; it is interpreted for the connections on which a Partha sends its
  events to a Madhava and a Madhava its events to Shyama.
\<close>

section \<open>What the loop is to do\<close>

text \<open>The messages in a stream of bytes, the incomplete message at its end, and whether all headers are
  valid.\<close>

function split_frames :: "32 word \<Rightarrow> mem \<Rightarrow> mem list \<times> mem \<times> bool" where
  "split_frames mg bs =
     (if length bs < COMM_HEADER_SZ then ([], bs, True)
      else case load_header bs 0 of
        None \<Rightarrow> ([], bs, False)
      | Some h \<Rightarrow>
          if \<not> validate_hdr h 0 mg then ([], bs, False)
          else if length bs < unat (total_sz h) then ([], bs, True)
          else (let (fs, rest) = split_frames mg (drop (unat (total_sz h)) bs)
                in (take (unat (total_sz h)) bs # fs, rest)))"
  by pat_completeness auto
termination
  by (relation "measure (\<lambda>(mg, bs). length bs)") (auto simp: validate_hdr_iff)

declare split_frames.simps [simp del]

text \<open>The bytes from \<open>prdbuf\<close> on that have been received, the bytes of an entry of an array, and of all
  messages that were put into an array, in this order.\<close>

definition area :: "('d, 'c) RECV \<Rightarrow> mem" where
  "area s = (case prdbuf s of Some (b, off) \<Rightarrow> take (data_sz s) (drop off (heap s ! b)) | None \<Rightarrow> [])"

definition entry_bytes :: "mem list \<Rightarrow> DB_WRITE_ONE \<Rightarrow> mem" where
  "entry_bytes hp x = take (wrlen x) (drop (snd (pwrbuf x)) (hp ! fst (pwrbuf x)))"

definition handed :: "('d, 'c) RECV \<Rightarrow> mem list" where
  "handed s = map (entry_bytes (heap s)) (concat (map sent_arr (sent s)) @ dbonearr s)"

text \<open>The messages that were scheduled, as they were after the dispatch.\<close>

fun scheduled :: "(mem \<times> 'd RX_ACTION \<times> mem) list \<Rightarrow> mem list" where
  "scheduled [] = []"
| "scheduled ((m, RX_SCHED d j, m') # rq) = m' # scheduled rq"
| "scheduled ((m, RX_REGISTER st, m') # rq) = m' # scheduled rq"
| "scheduled (x # rq) = scheduled rq"

text \<open>The receive buffer: \<open>prdbuf\<close> points into the buffer of the connection, which this thread owns, and
  the variables agree with its size.\<close>

definition rbuf :: "('d, 'c) RECV \<Rightarrow> nat \<Rightarrow> nat \<Rightarrow> bool" where
  "rbuf s b off \<longleftrightarrow> prdbuf s = Some (b, off) \<and> pdirbuf s = Some b \<and> b < length (heap s) \<and> b \<notin> released s \<and>
     length (heap s ! b) = rd_max s \<and> off + max_buf_sz s = rd_max s \<and> off + data_sz s = rd_data s \<and>
     data_sz s \<le> max_buf_sz s \<and> 8 dvd off"

text \<open>The array: its messages lie in the buffer of the connection and are all for \<open>dst\<close>. With \<open>st\<close>, they
  lie before \<open>prdbuf\<close>.\<close>

definition rarr :: "bool \<Rightarrow> 'd \<Rightarrow> ('d, 'c) RECV \<Rightarrow> nat \<Rightarrow> nat \<Rightarrow> bool" where
  "rarr st dst s b off \<longleftrightarrow>
     (\<forall>x\<in>set (dbonearr s). fst (pwrbuf x) = b \<and>
        snd (pwrbuf x) + wrlen x \<le> (if st then off else length (heap s ! b))) \<and>
     pbufstart s = (if dbonearr s = [] then None else Some b) \<and>
     (dbonearr s \<noteq> [] \<longrightarrow> dest_thr_type s = dst)"

text \<open>An array that was sent: its messages lie in the buffer that goes with it, which the sender has
  given up.\<close>

definition sent_fine :: "mem list \<Rightarrow> nat set \<Rightarrow> 'd DB_SENT \<Rightarrow> bool" where
  "sent_fine hp rel x \<longleftrightarrow> (\<forall>y\<in>set (sent_arr x). sent_buf x = Some (fst (pwrbuf y)) \<and>
     fst (pwrbuf y) \<in> rel \<and> snd (pwrbuf y) + wrlen y \<le> length (hp ! fst (pwrbuf y)))"

text \<open>With \<open>st\<close>, everything that was scheduled has been put into an array once, in this order.\<close>

definition rlog :: "bool \<Rightarrow> ('d, 'c) RECV \<Rightarrow> bool" where
  "rlog st s \<longleftrightarrow> released s \<subseteq> {..<length (heap s)} \<and> (\<forall>x\<in>set (sent s). sent_fine (heap s) (released s) x) \<and>
     (st \<longrightarrow> handed s = scheduled (rd_requests s))"

lemma scheduled_append [simp]: "scheduled (a @ b) = scheduled a @ scheduled b"
  by (induction a rule: scheduled.induct) auto

lemma area_length: "rbuf s b off \<Longrightarrow> length (area s) = data_sz s"
  by (auto simp: rbuf_def area_def)

lemma area_eq: "rbuf s b off \<Longrightarrow> area s = take (data_sz s) (drop off (heap s ! b))"
  by (simp add: rbuf_def area_def)

lemma sent_send: "sent (snd (send_db_array e j s)) =
    sent s @ [\<lparr>sent_dest = dest_thr_type s, sent_buf = pbufstart s, sent_arr = dbonearr s, sent_json = j,
               sent_ok = mpmc_write e (length (sent s))\<rparr>]"
  by (simp add: send_db_array_def Let_def)

text \<open>The messages in buffers that do not change.\<close>

lemma entry_bytes_append [simp]: "fst (pwrbuf x) < length hp \<Longrightarrow> entry_bytes (hp @ bs) x = entry_bytes hp x"
  by (simp add: entry_bytes_def nth_append)

lemma sent_fine_mono:
  assumes "sent_fine hp rel x" and "rel \<subseteq> rel'" and "\<And>b. b \<in> rel \<Longrightarrow> length (hp' ! b) = length (hp ! b)"
  shows "sent_fine hp' rel' x"
  using assms by (fastforce simp: sent_fine_def)

text \<open>A state whose buffer has gone takes the last buffer of the table.\<close>

lemma use_last_buf:
  fixes s :: "('d, 'c) RECV"
  assumes "heap s = hp @ [bs @ bf]" and "rd_data s = 0" "pdirbuf s = None" "dbonearr s = []" "pbufstart s = None"
    and "rlog st (s\<lparr>heap := hp\<rparr>)"
  shows "\<exists>s'. use_buf (length hp) (length bs) s = Some (RX_OK s') \<and> rbuf s' (length hp) 0 \<and>
    rarr True dst s' (length hp) 0 \<and> rlog st s' \<and> area s' = bs \<and> dbonearr s' = [] \<and>
    max_buf_sz s' = length (bs @ bf) \<and> conn s' = conn s \<and> rd_requests s' = rd_requests s \<and> hdr s' = hdr s"
proof -
  define s' where
    "s' = set_variables ((dealloc s)\<lparr>pdirbuf := Some (length hp), rd_max := length (bs @ bf), rd_data := length bs\<rparr>)"
  note s'_defs = s'_def set_variables_def dealloc_def
  have use: "use_buf (length hp) (length bs) s = Some (RX_OK s')"
    using assms(1-3) by (simp add: use_buf_def set_buf_def s'_def act_size_def)
  have rel: "released s \<subseteq> {..<length hp}" "\<forall>x\<in>set (sent s). sent_fine hp (released s) x"
    using assms(6) by (auto simp: rlog_def)
  have bf: "rbuf s' (length hp) 0" using assms(1,3) rel(1) by (auto simp: rbuf_def s'_defs)
  have "entry_bytes (hp @ [bs @ bf]) x = entry_bytes hp x" if "x \<in> set (sent_arr y)" "y \<in> set (sent s)" for x y
    by (rule entry_bytes_append) (use that rel in \<open>auto simp: sent_fine_def\<close>)
  then have "handed s' = handed (s\<lparr>heap := hp\<rparr>)" using assms(1,4) by (simp add: handed_def s'_defs)
  moreover have "sent_fine (hp @ [bs @ bf]) (released s) x" if "x \<in> set (sent s)" for x
    by (rule sent_fine_mono [of hp "released s"])
      (use that rel in \<open>auto simp: nth_append dest: subsetD\<close>)
  ultimately have lg: "rlog st s'" using assms(1,3,6) by (auto simp: rlog_def s'_defs)
  have "area s' = bs" by (subst area_def) (simp add: s'_defs assms(1))
  moreover have "rarr True dst s' (length hp) 0" "dbonearr s' = []" "max_buf_sz s' = length (bs @ bf)"
      "conn s' = conn s" "rd_requests s' = rd_requests s" "hdr s' = hdr s"
    using assms(4,5) by (simp_all add: rarr_def s'_defs)
  ultimately show ?thesis using use bf lg by blast
qed

text \<open>The array goes with its buffer, or the buffer is freed.\<close>

definition give_up :: "('d, 'c) ENV \<Rightarrow> bool \<Rightarrow> ('d, 'c) RECV \<Rightarrow> ('d, 'c) RECV" where
  "give_up e j s = (if length (dbonearr s) > 0 then send_and_reset e j s else reset_buf True s)"

lemma give_up_fields:
  assumes "rbuf s b off" and "rarr st dst s b off" and "off \<le> length (heap s ! b)"
  shows "heap (give_up e j s) = heap s" "rd_data (give_up e j s) = 0" "pdirbuf (give_up e j s) = None"
    "dbonearr (give_up e j s) = []" "pbufstart (give_up e j s) = None"
    "released (give_up e j s) = insert b (released s)" "conn (give_up e j s) = conn s"
    "rd_requests (give_up e j s) = rd_requests s" "hdr (give_up e j s) = hdr s"
    "data_sz (give_up e j s) = data_sz s" "max_buf_sz (give_up e j s) = max_buf_sz s"
    "rlog st' s \<Longrightarrow> rlog st' (give_up e j s)"
proof -
  show *: "heap (give_up e j s) = heap s" "rd_data (give_up e j s) = 0" "pdirbuf (give_up e j s) = None"
    "dbonearr (give_up e j s) = []" "pbufstart (give_up e j s) = None"
    "released (give_up e j s) = insert b (released s)" "conn (give_up e j s) = conn s"
    "rd_requests (give_up e j s) = rd_requests s" "hdr (give_up e j s) = hdr s"
    "data_sz (give_up e j s) = data_sz s" "max_buf_sz (give_up e j s) = max_buf_sz s"
    using assms(1,2) by (simp_all add: give_up_def send_and_reset_def rbuf_def rarr_def)
  assume l: "rlog st' s"
  have "sent_fine (heap s) (insert b (released s)) x" if "x \<in> set (sent (give_up e j s))" for x
  proof (cases "x \<in> set (sent s)")
    case True
    then show ?thesis using l by (simp add: rlog_def sent_fine_def)
  next
    case False
    then have "sent_arr x = dbonearr s" "sent_buf x = pbufstart s"
      using that by (auto simp: give_up_def send_and_reset_def sent_send split: if_splits)
    moreover have "fst (pwrbuf y) = b \<and> snd (pwrbuf y) + wrlen y \<le> length (heap s ! b) \<and> pbufstart s = Some b"
      if "y \<in> set (dbonearr s)" for y
    proof -
      have "fst (pwrbuf y) = b \<and> snd (pwrbuf y) + wrlen y \<le> (if st then off else length (heap s ! b))"
        using assms(2) that unfolding rarr_def by blast
      moreover have "dbonearr s \<noteq> []" using that by auto
      ultimately show ?thesis using assms(2,3) by (simp add: rarr_def split: if_splits)
    qed
    ultimately show ?thesis by (simp add: sent_fine_def)
  qed
  moreover have "handed (give_up e j s) = handed s"
    unfolding handed_def *(1,4) by (simp add: give_up_def send_and_reset_def sent_send)
  moreover have "b < length (heap s)" using assms(1) by (simp add: rbuf_def)
  ultimately show "rlog st' (give_up e j s)"
    using l by (simp add: rlog_def *)
qed

lemma rebuf:
  fixes e :: "('d, 'c) ENV" and s :: "('d, 'c) RECV"
  assumes "rbuf s b off" and "rarr st dst s b off" and "rlog st s" and "data_sz s \<le> length bf"
  defines "k \<equiv> length (heap s)"
  shows "\<exists>s2 s4. copy_to (Some k) (prdbuf s) (data_sz s) (s\<lparr>heap := heap s @ [bf]\<rparr>) = Some s2 \<and>
    use_buf k (data_sz s) (give_up e j s2) = Some (RX_OK s4) \<and> dbonearr s2 = dbonearr s \<and>
    rbuf s4 k 0 \<and> rarr True dst s4 k 0 \<and> rlog st s4 \<and> area s4 = area s \<and> dbonearr s4 = [] \<and>
    max_buf_sz s4 = length bf \<and> conn s4 = conn s \<and> rd_requests s4 = rd_requests s \<and> hdr s4 = hdr s"
proof -
  note b = assms(1) [unfolded rbuf_def]
  define hp where "hp = heap s @ [area s @ drop (data_sz s) bf]"
  have cp: "copy_to (Some k) (prdbuf s) (data_sz s) (s\<lparr>heap := heap s @ [bf]\<rparr>) = Some (s\<lparr>heap := hp\<rparr>)"
    using b assms(3,4)
    by (auto simp: copy_to_def buf_def hp_def k_def nth_append rlog_def area_def list_update_append)
  define s3 where "s3 = give_up e j (s\<lparr>heap := hp\<rparr>)"
  have off: "off \<le> length (heap s ! b)" using b by linarith
  have "s3 = (give_up e j s)\<lparr>heap := hp\<rparr>"
    by (simp add: s3_def give_up_def send_and_reset_def send_db_array_def reset_buf_def dealloc_def count_def Let_def)
  moreover note g = give_up_fields [OF assms(1,2) off, where e = e and j = j]
  ultimately have s3: "heap s3 = hp" "rd_data s3 = 0" "pdirbuf s3 = None" "dbonearr s3 = []" "pbufstart s3 = None"
      "s3\<lparr>heap := heap s\<rparr> = give_up e j s" "conn s3 = conn s" "rd_requests s3 = rd_requests s" "hdr s3 = hdr s"
    by (simp_all add: g(1) [symmetric])
  have "rlog st (s3\<lparr>heap := heap s\<rparr>)" unfolding s3(6) by (rule g(12) [OF assms(3)])
  from use_last_buf [OF s3(1) [unfolded hp_def] s3(2-5) this, of dst]
  obtain s4 where "use_buf k (length (area s)) s3 = Some (RX_OK s4)" "rbuf s4 k 0" "rarr True dst s4 k 0"
      "rlog st s4" "area s4 = area s" "dbonearr s4 = []"
      "max_buf_sz s4 = length (area s @ drop (data_sz s) bf)" "conn s4 = conn s3"
      "rd_requests s4 = rd_requests s3" "hdr s4 = hdr s3"
    unfolding k_def by blast
  then show ?thesis
    using cp s3 area_length [OF assms(1)] assms(4) unfolding s3_def
    by (intro exI [of _ "s\<lparr>heap := hp\<rparr>"] exI [of _ s4]) simp
qed

section \<open>The parts of a round\<close>

definition rinv :: "bool \<Rightarrow> 'd \<Rightarrow> ('d, 'c) RECV \<Rightarrow> nat \<Rightarrow> nat \<Rightarrow> bool" where
  "rinv st dst s b off \<longleftrightarrow> rbuf s b off \<and> rarr st dst s b off \<and> rlog st s \<and> length (dbonearr s) < MAX_DBONE"

lemma rinvD:
  assumes "rinv st dst s b off"
  shows "rbuf s b off" "rarr st dst s b off" "rlog st s" "length (dbonearr s) < MAX_DBONE"
  using assms by (simp_all add: rinv_def)

lemma rinv_hdr [simp]: "rinv st dst (s\<lparr>hdr := h\<rparr>) b off = rinv st dst s b off"
  by (simp add: rinv_def rbuf_def rarr_def rlog_def handed_def)

lemma area_hdr [simp]: "area (s\<lparr>hdr := h\<rparr>) = area s"
  by (simp add: area_def split: option.split)

lemma rd_slice: "a + k \<le> n \<Longrightarrow> p + n \<le> length m \<Longrightarrow> rd (take n (drop p m)) a k = rd m (p + a) k"
  by (simp add: rd_def rdv_def take_drop min_def ac_simps)

lemma header_members [gy_size]:
  "cmember COMM_HEADER_fields ''magic_'' = (0, 4)"
  "cmember COMM_HEADER_fields ''total_sz_'' = (4, 4)"
  "cmember COMM_HEADER_fields ''data_type_'' = (8, 4)"
  "cmember COMM_HEADER_fields ''padding_sz_'' = (12, 4)"
  by code_simp+

lemma load_header_slice:
  assumes "16 \<le> n" and "p + n \<le> length m"
  shows "load_header (take n (drop p m)) 0 = load_header m p"
  using assms by (simp add: load_header_def fld_def gy_size rd_slice)

lemma load_header_in: "p + 16 \<le> length m \<Longrightarrow> \<exists>h. load_header m p = Some h"
  by (simp add: load_header_def fld_def gy_size rd_def)

lemma load_header_area:
  assumes "rbuf s b off" and "16 \<le> data_sz s"
  shows "load_header (heap s ! b) off = load_header (area s) 0"
  unfolding area_eq [OF assms(1)]
  using assms load_header_slice [of "data_sz s" off "heap s ! b"] by (simp add: rbuf_def)

lemma validate_hdr_aligned: "8 dvd off \<Longrightarrow> validate_hdr h off mg = validate_hdr h 0 mg"
  by (simp add: validate_hdr_iff)

text \<open>The total size that \<open>recv_hdr\<close> finds.\<close>

lemma recv_hdr_short:
  assumes "data_sz s < 16"
  shows "recv_hdr e s = Some (RX_OK (s\<lparr>hdr := (hdr s)\<lparr>total_sz := 16\<rparr>\<rparr>))"
  using assms by (simp add: recv_hdr_def)

lemma recv_hdr_full:
  assumes "rbuf s b off" and "16 \<le> data_sz s" and "load_header (area s) 0 = Some h"
  shows "recv_hdr e s = Some (if validate_hdr h 0 (comm_magic e) then RX_OK (s\<lparr>hdr := h\<rparr>)
    else RX_EXC (count ''Invalid Message Error'' (s\<lparr>hdr := h\<rparr>)))"
  using assms load_header_area [OF assms(1,2)] validate_hdr_aligned [of off h "comm_magic e"]
  by (simp add: recv_hdr_def rbuf_def buf_def Let_def)

definition pool_ok :: "('d, 'c) ENV \<Rightarrow> bool" where
  "pool_ok e \<longleftrightarrow> (\<forall>k n. n \<le> length (safe_malloc e k n))"

lemma recv_grow_inv:
  assumes "rinv st dst s b off" and "pool_ok e"
  shows "\<exists>s' b' off'. recv_grow e s = Some (RX_OK s') \<and> rinv st dst s' b' off' \<and> area s' = area s \<and>
    conn s' = conn s \<and> rd_requests s' = rd_requests s \<and> hdr s' = hdr s \<and> hdr_total s' \<le> max_buf_sz s' \<and>
    (data_sz s' < hdr_total s' \<longrightarrow> dbonearr s' = [])"
proof (cases "data_sz s < hdr_total s \<and> length (dbonearr s) > 0 \<or> max_buf_sz s < hdr_total s")
  case True
  note i = rinvD [OF assms(1)]
  define n where "n = max 4096 (max (hdr_total s) (data_sz s))"
  define bf where "bf = safe_malloc e (length (heap s)) n"
  have "n \<le> length bf" using assms(2) by (simp add: bf_def pool_ok_def)
  then have bf: "data_sz s \<le> length bf" "hdr_total s \<le> length bf" by (simp_all add: n_def)
  obtain s2 s4 where s: "copy_to (Some (length (heap s))) (prdbuf s) (data_sz s) (s\<lparr>heap := heap s @ [bf]\<rparr>) = Some s2"
      "use_buf (length (heap s)) (data_sz s) (give_up e False s2) = Some (RX_OK s4)" "dbonearr s2 = dbonearr s"
      "rbuf s4 (length (heap s)) 0" "rarr True dst s4 (length (heap s)) 0" "rlog st s4" "area s4 = area s"
      "dbonearr s4 = []" "max_buf_sz s4 = length bf" "conn s4 = conn s" "rd_requests s4 = rd_requests s"
      "hdr s4 = hdr s"
    using rebuf [OF i(1-3) bf(1), of e False] by blast
  have "recv_grow e s = Some (RX_OK s4)"
    using True s(1-3) by (simp add: recv_grow_def alloc_def give_up_def n_def bf_def Let_def)
  moreover have "rinv st dst s4 (length (heap s)) 0" using s by (auto simp: rinv_def rarr_def)
  ultimately show ?thesis using s bf(2)
    by (intro exI [of _ s4] exI [of _ "length (heap s)"] exI [of _ 0]) simp
next
  case False
  then show ?thesis using assms(1) by (intro exI [of _ s] exI [of _ b] exI [of _ off]) (auto simp: recv_grow_def)
qed

lemma recv_move_inv:
  assumes "rinv st dst s b off" and "dbonearr s = []"
  shows "\<exists>s'. recv_move s = Some s' \<and> rinv st dst s' b 0 \<and> area s' = area s \<and> dbonearr s' = [] \<and>
    conn s' = conn s \<and> rd_requests s' = rd_requests s \<and> hdr s' = hdr s \<and> data_sz s' = data_sz s \<and>
    max_buf_sz s' = rd_max s \<and> rd_data s' = data_sz s"
proof -
  note i = rinvD [OF assms(1)]
  note b = i(1) [unfolded rbuf_def]
  define m where "m = area s @ drop (data_sz s) (heap s ! b)"
  define s' where "s' = set_variables (s\<lparr>heap := (heap s)[b := m], rd_data := data_sz s\<rparr>)"
  have "recv_move s = Some s'" using b
    by (auto simp: recv_move_def copy_to_def buf_def s'_def m_def area_def)
  moreover have len: "length m = rd_max s" using b area_length [OF i(1)] by (simp add: m_def)
  moreover have "entry_bytes ((heap s)[b := m]) x = entry_bytes (heap s) x"
      if "x \<in> set (sent_arr y)" "y \<in> set (sent s)" for x y
    using that i(3) b by (auto simp: entry_bytes_def rlog_def sent_fine_def nth_list_update)
  then have "handed s' = handed s" using assms(2) by (simp add: handed_def s'_def set_variables_def)
  moreover have "sent_fine ((heap s)[b := m]) (released s) x" if "x \<in> set (sent s)" for x
    by (rule sent_fine_mono [of "heap s" "released s"])
      (use that i(3) len b in \<open>auto simp: rlog_def nth_list_update\<close>)
  ultimately have "rlog st s'" using i(3) by (simp add: rlog_def s'_def set_variables_def)
  moreover have "rbuf s' b 0" using b len by (simp add: rbuf_def s'_def set_variables_def)
  moreover have "area s' = area s" using b area_length [OF i(1)]
    by (subst area_def) (simp add: s'_def set_variables_def m_def)
  ultimately show ?thesis using \<open>recv_move s = Some s'\<close> b assms(2) i(2)
    by (intro exI [of _ s']) (simp add: rinv_def rarr_def s'_def set_variables_def)
qed

lemma recv_advance_inv:
  assumes "rbuf s b off" and "rarr st dst s b (off + hdr_total s)" and "hdr_total s \<le> data_sz s" "0 < hdr_total s"
    and "8 dvd hdr_total s"
  shows "\<exists>s'. recv_advance s = Some (RX_OK s') \<and> rbuf s' b (off + hdr_total s) \<and>
    rarr st dst s' b (off + hdr_total s) \<and> area s' = drop (hdr_total s) (area s) \<and> rlog st' s' = rlog st' s \<and>
    dbonearr s' = dbonearr s \<and> conn s' = conn s \<and> rd_requests s' = rd_requests s"
proof -
  let ?t = "hdr_total s"
  define s' where "s' = s\<lparr>data_sz := data_sz s - ?t, max_buf_sz := max_buf_sz s - ?t, prdbuf := Some (b, off + ?t)\<rparr>"
  note b = assms(1) [unfolded rbuf_def]
  have "recv_advance s = Some (RX_OK s')" using b assms(3,4) by (simp add: recv_advance_def s'_def)
  moreover have "rbuf s' b (off + ?t)" using b assms(3,5) by (auto simp: rbuf_def s'_def)
  moreover have "area s' = drop ?t (area s)" using b
    by (simp add: area_eq [OF assms(1)] area_def s'_def drop_take ac_simps)
  moreover have "rarr st dst s' b (off + ?t) = rarr st dst s b (off + ?t)" "rlog st' s' = rlog st' s"
      "dbonearr s' = dbonearr s" "conn s' = conn s" "rd_requests s' = rd_requests s"
    by (simp_all add: s'_def rarr_def rlog_def handed_def)
  ultimately show ?thesis using assms(2) by blast
qed

text \<open>The buffer is gone, and nothing is left.\<close>

definition gone :: "('d, 'c) RECV \<Rightarrow> bool" where
  "gone s \<longleftrightarrow> pdirbuf s = None \<and> rd_data s = 0 \<and> data_sz s = 0 \<and> dbonearr s = [] \<and> pbufstart s = None"

text \<open>After a round that goes on: the rest of the bytes is in the buffer, or the buffer is gone because
  there are no more bytes to come.\<close>

definition after_round :: "bool \<Rightarrow> bool \<Rightarrow> 'd \<Rightarrow> ('d, 'c) RECV \<Rightarrow> mem \<Rightarrow> bool" where
  "after_round ag st dst s bs \<longleftrightarrow> ag \<and> bs = [] \<and> gone s \<or>
     (\<exists>b off. rinv st dst s b off \<and> area s = bs \<and> (bs = [] \<longrightarrow> 16 \<le> max_buf_sz s))"

lemma after_roundI:
  "rinv st dst s b off \<Longrightarrow> area s = bs \<Longrightarrow> (bs = [] \<Longrightarrow> 16 \<le> max_buf_sz s) \<Longrightarrow> after_round ag st dst s bs"
  by (auto simp: after_round_def)

text \<open>The part of \<open>recv_flush\<close> that sends the array and goes on in a new buffer.\<close>

lemma flush_new_buf:
  assumes "rbuf s b off" and "rarr st dst s b off" and "rlog st s" and "pool_ok e" and "dbonearr s \<noteq> []"
  defines "k \<equiv> length (heap s)"
  defines "s1 \<equiv> s\<lparr>heap := heap s @ [safe_malloc e k (if data_sz s > 4096 then data_sz s + 1024 else 4096)]\<rparr>"
  shows "\<exists>s2 s'. (if data_sz s > 0 then copy_to (Some k) (prdbuf s) (data_sz s) s1 else Some s1) = Some s2 \<and>
    use_buf k (data_sz s) (send_and_reset e False s2) = Some (RX_OK s') \<and> rlog st s' \<and> conn s' = conn s \<and>
    data_sz s' = data_sz s \<and> rd_requests s' = rd_requests s \<and> after_round ag st dst s' (area s)"
proof -
  note b = assms(1) [unfolded rbuf_def]
  define n where "n = (if data_sz s > 4096 then data_sz s + 1024 else 4096)"
  define bf where "bf = safe_malloc e k n"
  have s1: "s1 = s\<lparr>heap := heap s @ [bf]\<rparr>" by (simp add: s1_def bf_def n_def)
  have "n \<le> length bf" using assms(4) by (simp add: bf_def pool_ok_def)
  then have bf: "data_sz s \<le> length bf" "16 \<le> length bf" by (simp_all add: n_def split: if_splits)
  obtain s2 s4 where s: "copy_to (Some k) (prdbuf s) (data_sz s) s1 = Some s2"
      "use_buf k (data_sz s) (give_up e False s2) = Some (RX_OK s4)" "dbonearr s2 = dbonearr s"
      "rbuf s4 k 0" "rarr True dst s4 k 0" "rlog st s4" "area s4 = area s"
      "dbonearr s4 = []" "max_buf_sz s4 = length bf" "conn s4 = conn s" "rd_requests s4 = rd_requests s"
    using rebuf [OF assms(1-3) bf(1), of e False] unfolding k_def s1 by blast
  have "s2 = s1" if "data_sz s = 0"
    using s(1) that b assms(3) by (auto simp: copy_to_def buf_def rlog_def k_def s1 split: if_splits)
  then have "(if data_sz s > 0 then copy_to (Some k) (prdbuf s) (data_sz s) s1 else Some s1) = Some s2"
    using s(1) by simp
  moreover have "give_up e False s2 = send_and_reset e False s2" using assms(5) s(3) by (simp add: give_up_def)
  moreover have "rinv st dst s4 k 0" using s(4-6,8) by (auto simp: rinv_def rarr_def)
  then have "after_round ag st dst s4 (area s)" by (rule after_roundI) (use s(7,9) bf(2) in simp_all)
  ultimately show ?thesis using s use_buf_OK [OF s(2)] by (intro exI [of _ s2] exI [of _ s4]) simp
qed

lemma recv_flush_inv:
  assumes "rbuf s b off" and "rarr st dst s b off" and "rlog st s" and "length (dbonearr s) \<le> MAX_DBONE"
    and "pool_ok e" and "16 \<le> off"
  shows "\<exists>s'. recv_flush e ag s = Some (RX_OK s') \<and> rlog st s' \<and> conn s' = conn s \<and> data_sz s' = data_sz s \<and>
    rd_requests s' = rd_requests s \<and> after_round ag st dst s' (area s)"
proof -
  note b = assms(1) [unfolded rbuf_def]
  have nil: "area s = [] \<longleftrightarrow> data_sz s = 0" using area_length [OF assms(1)] by auto
  let ?no_room = "max_buf_sz s - data_sz s < COMM_HEADER_SZ"
  let ?full = "length (dbonearr s) = MAX_DBONE \<or> length (dbonearr s) > 0 \<and> ?no_room"
  let ?new = "\<not> ag \<or> data_sz s > 0 \<or> ?no_room \<and> max_buf_sz s > 0"
  consider (new) ?full ?new | (send) ?full "\<not> ?new"
    | (move) "length (dbonearr s) < MAX_DBONE" "dbonearr s = []" "data_sz s \<noteq> rd_data s" "?no_room"
    | (stay) "length (dbonearr s) < MAX_DBONE" "\<not> ?no_room"
    using b assms(4,6) by fastforce
  then show ?thesis
  proof cases
    case new
    then have "dbonearr s \<noteq> []" by auto
    from flush_new_buf [OF assms(1-3,5) this, of ag] show ?thesis
      unfolding recv_flush_def Let_def if_P [OF new(1)] if_P [OF new(2)] alloc_def prod.case by fastforce
  next
    case send
    have "off \<le> length (heap s ! b)" using b by linarith
    note g = give_up_fields [OF assms(1,2) this, where e = e and j = False]
    have "recv_flush e ag s = Some (RX_OK (give_up e False s))" using send
      by (auto simp: recv_flush_def give_up_def Let_def)
    then show ?thesis using send g g(12) [OF assms(3)] nil
      by (intro exI [of _ "give_up e False s"]) (simp add: gone_def after_round_def)
  next
    case move
    have i: "rinv st dst s b off" using assms(1-3) move(1) by (simp add: rinv_def)
    obtain s' where s': "recv_move s = Some s'" "rinv st dst s' b 0" "area s' = area s" "conn s' = conn s"
        "rd_requests s' = rd_requests s" "data_sz s' = data_sz s" "max_buf_sz s' = rd_max s"
      using recv_move_inv [OF i move(2)] by blast
    have "after_round ag st dst s' (area s)" by (rule after_roundI [OF s'(2,3)]) (use b assms(6) s'(7) in simp)
    then show ?thesis using s' move rinvD(3) [OF s'(2)] by (simp add: recv_flush_def Let_def)
  next
    case stay
    have "rinv st dst s b off" using assms(1-3) stay(1) by (simp add: rinv_def)
    then have "after_round ag st dst s (area s)" by (rule after_roundI) (use stay nil in simp_all)
    then show ?thesis using stay assms(3) by (simp add: recv_flush_def Let_def)
  qed
qed

section \<open>The dispatch, as the loop sees it\<close>

definition env_ok ::
  "('c \<Rightarrow> COMM_HEADER \<Rightarrow> mem \<Rightarrow> nat \<Rightarrow> ('d RX_ACTION \<times> stats_upd \<times> 'c \<times> mem) option) \<Rightarrow> 32 word \<Rightarrow> 'd \<Rightarrow>
   ('d, 'c) ENV \<Rightarrow> bool" where
  "env_ok disp mg own e \<longleftrightarrow> dispatch e = disp \<and> comm_magic e = mg \<and> ttype_rd e = own \<and> pool_ok e"

lemma rarr_mono: "rarr st dst s b off \<Longrightarrow> off \<le> off' \<Longrightarrow> rarr st dst s b off'"
  by (cases st) (auto simp: rarr_def intro: order_trans)

text \<open>A message that is to go to the same threads as the array is added to it.\<close>

lemma schedule_same:
  assumes "rbuf s b off" and "rarr st dst s b off" and "length (dbonearr s) < MAX_DBONE"
    and "dst \<noteq> ttype_rd e" and "n \<le> data_sz s"
  shows "\<exists>s'. schedule_db_array e (b, off) n t dst j s = Some (RX_OK s') \<and> rbuf s' b off \<and>
    rarr st dst s' b (off + n) \<and> length (dbonearr s') \<le> MAX_DBONE \<and> hdr s' = hdr s \<and> data_sz s' = data_sz s \<and>
    conn s' = conn s \<and> rd_requests s' = rd_requests s \<and> area s' = area s \<and> heap s' = heap s \<and>
    released s' = released s \<and> sent s' = sent s \<and> handed s' = handed s @ [take n (drop off (heap s ! b))]"
proof -
  note b = assms(1) [unfolded rbuf_def]
  let ?x = "\<lparr>pwrbuf = (b, off), wrlen = n, wr_type = t\<rparr>"
  define s' where "s' = s\<lparr>dbonearr := dbonearr s @ [?x], pbufstart := Some b, dest_thr_type := dst\<rparr>"
  have "schedule_db_array e (b, off) n t dst j s = Some (RX_OK s')"
    using assms(2-4) b by (auto simp: schedule_db_array_def rarr_def s'_def)
  moreover have "rarr st dst s' b (off + n)"
    using rarr_mono [OF assms(2), of "off + n"] b assms(5) by (cases st) (auto simp: rarr_def s'_def)
  moreover have "rbuf s' b off" using b by (simp add: rbuf_def s'_def)
  moreover have "area s' = area s" using b by (simp add: area_def s'_def)
  moreover have "handed s' = handed s @ [take n (drop off (heap s ! b))]"
    by (simp add: handed_def s'_def entry_bytes_def)
  ultimately show ?thesis using assms(3) by (intro exI [of _ s']) (simp add: s'_def)
qed

lemma dispatch_mem:
  fixes s :: "('d, 'c) RECV" and c :: 'c and sm :: stats_upd and rq :: "(mem \<times> 'd RX_ACTION \<times> mem) list"
  assumes "rinv st dst s b off" and "same_off (heap s ! b) m' off (off + n)"
  defines "s1 \<equiv> s\<lparr>heap := (heap s)[b := m'], conn := c, statsmap := sm, rd_requests := rq\<rparr>"
  shows "rbuf s1 b off" "rarr st dst s1 b off" "n \<le> data_sz s \<Longrightarrow> drop n (area s1) = drop n (area s)"
    "st \<Longrightarrow> handed s1 = handed s" "\<forall>x\<in>set (sent s1). sent_fine (heap s1) (released s1) x"
proof -
  note i = rinvD [OF assms(1)]
  note b = i(1) [unfolded rbuf_def]
  have len: "length m' = length (heap s ! b)" using assms(2) by (rule same_off_len)
  show rb: "rbuf s1 b off" using b len by (simp add: rbuf_def s1_def)
  show "rarr st dst s1 b off" using i(2) len b by (cases st) (simp_all add: rarr_def s1_def)
  have "drop (off + n) m' = drop (off + n) (heap s ! b)"
    using assms(2) by (intro nth_equalityI) (auto simp: same_off_def)
  then show "drop n (area s1) = drop n (area s)" if "n \<le> data_sz s"
    unfolding area_eq [OF i(1)] area_eq [OF rb] using b
    by (simp add: s1_def drop_take add.commute)
  have "entry_bytes ((heap s)[b := m']) x = entry_bytes (heap s) x"
    if "x \<in> set (concat (map sent_arr (sent s)) @ dbonearr s)" "st" for x
  proof (cases "x \<in> set (dbonearr s)")
    case True
    then have x: "fst (pwrbuf x) = b" "snd (pwrbuf x) + wrlen x \<le> off" using i(2) that(2) by (auto simp: rarr_def)
    have "take (wrlen x) (drop (snd (pwrbuf x)) m') = take (wrlen x) (drop (snd (pwrbuf x)) (heap s ! b))"
      using assms(2) x(2) by (intro nth_equalityI) (auto simp: same_off_def)
    then show ?thesis using x b by (simp add: entry_bytes_def)
  next
    case False
    then have "fst (pwrbuf x) \<in> released s" using that(1) i(3) by (auto simp: rlog_def sent_fine_def)
    then have "fst (pwrbuf x) \<noteq> b" using b by auto
    then show ?thesis by (simp add: entry_bytes_def)
  qed
  then show "handed s1 = handed s" if st using that by (simp add: handed_def s1_def)
  show "\<forall>x\<in>set (sent s1). sent_fine (heap s1) (released s1) x"
  proof
    fix x assume "x \<in> set (sent s1)"
    then have "sent_fine (heap s) (released s) x" using i(3) by (simp add: rlog_def s1_def)
    then show "sent_fine (heap s1) (released s1) x"
      by (rule sent_fine_mono) (use b len in \<open>auto simp: s1_def nth_list_update\<close>)
  qed
qed

text \<open>The message after a dispatch that goes on: it is in the array if it is to be there.\<close>

definition dispatched ::
  "'d \<Rightarrow> ('c \<Rightarrow> bool) \<Rightarrow> bool \<Rightarrow> ('d, 'c) RECV \<Rightarrow> nat \<Rightarrow> nat \<Rightarrow> 'd RX_ACTION \<Rightarrow> mem \<Rightarrow> ('d, 'c) RECV \<Rightarrow> bool" where
  "dispatched dst cok st s b off a m s' \<longleftrightarrow> rbuf s' b off \<and> rarr st dst s' b (off + hdr_total s) \<and> rlog st s' \<and>
     length (dbonearr s') \<le> MAX_DBONE \<and> hdr s' = hdr s \<and> data_sz s' = data_sz s \<and> cok (conn s') \<and>
     drop (hdr_total s) (area s') = drop (hdr_total s) (area s) \<and>
     rd_requests s' = rd_requests s @ [(take (hdr_total s) (area s), a, m)] \<and>
     (a = RX_NEXT \<or> (\<exists>j. a = RX_SCHED dst j))"

text \<open>The messages given to the dispatch, and whether it refuses one: with
  these bytes in some buffer, and some connection, it does.\<close>

definition seen :: "('d, 'c) RECV \<Rightarrow> mem list" where
  "seen s = map fst (rd_requests s)"

type_synonym ('d, 'c) disp_fun =
  "'c \<Rightarrow> COMM_HEADER \<Rightarrow> mem \<Rightarrow> nat \<Rightarrow> ('d RX_ACTION \<times> stats_upd \<times> 'c \<times> mem) option"

definition refuses :: "('d, 'c) disp_fun \<Rightarrow> ('c \<Rightarrow> bool) \<Rightarrow> mem \<Rightarrow> 'd RX_ACTION \<Rightarrow> bool" where
  "refuses disp cok f a \<longleftrightarrow> (a = RX_THROW \<or> a = RX_CLOSE) \<and>
     (\<exists>c h m p st c' m'. cok c \<and> load_header m p = Some h \<and> msg_in h m p \<and>
        f = take (unat (total_sz h)) (drop p m) \<and> disp c h m p = Some (a, st, c', m'))"

text \<open>What the dispatch has decided about the last message it got.\<close>

definition last_decision :: "('d, 'c) RECV \<Rightarrow> 'd RX_ACTION" where
  "last_decision s = fst (snd (last (rd_requests s)))"

text \<open>Why the loop ends early: after the messages \<open>fs\<close> there is a bad header, or the dispatch has refused
  one of them, which is the last one it got, and none of those after it was touched.\<close>

definition stopped ::
  "('d, 'c) disp_fun \<Rightarrow> ('c \<Rightarrow> bool) \<Rightarrow> ('d, 'c) RECV \<Rightarrow> mem list \<Rightarrow> bool \<Rightarrow> ('d, 'c) RECV \<Rightarrow> bool" where
  "stopped disp cok s fs ok s' \<longleftrightarrow> \<not> ok \<and> seen s' = seen s @ fs \<or>
     (\<exists>n<length fs. seen s' = seen s @ take (Suc n) fs \<and> refuses disp cok (fs ! n) (last_decision s'))"

text \<open>An incomplete message waits at the start of its buffer, with room for more bytes.\<close>

definition waiting :: "bool \<Rightarrow> 'd \<Rightarrow> ('d, 'c) RECV \<Rightarrow> mem \<Rightarrow> bool" where
  "waiting st dst s bs \<longleftrightarrow>
     (\<exists>b. rinv st dst s b 0 \<and> area s = bs \<and> dbonearr s = [] \<and> data_sz s < max_buf_sz s)"

text \<open>The inner loop on bytes that split into the messages \<open>fs\<close> and the rest \<open>rest\<close>.\<close>

definition parsed ::
  "('d, 'c) disp_fun \<Rightarrow> ('c \<Rightarrow> bool) \<Rightarrow> 'd \<Rightarrow> bool \<Rightarrow> bool \<Rightarrow> ('d, 'c) RECV \<Rightarrow> mem list \<times> mem \<times> bool \<Rightarrow> ('d, 'c) RECV rx \<Rightarrow> bool" where
  "parsed disp cok dst ag st s x r = (case x of (fs, rest, ok) \<Rightarrow> case r of
       RX_OK s' \<Rightarrow> ok \<and> seen s' = seen s @ fs \<and> rlog st s' \<and> cok (conn s') \<and> data_sz s' = length rest \<and>
         (if rest = [] then after_round ag st dst s' [] else waiting st dst s' rest)
     | RX_BREAK s' \<Rightarrow> False
     | RX_EXC s' \<Rightarrow> stopped disp cok s fs ok s'
     | RX_RET s' \<Rightarrow> stopped disp cok s fs ok s')"

lemma parsed_Cons:
  assumes "parsed disp cok dst ag st s1 (fs, x) r" and "seen s1 = seen s @ [f]"
  shows "parsed disp cok dst ag st s (f # fs, x) r"
proof -
  have "stopped disp cok s (f # fs) ok s'" if "stopped disp cok s1 fs ok s'" for ok s'
  proof -
    have "\<exists>k<length (f # fs). seen s' = seen s @ take (Suc k) (f # fs) \<and> refuses disp cok ((f # fs) ! k) (last_decision s')"
      if "n < length fs" "seen s' = seen s1 @ take (Suc n) fs" "refuses disp cok (fs ! n) (last_decision s')" for n
      by (rule exI [of _ "Suc n"]) (use that assms(2) in auto)
    then show ?thesis using that assms(2) unfolding stopped_def by (elim disjE exE conjE) auto
  qed
  then show ?thesis using assms by (auto simp: parsed_def split: rx.splits prod.splits)
qed

lemma split_frames_append_aux:
  assumes "split_frames mg a = (fs, r, ok)"
  shows "split_frames mg (a @ c) =
    (if ok then let (gs, x) = split_frames mg (r @ c) in (fs @ gs, x) else (fs, r @ c, False))"
  using assms
proof (induction mg a arbitrary: fs rule: split_frames.induct)
  case (1 mg bs)
  show ?case
  proof (cases "length bs < 16")
    case True
    then show ?thesis using 1(2) by (auto simp: split_frames.simps [of mg bs] Let_def split_beta)
  next
    case False
    then obtain h where h: "load_header bs 0 = Some h" using load_header_in [of 0 bs] by auto
    let ?n = "unat (total_sz h)"
    have h': "load_header (bs @ c) 0 = Some h"
      using load_header_slice [of "length bs" 0 "bs @ c"] False h by simp
    consider (bad) "\<not> validate_hdr h 0 mg" | (part) "validate_hdr h 0 mg" "length bs < ?n"
      | (full) "validate_hdr h 0 mg" "\<not> length bs < ?n" by blast
    then show ?thesis
    proof cases
      case bad
      then have "split_frames mg (bs @ c) = ([], bs @ c, False)" using False h' by (subst split_frames.simps) simp
      moreover have "fs = []" "r = bs" "\<not> ok" using 1(2) bad False h by (auto simp: split_frames.simps [of mg bs])
      ultimately show ?thesis by simp
    next
      case part
      then have "fs = []" "r = bs" ok using 1(2) False h by (auto simp: split_frames.simps [of mg bs])
      then show ?thesis by (simp add: split_beta Let_def)
    next
      case full
      then obtain gs where gs: "split_frames mg (drop ?n bs) = (gs, r, ok)" "fs = take ?n bs # gs"
        using 1(2) False h by (auto simp: split_frames.simps [of mg bs] split: prod.splits)
      show ?thesis using 1(1) [OF _ h _ full(2) gs(1)] False full h' gs(2)
        by (simp add: split_frames.simps [of mg "bs @ c"] split_beta Let_def)
    qed
  qed
qed

lemma split_frames_append:
  "split_frames mg a = (fs, r, True) \<Longrightarrow>
   split_frames mg (a @ c) = (let (gs, x) = split_frames mg (r @ c) in (fs @ gs, x))"
  by (simp add: split_frames_append_aux)

lemma split_frames_prefix: "set (fst (split_frames mg a)) \<subseteq> set (fst (split_frames mg (a @ c)))"
proof -
  obtain fs r ok where "split_frames mg a = (fs, r, ok)" by (rule prod_cases3)
  then show ?thesis by (simp add: split_frames_append_aux split_beta Let_def)
qed

lemma split_frames_rest: "split_frames mg a = (fs, r, True) \<Longrightarrow> split_frames mg r = ([], r, True)"
proof (induction mg a arbitrary: fs rule: split_frames.induct)
  case (1 mg bs)
  show ?case
  proof (cases "length bs < 16")
    case True
    then have "r = bs" "fs = []" using 1(2) by (auto simp: split_frames.simps [of mg bs])
    then show ?thesis using 1(2) by simp
  next
    case False
    then obtain h where h: "load_header bs 0 = Some h" using load_header_in [of 0 bs] by auto
    have v: "validate_hdr h 0 mg" using 1(2) False h by (simp add: split_frames.simps [of mg bs] split: if_splits)
    show ?thesis
    proof (cases "length bs < unat (total_sz h)")
      case True
      then have "r = bs" "fs = []" using 1(2) False h v by (auto simp: split_frames.simps [of mg bs])
      then show ?thesis using 1(2) by simp
    next
      case full: False
      then obtain gs where gs: "split_frames mg (drop (unat (total_sz h)) bs) = (gs, r, True)"
        using 1(2) False h v by (auto simp: split_frames.simps [of mg bs] split: prod.splits)
      show ?thesis by (rule 1(1) [OF _ h _ full gs]) (use False v in simp_all)
    qed
  qed
qed

text \<open>Between two calls: nothing is in the array, and the buffer, if there is one, starts with the bytes
  \<open>bs\<close> of an incomplete message.\<close>

definition idle :: "'d \<Rightarrow> ('d, 'c) RECV \<Rightarrow> mem \<Rightarrow> bool" where
  "idle dst s bs \<longleftrightarrow> rlog True s \<and> dbonearr s = [] \<and> pbufstart s = None \<and>
     (pdirbuf s = None \<and> rd_data s = 0 \<and> bs = [] \<or> waiting True dst (set_variables s) bs)"

text \<open>The number of bytes that fit in, so that a shorter read ends the call.\<close>

definition room :: "('d, 'c) ENV \<Rightarrow> ('d, 'c) RECV \<Rightarrow> nat" where
  "room e s = (case pdirbuf s of
       None \<Rightarrow> length (safe_malloc e (length (heap s)) 4096)
     | Some _ \<Rightarrow> rd_max s - rd_data s)"

lemma use_buf_set_buf:
  "use_buf b n s = Some (RX_OK s4) \<longleftrightarrow> (\<exists>s'. set_buf b (act_size s b) n s = RX_OK s' \<and> s4 = set_variables s')"
  by (auto simp: use_buf_def rx_then_OK)

lemma set_variables_fields [simp]:
  "conn (set_variables s) = conn s" "rd_requests (set_variables s) = rd_requests s" "rd_max (set_variables s) = rd_max s"
  "rd_data (set_variables s) = rd_data s" "max_buf_sz (set_variables s) = rd_max s" "hdr (set_variables s) = hdr s"
  "data_sz (set_variables s) = rd_data s" "dbonearr (set_variables s) = dbonearr s" "sent (set_variables s) = sent s"
  "heap (set_variables s) = heap s" "released (set_variables s) = released s" "pdirbuf (set_variables s) = pdirbuf s"
  "pending_sz (set_variables s) = pending_sz s"
  by (simp_all add: set_variables_def)

lemma waiting_cong:
  assumes "waiting st dst s bs" and "heap s' = heap s" "released s' = released s" "pdirbuf s' = pdirbuf s"
    "rd_max s' = rd_max s" "rd_data s' = rd_data s" "prdbuf s' = prdbuf s" "max_buf_sz s' = max_buf_sz s"
    "data_sz s' = data_sz s" "dbonearr s' = []" "pbufstart s' = None" "sent s' = sent s"
    "rd_requests s' = rd_requests s"
  shows "waiting st dst s' bs"
proof -
  have "area s' = area s" using assms(2-13) by (simp add: area_def split: option.split)
  moreover have "handed s' = handed s" if "dbonearr s = []" using assms that by (simp add: handed_def)
  ultimately show ?thesis using assms by (auto simp: waiting_def rinv_def rbuf_def rarr_def rlog_def)
qed

lemma recv_start_idle:
  assumes "idle dst s bs" and "pool_ok e"
  shows "\<exists>s'. recv_start e s = Some (RX_OK s') \<and> waiting True dst (set_variables s') bs \<and> conn s' = conn s \<and>
    rd_requests s' = rd_requests s \<and> rd_max s' - rd_data s' = room e s"
proof -
  define s1 where "s1 = s\<lparr>dbonearr := [], pbufstart := None, dest_thr_type := ttype_misc e,
                 hdr := snd (set_type_len empty_header COMM_MIN_TYPE 0 INV_HDR_MAGIC)\<rparr>"
  note i = assms(1) [unfolded idle_def]
  show ?thesis
  proof (cases "pdirbuf s")
    case None
    define bf where "bf = safe_malloc e (length (heap s)) 4096"
    define s2 where "s2 = s1\<lparr>heap := heap s @ [[] @ bf]\<rparr>"
    have bf: "4096 \<le> length bf" using assms(2) by (simp add: bf_def pool_ok_def)
    have nil: "rd_data s = 0 \<and> bs = []" using i None by (auto simp: waiting_def rinv_def rbuf_def)
    have "rlog True (s2\<lparr>heap := heap s\<rparr>)" using i by (auto simp: rlog_def handed_def s2_def s1_def)
    then obtain s4 where s4: "use_buf (length (heap s)) (length ([] :: mem)) s2 = Some (RX_OK s4)" "rbuf s4 (length (heap s)) 0"
      "rarr True dst s4 (length (heap s)) 0" "rlog True s4" "area s4 = []" "dbonearr s4 = []"
      "max_buf_sz s4 = length ([] @ bf)" "conn s4 = conn s2" "rd_requests s4 = rd_requests s2"
      using use_last_buf [of s2 "heap s" "[]" bf True dst] nil None by (auto simp: s2_def s1_def)
    then obtain s' where s': "set_buf (length (heap s)) (act_size s2 (length (heap s))) 0 s2 = RX_OK s'" "s4 = set_variables s'"
      by (auto simp: use_buf_set_buf)
    have "rd_max s' - rd_data s' = room e s"
      using s'(1) None by (auto simp: set_buf_def dealloc_def room_def act_size_def s2_def bf_def split: if_splits)
    moreover have "waiting True dst s4 []" using s4 bf area_length [OF s4(2)] by (auto simp: waiting_def rinv_def)
    moreover have "recv_start e s = Some (RX_OK s')"
      using None s'(1) by (simp add: recv_start_def alloc_def Let_def s1_def s2_def bf_def)
    ultimately show ?thesis using s'(2) s4(8,9) nil by (intro exI [of _ s']) (simp add: s2_def s1_def)
  next
    case (Some b)
    then have w: "waiting True dst (set_variables s) bs" using i by simp
    have "waiting True dst (set_variables s1) bs"
      by (rule waiting_cong [OF w]) (simp_all add: s1_def set_variables_def)
    then show ?thesis using Some by (intro exI [of _ s1]) (simp add: recv_start_def s1_def room_def Let_def)
  qed
qed

lemma recv_store_waiting:
  assumes "waiting st dst s bs" and "length new \<le> max_buf_sz s - data_sz s"
  shows "\<exists>s' b. recv_store new (s\<lparr>pending_sz := p\<rparr>) = Some s' \<and> rinv st dst s' b 0 \<and> area s' = bs @ new \<and>
    conn s' = conn s \<and> rd_requests s' = rd_requests s \<and> data_sz s' = data_sz s + length new"
proof -
  obtain b where w: "rinv st dst s b 0" "area s = bs" "dbonearr s = []" "data_sz s < max_buf_sz s"
    using assms(1) by (auto simp: waiting_def)
  note i = rinvD [OF w(1)]
  note b = i(1) [unfolded rbuf_def]
  let ?n = "data_sz s"
  have fits: "?n + length new \<le> max_buf_sz s" using assms(2) w(4) by linarith
  define m where "m = take ?n (heap s ! b) @ new @ drop (?n + length new) (heap s ! b)"
  define s' where "s' = s\<lparr>heap := (heap s)[b := m], rd_data := rd_data s + length new,
    data_sz := ?n + length new, pending_sz := p\<rparr>"
  have "recv_store new (s\<lparr>pending_sz := p\<rparr>) = Some s'"
    using b fits by (simp add: recv_store_def buf_def s'_def m_def Let_def)
  moreover have len: "length m = length (heap s ! b)" using b fits by (simp add: m_def)
  moreover have "area s' = bs @ new"
    unfolding w(2) [symmetric] area_eq [OF i(1)] using b by (subst area_def) (simp add: s'_def m_def)
  moreover have "entry_bytes ((heap s)[b := m]) x = entry_bytes (heap s) x"
      if "x \<in> set (sent_arr y)" "y \<in> set (sent s)" for x y
    using that i(3) b by (auto simp: entry_bytes_def rlog_def sent_fine_def nth_list_update)
  then have "handed s' = handed s" using w(3) by (simp add: handed_def s'_def)
  moreover have "sent_fine ((heap s)[b := m]) (released s) x" if "x \<in> set (sent s)" for x
    by (rule sent_fine_mono [of "heap s" "released s"])
      (use that i(3) len b in \<open>auto simp: rlog_def nth_list_update\<close>)
  ultimately show ?thesis using i b w(3) fits
    by (intro exI [of _ s'] exI [of _ b]) (simp add: rinv_def rbuf_def rarr_def rlog_def s'_def)
qed

lemma scope_exit_none: "pbufstart s = None \<Longrightarrow> dbonearr s = [] \<Longrightarrow> scope_exit s = s"
  by (simp add: scope_exit_def)

lemma idle_gone:
  assumes "rlog True s" and "pdirbuf s = None" "rd_data s = 0" "dbonearr s = []" "pbufstart s = None"
  shows "idle dst (scope_exit s) []"
  using assms by (simp add: idle_def scope_exit_none)

lemma recv_finish_idle:
  assumes "rlog True s" and "data_sz s = length rest" and "tot > 0"
    and "if rest = [] then after_round ag True dst s [] else waiting True dst s rest"
  shows "\<exists>s'. recv_finish e tot s = Some (RX_OK s') \<and> idle dst (scope_exit s') rest \<and> conn (scope_exit s') = conn s \<and>
    rd_requests (scope_exit s') = rd_requests s"
proof (cases "rest = []")
  case False
  then obtain b where w: "waiting True dst s rest" "rinv True dst s b 0" "dbonearr s = []"
    using assms(4) by (auto simp: waiting_def)
  note b = rinvD(1) [OF w(2), unfolded rbuf_def]
  define s' where "s' = s\<lparr>pending_sz := total_sz (hdr s) - of_nat (data_sz s)\<rparr>"
  have "recv_finish e tot s = Some (RX_OK s')" using w(3) False assms(2,3) by (simp add: recv_finish_def s'_def)
  moreover have pb: "pbufstart s = None" using rinvD(2) [OF w(2)] w(3) by (simp add: rarr_def)
  then have "scope_exit s' = s'" using w(3) by (intro scope_exit_none) (simp_all add: s'_def)
  moreover have "waiting True dst (set_variables s') rest"
    by (rule waiting_cong [OF w(1)]) (use b w(3) pb in \<open>simp_all add: s'_def set_variables_def\<close>)
  moreover have "rlog True s'" using assms(1) by (simp add: s'_def rlog_def handed_def)
  ultimately show ?thesis using w(3) pb by (intro exI [of _ s']) (simp add: idle_def s'_def)
next
  case True
  then have "after_round ag True dst s []" and sz: "data_sz s = 0" using assms(2,4) by simp_all
  then consider "gone s" | b off where "rinv True dst s b off" by (auto simp: after_round_def)
  then show ?thesis
  proof cases
    case 1
    let ?s = "reset_buf True s"
    have s: "recv_finish e tot s = Some (RX_OK ?s)" "rlog True ?s" "pbufstart ?s = None" "dbonearr ?s = []"
      using 1 sz assms(1) by (simp_all add: recv_finish_def gone_def rlog_def handed_def)
    have "idle dst (scope_exit ?s) []" by (rule idle_gone) (use s in simp_all)
    then show ?thesis using s True by (intro exI [of _ ?s]) (simp add: scope_exit_none)
  next
    case 2
    note i = rinvD [OF 2]
    let ?g = "give_up e False s"
    have "off \<le> length (heap s ! b)" using i(1) by (auto simp: rbuf_def)
    note g = give_up_fields [OF i(1,2) this, where e = e and j = False]
    define s' where "s' = (if length (dbonearr s) > 0 then reset_buf True ?g else ?g)"
    have s': "pdirbuf s' = None" "rd_data s' = 0" "dbonearr s' = []" "pbufstart s' = None"
        "rlog True s'" "conn s' = conn s" "rd_requests s' = rd_requests s"
      using g(1-11) g(12) [OF assms(1)] by (auto simp: s'_def rlog_def handed_def)
    moreover have "recv_finish e tot s = Some (RX_OK s')"
      using sz by (auto simp: recv_finish_def s'_def give_up_def)
    ultimately show ?thesis using True idle_gone [OF s'(5,1-4), of dst]
      by (intro exI [of _ s']) (simp add: scope_exit_none)
  qed
qed

text \<open>The calls of \<open>handle_recv\<close> for the pieces of a stream, each shorter than what fits in, as long as the
  connection stays open.\<close>

fun recv_calls :: "('d, 'c) ENV \<Rightarrow> nat \<Rightarrow> mem list \<Rightarrow> ('d, 'c) RECV \<Rightarrow> ('d, 'c) RECV option" where
  "recv_calls e n [] s = Some s"
| "recv_calls e n (bs # cs) s =
     (if bs \<noteq> [] \<and> length bs < room e s
      then (case handle_recv e n [SOCK_DATA bs] s of
              Some (left, RECV_BYTES k, s') \<Rightarrow> recv_calls e n cs s'
            | _ \<Rightarrow> None)
      else None)"

lemma recv_loop_piece:
  assumes "bs \<noteq> []" and "length bs < rd_max s - rd_data s"
  shows "\<exists>p. recv_loop e n pend 0 [SOCK_DATA bs] s = do {
     s1 \<leftarrow> recv_store bs ((set_variables s)\<lparr>pending_sz := p\<rparr>);
     r \<leftarrow> recv_parse e True s1;
     Some ([], length bs, r)
   }"
proof -
  show ?thesis
    by (rule exI [of _ "snd (if pend then pending_recv_seen (pending_sz s) (length bs) else (True, pending_sz s))"],
        subst recv_loop.simps)
      (use assms in \<open>auto simp: Let_def min_def split_beta intro!: Option.bind_cong split: rx.split\<close>)
qed

text \<open>A dispatch for connections on which nothing is scheduled but for the threads \<open>dst\<close>: on a complete
  message with a valid header it comes to a decision and changes nothing outside of the message.
  \<open>cok\<close> describes the connections, and \<open>fine\<close> the messages for which this holds.\<close>

section \<open>Arrays that a queue took\<close>

text \<open>The messages in the arrays that were put into a queue; the others were lost when the L1 thread freed
  their buffer.\<close>

definition delivered :: "('d, 'c) RECV \<Rightarrow> mem list" where
  "delivered s = map (entry_bytes (heap s)) (concat (map sent_arr (filter sent_ok (sent s))))"

text \<open>The log of the arrays says for each one whether a queue took it.\<close>

definition queue_log :: "('d, 'c) ENV \<Rightarrow> ('d, 'c) RECV \<Rightarrow> bool" where
  "queue_log e s \<longleftrightarrow> (\<forall>k<length (sent s). sent_ok (sent s ! k) = mpmc_write e k)"

lemma queue_log_all: "queue_log e s \<Longrightarrow> \<forall>k. mpmc_write e k \<Longrightarrow> filter sent_ok (sent s) = sent s"
  by (rule filter_True) (auto simp: queue_log_def in_set_conv_nth)

lemma queue_log_send: "queue_log e s \<Longrightarrow> queue_log e (snd (send_db_array e j s))"
  by (auto simp: queue_log_def sent_send nth_append less_Suc_eq)

lemma queue_log_send_reset: "queue_log e s \<Longrightarrow> queue_log e (send_and_reset e j s)"
  using queue_log_send [of e s j] by (simp add: send_and_reset_def queue_log_def)

fun rx_state :: "'s rx \<Rightarrow> 's" where
  "rx_state (RX_OK s) = s"
| "rx_state (RX_BREAK s) = s"
| "rx_state (RX_EXC s) = s"
| "rx_state (RX_RET s) = s"

definition keeps_log :: "('d, 'c) ENV \<Rightarrow> ('d, 'c) RECV rx option \<Rightarrow> bool" where
  "keeps_log e r \<longleftrightarrow> (\<forall>x. r = Some x \<longrightarrow> queue_log e (rx_state x))"

lemma keeps_log_simps [simp]: "keeps_log e None" "keeps_log e (Some x) = queue_log e (rx_state x)"
  by (simp_all add: keeps_log_def)

lemma keeps_log_then:
  assumes "keeps_log e r" and "\<And>s. queue_log e s \<Longrightarrow> keeps_log e (f s)"
  shows "keeps_log e (rx_then r f)"
proof (cases r)
  case (Some x)
  then show ?thesis using assms by (cases x) simp_all
qed simp

lemma keeps_log_bind:
  assumes "\<And>x. r = Some x \<Longrightarrow> keeps_log e (f x)"
  shows "keeps_log e (r \<bind> f)"
  using assms by (cases r) simp_all

lemma queue_log_copy: "copy_to d p n s = Some s' \<Longrightarrow> queue_log e s' = queue_log e s"
  by (auto simp: queue_log_def dest!: copy_to_Some)

lemma queue_log_upd [simp]:
  "queue_log e (count st s) = queue_log e s" "queue_log e (reset_buf d s) = queue_log e s"
  "queue_log e (set_variables s) = queue_log e s" "queue_log e (scope_exit s) = queue_log e s"
  "queue_log e (snd (alloc e' n s)) = queue_log e s" "queue_log e (rx_state (set_buf b mx n s)) = queue_log e s"
  by (simp_all add: queue_log_def set_variables_def scope_exit_def alloc_def set_buf_def dealloc_def Let_def)

lemma use_buf_log: "queue_log e s \<Longrightarrow> keeps_log e (use_buf b n s)"
  unfolding use_buf_def by (rule keeps_log_then) simp_all

lemma rebuf_log:
  assumes "queue_log e s" and "\<And>s'. queue_log e s' \<Longrightarrow> keeps_log e (g s')"
  shows "keeps_log e (copy_to d p n (snd (alloc e k s)) \<bind> g)"
  by (rule keeps_log_bind) (use assms queue_log_copy in fastforce)

lemma schedule_log:
  assumes "queue_log e s"
  shows "keeps_log e (schedule_db_array e p n t d j s)"
proof -
  have "keeps_log e (copy_to (Some (fst (alloc e k s))) (Some p) c (snd (alloc e k s)) \<bind>
      (\<lambda>s2. use_buf b c (send_and_reset e j s2)))" for k c b
    by (rule rebuf_log [OF assms]) (simp add: use_buf_log queue_log_send_reset)
  then show ?thesis using assms
    by (auto simp: schedule_db_array_def Let_def split_beta queue_log_def intro!: keeps_log_then [unfolded queue_log_def])
qed

lemma act_log: "queue_log e s \<Longrightarrow> keeps_log e (recv_act e p a s)"
  using queue_log_send
  by (cases a) (auto simp: recv_act_def split_beta Let_def schedule_log intro!: keeps_log_then)

lemma dispatch_log: "queue_log e s \<Longrightarrow> keeps_log e (recv_dispatch e s)"
  unfolding recv_dispatch_def
  by (intro keeps_log_bind) (auto simp: split_beta Let_def queue_log_def intro!: keeps_log_bind act_log [unfolded queue_log_def])

lemma move_log: "recv_move s = Some s' \<Longrightarrow> queue_log e s' = queue_log e s"
  by (auto simp: recv_move_def bind_eq_Some_conv queue_log_def set_variables_def dest!: copy_to_Some)

lemma step_parts_log:
  assumes "queue_log e s"
  shows "keeps_log e (recv_hdr e s)" "keeps_log e (recv_partial s)" "keeps_log e (recv_advance s)"
    "keeps_log e (recv_grow e s)" "keeps_log e (recv_flush e ag s)"
proof -
  have r: "keeps_log e (copy_to d p n (snd (alloc e k s)) \<bind> (\<lambda>s2. use_buf b c (send_and_reset e j s2)))"
      "keeps_log e (copy_to d p n (snd (alloc e k s)) \<bind>
         (\<lambda>s2. use_buf b c (if send then send_and_reset e j s2 else reset_buf True s2)))"
      "keeps_log e (use_buf b c (send_and_reset e j (snd (alloc e k s))))" for d p n k b c j send
    using assms by (auto intro!: rebuf_log use_buf_log queue_log_send_reset)
  show "keeps_log e (recv_hdr e s)"
    using assms by (auto simp: recv_hdr_def queue_log_def keeps_log_def bind_eq_Some_conv Let_def split: if_splits)
  show "keeps_log e (recv_partial s)"
    using assms by (auto simp: recv_partial_def keeps_log_def bind_eq_Some_conv move_log split: if_splits)
  show "keeps_log e (recv_advance s)" using assms by (auto simp: recv_advance_def queue_log_def)
  show "keeps_log e (recv_grow e s)" using assms r by (auto simp: recv_grow_def Let_def split_beta)
  have "keeps_log e (recv_move s \<bind> (\<lambda>s1. Some (RX_OK s1)))"
    by (rule keeps_log_bind) (use assms move_log in fastforce)
  then show "keeps_log e (recv_flush e ag s)"
    using assms r queue_log_send_reset [OF assms] by (auto simp: recv_flush_def Let_def split_beta)
qed

lemma step_log: "queue_log e s \<Longrightarrow> keeps_log e (recv_step e ag s)"
  unfolding recv_step_def by (auto intro!: keeps_log_then step_parts_log dispatch_log)

lemma parse_log: "queue_log e s \<Longrightarrow> keeps_log e (recv_parse e ag s)"
proof (induction e ag s rule: recv_parse.induct)
  case (1 e ag s)
  show ?case
  proof (cases "recv_step e ag s")
    case (Some r)
    then have "queue_log e (rx_state r)" using step_log [OF 1(2), of ag] by simp
    then show ?thesis using Some 1(1) by (cases r) (auto simp: recv_parse.simps [of e ag s])
  qed (simp add: recv_parse.simps)
qed

lemma finish_log:
  assumes "queue_log e s"
  shows "keeps_log e (recv_finish e n s)"
proof -
  have "keeps_log e (copy_to d p k (snd (alloc e c s)) \<bind>
      (\<lambda>s2. Some (set_buf b (act_size (send_and_reset e False s2) b) k (send_and_reset e False s2))))" for d p k c b
    by (rule rebuf_log [OF assms]) (simp add: queue_log_send_reset)
  then show ?thesis using assms queue_log_send_reset [OF assms]
    by (auto simp: recv_finish_def Let_def split_beta queue_log_def)
qed

text \<open>A call on one read.\<close>

lemma handle_recv_log:
  assumes "handle_recv e n [SOCK_DATA bs] s = Some (l, r, s')" and "queue_log e s" and "bs \<noteq> []" "length bs < room e s"
    and "idle dst s held" and "pool_ok e"
  shows "queue_log e s'"
proof -
  obtain s1 where s1: "recv_start e s = Some (RX_OK s1)" "rd_max s1 - rd_data s1 = room e s"
    using recv_start_idle [OF assms(5,6)] by blast
  have q1: "queue_log e s1"
    using s1(1) assms(2)
    by (auto simp: recv_start_def queue_log_def alloc_def set_buf_def dealloc_def Let_def split: option.splits if_splits)
  obtain p where lp: "recv_loop e n (pending_sz s \<noteq> 0) 0 [SOCK_DATA bs] s1 = do {
      s2 \<leftarrow> recv_store bs ((set_variables s1)\<lparr>pending_sz := p\<rparr>);
      x \<leftarrow> recv_parse e True s2;
      Some ([], length bs, x) }"
    using recv_loop_piece [OF assms(3), of s1 e n "pending_sz s \<noteq> 0"] assms(4) s1(2) by auto
  obtain s2 x y where s2: "recv_store bs ((set_variables s1)\<lparr>pending_sz := p\<rparr>) = Some s2" "recv_parse e True s2 = Some x"
      "rx_then (Some x) (recv_finish e (length bs)) = Some y" "recv_ret (length bs) y = (r, s')"
    using assms(1) s1(1) lp by (auto simp: handle_recv_def bind_eq_Some_conv)
  have "queue_log e s2" using s2(1) q1
    by (auto simp: recv_store_def bind_eq_Some_conv queue_log_def set_variables_def Let_def split: if_splits)
  from parse_log [OF this, of True] have "keeps_log e (Some x)" using s2(2) by simp
  then have "keeps_log e (rx_then (Some x) (recv_finish e (length bs)))"
    by (rule keeps_log_then) (rule finish_log)
  then have "queue_log e (rx_state y)" using s2(3) by simp
  then show ?thesis using s2(4) by (cases y) auto
qed

locale recv_disp =
  fixes disp :: "('d, 'c) disp_fun"
    and mg :: "32 word" and own dst :: 'd and cok :: "'c \<Rightarrow> bool" and fine :: "mem \<Rightarrow> bool"
  assumes own_array: "dst \<noteq> own"
    and disp_ok: "\<lbrakk>validate_hdr h p mg; msg_in h m p; load_header m p = Some h;
        fine (take (unat (total_sz h)) (drop p m)); cok c\<rbrakk> \<Longrightarrow>
      \<exists>a st c' m'. disp c h m p = Some (a, st, c', m') \<and> same_off m m' p (p + unat (total_sz h)) \<and> cok c' \<and>
        (a = RX_THROW \<or> a = RX_CLOSE \<or> a = RX_NEXT \<or> (\<exists>j. a = RX_SCHED dst j))"
begin

lemma recv_dispatch_inv:
  assumes "rinv st dst s b off" and "cok (conn s)" and "env_ok disp mg own e" and "validate_hdr (hdr s) off mg"
    and "load_header (heap s ! b) off = Some (hdr s)" and "hdr_total s \<le> data_sz s"
    and "fine (take (hdr_total s) (area s))"
  shows "\<exists>a m s'. (recv_dispatch e s = Some (RX_OK s') \<and> dispatched dst cok st s b off a m s') \<or>
    (recv_dispatch e s = Some (RX_EXC s') \<and> a = RX_THROW \<or> recv_dispatch e s = Some (RX_RET s') \<and> a = RX_CLOSE) \<and>
      refuses disp cok (take (hdr_total s) (area s)) a \<and>
      rd_requests s' = rd_requests s @ [(take (hdr_total s) (area s), a, m)]"
proof -
  note i = rinvD [OF assms(1)]
  note b = i(1) [unfolded rbuf_def]
  let ?n = "hdr_total s" and ?m = "heap s ! b"
  have msg: "take ?n (drop off ?m) = take ?n (area s)" using assms(6) by (simp add: area_eq [OF i(1)] min_def)
  have in_buf: "msg_in (hdr s) ?m off" using b assms(6) by (simp add: msg_in_def)
  from disp_ok [OF assms(4) this assms(5) _ assms(2)] obtain a st1 c m' where
    d: "disp (conn s) (hdr s) ?m off = Some (a, st1, c, m')" "same_off ?m m' off (off + ?n)" "cok c"
      "a = RX_THROW \<or> a = RX_CLOSE \<or> a = RX_NEXT \<or> (\<exists>j. a = RX_SCHED dst j)"
    using assms(7) msg by auto
  let ?x = "(take ?n (area s), a, take ?n (drop off m'))"
  define s1 where "s1 = s\<lparr>heap := (heap s)[b := m'], conn := c, statsmap := statsmap s @ st1,
    rd_requests := rd_requests s @ [?x]\<rparr>"
  note e = assms(3) [unfolded env_ok_def]
  have act: "recv_dispatch e s = recv_act e (b, off) a s1"
    using b d(1) e msg by (simp add: recv_dispatch_def buf_def s1_def)
  note m = dispatch_mem [OF assms(1) d(2), where c = c and sm = "statsmap s @ st1" and rq = "rd_requests s @ [?x]", folded s1_def]
  have s1: "dbonearr s1 = dbonearr s" "hdr s1 = hdr s" "data_sz s1 = data_sz s" "conn s1 = c"
      "rd_requests s1 = rd_requests s @ [?x]" "released s1 = released s" "length (heap s1) = length (heap s)"
      "pdirbuf s1 = pdirbuf s" "heap s1 ! b = m'" "max_buf_sz s1 = max_buf_sz s"
    using b by (simp_all add: s1_def)
  have rel: "released s1 \<subseteq> {..<length (heap s1)}" using i(3) by (simp add: rlog_def s1)
  have refuse: "refuses disp cok (take ?n (area s)) a" if "a = RX_THROW \<or> a = RX_CLOSE"
    unfolding refuses_def using that d(1) assms(2,5) msg in_buf by metis
  from d(4) consider "a = RX_THROW" | "a = RX_CLOSE" | (goes_on) "a = RX_NEXT" | (sched) j where "a = RX_SCHED dst j"
    by blast
  then show ?thesis
  proof cases
    case goes_on
    then have "dispatched dst cok st s b off a (take ?n (drop off m')) s1"
      using m i(3,4) d(3) rel assms(6) rarr_mono [OF m(2), of "off + ?n"]
      by (simp add: dispatched_def s1 rlog_def)
    then show ?thesis using act goes_on by (auto simp: recv_act_def)
  next
    case sched
    have "length (dbonearr s1) < MAX_DBONE" "dst \<noteq> ttype_rd e" "?n \<le> data_sz s1"
      using i(4) e own_array assms(6) by (simp_all add: s1)
    from schedule_same [OF m(1,2) this, of "data_type (hdr s)" j] obtain s' where
      s': "recv_act e (b, off) a s1 = Some (RX_OK s')" "rbuf s' b off" "rarr st dst s' b (off + ?n)"
        "length (dbonearr s') \<le> MAX_DBONE" "hdr s' = hdr s1" "data_sz s' = data_sz s1" "conn s' = conn s1"
        "rd_requests s' = rd_requests s1" "area s' = area s1" "heap s' = heap s1" "released s' = released s1"
        "sent s' = sent s1" "handed s' = handed s1 @ [take ?n (drop off m')]"
      using sched by (auto simp: recv_act_def s1)
    then have "dispatched dst cok st s b off a (take ?n (drop off m')) s'"
      using m(3-5) i(3) d(3) rel assms(6) sched by (simp add: dispatched_def s1 rlog_def)
    then show ?thesis using act s'(1) by auto
  qed (use act s1 refuse in \<open>auto simp: recv_act_def\<close>)
qed

text \<open>The three outcomes of a round: an incomplete message stays at the start of its buffer, a bad
  header closes the connection, and a complete message is dispatched.\<close>

lemma recv_step_partial:
  assumes "rinv st dst s b off" and "env_ok disp mg own e"
    and "data_sz s < 16 \<or> 16 \<le> data_sz s \<and> load_header (area s) 0 = Some h \<and> validate_hdr h 0 mg \<and>
         data_sz s < unat (total_sz h)"
  shows "\<exists>s' b'. recv_step e ag s = Some (RX_BREAK s') \<and> rinv st dst s' b' 0 \<and> area s' = area s \<and>
    dbonearr s' = [] \<and> data_sz s' < max_buf_sz s' \<and> conn s' = conn s \<and> rd_requests s' = rd_requests s"
proof -
  note i = rinvD [OF assms(1)] and e = assms(2) [unfolded env_ok_def]
  obtain h' where h': "recv_hdr e s = Some (RX_OK (s\<lparr>hdr := h'\<rparr>))" "data_sz s < unat (total_sz h')"
  proof (cases "data_sz s < 16")
    case True
    then show ?thesis using that [of "(hdr s)\<lparr>total_sz := 16\<rparr>"] by (simp add: recv_hdr_short)
  next
    case False
    then show ?thesis using that [of h] assms(3) recv_hdr_full [OF i(1), of h e] e by simp
  qed
  let ?s1 = "s\<lparr>hdr := h'\<rparr>"
  obtain s2 b2 off2 where s2: "recv_grow e ?s1 = Some (RX_OK s2)" "rinv st dst s2 b2 off2" "area s2 = area s"
      "conn s2 = conn s" "rd_requests s2 = rd_requests s" "hdr s2 = h'" "hdr_total s2 \<le> max_buf_sz s2"
      "data_sz s2 < hdr_total s2 \<longrightarrow> dbonearr s2 = []"
    using recv_grow_inv [of st dst ?s1 b off e] assms(1) e by auto
  note b2 = rinvD(1) [OF s2(2), unfolded rbuf_def]
  have sz: "data_sz s2 = data_sz s" using area_length [OF i(1)] area_length [OF rinvD(1) [OF s2(2)]] s2(3) by simp
  then have emp: "dbonearr s2 = []" "data_sz s2 < max_buf_sz s2" using s2(6-8) h'(2) by auto
  have step: "recv_step e ag s = recv_partial s2"
    using h' s2(1,6) sz by (simp add: recv_step_def)
  show ?thesis
  proof (cases "data_sz s2 = rd_data s2")
    case True
    then have "off2 = 0" using b2 by simp
    then show ?thesis using True step s2 emp by (intro exI [of _ s2]) (auto simp: recv_partial_def)
  next
    case False
    obtain s3 where s3: "recv_move s2 = Some s3" "rinv st dst s3 b2 0" "area s3 = area s2" "dbonearr s3 = []"
        "conn s3 = conn s2" "rd_requests s3 = rd_requests s2" "data_sz s3 = data_sz s2" "max_buf_sz s3 = rd_max s2"
      using recv_move_inv [OF s2(2) emp(1)] by blast
    have "data_sz s3 < max_buf_sz s3" using s3(7,8) emp(2) b2 by simp
    then show ?thesis using False step s2 s3 by (intro exI [of _ s3] exI [of _ b2]) (simp add: recv_partial_def)
  qed
qed

lemma recv_step_invalid:
  assumes "rinv st dst s b off" and "env_ok disp mg own e" and "16 \<le> data_sz s"
    and "load_header (area s) 0 = Some h" and "\<not> validate_hdr h 0 mg"
  shows "\<exists>s'. recv_step e ag s = Some (RX_EXC s') \<and> rd_requests s' = rd_requests s"
  using recv_hdr_full [OF rinvD(1) [OF assms(1)] assms(3,4), of e] assms(2,5)
  by (simp add: recv_step_def env_ok_def)

lemma recv_step_message:
  assumes "rinv st dst s b off" and "env_ok disp mg own e" and "cok (conn s)" and "16 \<le> data_sz s"
    and "load_header (area s) 0 = Some h" and "validate_hdr h 0 mg" and "unat (total_sz h) \<le> data_sz s"
    and "fine (take (unat (total_sz h)) (area s))"
  shows "\<exists>a m s'. rd_requests s' = rd_requests s @ [(take (unat (total_sz h)) (area s), a, m)] \<and>
    ((recv_step e ag s = Some (RX_EXC s') \<or> recv_step e ag s = Some (RX_RET s')) \<and>
       refuses disp cok (take (unat (total_sz h)) (area s)) a \<or>
     recv_step e ag s = Some (RX_OK s') \<and> rlog st s' \<and> cok (conn s') \<and>
       data_sz s' = data_sz s - unat (total_sz h) \<and>
       after_round ag st dst s' (drop (unat (total_sz h)) (area s)))"
proof -
  note i = rinvD [OF assms(1)] and e = assms(2) [unfolded env_ok_def]
  note b = i(1) [unfolded rbuf_def]
  let ?s1 = "s\<lparr>hdr := h\<rparr>" and ?n = "unat (total_sz h)"
  have n: "8 dvd ?n" "16 \<le> ?n" using assms(6) by (auto simp: validate_hdr_iff)
  have "recv_hdr e s = Some (RX_OK ?s1)" "recv_grow e ?s1 = Some (RX_OK ?s1)"
    using recv_hdr_full [OF i(1) assms(4,5), of e] assms(6,7) e b by (auto simp: recv_grow_def)
  then have step: "recv_step e ag s = rx_then (recv_dispatch e ?s1) (\<lambda>s. rx_then (recv_advance s) (recv_flush e ag))"
    using assms(7) by (simp add: recv_step_def)
  have "validate_hdr h off mg" "load_header (heap s ! b) off = Some h"
    using assms(4-6) b load_header_area [OF i(1) assms(4)] validate_hdr_aligned [of off h mg] by simp_all
  from recv_dispatch_inv [of st ?s1 b off e] this obtain a m s2 where
    "recv_dispatch e ?s1 = Some (RX_OK s2) \<and> dispatched dst cok st ?s1 b off a m s2 \<or>
     (recv_dispatch e ?s1 = Some (RX_EXC s2) \<or> recv_dispatch e ?s1 = Some (RX_RET s2)) \<and>
       refuses disp cok (take ?n (area s)) a \<and> rd_requests s2 = rd_requests s @ [(take ?n (area s), a, m)]"
    using assms(1-3,7,8) by auto
  then show ?thesis
  proof (elim disjE)
    assume "recv_dispatch e ?s1 = Some (RX_OK s2) \<and> dispatched dst cok st ?s1 b off a m s2"
    then have d: "recv_dispatch e ?s1 = Some (RX_OK s2)" and s2: "rbuf s2 b off" "rarr st dst s2 b (off + ?n)"
        "rlog st s2" "length (dbonearr s2) \<le> MAX_DBONE" "hdr s2 = h" "data_sz s2 = data_sz s" "cok (conn s2)"
        "drop ?n (area s2) = drop ?n (area s)" "rd_requests s2 = rd_requests s @ [(take ?n (area s), a, m)]"
      by (simp_all add: dispatched_def)
    obtain s3 where s3: "recv_advance s2 = Some (RX_OK s3)" "rbuf s3 b (off + ?n)" "rarr st dst s3 b (off + ?n)"
        "area s3 = drop ?n (area s)" "rlog st s3" "dbonearr s3 = dbonearr s2" "conn s3 = conn s2"
        "rd_requests s3 = rd_requests s2"
      using recv_advance_inv [OF s2(1), of st dst st] s2 n assms(7) by auto
    have sz: "data_sz s3 = data_sz s - ?n"
      using area_length [OF s3(2)] area_length [OF i(1)] s3(4) by simp
    have "length (dbonearr s3) \<le> MAX_DBONE" "pool_ok e" "16 \<le> off + ?n" using s2(4) s3(6) e n(2) by simp_all
    from recv_flush_inv [OF s3(2,3,5) this, of ag] obtain s' where
      f: "recv_flush e ag s3 = Some (RX_OK s')" "rlog st s'" "conn s' = conn s3" "data_sz s' = data_sz s3"
        "rd_requests s' = rd_requests s3" "after_round ag st dst s' (area s3)" by blast
    then have "recv_step e ag s = Some (RX_OK s')" using step d s3(1) by simp
    then show ?thesis using f s3 s2 sz by (intro exI [of _ a] exI [of _ m] exI [of _ s']) simp
  qed (use step in \<open>auto\<close>)
qed

text \<open>The induction step for a complete message.\<close>

lemma recv_parse_message:
  assumes "rinv st dst s b off" and "env_ok disp mg own e" and "cok (conn s)" and "16 \<le> data_sz s"
    and "load_header (area s) 0 = Some h" and "validate_hdr h 0 mg" and "unat (total_sz h) \<le> data_sz s"
    and "\<forall>f\<in>set (fst (split_frames mg (area s))). fine f"
    and rest: "\<And>s' b' off'. \<lbrakk>recv_step e ag s = Some (RX_OK s'); data_sz s' > 0; rinv st dst s' b' off'; cok (conn s');
        \<forall>f\<in>set (fst (split_frames mg (area s'))). fine f\<rbrakk> \<Longrightarrow>
      \<exists>r. recv_parse e ag s' = Some r \<and> parsed disp cok dst ag st s' (split_frames mg (area s')) r"
  shows "\<exists>r. recv_parse e ag s = Some r \<and> parsed disp cok dst ag st s (split_frames mg (area s)) r"
proof -
  let ?n = "unat (total_sz h)"
  have len: "length (area s) = data_sz s" by (rule area_length [OF rinvD(1) [OF assms(1)]])
  obtain fs x where x: "split_frames mg (drop ?n (area s)) = (fs, x)" by (rule prod.exhaust)
  then have sp: "split_frames mg (area s) = (take ?n (area s) # fs, x)"
    using len assms(4-7) by (subst split_frames.simps) simp
  then have "fine (take ?n (area s))" using assms(8) by simp
  from recv_step_message [OF assms(1-7) this, of ag] obtain a m s' where
    rq: "rd_requests s' = rd_requests s @ [(take ?n (area s), a, m)]" and
    "(recv_step e ag s = Some (RX_EXC s') \<or> recv_step e ag s = Some (RX_RET s')) \<and>
       refuses disp cok (take ?n (area s)) a \<or>
     recv_step e ag s = Some (RX_OK s') \<and> rlog st s' \<and> cok (conn s') \<and> data_sz s' = data_sz s - ?n \<and>
       after_round ag st dst s' (drop ?n (area s))" by blast
  then consider (stop) r where "recv_step e ag s = Some r" "r = RX_EXC s' \<or> r = RX_RET s'" "refuses disp cok (take ?n (area s)) a"
    | (ok) "recv_step e ag s = Some (RX_OK s')" "rlog st s'" "cok (conn s')" "data_sz s' = data_sz s - ?n"
        "after_round ag st dst s' (drop ?n (area s))" by blast
  then show ?thesis
  proof cases
    case stop
    have "stopped disp cok s (take ?n (area s) # fs) ok s'" for ok
      unfolding stopped_def using rq stop(3) by (intro disjI2 exI [of _ 0]) (auto simp: seen_def last_decision_def)
    then have "parsed disp cok dst ag st s (split_frames mg (area s)) r"
      unfolding sp using stop(2,3) by (cases x) (elim disjE, simp_all add: parsed_def)
    then show ?thesis using stop(1,2) by (auto simp: recv_parse.simps)
  next
    case ok
    have sn: "seen s' = seen s @ [take ?n (area s)]" using rq by (simp add: seen_def)
    have "\<exists>r. recv_parse e ag s = Some r \<and> parsed disp cok dst ag st s' (fs, x) r"
    proof (cases "data_sz s' = 0")
      case True
      then have "drop ?n (area s) = []" using ok(4) len assms(7) by simp
      then have "(fs, x) = ([], [], True)" using x by (simp add: split_frames.simps)
      then show ?thesis using True ok \<open>drop ?n (area s) = []\<close> by (simp add: recv_parse.simps parsed_def)
    next
      case False
      then obtain b' off' where i: "rinv st dst s' b' off'" "area s' = drop ?n (area s)"
        using ok(5) by (auto simp: after_round_def gone_def)
      have "\<exists>r. recv_parse e ag s' = Some r \<and> parsed disp cok dst ag st s' (split_frames mg (area s')) r"
        by (rule rest [OF ok(1) _ i(1) ok(3)]) (use False assms(8) sp x i(2) in simp_all)
      then show ?thesis using ok(1) False x i(2) by (simp add: recv_parse.simps [of e ag s])
    qed
    then show ?thesis using parsed_Cons [OF _ sn] unfolding sp by blast
  qed
qed

lemma recv_parse_inv:
  assumes "rinv st dst s b off" and "cok (conn s)" and "env_ok disp mg own e" and "data_sz s > 0"
    and "\<forall>f\<in>set (fst (split_frames mg (area s))). fine f"
  shows "\<exists>r. recv_parse e ag s = Some r \<and> parsed disp cok dst ag st s (split_frames mg (area s)) r"
  using assms
proof (induction e ag s arbitrary: b off rule: recv_parse.induct)
  case (1 e ag s)
  note i = rinvD [OF 1(2)]
  have len: "length (area s) = data_sz s" by (rule area_length [OF i(1)])
  show ?case
  proof (cases "data_sz s < 16 \<or> (\<exists>h. 16 \<le> data_sz s \<and> load_header (area s) 0 = Some h \<and> validate_hdr h 0 mg \<and>
         data_sz s < unat (total_sz h))")
    case True
    then obtain h where h: "data_sz s < 16 \<or> 16 \<le> data_sz s \<and> load_header (area s) 0 = Some h \<and>
         validate_hdr h 0 mg \<and> data_sz s < unat (total_sz h)" by blast
    then have sp: "split_frames mg (area s) = ([], area s, True)" using len by (auto simp: split_frames.simps)
    obtain s' b' where s': "recv_step e ag s = Some (RX_BREAK s')" "rinv st dst s' b' 0" "area s' = area s"
        "dbonearr s' = []" "data_sz s' < max_buf_sz s'" "conn s' = conn s" "rd_requests s' = rd_requests s"
      using recv_step_partial [OF 1(2,4) h, of ag] by blast
    have "recv_parse e ag s = Some (RX_OK s')" using s'(1) by (simp add: recv_parse.simps)
    moreover have "waiting st dst s' (area s)" "rlog st s'" using s' by (auto simp: waiting_def rinv_def)
    moreover have "area s \<noteq> []" "data_sz s' = data_sz s"
      using len 1(5) area_length [OF rinvD(1) [OF s'(2)]] s'(3) by auto
    ultimately show ?thesis using sp s' 1(3) len by (simp add: parsed_def seen_def)
  next
    case False
    then have sz: "16 \<le> data_sz s" by auto
    then obtain h where h: "load_header (area s) 0 = Some h" using load_header_in [of 0 "area s"] len by auto
    show ?thesis
    proof (cases "validate_hdr h 0 mg")
      case invalid: False
      then have sp: "split_frames mg (area s) = ([], area s, False)" using len h sz by (simp add: split_frames.simps)
      obtain s' where "recv_step e ag s = Some (RX_EXC s')" "rd_requests s' = rd_requests s"
        using recv_step_invalid [OF 1(2,4) sz h invalid] by blast
      then show ?thesis using sp by (simp add: recv_parse.simps parsed_def stopped_def seen_def)
    next
      case valid: True
      have "unat (total_sz h) \<le> data_sz s" using False sz h valid by auto
      from recv_parse_message [OF 1(2,4,3) sz h valid this 1(6)] 1(1) [OF _ refl] 1(4)
      show ?thesis by blast
    qed
  qed
qed

text \<open>What a call does with a piece of the stream when \<open>held\<close> was left from the last one.\<close>

lemma handle_recv_piece:
  assumes "idle dst s held" and "cok (conn s)" and "env_ok disp mg own e" and "bs \<noteq> []" "length bs < room e s"
    and "\<forall>f\<in>set (fst (split_frames mg (held @ bs))). fine f"
  shows "\<exists>r s'. handle_recv e n [SOCK_DATA bs] s = Some ([], r, s') \<and> (case split_frames mg (held @ bs) of (fs, rest, ok) \<Rightarrow>
      if r = RECV_BYTES (length bs) then ok \<and> idle dst s' rest \<and> cok (conn s') \<and> seen s' = seen s @ fs
      else (r = RECV_THROW \<or> r = RECV_CLOSE) \<and> stopped disp cok s fs ok s')"
proof -
  obtain s1 where s1: "recv_start e s = Some (RX_OK s1)" "waiting True dst (set_variables s1) held"
      "conn s1 = conn s" "rd_requests s1 = rd_requests s" "rd_max s1 - rd_data s1 = room e s"
    using recv_start_idle [OF assms(1)] assms(3) by (auto simp: env_ok_def)
  obtain p where lp: "recv_loop e n (pending_sz s \<noteq> 0) 0 [SOCK_DATA bs] s1 = do {
      s2 \<leftarrow> recv_store bs ((set_variables s1)\<lparr>pending_sz := p\<rparr>);
      r \<leftarrow> recv_parse e True s2;
      Some ([], length bs, r) }"
    using recv_loop_piece [OF assms(4), of s1 e n "pending_sz s \<noteq> 0"] assms(5) s1(5) by auto
  obtain s2 b where s2: "recv_store bs ((set_variables s1)\<lparr>pending_sz := p\<rparr>) = Some s2" "rinv True dst s2 b 0"
      "area s2 = held @ bs" "conn s2 = conn s" "rd_requests s2 = rd_requests s" "data_sz s2 > 0"
    using recv_store_waiting [OF s1(2), of bs p] s1(3-5) assms(4,5) by auto
  obtain r where r: "recv_parse e True s2 = Some r" "parsed disp cok dst True True s2 (split_frames mg (held @ bs)) r"
    using recv_parse_inv [OF s2(2) _ assms(3) s2(6), of True] s2(3,4) assms(2,6) by auto
  obtain fs rest ok where sp: "split_frames mg (held @ bs) = (fs, rest, ok)" by (rule prod_cases3)
  have call: "handle_recv e n [SOCK_DATA bs] s = do {
      r3 \<leftarrow> rx_then (Some r) (recv_finish e (length bs)); Some ([], recv_ret (length bs) r3) }"
    using s1(1) lp s2(1) r(1) by (simp add: handle_recv_def)
  have sn: "seen s2 = seen s" using s2(5) by (simp add: seen_def)
  show ?thesis
  proof (cases r)
    case (RX_OK s3)
    then have ok: "ok" "seen s3 = seen s @ fs" "rlog True s3" "cok (conn s3)" "data_sz s3 = length rest"
        "if rest = [] then after_round True True dst s3 [] else waiting True dst s3 rest"
      using r(2) sp sn by (simp_all add: parsed_def)
    obtain s4 where s4: "recv_finish e (length bs) s3 = Some (RX_OK s4)" "idle dst (scope_exit s4) rest"
        "conn (scope_exit s4) = conn s3" "rd_requests (scope_exit s4) = rd_requests s3"
      using recv_finish_idle [OF ok(3,5) _ ok(6), of "length bs" e] assms(4) by auto
    then show ?thesis using call RX_OK sp ok by (simp add: seen_def)
  qed (use r(2) sp sn call in \<open>auto simp: parsed_def stopped_def seen_def last_decision_def scope_exit_def Let_def\<close>)
qed

lemma recv_calls_stream:
  assumes "recv_calls e n cs s = Some s'" and "idle dst s held" and "cok (conn s)" and "env_ok disp mg own e"
    and "\<forall>f\<in>set (fst (split_frames mg (held @ concat cs))). fine f"
    and "split_frames mg held = ([], held, True)"
  shows "\<exists>fs rest. split_frames mg (held @ concat cs) = (fs, rest, True) \<and> idle dst s' rest \<and> seen s' = seen s @ fs"
  using assms
proof (induction cs arbitrary: s held)
  case Nil
  then show ?case by simp
next
  case (Cons bs cs)
  obtain fs rest ok where sp: "split_frames mg (held @ bs) = (fs, rest, ok)" by (rule prod_cases3)
  have cs: "bs \<noteq> []" "length bs < room e s" using Cons.prems(1) by (auto split: if_splits)
  have fine: "\<forall>f\<in>set (fst (split_frames mg (held @ bs))). fine f"
    using Cons.prems(5) split_frames_prefix [of mg "held @ bs" "concat cs"] by auto
  obtain r s1 where c: "handle_recv e n [SOCK_DATA bs] s = Some ([], r, s1)"
      "if r = RECV_BYTES (length bs) then ok \<and> idle dst s1 rest \<and> cok (conn s1) \<and> seen s1 = seen s @ fs
       else (r = RECV_THROW \<or> r = RECV_CLOSE) \<and> stopped disp cok s fs ok s1"
    using handle_recv_piece [OF Cons.prems(2-4) cs fine, of n] sp by auto
  then have "r = RECV_BYTES (length bs)" and rest: "recv_calls e n cs s1 = Some s'"
    using Cons.prems(1) cs by (auto split: RECV_RET.splits if_splits)
  then have s1: ok "idle dst s1 rest" "cok (conn s1)" "seen s1 = seen s @ fs" using c(2) by simp_all
  have sp': "split_frames mg (held @ concat (bs # cs)) = (let (gs, x) = split_frames mg (rest @ concat cs) in (fs @ gs, x))"
    using split_frames_append [of mg "held @ bs" fs rest "concat cs"] sp s1(1) by simp
  then have "\<forall>f\<in>set (fst (split_frames mg (rest @ concat cs))). fine f"
    using Cons.prems(5) by (auto simp: split_beta Let_def)
  moreover have "split_frames mg rest = ([], rest, True)" by (rule split_frames_rest) (use sp s1(1) in simp)
  ultimately show ?case using Cons.IH [OF rest s1(2,3) Cons.prems(4)] sp' s1(4) by fastforce
qed

lemma recv_calls_log:
  assumes "recv_calls e n cs s = Some s'" and "idle dst s held" and "cok (conn s)" and "env_ok disp mg own e"
    and "\<forall>f\<in>set (fst (split_frames mg (held @ concat cs))). fine f"
    and "split_frames mg held = ([], held, True)" and "queue_log e s"
  shows "queue_log e s'"
  using assms
proof (induction cs arbitrary: s held)
  case (Cons bs cs)
  obtain s1 where s1: "recv_calls e n [bs] s = Some s1" "recv_calls e n cs s1 = Some s'"
    using Cons.prems(1) by (auto split: if_splits RECV_RET.splits option.splits)
  have cs: "bs \<noteq> []" "length bs < room e s" using s1(1) by (auto split: if_splits)
  have fine: "\<forall>f\<in>set (fst (split_frames mg (held @ concat [bs]))). fine f"
    using Cons.prems(5) split_frames_prefix [of mg "held @ bs" "concat cs"] by auto
  obtain fs rest where sp: "split_frames mg (held @ bs) = (fs, rest, True)" and i: "idle dst s1 rest"
    using recv_calls_stream [OF s1(1) Cons.prems(2-4) fine Cons.prems(6)] by auto
  obtain r l where c: "handle_recv e n [SOCK_DATA bs] s = Some (l, r, s1)" "r = RECV_BYTES (length bs)"
    using s1(1) handle_recv_piece [OF Cons.prems(2-4) cs, of n] fine by (auto split: if_splits RECV_RET.splits option.splits)
  have "cok (conn s1)" using handle_recv_piece [OF Cons.prems(2-4) cs, of n] fine c sp by (auto split: if_splits)
  moreover have "queue_log e s1"
    by (rule handle_recv_log [OF c(1) Cons.prems(7) cs Cons.prems(2)]) (use Cons.prems(4) in \<open>simp add: env_ok_def\<close>)
  moreover have "\<forall>f\<in>set (fst (split_frames mg (rest @ concat cs))). fine f"
    using Cons.prems(5) split_frames_append [OF sp, of "concat cs"] by (auto simp: split_beta Let_def)
  moreover have "split_frames mg rest = ([], rest, True)" by (rule split_frames_rest [OF sp])
  ultimately show ?case using Cons.IH [OF s1(2) i] Cons.prems(4) by blast
qed simp

end

end
