(* ===== verification/Gy_Madhava_L1.thy ===== *)
theory Gy_Madhava_L1
  imports Gy_L1_Base
begin

text \<open>
  The dispatch of one message in the receiving threads of Madhava: the \<open>switch\<close> on the message type in
  the lambda \<open>handle_recv\<close> of \<open>MCONN_HANDLER::handle_l1\<close> (\<open>server/gy_mconnhdlr.cc\<close>). There is one
  definition per \<open>case\<close>, in the order of the source. \<open>c\<close> is the connection \<open>pconn1\<close>, \<open>h\<close> the header
  \<open>hdr\<close>, \<open>m\<close> the receive buffer, \<open>pn\<close> the address of the \<open>EVENT_NOTIFY\<close> and \<open>p\<close> the address of another
  struct after the header.

  The theorems: on every message that passed \<open>COMM_HEADER::validate\<close> and is complete in the buffer the
  dispatch stays inside of the message; only registered peers of the right kind get a message
  scheduled; a scheduled message is well formed for the thread that gets it.
\<close>

section \<open>The cases of \<open>COMM_EVENT_NOTIFY\<close>\<close>

type_synonym l1_handler = "(TTYPE_E, CONNTRACK) l1_case"

definition l1_NOTIFY_TCP_CONN :: l1_handler where
  "l1_NOTIFY_TCP_CONN c h m pn =
     l1_sched_valid (from_host HOST_PARTHA c) (TCP_CONN_NOTIFY_validate h m pn) TTYPE_L2_MISC m"

definition l1_NOTIFY_LISTENER_STATE :: l1_handler where
  "l1_NOTIFY_LISTENER_STATE c h m pn =
     l1_sched_valid (from_host HOST_PARTHA c) (LISTENER_STATE_NOTIFY_validate h m pn) TTYPE_L2_MISC m"

definition l1_NOTIFY_AGGR_TASK_STATE :: l1_handler where
  "l1_NOTIFY_AGGR_TASK_STATE c h m pn =
     l1_sched_valid (from_host HOST_PARTHA c) (AGGR_TASK_STATE_NOTIFY_validate h m pn) TTYPE_L2_MISC m"

definition l1_NOTIFY_ACTIVE_CONN_STATS :: l1_handler where
  "l1_NOTIFY_ACTIVE_CONN_STATS c h m pn =
     l1_sched_valid (from_host HOST_PARTHA c) (keep_mem m (ACTIVE_CONN_STATS_validate h m pn)) TTYPE_L2_MISC m"

definition l1_NOTIFY_MM_ACTIVE_CONN_STATS :: l1_handler where
  "l1_NOTIFY_MM_ACTIVE_CONN_STATS c h m pn =
     l1_sched_valid (from_host HOST_MADHAVA c) (keep_mem m (ACTIVE_CONN_STATS_validate h m pn)) TTYPE_L2_MISC m"

definition l1_NOTIFY_LISTEN_TASKMAP_EVENT :: l1_handler where
  "l1_NOTIFY_LISTEN_TASKMAP_EVENT c h m pn =
     l1_sched_valid (from_host HOST_PARTHA c) (LISTEN_TASKMAP_NOTIFY_validate h m pn) TTYPE_L2_MISC m"

definition l1_NOTIFY_TASK_MINI_ADD :: l1_handler where
  "l1_NOTIFY_TASK_MINI_ADD c h m pn =
     l1_sched_valid (from_host HOST_PARTHA c) (TASK_MINI_ADD_validate h m pn) TTYPE_L2_MISC m"

definition l1_NOTIFY_TASK_FULL_ADD :: l1_handler where
  "l1_NOTIFY_TASK_FULL_ADD c h m pn =
     l1_sched_valid (from_host HOST_PARTHA c) (TASK_FULL_ADD_validate h m pn) TTYPE_L2_MISC m"

definition l1_NOTIFY_TASK_TOP_PROCS :: l1_handler where
  "l1_NOTIFY_TASK_TOP_PROCS c h m pn =
     l1_sched_valid (from_host HOST_PARTHA c) (keep_mem m (TASK_TOP_PROCS_validate h m (pn + 8))) TTYPE_L2_MISC m"

definition l1_NOTIFY_TASK_HISTOGRAM :: l1_handler where
  "l1_NOTIFY_TASK_HISTOGRAM c h m pn =
     l1_sched_valid (from_host HOST_PARTHA c) (keep_mem m (TASK_HISTOGRAM_validate h m pn)) TTYPE_L2_MISC m"

definition l1_NOTIFY_NEW_LISTENER :: l1_handler where
  "l1_NOTIFY_NEW_LISTENER c h m pn =
     l1_sched_valid (from_host HOST_PARTHA c) (NEW_LISTENER_validate h m pn) TTYPE_L2_MISC m"

definition l1_NOTIFY_LISTENER_DEPENDENCY :: l1_handler where
  "l1_NOTIFY_LISTENER_DEPENDENCY c h m pn =
     l1_sched_valid (from_host HOST_PARTHA c) (LISTENER_DEPENDENCY_NOTIFY_validate h m pn) TTYPE_L2_MISC m"

definition l1_NOTIFY_LISTENER_NAT_IP_EVENT :: l1_handler where
  "l1_NOTIFY_LISTENER_NAT_IP_EVENT c h m pn =
     l1_sched_valid (from_host HOST_PARTHA c) (keep_mem m (LISTENER_NAT_IP_EVENT_validate h m pn)) TTYPE_L2_MISC m"

definition l1_NOTIFY_LISTENER_DOMAIN_EVENT :: l1_handler where
  "l1_NOTIFY_LISTENER_DOMAIN_EVENT c h m pn =
     l1_sched_valid (from_host HOST_PARTHA c) (LISTENER_DOMAIN_NOTIFY_validate h m pn) TTYPE_L2_MISC m"

definition l1_NOTIFY_LISTEN_CLUSTER_INFO :: l1_handler where
  "l1_NOTIFY_LISTEN_CLUSTER_INFO c h m pn =
     l1_sched_valid (from_host HOST_PARTHA c) (LISTENER_CLUSTER_NOTIFY_validate h m pn) TTYPE_L2_MISC m"

definition l1_NOTIFY_SM_ALERT_ADEF_NEW :: l1_handler where
  "l1_NOTIFY_SM_ALERT_ADEF_NEW c h m pn =
     l1_sched_valid (from_host HOST_SHYAMA c) (SM_ALERT_ADEF_NEW_validate h m pn) TTYPE_L2_ALERT m"

definition l1_NOTIFY_SM_ALERT_ADEF_UPD :: l1_handler where
  "l1_NOTIFY_SM_ALERT_ADEF_UPD c h m pn =
     l1_sched_valid (from_host HOST_SHYAMA c) (keep_mem m (SM_ALERT_ADEF_UPD_validate h m pn)) TTYPE_L2_ALERT m"

definition l1_NOTIFY_SM_ALERT_STAT_DISABLE :: l1_handler where
  "l1_NOTIFY_SM_ALERT_STAT_DISABLE c h m pn =
     l1_sched_valid (from_host HOST_SHYAMA c) (keep_mem m (SM_ALERT_STAT_DISABLE_validate h m pn)) TTYPE_L2_ALERT m"

definition l1_NOTIFY_LISTENER_DAY_STATS :: l1_handler where
  "l1_NOTIFY_LISTENER_DAY_STATS c h m pn =
     l1_sched_valid (from_host HOST_PARTHA c) (keep_mem m (LISTENER_DAY_STATS_validate h m pn)) TTYPE_L2_MISC m"

definition l1_NOTIFY_NAT_TCP :: l1_handler where
  "l1_NOTIFY_NAT_TCP c h m pn =
     l1_sched_valid (from_host HOST_PARTHA c) (keep_mem m (NAT_TCP_NOTIFY_validate h m pn)) TTYPE_L2_MISC m"

definition l1_NOTIFY_SHYAMA_CLI_TCP_INFO :: l1_handler where
  "l1_NOTIFY_SHYAMA_CLI_TCP_INFO c h m pn =
     l1_sched_valid (from_host HOST_SHYAMA c) (keep_mem m (SHYAMA_CLI_TCP_INFO_validate h m pn)) TTYPE_L2_MISC m"

definition l1_NOTIFY_SHYAMA_SER_TCP_INFO :: l1_handler where
  "l1_NOTIFY_SHYAMA_SER_TCP_INFO c h m pn =
     l1_sched_valid (from_host HOST_SHYAMA c) (keep_mem m (SHYAMA_SER_TCP_INFO_validate h m pn)) TTYPE_L2_MISC m"

definition l1_NOTIFY_SM_SVC_CLUSTER_MESH :: l1_handler where
  "l1_NOTIFY_SM_SVC_CLUSTER_MESH c h m pn =
     l1_sched_valid (from_host HOST_SHYAMA c) (SM_SVC_CLUSTER_MESH_validate h m pn) TTYPE_L2_MISC m"

definition l1_NOTIFY_SM_SVC_NAT_IP_CLUSTER :: l1_handler where
  "l1_NOTIFY_SM_SVC_NAT_IP_CLUSTER c h m pn =
     l1_sched_valid (from_host HOST_SHYAMA c) (keep_mem m (SM_SVC_NAT_IP_CLUSTER_validate h m pn)) TTYPE_L2_MISC m"

definition l1_NOTIFY_MM_LISTENER_ISSUE_RESOL :: l1_handler where
  "l1_NOTIFY_MM_LISTENER_ISSUE_RESOL c h m pn =
     l1_sched_valid (from_host HOST_MADHAVA c) (MM_LISTENER_ISSUE_RESOL_validate h m pn) TTYPE_L2_MISC m"

definition l1_NOTIFY_MM_LISTENER_DEPENDS :: l1_handler where
  "l1_NOTIFY_MM_LISTENER_DEPENDS c h m pn =
     l1_sched_valid (from_host HOST_MADHAVA c) (keep_mem m (MM_LISTENER_DEPENDS_validate h m pn)) TTYPE_L2_MISC m"

definition l1_NOTIFY_MM_LISTENER_PING :: l1_handler where
  "l1_NOTIFY_MM_LISTENER_PING c h m pn =
     l1_sched_valid (from_host HOST_MADHAVA c) (keep_mem m (MM_LISTENER_PING_validate h m pn)) TTYPE_L2_MISC m"

definition l1_NOTIFY_MM_LISTENER_DELETE :: l1_handler where
  "l1_NOTIFY_MM_LISTENER_DELETE c h m pn =
     l1_sched_valid (from_host HOST_MADHAVA c) (keep_mem m (MM_LISTENER_DELETE_validate h m pn)) TTYPE_L2_MISC m"

definition l1_NOTIFY_TASK_AGGR :: l1_handler where
  "l1_NOTIFY_TASK_AGGR c h m pn =
     l1_sched_valid (from_host HOST_PARTHA c) (TASK_AGGR_NOTIFY_validate h m pn) TTYPE_L2_MISC m"

definition l1_NOTIFY_AGGR_TASK_HIST_STATS :: l1_handler where
  "l1_NOTIFY_AGGR_TASK_HIST_STATS c h m pn =
     l1_sched_valid (from_host HOST_PARTHA c) (keep_mem m (AGGR_TASK_HIST_STATS_validate h m pn)) TTYPE_L2_MISC m"

definition l1_NOTIFY_PING_TASK_AGGR :: l1_handler where
  "l1_NOTIFY_PING_TASK_AGGR c h m pn =
     l1_sched_valid (from_host HOST_PARTHA c) (keep_mem m (PING_TASK_AGGR_validate h m pn)) TTYPE_L2_MISC m"

definition l1_NOTIFY_MM_TASK_AGGR_PING :: l1_handler where
  "l1_NOTIFY_MM_TASK_AGGR_PING c h m pn =
     l1_sched_valid (from_host HOST_MADHAVA c) (keep_mem m (MM_TASK_AGGR_PING_validate h m pn)) TTYPE_L2_MISC m"

definition l1_NOTIFY_MM_TASK_AGGR_DEL :: l1_handler where
  "l1_NOTIFY_MM_TASK_AGGR_DEL c h m pn =
     l1_sched_valid (from_host HOST_MADHAVA c) (keep_mem m (MM_TASK_AGGR_DEL_validate h m pn)) TTYPE_L2_MISC m"

definition l1_NOTIFY_MM_AGGR_TASK_STATE :: l1_handler where
  "l1_NOTIFY_MM_AGGR_TASK_STATE c h m pn =
     l1_sched_valid (from_host HOST_MADHAVA c) (AGGR_TASK_STATE_NOTIFY_validate h m pn) TTYPE_L2_MISC m"

definition l1_NOTIFY_CPU_MEM_STATE :: l1_handler where
  "l1_NOTIFY_CPU_MEM_STATE c h m pn =
     l1_sched_valid (from_host HOST_PARTHA c) (CPU_MEM_STATE_NOTIFY_validate h m pn) TTYPE_L2_MISC m"

definition l1_NOTIFY_HOST_STATE :: l1_handler where
  "l1_NOTIFY_HOST_STATE c h m pn =
     l1_sched_valid (from_host HOST_PARTHA c) (keep_mem m (HOST_STATE_NOTIFY_validate h m pn)) TTYPE_L2_MISC m"

definition l1_NOTIFY_HOST_STATE__V000100 :: l1_handler where
  "l1_NOTIFY_HOST_STATE__V000100 c h m pn =
     l1_sched_valid (from_host HOST_PARTHA c) (keep_mem m (HOST_STATE_NOTIFY__V000100_validate h m pn)) TTYPE_L2_MISC m"

definition l1_NOTIFY_HOST_INFO :: l1_handler where
  "l1_NOTIFY_HOST_INFO c h m pn =
     l1_sched_valid (from_host HOST_PARTHA c) (keep_mem m (HOST_INFO_NOTIFY_validate h m pn)) TTYPE_L2_MISC m"

definition l1_NOTIFY_HOST_CPU_MEM_CHANGE :: l1_handler where
  "l1_NOTIFY_HOST_CPU_MEM_CHANGE c h m pn =
     l1_sched_valid (from_host HOST_PARTHA c) (keep_mem m (HOST_CPU_MEM_CHANGE_validate h m pn)) TTYPE_L2_MISC m"

definition l1_NOTIFY_NOTIFICATION_MSG :: l1_handler where
  "l1_NOTIFY_NOTIFICATION_MSG c h m pn =
     l1_sched_valid (from_host HOST_PARTHA c) (NOTIFICATION_MSG_validate h m pn) TTYPE_L2_MISC m"

definition l1_NOTIFY_MADHAVA_LIST :: l1_handler where
  "l1_NOTIFY_MADHAVA_LIST c h m pn =
     l1_sched_valid (from_host HOST_SHYAMA c) (keep_mem m (MADHAVA_LIST_validate h m pn)) TTYPE_L2_MISC m"

text \<open>\<open>nevents\<close> is an \<open>int\<close>; the loop calls \<open>set_partha_ident\<close> for every struct of the array.\<close>

definition l1_NOTIFY_SM_PARTHA_IDENT :: l1_handler where
  "l1_NOTIFY_SM_PARTHA_IDENT c h m pn =
     (if \<not> from_host HOST_SHYAMA c then invalid_msg [] m
      else do {
        uevents \<leftarrow> fld m pn EVENT_NOTIFY_fields ''nevents_'';
        let nevents = sint (of_nat uevents :: 32 word);
        let st = [(''Shyama Partha Ident Notify'', nevents)];
        bret \<leftarrow> SM_PARTHA_IDENT_NOTIFY_validate h m pn;
        if bret = False then invalid_msg st m
        else Some (L1_SET_PARTHA_IDENT
                     (map (\<lambda>i. pn + 8 + i * csizeof SM_PARTHA_IDENT_NOTIFY_t) [0..<nat nevents]), st, m)
      })"

definition l1_NOTIFY_SHYAMA_MADHAVA_STATUS :: l1_handler where
  "l1_NOTIFY_SHYAMA_MADHAVA_STATUS c h m pn =
     (if \<not> from_host HOST_SHYAMA c then invalid_msg [] m
      else if SHYAMA_MADHAVA_STATUS_validate h = False then invalid_msg [(''Shyama Status'', 1)] m
      else Some (L1_SHYAMA_STATUS (pn + 8), [(''Shyama Status'', 1)], m))"

definition l1_NOTIFY_PARTHA_STATUS :: l1_handler where
  "l1_NOTIFY_PARTHA_STATUS c h m pn =
     (if \<not> from_host HOST_PARTHA c then invalid_msg [] m
      else if PARTHA_STATUS_validate h = False then invalid_msg [] m
      else Some (L1_NEXT, [], m))"

definition l1_NOTIFY_MADHAVA_MADHAVA_STATUS :: l1_handler where
  "l1_NOTIFY_MADHAVA_MADHAVA_STATUS c h m pn =
     (if \<not> is_registered c then invalid_msg [] m
      else if MADHAVA_MADHAVA_STATUS_validate h = False then invalid_msg [] m
      else Some (L1_NEXT, [], m))"

definition l1_NOTIFY_PING_CONN :: l1_handler where
  "l1_NOTIFY_PING_CONN c h m pn =
     (if \<not> is_registered c then invalid_msg [] m else Some (L1_NEXT, [], m))"

definition l1_NOTIFY_SM_REQ_TRACE_DEF_NEW :: l1_handler where
  "l1_NOTIFY_SM_REQ_TRACE_DEF_NEW c h m pn =
     l1_sched_valid (from_host HOST_SHYAMA c) (SM_REQ_TRACE_DEF_NEW_validate h m pn) TTYPE_L2_MISC m"

definition l1_NOTIFY_SM_REQ_TRACE_DEF_DISABLE :: l1_handler where
  "l1_NOTIFY_SM_REQ_TRACE_DEF_DISABLE c h m pn =
     l1_sched_valid (from_host HOST_SHYAMA c) (keep_mem m (SM_REQ_TRACE_DEF_DISABLE_validate h m pn)) TTYPE_L2_MISC m"

definition l1_NOTIFY_REQ_TRACE_STATUS :: l1_handler where
  "l1_NOTIFY_REQ_TRACE_STATUS c h m pn =
     l1_sched_valid (from_host HOST_PARTHA c) (keep_mem m (REQ_TRACE_STATUS_validate h m pn)) TTYPE_L2_MISC m"

text \<open>Every other subtype is ignored.\<close>

definition l1_event :: "NOTIFY_TYPE_E \<Rightarrow> l1_handler" where
  "l1_event t c h m pn = (case t of
       NOTIFY_TCP_CONN \<Rightarrow> l1_NOTIFY_TCP_CONN c h m pn
     | NOTIFY_LISTENER_STATE \<Rightarrow> l1_NOTIFY_LISTENER_STATE c h m pn
     | NOTIFY_AGGR_TASK_STATE \<Rightarrow> l1_NOTIFY_AGGR_TASK_STATE c h m pn
     | NOTIFY_ACTIVE_CONN_STATS \<Rightarrow> l1_NOTIFY_ACTIVE_CONN_STATS c h m pn
     | NOTIFY_MM_ACTIVE_CONN_STATS \<Rightarrow> l1_NOTIFY_MM_ACTIVE_CONN_STATS c h m pn
     | NOTIFY_LISTEN_TASKMAP_EVENT \<Rightarrow> l1_NOTIFY_LISTEN_TASKMAP_EVENT c h m pn
     | NOTIFY_TASK_MINI_ADD \<Rightarrow> l1_NOTIFY_TASK_MINI_ADD c h m pn
     | NOTIFY_TASK_FULL_ADD \<Rightarrow> l1_NOTIFY_TASK_FULL_ADD c h m pn
     | NOTIFY_TASK_TOP_PROCS \<Rightarrow> l1_NOTIFY_TASK_TOP_PROCS c h m pn
     | NOTIFY_TASK_HISTOGRAM \<Rightarrow> l1_NOTIFY_TASK_HISTOGRAM c h m pn
     | NOTIFY_NEW_LISTENER \<Rightarrow> l1_NOTIFY_NEW_LISTENER c h m pn
     | NOTIFY_LISTENER_DEPENDENCY \<Rightarrow> l1_NOTIFY_LISTENER_DEPENDENCY c h m pn
     | NOTIFY_LISTENER_NAT_IP_EVENT \<Rightarrow> l1_NOTIFY_LISTENER_NAT_IP_EVENT c h m pn
     | NOTIFY_LISTENER_DOMAIN_EVENT \<Rightarrow> l1_NOTIFY_LISTENER_DOMAIN_EVENT c h m pn
     | NOTIFY_LISTEN_CLUSTER_INFO \<Rightarrow> l1_NOTIFY_LISTEN_CLUSTER_INFO c h m pn
     | NOTIFY_SM_ALERT_ADEF_NEW \<Rightarrow> l1_NOTIFY_SM_ALERT_ADEF_NEW c h m pn
     | NOTIFY_SM_ALERT_ADEF_UPD \<Rightarrow> l1_NOTIFY_SM_ALERT_ADEF_UPD c h m pn
     | NOTIFY_SM_ALERT_STAT_DISABLE \<Rightarrow> l1_NOTIFY_SM_ALERT_STAT_DISABLE c h m pn
     | NOTIFY_LISTENER_DAY_STATS \<Rightarrow> l1_NOTIFY_LISTENER_DAY_STATS c h m pn
     | NOTIFY_NAT_TCP \<Rightarrow> l1_NOTIFY_NAT_TCP c h m pn
     | NOTIFY_SHYAMA_CLI_TCP_INFO \<Rightarrow> l1_NOTIFY_SHYAMA_CLI_TCP_INFO c h m pn
     | NOTIFY_SHYAMA_SER_TCP_INFO \<Rightarrow> l1_NOTIFY_SHYAMA_SER_TCP_INFO c h m pn
     | NOTIFY_SM_SVC_CLUSTER_MESH \<Rightarrow> l1_NOTIFY_SM_SVC_CLUSTER_MESH c h m pn
     | NOTIFY_SM_SVC_NAT_IP_CLUSTER \<Rightarrow> l1_NOTIFY_SM_SVC_NAT_IP_CLUSTER c h m pn
     | NOTIFY_MM_LISTENER_ISSUE_RESOL \<Rightarrow> l1_NOTIFY_MM_LISTENER_ISSUE_RESOL c h m pn
     | NOTIFY_MM_LISTENER_DEPENDS \<Rightarrow> l1_NOTIFY_MM_LISTENER_DEPENDS c h m pn
     | NOTIFY_MM_LISTENER_PING \<Rightarrow> l1_NOTIFY_MM_LISTENER_PING c h m pn
     | NOTIFY_MM_LISTENER_DELETE \<Rightarrow> l1_NOTIFY_MM_LISTENER_DELETE c h m pn
     | NOTIFY_TASK_AGGR \<Rightarrow> l1_NOTIFY_TASK_AGGR c h m pn
     | NOTIFY_AGGR_TASK_HIST_STATS \<Rightarrow> l1_NOTIFY_AGGR_TASK_HIST_STATS c h m pn
     | NOTIFY_PING_TASK_AGGR \<Rightarrow> l1_NOTIFY_PING_TASK_AGGR c h m pn
     | NOTIFY_MM_TASK_AGGR_PING \<Rightarrow> l1_NOTIFY_MM_TASK_AGGR_PING c h m pn
     | NOTIFY_MM_TASK_AGGR_DEL \<Rightarrow> l1_NOTIFY_MM_TASK_AGGR_DEL c h m pn
     | NOTIFY_MM_AGGR_TASK_STATE \<Rightarrow> l1_NOTIFY_MM_AGGR_TASK_STATE c h m pn
     | NOTIFY_CPU_MEM_STATE \<Rightarrow> l1_NOTIFY_CPU_MEM_STATE c h m pn
     | NOTIFY_HOST_STATE \<Rightarrow> l1_NOTIFY_HOST_STATE c h m pn
     | NOTIFY_HOST_STATE__V000100 \<Rightarrow> l1_NOTIFY_HOST_STATE__V000100 c h m pn
     | NOTIFY_HOST_INFO \<Rightarrow> l1_NOTIFY_HOST_INFO c h m pn
     | NOTIFY_HOST_CPU_MEM_CHANGE \<Rightarrow> l1_NOTIFY_HOST_CPU_MEM_CHANGE c h m pn
     | NOTIFY_NOTIFICATION_MSG \<Rightarrow> l1_NOTIFY_NOTIFICATION_MSG c h m pn
     | NOTIFY_MADHAVA_LIST \<Rightarrow> l1_NOTIFY_MADHAVA_LIST c h m pn
     | NOTIFY_SM_PARTHA_IDENT \<Rightarrow> l1_NOTIFY_SM_PARTHA_IDENT c h m pn
     | NOTIFY_SHYAMA_MADHAVA_STATUS \<Rightarrow> l1_NOTIFY_SHYAMA_MADHAVA_STATUS c h m pn
     | NOTIFY_PARTHA_STATUS \<Rightarrow> l1_NOTIFY_PARTHA_STATUS c h m pn
     | NOTIFY_MADHAVA_MADHAVA_STATUS \<Rightarrow> l1_NOTIFY_MADHAVA_MADHAVA_STATUS c h m pn
     | NOTIFY_PING_CONN \<Rightarrow> l1_NOTIFY_PING_CONN c h m pn
     | NOTIFY_SM_REQ_TRACE_DEF_NEW \<Rightarrow> l1_NOTIFY_SM_REQ_TRACE_DEF_NEW c h m pn
     | NOTIFY_SM_REQ_TRACE_DEF_DISABLE \<Rightarrow> l1_NOTIFY_SM_REQ_TRACE_DEF_DISABLE c h m pn
     | NOTIFY_REQ_TRACE_STATUS \<Rightarrow> l1_NOTIFY_REQ_TRACE_STATUS c h m pn
     | _ \<Rightarrow> Some (L1_NEXT, [], m))"

definition l1_event_notify :: l1_handler where
  "l1_event_notify c h m pn = do {
     subtype \<leftarrow> fld m pn EVENT_NOTIFY_fields ''subtype_'';
     case notify_of subtype of
       Some t \<Rightarrow> l1_event t c h m pn
     | None \<Rightarrow> Some (L1_NEXT, [], m)
   }"

section \<open>Queries and responses\<close>

definition l1_query_cmd :: "bool \<Rightarrow> l1_handler" where
  "l1_query_cmd is_conn_closed c h m p =
     (if is_conn_closed = False \<and> cli_type c \<noteq> CLI_TYPE_REQ_ONLY then do {
        subtype \<leftarrow> fld m p QUERY_CMD_fields ''subtype_'';
        case query_of subtype of
          Some QUERY_LISTENER_INFO_STATS \<Rightarrow>
            l1_sched_valid (from_host HOST_PARTHA c)
              (LISTENER_INFO_REQ_validate h m (p + csizeof QUERY_CMD_t)) TTYPE_L2_DB_RD m
        | Some QUERY_PARTHA_MADHAVA \<Rightarrow> Some (L1_NEXT, [], m)
        | Some _ \<Rightarrow>
            (if \<not> is_registered c then invalid_msg [] m
             else Some (L1_SCHED TTYPE_L2_DB_RD True, [], m))
        | None \<Rightarrow> Some (L1_NEXT, [], m)
      }
      else Some (L1_NEXT, [], m))"

definition l1_query_resp ::
  "CONNTRACK \<Rightarrow> COMM_HEADER \<Rightarrow> mem \<Rightarrow> nat \<Rightarrow> (TTYPE_E L1_ACTION \<times> stats_upd \<times> CONNTRACK \<times> mem) option" where
  "l1_query_resp c h m p =
     (if \<not> is_registered c then Some (L1_THROW, [(''Invalid Message Error'', 1)], c, m)
      else do {
        bret \<leftarrow> QUERY_RESPONSE_validate h m p;
        if bret = False then Some (L1_CLOSE, [(''Invalid Message Error'', 1)], c, m)
        else do {
          subtype \<leftarrow> fld m p QUERY_RESPONSE_fields ''subtype_'';
          if subtype = RESP_WEB_JSON then l1_web_json c m p else Some (L1_NEXT, [], c, m)
        }
      })"

section \<open>Registrations\<close>

text \<open>The two responses differ in the peer they are expected from and the handler \<open>a\<close>; \<open>bad\<close> is the
  condition of the first check.\<close>

definition l1_reg_resp ::
  "string \<Rightarrow> bool \<Rightarrow> 'd L1_ACTION \<Rightarrow> (bool \<times> mem) option \<Rightarrow> mem \<Rightarrow> 'd l1_result" where
  "l1_reg_resp st bad a validated m =
     (if bad then invalid_msg [(st, 1)] m
      else do {
        (bret, m') \<leftarrow> validated;
        if bret = False then Some (L1_CLOSE, [(st, 1), (''Invalid Message Error'', 1)], m')
        else Some (a, [(st, 1)], m')
      })"

definition l1_ms_register_resp :: l1_handler where
  "l1_ms_register_resp c h m p =
     l1_reg_resp ''Shyama Register Response'' (is_registered c \<or> host_type c \<noteq> HOST_SHYAMA)
       (L1_SHYAMA_REG_RESP p) (MS_REGISTER_RESP_S_validate h m p) m"

definition l1_mm_connect_resp :: l1_handler where
  "l1_mm_connect_resp c h m p =
     l1_reg_resp ''Madhava Register Response'' (is_registered c \<or> host_type c \<noteq> HOST_MADHAVA)
       (L1_MADHAVA_REG_RESP p) (MM_CONNECT_RESP_S_validate h m p) m"

text \<open>The ids and versions of this Madhava; \<open>tcurr\<close> is the time.\<close>

record MADHAVA =
  gmadhava_id :: nat
  gversion_num :: nat
  gmin_partha_version :: nat
  gmin_node_version :: nat

definition l1_mm_connect_cmd :: "MADHAVA \<Rightarrow> 64 word \<Rightarrow> l1_handler" where
  "l1_mm_connect_cmd g tcurr c h m p =
     l1_connect ''Remote Madhava Register Req'' ''Remote Madhava Registration Fail''
       ''Remote Madhava Register Blocking Fail'' MM_CONNECT_RESP (MM_CONNECT_CMD_S_validate h)
       (MM_CONNECT_CMD_S_validate_fields (gmadhava_id g) (gversion_num g) (gversion_num g) tcurr m p) c m"

definition l1_pm_connect_cmd :: "MADHAVA \<Rightarrow> 64 word \<Rightarrow> l1_handler" where
  "l1_pm_connect_cmd g tcurr c h m p =
     l1_connect ''Partha Register Req'' ''Partha Registration Fail''
       ''Partha Registration Blocking Fail'' PM_CONNECT_RESP (PM_CONNECT_CMD_S_validate h)
       (PM_CONNECT_CMD_S_validate_fields (gmadhava_id g) (gmin_partha_version g) (gversion_num g) tcurr m p)
       c m"

definition l1_nm_connect_cmd :: "MADHAVA \<Rightarrow> 64 word \<Rightarrow> l1_handler" where
  "l1_nm_connect_cmd g tcurr c h m p =
     l1_connect ''Node Web Register Req'' ''Node Registration Fail''
       ''Node Registration Blocking Fail'' NM_CONNECT_RESP (NM_CONNECT_CMD_S_validate h)
       (NM_CONNECT_CMD_S_validate_fields (gmin_node_version g) (gversion_num g) tcurr m p) c m"

section \<open>The \<open>switch\<close> on the message type\<close>

definition l1_message ::
  "MADHAVA \<Rightarrow> 64 word \<Rightarrow> bool \<Rightarrow> CONNTRACK \<Rightarrow> COMM_HEADER \<Rightarrow> mem \<Rightarrow> nat \<Rightarrow>
   (TTYPE_E L1_ACTION \<times> stats_upd \<times> CONNTRACK \<times> mem) option" where
  "l1_message g tcurr is_conn_closed c h m prdbuf =
     (let p = prdbuf + csizeof COMM_HEADER_t in case comm_type_of (data_type h) of
        Some COMM_EVENT_NOTIFY \<Rightarrow> with_conn c (l1_event_notify c h m p)
      | Some COMM_QUERY_CMD \<Rightarrow> with_conn c (l1_query_cmd is_conn_closed c h m p)
      | Some COMM_QUERY_RESP \<Rightarrow> l1_query_resp c h m p
      | Some MS_REGISTER_RESP \<Rightarrow> with_conn c (l1_ms_register_resp c h m p)
      | Some MM_CONNECT_CMD \<Rightarrow> with_conn c (l1_mm_connect_cmd g tcurr c h m p)
      | Some MM_CONNECT_RESP \<Rightarrow> with_conn c (l1_mm_connect_resp c h m p)
      | Some PM_CONNECT_CMD \<Rightarrow> with_conn c (l1_pm_connect_cmd g tcurr c h m p)
      | Some NM_CONNECT_CMD \<Rightarrow> with_conn c (l1_nm_connect_cmd g tcurr c h m p)
      | _ \<Rightarrow> with_conn c (invalid_msg [] m))"

text \<open>The definitions of the cases.\<close>

lemmas l1_handler_defs =
  l1_NOTIFY_TCP_CONN_def
  l1_NOTIFY_LISTENER_STATE_def
  l1_NOTIFY_AGGR_TASK_STATE_def
  l1_NOTIFY_ACTIVE_CONN_STATS_def
  l1_NOTIFY_MM_ACTIVE_CONN_STATS_def
  l1_NOTIFY_LISTEN_TASKMAP_EVENT_def
  l1_NOTIFY_TASK_MINI_ADD_def
  l1_NOTIFY_TASK_FULL_ADD_def
  l1_NOTIFY_TASK_TOP_PROCS_def
  l1_NOTIFY_TASK_HISTOGRAM_def
  l1_NOTIFY_NEW_LISTENER_def
  l1_NOTIFY_LISTENER_DEPENDENCY_def
  l1_NOTIFY_LISTENER_NAT_IP_EVENT_def
  l1_NOTIFY_LISTENER_DOMAIN_EVENT_def
  l1_NOTIFY_LISTEN_CLUSTER_INFO_def
  l1_NOTIFY_SM_ALERT_ADEF_NEW_def
  l1_NOTIFY_SM_ALERT_ADEF_UPD_def
  l1_NOTIFY_SM_ALERT_STAT_DISABLE_def
  l1_NOTIFY_LISTENER_DAY_STATS_def
  l1_NOTIFY_NAT_TCP_def
  l1_NOTIFY_SHYAMA_CLI_TCP_INFO_def
  l1_NOTIFY_SHYAMA_SER_TCP_INFO_def
  l1_NOTIFY_SM_SVC_CLUSTER_MESH_def
  l1_NOTIFY_SM_SVC_NAT_IP_CLUSTER_def
  l1_NOTIFY_MM_LISTENER_ISSUE_RESOL_def
  l1_NOTIFY_MM_LISTENER_DEPENDS_def
  l1_NOTIFY_MM_LISTENER_PING_def
  l1_NOTIFY_MM_LISTENER_DELETE_def
  l1_NOTIFY_TASK_AGGR_def
  l1_NOTIFY_AGGR_TASK_HIST_STATS_def
  l1_NOTIFY_PING_TASK_AGGR_def
  l1_NOTIFY_MM_TASK_AGGR_PING_def
  l1_NOTIFY_MM_TASK_AGGR_DEL_def
  l1_NOTIFY_MM_AGGR_TASK_STATE_def
  l1_NOTIFY_CPU_MEM_STATE_def
  l1_NOTIFY_HOST_STATE_def
  l1_NOTIFY_HOST_STATE__V000100_def
  l1_NOTIFY_HOST_INFO_def
  l1_NOTIFY_HOST_CPU_MEM_CHANGE_def
  l1_NOTIFY_NOTIFICATION_MSG_def
  l1_NOTIFY_MADHAVA_LIST_def
  l1_NOTIFY_SM_PARTHA_IDENT_def
  l1_NOTIFY_SHYAMA_MADHAVA_STATUS_def
  l1_NOTIFY_PARTHA_STATUS_def
  l1_NOTIFY_MADHAVA_MADHAVA_STATUS_def
  l1_NOTIFY_PING_CONN_def
  l1_NOTIFY_SM_REQ_TRACE_DEF_NEW_def
  l1_NOTIFY_SM_REQ_TRACE_DEF_DISABLE_def
  l1_NOTIFY_REQ_TRACE_STATUS_def

section \<open>Memory safety of the handlers\<close>

lemma NOTIFY_TCP_CONN_handler_safe [gy_handler_safe]: "handler_safe l1_NOTIFY_TCP_CONN"
  by (rule handler_safeI [OF l1_NOTIFY_TCP_CONN_def TCP_CONN_NOTIFY_safe])

lemma NOTIFY_LISTENER_STATE_handler_safe [gy_handler_safe]: "handler_safe l1_NOTIFY_LISTENER_STATE"
  by (rule handler_safeI [OF l1_NOTIFY_LISTENER_STATE_def LISTENER_STATE_NOTIFY_safe])

lemma NOTIFY_AGGR_TASK_STATE_handler_safe [gy_handler_safe]: "handler_safe l1_NOTIFY_AGGR_TASK_STATE"
  by (rule handler_safeI [OF l1_NOTIFY_AGGR_TASK_STATE_def AGGR_TASK_STATE_NOTIFY_safe])

lemma NOTIFY_ACTIVE_CONN_STATS_handler_safe [gy_handler_safe]: "handler_safe l1_NOTIFY_ACTIVE_CONN_STATS"
  by (rule handler_safeI [OF l1_NOTIFY_ACTIVE_CONN_STATS_def ACTIVE_CONN_STATS_safe])

lemma NOTIFY_MM_ACTIVE_CONN_STATS_handler_safe [gy_handler_safe]: "handler_safe l1_NOTIFY_MM_ACTIVE_CONN_STATS"
  by (rule handler_safeI [OF l1_NOTIFY_MM_ACTIVE_CONN_STATS_def ACTIVE_CONN_STATS_safe])

lemma NOTIFY_LISTEN_TASKMAP_EVENT_handler_safe [gy_handler_safe]: "handler_safe l1_NOTIFY_LISTEN_TASKMAP_EVENT"
  by (rule handler_safeI [OF l1_NOTIFY_LISTEN_TASKMAP_EVENT_def LISTEN_TASKMAP_NOTIFY_safe])

lemma NOTIFY_TASK_MINI_ADD_handler_safe [gy_handler_safe]: "handler_safe l1_NOTIFY_TASK_MINI_ADD"
  by (rule handler_safeI [OF l1_NOTIFY_TASK_MINI_ADD_def TASK_MINI_ADD_safe])

lemma NOTIFY_TASK_FULL_ADD_handler_safe [gy_handler_safe]: "handler_safe l1_NOTIFY_TASK_FULL_ADD"
  by (rule handler_safeI [OF l1_NOTIFY_TASK_FULL_ADD_def TASK_FULL_ADD_safe])

lemma NOTIFY_TASK_TOP_PROCS_handler_safe [gy_handler_safe]: "handler_safe l1_NOTIFY_TASK_TOP_PROCS"
  by (rule handler_safeI [OF l1_NOTIFY_TASK_TOP_PROCS_def TASK_TOP_PROCS_safe])

lemma NOTIFY_TASK_HISTOGRAM_handler_safe [gy_handler_safe]: "handler_safe l1_NOTIFY_TASK_HISTOGRAM"
  by (rule handler_safeI [OF l1_NOTIFY_TASK_HISTOGRAM_def TASK_HISTOGRAM_safe])

lemma NOTIFY_NEW_LISTENER_handler_safe [gy_handler_safe]: "handler_safe l1_NOTIFY_NEW_LISTENER"
  by (rule handler_safeI [OF l1_NOTIFY_NEW_LISTENER_def NEW_LISTENER_safe])

lemma NOTIFY_LISTENER_DEPENDENCY_handler_safe [gy_handler_safe]: "handler_safe l1_NOTIFY_LISTENER_DEPENDENCY"
  by (rule handler_safeI [OF l1_NOTIFY_LISTENER_DEPENDENCY_def LISTENER_DEPENDENCY_NOTIFY_safe])

lemma NOTIFY_LISTENER_NAT_IP_EVENT_handler_safe [gy_handler_safe]: "handler_safe l1_NOTIFY_LISTENER_NAT_IP_EVENT"
  by (rule handler_safeI [OF l1_NOTIFY_LISTENER_NAT_IP_EVENT_def LISTENER_NAT_IP_EVENT_safe])

lemma NOTIFY_LISTENER_DOMAIN_EVENT_handler_safe [gy_handler_safe]: "handler_safe l1_NOTIFY_LISTENER_DOMAIN_EVENT"
  by (rule handler_safeI [OF l1_NOTIFY_LISTENER_DOMAIN_EVENT_def LISTENER_DOMAIN_NOTIFY_safe])

lemma NOTIFY_LISTEN_CLUSTER_INFO_handler_safe [gy_handler_safe]: "handler_safe l1_NOTIFY_LISTEN_CLUSTER_INFO"
  by (rule handler_safeI [OF l1_NOTIFY_LISTEN_CLUSTER_INFO_def LISTENER_CLUSTER_NOTIFY_safe])

lemma NOTIFY_SM_ALERT_ADEF_NEW_handler_safe [gy_handler_safe]: "handler_safe l1_NOTIFY_SM_ALERT_ADEF_NEW"
  by (rule handler_safeI [OF l1_NOTIFY_SM_ALERT_ADEF_NEW_def SM_ALERT_ADEF_NEW_safe])

lemma NOTIFY_SM_ALERT_ADEF_UPD_handler_safe [gy_handler_safe]: "handler_safe l1_NOTIFY_SM_ALERT_ADEF_UPD"
  by (rule handler_safeI [OF l1_NOTIFY_SM_ALERT_ADEF_UPD_def SM_ALERT_ADEF_UPD_safe])

lemma NOTIFY_SM_ALERT_STAT_DISABLE_handler_safe [gy_handler_safe]: "handler_safe l1_NOTIFY_SM_ALERT_STAT_DISABLE"
  by (rule handler_safeI [OF l1_NOTIFY_SM_ALERT_STAT_DISABLE_def SM_ALERT_STAT_DISABLE_safe])

lemma NOTIFY_LISTENER_DAY_STATS_handler_safe [gy_handler_safe]: "handler_safe l1_NOTIFY_LISTENER_DAY_STATS"
  by (rule handler_safeI [OF l1_NOTIFY_LISTENER_DAY_STATS_def LISTENER_DAY_STATS_safe])

lemma NOTIFY_NAT_TCP_handler_safe [gy_handler_safe]: "handler_safe l1_NOTIFY_NAT_TCP"
  by (rule handler_safeI [OF l1_NOTIFY_NAT_TCP_def NAT_TCP_NOTIFY_safe])

lemma NOTIFY_SHYAMA_CLI_TCP_INFO_handler_safe [gy_handler_safe]: "handler_safe l1_NOTIFY_SHYAMA_CLI_TCP_INFO"
  by (rule handler_safeI [OF l1_NOTIFY_SHYAMA_CLI_TCP_INFO_def SHYAMA_CLI_TCP_INFO_safe])

lemma NOTIFY_SHYAMA_SER_TCP_INFO_handler_safe [gy_handler_safe]: "handler_safe l1_NOTIFY_SHYAMA_SER_TCP_INFO"
  by (rule handler_safeI [OF l1_NOTIFY_SHYAMA_SER_TCP_INFO_def SHYAMA_SER_TCP_INFO_safe])

lemma NOTIFY_SM_SVC_CLUSTER_MESH_handler_safe [gy_handler_safe]: "handler_safe l1_NOTIFY_SM_SVC_CLUSTER_MESH"
  by (rule handler_safeI [OF l1_NOTIFY_SM_SVC_CLUSTER_MESH_def SM_SVC_CLUSTER_MESH_safe])

lemma NOTIFY_SM_SVC_NAT_IP_CLUSTER_handler_safe [gy_handler_safe]: "handler_safe l1_NOTIFY_SM_SVC_NAT_IP_CLUSTER"
  by (rule handler_safeI [OF l1_NOTIFY_SM_SVC_NAT_IP_CLUSTER_def SM_SVC_NAT_IP_CLUSTER_safe])

lemma NOTIFY_MM_LISTENER_ISSUE_RESOL_handler_safe [gy_handler_safe]: "handler_safe l1_NOTIFY_MM_LISTENER_ISSUE_RESOL"
  by (rule handler_safeI [OF l1_NOTIFY_MM_LISTENER_ISSUE_RESOL_def MM_LISTENER_ISSUE_RESOL_safe])

lemma NOTIFY_MM_LISTENER_DEPENDS_handler_safe [gy_handler_safe]: "handler_safe l1_NOTIFY_MM_LISTENER_DEPENDS"
  by (rule handler_safeI [OF l1_NOTIFY_MM_LISTENER_DEPENDS_def MM_LISTENER_DEPENDS_safe])

lemma NOTIFY_MM_LISTENER_PING_handler_safe [gy_handler_safe]: "handler_safe l1_NOTIFY_MM_LISTENER_PING"
  by (rule handler_safeI [OF l1_NOTIFY_MM_LISTENER_PING_def MM_LISTENER_PING_safe])

lemma NOTIFY_MM_LISTENER_DELETE_handler_safe [gy_handler_safe]: "handler_safe l1_NOTIFY_MM_LISTENER_DELETE"
  by (rule handler_safeI [OF l1_NOTIFY_MM_LISTENER_DELETE_def MM_LISTENER_DELETE_safe])

lemma NOTIFY_TASK_AGGR_handler_safe [gy_handler_safe]: "handler_safe l1_NOTIFY_TASK_AGGR"
  by (rule handler_safeI [OF l1_NOTIFY_TASK_AGGR_def TASK_AGGR_NOTIFY_safe])

lemma NOTIFY_AGGR_TASK_HIST_STATS_handler_safe [gy_handler_safe]: "handler_safe l1_NOTIFY_AGGR_TASK_HIST_STATS"
  by (rule handler_safeI [OF l1_NOTIFY_AGGR_TASK_HIST_STATS_def AGGR_TASK_HIST_STATS_safe])

lemma NOTIFY_PING_TASK_AGGR_handler_safe [gy_handler_safe]: "handler_safe l1_NOTIFY_PING_TASK_AGGR"
  by (rule handler_safeI [OF l1_NOTIFY_PING_TASK_AGGR_def PING_TASK_AGGR_safe])

lemma NOTIFY_MM_TASK_AGGR_PING_handler_safe [gy_handler_safe]: "handler_safe l1_NOTIFY_MM_TASK_AGGR_PING"
  by (rule handler_safeI [OF l1_NOTIFY_MM_TASK_AGGR_PING_def MM_TASK_AGGR_PING_safe])

lemma NOTIFY_MM_TASK_AGGR_DEL_handler_safe [gy_handler_safe]: "handler_safe l1_NOTIFY_MM_TASK_AGGR_DEL"
  by (rule handler_safeI [OF l1_NOTIFY_MM_TASK_AGGR_DEL_def MM_TASK_AGGR_DEL_safe])

lemma NOTIFY_MM_AGGR_TASK_STATE_handler_safe [gy_handler_safe]: "handler_safe l1_NOTIFY_MM_AGGR_TASK_STATE"
  by (rule handler_safeI [OF l1_NOTIFY_MM_AGGR_TASK_STATE_def AGGR_TASK_STATE_NOTIFY_safe])

lemma NOTIFY_HOST_STATE_handler_safe [gy_handler_safe]: "handler_safe l1_NOTIFY_HOST_STATE"
  by (rule handler_safeI [OF l1_NOTIFY_HOST_STATE_def HOST_STATE_NOTIFY_safe])

lemma NOTIFY_HOST_STATE__V000100_handler_safe [gy_handler_safe]: "handler_safe l1_NOTIFY_HOST_STATE__V000100"
  by (rule handler_safeI [OF l1_NOTIFY_HOST_STATE__V000100_def HOST_STATE_NOTIFY__V000100_safe])

lemma NOTIFY_HOST_INFO_handler_safe [gy_handler_safe]: "handler_safe l1_NOTIFY_HOST_INFO"
  by (rule handler_safeI [OF l1_NOTIFY_HOST_INFO_def HOST_INFO_NOTIFY_safe])

lemma NOTIFY_HOST_CPU_MEM_CHANGE_handler_safe [gy_handler_safe]: "handler_safe l1_NOTIFY_HOST_CPU_MEM_CHANGE"
  by (rule handler_safeI [OF l1_NOTIFY_HOST_CPU_MEM_CHANGE_def HOST_CPU_MEM_CHANGE_safe])

lemma NOTIFY_NOTIFICATION_MSG_handler_safe [gy_handler_safe]: "handler_safe l1_NOTIFY_NOTIFICATION_MSG"
  by (rule handler_safeI [OF l1_NOTIFY_NOTIFICATION_MSG_def NOTIFICATION_MSG_safe])

lemma NOTIFY_MADHAVA_LIST_handler_safe [gy_handler_safe]: "handler_safe l1_NOTIFY_MADHAVA_LIST"
  by (rule handler_safeI [OF l1_NOTIFY_MADHAVA_LIST_def MADHAVA_LIST_safe])

lemma NOTIFY_SM_REQ_TRACE_DEF_NEW_handler_safe [gy_handler_safe]: "handler_safe l1_NOTIFY_SM_REQ_TRACE_DEF_NEW"
  by (rule handler_safeI [OF l1_NOTIFY_SM_REQ_TRACE_DEF_NEW_def SM_REQ_TRACE_DEF_NEW_safe])

lemma NOTIFY_SM_REQ_TRACE_DEF_DISABLE_handler_safe [gy_handler_safe]: "handler_safe l1_NOTIFY_SM_REQ_TRACE_DEF_DISABLE"
  by (rule handler_safeI [OF l1_NOTIFY_SM_REQ_TRACE_DEF_DISABLE_def SM_REQ_TRACE_DEF_DISABLE_safe])

lemma NOTIFY_REQ_TRACE_STATUS_handler_safe [gy_handler_safe]: "handler_safe l1_NOTIFY_REQ_TRACE_STATUS"
  by (rule handler_safeI [OF l1_NOTIFY_REQ_TRACE_STATUS_def REQ_TRACE_STATUS_safe])

lemma local_handlers_safe [gy_handler_safe]:
  "handler_safe l1_NOTIFY_SHYAMA_MADHAVA_STATUS" "handler_safe l1_NOTIFY_PARTHA_STATUS"
  "handler_safe l1_NOTIFY_MADHAVA_MADHAVA_STATUS" "handler_safe l1_NOTIFY_PING_CONN"
  by (auto intro!: handler_safe_const simp: l1_NOTIFY_SHYAMA_MADHAVA_STATUS_def
      l1_NOTIFY_PARTHA_STATUS_def l1_NOTIFY_MADHAVA_MADHAVA_STATUS_def l1_NOTIFY_PING_CONN_def
      invalid_msg_def)

lemma NOTIFY_SM_PARTHA_IDENT_handler_safe [gy_handler_safe]: "handler_safe l1_NOTIFY_SM_PARTHA_IDENT"
  by (rule handler_safe_const)
    (auto simp: l1_NOTIFY_SM_PARTHA_IDENT_def invalid_msg_def event_hdr_nevents
      SM_PARTHA_IDENT_NOTIFY_validate_def array_validate_eq Let_def)

text \<open>\<open>CPU_MEM_STATE_NOTIFY::validate\<close> reads its length members before the length of the message is
  known to reach them.\<close>

lemma NOTIFY_CPU_MEM_STATE_safe:
  assumes "event_hdr_in h m pn" and "from_host HOST_PARTHA c \<longrightarrow> nevents_of m pn = 1 \<longrightarrow> pn + 206 \<le> length m"
  shows "\<exists>a st m'. l1_NOTIFY_CPU_MEM_STATE c h m pn = Some (a, st, m') \<and> payload_only h pn m m'"
proof (cases "from_host HOST_PARTHA c")
  case True
  then obtain m' where m': "CPU_MEM_STATE_NOTIFY_validate h m pn = Some (CPU_MEM_STATE_NOTIFY_wf h m pn, m')"
      "same_off m m' (pn + 208) (pn + act_len h - 16)"
    using CPU_MEM_STATE_NOTIFY_validate_reach [OF assms(1)] assms(2) by auto
  have "same_off m m' (pn + 8) (pn + act_len h - 16)" by (rule same_off_mono [OF m'(2)]) simp_all
  then show ?thesis using m'(1) True
    by (auto simp: l1_NOTIFY_CPU_MEM_STATE_def l1_sched_valid_def invalid_msg_def payload_only_def)
qed (simp add: l1_NOTIFY_CPU_MEM_STATE_def l1_sched_valid_def invalid_msg_def payload_only_def)

lemma l1_event_safe:
  assumes "hdr_ok h" and "event_hdr_in h m pn"
    and "t = NOTIFY_CPU_MEM_STATE \<Longrightarrow> from_host HOST_PARTHA c \<longrightarrow> nevents_of m pn = 1 \<longrightarrow> pn + 206 \<le> length m"
  shows "\<exists>a st m'. l1_event t c h m pn = Some (a, st, m') \<and> payload_only h pn m m'"
proof -
  have safe: "\<exists>a st m'. f c h m pn = Some (a, st, m') \<and> payload_only h pn m m'" if "handler_safe f" for f
    using that assms(1,2) by (simp add: handler_safe_def)
  show ?thesis
    by (cases t) (simp_all add: l1_event_def safe gy_handler_safe NOTIFY_CPU_MEM_STATE_safe [OF assms(2)]
        assms(3))
qed

section \<open>Memory safety of the dispatch\<close>

text \<open>The one message that makes the dispatch read behind the buffer: an event \<open>NOTIFY_CPU_MEM_STATE\<close> of a
  registered Partha with one element, in a buffer that ends before the last length member of the struct.\<close>

definition cpu_mem_short :: "CONNTRACK \<Rightarrow> COMM_HEADER \<Rightarrow> mem \<Rightarrow> nat \<Rightarrow> bool" where
  "cpu_mem_short c h m p \<longleftrightarrow> from_host HOST_PARTHA c \<and> data_type h = comm_type_val COMM_EVENT_NOTIFY \<and>
     fldv m (p + 16) EVENT_NOTIFY_fields ''subtype_'' = notify_val NOTIFY_CPU_MEM_STATE \<and>
     nevents_of m (p + 16) = 1 \<and> length m < p + 24 + 198"

lemma l1_event_notify_safe:
  assumes "hdr_ok h" and "event_hdr_in h m (p + 16)" and "data_type h = comm_type_val COMM_EVENT_NOTIFY"
    and "\<not> cpu_mem_short c h m p"
  shows "\<exists>a st m'. l1_event_notify c h m (p + 16) = Some (a, st, m') \<and> payload_only h (p + 16) m m'"
proof -
  let ?v = "fldv m (p + 16) EVENT_NOTIFY_fields ''subtype_''"
  have f: "fld m (p + 16) EVENT_NOTIFY_fields ''subtype_'' = Some ?v"
    using assms(2) by (intro fld_in) (simp add: gy_size event_hdr_in_def event_in_def)
  show ?thesis
  proof (cases "notify_of ?v")
    case (Some t)
    then have "t = NOTIFY_CPU_MEM_STATE \<Longrightarrow>
        from_host HOST_PARTHA c \<longrightarrow> nevents_of m (p + 16) = 1 \<longrightarrow> p + 16 + 206 \<le> length m"
      using assms(3,4) by (auto simp: cpu_mem_short_def)
    from l1_event_safe [OF assms(1,2) this] Some show ?thesis by (simp add: l1_event_notify_def f)
  qed (simp add: l1_event_notify_def f)
qed

lemma l1_event_notify_short:
  assumes "event_hdr_in h m (p + 16)" and "cpu_mem_short c h m p"
  shows "l1_event_notify c h m (p + 16) = None"
proof -
  note s = assms(2) [unfolded cpu_mem_short_def]
  have f: "fld m (p + 16) EVENT_NOTIFY_fields ''subtype_'' = Some (notify_val NOTIFY_CPU_MEM_STATE)"
    using assms(1) s by (subst fld_in) (simp_all add: gy_size event_hdr_in_def event_in_def)
  have "CPU_MEM_STATE_NOTIFY_validate h m (p + 16) = None"
    by (rule CPU_MEM_STATE_NOTIFY_validate_short [OF assms(1)]) (use s in simp_all)
  then show ?thesis using s
    by (simp add: l1_event_notify_def f l1_event_def l1_NOTIFY_CPU_MEM_STATE_def l1_sched_valid_def)
qed

lemma LISTENER_INFO_REQ_validate_in:
  assumes "q + act_len h \<le> length m + 40"
  shows "\<exists>b m'. LISTENER_INFO_REQ_validate h m q = Some (b, m') \<and> same_off m m' q (q + act_len h - 40)"
proof (cases "48 \<le> act_len h")
  case True
  let ?n = "fldv m q LISTENER_INFO_REQ_fields ''ntcp_listeners_''"
  have "q + 8 + (act_len h - 48) \<le> length m" using True assms by simp
  then obtain b m' where m': "elem_loop (csizeof NEW_LISTENER_t) NEW_LISTENER_get_elem_size NEW_LISTENER_one
      ?n (int (act_len h - 48)) (q + 8) m = Some (b, m')"
      "same_off m m' (q + 8) (q + 8 + (act_len h - 48))"
    using new_listener.elem_loop_correct by blast
  have "same_off m m' q (q + act_len h - 40)"
    by (rule same_off_mono [OF m'(2)]) (use True in simp_all)
  moreover have "fld m q LISTENER_INFO_REQ_fields ''ntcp_listeners_'' = Some ?n"
    using True assms by (intro fld_in) (simp add: gy_size)
  ultimately show ?thesis using True m'(1)
    by (auto simp: LISTENER_INFO_REQ_validate_def of_nat_diff Let_def)
qed (auto simp: LISTENER_INFO_REQ_validate_def)

lemma l1_query_cmd_safe:
  assumes "40 \<le> act_len h" and "p + 16 + act_len h \<le> length m + 16"
  shows "\<exists>a st m'. l1_query_cmd closed c h m (p + 16) = Some (a, st, m') \<and> msg_only h p m m'"
proof -
  have f: "fld m (p + 16) QUERY_CMD_fields ''subtype_'' = Some (fldv m (p + 16) QUERY_CMD_fields ''subtype_'')"
    using assms by (intro fld_in) (simp add: gy_size)
  have "p + 16 + 24 + act_len h \<le> length m + 40" using assms by simp
  then obtain b m' where m': "LISTENER_INFO_REQ_validate h m (p + 16 + 24) = Some (b, m')"
      "same_off m m' (p + 16 + 24) (p + 16 + 24 + act_len h - 40)"
    using LISTENER_INFO_REQ_validate_in by blast
  have "msg_only h p m m'"
    unfolding msg_only_def by (rule same_off_mono [OF m'(2)]) (use assms in simp_all)
  then show ?thesis using m'(1)
    by (auto simp: l1_query_cmd_def f l1_sched_valid_def invalid_msg_def
        split: option.splits QUERY_TYPE_E.splits)
qed

lemma l1_query_resp_safe:
  assumes "48 \<le> act_len h" and "p + act_len h \<le> length m"
  shows "\<exists>a st c'. l1_query_resp c h m (p + 16) = Some (a, st, c', m)"
proof -
  have "fld m (p + 16) QUERY_RESPONSE_fields nm = Some (fldv m (p + 16) QUERY_RESPONSE_fields nm)"
    if "nm \<in> {''seqid_'', ''subtype_'', ''respformat_'', ''is_resp_complete_'', ''resp_len_''}" for nm
    using assms that by (intro fld_in) (auto simp: gy_size)
  then show ?thesis
    by (auto simp: l1_query_resp_def l1_web_json_def QUERY_RESPONSE_validate_def Let_def)
qed

lemma connect_cmds_safe:
  assumes "p + act_len h \<le> length m"
  shows "\<exists>a st m'. l1_mm_connect_cmd g tcurr c h m (p + 16) = Some (a, st, m') \<and> msg_only h p m m'"
    and "\<exists>a st m'. l1_pm_connect_cmd g tcurr c h m (p + 16) = Some (a, st, m') \<and> msg_only h p m m'"
    and "\<exists>a st m'. l1_nm_connect_cmd g tcurr c h m (p + 16) = Some (a, st, m') \<and> msg_only h p m m'"
  unfolding l1_mm_connect_cmd_def l1_pm_connect_cmd_def l1_nm_connect_cmd_def
    MM_CONNECT_CMD_S_validate_def PM_CONNECT_CMD_S_validate_def NM_CONNECT_CMD_S_validate_def
  by (rule l1_connect_safe [OF MM_CONNECT_CMD_S_layout assms MM_CONNECT_CMD_S_validate_fields_result],
      assumption)
    (rule l1_connect_safe [OF PM_CONNECT_CMD_S_layout assms PM_CONNECT_CMD_S_validate_fields_result]
       l1_connect_safe [OF NM_CONNECT_CMD_S_layout assms NM_CONNECT_CMD_S_validate_fields_result],
     assumption)+

lemma l1_reg_resp_safe:
  assumes "resp_ok fs n names m (p + 16) r" and "16 + n \<le> act_len h"
  shows "\<exists>a' st m'. l1_reg_resp s bad a r m = Some (a', st, m') \<and> msg_only h p m m'"
  using resp_ok_msg_only [OF assms] by (auto simp: l1_reg_resp_def invalid_msg_def)

lemma reg_resps_safe:
  assumes "p + act_len h \<le> length m"
  shows "16 + csizeof MS_REGISTER_RESP_S_t \<le> act_len h \<Longrightarrow>
      \<exists>a st m'. l1_ms_register_resp c h m (p + 16) = Some (a, st, m') \<and> msg_only h p m m'"
    and "16 + csizeof MM_CONNECT_RESP_S_t \<le> act_len h \<Longrightarrow>
      \<exists>a st m'. l1_mm_connect_resp c h m (p + 16) = Some (a, st, m') \<and> msg_only h p m m'"
proof -
  show "\<exists>a st m'. l1_ms_register_resp c h m (p + 16) = Some (a, st, m') \<and> msg_only h p m m'"
    if "16 + csizeof MS_REGISTER_RESP_S_t \<le> act_len h"
    unfolding l1_ms_register_resp_def
    by (rule l1_reg_resp_safe [OF MS_REGISTER_RESP_S_validate_ok that]) (use that assms in simp)
  show "\<exists>a st m'. l1_mm_connect_resp c h m (p + 16) = Some (a, st, m') \<and> msg_only h p m m'"
    if "16 + csizeof MM_CONNECT_RESP_S_t \<le> act_len h"
    unfolding l1_mm_connect_resp_def
    by (rule l1_reg_resp_safe [OF MM_CONNECT_RESP_S_validate_ok that]) (use that assms in simp)
qed

lemma l1_message_safe:
  assumes "validate_hdr h p mg" and "msg_in h m p" and "\<not> cpu_mem_short c h m p"
  shows "\<exists>a st c' m'. l1_message g tcurr closed c h m p = Some (a, st, c', m') \<and> msg_only h p m m'"
proof -
  obtain t where t: "data_type h = comm_type_val t" using assms(1) by (auto simp: validate_hdr_iff)
  note v = valid_msg [OF assms(1,2) t]
  have lift: "\<exists>a st c' m'. with_conn c r = Some (a, st, c', m') \<and> msg_only h p m m'"
    if "\<exists>a st m'. r = Some (a, st, m') \<and> msg_only h p m m'" for r
    using that by auto
  have inv: "\<exists>a st m'. invalid_msg [] m = Some (a, st, m') \<and> msg_only h p m m'"
    by (simp add: invalid_msg_def)
  show ?thesis
  proof (cases t)
    case COMM_EVENT_NOTIFY
    then have "event_hdr_in h m (p + 16)" using v by (simp add: event_hdr_in_def event_in_def)
    then obtain a st m' where "l1_event_notify c h m (p + 16) = Some (a, st, m')"
        "payload_only h (p + 16) m m'"
      using l1_event_notify_safe [OF v(1)] assms(3) t COMM_EVENT_NOTIFY by blast
    moreover from this(2) have "msg_only h p m m'"
      unfolding payload_only_def msg_only_def by (rule same_off_mono) (use v(2) in simp_all)
    ultimately show ?thesis using t COMM_EVENT_NOTIFY by (simp add: l1_message_def with_conn_def)
  next
    case COMM_QUERY_CMD
    then show ?thesis using t v lift [OF l1_query_cmd_safe] by (simp add: l1_message_def)
  next
    case COMM_QUERY_RESP
    then show ?thesis using t v l1_query_resp_safe [of h p m c] by (auto simp: l1_message_def)
  qed (use t v inv lift connect_cmds_safe [OF v(3)] reg_resps_safe [OF v(3)] in
      \<open>simp_all add: l1_message_def lift del: with_conn_Some\<close>)
qed

section \<open>The layout a scheduled event has\<close>

definition event_layout :: "NOTIFY_TYPE_E \<Rightarrow> elem_layout option" where
  "event_layout t = (case t of
       NOTIFY_TCP_CONN \<Rightarrow> Some (Var_elems TCP_CONN_NOTIFY_MAX_NUM_CONNS (csizeof TCP_CONN_NOTIFY_t) TCP_CONN_NOTIFY_get_elem_size)
     | NOTIFY_LISTENER_STATE \<Rightarrow> Some (Var_elems LISTENER_STATE_NOTIFY_MAX_NUM_LISTENERS (csizeof LISTENER_STATE_NOTIFY_t) LISTENER_STATE_NOTIFY_get_elem_size)
     | NOTIFY_AGGR_TASK_STATE \<Rightarrow> Some (Var_elems AGGR_TASK_STATE_NOTIFY_MAX_NUM_TASKS (csizeof AGGR_TASK_STATE_NOTIFY_t) AGGR_TASK_STATE_NOTIFY_get_elem_size)
     | NOTIFY_ACTIVE_CONN_STATS \<Rightarrow> Some (Array_elems ACTIVE_CONN_STATS_MAX_NUM_CONNS (csizeof ACTIVE_CONN_STATS_t))
     | NOTIFY_MM_ACTIVE_CONN_STATS \<Rightarrow> Some (Array_elems ACTIVE_CONN_STATS_MAX_NUM_CONNS (csizeof ACTIVE_CONN_STATS_t))
     | NOTIFY_LISTEN_TASKMAP_EVENT \<Rightarrow> Some (Var_elems LISTEN_TASKMAP_NOTIFY_MAX_NUM_LISTENERS (csizeof LISTEN_TASKMAP_NOTIFY_t) LISTEN_TASKMAP_NOTIFY_get_elem_size)
     | NOTIFY_TASK_MINI_ADD \<Rightarrow> Some (First_elem (csizeof TASK_MINI_ADD_t) TASK_MINI_ADD_get_elem_size)
     | NOTIFY_TASK_TOP_PROCS \<Rightarrow> Some (Whole_elem (csizeof TASK_TOP_PROCS_t) TASK_TOP_PROCS_get_elem_size)
     | NOTIFY_CPU_MEM_STATE \<Rightarrow> Some (Whole_elem (csizeof CPU_MEM_STATE_NOTIFY_t) CPU_MEM_STATE_NOTIFY_get_elem_size)
     | NOTIFY_TASK_FULL_ADD \<Rightarrow> Some (Var_elems (2 ^ 32) (csizeof TASK_FULL_ADD_t) TASK_FULL_ADD_get_elem_size)
     | NOTIFY_TASK_HISTOGRAM \<Rightarrow> Some (Array_elems (2 ^ 32) (csizeof TASK_HISTOGRAM_t))
     | NOTIFY_NEW_LISTENER \<Rightarrow> Some (Var_elems NEW_LISTENER_MAX_NUM_LISTENERS (csizeof NEW_LISTENER_t) NEW_LISTENER_get_elem_size)
     | NOTIFY_LISTENER_DEPENDENCY \<Rightarrow> Some (Var_elems LISTENER_DEPENDENCY_NOTIFY_MAX_NUM_LISTENERS (csizeof LISTENER_DEPENDENCY_NOTIFY_t) LISTENER_DEPENDENCY_NOTIFY_get_elem_size)
     | NOTIFY_LISTENER_NAT_IP_EVENT \<Rightarrow> Some (Array_elems LISTENER_NAT_IP_EVENT_MAX_NUM_LISTENERS (csizeof LISTENER_NAT_IP_EVENT_t))
     | NOTIFY_LISTENER_DOMAIN_EVENT \<Rightarrow> Some (Var_elems LISTENER_DOMAIN_NOTIFY_MAX_NUM_LISTENERS (csizeof LISTENER_DOMAIN_NOTIFY_t) LISTENER_DOMAIN_NOTIFY_get_elem_size)
     | NOTIFY_LISTEN_CLUSTER_INFO \<Rightarrow> Some (Var_elems LISTENER_CLUSTER_NOTIFY_MAX_NUM_LISTENERS (csizeof LISTENER_CLUSTER_NOTIFY_t) LISTENER_CLUSTER_NOTIFY_get_elem_size)
     | NOTIFY_SM_ALERT_ADEF_NEW \<Rightarrow> Some (Var_elems SM_ALERT_ADEF_NEW_MAX_NUM_DEFS (csizeof SM_ALERT_ADEF_NEW_t) SM_ALERT_ADEF_NEW_get_elem_size)
     | NOTIFY_SM_ALERT_ADEF_UPD \<Rightarrow> Some (Array_elems (2 ^ 32) (csizeof SM_ALERT_ADEF_UPD_t))
     | NOTIFY_SM_ALERT_STAT_DISABLE \<Rightarrow> Some (Array_elems 1 (csizeof SM_ALERT_STAT_DISABLE_t))
     | NOTIFY_LISTENER_DAY_STATS \<Rightarrow> Some (Array_elems LISTENER_DAY_STATS_MAX_NUM_LISTENERS (csizeof LISTENER_DAY_STATS_t))
     | NOTIFY_NAT_TCP \<Rightarrow> Some (Array_elems NAT_TCP_NOTIFY_MAX_NUM_CONNS (csizeof NAT_TCP_NOTIFY_t))
     | NOTIFY_SHYAMA_CLI_TCP_INFO \<Rightarrow> Some (Array_elems SHYAMA_CLI_TCP_INFO_MAX_NUM_CONNS (csizeof SHYAMA_CLI_TCP_INFO_t))
     | NOTIFY_SHYAMA_SER_TCP_INFO \<Rightarrow> Some (Array_elems SHYAMA_SER_TCP_INFO_MAX_NUM_CONNS (csizeof SHYAMA_SER_TCP_INFO_t))
     | NOTIFY_SM_SVC_CLUSTER_MESH \<Rightarrow> Some (Var_elems SM_SVC_CLUSTER_MESH_MAX_NUM_CLUSTERS (csizeof SM_SVC_CLUSTER_MESH_t) SM_SVC_CLUSTER_MESH_get_elem_size)
     | NOTIFY_SM_SVC_NAT_IP_CLUSTER \<Rightarrow> Some (Array_elems SM_SVC_NAT_IP_CLUSTER_MAX_NUM_LISTENERS (csizeof SM_SVC_NAT_IP_CLUSTER_t))
     | NOTIFY_MM_LISTENER_ISSUE_RESOL \<Rightarrow> Some (Var_elems MM_LISTENER_ISSUE_RESOL_MAX_NUM_LISTENERS (csizeof MM_LISTENER_ISSUE_RESOL_t) MM_LISTENER_ISSUE_RESOL_get_elem_size)
     | NOTIFY_MM_LISTENER_DEPENDS \<Rightarrow> Some (Array_elems (2 ^ 32) (csizeof MM_LISTENER_DEPENDS_t))
     | NOTIFY_MM_LISTENER_PING \<Rightarrow> Some (Array_elems (2 ^ 32) (csizeof MM_LISTENER_PING_t))
     | NOTIFY_MM_LISTENER_DELETE \<Rightarrow> Some (Array_elems (2 ^ 32) (csizeof MM_LISTENER_DELETE_t))
     | NOTIFY_TASK_AGGR \<Rightarrow> Some (Var_elems TASK_AGGR_NOTIFY_MAX_NUM_AGGR_TASK (csizeof TASK_AGGR_NOTIFY_t) TASK_AGGR_NOTIFY_get_elem_size)
     | NOTIFY_AGGR_TASK_HIST_STATS \<Rightarrow> Some (Array_elems (2 ^ 32) (csizeof AGGR_TASK_HIST_STATS_t))
     | NOTIFY_PING_TASK_AGGR \<Rightarrow> Some (Array_elems (2 ^ 32) (csizeof PING_TASK_AGGR_t))
     | NOTIFY_MM_TASK_AGGR_PING \<Rightarrow> Some (Array_elems (2 ^ 32) (csizeof MM_TASK_AGGR_PING_t))
     | NOTIFY_MM_TASK_AGGR_DEL \<Rightarrow> Some (Array_elems (2 ^ 32) (csizeof MM_TASK_AGGR_DEL_t))
     | NOTIFY_MM_AGGR_TASK_STATE \<Rightarrow> Some (Var_elems AGGR_TASK_STATE_NOTIFY_MAX_NUM_TASKS (csizeof AGGR_TASK_STATE_NOTIFY_t) AGGR_TASK_STATE_NOTIFY_get_elem_size)
     | NOTIFY_HOST_STATE \<Rightarrow> Some (Array_elems 1 (csizeof HOST_STATE_NOTIFY_t))
     | NOTIFY_HOST_STATE__V000100 \<Rightarrow> Some (Array_elems 1 (csizeof HOST_STATE_NOTIFY__V000100_t))
     | NOTIFY_HOST_INFO \<Rightarrow> Some (Array_elems 1 (csizeof HOST_INFO_NOTIFY_t))
     | NOTIFY_HOST_CPU_MEM_CHANGE \<Rightarrow> Some (Array_elems 1 (csizeof HOST_CPU_MEM_CHANGE_t))
     | NOTIFY_NOTIFICATION_MSG \<Rightarrow> Some (Var_elems NOTIFICATION_MSG_MAX_NUM_MSG (csizeof NOTIFICATION_MSG_t) NOTIFICATION_MSG_get_elem_size)
     | NOTIFY_MADHAVA_LIST \<Rightarrow> Some (Array_elems (2 ^ 32) (csizeof MADHAVA_LIST_t))
     | NOTIFY_SM_REQ_TRACE_DEF_NEW \<Rightarrow> Some (Var_elems SM_REQ_TRACE_DEF_NEW_MAX_NUM_DEFS (csizeof SM_REQ_TRACE_DEF_NEW_t) SM_REQ_TRACE_DEF_NEW_get_elem_size)
     | NOTIFY_SM_REQ_TRACE_DEF_DISABLE \<Rightarrow> Some (Array_elems (2 ^ 32) (csizeof SM_REQ_TRACE_DEF_DISABLE_t))
     | NOTIFY_REQ_TRACE_STATUS \<Rightarrow> Some (Array_elems REQ_TRACE_STATUS_MAX_REQ_TRACE_ELEM (csizeof REQ_TRACE_STATUS_t))
     | _ \<Rightarrow> None)"

section \<open>Which events are scheduled\<close>

lemma NOTIFY_TCP_CONN_sched [gy_sched]:
  "handler_sched l1_NOTIFY_TCP_CONN HOST_PARTHA TTYPE_L2_MISC
     (Some (Var_elems TCP_CONN_NOTIFY_MAX_NUM_CONNS (csizeof TCP_CONN_NOTIFY_t) TCP_CONN_NOTIFY_get_elem_size))"
  by (rule handler_schedI [OF l1_NOTIFY_TCP_CONN_def]) (simp only: option.pred_inject TCP_CONN_NOTIFY_accepts)

lemma NOTIFY_LISTENER_STATE_sched [gy_sched]:
  "handler_sched l1_NOTIFY_LISTENER_STATE HOST_PARTHA TTYPE_L2_MISC
     (Some (Var_elems LISTENER_STATE_NOTIFY_MAX_NUM_LISTENERS (csizeof LISTENER_STATE_NOTIFY_t) LISTENER_STATE_NOTIFY_get_elem_size))"
  by (rule handler_schedI [OF l1_NOTIFY_LISTENER_STATE_def]) (simp only: option.pred_inject LISTENER_STATE_NOTIFY_accepts)

lemma NOTIFY_AGGR_TASK_STATE_sched [gy_sched]:
  "handler_sched l1_NOTIFY_AGGR_TASK_STATE HOST_PARTHA TTYPE_L2_MISC
     (Some (Var_elems AGGR_TASK_STATE_NOTIFY_MAX_NUM_TASKS (csizeof AGGR_TASK_STATE_NOTIFY_t) AGGR_TASK_STATE_NOTIFY_get_elem_size))"
  by (rule handler_schedI [OF l1_NOTIFY_AGGR_TASK_STATE_def]) (simp only: option.pred_inject AGGR_TASK_STATE_NOTIFY_accepts)

lemma NOTIFY_ACTIVE_CONN_STATS_sched [gy_sched]:
  "handler_sched l1_NOTIFY_ACTIVE_CONN_STATS HOST_PARTHA TTYPE_L2_MISC
     (Some (Array_elems ACTIVE_CONN_STATS_MAX_NUM_CONNS (csizeof ACTIVE_CONN_STATS_t)))"
  by (rule handler_schedI [OF l1_NOTIFY_ACTIVE_CONN_STATS_def]) (simp only: option.pred_inject ACTIVE_CONN_STATS_accepts)

lemma NOTIFY_MM_ACTIVE_CONN_STATS_sched [gy_sched]:
  "handler_sched l1_NOTIFY_MM_ACTIVE_CONN_STATS HOST_MADHAVA TTYPE_L2_MISC
     (Some (Array_elems ACTIVE_CONN_STATS_MAX_NUM_CONNS (csizeof ACTIVE_CONN_STATS_t)))"
  by (rule handler_schedI [OF l1_NOTIFY_MM_ACTIVE_CONN_STATS_def]) (simp only: option.pred_inject ACTIVE_CONN_STATS_accepts)

lemma NOTIFY_LISTEN_TASKMAP_EVENT_sched [gy_sched]:
  "handler_sched l1_NOTIFY_LISTEN_TASKMAP_EVENT HOST_PARTHA TTYPE_L2_MISC
     (Some (Var_elems LISTEN_TASKMAP_NOTIFY_MAX_NUM_LISTENERS (csizeof LISTEN_TASKMAP_NOTIFY_t) LISTEN_TASKMAP_NOTIFY_get_elem_size))"
  by (rule handler_schedI [OF l1_NOTIFY_LISTEN_TASKMAP_EVENT_def]) (simp only: option.pred_inject LISTEN_TASKMAP_NOTIFY_accepts)

lemma NOTIFY_TASK_MINI_ADD_sched [gy_sched]:
  "handler_sched l1_NOTIFY_TASK_MINI_ADD HOST_PARTHA TTYPE_L2_MISC
     (Some (First_elem (csizeof TASK_MINI_ADD_t) TASK_MINI_ADD_get_elem_size))"
  by (rule handler_schedI [OF l1_NOTIFY_TASK_MINI_ADD_def]) (simp only: option.pred_inject TASK_MINI_ADD_accepts)

lemma NOTIFY_TASK_FULL_ADD_sched [gy_sched]:
  "handler_sched l1_NOTIFY_TASK_FULL_ADD HOST_PARTHA TTYPE_L2_MISC
     (Some (Var_elems (2 ^ 32) (csizeof TASK_FULL_ADD_t) TASK_FULL_ADD_get_elem_size))"
  by (rule handler_schedI [OF l1_NOTIFY_TASK_FULL_ADD_def]) (simp only: option.pred_inject TASK_FULL_ADD_accepts)

lemma NOTIFY_TASK_TOP_PROCS_sched [gy_sched]:
  "handler_sched l1_NOTIFY_TASK_TOP_PROCS HOST_PARTHA TTYPE_L2_MISC
     (Some (Whole_elem (csizeof TASK_TOP_PROCS_t) TASK_TOP_PROCS_get_elem_size))"
  by (rule handler_schedI [OF l1_NOTIFY_TASK_TOP_PROCS_def]) (simp only: option.pred_inject TASK_TOP_PROCS_accepts)

lemma NOTIFY_TASK_HISTOGRAM_sched [gy_sched]:
  "handler_sched l1_NOTIFY_TASK_HISTOGRAM HOST_PARTHA TTYPE_L2_MISC
     (Some (Array_elems (2 ^ 32) (csizeof TASK_HISTOGRAM_t)))"
  by (rule handler_schedI [OF l1_NOTIFY_TASK_HISTOGRAM_def]) (simp only: option.pred_inject TASK_HISTOGRAM_accepts)

lemma NOTIFY_NEW_LISTENER_sched [gy_sched]:
  "handler_sched l1_NOTIFY_NEW_LISTENER HOST_PARTHA TTYPE_L2_MISC
     (Some (Var_elems NEW_LISTENER_MAX_NUM_LISTENERS (csizeof NEW_LISTENER_t) NEW_LISTENER_get_elem_size))"
  by (rule handler_schedI [OF l1_NOTIFY_NEW_LISTENER_def]) (simp only: option.pred_inject NEW_LISTENER_accepts)

lemma NOTIFY_LISTENER_DEPENDENCY_sched [gy_sched]:
  "handler_sched l1_NOTIFY_LISTENER_DEPENDENCY HOST_PARTHA TTYPE_L2_MISC
     (Some (Var_elems LISTENER_DEPENDENCY_NOTIFY_MAX_NUM_LISTENERS (csizeof LISTENER_DEPENDENCY_NOTIFY_t) LISTENER_DEPENDENCY_NOTIFY_get_elem_size))"
  by (rule handler_schedI [OF l1_NOTIFY_LISTENER_DEPENDENCY_def]) (simp only: option.pred_inject LISTENER_DEPENDENCY_NOTIFY_accepts)

lemma NOTIFY_LISTENER_NAT_IP_EVENT_sched [gy_sched]:
  "handler_sched l1_NOTIFY_LISTENER_NAT_IP_EVENT HOST_PARTHA TTYPE_L2_MISC
     (Some (Array_elems LISTENER_NAT_IP_EVENT_MAX_NUM_LISTENERS (csizeof LISTENER_NAT_IP_EVENT_t)))"
  by (rule handler_schedI [OF l1_NOTIFY_LISTENER_NAT_IP_EVENT_def]) (simp only: option.pred_inject LISTENER_NAT_IP_EVENT_accepts)

lemma NOTIFY_LISTENER_DOMAIN_EVENT_sched [gy_sched]:
  "handler_sched l1_NOTIFY_LISTENER_DOMAIN_EVENT HOST_PARTHA TTYPE_L2_MISC
     (Some (Var_elems LISTENER_DOMAIN_NOTIFY_MAX_NUM_LISTENERS (csizeof LISTENER_DOMAIN_NOTIFY_t) LISTENER_DOMAIN_NOTIFY_get_elem_size))"
  by (rule handler_schedI [OF l1_NOTIFY_LISTENER_DOMAIN_EVENT_def]) (simp only: option.pred_inject LISTENER_DOMAIN_NOTIFY_accepts)

lemma NOTIFY_LISTEN_CLUSTER_INFO_sched [gy_sched]:
  "handler_sched l1_NOTIFY_LISTEN_CLUSTER_INFO HOST_PARTHA TTYPE_L2_MISC
     (Some (Var_elems LISTENER_CLUSTER_NOTIFY_MAX_NUM_LISTENERS (csizeof LISTENER_CLUSTER_NOTIFY_t) LISTENER_CLUSTER_NOTIFY_get_elem_size))"
  by (rule handler_schedI [OF l1_NOTIFY_LISTEN_CLUSTER_INFO_def]) (simp only: option.pred_inject LISTENER_CLUSTER_NOTIFY_accepts)

lemma NOTIFY_SM_ALERT_ADEF_NEW_sched [gy_sched]:
  "handler_sched l1_NOTIFY_SM_ALERT_ADEF_NEW HOST_SHYAMA TTYPE_L2_ALERT
     (Some (Var_elems SM_ALERT_ADEF_NEW_MAX_NUM_DEFS (csizeof SM_ALERT_ADEF_NEW_t) SM_ALERT_ADEF_NEW_get_elem_size))"
  by (rule handler_schedI [OF l1_NOTIFY_SM_ALERT_ADEF_NEW_def]) (simp only: option.pred_inject SM_ALERT_ADEF_NEW_accepts)

lemma NOTIFY_SM_ALERT_ADEF_UPD_sched [gy_sched]:
  "handler_sched l1_NOTIFY_SM_ALERT_ADEF_UPD HOST_SHYAMA TTYPE_L2_ALERT
     (Some (Array_elems (2 ^ 32) (csizeof SM_ALERT_ADEF_UPD_t)))"
  by (rule handler_schedI [OF l1_NOTIFY_SM_ALERT_ADEF_UPD_def]) (simp only: option.pred_inject SM_ALERT_ADEF_UPD_accepts)

lemma NOTIFY_SM_ALERT_STAT_DISABLE_sched [gy_sched]:
  "handler_sched l1_NOTIFY_SM_ALERT_STAT_DISABLE HOST_SHYAMA TTYPE_L2_ALERT
     (Some (Array_elems 1 (csizeof SM_ALERT_STAT_DISABLE_t)))"
  by (rule handler_schedI [OF l1_NOTIFY_SM_ALERT_STAT_DISABLE_def]) (simp only: option.pred_inject SM_ALERT_STAT_DISABLE_accepts)

lemma NOTIFY_LISTENER_DAY_STATS_sched [gy_sched]:
  "handler_sched l1_NOTIFY_LISTENER_DAY_STATS HOST_PARTHA TTYPE_L2_MISC
     (Some (Array_elems LISTENER_DAY_STATS_MAX_NUM_LISTENERS (csizeof LISTENER_DAY_STATS_t)))"
  by (rule handler_schedI [OF l1_NOTIFY_LISTENER_DAY_STATS_def]) (simp only: option.pred_inject LISTENER_DAY_STATS_accepts)

lemma NOTIFY_NAT_TCP_sched [gy_sched]:
  "handler_sched l1_NOTIFY_NAT_TCP HOST_PARTHA TTYPE_L2_MISC
     (Some (Array_elems NAT_TCP_NOTIFY_MAX_NUM_CONNS (csizeof NAT_TCP_NOTIFY_t)))"
  by (rule handler_schedI [OF l1_NOTIFY_NAT_TCP_def]) (simp only: option.pred_inject NAT_TCP_NOTIFY_accepts)

lemma NOTIFY_SHYAMA_CLI_TCP_INFO_sched [gy_sched]:
  "handler_sched l1_NOTIFY_SHYAMA_CLI_TCP_INFO HOST_SHYAMA TTYPE_L2_MISC
     (Some (Array_elems SHYAMA_CLI_TCP_INFO_MAX_NUM_CONNS (csizeof SHYAMA_CLI_TCP_INFO_t)))"
  by (rule handler_schedI [OF l1_NOTIFY_SHYAMA_CLI_TCP_INFO_def]) (simp only: option.pred_inject SHYAMA_CLI_TCP_INFO_accepts)

lemma NOTIFY_SHYAMA_SER_TCP_INFO_sched [gy_sched]:
  "handler_sched l1_NOTIFY_SHYAMA_SER_TCP_INFO HOST_SHYAMA TTYPE_L2_MISC
     (Some (Array_elems SHYAMA_SER_TCP_INFO_MAX_NUM_CONNS (csizeof SHYAMA_SER_TCP_INFO_t)))"
  by (rule handler_schedI [OF l1_NOTIFY_SHYAMA_SER_TCP_INFO_def]) (simp only: option.pred_inject SHYAMA_SER_TCP_INFO_accepts)

lemma NOTIFY_SM_SVC_CLUSTER_MESH_sched [gy_sched]:
  "handler_sched l1_NOTIFY_SM_SVC_CLUSTER_MESH HOST_SHYAMA TTYPE_L2_MISC
     (Some (Var_elems SM_SVC_CLUSTER_MESH_MAX_NUM_CLUSTERS (csizeof SM_SVC_CLUSTER_MESH_t) SM_SVC_CLUSTER_MESH_get_elem_size))"
  by (rule handler_schedI [OF l1_NOTIFY_SM_SVC_CLUSTER_MESH_def]) (simp only: option.pred_inject SM_SVC_CLUSTER_MESH_accepts)

lemma NOTIFY_SM_SVC_NAT_IP_CLUSTER_sched [gy_sched]:
  "handler_sched l1_NOTIFY_SM_SVC_NAT_IP_CLUSTER HOST_SHYAMA TTYPE_L2_MISC
     (Some (Array_elems SM_SVC_NAT_IP_CLUSTER_MAX_NUM_LISTENERS (csizeof SM_SVC_NAT_IP_CLUSTER_t)))"
  by (rule handler_schedI [OF l1_NOTIFY_SM_SVC_NAT_IP_CLUSTER_def]) (simp only: option.pred_inject SM_SVC_NAT_IP_CLUSTER_accepts)

lemma NOTIFY_MM_LISTENER_ISSUE_RESOL_sched [gy_sched]:
  "handler_sched l1_NOTIFY_MM_LISTENER_ISSUE_RESOL HOST_MADHAVA TTYPE_L2_MISC
     (Some (Var_elems MM_LISTENER_ISSUE_RESOL_MAX_NUM_LISTENERS (csizeof MM_LISTENER_ISSUE_RESOL_t) MM_LISTENER_ISSUE_RESOL_get_elem_size))"
  by (rule handler_schedI [OF l1_NOTIFY_MM_LISTENER_ISSUE_RESOL_def]) (simp only: option.pred_inject MM_LISTENER_ISSUE_RESOL_accepts)

lemma NOTIFY_MM_LISTENER_DEPENDS_sched [gy_sched]:
  "handler_sched l1_NOTIFY_MM_LISTENER_DEPENDS HOST_MADHAVA TTYPE_L2_MISC
     (Some (Array_elems (2 ^ 32) (csizeof MM_LISTENER_DEPENDS_t)))"
  by (rule handler_schedI [OF l1_NOTIFY_MM_LISTENER_DEPENDS_def]) (simp only: option.pred_inject MM_LISTENER_DEPENDS_accepts)

lemma NOTIFY_MM_LISTENER_PING_sched [gy_sched]:
  "handler_sched l1_NOTIFY_MM_LISTENER_PING HOST_MADHAVA TTYPE_L2_MISC
     (Some (Array_elems (2 ^ 32) (csizeof MM_LISTENER_PING_t)))"
  by (rule handler_schedI [OF l1_NOTIFY_MM_LISTENER_PING_def]) (simp only: option.pred_inject MM_LISTENER_PING_accepts)

lemma NOTIFY_MM_LISTENER_DELETE_sched [gy_sched]:
  "handler_sched l1_NOTIFY_MM_LISTENER_DELETE HOST_MADHAVA TTYPE_L2_MISC
     (Some (Array_elems (2 ^ 32) (csizeof MM_LISTENER_DELETE_t)))"
  by (rule handler_schedI [OF l1_NOTIFY_MM_LISTENER_DELETE_def]) (simp only: option.pred_inject MM_LISTENER_DELETE_accepts)

lemma NOTIFY_TASK_AGGR_sched [gy_sched]:
  "handler_sched l1_NOTIFY_TASK_AGGR HOST_PARTHA TTYPE_L2_MISC
     (Some (Var_elems TASK_AGGR_NOTIFY_MAX_NUM_AGGR_TASK (csizeof TASK_AGGR_NOTIFY_t) TASK_AGGR_NOTIFY_get_elem_size))"
  by (rule handler_schedI [OF l1_NOTIFY_TASK_AGGR_def]) (simp only: option.pred_inject TASK_AGGR_NOTIFY_accepts)

lemma NOTIFY_AGGR_TASK_HIST_STATS_sched [gy_sched]:
  "handler_sched l1_NOTIFY_AGGR_TASK_HIST_STATS HOST_PARTHA TTYPE_L2_MISC
     (Some (Array_elems (2 ^ 32) (csizeof AGGR_TASK_HIST_STATS_t)))"
  by (rule handler_schedI [OF l1_NOTIFY_AGGR_TASK_HIST_STATS_def]) (simp only: option.pred_inject AGGR_TASK_HIST_STATS_accepts)

lemma NOTIFY_PING_TASK_AGGR_sched [gy_sched]:
  "handler_sched l1_NOTIFY_PING_TASK_AGGR HOST_PARTHA TTYPE_L2_MISC
     (Some (Array_elems (2 ^ 32) (csizeof PING_TASK_AGGR_t)))"
  by (rule handler_schedI [OF l1_NOTIFY_PING_TASK_AGGR_def]) (simp only: option.pred_inject PING_TASK_AGGR_accepts)

lemma NOTIFY_MM_TASK_AGGR_PING_sched [gy_sched]:
  "handler_sched l1_NOTIFY_MM_TASK_AGGR_PING HOST_MADHAVA TTYPE_L2_MISC
     (Some (Array_elems (2 ^ 32) (csizeof MM_TASK_AGGR_PING_t)))"
  by (rule handler_schedI [OF l1_NOTIFY_MM_TASK_AGGR_PING_def]) (simp only: option.pred_inject MM_TASK_AGGR_PING_accepts)

lemma NOTIFY_MM_TASK_AGGR_DEL_sched [gy_sched]:
  "handler_sched l1_NOTIFY_MM_TASK_AGGR_DEL HOST_MADHAVA TTYPE_L2_MISC
     (Some (Array_elems (2 ^ 32) (csizeof MM_TASK_AGGR_DEL_t)))"
  by (rule handler_schedI [OF l1_NOTIFY_MM_TASK_AGGR_DEL_def]) (simp only: option.pred_inject MM_TASK_AGGR_DEL_accepts)

lemma NOTIFY_MM_AGGR_TASK_STATE_sched [gy_sched]:
  "handler_sched l1_NOTIFY_MM_AGGR_TASK_STATE HOST_MADHAVA TTYPE_L2_MISC
     (Some (Var_elems AGGR_TASK_STATE_NOTIFY_MAX_NUM_TASKS (csizeof AGGR_TASK_STATE_NOTIFY_t) AGGR_TASK_STATE_NOTIFY_get_elem_size))"
  by (rule handler_schedI [OF l1_NOTIFY_MM_AGGR_TASK_STATE_def]) (simp only: option.pred_inject AGGR_TASK_STATE_NOTIFY_accepts)

lemma NOTIFY_CPU_MEM_STATE_sched [gy_sched]:
  "handler_sched l1_NOTIFY_CPU_MEM_STATE HOST_PARTHA TTYPE_L2_MISC
     (Some (Whole_elem (csizeof CPU_MEM_STATE_NOTIFY_t) CPU_MEM_STATE_NOTIFY_get_elem_size))"
  by (rule handler_schedI [OF l1_NOTIFY_CPU_MEM_STATE_def]) (simp only: option.pred_inject CPU_MEM_STATE_NOTIFY_accepts)

lemma NOTIFY_HOST_STATE_sched [gy_sched]:
  "handler_sched l1_NOTIFY_HOST_STATE HOST_PARTHA TTYPE_L2_MISC
     (Some (Array_elems 1 (csizeof HOST_STATE_NOTIFY_t)))"
  by (rule handler_schedI [OF l1_NOTIFY_HOST_STATE_def]) (simp only: option.pred_inject HOST_STATE_NOTIFY_accepts)

lemma NOTIFY_HOST_STATE__V000100_sched [gy_sched]:
  "handler_sched l1_NOTIFY_HOST_STATE__V000100 HOST_PARTHA TTYPE_L2_MISC
     (Some (Array_elems 1 (csizeof HOST_STATE_NOTIFY__V000100_t)))"
  by (rule handler_schedI [OF l1_NOTIFY_HOST_STATE__V000100_def]) (simp only: option.pred_inject HOST_STATE_NOTIFY__V000100_accepts)

lemma NOTIFY_HOST_INFO_sched [gy_sched]:
  "handler_sched l1_NOTIFY_HOST_INFO HOST_PARTHA TTYPE_L2_MISC
     (Some (Array_elems 1 (csizeof HOST_INFO_NOTIFY_t)))"
  by (rule handler_schedI [OF l1_NOTIFY_HOST_INFO_def]) (simp only: option.pred_inject HOST_INFO_NOTIFY_accepts)

lemma NOTIFY_HOST_CPU_MEM_CHANGE_sched [gy_sched]:
  "handler_sched l1_NOTIFY_HOST_CPU_MEM_CHANGE HOST_PARTHA TTYPE_L2_MISC
     (Some (Array_elems 1 (csizeof HOST_CPU_MEM_CHANGE_t)))"
  by (rule handler_schedI [OF l1_NOTIFY_HOST_CPU_MEM_CHANGE_def]) (simp only: option.pred_inject HOST_CPU_MEM_CHANGE_accepts)

lemma NOTIFY_NOTIFICATION_MSG_sched [gy_sched]:
  "handler_sched l1_NOTIFY_NOTIFICATION_MSG HOST_PARTHA TTYPE_L2_MISC
     (Some (Var_elems NOTIFICATION_MSG_MAX_NUM_MSG (csizeof NOTIFICATION_MSG_t) NOTIFICATION_MSG_get_elem_size))"
  by (rule handler_schedI [OF l1_NOTIFY_NOTIFICATION_MSG_def]) (simp only: option.pred_inject NOTIFICATION_MSG_accepts)

lemma NOTIFY_MADHAVA_LIST_sched [gy_sched]:
  "handler_sched l1_NOTIFY_MADHAVA_LIST HOST_SHYAMA TTYPE_L2_MISC
     (Some (Array_elems (2 ^ 32) (csizeof MADHAVA_LIST_t)))"
  by (rule handler_schedI [OF l1_NOTIFY_MADHAVA_LIST_def]) (simp only: option.pred_inject MADHAVA_LIST_accepts)

lemma NOTIFY_SM_REQ_TRACE_DEF_NEW_sched [gy_sched]:
  "handler_sched l1_NOTIFY_SM_REQ_TRACE_DEF_NEW HOST_SHYAMA TTYPE_L2_MISC
     (Some (Var_elems SM_REQ_TRACE_DEF_NEW_MAX_NUM_DEFS (csizeof SM_REQ_TRACE_DEF_NEW_t) SM_REQ_TRACE_DEF_NEW_get_elem_size))"
  by (rule handler_schedI [OF l1_NOTIFY_SM_REQ_TRACE_DEF_NEW_def]) (simp only: option.pred_inject SM_REQ_TRACE_DEF_NEW_accepts)

lemma NOTIFY_SM_REQ_TRACE_DEF_DISABLE_sched [gy_sched]:
  "handler_sched l1_NOTIFY_SM_REQ_TRACE_DEF_DISABLE HOST_SHYAMA TTYPE_L2_MISC
     (Some (Array_elems (2 ^ 32) (csizeof SM_REQ_TRACE_DEF_DISABLE_t)))"
  by (rule handler_schedI [OF l1_NOTIFY_SM_REQ_TRACE_DEF_DISABLE_def]) (simp only: option.pred_inject SM_REQ_TRACE_DEF_DISABLE_accepts)

lemma NOTIFY_REQ_TRACE_STATUS_sched [gy_sched]:
  "handler_sched l1_NOTIFY_REQ_TRACE_STATUS HOST_PARTHA TTYPE_L2_MISC
     (Some (Array_elems REQ_TRACE_STATUS_MAX_REQ_TRACE_ELEM (csizeof REQ_TRACE_STATUS_t)))"
  by (rule handler_schedI [OF l1_NOTIFY_REQ_TRACE_STATUS_def]) (simp only: option.pred_inject REQ_TRACE_STATUS_accepts)

text \<open>The peers that send an event, by the sections of \<open>NOTIFY_TYPE_E\<close>: \<open>0x301\<close> to \<open>NOTIFY_PM_EVT_MAX\<close>
  between Partha and Madhava, \<open>0x501\<close> to \<open>NOTIFY_MS_EVT_MAX\<close> between Madhava and Shyama, \<open>0x701\<close> to
  \<open>NOTIFY_MM_EVT_MAX\<close> between two Madhavas; the list of Madhavas comes from Shyama.\<close>

definition event_sender :: "NOTIFY_TYPE_E \<Rightarrow> HOST_TYPES_E" where
  "event_sender t =
     (if notify_val t \<in> {0x301..<notify_val NOTIFY_PM_EVT_MAX} then HOST_PARTHA
      else if notify_val t \<in> {0x501..<notify_val NOTIFY_MS_EVT_MAX} \<or> t = NOTIFY_MADHAVA_LIST
      then HOST_SHYAMA
      else if notify_val t \<in> {0x701..<notify_val NOTIFY_MM_EVT_MAX} then HOST_MADHAVA
      else HOST_INVALID)"

definition event_dest :: "NOTIFY_TYPE_E \<Rightarrow> TTYPE_E" where
  "event_dest t =
     (if t \<in> {NOTIFY_SM_ALERT_ADEF_NEW, NOTIFY_SM_ALERT_ADEF_UPD, NOTIFY_SM_ALERT_STAT_DISABLE}
      then TTYPE_L2_ALERT else TTYPE_L2_MISC)"

lemma l1_event_sched:
  assumes "l1_event t c h m pn = Some (L1_SCHED d j, st, m')"
  shows "from_host (event_sender t) c \<and> d = event_dest t \<and> \<not> j \<and>
    (hdr_ok h \<longrightarrow> event_hdr_in h m pn \<longrightarrow> pred_option (\<lambda>l. layout_ok l h m' pn) (event_layout t))"
  using assms
  by (cases t)
    (simp_all add: event_layout_def l1_event_def event_sender_def event_dest_def notify_val.simps
       l1_NOTIFY_SM_PARTHA_IDENT_def l1_NOTIFY_SHYAMA_MADHAVA_STATUS_def
       l1_NOTIFY_PARTHA_STATUS_def l1_NOTIFY_MADHAVA_MADHAVA_STATUS_def l1_NOTIFY_PING_CONN_def
       invalid_msg_def Let_def bind_eq_Some_conv split: if_splits,
     (drule gy_sched [THEN handler_sched_iff], simp)+)

lemma l1_query_cmd_sched:
  assumes "l1_query_cmd closed c h m p = Some (L1_SCHED d j, st, m')"
  shows "is_registered c \<and> d = TTYPE_L2_DB_RD \<and> \<not> closed \<and> cli_type c \<noteq> CLI_TYPE_REQ_ONLY"
proof -
  obtain v where conn: "\<not> closed" "cli_type c \<noteq> CLI_TYPE_REQ_ONLY"
    and v: "fld m p QUERY_CMD_fields ''subtype_'' = Some v"
    using assms by (auto simp: l1_query_cmd_def bind_eq_Some_conv split: if_splits)
  show ?thesis
  proof (cases "query_of v")
    case None
    then show ?thesis using assms conn v by (simp add: l1_query_cmd_def)
  next
    case (Some q)
    then show ?thesis using assms conn v
      by (cases q) (auto simp: l1_query_cmd_def l1_sched_valid_def invalid_msg_def from_host_def
          bind_eq_Some_conv split: if_splits)
  qed
qed

lemma l1_message_sched:
  assumes "l1_message g tcurr closed c h m p = Some (L1_SCHED d j, st, c', m')"
  shows "is_registered c \<and> c' = c \<and>
    (data_type h = comm_type_val COMM_EVENT_NOTIFY \<and> \<not> j \<and>
       (\<exists>t. fldv m (p + 16) EVENT_NOTIFY_fields ''subtype_'' = notify_val t \<and>
            host_type c = event_sender t \<and> d = event_dest t) \<or>
     data_type h = comm_type_val COMM_QUERY_CMD \<and> d = TTYPE_L2_DB_RD \<and> \<not> closed \<and>
       cli_type c \<noteq> CLI_TYPE_REQ_ONLY)"
proof -
  obtain t where t: "data_type h = comm_type_val t"
    using assms by (auto simp: l1_message_def invalid_msg_def Let_def split: option.splits)
  show ?thesis
  proof (cases t)
    case COMM_EVENT_NOTIFY
    then have n: "l1_event_notify c h m (p + 16) = Some (L1_SCHED d j, st, m')" "c' = c"
      using assms t by (simp_all add: l1_message_def)
    then obtain s where s: "fldv m (p + 16) EVENT_NOTIFY_fields ''subtype_'' = notify_val s"
        "l1_event s c h m (p + 16) = Some (L1_SCHED d j, st, m')"
      by (auto simp: l1_event_notify_def bind_eq_Some_conv fld_Some_iff split: option.splits)
    show ?thesis using l1_event_sched [OF s(2)] s(1) n(2) t COMM_EVENT_NOTIFY by (auto simp: from_host_def)
  next
    case COMM_QUERY_CMD
    then have "l1_query_cmd closed c h m (p + 16) = Some (L1_SCHED d j, st, m')" "c' = c"
      using assms t by (simp_all add: l1_message_def)
    then show ?thesis using t COMM_QUERY_CMD l1_query_cmd_sched by blast
  qed (use assms t in \<open>auto simp: l1_message_def l1_query_resp_def l1_web_json_def l1_reg_resp_def
      l1_ms_register_resp_def l1_mm_connect_resp_def l1_mm_connect_cmd_def l1_pm_connect_cmd_def
      l1_nm_connect_cmd_def l1_connect_def invalid_msg_def bind_eq_Some_conv Let_def
      split: if_splits option.splits\<close>)
qed

section \<open>Properties\<close>

text \<open>(C1) Whatever a peer sends: on a message that passed \<open>COMM_HEADER::validate\<close> and is complete in the
  receive buffer, the dispatch reads and writes inside of the buffer, always comes to a decision, and
  changes no byte outside of the payload of this message, with exactly one exception: an event
  \<open>NOTIFY_CPU_MEM_STATE\<close> of a Partha with one element, in a buffer that ends before the last length member of
  its struct, makes the dispatch read behind the buffer.\<close>

theorem l1_message_stays_inside:
  assumes "validate_hdr h p mg" and "msg_in h m p"
  shows "if cpu_mem_short c h m p then l1_message g tcurr closed c h m p = None
    else \<exists>a st c' m'. l1_message g tcurr closed c h m p = Some (a, st, c', m') \<and> msg_only h p m m'"
proof (cases "cpu_mem_short c h m p")
  case True
  then have t: "data_type h = comm_type_val COMM_EVENT_NOTIFY" by (simp add: cpu_mem_short_def)
  have "event_hdr_in h m (p + 16)"
    using valid_msg [OF assms t] by (simp add: event_hdr_in_def event_in_def)
  from l1_event_notify_short [OF this True] show ?thesis using True t by (simp add: l1_message_def with_conn_def)
next
  case False
  then show ?thesis using l1_message_safe [OF assms False] by simp
qed

text \<open>An event \<open>NOTIFY_TASK_AGGR\<close> with no elements, and a registered Partha.\<close>

definition sample_hdr :: COMM_HEADER where
  "sample_hdr = \<lparr>magic = magic_val PM_HDR_MAGIC, total_sz = 24, data_type = comm_type_val COMM_EVENT_NOTIFY,
                 padding_sz = 0\<rparr>"

definition sample_msg :: mem where
  "sample_msg = replicate 16 0 @ [5, 3, 0, 0] @ replicate 4 0"

definition sample_partha :: CONNTRACK where
  "sample_partha = \<lparr>is_registered = True, host_type = HOST_PARTHA, cli_type = 1, cb_tbl = Map.empty\<rparr>"

lemma sample_valid:
  "validate_hdr sample_hdr 0 (magic_val PM_HDR_MAGIC)" "msg_in sample_hdr sample_msg 0"
  by (auto simp: validate_hdr_iff sample_hdr_def msg_in_def sample_msg_def)

lemma sample_subtype:
  "fldv sample_msg 16 EVENT_NOTIFY_fields ''subtype_'' = notify_val NOTIFY_TASK_AGGR"
  by (simp add: fldv_def rdv_def gy_size sample_msg_def notify_val.simps)

lemma sample_sched:
  "l1_message g tcurr False sample_partha sample_hdr sample_msg 0 =
     Some (L1_SCHED TTYPE_L2_MISC False, [], sample_partha, sample_msg)"
proof -
  have "fld sample_msg 16 EVENT_NOTIFY_fields ''subtype_'' = Some (notify_val NOTIFY_TASK_AGGR)"
    using sample_subtype by (subst fld_in) (simp_all add: gy_size sample_msg_def)
  moreover have "fld sample_msg 16 EVENT_NOTIFY_fields ''nevents_'' = Some 0"
    by (simp add: fld_nevents nevents_of_def rdv_def sample_msg_def)
  ultimately show ?thesis
    by (simp add: l1_message_def sample_hdr_def l1_event_notify_def l1_event_def l1_NOTIFY_TASK_AGGR_def
        l1_sched_valid_def from_host_def sample_partha_def TASK_AGGR_NOTIFY_validate_def
        validate_elems_def get_act_len_def with_conn_def Let_def)
qed

text \<open>An event \<open>NOTIFY_CPU_MEM_STATE\<close> that announces an element and ends with the buffer.\<close>

definition sample_cpu_mem :: mem where
  "sample_cpu_mem = replicate 16 0 @ [15, 3, 0, 0, 1, 0, 0, 0]"

theorem l1_message_stays_inside_witness:
  "(\<exists>a st c' m'. l1_message \<lparr>gmadhava_id = 1, gversion_num = 1, gmin_partha_version = 1,
       gmin_node_version = 1\<rparr> 0 False sample_partha sample_hdr sample_msg 0 = Some (a, st, c', m') \<and>
     msg_only sample_hdr 0 sample_msg m') \<and>
   l1_message \<lparr>gmadhava_id = 1, gversion_num = 1, gmin_partha_version = 1, gmin_node_version = 1\<rparr> 0 False
     sample_partha sample_hdr sample_cpu_mem 0 = None"
proof -
  have "\<not> cpu_mem_short sample_partha sample_hdr sample_msg 0"
    using sample_subtype by (simp add: cpu_mem_short_def notify_val.simps)
  moreover have "cpu_mem_short sample_partha sample_hdr sample_cpu_mem 0" "msg_in sample_hdr sample_cpu_mem 0"
    by (simp_all add: cpu_mem_short_def from_host_def sample_partha_def sample_hdr_def sample_cpu_mem_def fldv_def rdv_def
        gy_size nevents_of_def notify_val.simps msg_in_def)
  ultimately show ?thesis
    using l1_message_stays_inside [OF sample_valid] l1_message_stays_inside [OF sample_valid(1), of sample_cpu_mem]
    by metis
qed

text \<open>(C3) Only a registered connection gets a message scheduled. An event is scheduled only for the
  kind of peer its section of \<open>NOTIFY_TYPE_E\<close> belongs to, alert definitions go to the alert threads
  and all others to the miscellaneous threads. Queries go to the database readers, and only on an
  open connection that is not for events only.\<close>

theorem l1_message_scheduled:
  assumes "l1_message g tcurr closed c h m p = Some (L1_SCHED d j, st, c', m')"
  shows "is_registered c \<and> c' = c \<and>
    (data_type h = comm_type_val COMM_EVENT_NOTIFY \<and> \<not> j \<and>
       (\<exists>t. fldv m (p + 16) EVENT_NOTIFY_fields ''subtype_'' = notify_val t \<and>
            host_type c = event_sender t \<and> d = event_dest t) \<or>
     data_type h = comm_type_val COMM_QUERY_CMD \<and> d = TTYPE_L2_DB_RD \<and> \<not> closed \<and>
       cli_type c \<noteq> CLI_TYPE_REQ_ONLY)"
  by (rule l1_message_sched [OF assms])

theorem l1_message_scheduled_witness:
  "is_registered sample_partha \<and> host_type sample_partha = event_sender NOTIFY_TASK_AGGR"
  using l1_message_scheduled [OF sample_sched] sample_subtype
  by (auto simp: sample_hdr_def sample_partha_def event_sender_def notify_val.simps)



lemma l1_event_registered:
  assumes "l1_event t c h m pn = Some (a, st, m')"
  shows "(needs_registration a \<longrightarrow> is_registered c) \<and> \<not> is_registration a"
proof -
  have sched: "(needs_registration a \<longrightarrow> is_registered c) \<and> \<not> is_registration a"
    if "l1_sched_valid (from_host x c) r d m = Some (a, st, m')" for x r d
    using that by (auto simp: l1_sched_valid_def invalid_msg_def from_host_def bind_eq_Some_conv
        split: if_splits)
  show ?thesis
    using assms
    by (cases t) (simp_all add: l1_event_def l1_handler_defs sched, (auto simp: l1_handler_defs
        invalid_msg_def from_host_def bind_eq_Some_conv Let_def split: if_splits)?)
qed

lemma l1_query_cmd_registered:
  assumes "l1_query_cmd closed c h m p = Some (a, st, m')"
  shows "(needs_registration a \<longrightarrow> is_registered c) \<and> \<not> is_registration a"
proof -
  have "\<exists>d j. a = L1_SCHED d j \<or> a \<in> {L1_THROW, L1_NEXT}"
  proof (cases "closed = False \<and> cli_type c \<noteq> CLI_TYPE_REQ_ONLY")
    case True
    with assms obtain v where v: "fld m p QUERY_CMD_fields ''subtype_'' = Some v"
      by (auto simp: l1_query_cmd_def bind_eq_Some_conv)
    show ?thesis
    proof (cases "query_of v")
      case (Some q)
      then show ?thesis using assms True v
        by (cases q) (auto simp: l1_query_cmd_def l1_sched_valid_def invalid_msg_def
            bind_eq_Some_conv split: if_splits)
    qed (use assms True v in \<open>simp add: l1_query_cmd_def\<close>)
  qed (use assms in \<open>auto simp: l1_query_cmd_def\<close>)
  then show ?thesis using l1_query_cmd_sched assms by auto
qed

lemma l1_message_reg:
  assumes "l1_message g tcurr closed c h m p = Some (a, st, c', m')"
  shows "(needs_registration a \<longrightarrow> is_registered c) \<and> (is_registration a \<longrightarrow> \<not> is_registered c) \<and>
    is_registered c' = is_registered c \<and> host_type c' = host_type c \<and> cli_type c' = cli_type c"
proof (cases "comm_type_of (data_type h)")
  case None
  then show ?thesis using assms by (auto simp: l1_message_def invalid_msg_def Let_def)
next
  case (Some t)
  show ?thesis
  proof (cases t)
    case COMM_EVENT_NOTIFY
    then have "l1_event_notify c h m (p + 16) = Some (a, st, m')" "c' = c"
      using assms Some by (simp_all add: l1_message_def)
    then show ?thesis using l1_event_registered
      by (auto simp: l1_event_notify_def bind_eq_Some_conv split: option.splits)
  next
    case COMM_QUERY_CMD
    then have "l1_query_cmd closed c h m (p + 16) = Some (a, st, m')" "c' = c"
      using assms Some by (simp_all add: l1_message_def)
    then show ?thesis using l1_query_cmd_registered by auto
  qed (use assms Some in \<open>auto simp: l1_message_def l1_query_resp_def l1_web_json_def l1_reg_resp_def
      l1_ms_register_resp_def l1_mm_connect_resp_def l1_mm_connect_cmd_def l1_pm_connect_cmd_def
      l1_nm_connect_cmd_def l1_connect_def invalid_msg_def bind_eq_Some_conv Let_def
      split: if_splits option.splits\<close>)
qed

text \<open>(C4) A connection that has not registered can only register: its messages are rejected, ignored or
  registration messages. No event, query or response of it is handed to another thread, no callback is
  called and the status and the keys of Parthas are not changed. A registered connection cannot
  register again.\<close>

theorem l1_message_registration:
  assumes "l1_message g tcurr closed c h m p = Some (a, st, c', m')"
  shows "(needs_registration a \<longrightarrow> is_registered c) \<and> (is_registration a \<longrightarrow> \<not> is_registered c) \<and>
    is_registered c' = is_registered c \<and> host_type c' = host_type c"
  using l1_message_reg [OF assms] by blast

theorem l1_message_registration_witness:
  "needs_registration (L1_SCHED TTYPE_L2_MISC False) \<and> is_registered sample_partha"
  using l1_message_registration [OF sample_sched] by simp

text \<open>(C15) The registration of a Partha is handed on only if the request has a supported version of the
  protocol, a version of Partha that this Madhava supports, asks for a version of Madhava it has,
  names a machine and this Madhava, and its clock is within a minute.\<close>

theorem partha_registration_checked:
  assumes "validate_hdr h p mg" and "msg_in h m p"
    and "l1_message g tcurr closed c h m p = Some (L1_REGISTER PM_CONNECT_RESP s, st, c', m')"
  shows "let f = fldv m (p + 16) PM_CONNECT_CMD_S_fields in
    f ''comm_version_'' \<noteq> 0 \<and> f ''partha_version_'' \<ge> gmin_partha_version g \<and>
    f ''min_madhava_version_'' \<le> gversion_num g \<and>
    (f ''machine_id_hi_'' \<noteq> 0 \<or> f ''machine_id_lo_'' \<noteq> 0) \<and> f ''madhava_id_'' = gmadhava_id g \<and>
    \<not> clock_differs tcurr (of_nat (f ''curr_sec_'')) \<and>
    terminated m' (p + 16) PM_CONNECT_CMD_S_fields PM_CONNECT_CMD_S_names"
proof -
  obtain t where t: "data_type h = comm_type_val t" using assms(1) by (auto simp: validate_hdr_iff)
  have "t = PM_CONNECT_CMD" "l1_pm_connect_cmd g tcurr c h m (p + 16) = Some (L1_REGISTER PM_CONNECT_RESP s, st, m')"
    using assms(3) t l1_event_registered l1_query_cmd_registered
    by (cases t; auto simp: l1_message_def l1_query_resp_def l1_web_json_def l1_reg_resp_def
        l1_ms_register_resp_def l1_mm_connect_resp_def l1_mm_connect_cmd_def l1_event_notify_def
        l1_nm_connect_cmd_def l1_connect_def invalid_msg_def bind_eq_Some_conv Let_def
        split: if_splits option.splits; fastforce)+
  note v = valid_msg [OF assms(1,2) t]
  have e: "exact_reg_validate PM_CONNECT_CMD_S_t h"
    and r: "PM_CONNECT_CMD_S_validate_fields (gmadhava_id g) (gmin_partha_version g) (gversion_num g) tcurr
      m (p + 16) = Some (None, m')"
    using l1_connect_registers \<open>l1_pm_connect_cmd g tcurr c h m (p + 16) = _\<close>
    unfolding l1_pm_connect_cmd_def PM_CONNECT_CMD_S_validate_def by blast+
  have "p + 16 + csizeof PM_CONNECT_CMD_S_t \<le> length m"
    using e v(3) by (simp add: exact_reg_validate_def)
  from PM_CONNECT_CMD_S_validate_fields_result [OF this, of "gmadhava_id g" "gmin_partha_version g" "gversion_num g" tcurr]
  show ?thesis unfolding r reg_result_def by (auto simp: Let_def not_less split: if_splits)
qed

text \<open>A request with the protocol version 1, a machine id and zeros, for the Madhava with id 0.\<close>

definition sample_connect :: mem where
  "sample_connect = replicate 16 0 @ [1] @ replicate 23 0 @ [1] @ replicate 1095 0"

definition sample_connect_hdr :: COMM_HEADER where
  "sample_connect_hdr = \<lparr>magic = magic_val PM_HDR_MAGIC, total_sz = 1136,
     data_type = comm_type_val PM_CONNECT_CMD, padding_sz = 0\<rparr>"

definition sample_madhava :: MADHAVA where
  "sample_madhava = \<lparr>gmadhava_id = 0, gversion_num = 0, gmin_partha_version = 0, gmin_node_version = 0\<rparr>"

definition sample_new :: CONNTRACK where
  "sample_new = \<lparr>is_registered = False, host_type = HOST_INVALID, cli_type = 0, cb_tbl = Map.empty\<rparr>"

lemma sample_connect_valid:
  "validate_hdr sample_connect_hdr 0 (magic_val PM_HDR_MAGIC)" "msg_in sample_connect_hdr sample_connect 0"
  by (auto simp: validate_hdr_iff sample_connect_hdr_def msg_in_def sample_connect_def)

lemma sample_connect_dispatch:
  "\<exists>st m'. l1_message sample_madhava 0 False sample_new sample_connect_hdr sample_connect 0 =
     Some (L1_REGISTER PM_CONNECT_RESP ''Partha Registration Blocking Fail'', st, sample_new, m')"
proof -
  have "(16 :: nat) + csizeof PM_CONNECT_CMD_S_t \<le> length sample_connect" by (simp add: sample_connect_def)
  from PM_CONNECT_CMD_S_validate_fields_result [OF this, of 0 0 0 0]
  obtain m' where "PM_CONNECT_CMD_S_validate_fields 0 0 0 0 sample_connect 16 = Some (None, m')"
    by (auto simp: fldv_def rdv_def gy_size sample_connect_def clock_differs_def labs64_def reg_result_def)
  then show ?thesis
    by (simp add: l1_message_def sample_connect_hdr_def sample_madhava_def sample_new_def
        l1_pm_connect_cmd_def l1_connect_def PM_CONNECT_CMD_S_validate_def exact_reg_validate_def
        get_act_len_def with_conn_def Let_def)
qed

theorem partha_registration_checked_witness:
  "fldv sample_connect (0 + 16) PM_CONNECT_CMD_S_fields ''madhava_id_'' = gmadhava_id sample_madhava"
proof -
  obtain st m' where "l1_message sample_madhava 0 False sample_new sample_connect_hdr sample_connect 0 =
     Some (L1_REGISTER PM_CONNECT_RESP ''Partha Registration Blocking Fail'', st, sample_new, m')"
    using sample_connect_dispatch by blast
  from partha_registration_checked [OF sample_connect_valid this] show ?thesis by (simp add: Let_def)
qed

text \<open>A response that a callback waits for: it comes on a registered connection, its length is the one it
  announces, it is a JSON response with a sequence id, and the id is in the table of the connection.\<close>

definition resp_awaited :: "CONNTRACK \<Rightarrow> COMM_HEADER \<Rightarrow> mem \<Rightarrow> nat \<Rightarrow> bool" where
  "resp_awaited c h m p \<longleftrightarrow> (let f = fldv m p QUERY_RESPONSE_fields in
     is_registered c \<and> act_len h = 48 + f ''resp_len_'' \<and> f ''subtype_'' = RESP_WEB_JSON \<and>
     f ''respformat_'' \<noteq> RESP_BINARY \<and> f ''seqid_'' > 0 \<and> cb_tbl c (f ''seqid_'') = Some True)"

lemma query_resp_decision:
  assumes "48 \<le> act_len h" and "p + act_len h \<le> length m + 16"
  shows "let f = fldv m p QUERY_RESPONSE_fields; k = f ''seqid_''; done = c\<lparr>cb_tbl := (cb_tbl c)(k := None)\<rparr> in
    \<exists>a st c'. l1_query_resp c h m p = Some (a, st, c', m) \<and>
      (if resp_awaited c h m p
       then a = L1_CALLBACK k (p + 32) (f ''resp_len_'') \<and> c' = (if f ''is_resp_complete_'' = 0 then c else done)
       else (\<forall>k q n. a \<noteq> L1_CALLBACK k q n) \<and> (c' = c \<or> c' = done))"
proof -
  have "fld m p QUERY_RESPONSE_fields nm = Some (fldv m p QUERY_RESPONSE_fields nm)"
    if "nm \<in> {''seqid_'', ''subtype_'', ''respformat_'', ''is_resp_complete_'', ''resp_len_''}" for nm
    using assms that by (intro fld_in) (auto simp: gy_size)
  then show ?thesis using assms(1)
    by (auto simp: resp_awaited_def l1_query_resp_def l1_web_json_def QUERY_RESPONSE_validate_def Let_def)
qed

lemma query_resp_gone:
  "cb_tbl c k = None \<Longrightarrow> l1_query_resp c h m p \<noteq> Some (L1_CALLBACK k q n, st, c', m')"
  by (auto simp: l1_query_resp_def l1_web_json_def bind_eq_Some_conv Let_def split: if_splits)

text \<open>(C16) A response to a query that passed the checks of the header and is complete in the buffer is
  delivered to its callback if and only if the callback waits for it: the callback of its sequence id is
  called with the rest of the message as payload. After a response marked as complete the callback is gone,
  so that neither the same response once more nor any other one with this sequence id calls it; a response
  that is not marked as complete leaves the table as it is, and no response touches the callback of
  another sequence id.\<close>

theorem callback_once:
  assumes "validate_hdr h p mg" and "msg_in h m p" and "data_type h = comm_type_val COMM_QUERY_RESP"
  shows "let f = fldv m (p + 16) QUERY_RESPONSE_fields; k = f ''seqid_''; done = c\<lparr>cb_tbl := (cb_tbl c)(k := None)\<rparr> in
    \<exists>a st c'. l1_message g tcurr closed c h m p = Some (a, st, c', m) \<and>
      (if resp_awaited c h m (p + 16)
       then a = L1_CALLBACK k (p + 48) (f ''resp_len_'') \<and> p + act_len h = p + 48 + f ''resp_len_'' \<and>
         (if f ''is_resp_complete_'' = 0 then c' = c
          else c' = done \<and> (\<forall>h2 m2 p2 q n st2 c2 m3. l1_query_resp c' h2 m2 p2 \<noteq> Some (L1_CALLBACK k q n, st2, c2, m3)))
       else (\<forall>k q n. a \<noteq> L1_CALLBACK k q n) \<and> (c' = c \<or> c' = done))"
proof -
  have "48 \<le> act_len h" "p + 16 + act_len h \<le> length m + 16" using valid_msg [OF assms] by simp_all
  note r = query_resp_decision [OF this, of c]
  have "l1_message g tcurr closed c h m p = l1_query_resp c h m (p + 16)"
    using assms(3) by (simp add: l1_message_def)
  then show ?thesis using r by (auto simp: Let_def resp_awaited_def query_resp_gone ac_simps split: if_splits)
qed

text \<open>A complete response with the sequence id 5 and no payload, on a connection where a callback waits for it
  and on one where none does.\<close>

definition sample_resp :: mem where
  "sample_resp = replicate 16 0 @ [5] @ replicate 7 0 @ [0xE8, 3] @ replicate 6 0 @ [1] @ replicate 11 0 @ [1, 0, 0, 0]"

definition sample_resp_hdr :: COMM_HEADER where
  "sample_resp_hdr = \<lparr>magic = magic_val NM_HDR_MAGIC, total_sz = 48, data_type = comm_type_val COMM_QUERY_RESP,
     padding_sz = 0\<rparr>"

theorem callback_once_witness:
  "\<exists>st. l1_message sample_madhava 0 False
       \<lparr>is_registered = True, host_type = HOST_NODE_WEB, cli_type = 0, cb_tbl = [5 \<mapsto> True]\<rparr> sample_resp_hdr sample_resp 0 =
     Some (L1_CALLBACK 5 48 0, st, \<lparr>is_registered = True, host_type = HOST_NODE_WEB, cli_type = 0, cb_tbl = Map.empty\<rparr>,
       sample_resp)"
proof -
  let ?c = "\<lparr>is_registered = True, host_type = HOST_NODE_WEB, cli_type = 0, cb_tbl = [5 \<mapsto> True]\<rparr>"
  have v: "validate_hdr sample_resp_hdr 0 (magic_val NM_HDR_MAGIC)" "msg_in sample_resp_hdr sample_resp 0"
      "data_type sample_resp_hdr = comm_type_val COMM_QUERY_RESP"
    by (auto simp: validate_hdr_iff sample_resp_hdr_def msg_in_def sample_resp_def)
  have f: "fldv sample_resp 16 QUERY_RESPONSE_fields ''seqid_'' = 5"
      "fldv sample_resp 16 QUERY_RESPONSE_fields ''resp_len_'' = 0"
      "fldv sample_resp 16 QUERY_RESPONSE_fields ''is_resp_complete_'' = 1" "resp_awaited ?c sample_resp_hdr sample_resp 16"
    by (simp_all add: resp_awaited_def fldv_def rdv_def gy_size sample_resp_def sample_resp_hdr_def get_act_len_def Let_def)
  from callback_once [OF v, of ?c sample_madhava 0 False] f show ?thesis by (auto simp: Let_def)
qed

end
