(* ===== verification/Gy_Madhava_Recv.thy ===== *)
theory Gy_Madhava_Recv
  imports Gy_L1_Framing Gy_Madhava_L1
begin

text \<open>
  The receive loop of a Madhava: \<open>handle_recv\<close> of \<open>Gy_L1_Recv\<close> with the dispatch of \<open>Gy_Madhava_L1\<close>.
  For connections on which a registered Partha sends its events the dispatch satisfies the contract of
  the loop, so that the stream of events is cut into messages and handed over as it should be.
\<close>

section \<open>The dispatch of a Madhava\<close>

text \<open>What \<open>handle_shyama_reg_resp\<close> and \<open>handle_madhava_reg_resp\<close> decide, and what they change of the
  connection; what they store about the peer is left out. \<open>has_peer\<close>: the connection has a
  \<open>MADHAVA_INFO\<close>.\<close>

definition handle_shyama_reg_resp ::
  "MADHAVA \<Rightarrow> CONNTRACK \<Rightarrow> mem \<Rightarrow> nat \<Rightarrow> (bool \<times> CONNTRACK) option" where
  "handle_shyama_reg_resp g c m p = do {
     error_code \<leftarrow> fld m p MS_REGISTER_RESP_S_fields ''error_code_'';
     if int error_code \<noteq> err_val ERR_SUCCESS then Some (False, c)
     else do {
       madhava_id \<leftarrow> fld m p MS_REGISTER_RESP_S_fields ''madhava_id_'';
       if gmadhava_id g \<noteq> madhava_id then Some (False, c)
       else Some (True, c\<lparr>is_registered := True\<rparr>)
     }
   }"

definition handle_madhava_reg_resp ::
  "bool \<Rightarrow> CONNTRACK \<Rightarrow> mem \<Rightarrow> nat \<Rightarrow> (bool \<times> CONNTRACK \<times> mem) option" where
  "handle_madhava_reg_resp has_peer c m p =
     (if \<not> has_peer then Some (False, c, m)
      else do {
        error_code \<leftarrow> fld m p MM_CONNECT_RESP_S_fields ''error_code_'';
        if int error_code \<noteq> err_val ERR_SUCCESS
        then do { m' \<leftarrow> put_last_nul m p MM_CONNECT_RESP_S_fields ''error_string_''; Some (False, c, m') }
        else Some (True, c\<lparr>is_registered := True\<rparr>, m)
      })"

text \<open>The decisions of \<open>l1_message\<close>, as the loop goes on with them.\<close>

definition rx_message ::
  "MADHAVA \<Rightarrow> 64 word \<Rightarrow> bool \<Rightarrow> bool \<Rightarrow> CONNTRACK \<Rightarrow> COMM_HEADER \<Rightarrow> mem \<Rightarrow> nat \<Rightarrow>
   (TTYPE_E RX_ACTION \<times> stats_upd \<times> CONNTRACK \<times> mem) option" where
  "rx_message g tcurr is_conn_closed has_peer c h m rdp = do {
     (a, st, c', m') \<leftarrow> l1_message g tcurr is_conn_closed c h m rdp;
     case a of
       L1_THROW \<Rightarrow> Some (RX_THROW, st, c', m')
     | L1_CLOSE \<Rightarrow> Some (RX_CLOSE, st, c', m')
     | L1_SCHED dest is_json \<Rightarrow> Some (RX_SCHED dest is_json, st, c', m')
     | L1_REGISTER resp blocking_fail \<Rightarrow> Some (RX_REGISTER blocking_fail, st, c', m')
     | L1_REGISTER_ERROR resp err \<Rightarrow> Some (RX_CLOSE, st, c', m')
     | L1_SHYAMA_REG_RESP p \<Rightarrow> do {
         (bret, c'') \<leftarrow> handle_shyama_reg_resp g c' m' p;
         Some (if bret = False then RX_CLOSE else RX_NEXT, st, c'', m')
       }
     | L1_MADHAVA_REG_RESP p \<Rightarrow> do {
         (bret, c'', m'') \<leftarrow> handle_madhava_reg_resp has_peer c' m' p;
         Some (if bret = False then RX_CLOSE else RX_NEXT, st, c'', m'')
       }
     | _ \<Rightarrow> Some (RX_NEXT, st, c', m')
   }"

section \<open>Events of a Partha\<close>

text \<open>A registered connection on which a Partha only sends events, and messages other than an event
  \<open>NOTIFY_CPU_MEM_STATE\<close> that is shorter than its struct.\<close>

definition partha_events :: "CONNTRACK \<Rightarrow> bool" where
  "partha_events c \<longleftrightarrow> is_registered c \<and> host_type c = HOST_PARTHA \<and> cli_type c = CLI_TYPE_REQ_ONLY"

definition cpu_mem_full :: "mem \<Rightarrow> bool" where
  "cpu_mem_full f \<longleftrightarrow> 24 + csizeof CPU_MEM_STATE_NOTIFY_t \<le> length f \<or>
     fldv f 0 COMM_HEADER_fields ''data_type_'' \<noteq> unat (comm_type_val COMM_EVENT_NOTIFY) \<or>
     fldv f 16 EVENT_NOTIFY_fields ''subtype_'' \<noteq> notify_val NOTIFY_CPU_MEM_STATE"

lemma rdv_slice: "a + k \<le> n \<Longrightarrow> rdv (take n (drop p m)) a k = rdv m (p + a) k"
  by (simp add: rdv_def take_drop min_def ac_simps)

lemma load_header_type: "load_header m p = Some h \<Longrightarrow> data_type h = of_nat (fldv m p COMM_HEADER_fields ''data_type_'')"
  by (auto simp: load_header_def bind_eq_Some_conv fld_def fldv_def rd_Some_iff)

lemma cpu_mem_full_in:
  assumes "validate_hdr h p mg" and "msg_in h m p" and "load_header m p = Some h"
    and "cpu_mem_full (take (unat (total_sz h)) (drop p m))"
  shows "\<not> cpu_mem_short c h m p"
proof -
  let ?n = "unat (total_sz h)"
  obtain t where t: "data_type h = comm_type_val t" "16 + header_payload t \<le> ?n"
    using assms(1) by (auto simp: validate_hdr_iff)
  then have "24 \<le> ?n" using header_payload_pos [of t] by simp
  then have fl: "fldv (take ?n (drop p m)) 16 EVENT_NOTIFY_fields ''subtype_'' = fldv m (p + 16) EVENT_NOTIFY_fields ''subtype_''"
    "fldv (take ?n (drop p m)) 0 COMM_HEADER_fields ''data_type_'' = fldv m p COMM_HEADER_fields ''data_type_''"
    by (simp_all add: fldv_def gy_size rdv_slice)
  have dt: "unat (data_type h) = fldv m p COMM_HEADER_fields ''data_type_''"
    using load_header_type [OF assms(3)] rdv_4_bound [of m "p + 8"]
    by (simp add: fldv_def gy_size unat_of_nat)
  show ?thesis using assms(2,4) fl dt unfolding cpu_mem_full_def cpu_mem_short_def msg_in_def
    by auto
qed

lemma rx_message_partha:
  assumes "validate_hdr h p mg" and "msg_in h m p" and "load_header m p = Some h"
    and "cpu_mem_full (take (unat (total_sz h)) (drop p m))" and "partha_events c"
  shows "\<exists>a st c' m'. rx_message g tcurr closed peer c h m p = Some (a, st, c', m') \<and>
    same_off m m' p (p + unat (total_sz h)) \<and> partha_events c' \<and>
    (a = RX_THROW \<or> a = RX_CLOSE \<or> a = RX_NEXT \<or> (\<exists>j. a = RX_SCHED TTYPE_L2_MISC j))"
proof -
  obtain a st c' m' where l: "l1_message g tcurr closed c h m p = Some (a, st, c', m')" "msg_only h p m m'"
    using l1_message_safe [OF assms(1,2) cpu_mem_full_in [OF assms(1-4)], of g tcurr closed c] by blast
  have "same_off m m' p (p + unat (total_sz h))"
    by (rule same_off_mono [OF l(2) [unfolded msg_only_def]])
      (simp_all add: hdr_ok_act_len [OF hdr_ok_validate [OF assms(1)]])
  moreover have c': "partha_events c'" "\<not> is_registration a"
    using l1_message_reg [OF l(1)] assms(5) by (auto simp: partha_events_def)
  moreover have "d = TTYPE_L2_MISC" if "a = L1_SCHED d j" for d j
    using l1_message_sched [of g tcurr closed c h m p d j st c' m'] l(1) that assms(5)
    by (auto simp: partha_events_def event_sender_def event_dest_def notify_val.simps split: if_splits)
  ultimately show ?thesis using l(1) by (cases a) (auto simp: rx_message_def)
qed

interpretation partha: recv_disp "rx_message g tcurr closed peer" "magic_val PM_HDR_MAGIC"
  TTYPE_L2_DB_RD TTYPE_L2_MISC partha_events cpu_mem_full for g tcurr closed peer
  by unfold_locales (simp, rule rx_message_partha)

text \<open>The surroundings of the loop on a connection of a Partha.\<close>

abbreviation (input) partha_env ::
  "MADHAVA \<Rightarrow> 64 word \<Rightarrow> bool \<Rightarrow> bool \<Rightarrow> (TTYPE_E, CONNTRACK) ENV \<Rightarrow> bool" where
  "partha_env g tcurr closed peer \<equiv>
     env_ok (rx_message g tcurr closed peer) (magic_val PM_HDR_MAGIC) TTYPE_L2_DB_RD"

abbreviation (input) pm_frames :: "mem \<Rightarrow> mem list \<times> mem \<times> bool" where
  "pm_frames \<equiv> split_frames (magic_val PM_HDR_MAGIC)"

section \<open>An event as an example\<close>

text \<open>An event \<open>NOTIFY_TASK_AGGR\<close> with no elements, a Madhava with buffers of the size asked for and queues
  that have room, and a new connection.\<close>

definition sample_event :: mem where
  "sample_event = [5, 0x66, 0x66, 5, 24, 0, 0, 0, 14, 0, 0, 0, 0, 0, 0, 0, 5, 3, 0, 0, 0, 0, 0, 0]"

definition zero_buf :: "nat \<Rightarrow> nat \<Rightarrow> mem" where
  "zero_buf k n = replicate n 0"

definition sample_env :: "(TTYPE_E, CONNTRACK) ENV" where
  "sample_env = \<lparr>safe_malloc = zero_buf, mpmc_write = \<lambda>k. True,
     dispatch = rx_message sample_madhava 0 False False, comm_magic = magic_val PM_HDR_MAGIC,
     ttype_misc = TTYPE_L2_MISC, ttype_rd = TTYPE_L2_DB_RD\<rparr>"

definition new_recv :: "CONNTRACK \<Rightarrow> (TTYPE_E, CONNTRACK) RECV" where
  "new_recv c = \<lparr>heap = [], released = {}, pdirbuf = None, rd_max = 0, rd_data = 0, pending_sz = 0, rd_requests = [],
     prdbuf = None, max_buf_sz = 0, data_sz = 0, hdr = empty_header, dbonearr = [], pbufstart = None,
     dest_thr_type = TTYPE_L2_MISC, sent = [], conn = c, statsmap = []\<rparr>"

lemma length_zero_buf [simp]: "length (zero_buf k n) = n"
  by (simp add: zero_buf_def)

lemma sample_env_ok: "partha_env sample_madhava 0 False False sample_env"
  by (simp add: env_ok_def sample_env_def pool_ok_def)

lemma new_recv_idle: "idle dst (new_recv c) []"
  by (simp add: idle_def new_recv_def rlog_def handed_def)

lemma sample_event_hdr:
  "load_header sample_event 0 = Some sample_hdr"
  by (simp add: load_header_def fld_def rd_def rdv_def gy_size sample_event_def sample_hdr_def
      magic_val.simps comm_type_val.simps)

lemma sample_event_frames: "pm_frames sample_event = ([sample_event], [], True)"
proof -
  have "validate_hdr sample_hdr 0 (magic_val PM_HDR_MAGIC)" by (rule sample_valid)
  moreover have "length sample_event = 24" by (simp add: sample_event_def)
  ultimately show ?thesis
    by (subst split_frames.simps) (simp add: sample_event_hdr split_frames.simps sample_hdr_def)
qed

text \<open>Wherever such an event lies in a buffer, it is scheduled.\<close>

lemma task_aggr_sched:
  assumes "load_header m p = Some h" and "msg_in h m p" and "f = take (unat (total_sz h)) (drop p m)"
    and "load_header f 0 = Some h'" "validate_hdr h' 0 mg" "data_type h' = comm_type_val COMM_EVENT_NOTIFY"
    and "rd f 16 4 = Some 0x305" "rd f 20 4 = Some 0" and "partha_events c"
  shows "rx_message g tcurr closed peer c h m p = Some (RX_SCHED TTYPE_L2_MISC False, [], c, m)"
proof -
  let ?n = "unat (total_sz h)"
  have n: "24 \<le> length f" "length f = ?n" "p + ?n \<le> length m"
    using assms(2,3,8) by (auto simp: rd_Some_iff msg_in_def)
  then have h: "h' = h" using load_header_slice [of ?n p m] assms(1,3,4) by simp
  have "rd m (p + 16) 4 = Some 0x305" "rd m (p + 20) 4 = Some 0"
    using rd_slice [of 16 4 ?n p m] rd_slice [of 20 4 ?n p m] n assms(3,7,8) by simp_all
  then have fl: "fld m (p + 16) EVENT_NOTIFY_fields ''subtype_'' = Some (notify_val NOTIFY_TASK_AGGR)"
      "fld m (p + 16) EVENT_NOTIFY_fields ''nevents_'' = Some 0"
    by (simp_all add: fld_def gy_size notify_val.simps add.commute)
  have "hdr_ok h" by (rule hdr_ok_validate [OF assms(5) [unfolded h]])
  then have "24 \<le> act_len h" using assms(5,6) h comm_type_val_inject
    by (auto simp: hdr_ok_act_len validate_hdr_iff)
  then show ?thesis using assms(6,9) h fl
    by (simp add: rx_message_def l1_message_def l1_event_notify_def l1_event_def
        l1_NOTIFY_TASK_AGGR_def l1_sched_valid_def from_host_def partha_events_def TASK_AGGR_NOTIFY_validate_def
        validate_elems_def with_conn_def Let_def)
qed

lemma sample_event_sched:
  assumes "load_header m p = Some h" and "msg_in h m p" and "sample_event = take (unat (total_sz h)) (drop p m)"
    and "partha_events c"
  shows "rx_message g tcurr closed peer c h m p = Some (RX_SCHED TTYPE_L2_MISC False, [], c, m)"
  by (rule task_aggr_sched [OF assms(1-3) sample_event_hdr sample_valid(1) _ _ _ assms(4)])
    (simp_all add: sample_hdr_def rd_def rdv_def sample_event_def)

text \<open>A call on messages that the dispatch does not refuse.\<close>

lemma accepted_call:
  assumes "idle TTYPE_L2_MISC s held" and "partha_events (conn s)" and "bs \<noteq> []" "length bs < room sample_env s"
    and "pm_frames (held @ bs) = (fs, rest, True)"
    and fine: "\<And>f a. f \<in> set fs \<Longrightarrow> cpu_mem_full f \<and> \<not> refuses (rx_message sample_madhava 0 False False) partha_events f a"
  shows "\<exists>s'. handle_recv sample_env n [SOCK_DATA bs] s = Some ([], RECV_BYTES (length bs), s') \<and>
    idle TTYPE_L2_MISC s' rest \<and> partha_events (conn s') \<and> seen s' = seen s @ fs"
proof -
  have "\<forall>f\<in>set (fst (pm_frames (held @ bs))). cpu_mem_full f" using assms(5) fine by auto
  from partha.handle_recv_piece [OF assms(1,2) sample_env_ok assms(3,4) this, of n] assms(5)
  obtain r s' where c: "handle_recv sample_env n [SOCK_DATA bs] s = Some ([], r, s')"
      "if r = RECV_BYTES (length bs) then idle TTYPE_L2_MISC s' rest \<and> partha_events (conn s') \<and> seen s' = seen s @ fs
       else stopped (rx_message sample_madhava 0 False False) partha_events s fs True s'"
    by (auto split: if_splits)
  have "r = RECV_BYTES (length bs)"
  proof (rule ccontr)
    assume "r \<noteq> RECV_BYTES (length bs)"
    then obtain k a where "k < length fs" "refuses (rx_message sample_madhava 0 False False) partha_events (fs ! k) a"
      using c(2) by (auto simp: stopped_def)
    then show False using fine [of "fs ! k" a] by simp
  qed
  then show ?thesis using c by simp
qed

lemma sample_event_accepted:
  "cpu_mem_full sample_event \<and> \<not> refuses (rx_message g tcurr closed peer) partha_events sample_event a"
proof
  show "cpu_mem_full sample_event"
    by (simp add: cpu_mem_full_def fldv_def gy_size rdv_def sample_event_def notify_val.simps)
  show "\<not> refuses (rx_message g tcurr closed peer) partha_events sample_event a"
    using sample_event_sched by (fastforce simp: refuses_def)
qed

text \<open>The first bytes of a header stay in the new buffer.\<close>

lemma sample_first_piece:
  assumes "bs \<noteq> []" and "length bs < 16"
  shows "\<exists>s'. handle_recv sample_env n [SOCK_DATA bs] (new_recv c) = Some ([], RECV_BYTES (length bs), s') \<and>
    room sample_env s' = 4096 - length bs"
  using assms
  apply (simp add: handle_recv_def recv_start_def new_recv_def alloc_def set_buf_def dealloc_def act_size_def sample_env_def Let_def)
  apply (subst recv_loop.simps)
  apply (simp add: set_variables_def Let_def recv_store_def buf_def min_def)
  apply (subst recv_parse.simps)
  apply (simp add: recv_step_def recv_hdr_def recv_grow_def recv_partial_def recv_finish_def scope_exit_def room_def)
  done

definition sample_pieces :: "mem list" where
  "sample_pieces = [take 10 sample_event, drop 10 sample_event @ take 5 sample_event]"

lemma concat_sample_pieces: "concat sample_pieces = sample_event @ take 5 sample_event"
  by (simp add: sample_pieces_def)

lemma sample_partha_new: "partha_events (conn (new_recv sample_partha))"
  by (simp add: new_recv_def partha_events_def sample_partha_def)

lemma sample_stream: "\<exists>s'. recv_calls sample_env 1 sample_pieces (new_recv sample_partha) = Some s'"
proof -
  let ?p = "take 10 sample_event" and ?q = "drop 10 sample_event @ take 5 sample_event"
  have len: "length sample_event = 24" by (simp add: sample_event_def)
  have fr: "pm_frames (x @ y) = ([], x @ y, True)" if "length (x @ y) < 16" for x y using that by (subst split_frames.simps) simp
  obtain s1 where s1: "handle_recv sample_env 1 [SOCK_DATA ?p] (new_recv sample_partha) = Some ([], RECV_BYTES 10, s1)"
      "room sample_env s1 = 4096 - 10"
    using sample_first_piece [of ?p 1 sample_partha] len by (auto simp: sample_event_def)
  have "?p \<noteq> []" "length ?p < room sample_env (new_recv sample_partha)"
    using len by (auto simp: room_def new_recv_def sample_env_def sample_event_def)
  then have i: "idle TTYPE_L2_MISC s1 ?p" "partha_events (conn s1)"
    using accepted_call [OF new_recv_idle sample_partha_new, of ?p "[]" "?p" 1] s1(1) fr [of "[]" ?p] len by auto
  have "pm_frames (?p @ ?q) = ([sample_event], take 5 sample_event, True)"
    using split_frames_append [OF sample_event_frames, of "take 5 sample_event"] fr [of "[]" "take 5 sample_event"] len
    by (simp flip: append_assoc)
  then have "\<exists>s2. handle_recv sample_env 1 [SOCK_DATA ?q] s1 = Some ([], RECV_BYTES (length ?q), s2)"
    using accepted_call [OF i, of ?q "[sample_event]" "take 5 sample_event" 1] s1(2) len sample_event_accepted by auto
  then show ?thesis using s1 len by (auto simp: room_def new_recv_def sample_env_def sample_pieces_def)
qed

section \<open>Properties\<close>

text \<open>(C5) The events of a Partha survive the way TCP cuts them. On a connection on which a Partha only sends
  events, however the stream is divided into reads, if no read fills the room that is left in the buffer
  and no event \<open>NOTIFY_CPU_MEM_STATE\<close> is shorter than its struct, then after calls that have not closed the
  connection the loop has given to the dispatch exactly the messages that the bytes of the whole stream
  consist of, in order and each once, all headers were valid, and the bytes of the incomplete message at
  the end are in the buffer for the next call.\<close>

theorem partha_stream:
  assumes "recv_calls e n cs s = Some s'" and "idle TTYPE_L2_MISC s []" and "partha_events (conn s)"
    and "env_ok (rx_message g tcurr closed peer) (magic_val PM_HDR_MAGIC) TTYPE_L2_DB_RD e"
    and "\<forall>f\<in>set (fst (split_frames (magic_val PM_HDR_MAGIC) (concat cs))). cpu_mem_full f"
  shows "\<exists>fs rest. split_frames (magic_val PM_HDR_MAGIC) (concat cs) = (fs, rest, True) \<and>
    idle TTYPE_L2_MISC s' rest \<and> seen s' = seen s @ fs"
  using partha.recv_calls_stream [OF assms(1-4)] assms(5) by (simp add: split_frames.simps)

lemma sample_stream_frames:
  "pm_frames (concat sample_pieces) = ([sample_event], take 5 sample_event, True)"
  unfolding concat_sample_pieces
  using split_frames_append [OF sample_event_frames, of "take 5 sample_event"]
  by (simp add: split_frames.simps sample_event_def)

lemma sample_stream_fine: "\<forall>f\<in>set (fst (pm_frames (concat sample_pieces))). cpu_mem_full f"
  unfolding sample_stream_frames using sample_event_accepted by simp

theorem partha_stream_witness:
  "\<exists>s'. recv_calls sample_env 1 sample_pieces (new_recv sample_partha) = Some s' \<and> seen s' = [sample_event]"
proof -
  obtain s' where s': "recv_calls sample_env 1 sample_pieces (new_recv sample_partha) = Some s'"
    using sample_stream by blast
  from partha_stream [OF s' new_recv_idle sample_partha_new sample_env_ok sample_stream_fine] s'
  show ?thesis by (auto simp: sample_stream_frames) (simp add: seen_def new_recv_def)
qed

text \<open>(C6) Every event that was scheduled leaves the L1 thread exactly once. Under the conditions of the
  theorem before, after the calls the arrays that were sent hold exactly the messages that the dispatch has
  scheduled, each once, in the order of their arrival and with the bytes the dispatch has left, and nothing
  is waiting in an array. Every array lies in the buffer that goes with it, and the L1 thread no longer owns
  this buffer. An array is handed over exactly if a queue took it, and is lost otherwise: if the queues
  take every array, the other threads get all scheduled messages.\<close>

theorem partha_handed_over:
  assumes "recv_calls e n cs s = Some s'" and "idle TTYPE_L2_MISC s []" and "partha_events (conn s)"
    and "env_ok (rx_message g tcurr closed peer) (magic_val PM_HDR_MAGIC) TTYPE_L2_DB_RD e"
    and "\<forall>f\<in>set (fst (split_frames (magic_val PM_HDR_MAGIC) (concat cs))). cpu_mem_full f"
    and "queue_log e s"
  shows "map (entry_bytes (heap s')) (concat (map sent_arr (sent s'))) = scheduled (rd_requests s') \<and>
    (\<forall>x\<in>set (sent s'). sent_fine (heap s') (released s') x) \<and> dbonearr s' = [] \<and>
    (\<forall>b. pdirbuf s' = Some b \<longrightarrow> b \<notin> released s') \<and>
    (\<forall>k<length (sent s'). sent_ok (sent s' ! k) = mpmc_write e k) \<and>
    ((\<forall>k. mpmc_write e k) \<longrightarrow> delivered s' = scheduled (rd_requests s'))"
proof -
  let ?F = "split_frames (magic_val PM_HDR_MAGIC)"
  have nil: "?F [] = ([], [], True)" by (simp add: split_frames.simps)
  have fine: "\<forall>f\<in>set (fst (?F ([] @ concat cs))). cpu_mem_full f" using assms(5) by simp
  obtain rest where i: "idle TTYPE_L2_MISC s' rest" using partha.recv_calls_stream [OF assms(1-4) fine nil] by blast
  have q: "queue_log e s'" by (rule partha.recv_calls_log [OF assms(1-4) fine nil assms(6)])
  have "delivered s' = handed s'" if "\<forall>k. mpmc_write e k"
    using queue_log_all [OF q that] i by (auto simp: delivered_def handed_def idle_def)
  then show ?thesis using i q [unfolded queue_log_def]
    by (auto simp: idle_def rlog_def handed_def waiting_def rinv_def rbuf_def)
qed

lemma new_recv_log: "queue_log e (new_recv c)"
  by (simp add: queue_log_def new_recv_def)

theorem partha_handed_over_witness:
  "\<exists>s'. recv_calls sample_env 1 sample_pieces (new_recv sample_partha) = Some s' \<and> dbonearr s' = [] \<and>
     delivered s' = scheduled (rd_requests s')"
proof -
  obtain s' where s': "recv_calls sample_env 1 sample_pieces (new_recv sample_partha) = Some s'"
    using sample_stream by blast
  have "\<forall>k. mpmc_write sample_env k" by (simp add: sample_env_def)
  then show ?thesis
    using partha_handed_over [OF s' new_recv_idle sample_partha_new sample_env_ok sample_stream_fine new_recv_log] s' by blast
qed

text \<open>(C7) A call on a piece of the events of a Partha that does not fill the room left in the buffer, and in
  which no event \<open>NOTIFY_CPU_MEM_STATE\<close> is shorter than its struct, always returns, touches only buffers it
  owns, and throws none of its internal errors. It closes the connection only if the header after the
  messages is not valid or if the dispatch refuses one of the messages, which is the last one it got; no
  message after that one is looked at. Otherwise it has given all complete messages to the dispatch and is
  ready for the next call.\<close>

theorem partha_call:
  assumes "idle TTYPE_L2_MISC s held" and "partha_events (conn s)"
    and "env_ok (rx_message g tcurr closed peer) (magic_val PM_HDR_MAGIC) TTYPE_L2_DB_RD e"
    and "bs \<noteq> []" "length bs < room e s"
    and "split_frames (magic_val PM_HDR_MAGIC) (held @ bs) = (fs, rest, ok)" and "\<forall>f\<in>set fs. cpu_mem_full f"
  shows "\<exists>r s'. handle_recv e n [SOCK_DATA bs] s = Some ([], r, s') \<and>
    (r = RECV_BYTES (length bs) \<and> ok \<and> idle TTYPE_L2_MISC s' rest \<and> partha_events (conn s') \<and> seen s' = seen s @ fs \<or>
     r \<in> {RECV_THROW, RECV_CLOSE} \<and> stopped (rx_message g tcurr closed peer) partha_events s fs ok s')"
  using partha.handle_recv_piece [OF assms(1-5), of n] assms(6,7) by (auto split: if_splits)

theorem partha_call_witness:
  "\<exists>r s'. handle_recv sample_env 1 [SOCK_DATA sample_event] (new_recv sample_partha) = Some ([], r, s')"
proof -
  have "sample_event \<noteq> []" "length sample_event < room sample_env (new_recv sample_partha)"
    by (simp_all add: room_def new_recv_def sample_env_def sample_event_def)
  from partha_call [OF new_recv_idle sample_partha_new sample_env_ok this, of "[sample_event]" "[]" True 1]
  show ?thesis using sample_event_frames sample_stream_fine by (auto simp: sample_stream_frames)
qed
end
