(* ===== verification/Gy_Recv_Limits.thy ===== *)
theory Gy_Recv_Limits
  imports Gy_Madhava_Recv
begin

text \<open>
  Where the receive loop of \<open>Gy_L1_Recv\<close> does not do what it means to: after a read that fills the buffer
  up to the end of a message the loop starts again at the first byte, a request behind a registration
  is looked for in a buffer that has been given away, and a message for other threads than the ones before
  it is entered with its old address. That the rounds of the loop come to an end holds all the same.
\<close>

section \<open>A filled buffer\<close>

text \<open>One round with a complete message that the dispatch leaves as it is.\<close>

lemma recv_step_dispatch:
  assumes "rbuf s b off" and "area s = f @ rest" and "load_header f 0 = Some h" and "length f = unat (total_sz h)"
    and "validate_hdr h 0 (comm_magic e)" and "dispatch e (conn s) h (heap s ! b) off = Some (a, st, c, heap s ! b)"
  shows "recv_step e ag s =
    rx_then (recv_act e (b, off) a (s\<lparr>hdr := h, conn := c, statsmap := statsmap s @ st, rd_requests := rd_requests s @ [(f, a, f)]\<rparr>))
      (\<lambda>s. rx_then (recv_advance s) (recv_flush e ag))"
proof -
  note b = assms(1) [unfolded rbuf_def]
  have len: "length f + length rest = data_sz s" using area_length [OF assms(1)] assms(2) by simp
  have sz: "16 \<le> length f" using assms(4,5) by (auto simp: validate_hdr_iff)
  have lh: "load_header (area s) 0 = Some h"
    using load_header_slice [of "length f" 0 "f @ rest"] sz assms(2,3) by simp
  have "recv_hdr e s = Some (RX_OK (s\<lparr>hdr := h\<rparr>))"
    using recv_hdr_full [OF assms(1) _ lh, of e] assms(5) len sz by simp
  moreover have "recv_grow e (s\<lparr>hdr := h\<rparr>) = Some (RX_OK (s\<lparr>hdr := h\<rparr>))"
    using len b assms(4) by (simp add: recv_grow_def)
  moreover have "take (length f) (drop off (heap s ! b)) = f"
    using arg_cong [OF assms(2), of "take (length f)"] len by (simp add: area_eq [OF assms(1)] min_def)
  then have "recv_dispatch e (s\<lparr>hdr := h\<rparr>) =
      recv_act e (b, off) a (s\<lparr>hdr := h, conn := c, statsmap := statsmap s @ st, rd_requests := rd_requests s @ [(f, a, f)]\<rparr>)"
    using b assms(4,6) by (simp add: recv_dispatch_def buf_def)
  ultimately show ?thesis using len assms(4) by (simp add: recv_step_def)
qed

text \<open>One round with a message that is scheduled.\<close>

definition scheduled_state ::
  "('d, 'c) RECV \<Rightarrow> nat \<Rightarrow> nat \<Rightarrow> COMM_HEADER \<Rightarrow> mem \<Rightarrow> 'd \<Rightarrow> bool \<Rightarrow> stats_upd \<Rightarrow> 'c \<Rightarrow> ('d, 'c) RECV" where
  "scheduled_state s b off h f d j st c = s\<lparr>hdr := h, conn := c, statsmap := statsmap s @ st,
     rd_requests := rd_requests s @ [(f, RX_SCHED d j, f)],
     dbonearr := dbonearr s @ [\<lparr>pwrbuf = (b, off), wrlen = length f, wr_type = data_type h\<rparr>],
     pbufstart := (if dbonearr s = [] then pdirbuf s else pbufstart s),
     dest_thr_type := (if dbonearr s = [] then d else dest_thr_type s),
     data_sz := data_sz s - length f, max_buf_sz := max_buf_sz s - length f, prdbuf := Some (b, off + length f)\<rparr>"

lemma recv_step_sched:
  assumes "rbuf s b off" and "area s = f @ rest" and "load_header f 0 = Some h" and "length f = unat (total_sz h)"
    and "validate_hdr h 0 (comm_magic e)" and "length (dbonearr s) < MAX_DBONE"
    and "dispatch e (conn s) h (heap s ! b) off = Some (RX_SCHED d j, st, c, heap s ! b)"
    and "dbonearr s = [] \<or> d = dest_thr_type s \<and> d \<noteq> ttype_rd e"
  shows "recv_step e ag s = recv_flush e ag (scheduled_state s b off h f d j st c)"
proof -
  have len: "length f + length rest = data_sz s" "16 \<le> length f" "data_sz s \<le> max_buf_sz s" "prdbuf s = Some (b, off)"
    using area_length [OF assms(1)] assms(1,2,4,5) by (auto simp: validate_hdr_iff rbuf_def)
  then have "data_sz s \<noteq> 0" by linarith
  then show ?thesis
    using recv_step_dispatch [OF assms(1-5,7), of ag] len assms(4,6,8)
    by (auto simp: recv_act_def schedule_db_array_def recv_advance_def scheduled_state_def)
qed

definition sample_long :: mem where
  "sample_long = [5, 0x66, 0x66, 5, 0xE8, 0xF, 0, 0, 14, 0, 0, 0, 0, 0, 0, 0, 5, 3, 0, 0, 0, 0, 0, 0] @ zero_buf 0 4048"

definition sample_long_hdr :: COMM_HEADER where
  "sample_long_hdr = sample_hdr\<lparr>total_sz := 4072\<rparr>"

lemma length_samples [simp]: "length sample_event = 24" "length sample_long = 4072" "sample_event \<noteq> []"
  by (simp_all add: sample_event_def sample_long_def)

lemma sample_long_valid:
  "load_header sample_long 0 = Some sample_long_hdr" "validate_hdr sample_long_hdr 0 (magic_val PM_HDR_MAGIC)"
  by (simp add: load_header_def fld_def rd_def rdv_def gy_size sample_long_def sample_long_hdr_def sample_hdr_def
      magic_val.simps comm_type_val.simps)
    (auto simp: validate_hdr_iff sample_long_hdr_def sample_hdr_def)

lemma sample_long_sched:
  assumes "load_header m p = Some h" and "msg_in h m p" and "sample_long = take (unat (total_sz h)) (drop p m)"
    and "partha_events c"
  shows "rx_message g tcurr closed peer c h m p = Some (RX_SCHED TTYPE_L2_MISC False, [], c, m)"
  by (rule task_aggr_sched [OF assms(1-3) sample_long_valid _ _ _ assms(4)])
    (simp_all add: sample_long_hdr_def sample_hdr_def rd_def rdv_def sample_long_def)

text \<open>The states of a call on a read that fills a buffer of 4096 bytes with these two events.\<close>

definition filled_read :: "(TTYPE_E, CONNTRACK) RECV" where
  "filled_read = (new_recv sample_partha)\<lparr>heap := [sample_event @ sample_long], pdirbuf := Some 0, rd_max := 4096,
     rd_data := 4096, prdbuf := Some (0, 0), max_buf_sz := 4096, data_sz := 4096,
     hdr := snd (set_type_len empty_header COMM_MIN_TYPE 0 INV_HDR_MAGIC)\<rparr>"

lemma filled_read_start:
  assumes "recv_parse sample_env False filled_read = Some (RX_OK s)"
  shows "handle_recv sample_env 2 (SOCK_DATA (sample_event @ sample_long) # ev) (new_recv sample_partha) = do {
     (left, tot, r) \<leftarrow> recv_loop sample_env 1 False 4096 ev s;
     r' \<leftarrow> rx_then (Some r) (recv_finish sample_env tot);
     Some (left, recv_ret tot r') }"
proof -
  define s1 where "s1 = (new_recv sample_partha)\<lparr>heap := [zero_buf 0 4096], pdirbuf := Some 0, rd_max := 4096,
     hdr := snd (set_type_len empty_header COMM_MIN_TYPE 0 INV_HDR_MAGIC)\<rparr>"
  have "recv_start sample_env (new_recv sample_partha) = Some (RX_OK s1)"
    by (simp add: recv_start_def new_recv_def alloc_def set_buf_def dealloc_def act_size_def Let_def s1_def sample_env_def)
  moreover have "recv_store (sample_event @ sample_long) (set_variables s1) = Some filled_read"
    by (simp add: recv_store_def set_variables_def buf_def s1_def filled_read_def new_recv_def Let_def)
  then have "recv_loop sample_env 2 False 0 (SOCK_DATA (sample_event @ sample_long) # ev) s1 =
      recv_loop sample_env 1 False 4096 ev s"
    using assms by (subst recv_loop.simps) (simp add: set_variables_def s1_def new_recv_def Let_def)
  moreover have "pending_sz (new_recv sample_partha) = 0" by (simp add: new_recv_def)
  ultimately show ?thesis by (simp add: handle_recv_def)
qed

text \<open>The first event goes with the first buffer; the second one is entered in a new buffer, which has
  room for another header.\<close>

definition second_buf :: "(TTYPE_E, CONNTRACK) RECV" where
  "second_buf = (new_recv sample_partha)\<lparr>heap := [sample_event @ sample_long, sample_long @ drop 4072 (zero_buf 1 4096)],
     released := {0}, pdirbuf := Some 1, rd_max := 4096, rd_data := 4072, prdbuf := Some (1, 0), max_buf_sz := 4096,
     data_sz := 4072, hdr := sample_hdr, rd_requests := [(sample_event, RX_SCHED TTYPE_L2_MISC False, sample_event)],
     sent := [\<lparr>sent_dest = TTYPE_L2_MISC, sent_buf = Some 0,
       sent_arr = [\<lparr>pwrbuf = (0, 0), wrlen = 24, wr_type = data_type sample_hdr\<rparr>], sent_json = False, sent_ok = True\<rparr>]\<rparr>"

lemma filled_read_first: "recv_step sample_env False filled_read = Some (RX_OK second_buf)"
proof -
  have rb: "rbuf filled_read 0 0" "area filled_read = sample_event @ sample_long"
    by (simp_all add: rbuf_def area_def filled_read_def new_recv_def)
  have "load_header (sample_event @ sample_long) 0 = Some sample_hdr"
    using load_header_slice [of 24 0 "sample_event @ sample_long"] by (simp add: sample_event_hdr)
  then have "rx_message sample_madhava 0 False False sample_partha sample_hdr (sample_event @ sample_long) 0 =
      Some (RX_SCHED TTYPE_L2_MISC False, [], sample_partha, sample_event @ sample_long)"
    using sample_partha_new by (intro sample_event_sched) (simp_all add: msg_in_def sample_hdr_def new_recv_def)
  then have "recv_step sample_env False filled_read = recv_flush sample_env False
      (scheduled_state filled_read 0 0 sample_hdr sample_event TTYPE_L2_MISC False [] sample_partha)"
    using sample_valid(1)
    by (intro recv_step_sched [OF rb sample_event_hdr])
      (simp_all add: sample_env_def filled_read_def new_recv_def sample_hdr_def)
  also have "\<dots> = Some (RX_OK second_buf)"
    by (simp add: recv_flush_def scheduled_state_def filled_read_def new_recv_def alloc_def copy_to_def buf_def
        send_and_reset_def send_db_array_def use_buf_def set_buf_def dealloc_def act_size_def set_variables_def
        reset_buf_def sample_env_def second_buf_def Let_def)
  finally show ?thesis .
qed

lemma filled_read_second:
  "\<exists>s. recv_step sample_env False second_buf = Some (RX_OK s) \<and>
     s = scheduled_state second_buf 1 0 sample_long_hdr sample_long TTYPE_L2_MISC False [] sample_partha"
proof -
  let ?m = "sample_long @ drop 4072 (zero_buf 1 4096)"
  have rb: "rbuf second_buf 1 0" "area second_buf = sample_long @ []"
    by (simp_all add: rbuf_def area_def second_buf_def new_recv_def)
  have "load_header ?m 0 = Some sample_long_hdr"
    using load_header_slice [of 4072 0 ?m] by (simp add: sample_long_valid)
  then have "rx_message sample_madhava 0 False False sample_partha sample_long_hdr ?m 0 =
      Some (RX_SCHED TTYPE_L2_MISC False, [], sample_partha, ?m)"
    using sample_partha_new
    by (intro sample_long_sched) (simp_all add: msg_in_def sample_long_hdr_def sample_hdr_def new_recv_def)
  then have "recv_step sample_env False second_buf = recv_flush sample_env False
      (scheduled_state second_buf 1 0 sample_long_hdr sample_long TTYPE_L2_MISC False [] sample_partha)"
    using sample_long_valid
    by (intro recv_step_sched [OF rb])
      (simp_all add: sample_env_def second_buf_def new_recv_def sample_long_hdr_def sample_hdr_def)
  then show ?thesis
    by (simp add: recv_flush_def scheduled_state_def second_buf_def new_recv_def Let_def)
qed

text \<open>The call ends with the second event again in the buffer of the connection.\<close>

definition third_buf :: "(TTYPE_E, CONNTRACK) RECV" where
  "third_buf = (new_recv sample_partha)\<lparr>heap := [sample_event @ sample_long, sample_long @ drop 4072 (zero_buf 1 4096),
       sample_long @ drop 4072 (zero_buf 2 5096)], released := {0, 1}, pdirbuf := Some 2, rd_max := 5096, rd_data := 4072,
     prdbuf := Some (1, 0), max_buf_sz := 4096, data_sz := 4072, hdr := sample_long_hdr,
     rd_requests := [(sample_event, RX_SCHED TTYPE_L2_MISC False, sample_event),
                     (sample_long, RX_SCHED TTYPE_L2_MISC False, sample_long)],
     sent := [\<lparr>sent_dest = TTYPE_L2_MISC, sent_buf = Some 0,
       sent_arr = [\<lparr>pwrbuf = (0, 0), wrlen = 24, wr_type = data_type sample_hdr\<rparr>], sent_json = False, sent_ok = True\<rparr>,
       \<lparr>sent_dest = TTYPE_L2_MISC, sent_buf = Some 1,
       sent_arr = [\<lparr>pwrbuf = (1, 0), wrlen = 4072, wr_type = data_type sample_long_hdr\<rparr>], sent_json = False, sent_ok = True\<rparr>]\<rparr>"

lemma third_buf_idle: "idle TTYPE_L2_MISC third_buf sample_long"
proof -
  have "rlog True third_buf"
    by (auto simp: rlog_def third_buf_def new_recv_def handed_def entry_bytes_def sent_fine_def)
  moreover have "rlog True (set_variables third_buf)"
    by (auto simp: rlog_def third_buf_def new_recv_def handed_def entry_bytes_def sent_fine_def set_variables_def)
  then have "waiting True TTYPE_L2_MISC (set_variables third_buf) sample_long"
    by (auto simp: waiting_def rinv_def rbuf_def rarr_def area_def third_buf_def new_recv_def set_variables_def)
  ultimately show ?thesis by (simp add: idle_def third_buf_def new_recv_def)
qed

lemma filled_read_parse:
  "recv_parse sample_env False filled_read =
     Some (RX_OK (scheduled_state second_buf 1 0 sample_long_hdr sample_long TTYPE_L2_MISC False [] sample_partha))"
  using filled_read_first filled_read_second
  by (simp add: recv_parse.simps [of _ _ filled_read] recv_parse.simps [of _ _ second_buf])
    (simp add: scheduled_state_def second_buf_def new_recv_def)

lemma filled_read_end:
  "\<exists>s. handle_recv sample_env 2 [SOCK_DATA (sample_event @ sample_long)] (new_recv sample_partha) =
       Some ([], RECV_BYTES 4096, s) \<and> idle TTYPE_L2_MISC s sample_long \<and> partha_events (conn s) \<and>
     seen s = [sample_event, sample_long] \<and> room sample_env s = 1024"
proof -
  let ?s = "scheduled_state second_buf 1 0 sample_long_hdr sample_long TTYPE_L2_MISC False [] sample_partha"
  define u where "u = set_variables ?s"
  have "recv_loop sample_env 1 False 4096 [] ?s = Some ([], 4096, RX_OK u)"
    by (subst recv_loop.simps) (simp add: u_def scheduled_state_def second_buf_def new_recv_def set_variables_def Let_def)
  moreover have "recv_finish sample_env 4096 u = Some (RX_OK third_buf)"
    by (simp add: recv_finish_def u_def scheduled_state_def second_buf_def new_recv_def alloc_def copy_to_def buf_def
        send_and_reset_def send_db_array_def set_buf_def dealloc_def act_size_def set_variables_def
        reset_buf_def sample_env_def third_buf_def numeral_2_eq_2 insert_commute Let_def)
  moreover have "scope_exit third_buf = third_buf" by (rule scope_exit_none) (simp_all add: third_buf_def new_recv_def)
  ultimately have "handle_recv sample_env 2 [SOCK_DATA (sample_event @ sample_long)] (new_recv sample_partha) =
      Some ([], RECV_BYTES 4096, third_buf)"
    using filled_read_start [OF filled_read_parse] by simp
  then show ?thesis using third_buf_idle sample_partha_new
    by (simp add: seen_def room_def) (simp add: third_buf_def new_recv_def)
qed

lemma sample_long_accepted:
  "cpu_mem_full sample_long \<and> \<not> refuses (rx_message g tcurr closed peer) partha_events sample_long a"
proof
  show "cpu_mem_full sample_long"
    by (simp add: cpu_mem_full_def fldv_def gy_size rdv_def sample_long_def notify_val.simps)
  show "\<not> refuses (rx_message g tcurr closed peer) partha_events sample_long a"
    using sample_long_sched by (fastforce simp: refuses_def)
qed

text \<open>(C21) The rounds of the receive loop over the bytes of a read come to an end, whatever the peer sends
  and whatever the dispatch does with the state of the connection: a round that goes on has consumed a
  header at least, so that \<open>n\<close> rounds in a row have consumed 16 bytes each, and there is no infinite
  sequence of rounds.\<close>

theorem recv_rounds_end:
  "wf {(s', s). recv_step e ag s = Some (RX_OK s')} \<and>
   (((\<lambda>s s'. recv_step e ag s = Some (RX_OK s')) ^^ n) s s' \<longrightarrow> 16 * n + data_sz s' \<le> data_sz s)"
proof
  have "{(s', s). recv_step e ag s = Some (RX_OK s')} \<subseteq> measure data_sz"
    by (auto dest: recv_step_consumes)
  then show "wf {(s', s). recv_step e ag s = Some (RX_OK s')}" by (rule wf_subset [OF wf_measure])
qed (use recv_rounds in blast)

theorem recv_rounds_end_witness:
  "((\<lambda>s s'. recv_step sample_env False s = Some (RX_OK s')) ^^ 1) filled_read second_buf \<and>
   16 * 1 + data_sz second_buf \<le> data_sz filled_read"
  using recv_rounds_end [of sample_env False 1 filled_read second_buf] filled_read_first by (simp add: eq_OO)

text \<open>An example of a message that is handled twice. A Partha sends two events that together have the size of the
  receive buffer, so that one read fills the buffer and ends with the second event, and then a third
  one. The dispatch sees four messages: the second event is scheduled a second time.\<close>

theorem filled_read_repeats:
  "\<exists>s s'. handle_recv sample_env 2 [SOCK_DATA (sample_event @ sample_long)] (new_recv sample_partha) =
       Some ([], RECV_BYTES 4096, s) \<and>
     handle_recv sample_env 2 [SOCK_DATA sample_event] s = Some ([], RECV_BYTES 24, s') \<and>
     seen s' = [sample_event, sample_long, sample_long, sample_event]"
proof -
  obtain s where s: "handle_recv sample_env 2 [SOCK_DATA (sample_event @ sample_long)] (new_recv sample_partha) =
       Some ([], RECV_BYTES 4096, s)" "idle TTYPE_L2_MISC s sample_long" "partha_events (conn s)"
      "seen s = [sample_event, sample_long]" "room sample_env s = 1024"
    using filled_read_end by blast
  have "pm_frames sample_long = ([sample_long], [], True)"
    using sample_long_valid by (subst split_frames.simps) (simp add: split_frames.simps sample_long_hdr_def)
  from split_frames_append [OF this, of sample_event]
  have "pm_frames (sample_long @ sample_event) = ([sample_long, sample_event], [], True)"
    by (simp add: sample_event_frames)
  moreover have "cpu_mem_full f \<and> \<not> refuses (rx_message sample_madhava 0 False False) partha_events f a"
    if mem: "f \<in> set [sample_long, sample_event]" for f a
  proof -
    consider "f = sample_long" | "f = sample_event" using mem by auto
    then show ?thesis using sample_event_accepted sample_long_accepted by cases simp_all
  qed
  ultimately obtain s' where "handle_recv sample_env 2 [SOCK_DATA sample_event] s = Some ([], RECV_BYTES 24, s')"
      "seen s' = seen s @ [sample_long, sample_event]"
    using accepted_call [OF s(2,3), of sample_event "[sample_long, sample_event]" "[]" 2] s(5) by auto
  then show ?thesis using s by auto
qed

text \<open>If the Partha closes the connection right after such a read, the array is handed over with its
  buffer while the connection keeps its pointer to the same buffer, which it frees when it is
  destroyed.\<close>

theorem filled_read_then_close:
  "\<exists>s. handle_recv sample_env 2 [SOCK_DATA (sample_event @ sample_long), SOCK_EOF] (new_recv sample_partha) =
       Some ([], RECV_CLOSE, s) \<and> (\<exists>b x. pdirbuf s = Some b \<and> x \<in> set (sent s) \<and> sent_buf x = Some b \<and> sent_ok x)"
proof -
  let ?s = "scheduled_state second_buf 1 0 sample_long_hdr sample_long TTYPE_L2_MISC False [] sample_partha"
  define u where "u = recv_fail sample_env (set_variables ?s)"
  have "recv_loop sample_env 1 False 4096 [SOCK_EOF] ?s = Some ([], 4096, RX_RET u)"
    by (subst recv_loop.simps) (simp add: u_def scheduled_state_def second_buf_def new_recv_def set_variables_def Let_def)
  then have "handle_recv sample_env 2 [SOCK_DATA (sample_event @ sample_long), SOCK_EOF] (new_recv sample_partha) =
      Some ([], RECV_CLOSE, scope_exit u)"
    using filled_read_start [OF filled_read_parse, of "[SOCK_EOF]"] by simp
  moreover have "pdirbuf (scope_exit u) = Some 1" "\<exists>x\<in>set (sent (scope_exit u)). sent_buf x = Some 1 \<and> sent_ok x"
    by (simp_all add: u_def scope_exit_def recv_fail_def send_db_array_def scheduled_state_def second_buf_def
        new_recv_def set_variables_def sample_env_def Let_def)
  ultimately show ?thesis by blast
qed

section \<open>Bytes behind a registration\<close>

text \<open>(C33) A request behind a registration is looked for in a buffer that is gone. If the message at
  \<open>prdbuf\<close> is a registration that is accepted and put into a queue, and further bytes follow it in the
  buffer, the loop goes on to read the buffer it has just given to another thread, or moves the bytes to
  a null pointer.\<close>

theorem register_then_more:
  assumes "rbuf s b off" and "load_header (area s) 0 = Some h" and "validate_hdr h 0 (comm_magic e)"
    and "unat (total_sz h) < data_sz s" and "dbonearr s = []" and "mpmc_write e (length (sent s))"
    and "dispatch e (conn s) h (heap s ! b) off = Some (RX_REGISTER stb, st, c, m')"
  shows "recv_parse e ag s = None"
proof -
  note b = assms(1) [unfolded rbuf_def]
  let ?n = "unat (total_sz h)"
  have sz: "16 \<le> ?n" using assms(3) by (auto simp: validate_hdr_iff)
  have "recv_hdr e s = Some (RX_OK (s\<lparr>hdr := h\<rparr>))"
    using recv_hdr_full [OF assms(1) _ assms(2), of e] assms(3,4) sz by simp
  moreover have "recv_grow e (s\<lparr>hdr := h\<rparr>) = Some (RX_OK (s\<lparr>hdr := h\<rparr>))"
    using b assms(4) by (simp add: recv_grow_def)
  moreover obtain t where t: "rx_then (recv_dispatch e (s\<lparr>hdr := h\<rparr>)) recv_advance = Some (RX_OK t)"
      "pdirbuf t = None" "rd_data t = 0" "released t = insert b (released s)" "dbonearr t = []"
      "data_sz t = data_sz s - ?n" "prdbuf t = Some (b, off + ?n)"
    using b assms(4-7)
    by (auto simp: recv_dispatch_def buf_def recv_act_def schedule_db_array_def recv_advance_def
        send_db_array_def Let_def)
  ultimately have step: "recv_step e ag s = recv_flush e ag t"
    using assms(4) by (auto simp: recv_step_def rx_then_OK)
  have move: "recv_move (t\<lparr>hdr := h'\<rparr>) = None" for h' using t(2) by (simp add: recv_move_def copy_to_def)
  show ?thesis
  proof (cases "max_buf_sz t - data_sz t < 16")
    case True
    then have "recv_flush e ag t = None" using t assms(4) move [of "hdr t"] by (simp add: recv_flush_def Let_def)
    then show ?thesis using step by (simp add: recv_parse.simps)
  next
    case False
    then have "recv_step e ag s = Some (RX_OK t)" using step t(5) by (simp add: recv_flush_def Let_def)
    moreover have "\<not> max_buf_sz t < 16" using False by linarith
    then have "recv_step e ag t = None"
      using t assms(4) move
      by (simp add: recv_step_def recv_hdr_def buf_def recv_grow_def recv_partial_def)
    ultimately show ?thesis using t(6) assms(4)
      by (simp add: recv_parse.simps [of e ag s] recv_parse.simps [of e ag t])
  qed
qed

text \<open>The registration of \<open>sample_connect\<close> with its header, followed by 16 more bytes.\<close>

definition sample_register :: mem where
  "sample_register = [5, 0x66, 0x66, 5, 0x70, 4, 0, 0, 3, 0, 0, 0, 0, 0, 0, 0] @ drop 16 sample_connect @ replicate 16 0"

definition register_state :: "(TTYPE_E, CONNTRACK) RECV" where
  "register_state = (new_recv sample_new)\<lparr>heap := [sample_register], pdirbuf := Some 0, rd_max := 1152, rd_data := 1152,
     prdbuf := Some (0, 0), max_buf_sz := 1152, data_sz := 1152\<rparr>"

lemma sample_register_dispatch:
  "\<exists>st m'. rx_message sample_madhava 0 False False sample_new sample_connect_hdr sample_register 0 =
     Some (RX_REGISTER ''Partha Registration Blocking Fail'', st, sample_new, m')"
proof -
  have "(16 :: nat) + csizeof PM_CONNECT_CMD_S_t \<le> length sample_register"
    by (simp add: sample_register_def sample_connect_def)
  from PM_CONNECT_CMD_S_validate_fields_result [OF this, of 0 0 0 0]
  obtain m' where "PM_CONNECT_CMD_S_validate_fields 0 0 0 0 sample_register 16 = Some (None, m')"
    by (auto simp: fldv_def rdv_def gy_size sample_register_def sample_connect_def clock_differs_def labs64_def
        reg_result_def)
  then show ?thesis
    by (simp add: rx_message_def l1_message_def sample_connect_hdr_def sample_madhava_def sample_new_def
        l1_pm_connect_cmd_def l1_connect_def PM_CONNECT_CMD_S_validate_def exact_reg_validate_def
        get_act_len_def with_conn_def Let_def)
qed

theorem register_then_more_witness: "recv_parse sample_env True register_state = None"
proof -
  obtain st m' where "rx_message sample_madhava 0 False False sample_new sample_connect_hdr sample_register 0 =
     Some (RX_REGISTER ''Partha Registration Blocking Fail'', st, sample_new, m')"
    using sample_register_dispatch by blast
  moreover have len: "length sample_register = 1152" by (simp add: sample_register_def sample_connect_def)
  then have rb: "rbuf register_state 0 0" "area register_state = sample_register"
    by (simp_all add: rbuf_def area_def register_state_def new_recv_def)
  moreover have "load_header sample_register 0 = Some sample_connect_hdr"
    by (simp add: load_header_def fld_def rd_def rdv_def gy_size sample_register_def sample_connect_def
        sample_connect_hdr_def magic_val.simps comm_type_val.simps)
  ultimately show ?thesis
    using sample_connect_valid(1)
    by (intro register_then_more [OF rb(1)])
      (simp_all add: sample_env_def register_state_def new_recv_def sample_connect_hdr_def)
qed

section \<open>A message for other threads\<close>

text \<open>(C34) A change of the destination leaves a dangling entry. If the array holds messages for other
  threads, \<open>schedule_db_array\<close> sends it with its buffer and copies the new message, but enters the
  address in the old buffer: the only entry of the new array is in a buffer that belongs to the threads
  of the old one, while the array will free another buffer.\<close>

theorem schedule_other_dangling:
  assumes "rbuf s b off" and "rarr st dst s b off" and "rlog st s" and "pool_ok e"
    and "dbonearr s \<noteq> []" "length (dbonearr s) < MAX_DBONE" and "dest \<noteq> dst"
    and "n \<le> data_sz s"
  shows "\<exists>s'. schedule_db_array e (b, off) n t dest j s = Some (RX_OK s') \<and>
    dbonearr s' = [\<lparr>pwrbuf = (b, off), wrlen = n, wr_type = t\<rparr>] \<and> b \<in> released s' \<and> pbufstart s' \<noteq> Some b"
proof -
  note b = assms(1) [unfolded rbuf_def]
  define m where "m = max 4096 (data_sz s)"
  define bf where "bf = safe_malloc e (length (heap s)) m"
  have bf: "data_sz s \<le> length bf" using assms(4) unfolding pool_ok_def bf_def m_def by (meson le_trans max.cobounded2)
  obtain s2 s4 where s: "copy_to (Some (length (heap s))) (prdbuf s) (data_sz s) (s\<lparr>heap := heap s @ [bf]\<rparr>) = Some s2"
      "use_buf (length (heap s)) (data_sz s) (give_up e j s2) = Some (RX_OK s4)" "dbonearr s2 = dbonearr s"
      "rbuf s4 (length (heap s)) 0" "dbonearr s4 = []"
    using rebuf [OF assms(1-3) bf, of e j] by blast
  have s2: "\<exists>hp. s2 = s\<lparr>heap := hp\<rparr>" using copy_to_Some [OF s(1)] by auto
  have ne: "0 < length (dbonearr s)" using assms(5) by simp
  then have gu: "give_up e j s2 = send_and_reset e j s2" using s(3) by (simp add: give_up_def)
  have rel: "b \<in> released s4"
    using s(2) s2 gu assms(2,5) unfolding use_buf_set_buf
    by (auto simp: send_and_reset_def set_buf_def dealloc_def rarr_def split: if_splits)
  have mx: "max n (data_sz s) = data_sz s" "max 4096 (data_sz s) = m" using assms(8) by (simp_all add: m_def)
  have "dest \<noteq> dest_thr_type s" using assms(2,5,7) by (simp add: rarr_def)
  then have sched: "schedule_db_array e (b, off) n t dest j s = Some (RX_OK (s4\<lparr>
      dbonearr := [\<lparr>pwrbuf = (b, off), wrlen = n, wr_type = t\<rparr>], pbufstart := pdirbuf s4, dest_thr_type := dest\<rparr>))"
    using ne assms(6) mx s(1,2,5) gu b
    by (simp add: schedule_db_array_def alloc_def bf_def Let_def)
  moreover have "pdirbuf s4 \<noteq> Some b" using s(4) b by (simp add: rbuf_def)
  ultimately show ?thesis using rel by simp
qed

text \<open>A message in the array and another one in the buffer behind it.\<close>

definition two_messages :: "(TTYPE_E, CONNTRACK) RECV" where
  "two_messages = (new_recv sample_partha)\<lparr>heap := [sample_event @ sample_event], pdirbuf := Some 0, rd_max := 48,
     rd_data := 48, prdbuf := Some (0, 24), max_buf_sz := 24, data_sz := 24,
     dbonearr := [\<lparr>pwrbuf = (0, 0), wrlen = 24, wr_type = 14\<rparr>], pbufstart := Some 0,
     rd_requests := [(sample_event, RX_SCHED TTYPE_L2_MISC False, sample_event)]\<rparr>"

theorem schedule_other_dangling_witness:
  "\<exists>s'. schedule_db_array sample_env (0, 24) 24 14 TTYPE_L2_ALERT False two_messages = Some (RX_OK s') \<and>
     0 \<in> released s' \<and> pbufstart s' \<noteq> Some 0"
proof -
  have "rbuf two_messages 0 24" "rarr True TTYPE_L2_MISC two_messages 0 24" "rlog True two_messages"
    by (simp_all add: rbuf_def rarr_def rlog_def handed_def entry_bytes_def two_messages_def new_recv_def)
  moreover have "pool_ok sample_env" by (simp add: pool_ok_def sample_env_def)
  ultimately show ?thesis
    using schedule_other_dangling [of two_messages 0 24 True TTYPE_L2_MISC sample_env TTYPE_L2_ALERT 24 14 False]
    by (auto simp: two_messages_def new_recv_def)
qed

end
