(* ===== verification/Gy_Std_Heap.thy ===== *)
theory Gy_Std_Heap
  imports Gy_Prelude "HOL-Library.Multiset"
begin

text \<open>
  The heap algorithms of the C++ standard library that \<open>BOUNDED_PRIO_QUEUE\<close> of
  \<open>common/gy_statistics.h\<close> calls, on a vector that is a list: \<open>std::push_heap\<close>, \<open>std::pop_heap\<close>,
  \<open>std::make_heap\<close> and \<open>std::sort_heap\<close>, with the moving hole of the implementation in libstdc++.
  A comparator is any function \<open>cmp\<close>; the locale \<open>strict_weak\<close> is what the standard requires of it,
  and under it the algorithms keep the elements and establish the heap order.
\<close>

section \<open>The algorithms\<close>

text \<open>\<open>__push_heap\<close>: the value \<open>x\<close> goes up from the hole until its parent is not below it.\<close>

function push_hole :: "('a \<Rightarrow> 'a \<Rightarrow> bool) \<Rightarrow> 'a list \<Rightarrow> nat \<Rightarrow> nat \<Rightarrow> 'a \<Rightarrow> 'a list" where
  "push_hole cmp v hole topi x =
     (if topi < hole \<and> cmp (v ! ((hole - 1) div 2)) x
      then push_hole cmp (v[hole := v ! ((hole - 1) div 2)]) ((hole - 1) div 2) topi x
      else v[hole := x])"
  by pat_completeness auto
termination
  by (relation "measure (\<lambda>(_, _, hole, _, _). hole)") auto

text \<open>The first loop of \<open>__adjust_heap\<close>: the hole goes down to a leaf, the larger child moves up. A node
  with a single child is the last inner node of a heap of even size.\<close>

function sink_hole :: "('a \<Rightarrow> 'a \<Rightarrow> bool) \<Rightarrow> 'a list \<Rightarrow> nat \<Rightarrow> nat \<Rightarrow> 'a list \<times> nat" where
  "sink_hole cmp v hole len =
     (if hole < (len - 1) div 2 then
        (let s = 2 * (hole + 1); c = (if cmp (v ! s) (v ! (s - 1)) then s - 1 else s)
         in sink_hole cmp (v[hole := v ! c]) c len)
      else if 2 \<le> len \<and> even len \<and> hole = (len - 2) div 2 then
        (v[hole := v ! (2 * (hole + 1) - 1)], 2 * (hole + 1) - 1)
      else (v, hole))"
  by pat_completeness auto
termination
  by (relation "measure (\<lambda>(_, _, hole, len). len - hole)") (auto simp: Let_def)

definition adjust_heap :: "('a \<Rightarrow> 'a \<Rightarrow> bool) \<Rightarrow> 'a list \<Rightarrow> nat \<Rightarrow> nat \<Rightarrow> 'a \<Rightarrow> 'a list" where
  "adjust_heap cmp v hole len x =
     (let (v', h) = sink_hole cmp v hole len in push_hole cmp v' h hole x)"

definition push_heap :: "('a \<Rightarrow> 'a \<Rightarrow> bool) \<Rightarrow> 'a list \<Rightarrow> 'a list" where
  "push_heap cmp v = (if v = [] then [] else push_hole cmp v (length v - 1) 0 (last v))"

text \<open>\<open>std::pop_heap\<close> on the first \<open>n\<close> elements: the top goes to place \<open>n - 1\<close>.\<close>

definition pop_heap_to :: "('a \<Rightarrow> 'a \<Rightarrow> bool) \<Rightarrow> 'a list \<Rightarrow> nat \<Rightarrow> 'a list" where
  "pop_heap_to cmp v n =
     (if 1 < n then adjust_heap cmp (v[n - 1 := v ! 0]) 0 (n - 1) (v ! (n - 1)) else v)"

definition pop_heap :: "('a \<Rightarrow> 'a \<Rightarrow> bool) \<Rightarrow> 'a list \<Rightarrow> 'a list" where
  "pop_heap cmp v = pop_heap_to cmp v (length v)"

primrec make_loop :: "('a \<Rightarrow> 'a \<Rightarrow> bool) \<Rightarrow> nat \<Rightarrow> 'a list \<Rightarrow> 'a list" where
  "make_loop cmp 0 v = v"
| "make_loop cmp (Suc p) v = make_loop cmp p (adjust_heap cmp v p (length v) (v ! p))"

definition make_heap :: "('a \<Rightarrow> 'a \<Rightarrow> bool) \<Rightarrow> 'a list \<Rightarrow> 'a list" where
  "make_heap cmp v = (if length v < 2 then v else make_loop cmp (Suc ((length v - 2) div 2)) v)"

fun sort_loop :: "('a \<Rightarrow> 'a \<Rightarrow> bool) \<Rightarrow> nat \<Rightarrow> 'a list \<Rightarrow> 'a list" where
  "sort_loop cmp n v = (if 1 < n then sort_loop cmp (n - 1) (pop_heap_to cmp v n) else v)"

definition sort_heap :: "('a \<Rightarrow> 'a \<Rightarrow> bool) \<Rightarrow> 'a list \<Rightarrow> 'a list" where
  "sort_heap cmp v = sort_loop cmp (length v) v"

declare push_hole.simps [simp del] sink_hole.simps [simp del] sort_loop.simps [simp del]

section \<open>The heap order\<close>

abbreviation par :: "nat \<Rightarrow> nat" where
  "par i \<equiv> (i - 1) div 2"

text \<open>Every node below \<open>n\<close> whose parent is at least \<open>k\<close> is not above its parent.\<close>

definition heap_from :: "('a \<Rightarrow> 'a \<Rightarrow> bool) \<Rightarrow> nat \<Rightarrow> nat \<Rightarrow> 'a list \<Rightarrow> bool" where
  "heap_from cmp k n v \<longleftrightarrow> (\<forall>i < n. 0 < i \<longrightarrow> k \<le> par i \<longrightarrow> \<not> cmp (v ! par i) (v ! i))"

abbreviation is_heap :: "('a \<Rightarrow> 'a \<Rightarrow> bool) \<Rightarrow> 'a list \<Rightarrow> bool" where
  "is_heap cmp v \<equiv> heap_from cmp 0 (length v) v"

text \<open>The heap order but for the node \<open>h\<close> below \<open>topi\<close>: \<open>defect_up\<close> when \<open>h\<close> may be above its parent,
  \<open>defect_down\<close> when it may also be below its children.\<close>

fun below :: "nat \<Rightarrow> nat \<Rightarrow> bool" where
  "below topi h = (if topi < h then below topi (par h) else h = topi)"

definition defect_up :: "('a \<Rightarrow> 'a \<Rightarrow> bool) \<Rightarrow> nat \<Rightarrow> nat \<Rightarrow> nat \<Rightarrow> 'a list \<Rightarrow> bool" where
  "defect_up cmp topi h n v \<longleftrightarrow> h < n \<and> n \<le> length v \<and> below topi h \<and>
     (\<forall>i < n. 0 < i \<longrightarrow> topi \<le> par i \<longrightarrow> i \<noteq> h \<longrightarrow> \<not> cmp (v ! par i) (v ! i)) \<and>
     (\<forall>i < n. 0 < i \<longrightarrow> par i = h \<longrightarrow> topi < h \<longrightarrow> \<not> cmp (v ! par h) (v ! i))"

definition defect_down :: "('a \<Rightarrow> 'a \<Rightarrow> bool) \<Rightarrow> nat \<Rightarrow> nat \<Rightarrow> nat \<Rightarrow> 'a list \<Rightarrow> bool" where
  "defect_down cmp topi h n v \<longleftrightarrow> h < n \<and> n \<le> length v \<and> below topi h \<and>
     (\<forall>i < n. 0 < i \<longrightarrow> topi \<le> par i \<longrightarrow> i \<noteq> h \<longrightarrow> par i \<noteq> h \<longrightarrow> \<not> cmp (v ! par i) (v ! i)) \<and>
     (\<forall>i < n. 0 < i \<longrightarrow> par i = h \<longrightarrow> topi < h \<longrightarrow> \<not> cmp (v ! par h) (v ! i))"

declare below.simps [simp del]

text \<open>The moves of a hole as exchanges in the vector that has the value in the hole.\<close>

abbreviation exch :: "'a list \<Rightarrow> nat \<Rightarrow> nat \<Rightarrow> 'a list" where
  "exch v i j \<equiv> v[i := v ! j, j := v ! i]"

lemma below_le: "below topi h \<Longrightarrow> topi \<le> h"
  by (subst (asm) below.simps) (simp split: if_split_asm)

lemma below_refl [simp]: "below topi topi"
  by (subst below.simps) simp

lemma below_par: "below topi h \<Longrightarrow> topi < h \<Longrightarrow> below topi (par h)"
  by (subst (asm) below.simps) auto

lemma below_child: "below topi (par c) \<Longrightarrow> 0 < c \<Longrightarrow> below topi c"
  using below_le [of topi "par c"] by (subst below.simps) auto

lemma below_0 [simp]: "below 0 h"
proof (induction h rule: less_induct)
  case (less h)
  show ?case
  proof (cases "h = 0")
    case False
    then have "below 0 (par h)" by (intro less) auto
    then show ?thesis using below_child [of 0 h] False by simp
  qed simp
qed

lemma par_less: "0 < i \<Longrightarrow> par i < i"
  by auto

lemma par_child: "0 < i \<Longrightarrow> par i = h \<longleftrightarrow> i = 2 * h + 1 \<or> i = 2 * h + 2"
  by auto

lemma length_push_hole [simp]: "length (push_hole cmp v hole topi x) = length v"
  by (induction cmp v hole topi x rule: push_hole.induct) (subst push_hole.simps, simp)

lemma mset_move:
  assumes "i < length v" "j < length v" "i \<noteq> j"
  shows "mset (v[i := v ! j, j := x]) = mset (v[i := x])"
proof -
  have "mset (v[i := v ! j, j := x]) = mset (exch (v[i := x]) i j)"
    using assms by (intro arg_cong [where f = mset] nth_equalityI) (auto simp: nth_list_update)
  also have "\<dots> = mset (v[i := x])"
    using assms by (intro mset_swap) auto
  finally show ?thesis .
qed

lemma mset_push_hole:
  assumes "hole < length v"
  shows "mset (push_hole cmp v hole topi x) = mset (v[hole := x])"
  using assms
proof (induction cmp v hole topi x rule: push_hole.induct)
  case (1 cmp v hole topi x)
  show ?case
  proof (cases "topi < hole \<and> cmp (v ! par hole) x")
    case True
    then have "par hole < hole" by (auto intro: par_less)
    then show ?thesis
      using True 1 by (subst push_hole.simps) (simp add: mset_move)
  next
    case False
    then show ?thesis by (subst push_hole.simps) auto
  qed
qed

lemma push_hole_outside:
  assumes "hole < n" "n \<le> i"
  shows "push_hole cmp v hole topi x ! i = v ! i"
  using assms
proof (induction cmp v hole topi x rule: push_hole.induct)
  case (1 cmp v hole topi x)
  show ?case
  proof (cases "topi < hole \<and> cmp (v ! par hole) x")
    case True
    then have "par hole < hole" by (auto intro: par_less)
    then show ?thesis
      using True 1 by (subst push_hole.simps) simp
  next
    case False
    then show ?thesis using 1(2,3) by (subst push_hole.simps) auto
  qed
qed

lemma sink_hole_facts:
  assumes "hole < len" "len \<le> length v"
  shows "length (fst (sink_hole cmp v hole len)) = length v \<and> snd (sink_hole cmp v hole len) < len \<and>
    mset ((fst (sink_hole cmp v hole len))[snd (sink_hole cmp v hole len) := x]) = mset (v[hole := x]) \<and>
    (\<forall>i \<ge> len. fst (sink_hole cmp v hole len) ! i = v ! i)"
  using assms
proof (induction cmp v hole len rule: sink_hole.induct)
  case (1 cmp v hole len)
  consider (two) "hole < (len - 1) div 2"
    | (one) "\<not> hole < (len - 1) div 2" "2 \<le> len \<and> even len \<and> hole = (len - 2) div 2"
    | (leaf) "\<not> hole < (len - 1) div 2" "\<not> (2 \<le> len \<and> even len \<and> hole = (len - 2) div 2)"
    by blast
  then show ?case
  proof cases
    case two
    define s where "s = 2 * (hole + 1)"
    define c where "c = (if cmp (v ! s) (v ! (s - 1)) then s - 1 else s)"
    have c: "c < len" "hole < c" using two by (auto simp: c_def s_def)
    have eq: "sink_hole cmp v hole len = sink_hole cmp (v[hole := v ! c]) c len"
      using two by (subst sink_hole.simps) (simp add: Let_def c_def s_def)
    have "mset (v[hole := v ! c, c := x]) = mset (v[hole := x])"
      using c "1.prems" by (intro mset_move) auto
    then show ?thesis
      using "1.IH" [OF two s_def c_def] c "1.prems" unfolding eq by simp
  next
    case one
    define c where "c = 2 * (hole + 1) - 1"
    have c: "c < len" "hole < c" using one by (auto simp: c_def)
    have "mset (v[hole := v ! c, c := x]) = mset (v[hole := x])"
      using c "1.prems" by (intro mset_move) auto
    then show ?thesis
      using one c "1.prems" by (subst (1 2 3 4 5) sink_hole.simps) (auto simp: c_def)
  next
    case leaf
    then show ?thesis
      using "1.prems" by (subst (1 2 3 4 5) sink_hole.simps) auto
  qed
qed

lemma length_adjust_heap [simp]:
  "hole < len \<Longrightarrow> len \<le> length v \<Longrightarrow> length (adjust_heap cmp v hole len x) = length v"
  using sink_hole_facts [of hole len v cmp x] by (auto simp: adjust_heap_def split: prod.splits)

lemma mset_adjust_heap:
  "hole < len \<Longrightarrow> len \<le> length v \<Longrightarrow> mset (adjust_heap cmp v hole len x) = mset (v[hole := x])"
  using sink_hole_facts [of hole len v cmp x]
  by (auto simp: adjust_heap_def mset_push_hole split: prod.splits)

lemma adjust_heap_outside:
  "hole < len \<Longrightarrow> len \<le> length v \<Longrightarrow> len \<le> i \<Longrightarrow> adjust_heap cmp v hole len x ! i = v ! i"
  using sink_hole_facts [of hole len v cmp x]
  by (auto simp: adjust_heap_def push_hole_outside split: prod.splits)

lemma defect_down_leaf:
  assumes "defect_down cmp topi h n v" "\<And>i. i < n \<Longrightarrow> 0 < i \<Longrightarrow> par i \<noteq> h"
  shows "defect_up cmp topi h n v"
  using assms unfolding defect_down_def defect_up_def by blast

lemma defect_down_start:
  assumes "heap_from cmp (Suc hole) n v" "hole < n" "n \<le> length v"
  shows "defect_down cmp hole hole n (v[hole := x])"
  using assms by (auto simp: heap_from_def defect_down_def nth_list_update)

section \<open>The algorithms establish the heap order\<close>

text \<open>What the standard requires of a comparator: a strict weak ordering, that is, \<open>cmp\<close> is asymmetric
  and its negation is transitive.\<close>

locale strict_weak =
  fixes cmp :: "'a \<Rightarrow> 'a \<Rightarrow> bool"
  assumes asym: "cmp x y \<Longrightarrow> \<not> cmp y x"
    and ntrans: "\<not> cmp x y \<Longrightarrow> \<not> cmp y z \<Longrightarrow> \<not> cmp x z"
begin

lemma irrefl: "\<not> cmp x x"
  using asym by blast

lemma defect_up_exch:
  assumes d: "defect_up cmp topi h n w" and t: "topi < h" and c: "cmp (w ! par h) (w ! h)"
  shows "defect_up cmp topi (par h) n (exch w h (par h))"
proof -
  define p where "p = par h"
  have p: "p < h" "h < n" "n \<le> length w" "topi \<le> p" "below topi p"
    using d t below_par [of topi h] below_le [of topi "par h"]
    by (auto simp: p_def defect_up_def)
  have ok: "\<not> cmp (w ! par i) (w ! i)" if "i < n" "0 < i" "topi \<le> par i" "i \<noteq> h" for i
    using d that unfolding defect_up_def by blast
  have ch: "\<not> cmp (w ! p) (w ! i)" if "i < n" "0 < i" "par i = h" for i
    using d that t unfolding defect_up_def p_def by blast
  have hp: "\<not> cmp (w ! h) (w ! p)"
    using asym [OF c] by (simp add: p_def)
  have "\<not> cmp (exch w h p ! par i) (exch w h p ! i)"
    if i: "i < n" "0 < i" "topi \<le> par i" "i \<noteq> p" for i
  proof -
    have "par i < i" using i by (intro par_less)
    consider "i = h" | "i \<noteq> h" "par i = p" | "par i = h" "i \<noteq> h" | "i \<noteq> h" "par i \<noteq> p" "par i \<noteq> h"
      by blast
    then show ?thesis
    proof cases
      case 1
      moreover have "par h = p" by (simp add: p_def)
      ultimately show ?thesis using hp p by (simp add: nth_list_update)
    next
      case 2
      then have "\<not> cmp (w ! h) (w ! i)" using ntrans [OF hp] ok [of i] i by simp
      then show ?thesis using 2 p i by (simp add: nth_list_update)
    next
      case 3
      then show ?thesis using ch [of i] p i by (simp add: nth_list_update)
    next
      case 4
      then show ?thesis using ok [of i] i \<open>par i < i\<close> p by (simp add: nth_list_update)
    qed
  qed
  moreover have "\<not> cmp (exch w h p ! par p) (exch w h p ! i)"
    if i: "i < n" "0 < i" "par i = p" "topi < p" for i
  proof -
    have q: "par p < p" using i by (intro par_less) simp
    have "topi \<le> par p" using below_par [OF p(5)] i(4) by (auto dest: below_le)
    then have 1: "\<not> cmp (w ! par p) (w ! p)" using ok [of p] p i by simp
    have "\<not> cmp (w ! par p) (w ! i)" if "i \<noteq> h"
      using ntrans [OF 1] ok [of i] i p that by simp
    then show ?thesis using 1 q p i by (cases "i = h") (auto simp: nth_list_update)
  qed
  ultimately show ?thesis
    using p unfolding defect_up_def p_def [symmetric] by auto
qed

lemma defect_down_exch:
  assumes d: "defect_down cmp topi h n w" and c: "0 < c" "par c = h" "c < n"
    and larger: "\<And>i. i < n \<Longrightarrow> 0 < i \<Longrightarrow> par i = h \<Longrightarrow> \<not> cmp (w ! c) (w ! i)"
  shows "defect_down cmp topi c n (exch w h c)"
proof -
  have h: "h < c" "n \<le> length w" "below topi h" "topi \<le> h" "below topi c"
    using d c below_child [of topi c] below_le [of topi h] par_less [of c]
    by (auto simp: defect_down_def)
  have ok: "\<not> cmp (w ! par i) (w ! i)"
    if "i < n" "0 < i" "topi \<le> par i" "i \<noteq> h" "par i \<noteq> h" for i
    using d that unfolding defect_down_def by blast
  have up: "\<not> cmp (w ! par h) (w ! c)" if "topi < h"
    using d that c unfolding defect_down_def by blast
  have "\<not> cmp (exch w h c ! par i) (exch w h c ! i)"
    if i: "i < n" "0 < i" "topi \<le> par i" "i \<noteq> c" "par i \<noteq> c" for i
  proof -
    have q: "par i < i" using i by (intro par_less)
    consider "i = h" | "i \<noteq> h" "par i = h" | "i \<noteq> h" "par i \<noteq> h" by blast
    then show ?thesis
    proof cases
      case 1
      then have "topi < h" using i q by simp
      then show ?thesis using up 1 q c h by (simp add: nth_list_update)
    next
      case 2
      then show ?thesis using larger [of i] i c h by (simp add: nth_list_update)
    next
      case 3
      then show ?thesis using ok [of i] i c h by (simp add: nth_list_update)
    qed
  qed
  moreover have "\<not> cmp (exch w h c ! par c) (exch w h c ! i)" if i: "i < n" "0 < i" "par i = c" for i
  proof -
    have "\<not> cmp (w ! c) (w ! i)" using ok [of i] i h c by simp
    moreover have "i \<noteq> h" "i \<noteq> c" using i h par_less [of i] by auto
    ultimately show ?thesis using c h i by (simp add: nth_list_update)
  qed
  ultimately show ?thesis
    using c h unfolding defect_down_def by auto
qed

lemma defect_up_exit:
  assumes "defect_up cmp topi h n w" "topi < h \<Longrightarrow> \<not> cmp (w ! par h) (w ! h)"
  shows "heap_from cmp topi n w"
  unfolding heap_from_def
proof (intro allI impI)
  fix i assume i: "i < n" "0 < i" "topi \<le> par i"
  show "\<not> cmp (w ! par i) (w ! i)"
  proof (cases "i = h")
    case True
    then have "topi < h" using i par_less [of i] by simp
    then show ?thesis using assms(2) True by simp
  next
    case False
    then show ?thesis using assms(1) i unfolding defect_up_def by blast
  qed
qed

lemma push_hole_heap:
  assumes "defect_up cmp topi hole n (v[hole := x])"
  shows "heap_from cmp topi n (push_hole cmp v hole topi x)"
  using assms
proof (induction hole arbitrary: v rule: less_induct)
  case (less hole)
  have l: "hole < length v" "hole < n" using less.prems by (auto simp: defect_up_def)
  show ?case
  proof (cases "topi < hole \<and> cmp (v ! par hole) x")
    case True
    then have p: "par hole < hole" by (auto intro: par_less)
    have "defect_up cmp topi (par hole) n (exch (v[hole := x]) hole (par hole))"
      using less.prems True l p by (intro defect_up_exch) auto
    also have "exch (v[hole := x]) hole (par hole) = v[hole := v ! par hole, par hole := x]"
      using p l by simp
    finally have "heap_from cmp topi n (push_hole cmp (v[hole := v ! par hole]) (par hole) topi x)"
      by (rule less.IH [OF p])
    then show ?thesis using True by (subst push_hole.simps) simp
  next
    case False
    have "heap_from cmp topi n (v[hole := x])"
      using less.prems False l by (intro defect_up_exit) (auto simp: nth_list_update)
    then show ?thesis using False by (subst push_hole.simps) auto
  qed
qed

lemma sink_hole_defect:
  assumes "defect_down cmp topi hole n (v[hole := x])"
  shows "defect_up cmp topi (snd (sink_hole cmp v hole n)) n
           ((fst (sink_hole cmp v hole n))[snd (sink_hole cmp v hole n) := x])"
  using assms
proof (induction "n - hole" arbitrary: hole v rule: less_induct)
  case less
  have l: "hole < length v" "hole < n" "n \<le> length v" using less.prems by (auto simp: defect_down_def)
  have move: "defect_down cmp topi c n (v[hole := v ! c, c := x])"
    if c: "0 < c" "par c = hole" "c < n"
      and larger: "\<And>i. i < n \<Longrightarrow> 0 < i \<Longrightarrow> par i = hole \<Longrightarrow> \<not> cmp (v ! c) (v ! i)" for c
  proof -
    have "hole < c" using c par_less [of c] by simp
    have "defect_down cmp topi c n (exch (v[hole := x]) hole c)"
    proof (rule defect_down_exch [OF less.prems c])
      fix i assume i: "i < n" "0 < i" "par i = hole"
      then show "\<not> cmp (v[hole := x] ! c) (v[hole := x] ! i)"
        using larger [OF i] par_less [of i] \<open>hole < c\<close> by (simp add: nth_list_update)
    qed
    then show ?thesis using l \<open>hole < c\<close> by simp
  qed
  consider (two) "hole < (n - 1) div 2"
    | (one) "\<not> hole < (n - 1) div 2" "2 \<le> n \<and> even n \<and> hole = (n - 2) div 2"
    | (leaf) "\<not> hole < (n - 1) div 2" "\<not> (2 \<le> n \<and> even n \<and> hole = (n - 2) div 2)"
    by blast
  then show ?case
  proof cases
    case two
    define s where "s = 2 * (hole + 1)"
    define c where "c = (if cmp (v ! s) (v ! (s - 1)) then s - 1 else s)"
    have eq: "sink_hole cmp v hole n = sink_hole cmp (v[hole := v ! c]) c n"
      using two by (subst sink_hole.simps) (simp add: Let_def c_def s_def)
    have c: "0 < c" "par c = hole" "c < n" "hole < c" using two by (auto simp: c_def s_def)
    have "\<not> cmp (v ! c) (v ! i)" if "i < n" "0 < i" "par i = hole" for i
    proof -
      have "i = s - 1 \<or> i = s" using that par_child [of i hole] by (auto simp: s_def)
      then show ?thesis
        using asym [of "v ! s" "v ! (s - 1)"] irrefl by (auto simp: c_def)
    qed
    then show ?thesis
      unfolding eq using c by (intro less.hyps move) auto
  next
    case one
    define c where "c = 2 * (hole + 1) - 1"
    have c: "0 < c" "par c = hole" "c < n" using one by (auto simp: c_def)
    have only: "i = c" if "i < n" "0 < i" "par i = hole" for i
      using that one par_child [of i hole] by (auto simp: c_def)
    have "defect_up cmp topi c n (v[hole := v ! c, c := x])"
    proof (rule defect_down_leaf [OF move [OF c]])
      fix i assume i: "i < n" "0 < i"
      show "\<not> cmp (v ! c) (v ! i)" if "par i = hole" using only [OF i that] irrefl by simp
      show "par i \<noteq> c" using i one par_child [of i c] by (auto simp: c_def)
    qed
    then show ?thesis
      using one by (subst (1 2 3) sink_hole.simps) (simp add: c_def)
  next
    case leaf
    have "defect_up cmp topi hole n (v[hole := x])"
    proof (rule defect_down_leaf [OF less.prems])
      fix i assume i: "i < n" "0 < i"
      show "par i \<noteq> hole"
      proof
        assume "par i = hole"
        then have "i = 2 * hole + 1 \<or> i = 2 * hole + 2" using i par_child by blast
        then have "n = 2 * hole + 2" using i leaf(1) by presburger
        then show False using leaf(2) by simp
      qed
    qed
    then show ?thesis
      using leaf by (subst (1 2 3) sink_hole.simps) auto
  qed
qed

lemma adjust_heap_heap:
  assumes "heap_from cmp (Suc hole) n v" "hole < n" "n \<le> length v"
  shows "heap_from cmp hole n (adjust_heap cmp v hole n x)"
  using push_hole_heap [OF sink_hole_defect [OF defect_down_start [OF assms]]]
  by (simp add: adjust_heap_def case_prod_beta)

lemma heap_top:
  assumes "heap_from cmp 0 n v" "i < n"
  shows "\<not> cmp (v ! 0) (v ! i)"
  using assms(2)
proof (induction i rule: less_induct)
  case (less i)
  show ?case
  proof (cases "i = 0")
    case False
    then have "par i < i" by (intro par_less) simp
    then have "\<not> cmp (v ! 0) (v ! par i)" "\<not> cmp (v ! par i) (v ! i)"
      using less assms(1) False by (auto simp: heap_from_def)
    then show ?thesis by (rule ntrans)
  qed (simp add: irrefl)
qed

lemma push_heap_heap:
  assumes "is_heap cmp v"
  shows "is_heap cmp (push_heap cmp (v @ [x]))"
proof -
  have "defect_up cmp 0 (length v) (length (v @ [x])) ((v @ [x])[length v := x])"
    using assms by (auto simp: defect_up_def heap_from_def nth_append)
  from push_hole_heap [OF this] show ?thesis by (simp add: push_heap_def)
qed

lemma make_loop_heap:
  assumes "heap_from cmp p (length v) v" "p \<le> length v"
  shows "is_heap cmp (make_loop cmp p v)"
  using assms by (induction p arbitrary: v) (auto simp: adjust_heap_heap)

lemma make_heap_heap: "is_heap cmp (make_heap cmp v)"
proof (cases "length v < 2")
  case False
  then have "heap_from cmp (Suc ((length v - 2) div 2)) (length v) v"
    by (auto simp: heap_from_def)
  then show ?thesis using False make_loop_heap by (simp add: make_heap_def del: make_loop.simps)
qed (auto simp: make_heap_def heap_from_def)

lemma pop_heap_to_heap:
  assumes "heap_from cmp 0 n v" "n \<le> length v"
  shows "heap_from cmp 0 (n - 1) (pop_heap_to cmp v n)"
proof (cases "1 < n")
  case True
  have "heap_from cmp (Suc 0) (n - 1) (v[n - 1 := v ! 0])"
    using assms by (auto simp: heap_from_def nth_list_update)
  then show ?thesis using True assms by (simp add: pop_heap_to_def adjust_heap_heap)
qed (use assms in \<open>auto simp: pop_heap_to_def heap_from_def\<close>)

end

section \<open>The algorithms keep the elements\<close>

lemma length_pop_heap_to [simp]: "n \<le> length v \<Longrightarrow> length (pop_heap_to cmp v n) = length v"
  by (simp add: pop_heap_to_def)

lemma mset_push_heap [simp]: "mset (push_heap cmp v) = mset v"
  by (simp add: push_heap_def mset_push_hole last_conv_nth)

lemma mset_make_loop: "p \<le> length v \<Longrightarrow> mset (make_loop cmp p v) = mset v"
  by (induction p arbitrary: v) (simp_all add: mset_adjust_heap)

lemma mset_make_heap [simp]: "mset (make_heap cmp v) = mset v"
  by (auto simp: make_heap_def intro!: mset_make_loop simp del: make_loop.simps)

lemma length_push_heap [simp]: "length (push_heap cmp v) = length v"
  and length_make_heap [simp]: "length (make_heap cmp v) = length v"
  by (metis mset_push_heap size_mset) (metis mset_make_heap size_mset)

lemma mset_pop_heap_to:
  assumes "n \<le> length v"
  shows "mset (pop_heap_to cmp v n) = mset v"
proof (cases "1 < n")
  case True
  then have "mset (pop_heap_to cmp v n) = mset (exch v (n - 1) 0)"
    using assms by (simp add: pop_heap_to_def mset_adjust_heap)
  also have "\<dots> = mset v" using assms True by (intro mset_swap) auto
  finally show ?thesis .
qed (simp add: pop_heap_to_def)

lemma pop_heap_to_outside:
  assumes "n \<le> length v" "n \<le> i"
  shows "pop_heap_to cmp v n ! i = v ! i"
  using assms by (simp add: pop_heap_to_def adjust_heap_outside)

lemma pop_heap_to_top:
  assumes "1 < n" "n \<le> length v"
  shows "pop_heap_to cmp v n ! (n - 1) = v ! 0"
  using assms by (simp add: pop_heap_to_def adjust_heap_outside)

text \<open>After \<open>std::pop_heap\<close> and \<open>pop_back\<close> exactly the top is gone.\<close>

lemma mset_pop:
  assumes "v \<noteq> []"
  shows "mset (butlast (pop_heap cmp v)) = mset v - {#hd v#}"
proof (cases "1 < length v")
  case True
  let ?r = "pop_heap cmp v"
  have l: "length ?r = length v" by (simp add: pop_heap_def)
  then have "?r \<noteq> []" using assms by auto
  then have r: "?r \<noteq> []" "last ?r = hd v"
    using True l pop_heap_to_top [of "length v" v cmp] assms
    by (auto simp: last_conv_nth hd_conv_nth pop_heap_def)
  have "mset v = mset ?r"
    using mset_pop_heap_to [of "length v" v cmp] by (simp add: pop_heap_def)
  also have "?r = butlast ?r @ [hd v]"
    using r by (metis append_butlast_last_id)
  finally have "mset v = mset (butlast ?r) + {#hd v#}" by simp
  then show ?thesis by simp
next
  case False
  then obtain x where "v = [x]" using assms by (cases v) auto
  then show ?thesis by (simp add: pop_heap_def pop_heap_to_def)
qed

section \<open>Sorting a heap\<close>

lemma mset_take_pop_heap_to:
  assumes "n \<le> length v"
  shows "mset (take n (pop_heap_to cmp v n)) = mset (take n v)"
proof -
  let ?r = "pop_heap_to cmp v n"
  have "drop n ?r = drop n v"
    using assms by (intro nth_equalityI) (auto simp: pop_heap_to_outside)
  moreover have "mset (take n ?r @ drop n ?r) = mset (take n v @ drop n v)"
    using mset_pop_heap_to [OF assms] by simp
  ultimately show ?thesis by (simp only: mset_append add_right_cancel)
qed

lemma set_take_pop_heap_to:
  assumes "n \<le> length v" "i < n"
  shows "\<exists>j < n. pop_heap_to cmp v n ! i = v ! j"
proof -
  have "pop_heap_to cmp v n ! i \<in> set (take n (pop_heap_to cmp v n))"
    using assms by (auto simp: in_set_conv_nth intro!: exI [of _ i])
  also have "\<dots> = set (take n v)"
    using mset_take_pop_heap_to [OF assms(1)] by (metis set_mset_mset)
  finally show ?thesis using assms by (auto simp: in_set_conv_nth)
qed

context strict_weak
begin

text \<open>\<open>std::sort_heap\<close> leaves the vector ascending: no element is below an earlier one.\<close>

lemma sort_loop_sorted:
  assumes "heap_from cmp 0 n v" "n \<le> length v"
    and "\<And>i j. i < j \<Longrightarrow> n \<le> j \<Longrightarrow> j < length v \<Longrightarrow> \<not> cmp (v ! j) (v ! i)"
  shows "mset (sort_loop cmp n v) = mset v \<and> sorted_wrt (\<lambda>x y. \<not> cmp y x) (sort_loop cmp n v)"
  using assms
proof (induction n arbitrary: v rule: less_induct)
  case (less n)
  show ?case
  proof (cases "1 < n")
    case True
    let ?r = "pop_heap_to cmp v n"
    have "\<not> cmp (?r ! j) (?r ! i)" if ij: "i < j" "n - 1 \<le> j" "j < length ?r" for i j
    proof (cases "n \<le> j")
      case True
      have "\<exists>k < j. ?r ! i = v ! k"
      proof (cases "i < n")
        case True
        then obtain k where "k < n" "?r ! i = v ! k"
          using set_take_pop_heap_to [of n v i cmp] less.prems(2) by blast
        then show ?thesis using \<open>n \<le> j\<close> by (intro exI [of _ k]) simp
      next
        case False
        then show ?thesis using ij less.prems(2) by (auto simp: pop_heap_to_outside)
      qed
      then show ?thesis using less.prems(2,3) True ij by (auto simp: pop_heap_to_outside)
    next
      case False
      then have j: "j = n - 1" "i < n" using ij by auto
      obtain k where "k < n" "?r ! i = v ! k"
        using set_take_pop_heap_to [of n v i cmp] less.prems(2) j by auto
      then show ?thesis
        using heap_top [OF less.prems(1)] pop_heap_to_top [of n v cmp] less.prems(2) True \<open>1 < n\<close> j by simp
    qed
    then have "mset (sort_loop cmp (n - 1) ?r) = mset ?r \<and>
        sorted_wrt (\<lambda>x y. \<not> cmp y x) (sort_loop cmp (n - 1) ?r)"
      using less.prems True by (intro less.IH pop_heap_to_heap) auto
    then show ?thesis
      using True less.prems(2) by (subst (1 2) sort_loop.simps) (simp add: mset_pop_heap_to)
  next
    case False
    then have "sorted_wrt (\<lambda>x y. \<not> cmp y x) v"
      using less.prems(3) by (auto simp: sorted_wrt_iff_nth_less)
    then show ?thesis using False by (subst (1 2) sort_loop.simps) simp
  qed
qed

lemma sort_heap_sorted:
  assumes "is_heap cmp v"
  shows "mset (sort_heap cmp v) = mset v" "sorted_wrt (\<lambda>x y. \<not> cmp y x) (sort_heap cmp v)"
  using sort_loop_sorted [OF assms] by (auto simp: sort_heap_def)

end

end
