(* ===== verification/Gy_Prio_Queue.thy ===== *)
theory Gy_Prio_Queue
  imports Gy_Std_Heap
begin

text \<open>
  \<open>BOUNDED_PRIO_QUEUE\<close> of \<open>common/gy_statistics.h\<close>: a queue of at most \<open>maxsz_\<close> elements that keeps the
  best ones under the comparator \<open>comp_\<close>, the worst of them at the front. The record has the members
  the operations work on; the mutex and the capacity of the vector have no counterpart, and
  \<open>walk_queue\<close> takes its callback as an argument that may change the element it is called on. Taking
  \<open>vecq_.front()\<close> of an empty vector is undefined and is \<open>None\<close> here.

  The lemmas show that every operation keeps the heap order and the bound, and that a sequence of
  insertions leaves exactly the best elements of everything inserted (\<open>keeps_best\<close>, the abstract
  specification of a Top N queue).
\<close>

section \<open>State and operations\<close>

record 'a BOUNDED_PRIO_QUEUE =
  vecq :: "'a list"
  maxsz :: "32 word"
  reserve :: bool
  compf :: "'a \<Rightarrow> 'a \<Rightarrow> bool"

definition new_queue :: "('a \<Rightarrow> 'a \<Rightarrow> bool) \<Rightarrow> 64 word \<Rightarrow> bool \<Rightarrow> 'a BOUNDED_PRIO_QUEUE" where
  "new_queue cmp mx rsv = \<lparr> vecq = [], maxsz = ucast mx, reserve = rsv, compf = cmp \<rparr>"

definition push_locked :: "'a \<Rightarrow> 'a BOUNDED_PRIO_QUEUE \<Rightarrow> (bool \<times> 'a BOUNDED_PRIO_QUEUE) option" where
  "push_locked data q =
     (if length (vecq q) < unat (maxsz q) then
        (let v = vecq q @ [data];
             v' = (if length v > 6 then push_heap (compf q) v else make_heap (compf q) v)
         in Some (True, q\<lparr> vecq := v' \<rparr>))
      else if vecq q = [] then None
      else if compf q data (hd (vecq q)) then
        (let v = butlast (pop_heap (compf q) (vecq q));
             v' = push_heap (compf q) (v @ [data])
         in Some (True, q\<lparr> vecq := v' \<rparr>))
      else Some (False, q))"

text \<open>\<open>try_emplace_locked\<close>: the element \<open>data\<close> is constructed from the arguments only if it is inserted,
  and \<open>cb\<close> decides against the front whether it is.\<close>

definition try_emplace_locked ::
  "('a \<Rightarrow> bool) \<Rightarrow> 'a \<Rightarrow> 'a BOUNDED_PRIO_QUEUE \<Rightarrow> (bool \<times> 'a BOUNDED_PRIO_QUEUE) option" where
  "try_emplace_locked cb data q =
     (if length (vecq q) < unat (maxsz q) then
        (let v = vecq q @ [data];
             v' = (if length v > 6 then push_heap (compf q) v else make_heap (compf q) v)
         in Some (True, q\<lparr> vecq := v' \<rparr>))
      else if vecq q = [] then None
      else if cb (hd (vecq q)) then
        (let v = butlast (pop_heap (compf q) (vecq q));
             v' = push_heap (compf q) (v @ [data])
         in Some (True, q\<lparr> vecq := v' \<rparr>))
      else Some (False, q))"

text \<open>\<open>try_emplace_check\<close>: the second callback gets the result while the mutex is held.\<close>

definition try_emplace_check ::
  "(bool \<Rightarrow> 's \<Rightarrow> 's) \<Rightarrow> ('a \<Rightarrow> bool) \<Rightarrow> 'a \<Rightarrow> 'a BOUNDED_PRIO_QUEUE \<Rightarrow> 's \<Rightarrow>
   (bool \<times> 'a BOUNDED_PRIO_QUEUE \<times> 's) option" where
  "try_emplace_check retcb cb data q s = do {
     (bret, q') \<leftarrow> try_emplace_locked cb data q;
     Some (bret, q', retcb bret s)
   }"

definition pop_locked :: "'a BOUNDED_PRIO_QUEUE \<Rightarrow> 'a BOUNDED_PRIO_QUEUE" where
  "pop_locked q =
     (if vecq q = [] then q else q\<lparr> vecq := butlast (pop_heap (compf q) (vecq q)) \<rparr>)"

definition clear_locked :: "'a BOUNDED_PRIO_QUEUE \<Rightarrow> 'a BOUNDED_PRIO_QUEUE" where
  "clear_locked q = q\<lparr> vecq := [] \<rparr>"

definition make_heap_locked :: "'a BOUNDED_PRIO_QUEUE \<Rightarrow> 'a BOUNDED_PRIO_QUEUE" where
  "make_heap_locked q = q\<lparr> vecq := make_heap (compf q) (vecq q) \<rparr>"

definition sort_heap_locked :: "'a BOUNDED_PRIO_QUEUE \<Rightarrow> 'a BOUNDED_PRIO_QUEUE" where
  "sort_heap_locked q = q\<lparr> vecq := sort_heap (compf q) (vecq q) \<rparr>"

definition set_comparator :: "('a \<Rightarrow> 'a \<Rightarrow> bool) \<Rightarrow> 'a BOUNDED_PRIO_QUEUE \<Rightarrow> 'a BOUNDED_PRIO_QUEUE" where
  "set_comparator cmp q = q\<lparr> compf := cmp \<rparr>"

text \<open>The loop of \<open>set_max_size\<close> counts from the size down to the new maximum. A maximum that shrinks
  is below \<open>2 ^ 32\<close>, where the signed comparison of the loop is the unsigned one.\<close>

primrec pop_times :: "nat \<Rightarrow> 'a BOUNDED_PRIO_QUEUE \<Rightarrow> 'a BOUNDED_PRIO_QUEUE" where
  "pop_times 0 q = q"
| "pop_times (Suc n) q = pop_times n (pop_locked q)"

definition set_max_size :: "64 word \<Rightarrow> 'a BOUNDED_PRIO_QUEUE \<Rightarrow> 'a BOUNDED_PRIO_QUEUE" where
  "set_max_size new_max_sz q =
     (if new_max_sz = ucast (maxsz q) then q
      else if new_max_sz > ucast (maxsz q) then q\<lparr> maxsz := ucast new_max_sz \<rparr>
      else (pop_times (length (vecq q) - unat new_max_sz) q)\<lparr> maxsz := ucast new_max_sz \<rparr>)"

definition remove_elems :: "('a \<Rightarrow> bool) \<Rightarrow> bool \<Rightarrow> 'a BOUNDED_PRIO_QUEUE \<Rightarrow> nat \<times> 'a BOUNDED_PRIO_QUEUE" where
  "remove_elems cb heap_on_return q =
     (if vecq q = [] then (0, q)
      else (let q' = q\<lparr> vecq := filter (\<lambda>x. \<not> cb x) (vecq q) \<rparr>
            in (length (vecq q) - length (vecq q'),
                if heap_on_return then make_heap_locked q' else q')))"

text \<open>The loop of the walks: the callback returns the new state, the element as it leaves it, and whether
  to stop. The result has the number of calls.\<close>

fun walk :: "('s \<Rightarrow> 'a \<Rightarrow> 's \<times> 'a \<times> bool) \<Rightarrow> 's \<Rightarrow> 'a list \<Rightarrow> 's \<times> 'a list \<times> nat" where
  "walk fcb s [] = (s, [], 0)"
| "walk fcb s (x # xs) =
     (let (s', x', stop) = fcb s x
      in if stop then (s', x' # xs, 1)
         else (let (s'', xs', n) = walk fcb s' xs in (s'', x' # xs', Suc n)))"

definition walk_queue ::
  "('s \<Rightarrow> 'a \<Rightarrow> 's \<times> 'a \<times> bool) \<Rightarrow> bool \<Rightarrow> bool \<Rightarrow> 's \<Rightarrow> 'a BOUNDED_PRIO_QUEUE \<Rightarrow>
   nat \<times> 's \<times> 'a BOUNDED_PRIO_QUEUE" where
  "walk_queue fcb sort_queue heap_on_return s q =
     (if vecq q = [] then (0, s, q)
      else (let q1 = (if sort_queue then sort_heap_locked q else q);
                (s', v, nret) = walk fcb s (vecq q1);
                q2 = q1\<lparr> vecq := v \<rparr>
            in (nret, s', if sort_queue \<and> heap_on_return then make_heap_locked q2 else q2)))"

section \<open>The contract of a Top N queue\<close>

text \<open>\<open>S\<close> are \<open>n\<close> best elements of \<open>M\<close>: as many as there are, and none that is left out is before one that
  is in.\<close>

definition keeps_best :: "('a \<Rightarrow> 'a \<Rightarrow> bool) \<Rightarrow> nat \<Rightarrow> 'a multiset \<Rightarrow> 'a multiset \<Rightarrow> bool" where
  "keeps_best cmp n M S \<longleftrightarrow> S \<subseteq># M \<and> size S = min n (size M) \<and>
     (\<forall>x \<in># S. \<forall>y \<in># M - S. \<not> cmp y x)"

definition queue_ok :: "'a BOUNDED_PRIO_QUEUE \<Rightarrow> bool" where
  "queue_ok q \<longleftrightarrow> is_heap (compf q) (vecq q) \<and> length (vecq q) \<le> unat (maxsz q)"

text \<open>A run of insertions, each with the callback that compares the new element with the front.\<close>

primrec push_all :: "'a list \<Rightarrow> 'a BOUNDED_PRIO_QUEUE \<Rightarrow> 'a BOUNDED_PRIO_QUEUE option" where
  "push_all [] q = Some q"
| "push_all (x # xs) q = do { (_, q') \<leftarrow> push_locked x q; push_all xs q' }"

lemma push_locked_try_emplace: "push_locked x q = try_emplace_locked (compf q x) x q"
  by (simp add: push_locked_def try_emplace_locked_def)

lemma queue_ok_new [simp]: "queue_ok (new_queue cmp n r)"
  by (simp add: queue_ok_def new_queue_def heap_from_def)

lemma keeps_best_all: "size M \<le> n \<Longrightarrow> keeps_best cmp n M M"
  by (simp add: keeps_best_def)

lemma keeps_best_all_eq:
  assumes "keeps_best cmp n M S" "size S < n"
  shows "S = M"
proof -
  have "size S = size M" using assms by (auto simp: keeps_best_def)
  then show ?thesis using assms(1) by (metis keeps_best_def mset_subset_size order_less_irrefl subset_mset.le_neq_trans)
qed

lemma keeps_best_skip:
  assumes "keeps_best cmp n M S" "size S = n" "\<And>x. x \<in># S \<Longrightarrow> \<not> cmp y x"
  shows "keeps_best cmp n (add_mset y M) S"
proof -
  have S: "S \<subseteq># M" "size S \<le> size M"
    using assms(1) by (auto simp: keeps_best_def)
  have "add_mset y M - S = add_mset y (M - S)"
    using mset_subset_eq_count [OF S(1)] by (intro multiset_eqI) (simp add: Suc_diff_le)
  moreover have "S \<subseteq># add_mset y M"
    using S(1) by (rule subset_mset.order_trans) simp
  ultimately show ?thesis
    using assms S by (auto simp: keeps_best_def)
qed

lemma keeps_best_replace:
  assumes k: "keeps_best cmp n M S" and t: "t \<in># S"
    and low: "\<And>x. x \<in># S \<Longrightarrow> \<not> cmp t x" "\<not> cmp t y" "\<And>z. z \<in># M - S \<Longrightarrow> \<not> cmp z y"
    and n: "size S = n"
  shows "keeps_best cmp n (add_mset y M) (add_mset y (S - {#t#}))"
proof -
  have S: "S \<subseteq># M" "size S \<le> size M" "S - {#t#} \<subseteq># M"
    using k by (auto simp: keeps_best_def intro: subset_mset.order_trans [OF diff_subset_eq_self])
  obtain S' where S': "S = add_mset t S'" using t by (metis insert_DiffM)
  have "M - S' = add_mset t (M - S)"
    using mset_subset_eq_count [OF S(1)] unfolding S'
    by (intro multiset_eqI) (metis count_add_mset count_diff Suc_diff_Suc Suc_le_lessD)
  then show ?thesis
    using k S low n unfolding keeps_best_def S'
    by auto
qed

lemma keeps_best_drop:
  assumes k: "keeps_best cmp n M S" and t: "t \<in># S" and low: "\<And>x. x \<in># S \<Longrightarrow> \<not> cmp t x"
  shows "keeps_best cmp (size S - 1) M (S - {#t#})"
proof -
  obtain S' where S': "S = add_mset t S'" using t by (metis insert_DiffM)
  have S: "S \<subseteq># M" "size S \<le> size M" "S' \<subseteq># M"
    using k by (auto simp: keeps_best_def S' intro: mset_subset_eq_insertD [THEN conjunct2] subset_mset.less_imp_le
      dest!: mset_subset_eq_insertD)
  have "M - S' = add_mset t (M - S)"
    using mset_subset_eq_count [OF S(1)] unfolding S'
    by (intro multiset_eqI) (metis count_add_mset count_diff Suc_diff_Suc Suc_le_lessD)
  then show ?thesis
    using k S low unfolding keeps_best_def S' by auto
qed

section \<open>Every operation keeps the queue in order\<close>

lemma compf_updates [simp]:
  "compf (pop_locked q) = compf q" "maxsz (pop_locked q) = maxsz q"
  "compf (clear_locked q) = compf q" "maxsz (clear_locked q) = maxsz q" "vecq (clear_locked q) = []"
  "compf (pop_times n q) = compf q" "maxsz (pop_times n q) = maxsz q"
  by (auto simp: pop_locked_def clear_locked_def) (induction n arbitrary: q; simp add: pop_locked_def)+

lemma queue_ok_clear [simp]: "queue_ok (clear_locked q)"
  by (simp add: queue_ok_def heap_from_def)

context strict_weak
begin

lemma front_worst:
  assumes "queue_ok q" "compf q = cmp" "x \<in> set (vecq q)"
  shows "\<not> cmp (hd (vecq q)) x"
proof -
  have "vecq q \<noteq> []" using assms(3) by auto
  moreover obtain i where "i < length (vecq q)" "x = vecq q ! i" using assms(3) by (auto simp: in_set_conv_nth)
  ultimately show ?thesis
    using heap_top [of "length (vecq q)" "vecq q" i] assms by (simp add: queue_ok_def hd_conv_nth)
qed

lemma pop_heap_butlast:
  assumes "is_heap cmp v" "v \<noteq> []"
  shows "is_heap cmp (butlast (pop_heap cmp v))"
proof -
  have "heap_from cmp 0 (length v - 1) (pop_heap cmp v)"
    using pop_heap_to_heap [OF assms(1)] by (simp add: pop_heap_def)
  then show ?thesis
    by (auto simp: heap_from_def pop_heap_def nth_butlast)
qed

lemma try_emplace_ok:
  assumes ok: "queue_ok q" "compf q = cmp" "0 < unat (maxsz q)"
    and best: "keeps_best cmp (unat (maxsz q)) M (mset (vecq q))"
    and cb: "\<And>t. t \<in> set (vecq q) \<Longrightarrow> cb t \<longleftrightarrow> cmp x t"
  shows "\<exists>b q'. try_emplace_locked cb x q = Some (b, q') \<and> queue_ok q' \<and> compf q' = cmp \<and> maxsz q' = maxsz q \<and>
    keeps_best cmp (unat (maxsz q)) (add_mset x M) (mset (vecq q'))"
proof (cases "length (vecq q) < unat (maxsz q)")
  case True
  then have M: "mset (vecq q) = M" using keeps_best_all_eq [OF best] by simp
  have "size M < unat (maxsz q)" using True M by (metis size_mset)
  moreover have "is_heap cmp (push_heap cmp (vecq q @ [x]))" "is_heap cmp (make_heap cmp (vecq q @ [x]))"
    using push_heap_heap [of "vecq q" x] make_heap_heap [of "vecq q @ [x]"] ok by (simp_all add: queue_ok_def)
  ultimately show ?thesis
    using True ok M by (auto simp: try_emplace_locked_def Let_def queue_ok_def intro!: keeps_best_all)
next
  case False
  let ?v = "vecq q"
  have v: "?v \<noteq> []" "length ?v = unat (maxsz q)" using False ok by (auto simp: queue_ok_def)
  have low: "\<not> cmp (hd ?v) y" if "y \<in># mset ?v" for y using front_worst ok that by simp
  have out: "\<not> cmp z y" if "z \<in># M - mset ?v" "y \<in> set ?v" for z y
    using best that by (auto simp: keeps_best_def)
  show ?thesis
  proof (cases "cmp x (hd ?v)")
    case True
    let ?w = "butlast (pop_heap cmp ?v)"
    have x: "\<not> cmp (hd ?v) x" using asym [OF True] .
    have "keeps_best cmp (unat (maxsz q)) (add_mset x M) (add_mset x (mset ?v - {#hd ?v#}))"
      using v low x out ntrans by (intro keeps_best_replace [OF best]) (auto, metis hd_in_set)
    moreover have "mset (push_heap cmp (?w @ [x])) = add_mset x (mset ?v - {#hd ?v#})"
      using v by (simp add: mset_pop)
    moreover have "is_heap cmp (push_heap cmp (?w @ [x]))"
      using ok v by (intro push_heap_heap pop_heap_butlast) (auto simp: queue_ok_def)
    moreover have "length (?w @ [x]) = length ?v"
      using v ok(3) by (simp add: pop_heap_def)
    ultimately show ?thesis
      using False True v ok cb [of "hd ?v"] by (auto simp: try_emplace_locked_def Let_def queue_ok_def)
  next
    case no: False
    have "\<not> cmp x y" if "y \<in># mset ?v" for y using ntrans [OF no low [OF that]] .
    then show ?thesis
      using False no v ok cb [of "hd ?v"] best keeps_best_skip [OF best] by (auto simp: try_emplace_locked_def)
  qed
qed

lemma pop_locked_ok:
  assumes "queue_ok q" "compf q = cmp" "keeps_best cmp n M (mset (vecq q))" "vecq q \<noteq> []"
  shows "queue_ok (pop_locked q) \<and> mset (vecq (pop_locked q)) = mset (vecq q) - {#hd (vecq q)#} \<and>
    keeps_best cmp (length (vecq q) - 1) M (mset (vecq (pop_locked q)))"
proof -
  have 1: "is_heap cmp (butlast (pop_heap cmp (vecq q)))"
    using assms by (intro pop_heap_butlast) (auto simp: queue_ok_def)
  have 2: "mset (butlast (pop_heap cmp (vecq q))) = mset (vecq q) - {#hd (vecq q)#}"
    using assms by (intro mset_pop)
  have "keeps_best cmp (size (mset (vecq q)) - 1) M (mset (vecq q) - {#hd (vecq q)#})"
    using assms front_worst by (intro keeps_best_drop [OF assms(3)]) auto
  then show ?thesis
    using assms 1 2 by (auto simp: pop_locked_def queue_ok_def pop_heap_def)
qed

lemma pop_times_ok:
  assumes "queue_ok q" "compf q = cmp" "keeps_best cmp (length (vecq q)) M (mset (vecq q))" "k \<le> length (vecq q)"
  shows "queue_ok (pop_times k q) \<and> length (vecq (pop_times k q)) = length (vecq q) - k \<and>
    keeps_best cmp (length (vecq q) - k) M (mset (vecq (pop_times k q)))"
  using assms
proof (induction k arbitrary: q)
  case (Suc k)
  have ne: "vecq q \<noteq> []" using Suc.prems(4) by auto
  note p = pop_locked_ok [OF Suc.prems(1-3) ne]
  have l: "length (vecq (pop_locked q)) = length (vecq q) - 1"
    using ne by (simp add: pop_locked_def pop_heap_def)
  have "queue_ok (pop_times k (pop_locked q)) \<and>
      length (vecq (pop_times k (pop_locked q))) = length (vecq (pop_locked q)) - k \<and>
      keeps_best cmp (length (vecq (pop_locked q)) - k) M (mset (vecq (pop_times k (pop_locked q))))"
    using p l Suc.prems by (intro Suc.IH) auto
  then show ?case using l by simp
qed simp

lemma push_all_ok:
  assumes "queue_ok q" "compf q = cmp" "0 < unat (maxsz q)"
    and "keeps_best cmp (unat (maxsz q)) M (mset (vecq q))"
  shows "\<exists>q'. push_all xs q = Some q' \<and> queue_ok q' \<and> compf q' = cmp \<and> maxsz q' = maxsz q \<and>
    keeps_best cmp (unat (maxsz q)) (M + mset xs) (mset (vecq q'))"
  using assms
proof (induction xs arbitrary: q M)
  case (Cons x xs)
  obtain b q1 where 1: "push_locked x q = Some (b, q1)" "queue_ok q1" "compf q1 = cmp" "maxsz q1 = maxsz q"
      "keeps_best cmp (unat (maxsz q)) (add_mset x M) (mset (vecq q1))"
    using try_emplace_ok [OF Cons.prems, of "compf q x" x] Cons.prems(2) by (auto simp: push_locked_try_emplace)
  then show ?case
    using Cons.IH [of q1 "add_mset x M"] Cons.prems(3) by simp
qed simp

lemma set_max_size_ok:
  assumes q: "queue_ok q" "compf q = cmp" "keeps_best cmp (unat (maxsz q)) M (mset (vecq q))"
    and k: "k \<le> unat (maxsz q)"
  shows "queue_ok (set_max_size (of_nat k) q) \<and> keeps_best cmp k M (mset (vecq (set_max_size (of_nat k) q)))"
proof -
  let ?v = "vecq q" and ?w = "of_nat k :: 64 word"
  have mx: "unat (maxsz q) < 2 ^ 32" using unsigned_less [of "maxsz q"] by simp
  have wk: "unat ?w = k" "unat (ucast ?w :: 32 word) = k"
    using k mx by (simp_all add: unat_of_nat unsigned_ucast_eq take_bit_nat_eq_self unsigned_of_nat)
  have "unat (ucast (maxsz q) :: 64 word) = unat (maxsz q)"
    using mx by (simp add: unsigned_ucast_eq take_bit_nat_eq_self)
  then have eq: "?w = ucast (maxsz q) \<longleftrightarrow> k = unat (maxsz q)" "\<not> ?w > ucast (maxsz q)"
    using k wk by (auto simp: word_unat_eq_iff word_less_nat_alt)
  have l: "length ?v = min (unat (maxsz q)) (size M)"
    using q(3) by (simp add: keeps_best_def)
  have "keeps_best cmp (length ?v) M (mset ?v)"
    using q(3) l by (simp add: keeps_best_def)
  then have p: "queue_ok (pop_times (length ?v - k) q)"
      "length (vecq (pop_times (length ?v - k) q)) = length ?v - (length ?v - k)"
      "keeps_best cmp (length ?v - (length ?v - k)) M (mset (vecq (pop_times (length ?v - k) q)))"
    using pop_times_ok [OF q(1,2), of M "length ?v - k"] by auto
  moreover have "length ?v - (length ?v - k) = min k (size M)"
    using l k by linarith
  ultimately have "keeps_best cmp k M (mset (vecq (pop_times (length ?v - k) q)))"
    by (simp add: keeps_best_def)
  then show ?thesis
    using p q eq wk by (auto simp: set_max_size_def queue_ok_def)
qed

end

text \<open>(C22) A queue for \<open>n\<close> elements, \<open>0 < n < 2 ^ 32\<close>, with a strict weak ordering as comparator: whatever sequence
  is pushed, no push fails, and the queue ends in heap order, with a worst element at the front, and with
  \<open>n\<close> best elements of the sequence (all, if there are fewer); reducing the maximum to \<open>k\<close> keeps the heap
  order and the \<open>k\<close> best; sorting keeps the elements and puts the best first.\<close>

theorem top_n_queue:
  assumes "strict_weak cmp" "0 < n" "n < 2 ^ 32" "k \<le> n"
  shows "\<exists>q. push_all xs (new_queue cmp (of_nat n) r) = Some q \<and>
    is_heap cmp (vecq q) \<and> (\<forall>x\<in>set (vecq q). \<not> cmp (hd (vecq q)) x) \<and>
    keeps_best cmp n (mset xs) (mset (vecq q)) \<and>
    is_heap cmp (vecq (set_max_size (of_nat k) q)) \<and>
    keeps_best cmp k (mset xs) (mset (vecq (set_max_size (of_nat k) q))) \<and>
    mset (vecq (sort_heap_locked q)) = mset (vecq q) \<and>
    sorted_wrt (\<lambda>x y. \<not> cmp y x) (vecq (sort_heap_locked q))"
proof -
  let ?q0 = "new_queue cmp (of_nat n) r"
  have n: "unat (maxsz ?q0) = n"
    using assms(3) by (simp add: new_queue_def unsigned_ucast_eq unsigned_of_nat take_bit_nat_eq_self)
  have "keeps_best cmp (unat (maxsz ?q0)) {#} (mset (vecq ?q0))"
    by (simp add: new_queue_def keeps_best_all)
  then obtain q where q: "push_all xs ?q0 = Some q" "queue_ok q" "compf q = cmp" "maxsz q = maxsz ?q0"
      "keeps_best cmp n (mset xs) (mset (vecq q))"
    using strict_weak.push_all_ok [OF assms(1) queue_ok_new, of cmp "of_nat n" r "{#}" xs] n assms(2)
    by (auto simp: new_queue_def)
  have "compf (set_max_size (of_nat k) q) = cmp" using q(3) by (simp add: set_max_size_def)
  then have "keeps_best cmp k (mset xs) (mset (vecq (set_max_size (of_nat k) q)))"
      "is_heap cmp (vecq (set_max_size (of_nat k) q))"
    using strict_weak.set_max_size_ok [OF assms(1) q(2,3), of "mset xs" k] q n assms(4) by (simp_all add: queue_ok_def)
  then show ?thesis
    using q strict_weak.sort_heap_sorted [OF assms(1), of "vecq q"] strict_weak.front_worst [OF assms(1) q(2,3)]
    by (auto simp: sort_heap_locked_def queue_ok_def)
qed

theorem top_n_queue_witness:
  "\<exists>q. push_all [3, 1, 2, 5] (new_queue ((>) :: int \<Rightarrow> int \<Rightarrow> bool) (of_nat 2) True) = Some q \<and>
    is_heap (>) (vecq q) \<and> keeps_best (>) 1 (mset [3, 1, 2, 5]) (mset (vecq (set_max_size (of_nat 1) q)))"
proof -
  have "strict_weak ((>) :: int \<Rightarrow> int \<Rightarrow> bool)" by unfold_locales auto
  from top_n_queue [OF this, of 2 1 "[3, 1, 2, 5]" True] show ?thesis by auto
qed

end
