(* ===== verification/Gy_Top_Lists.thy ===== *)
theory Gy_Top_Lists
  imports Gy_Prio_Queue Gy_Madhava_L1
begin

text \<open>
  The Top N lists that Madhava keeps for a Partha host: the comparators of \<open>LISTEN_TOPN\<close>
  and \<open>MTASK_ISSUE\<close> of \<open>server/gy_msocket.h\<close>, the summary \<open>LISTEN_SUMM_STATS\<close>, and the
  loop of \<open>MCONN_HANDLER::partha_listener_state\<close> that reads the elements of a
  \<open>LISTENER_STATE_NOTIFY\<close> event from the buffer of the message and maintains the four lists of
  listeners. What the handler keeps of a listener besides (histograms, alerts, the rows for the
  database, the dependencies of listeners) is not part of the model; the copies of members of the
  listener that go into a list element are one opaque value of type \<open>'l\<close>.
\<close>

section \<open>Comparators\<close>

text \<open>The members of \<open>comm::LISTENER_STATE_NOTIFY\<close> that the handler reads.\<close>

record LISTEN_STATE =
  glob_id :: "64 word"
  nqrys_5s :: "32 word"
  nconns_active :: "32 word"
  curr_kbytes_inbound :: "32 word"
  curr_kbytes_outbound :: "32 word"
  ser_errors :: "32 word"
  tasks_delay_usec :: "32 word"
  curr_state :: "8 word"
  query_flags :: "8 word"

record 'l LISTEN_TOPN =
  tn_state :: LISTEN_STATE
  tn_listener :: 'l
  tn_tusec :: "64 word"

definition STATE_OK :: "8 word" where "STATE_OK = 2"
definition STATE_DOWN :: "8 word" where "STATE_DOWN = 5"
definition LISTEN_FLAG_DELETE :: "8 word" where "LISTEN_FLAG_DELETE = 192"
definition MAX_LISTEN_TOPN :: "64 word" where "MAX_LISTEN_TOPN = 10"

definition is_comp_issue :: "LISTEN_STATE \<Rightarrow> 'l LISTEN_TOPN \<Rightarrow> bool" where
  "is_comp_issue s t \<longleftrightarrow> curr_state s > curr_state (tn_state t) \<or>
     curr_state s = curr_state (tn_state t) \<and> tasks_delay_usec s > tasks_delay_usec (tn_state t)"

definition is_comp_qps :: "LISTEN_STATE \<Rightarrow> 'l LISTEN_TOPN \<Rightarrow> bool" where
  "is_comp_qps s t \<longleftrightarrow> nqrys_5s s > nqrys_5s (tn_state t)"

definition is_comp_active_conn :: "LISTEN_STATE \<Rightarrow> 'l LISTEN_TOPN \<Rightarrow> bool" where
  "is_comp_active_conn s t \<longleftrightarrow> nconns_active s > nconns_active (tn_state t)"

text \<open>The sums are of type \<open>uint32_t\<close> and wrap.\<close>

definition is_comp_net :: "LISTEN_STATE \<Rightarrow> 'l LISTEN_TOPN \<Rightarrow> bool" where
  "is_comp_net s t \<longleftrightarrow> curr_kbytes_inbound s + curr_kbytes_outbound s >
     curr_kbytes_inbound (tn_state t) + curr_kbytes_outbound (tn_state t)"

definition TOP_ISSUE :: "'l LISTEN_TOPN \<Rightarrow> 'l LISTEN_TOPN \<Rightarrow> bool" where
  "TOP_ISSUE x y = is_comp_issue (tn_state x) y"

definition TOP_QPS :: "'l LISTEN_TOPN \<Rightarrow> 'l LISTEN_TOPN \<Rightarrow> bool" where
  "TOP_QPS x y = is_comp_qps (tn_state x) y"

definition TOP_ACTIVE_CONN :: "'l LISTEN_TOPN \<Rightarrow> 'l LISTEN_TOPN \<Rightarrow> bool" where
  "TOP_ACTIVE_CONN x y = is_comp_active_conn (tn_state x) y"

definition TOP_NET :: "'l LISTEN_TOPN \<Rightarrow> 'l LISTEN_TOPN \<Rightarrow> bool" where
  "TOP_NET x y = is_comp_net (tn_state x) y"

section \<open>The handler of listener states\<close>

text \<open>\<open>LISTEN_SUMM_STATS<int>\<close>; the counters are \<open>int\<close>, the sums with the unsigned members wrap at 32 bits.\<close>

record LISTEN_SUMM_STATS =
  nstates :: "32 word list"
  tot_qps :: "32 word"
  tot_act_conn :: "32 word"
  tot_kb_inbound :: "32 word"
  tot_kb_outbound :: "32 word"
  tot_ser_errors :: "32 word"
  nlisteners :: "32 word"
  nactive :: "32 word"

definition new_summ_stats :: LISTEN_SUMM_STATS where
  "new_summ_stats = \<lparr> nstates = replicate 6 0, tot_qps = 0, tot_act_conn = 0, tot_kb_inbound = 0,
     tot_kb_outbound = 0, tot_ser_errors = 0, nlisteners = 0, nactive = 0 \<rparr>"

text \<open>\<open>update\<close>; an index outside of \<open>nstates_\<close> is \<open>None\<close>.\<close>

definition summ_update :: "LISTEN_STATE \<Rightarrow> LISTEN_SUMM_STATS \<Rightarrow> LISTEN_SUMM_STATS option" where
  "summ_update s u =
     (let i = unat (curr_state s) in
      if i < length (nstates u) then Some (u\<lparr>
        nstates := (nstates u)[i := nstates u ! i + 1],
        tot_qps := tot_qps u + nqrys_5s s div 5,
        tot_act_conn := tot_act_conn u + nconns_active s,
        tot_kb_inbound := tot_kb_inbound u + curr_kbytes_inbound s,
        tot_kb_outbound := tot_kb_outbound u + curr_kbytes_outbound s,
        tot_ser_errors := tot_ser_errors u + ser_errors s,
        nlisteners := nlisteners u + 1,
        nactive := nactive u + (if nqrys_5s s \<noteq> 0 then 1 else 0) \<rparr>)
      else None)"

text \<open>What the model has of \<open>PARTHA_INFO\<close>.\<close>

record 'l PARTHA_INFO =
  listen_tbl :: "64 word \<rightharpoonup> 'l"
  last_listen_state_tusec :: "64 word"
  summstats :: LISTEN_SUMM_STATS
  top_issue_listen :: "'l LISTEN_TOPN BOUNDED_PRIO_QUEUE"
  top_qps_listen :: "'l LISTEN_TOPN BOUNDED_PRIO_QUEUE"
  top_active_conn_listen :: "'l LISTEN_TOPN BOUNDED_PRIO_QUEUE"
  top_net_listen :: "'l LISTEN_TOPN BOUNDED_PRIO_QUEUE"

definition new_partha :: "'l PARTHA_INFO" where
  "new_partha = \<lparr> listen_tbl = Map.empty, last_listen_state_tusec = 0, summstats = new_summ_stats,
     top_issue_listen = new_queue TOP_ISSUE MAX_LISTEN_TOPN True,
     top_qps_listen = new_queue TOP_QPS MAX_LISTEN_TOPN True,
     top_active_conn_listen = new_queue TOP_ACTIVE_CONN MAX_LISTEN_TOPN True,
     top_net_listen = new_queue TOP_NET MAX_LISTEN_TOPN True \<rparr>"

text \<open>One \<open>try_emplace_locked\<close> of the handler, under the condition \<open>g\<close>.\<close>

definition emplace_if ::
  "bool \<Rightarrow> ('a \<Rightarrow> bool) \<Rightarrow> 'a \<Rightarrow> 'a BOUNDED_PRIO_QUEUE \<Rightarrow> 'a BOUNDED_PRIO_QUEUE option" where
  "emplace_if g cb x q =
     (if g then do { (_, q') \<leftarrow> try_emplace_locked cb x q; Some q' } else Some q)"

text \<open>The body of the loop for a state \<open>s\<close>. A listener that is not in the table is passed over, a
  delete event removes it from the table, and a state out of range is counted as an error.\<close>

definition listen_one ::
  "64 word \<Rightarrow> LISTEN_STATE \<Rightarrow> LISTEN_SUMM_STATS \<times> 'l PARTHA_INFO \<Rightarrow>
   (LISTEN_SUMM_STATS \<times> 'l PARTHA_INFO) option" where
  "listen_one tusec s sp = (case sp of (u, P) \<Rightarrow>
     (case listen_tbl P (glob_id s) of
        None \<Rightarrow> Some (u, P)
      | Some l \<Rightarrow>
          if query_flags s = LISTEN_FLAG_DELETE then
            Some (u, P\<lparr> listen_tbl := (listen_tbl P)(glob_id s := None) \<rparr>)
          else if curr_state s > STATE_DOWN then Some (u, P)
          else do {
            u' \<leftarrow> summ_update s u;
            let x = \<lparr> tn_state = s, tn_listener = l, tn_tusec = tusec \<rparr>;
            q1 \<leftarrow> emplace_if (curr_state s > STATE_OK) (is_comp_issue s) x (top_issue_listen P);
            q2 \<leftarrow> emplace_if (nqrys_5s s \<ge> 5) (is_comp_qps s) x (top_qps_listen P);
            q3 \<leftarrow> emplace_if (nconns_active s \<ge> 1) (is_comp_active_conn s) x (top_active_conn_listen P);
            q4 \<leftarrow> emplace_if (curr_kbytes_inbound s + curr_kbytes_outbound s > 0) (is_comp_net s) x
                   (top_net_listen P);
            Some (u', P\<lparr> top_issue_listen := q1, top_qps_listen := q2, top_active_conn_listen := q3,
                        top_net_listen := q4 \<rparr>)
          }))"

definition listen_state_at :: "mem \<Rightarrow> nat \<Rightarrow> LISTEN_STATE option" where
  "listen_state_at m p = (let rdf = (\<lambda>nm. fld m p LISTENER_STATE_NOTIFY_fields nm) in do {
     i \<leftarrow> rdf ''glob_id_'';
     q \<leftarrow> rdf ''nqrys_5s_'';
     a \<leftarrow> rdf ''nconns_active_'';
     kin \<leftarrow> rdf ''curr_kbytes_inbound_'';
     kout \<leftarrow> rdf ''curr_kbytes_outbound_'';
     se \<leftarrow> rdf ''ser_errors_'';
     d \<leftarrow> rdf ''tasks_delay_usec_'';
     st \<leftarrow> rdf ''curr_state_'';
     fl \<leftarrow> rdf ''query_flags_'';
     Some \<lparr> glob_id = of_nat i, nqrys_5s = of_nat q, nconns_active = of_nat a,
            curr_kbytes_inbound = of_nat kin, curr_kbytes_outbound = of_nat kout, ser_errors = of_nat se,
            tasks_delay_usec = of_nat d, curr_state = of_nat st, query_flags = of_nat fl \<rparr>
   })"

text \<open>The loop over \<open>nconns\<close> elements from \<open>pone\<close> on, which also ends at \<open>pendptr\<close>.\<close>

primrec listen_loop ::
  "64 word \<Rightarrow> mem \<Rightarrow> nat \<Rightarrow> nat \<Rightarrow> nat \<Rightarrow> LISTEN_SUMM_STATS \<times> 'l PARTHA_INFO \<Rightarrow>
   (LISTEN_SUMM_STATS \<times> 'l PARTHA_INFO) option" where
  "listen_loop tusec m pendptr 0 pone sp = Some sp"
| "listen_loop tusec m pendptr (Suc n) pone sp =
     (if pone < pendptr then do {
        s \<leftarrow> listen_state_at m pone;
        sp' \<leftarrow> listen_one tusec s sp;
        e \<leftarrow> LISTENER_STATE_NOTIFY_get_elem_size m pone;
        listen_loop tusec m pendptr n (pone + e) sp'
      }
      else Some sp)"

text \<open>A message that comes within two seconds of the last one continues its batch: it has the time of
  the first message, its summary is added, and the lists are not cleared. \<open>labs\<close> is on the difference
  as a signed number.\<close>

definition is_continue_batch :: "64 word \<Rightarrow> 64 word \<Rightarrow> bool" where
  "is_continue_batch now prev = (let d = now - prev in (if d <s 0 then - d else d) < 2 * 1000000)"

definition partha_listener_state ::
  "64 word \<Rightarrow> bool \<Rightarrow> mem \<Rightarrow> nat \<Rightarrow> nat \<Rightarrow> nat \<Rightarrow> 'l PARTHA_INFO \<Rightarrow> 'l PARTHA_INFO option" where
  "partha_listener_state now isdummycall m porigone nconns pendptr P =
     (let cont = is_continue_batch now (last_listen_state_tusec P);
          tusec = (if cont then last_listen_state_tusec P else now);
          u0 = (if cont then summstats P else new_summ_stats);
          P0 = (if \<not> isdummycall \<and> \<not> cont then P\<lparr>
                  top_issue_listen := clear_locked (top_issue_listen P),
                  top_qps_listen := clear_locked (top_qps_listen P),
                  top_active_conn_listen := clear_locked (top_active_conn_listen P),
                  top_net_listen := clear_locked (top_net_listen P) \<rparr> else P)
      in do {
        (u, P1) \<leftarrow> listen_loop tusec m pendptr nconns porigone (u0, P0);
        Some (if isdummycall then P1 else P1\<lparr> last_listen_state_tusec := tusec, summstats := u \<rparr>)
      })"

text \<open>The call for an event that starts at \<open>prdbuf\<close>.\<close>

definition handle_listener_state ::
  "64 word \<Rightarrow> COMM_HEADER \<Rightarrow> mem \<Rightarrow> nat \<Rightarrow> 'l PARTHA_INFO \<Rightarrow> 'l PARTHA_INFO option" where
  "handle_listener_state now h m prdbuf P = do {
     nevents \<leftarrow> fld m (prdbuf + csizeof COMM_HEADER_t) EVENT_NOTIFY_fields ''nevents_'';
     partha_listener_state now False m (prdbuf + csizeof COMM_HEADER_t + csizeof EVENT_NOTIFY_t) nevents
       (prdbuf + act_len h) P
   }"

text \<open>The issue list of the aggregated tasks, \<open>MTASK_ISSUE::is_comp_issue\<close>, on the members of
  \<open>comm::AGGR_TASK_STATE_NOTIFY\<close> that it reads.\<close>

record TASK_STATE =
  ntasks_issue :: "16 word"
  severe_issue_bit_hist :: "8 word"

definition TASK_TOP_ISSUE :: "TASK_STATE \<Rightarrow> TASK_STATE \<Rightarrow> bool" where
  "TASK_TOP_ISSUE x y \<longleftrightarrow> ntasks_issue x > ntasks_issue y \<or>
     severe_issue_bit_hist y AND 1 = 0 \<and> ntasks_issue x \<noteq> 0 \<and> severe_issue_bit_hist x AND 1 \<noteq> 0"

section \<open>What the lists hold\<close>

text \<open>The states of a message that get to the lists, with their listeners: those of listeners in the
  table, with deletions taken into account, and a state in range.\<close>

fun handled :: "(64 word \<rightharpoonup> 'l) \<Rightarrow> LISTEN_STATE list \<Rightarrow> (LISTEN_STATE \<times> 'l) list" where
  "handled tbl [] = []"
| "handled tbl (s # ss) = (case tbl (glob_id s) of
       None \<Rightarrow> handled tbl ss
     | Some l \<Rightarrow>
         if query_flags s = LISTEN_FLAG_DELETE then handled (tbl(glob_id s := None)) ss
         else if curr_state s > STATE_DOWN then handled tbl ss
         else (s, l) # handled tbl ss)"

definition entries ::
  "64 word \<Rightarrow> (LISTEN_STATE \<Rightarrow> bool) \<Rightarrow> (64 word \<rightharpoonup> 'l) \<Rightarrow> LISTEN_STATE list \<Rightarrow> 'l LISTEN_TOPN multiset" where
  "entries tusec g tbl ss =
     mset (map (\<lambda>(s, l). \<lparr> tn_state = s, tn_listener = l, tn_tusec = tusec \<rparr>)
       (filter (\<lambda>(s, l). g s) (handled tbl ss)))"

text \<open>The conditions under which a state is a candidate for a list.\<close>

definition has_issue :: "LISTEN_STATE \<Rightarrow> bool" where
  "has_issue s \<longleftrightarrow> curr_state s > STATE_OK"

definition has_qps :: "LISTEN_STATE \<Rightarrow> bool" where
  "has_qps s \<longleftrightarrow> nqrys_5s s \<ge> 5"

definition has_conns :: "LISTEN_STATE \<Rightarrow> bool" where
  "has_conns s \<longleftrightarrow> nconns_active s \<ge> 1"

definition has_net :: "LISTEN_STATE \<Rightarrow> bool" where
  "has_net s \<longleftrightarrow> curr_kbytes_inbound s + curr_kbytes_outbound s > 0"

definition list_ok :: "('a \<Rightarrow> 'a \<Rightarrow> bool) \<Rightarrow> 'a multiset \<Rightarrow> 'a BOUNDED_PRIO_QUEUE \<Rightarrow> bool" where
  "list_ok cmp M q \<longleftrightarrow> queue_ok q \<and> compf q = cmp \<and> maxsz q = 10 \<and> keeps_best cmp 10 M (mset (vecq q))"

definition lists_ok ::
  "'l LISTEN_TOPN multiset \<Rightarrow> 'l LISTEN_TOPN multiset \<Rightarrow> 'l LISTEN_TOPN multiset \<Rightarrow> 'l LISTEN_TOPN multiset \<Rightarrow>
   'l PARTHA_INFO \<Rightarrow> bool" where
  "lists_ok M1 M2 M3 M4 P \<longleftrightarrow>
     list_ok TOP_ISSUE M1 (top_issue_listen P) \<and> list_ok TOP_QPS M2 (top_qps_listen P) \<and>
     list_ok TOP_ACTIVE_CONN M3 (top_active_conn_listen P) \<and> list_ok TOP_NET M4 (top_net_listen P)"

definition summ_ok :: "LISTEN_SUMM_STATS \<Rightarrow> bool" where
  "summ_ok u \<longleftrightarrow> length (nstates u) = 6 \<and> sum_list (nstates u) = nlisteners u"

text \<open>Between two messages the lists are queues of at most ten elements in heap order.\<close>

definition partha_ok :: "'l PARTHA_INFO \<Rightarrow> bool" where
  "partha_ok P \<longleftrightarrow> summ_ok (summstats P) \<and>
     lists_ok (mset (vecq (top_issue_listen P))) (mset (vecq (top_qps_listen P)))
       (mset (vecq (top_active_conn_listen P))) (mset (vecq (top_net_listen P))) P"

interpretation top_issue: strict_weak "TOP_ISSUE :: 'l LISTEN_TOPN \<Rightarrow> 'l LISTEN_TOPN \<Rightarrow> bool"
  by unfold_locales (auto simp: TOP_ISSUE_def is_comp_issue_def)

interpretation top_qps: strict_weak "TOP_QPS :: 'l LISTEN_TOPN \<Rightarrow> 'l LISTEN_TOPN \<Rightarrow> bool"
  by unfold_locales (auto simp: TOP_QPS_def is_comp_qps_def)

interpretation top_active_conn: strict_weak "TOP_ACTIVE_CONN :: 'l LISTEN_TOPN \<Rightarrow> 'l LISTEN_TOPN \<Rightarrow> bool"
  by unfold_locales (auto simp: TOP_ACTIVE_CONN_def is_comp_active_conn_def)

interpretation top_net: strict_weak "TOP_NET :: 'l LISTEN_TOPN \<Rightarrow> 'l LISTEN_TOPN \<Rightarrow> bool"
  by unfold_locales (auto simp: TOP_NET_def is_comp_net_def)

context strict_weak
begin

lemma emplace_if_ok:
  assumes "list_ok cmp M q" "\<And>t. cb t \<longleftrightarrow> cmp x t"
  shows "\<exists>q'. emplace_if g cb x q = Some q' \<and> list_ok cmp (M + (if g then {#x#} else {#})) q'"
  using assms try_emplace_ok [of q M cb x] by (auto simp: list_ok_def emplace_if_def)

end

lemma list_ok_keep: "list_ok cmp M q \<Longrightarrow> list_ok cmp (mset (vecq q)) q"
  by (auto simp: list_ok_def queue_ok_def intro!: keeps_best_all)

lemma list_ok_clear: "list_ok cmp M q \<Longrightarrow> list_ok cmp {#} (clear_locked q)"
  by (auto simp: list_ok_def intro!: keeps_best_all)

lemma sum_list_update_add:
  fixes xs :: "'a :: comm_ring_1 list"
  assumes "i < length xs"
  shows "sum_list (xs[i := xs ! i + c]) = sum_list xs + c"
  using assms by (induction xs arbitrary: i) (auto split: nat.split)

lemma summ_update_ok:
  assumes "summ_ok u" "curr_state s \<le> STATE_DOWN"
  shows "\<exists>u'. summ_update s u = Some u' \<and> summ_ok u'"
proof -
  have "unat (curr_state s) < 6"
    using assms(2) by (simp add: STATE_DOWN_def word_le_nat_alt)
  then show ?thesis
    using assms(1) by (simp add: summ_update_def Let_def summ_ok_def sum_list_update_add)
qed

text \<open>What the summary holds after the states \<open>ss\<close>, if it was \<open>u\<close> before: the number of listeners in each
  state, the sums of their counters modulo \<open>2 ^ 32\<close>, and how many there are and have queries.\<close>

definition summ_counts :: "LISTEN_SUMM_STATS \<Rightarrow> LISTEN_STATE list \<Rightarrow> LISTEN_SUMM_STATS \<Rightarrow> bool" where
  "summ_counts u ss u' \<longleftrightarrow> length (nstates u') = length (nstates u) \<and>
     (\<forall>i<length (nstates u). nstates u' ! i = nstates u ! i + of_nat (length (filter (\<lambda>s. unat (curr_state s) = i) ss))) \<and>
     tot_qps u' = tot_qps u + (\<Sum>s\<leftarrow>ss. nqrys_5s s div 5) \<and>
     tot_act_conn u' = tot_act_conn u + (\<Sum>s\<leftarrow>ss. nconns_active s) \<and>
     tot_kb_inbound u' = tot_kb_inbound u + (\<Sum>s\<leftarrow>ss. curr_kbytes_inbound s) \<and>
     tot_kb_outbound u' = tot_kb_outbound u + (\<Sum>s\<leftarrow>ss. curr_kbytes_outbound s) \<and>
     tot_ser_errors u' = tot_ser_errors u + (\<Sum>s\<leftarrow>ss. ser_errors s) \<and>
     nlisteners u' = nlisteners u + of_nat (length ss) \<and>
     nactive u' = nactive u + of_nat (length (filter (\<lambda>s. nqrys_5s s \<noteq> 0) ss))"

lemma summ_counts_Nil [simp]: "summ_counts u [] u"
  by (simp add: summ_counts_def)

lemma summ_counts_append: "summ_counts u a u1 \<Longrightarrow> summ_counts u1 b u2 \<Longrightarrow> summ_counts u (a @ b) u2"
  by (simp add: summ_counts_def)

lemma summ_update_counts: "summ_update s u = Some u' \<Longrightarrow> summ_counts u [s] u'"
  by (auto simp: summ_update_def summ_counts_def Let_def nth_list_update split: if_splits)

lemma handled_Cons:
  "handled tbl (s # ss) = handled tbl [s] @
     handled (case tbl (glob_id s) of None \<Rightarrow> tbl
        | Some l \<Rightarrow> if query_flags s = LISTEN_FLAG_DELETE then tbl(glob_id s := None) else tbl) ss"
  by (simp split: option.split)

text \<open>The table after a state.\<close>

definition next_tbl :: "LISTEN_STATE \<Rightarrow> (64 word \<rightharpoonup> 'l) \<Rightarrow> (64 word \<rightharpoonup> 'l)" where
  "next_tbl s tbl = (case tbl (glob_id s) of None \<Rightarrow> tbl
     | Some l \<Rightarrow> if query_flags s = LISTEN_FLAG_DELETE then tbl(glob_id s := None) else tbl)"

lemma entries_Cons: "entries tusec g tbl (s # ss) = entries tusec g tbl [s] + entries tusec g (next_tbl s tbl) ss"
  by (subst (1) entries_def, subst handled_Cons) (simp add: entries_def next_tbl_def)

lemma listen_one_ok:
  assumes "lists_ok M1 M2 M3 M4 P" "summ_ok u"
  shows "\<exists>u' P'. listen_one tusec s (u, P) = Some (u', P') \<and> summ_ok u' \<and> listen_tbl P' = next_tbl s (listen_tbl P) \<and>
    last_listen_state_tusec P' = last_listen_state_tusec P \<and>
    lists_ok (M1 + entries tusec has_issue (listen_tbl P) [s]) (M2 + entries tusec has_qps (listen_tbl P) [s])
      (M3 + entries tusec has_conns (listen_tbl P) [s]) (M4 + entries tusec has_net (listen_tbl P) [s]) P'"
proof (cases "listen_tbl P (glob_id s)")
  case None
  then show ?thesis using assms by (simp add: listen_one_def entries_def next_tbl_def)
next
  case (Some l)
  let ?x = "\<lparr> tn_state = s, tn_listener = l, tn_tusec = tusec \<rparr>"
  consider (del) "query_flags s = LISTEN_FLAG_DELETE"
    | (err) "query_flags s \<noteq> LISTEN_FLAG_DELETE" "curr_state s > STATE_DOWN"
    | (ok) "query_flags s \<noteq> LISTEN_FLAG_DELETE" "\<not> curr_state s > STATE_DOWN" by blast
  then show ?thesis
  proof cases
    case ok
    obtain u' where u: "summ_update s u = Some u'" "summ_ok u'"
      using summ_update_ok [of u s] assms(2) ok by (auto simp: not_less)
    obtain q1 where 1: "emplace_if (curr_state s > STATE_OK) (is_comp_issue s) ?x (top_issue_listen P) = Some q1"
        "list_ok TOP_ISSUE (M1 + (if curr_state s > STATE_OK then {#?x#} else {#})) q1"
      using top_issue.emplace_if_ok [of M1 "top_issue_listen P" "is_comp_issue s" ?x] assms(1)
      by (auto simp: lists_ok_def TOP_ISSUE_def)
    obtain q2 where 2: "emplace_if (nqrys_5s s \<ge> 5) (is_comp_qps s) ?x (top_qps_listen P) = Some q2"
        "list_ok TOP_QPS (M2 + (if nqrys_5s s \<ge> 5 then {#?x#} else {#})) q2"
      using top_qps.emplace_if_ok [of M2 "top_qps_listen P" "is_comp_qps s" ?x] assms(1)
      by (auto simp: lists_ok_def TOP_QPS_def)
    obtain q3 where 3: "emplace_if (nconns_active s \<ge> 1) (is_comp_active_conn s) ?x (top_active_conn_listen P) = Some q3"
        "list_ok TOP_ACTIVE_CONN (M3 + (if nconns_active s \<ge> 1 then {#?x#} else {#})) q3"
      using top_active_conn.emplace_if_ok [of M3 "top_active_conn_listen P" "is_comp_active_conn s" ?x] assms(1)
      by (auto simp: lists_ok_def TOP_ACTIVE_CONN_def)
    obtain q4 where 4: "emplace_if (curr_kbytes_inbound s + curr_kbytes_outbound s > 0) (is_comp_net s) ?x
          (top_net_listen P) = Some q4"
        "list_ok TOP_NET (M4 + (if curr_kbytes_inbound s + curr_kbytes_outbound s > 0 then {#?x#} else {#})) q4"
      using top_net.emplace_if_ok [of M4 "top_net_listen P" "is_comp_net s" ?x] assms(1)
      by (auto simp: lists_ok_def TOP_NET_def)
    have "entries tusec g (listen_tbl P) [s] = (if g s then {#?x#} else {#})" for g
      using Some ok by (simp add: entries_def)
    then show ?thesis
      using Some ok u 1 2 3 4
      by (simp add: listen_one_def next_tbl_def lists_ok_def has_issue_def has_qps_def has_conns_def has_net_def)
  qed (use Some assms in \<open>simp_all add: listen_one_def entries_def next_tbl_def lists_ok_def\<close>)
qed

lemma listen_one_counts:
  assumes "listen_one tusec s (u, P) = Some (u', P')"
  shows "summ_counts u (map fst (handled (listen_tbl P) [s])) u' \<and> listen_tbl P' = next_tbl s (listen_tbl P)"
  using assms
  by (auto simp: listen_one_def next_tbl_def bind_eq_Some_conv Let_def summ_update_counts split: option.splits if_splits)

text \<open>The states at the positions of a walk over the elements.\<close>

definition states_of :: "mem \<Rightarrow> (nat \<times> nat) list \<Rightarrow> LISTEN_STATE list" where
  "states_of m w = map (\<lambda>(q, e). the (listen_state_at m q)) w"

lemma listen_members [gy_size]:
  "cmember LISTENER_STATE_NOTIFY_fields ''glob_id_'' = (0, 8)"
  "cmember LISTENER_STATE_NOTIFY_fields ''nqrys_5s_'' = (8, 4)"
  "cmember LISTENER_STATE_NOTIFY_fields ''nconns_active_'' = (20, 4)"
  "cmember LISTENER_STATE_NOTIFY_fields ''curr_kbytes_inbound_'' = (36, 4)"
  "cmember LISTENER_STATE_NOTIFY_fields ''curr_kbytes_outbound_'' = (40, 4)"
  "cmember LISTENER_STATE_NOTIFY_fields ''ser_errors_'' = (44, 4)"
  "cmember LISTENER_STATE_NOTIFY_fields ''tasks_delay_usec_'' = (52, 4)"
  "cmember LISTENER_STATE_NOTIFY_fields ''curr_state_'' = (79, 1)"
  "cmember LISTENER_STATE_NOTIFY_fields ''query_flags_'' = (84, 1)"
  by code_simp+

lemma listen_state_at_in: "p + 88 \<le> length m \<Longrightarrow> \<exists>s. listen_state_at m p = Some s"
  by (simp add: listen_state_at_def Let_def fld_def rd_def gy_size)

lemma listen_loop_ok:
  assumes "elem_walk LISTENER_STATE_NOTIFY_get_elem_size k p m = Some w"
    and "list_all (\<lambda>(q, e). q + 88 \<le> length m \<and> q < pend) w"
    and "lists_ok M1 M2 M3 M4 P" "summ_ok u"
  shows "\<exists>u' P'. listen_loop tusec m pend k p (u, P) = Some (u', P') \<and> summ_ok u' \<and>
    last_listen_state_tusec P' = last_listen_state_tusec P \<and>
    (let ss = states_of m w; tbl = listen_tbl P in
     lists_ok (M1 + entries tusec has_issue tbl ss) (M2 + entries tusec has_qps tbl ss)
      (M3 + entries tusec has_conns tbl ss) (M4 + entries tusec has_net tbl ss) P')"
  using assms
proof (induction k arbitrary: p w u P M1 M2 M3 M4)
  case 0
  then show ?case by (simp add: states_of_def entries_def)
next
  case (Suc k)
  obtain e w' where w: "LISTENER_STATE_NOTIFY_get_elem_size m p = Some e"
      "elem_walk LISTENER_STATE_NOTIFY_get_elem_size k (p + e) m = Some w'" "w = (p, e) # w'"
    using Suc.prems(1) by (auto simp: bind_eq_Some_conv)
  have p: "p + 88 \<le> length m" "p < pend" using Suc.prems(2) w(3) by auto
  obtain s where s: "listen_state_at m p = Some s" using listen_state_at_in p by blast
  obtain u1 P1 where 1: "listen_one tusec s (u, P) = Some (u1, P1)" "summ_ok u1"
      "listen_tbl P1 = next_tbl s (listen_tbl P)" "last_listen_state_tusec P1 = last_listen_state_tusec P"
      "lists_ok (M1 + entries tusec has_issue (listen_tbl P) [s]) (M2 + entries tusec has_qps (listen_tbl P) [s])
        (M3 + entries tusec has_conns (listen_tbl P) [s]) (M4 + entries tusec has_net (listen_tbl P) [s]) P1"
    using listen_one_ok [OF Suc.prems(3,4)] by blast
  have "list_all (\<lambda>(q, e). q + 88 \<le> length m \<and> q < pend) w'" using Suc.prems(2) w(3) by simp
  from Suc.IH [OF w(2) this 1(5,2)]
  obtain u' P' where 2: "listen_loop tusec m pend k (p + e) (u1, P1) = Some (u', P')" "summ_ok u'"
      "last_listen_state_tusec P' = last_listen_state_tusec P"
      "let ss = states_of m w'; tbl = listen_tbl P1 in
        lists_ok (M1 + entries tusec has_issue (listen_tbl P) [s] + entries tusec has_issue tbl ss)
          (M2 + entries tusec has_qps (listen_tbl P) [s] + entries tusec has_qps tbl ss)
          (M3 + entries tusec has_conns (listen_tbl P) [s] + entries tusec has_conns tbl ss)
          (M4 + entries tusec has_net (listen_tbl P) [s] + entries tusec has_net tbl ss) P'"
    using 1(4) by auto
  have "states_of m w = s # states_of m w'" using w(3) s by (simp add: states_of_def)
  then show ?case
    using 2 1 p s w(1) by (simp add: Let_def entries_Cons [of tusec _ _ s "states_of m w'"] add.assoc)
qed

lemma listen_loop_counts:
  assumes "elem_walk LISTENER_STATE_NOTIFY_get_elem_size k p m = Some w"
    and "list_all (\<lambda>(q, e). q + 88 \<le> length m \<and> q < pend) w"
    and "listen_loop tusec m pend k p (u, P) = Some (u', P')"
  shows "summ_counts u (map fst (handled (listen_tbl P) (states_of m w))) u' \<and>
    listen_tbl P' = fold next_tbl (states_of m w) (listen_tbl P)"
  using assms
proof (induction k arbitrary: p w u P)
  case 0
  then show ?case by (simp add: states_of_def)
next
  case (Suc k)
  obtain e w' where w: "LISTENER_STATE_NOTIFY_get_elem_size m p = Some e"
      "elem_walk LISTENER_STATE_NOTIFY_get_elem_size k (p + e) m = Some w'" "w = (p, e) # w'"
    using Suc.prems(1) by (auto simp: bind_eq_Some_conv)
  have p: "p < pend" "list_all (\<lambda>(q, e). q + 88 \<le> length m \<and> q < pend) w'" using Suc.prems(2) w(3) by auto
  then obtain s u1 P1 where s: "listen_state_at m p = Some s" "listen_one tusec s (u, P) = Some (u1, P1)"
      "listen_loop tusec m pend k (p + e) (u1, P1) = Some (u', P')"
    using Suc.prems(3) w(1) by (auto simp: bind_eq_Some_conv)
  note 1 = listen_one_counts [OF s(2)] and 2 = Suc.IH [OF w(2) p(2) s(3)]
  have "states_of m w = s # states_of m w'" using w(3) s(1) by (simp add: states_of_def)
  moreover have "handled (listen_tbl P) (s # states_of m w') =
      handled (listen_tbl P) [s] @ handled (next_tbl s (listen_tbl P)) (states_of m w')"
    unfolding next_tbl_def by (rule handled_Cons)
  ultimately show ?case
    using summ_counts_append [OF conjunct1 [OF 1] conjunct1 [OF 2]] 1 2 by (simp del: handled.simps)
qed

lemma validated_walk:
  assumes "validate_hdr h p mg" "msg_in h m0 p" "data_type h = comm_type_val COMM_EVENT_NOTIFY"
    and val: "LISTENER_STATE_NOTIFY_validate h m0 (p + 16) = Some (True, m)"
  shows "\<exists>w. elem_walk LISTENER_STATE_NOTIFY_get_elem_size (nevents_of m (p + 16)) (p + 24) m = Some w \<and>
    list_all (\<lambda>(q, e). q + 88 \<le> length m \<and> q < p + act_len h) w \<and>
    fld m (p + 16) EVENT_NOTIFY_fields ''nevents_'' = Some (nevents_of m (p + 16))"
proof -
  note v = valid_msg [OF assms(1-3)]
  have ein: "event_hdr_in h m0 (p + 16)" using v by (simp add: event_hdr_in_def event_in_def)
  then have "layout_ok (Var_elems 512 (csizeof LISTENER_STATE_NOTIFY_t) LISTENER_STATE_NOTIFY_get_elem_size) h m (p + 16)"
    using LISTENER_STATE_NOTIFY_accepts v(1) val unfolding accepts_def by blast
  then obtain w where w: "elem_walk LISTENER_STATE_NOTIFY_get_elem_size (nevents_of m (p + 16)) (p + 24) m = Some w"
      "elems_inside 88 h (p + 16) w"
    by (auto simp: add.assoc)
  have len: "length m = length m0"
    using LISTENER_STATE_NOTIFY_safe v(1) ein val unfolding validator_safe_def
    by (fastforce dest: same_off_len simp: payload_only_def)
  have "list_all (\<lambda>(q, e). q + 88 \<le> length m \<and> q < p + act_len h) w"
    using w(2) v(3) len unfolding elems_inside_def list_all_iff by fastforce
  moreover have "p + 24 \<le> length m" using v len by simp
  ultimately show ?thesis using w(1) by (auto simp: fld_nevents)
qed

lemma partha_ok_lists:
  assumes "lists_ok M1 M2 M3 M4 P" "summ_ok (summstats P)"
  shows "partha_ok P"
  using assms unfolding partha_ok_def lists_ok_def by (blast intro: list_ok_keep)

lemma partha_ok_new [simp]: "partha_ok (new_partha\<lparr> listen_tbl := tbl \<rparr>)"
  by (simp add: partha_ok_def new_partha_def lists_ok_def list_ok_def MAX_LISTEN_TOPN_def keeps_best_all
      summ_ok_def new_summ_stats_def sum_list_replicate) (simp add: new_queue_def keeps_best_all)

text \<open>(C23) From the message to the lists: when a complete event of listener states was accepted by
  \<open>LISTENER_STATE_NOTIFY::validate\<close>, the handler of the event reads only inside of the message, never
  takes the front of an empty queue or an index outside of the counters, and afterwards each of the
  four lists holds the ten best under its comparator (all, if there are fewer) of the candidates:
  those the list had if the message continues a batch, and the states of the message of listeners in
  the table that meet the condition of the list. The summary counts the same states of listeners in the
  table: how many are in each state, how many there are and how many have queries, and the sums of their
  queries per second, connections, traffic and errors modulo \<open>2 ^ 32\<close>, on top of the last summary if the
  message continues a batch. The table loses exactly the listeners that the message deletes.\<close>

theorem listener_top_lists:
  assumes "validate_hdr h p mg" "msg_in h m0 p" "data_type h = comm_type_val COMM_EVENT_NOTIFY"
    and "LISTENER_STATE_NOTIFY_validate h m0 (p + 16) = Some (True, m)"
    and "partha_ok P"
  shows "\<exists>w P'. elem_walk LISTENER_STATE_NOTIFY_get_elem_size (nevents_of m (p + 16)) (p + 24) m = Some w \<and>
    handle_listener_state now h m p P = Some P' \<and> partha_ok P' \<and>
    listen_tbl P' = fold next_tbl (states_of m w) (listen_tbl P) \<and>
    (let cont = is_continue_batch now (last_listen_state_tusec P);
         tusec = (if cont then last_listen_state_tusec P else now);
         old = (\<lambda>q. if cont then mset (vecq q) else {#});
         seen = (\<lambda>g. entries tusec g (listen_tbl P) (states_of m w))
     in summ_counts (if cont then summstats P else new_summ_stats)
          (map fst (handled (listen_tbl P) (states_of m w))) (summstats P') \<and>
        last_listen_state_tusec P' = tusec \<and>
        keeps_best TOP_ISSUE 10 (old (top_issue_listen P) + seen has_issue) (mset (vecq (top_issue_listen P'))) \<and>
        keeps_best TOP_QPS 10 (old (top_qps_listen P) + seen has_qps) (mset (vecq (top_qps_listen P'))) \<and>
        keeps_best TOP_ACTIVE_CONN 10 (old (top_active_conn_listen P) + seen has_conns)
          (mset (vecq (top_active_conn_listen P'))) \<and>
        keeps_best TOP_NET 10 (old (top_net_listen P) + seen has_net) (mset (vecq (top_net_listen P'))))"
proof -
  obtain w where w: "elem_walk LISTENER_STATE_NOTIFY_get_elem_size (nevents_of m (p + 16)) (p + 24) m = Some w"
      "list_all (\<lambda>(q, e). q + 88 \<le> length m \<and> q < p + act_len h) w"
      "fld m (p + 16) EVENT_NOTIFY_fields ''nevents_'' = Some (nevents_of m (p + 16))"
    using validated_walk [OF assms(1-4)] by blast
  let ?cont = "is_continue_batch now (last_listen_state_tusec P)"
  let ?tusec = "if ?cont then last_listen_state_tusec P else now"
  let ?u0 = "if ?cont then summstats P else new_summ_stats"
  let ?P0 = "if ?cont then P else P\<lparr>
      top_issue_listen := clear_locked (top_issue_listen P), top_qps_listen := clear_locked (top_qps_listen P),
      top_active_conn_listen := clear_locked (top_active_conn_listen P),
      top_net_listen := clear_locked (top_net_listen P) \<rparr>"
  let ?old = "\<lambda>q. if ?cont then mset (vecq q) else {#}"
  have "lists_ok (?old (top_issue_listen P)) (?old (top_qps_listen P)) (?old (top_active_conn_listen P))
      (?old (top_net_listen P)) ?P0"
    using assms(5) by (auto simp: partha_ok_def lists_ok_def intro: list_ok_clear)
  moreover have "summ_ok ?u0"
    using assms(5) by (auto simp: partha_ok_def summ_ok_def new_summ_stats_def sum_list_replicate)
  ultimately obtain u' P' where l: "listen_loop ?tusec m (p + act_len h) (nevents_of m (p + 16)) (p + 24) (?u0, ?P0) = Some (u', P')"
      "summ_ok u'" "let ss = states_of m w; tbl = listen_tbl ?P0 in
        lists_ok (?old (top_issue_listen P) + entries ?tusec has_issue tbl ss)
          (?old (top_qps_listen P) + entries ?tusec has_qps tbl ss)
          (?old (top_active_conn_listen P) + entries ?tusec has_conns tbl ss)
          (?old (top_net_listen P) + entries ?tusec has_net tbl ss) P'"
    using listen_loop_ok [OF w(1,2)] by blast
  let ?P' = "P'\<lparr> last_listen_state_tusec := ?tusec, summstats := u' \<rparr>"
  have h: "handle_listener_state now h m p P = Some ?P'"
    using w(3) l(1) by (cases ?cont) (simp_all add: handle_listener_state_def partha_listener_state_def Let_def add.assoc)
  have "listen_tbl ?P0 = listen_tbl P" by simp
  then have k: "lists_ok (?old (top_issue_listen P) + entries ?tusec has_issue (listen_tbl P) (states_of m w))
          (?old (top_qps_listen P) + entries ?tusec has_qps (listen_tbl P) (states_of m w))
          (?old (top_active_conn_listen P) + entries ?tusec has_conns (listen_tbl P) (states_of m w))
          (?old (top_net_listen P) + entries ?tusec has_net (listen_tbl P) (states_of m w)) ?P'"
    using l(3) by (simp add: Let_def lists_ok_def)
  have "partha_ok ?P'" using partha_ok_lists [OF k] l(2) by simp
  moreover have "summ_counts ?u0 (map fst (handled (listen_tbl P) (states_of m w))) (summstats ?P')"
      "listen_tbl ?P' = fold next_tbl (states_of m w) (listen_tbl P)" "last_listen_state_tusec ?P' = ?tusec"
    using listen_loop_counts [OF w(1,2) l(1)] \<open>listen_tbl ?P0 = listen_tbl P\<close> by simp_all
  ultimately show ?thesis
    using w(1) h k unfolding lists_ok_def list_ok_def Let_def by blast
qed


text \<open>An event with the state of one listener, which has an issue.\<close>

definition sample_states_hdr :: COMM_HEADER where
  "sample_states_hdr = \<lparr>magic = magic_val PM_HDR_MAGIC, total_sz = 112, data_type = comm_type_val COMM_EVENT_NOTIFY,
     padding_sz = 0\<rparr>"

definition sample_states_msg :: mem where
  "sample_states_msg = replicate 16 0 @ [4, 3, 0, 0, 1, 0, 0, 0] @
     (7 # replicate 7 0 @ [9, 0, 0, 0] @ replicate 67 0 @ [4] @ replicate 8 0)"

definition sample_listeners :: "unit PARTHA_INFO" where
  "sample_listeners = new_partha\<lparr> listen_tbl := [7 \<mapsto> ()] \<rparr>"

lemma sample_states_valid1:
  "validate_hdr sample_states_hdr 0 (magic_val PM_HDR_MAGIC)" "msg_in sample_states_hdr sample_states_msg 0"
  "data_type sample_states_hdr = comm_type_val COMM_EVENT_NOTIFY"
  by (auto simp: validate_hdr_iff sample_states_hdr_def msg_in_def sample_states_msg_def)

lemma sample_states_flds:
  "fld sample_states_msg 16 EVENT_NOTIFY_fields ''nevents_'' = Some 1"
  "fld sample_states_msg 24 LISTENER_STATE_NOTIFY_fields ''issue_string_len_'' = Some 0"
  "fld sample_states_msg 24 LISTENER_STATE_NOTIFY_fields ''padding_len_'' = Some 0"
  by (simp_all add: fld_def rd_def rdv_def gy_size sample_states_msg_def)

lemma sample_states_valid2:
  "LISTENER_STATE_NOTIFY_validate sample_states_hdr sample_states_msg (0 + 16) = Some (True, sample_states_msg)"
  using sample_states_flds
  by (simp add: LISTENER_STATE_NOTIFY_validate_def validate_elems_def Let_def get_act_len_def
      sample_states_hdr_def LISTENER_STATE_NOTIFY_get_elem_size_def LISTENER_STATE_NOTIFY_get_act_size_def
      LISTENER_STATE_NOTIFY_one_def put_nul_def)

theorem listener_top_lists_witness:
  "\<exists>w P'. elem_walk LISTENER_STATE_NOTIFY_get_elem_size (nevents_of sample_states_msg (0 + 16)) (0 + 24)
       sample_states_msg = Some w \<and>
     handle_listener_state 1000 sample_states_hdr sample_states_msg 0 sample_listeners = Some P' \<and>
     keeps_best TOP_ISSUE 10 (entries 0 has_issue [7 \<mapsto> ()] (states_of sample_states_msg w))
       (mset (vecq (top_issue_listen P')))"
proof -
  have c: "is_continue_batch 1000 (last_listen_state_tusec sample_listeners)"
      "last_listen_state_tusec sample_listeners = 0" "listen_tbl sample_listeners = [7 \<mapsto> ()]"
      "vecq (top_issue_listen sample_listeners) = []"
    by (simp_all add: sample_listeners_def new_partha_def new_queue_def is_continue_batch_def word_sless_alt)
  show ?thesis
    using listener_top_lists [OF sample_states_valid1 sample_states_valid2, of sample_listeners 1000] c
    by (auto simp: Let_def) (auto simp: sample_listeners_def)
qed

text \<open>A task with two processes that have an issue, one with a severe issue now, and one that is before
  both.\<close>

definition many_tasks :: TASK_STATE where
  "many_tasks = \<lparr> ntasks_issue = 2, severe_issue_bit_hist = 0 \<rparr>"

definition severe_task :: TASK_STATE where
  "severe_task = \<lparr> ntasks_issue = 1, severe_issue_bit_hist = 1 \<rparr>"

definition worst_task :: TASK_STATE where
  "worst_task = \<lparr> ntasks_issue = 9, severe_issue_bit_hist = 1 \<rparr>"

definition nine_tasks :: "TASK_STATE BOUNDED_PRIO_QUEUE" where
  "nine_tasks = (new_queue TASK_TOP_ISSUE 10 True)\<lparr> vecq := replicate 9 worst_task \<rparr>"

text \<open>The comparator of the issue list of tasks is not an ordering, as the heap algorithms require:
  of two tasks, one with more processes that have an issue and one with a severe issue now, each is
  before the other. So a full list does not keep the worse one, it keeps whichever came last: in a list
  with nine tasks that are before both, the one added first drops out.\<close>

theorem task_issue_comparator:
  "TASK_TOP_ISSUE many_tasks severe_task \<and> TASK_TOP_ISSUE severe_task many_tasks \<and> \<not> strict_weak TASK_TOP_ISSUE \<and>
    map_option (\<lambda>q. mset (vecq q)) (push_all [many_tasks, severe_task] nine_tasks) =
      Some (add_mset severe_task (mset (replicate 9 worst_task))) \<and>
    map_option (\<lambda>q. mset (vecq q)) (push_all [severe_task, many_tasks] nine_tasks) =
      Some (add_mset many_tasks (mset (replicate 9 worst_task)))"
proof -
  have 1: "TASK_TOP_ISSUE many_tasks severe_task" "TASK_TOP_ISSUE severe_task many_tasks"
    by (simp_all add: TASK_TOP_ISSUE_def many_tasks_def severe_task_def)
  have 2: "map_option (\<lambda>q. vecq q) (push_all [many_tasks, severe_task] nine_tasks) = Some (severe_task # replicate 9 worst_task)"
    by code_simp
  have 3: "map_option (\<lambda>q. vecq q) (push_all [severe_task, many_tasks] nine_tasks) = Some (many_tasks # replicate 9 worst_task)"
    by code_simp
  show ?thesis
    using 1 2 3 strict_weak.asym [of TASK_TOP_ISSUE many_tasks severe_task] by auto
qed

end
