(* ===== verification/Gy_Histogram.thy ===== *)
theory Gy_Histogram
  imports Gy_Prelude
begin

text \<open>
  The histograms of \<open>common/gy_statistics.h\<close>: the hash classes that find the bucket of a value, the
  threshold of a bucket, \<open>GY_HISTOGRAM\<close> with insertion, percentiles, merging and serialisation, and
  the history of \<open>GY_HISTOGRAM_DATA\<close>. Values are \<open>int\<close>s of the signed type \<open>T\<close> of \<open>tbits\<close> bits, counts
  and sums are 64 bit words that wrap.

  The number of values that a percentile stands for is computed in floating point arithmetic
  (\<open>total_count * (percentile / 100)\<close>); it is an argument of \<open>get_percentiles\<close> here, and so are the
  clocks. The average and the printing functions are not modelled.
\<close>

section \<open>Hash classes\<close>

text \<open>A class with thresholds. \<open>arg_bits\<close> is the width of the parameter of its \<open>operator()\<close>, to which the
  argument is converted.\<close>

record HASH_CLASS =
  nthresholds :: "int list"
  min_value :: int
  arg_bits :: nat

definition max_value :: "HASH_CLASS \<Rightarrow> int" where
  "max_value c = last (nthresholds c) + 1"

definition max_buckets :: "HASH_CLASS \<Rightarrow> nat" where
  "max_buckets c = length (nthresholds c) + 2"

definition mid_slot_num :: "HASH_CLASS \<Rightarrow> nat" where
  "mid_slot_num c = length (nthresholds c) div 2"

definition mid_slot_value :: "HASH_CLASS \<Rightarrow> int" where
  "mid_slot_value c = nthresholds c ! mid_slot_num c"

function hash_loop :: "int list \<Rightarrow> nat \<Rightarrow> int \<Rightarrow> nat" where
  "hash_loop thr nb data =
     (if nb < length thr then
        if data \<le> thr ! nb then nb + 1 else hash_loop thr (nb + 1) data
      else nb + 1)"
  by pat_completeness auto
termination
  by (relation "measure (\<lambda>(thr, nb, _). length thr - nb)") auto

declare hash_loop.simps [simp del]

definition get_bucket_from_data :: "HASH_CLASS \<Rightarrow> int \<Rightarrow> nat" where
  "get_bucket_from_data c data =
     (if data < min_value c then 0
      else if data \<ge> max_value c then max_buckets c - 1
      else hash_loop (nthresholds c) (if data \<ge> mid_slot_value c then mid_slot_num c else 0) data)"

text \<open>\<open>RESP_TIME_HASH\<close> finds both ends with one unsigned comparison first.\<close>

definition resp_bucket_from_data :: "HASH_CLASS \<Rightarrow> int \<Rightarrow> nat" where
  "resp_bucket_from_data c data =
     (if data mod 2 ^ 64 \<ge> max_value c \<and> data < min_value c then 0
      else if data mod 2 ^ 64 \<ge> max_value c \<and> data \<ge> max_value c then max_buckets c - 1
      else hash_loop (nthresholds c) (if data \<ge> mid_slot_value c then mid_slot_num c else 0) data)"

text \<open>\<open>FIXED_DIFF_HASH\<close> computes its thresholds and divides.\<close>

definition gy_div_round_up :: "int \<Rightarrow> int \<Rightarrow> int" where
  "gy_div_round_up v d = v div d + (if v mod d \<noteq> 0 then 1 else 0)"

definition gy_create_threshold_array :: "nat \<Rightarrow> int \<Rightarrow> int \<Rightarrow> int \<Rightarrow> int list" where
  "gy_create_threshold_array nb tmin tmax tdiff =
     map (\<lambda>i. if i = nb - 1 then tmax else tmin + (int i + 1) * tdiff - 1) [0..<nb]"

definition FIXED_DIFF_HASH :: "int \<Rightarrow> int \<Rightarrow> int \<Rightarrow> nat \<Rightarrow> HASH_CLASS" where
  "FIXED_DIFF_HASH tmin tmax tdiff bits =
     \<lparr> nthresholds = gy_create_threshold_array (nat (gy_div_round_up (tmax - tmin + 1) tdiff)) tmin tmax tdiff,
       min_value = tmin, arg_bits = bits \<rparr>"

definition fixed_diff_bucket :: "HASH_CLASS \<Rightarrow> int \<Rightarrow> int \<Rightarrow> nat" where
  "fixed_diff_bucket c tdiff data =
     (if data < min_value c then 0
      else if data \<ge> max_value c then max_buckets c - 1
      else 1 + nat ((data - min_value c) div tdiff))"

definition PERCENT_HASH :: HASH_CLASS where
  "PERCENT_HASH = FIXED_DIFF_HASH 0 100 10 64"

definition RESP_TIME_HASH :: HASH_CLASS where
  "RESP_TIME_HASH = \<lparr> nthresholds = [1, 10, 30, 60, 100, 150, 200, 300, 450, 700, 1000, 3000, 15000],
     min_value = 0, arg_bits = 64 \<rparr>"

definition SEMI_LOG_HASH :: HASH_CLASS where
  "SEMI_LOG_HASH = \<lparr> nthresholds = [1, 10, 100, 500, 1000, 5000, 25000, 50000, 100000, 300000, 1000000, 5000000],
     min_value = 0, arg_bits = 32 \<rparr>"

definition SEMI_LOG_HASH_LO :: HASH_CLASS where
  "SEMI_LOG_HASH_LO = \<lparr> nthresholds = [1, 10, 50, 200, 500, 1000, 3000, 6000, 10000, 15000, 25000, 60000, 150000],
     min_value = 0, arg_bits = 32 \<rparr>"

definition DURATION_HASH :: HASH_CLASS where
  "DURATION_HASH = \<lparr> nthresholds = [1, 10, 25, 50, 125, 400, 1000, 3000, 6000, 10000, 25000, 40000, 65000],
     min_value = 0, arg_bits = 32 \<rparr>"

definition HASH_10_5000 :: HASH_CLASS where
  "HASH_10_5000 = \<lparr> nthresholds = [10, 25, 50, 75, 100, 150, 300, 500, 800, 1000, 2000, 5000],
     min_value = 0, arg_bits = 32 \<rparr>"

definition HASH_5_250 :: HASH_CLASS where
  "HASH_5_250 = \<lparr> nthresholds = [5, 10, 20, 40, 60, 80, 100, 140, 200, 250],
     min_value = 0, arg_bits = 32 \<rparr>"

definition HASH_1_3000 :: HASH_CLASS where
  "HASH_1_3000 = \<lparr> nthresholds = [1, 5, 10, 25, 50, 75, 100, 150, 300, 500, 1000, 3000],
     min_value = 0, arg_bits = 32 \<rparr>"

text \<open>\<open>operator()\<close>: the conversion of the argument, then the search.\<close>

definition hash_data :: "HASH_CLASS \<Rightarrow> int \<Rightarrow> nat" where
  "hash_data c data = get_bucket_from_data c (signed_take_bit (arg_bits c - 1) data)"

section \<open>Thresholds\<close>

definition get_bucket_max_threshold :: "nat \<Rightarrow> HASH_CLASS \<Rightarrow> nat \<Rightarrow> int" where
  "get_bucket_max_threshold tbits c i =
     (if i = 0 then min_value c - 1
      else if i \<ge> max_buckets c - 1 then
        (let maxt = 2 ^ (tbits - 1) - 1;
             lesst = (if max_value c \<ge> 2147483647 then 9223372036854775807
                      else if max_value c > 16383 then 2147483647 else 32767)
         in if lesst < maxt then lesst else maxt)
      else nthresholds c ! (i - 1))"

fun threshold_index :: "int list \<Rightarrow> nat \<Rightarrow> int \<Rightarrow> nat option" where
  "threshold_index [] i t = None"
| "threshold_index (x # xs) i t = (if t = x then Some (i + 1) else threshold_index xs (i + 1) t)"

definition get_bucketid_from_threshold :: "HASH_CLASS \<Rightarrow> int \<Rightarrow> nat" where
  "get_bucketid_from_threshold c t = (case threshold_index (nthresholds c) 0 t of
       Some i \<Rightarrow> i
     | None \<Rightarrow> if t < min_value c then 0 else max_buckets c - 1)"

section \<open>\<open>GY_HISTOGRAM\<close>\<close>

record HIST_SERIAL =
  hs_count :: "64 word"
  hs_sum :: "64 word"

definition serial_add :: "int \<Rightarrow> HIST_SERIAL \<Rightarrow> HIST_SERIAL" where
  "serial_add data s = \<lparr> hs_count = hs_count s + 1, hs_sum = hs_sum s + of_int data \<rparr>"

record GY_HISTOGRAM =
  end_clock_sec :: "64 word"
  stats :: "HIST_SERIAL list"
  total_count :: "64 word"
  max_val_seen :: int
  start_clock_sec :: "64 word"

definition new_histogram :: "nat \<Rightarrow> HASH_CLASS \<Rightarrow> 64 word \<Rightarrow> GY_HISTOGRAM" where
  "new_histogram tbits c start = \<lparr> end_clock_sec = start,
     stats = replicate (max_buckets c) \<lparr> hs_count = 0, hs_sum = 0 \<rparr>, total_count = 0,
     max_val_seen = - (2 ^ (tbits - 1)), start_clock_sec = start \<rparr>"

text \<open>\<open>add_data\<close>; \<open>bucketid\<close> is the bucket if the caller knows it, \<open>~0u\<close> otherwise. A bucket that is out of
  range fails the assertion. A clock of 0 leaves the time of the last addition as it is.\<close>

definition NO_BUCKET :: nat where
  "NO_BUCKET = 4294967295"

definition add_data ::
  "(int \<Rightarrow> nat) \<Rightarrow> int \<Rightarrow> 64 word \<Rightarrow> nat \<Rightarrow> GY_HISTOGRAM \<Rightarrow> (nat \<times> GY_HISTOGRAM) option" where
  "add_data hash data curr_clock_sec bucketid g =
     (let bucket = (if bucketid = NO_BUCKET then hash data else bucketid) in
      if bucket < length (stats g) then Some (bucket, g\<lparr>
        stats := (stats g)[bucket := serial_add data (stats g ! bucket)],
        total_count := total_count g + 1,
        max_val_seen := (if max_val_seen g < data then data else max_val_seen g),
        end_clock_sec := (if curr_clock_sec \<noteq> 0 then curr_clock_sec else end_clock_sec g) \<rparr>)
      else None)"

definition update_from_serialized ::
  "HIST_SERIAL list \<Rightarrow> 64 word \<Rightarrow> int \<Rightarrow> 64 word \<Rightarrow> 64 word \<Rightarrow> GY_HISTOGRAM \<Rightarrow> GY_HISTOGRAM" where
  "update_from_serialized arr tot mx end_clock start_clock g = g\<lparr>
     stats := map2 (\<lambda>s a. \<lparr> hs_count = hs_count s + hs_count a, hs_sum = hs_sum s + hs_sum a \<rparr>) (stats g) arr,
     total_count := total_count g + tot,
     max_val_seen := (if max_val_seen g < mx then mx else max_val_seen g),
     end_clock_sec := (if end_clock_sec g > end_clock then end_clock else end_clock_sec g),
     start_clock_sec := (if start_clock_sec g < start_clock then start_clock else start_clock_sec g) \<rparr>"

definition get_serialized :: "GY_HISTOGRAM \<Rightarrow> HIST_SERIAL list \<times> 64 word \<times> int \<times> 64 word \<times> 64 word" where
  "get_serialized g = (stats g, total_count g, max_val_seen g, end_clock_sec g, start_clock_sec g)"

definition add_histogram :: "GY_HISTOGRAM \<Rightarrow> GY_HISTOGRAM \<Rightarrow> GY_HISTOGRAM" where
  "add_histogram t g =
     update_from_serialized (stats t) (total_count t) (max_val_seen t) (end_clock_sec t) (start_clock_sec t) g"

definition clear :: "nat \<Rightarrow> GY_HISTOGRAM \<Rightarrow> GY_HISTOGRAM" where
  "clear tbits g = g\<lparr> stats := replicate (length (stats g)) \<lparr> hs_count = 0, hs_sum = 0 \<rparr>,
     end_clock_sec := start_clock_sec g, total_count := 0, max_val_seen := - (2 ^ (tbits - 1)) \<rparr>"

definition get_start_end_time :: "GY_HISTOGRAM \<Rightarrow> 64 word \<times> 64 word" where
  "get_start_end_time g = (start_clock_sec g,
     if end_clock_sec g \<ge> start_clock_sec g then end_clock_sec g else start_clock_sec g)"

text \<open>The search of \<open>get_percentiles\<close> for the first bucket at which the running total reaches the cutoff.\<close>

fun pct_loop :: "HIST_SERIAL list \<Rightarrow> nat \<Rightarrow> 64 word \<Rightarrow> 64 word \<Rightarrow> 64 word \<Rightarrow> nat option \<times> 64 word \<times> 64 word" where
  "pct_loop [] i tot sm ncutoff = (None, tot, sm)"
| "pct_loop (s # ss) i tot sm ncutoff =
     (let tot' = tot + hs_count s; sm' = sm + hs_sum s
      in if tot' \<ge> ncutoff then (Some i, tot', sm') else pct_loop ss (i + 1) tot' sm' ncutoff)"

record HIST_DATA =
  data_value :: int
  hd_sum :: "64 word"
  hd_count :: "64 word"

text \<open>The threshold is of type \<open>int64_t\<close> and is converted to \<open>T\<close>.\<close>

definition percentile_one :: "nat \<Rightarrow> HASH_CLASS \<Rightarrow> GY_HISTOGRAM \<Rightarrow> 64 word \<Rightarrow> HIST_DATA" where
  "percentile_one tbits c g ncutoff =
     (let value = (\<lambda>i. signed_take_bit (tbits - 1) (get_bucket_max_threshold tbits c i)) in
      case pct_loop (stats g) 0 0 0 ncutoff of
       (Some i, tot, sm) \<Rightarrow> \<lparr> data_value = value i, hd_sum = sm, hd_count = tot \<rparr>
     | (None, tot, sm) \<Rightarrow>
         \<lparr> data_value = value (if total_count g > 0 then length (stats g) else 0),
           hd_sum = sm, hd_count = tot \<rparr>)"

definition get_percentiles ::
  "nat \<Rightarrow> HASH_CLASS \<Rightarrow> (64 word \<Rightarrow> 'p \<Rightarrow> 64 word) \<Rightarrow> 'p list \<Rightarrow> GY_HISTOGRAM \<Rightarrow>
   64 word \<times> int \<times> HIST_DATA list" where
  "get_percentiles tbits c cutoff pcts g = (total_count g, max_val_seen g,
     map (\<lambda>p. percentile_one tbits c g (cutoff (total_count g) p)) pcts)"

section \<open>\<open>GY_HISTOGRAM_DATA\<close>\<close>

record GY_HISTOGRAM_DATA =
  histogram :: GY_HISTOGRAM
  datahist :: "int list"
  buckethist :: "nat list"
  curridx :: nat

definition new_histogram_data :: "nat \<Rightarrow> HASH_CLASS \<Rightarrow> nat \<Rightarrow> 64 word \<Rightarrow> GY_HISTOGRAM_DATA" where
  "new_histogram_data tbits c nhistory start = \<lparr> histogram = new_histogram tbits c start,
     datahist = replicate nhistory 0, buckethist = replicate nhistory 0, curridx = 0 \<rparr>"

definition add_data_hist ::
  "(int \<Rightarrow> nat) \<Rightarrow> int \<Rightarrow> 64 word \<Rightarrow> nat \<Rightarrow> GY_HISTOGRAM_DATA \<Rightarrow> (nat \<times> GY_HISTOGRAM_DATA) option" where
  "add_data_hist hash data curr_clock_sec bucketid d =
     (let nhistory = length (datahist d); idx = curridx d mod nhistory;
          c1 = (curridx d + 1) mod 256; c2 = (if c1 \<ge> nhistory then 0 else c1) in do {
        (bucket, g) \<leftarrow> add_data hash data curr_clock_sec bucketid (histogram d);
        let cid = bucket mod (if length (stats (histogram d)) < 256 then 256 else 65536) in
        Some (cid, d\<lparr> histogram := g, datahist := (datahist d)[idx := data],
          buckethist := (buckethist d)[idx := cid], curridx := c2 \<rparr>)
      })"

text \<open>A loop of \<open>get_history\<close>: from the index \<open>i\<close> down to \<open>stop\<close>. The first runs from \<open>cid - 1\<close> down to 0, the
  second from the end down to \<open>cid\<close>.\<close>

function history_loop :: "int list \<Rightarrow> int \<Rightarrow> int \<Rightarrow> int list" where
  "history_loop dh i stop = (if i \<ge> stop then dh ! nat i # history_loop dh (i - 1) stop else [])"
  by pat_completeness auto
termination
  by (relation "measure (\<lambda>(_, i, stop). nat (i - stop + 1))") auto

declare history_loop.simps [simp del]

definition get_history :: "GY_HISTOGRAM_DATA \<Rightarrow> int list" where
  "get_history d = history_loop (datahist d) (int (curridx d) - 1) 0 @
     history_loop (datahist d) (int (length (datahist d)) - 1) (int (curridx d))"

section \<open>\<open>TIME_HIST_CACHE\<close>\<close>

text \<open>The cache in front of a \<open>TIME_HISTOGRAM\<close>. What it hands over to \<open>add_histogram_data\<close>, a second and
  the data collected in that second, is kept as the list of these calls.\<close>

record TIME_HIST_CACHE =
  cache :: "HIST_SERIAL list"
  tcurrbucket :: int
  flushed :: "(int \<times> HIST_SERIAL list) list"

definition new_cache :: "HASH_CLASS \<Rightarrow> int \<Rightarrow> TIME_HIST_CACHE" where
  "new_cache c tnow = \<lparr> cache = replicate (max_buckets c) \<lparr> hs_count = 0, hs_sum = 0 \<rparr>,
     tcurrbucket = tnow, flushed = [] \<rparr>"

definition flush_to_histogram :: "TIME_HIST_CACHE \<Rightarrow> TIME_HIST_CACHE" where
  "flush_to_histogram h = h\<lparr> cache := replicate (length (cache h)) \<lparr> hs_count = 0, hs_sum = 0 \<rparr>,
     flushed := flushed h @ [(tcurrbucket h, cache h)] \<rparr>"

definition add_cache :: "(int \<Rightarrow> nat) \<Rightarrow> int \<Rightarrow> int \<Rightarrow> TIME_HIST_CACHE \<Rightarrow> (nat \<times> TIME_HIST_CACHE) option" where
  "add_cache hash data tnow h =
     (let bucket = hash data in
      if bucket < length (cache h) then
        let h1 = (if tnow \<noteq> tcurrbucket h then (flush_to_histogram h)\<lparr> tcurrbucket := tnow \<rparr> else h)
        in Some (bucket, h1\<lparr> cache := (cache h1)[bucket := serial_add data (cache h1 ! bucket)] \<rparr>)
      else None)"

section \<open>The bucket of a value\<close>

text \<open>The classes of the sources, what is required of a class, and the bucket of a value as a count: bucket
  0 holds what is below the minimum, the others start behind the thresholds that are below the value.\<close>

definition hist_classes :: "HASH_CLASS list" where
  "hist_classes = [RESP_TIME_HASH, SEMI_LOG_HASH, SEMI_LOG_HASH_LO, DURATION_HASH, HASH_10_5000, HASH_5_250,
     HASH_1_3000, PERCENT_HASH]"

definition hash_ok :: "HASH_CLASS \<Rightarrow> bool" where
  "hash_ok c \<longleftrightarrow> sorted_wrt (<) (nthresholds c) \<and> nthresholds c \<noteq> [] \<and> min_value c \<le> hd (nthresholds c) \<and>
     0 < arg_bits c"

definition bucket_spec :: "HASH_CLASS \<Rightarrow> int \<Rightarrow> nat" where
  "bucket_spec c d = (if d < min_value c then 0 else 1 + length (filter (\<lambda>t. t < d) (nthresholds c)))"

definition in_range :: "nat \<Rightarrow> int \<Rightarrow> bool" where
  "in_range bits d \<longleftrightarrow> - (2 ^ (bits - 1)) \<le> d \<and> d < 2 ^ (bits - 1)"

lemmas class_defs = RESP_TIME_HASH_def SEMI_LOG_HASH_def SEMI_LOG_HASH_LO_def DURATION_HASH_def
  HASH_10_5000_def HASH_5_250_def HASH_1_3000_def PERCENT_HASH_def FIXED_DIFF_HASH_def

lemma PERCENT_HASH_thresholds:
  "PERCENT_HASH = \<lparr> nthresholds = [9, 19, 29, 39, 49, 59, 69, 79, 89, 99, 100], min_value = 0, arg_bits = 64 \<rparr>"
  by code_simp

lemma hist_classes_ok: "list_all hash_ok hist_classes"
  unfolding hist_classes_def PERCENT_HASH_thresholds by (simp add: hash_ok_def class_defs)

lemma filter_less_prefix:
  fixes d :: int
  assumes "sorted_wrt (<) thr" "n \<le> length thr" "\<forall>i<n. thr ! i < d" "n < length thr \<longrightarrow> d \<le> thr ! n"
  shows "filter (\<lambda>t. t < d) thr = take n thr"
proof -
  have "filter (\<lambda>t. t < d) (take n thr) = take n thr"
    using assms(2,3) by (auto simp: filter_id_conv in_set_conv_nth)
  moreover have "filter (\<lambda>t. t < d) (drop n thr) = []"
  proof -
    have "d \<le> thr ! (n + i)" if "n + i < length thr" for i
    proof (cases i)
      case (Suc j)
      then have "thr ! n < thr ! (n + i)"
        using assms(1) that by (simp add: sorted_wrt_iff_nth_less)
      then show ?thesis using assms(4) that by simp
    qed (use assms(4) that in simp)
    then show ?thesis by (auto simp: filter_empty_conv in_set_conv_nth not_less)
  qed
  ultimately show ?thesis
    by (metis append_Nil2 append_take_drop_id filter_append)
qed

lemma hash_loop_counts:
  assumes "sorted_wrt (<) thr" "nb \<le> length thr" "\<forall>i<nb. thr ! i < d"
  shows "hash_loop thr nb d = 1 + length (filter (\<lambda>t. t < d) thr)"
  using assms
proof (induction thr nb d rule: hash_loop.induct)
  case (1 thr nb d)
  show ?case
  proof (cases "nb < length thr \<and> thr ! nb < d")
    case True
    then have "\<forall>i<nb + 1. thr ! i < d" using 1(4) by (auto simp: less_Suc_eq)
    then show ?thesis using True 1 by (simp add: hash_loop.simps [of thr nb] not_le [symmetric])
  next
    case False
    then have "filter (\<lambda>t. t < d) thr = take nb thr"
      using 1 by (intro filter_less_prefix) auto
    then show ?thesis using False 1(3) by (auto simp: hash_loop.simps [of thr nb] min_def)
  qed
qed

lemma hash_loop_mid:
  assumes "hash_ok c"
  shows "hash_loop (nthresholds c) (if data \<ge> mid_slot_value c then mid_slot_num c else 0) data
       = 1 + length (filter (\<lambda>t. t < data) (nthresholds c))"
proof (rule hash_loop_counts)
  have *: "mid_slot_num c < length (nthresholds c)"
    using assms by (cases "nthresholds c") (auto simp: hash_ok_def mid_slot_num_def)
  then show "(if data \<ge> mid_slot_value c then mid_slot_num c else 0) \<le> length (nthresholds c)" by simp
  show "\<forall>i<if data \<ge> mid_slot_value c then mid_slot_num c else 0. nthresholds c ! i < data"
    using * assms by (auto simp: hash_ok_def mid_slot_value_def sorted_wrt_iff_nth_less intro: less_le_trans)
qed (use assms in \<open>simp add: hash_ok_def\<close>)

lemma all_less_last:
  fixes thr :: "int list"
  assumes "sorted_wrt (<) thr" "thr \<noteq> []" "t \<in> set thr"
  shows "t \<le> last thr"
proof -
  obtain i where i: "i < length thr" "t = thr ! i" using assms(3) by (auto simp: in_set_conv_nth)
  show ?thesis
  proof (cases "i = length thr - 1")
    case False
    then have "thr ! i < thr ! (length thr - 1)" using assms i by (simp add: sorted_wrt_iff_nth_less)
    then show ?thesis using assms i by (simp add: last_conv_nth)
  qed (use assms i in \<open>simp add: last_conv_nth\<close>)
qed

lemma bucket_above:
  assumes "hash_ok c" "max_value c \<le> d"
  shows "length (filter (\<lambda>t. t < d) (nthresholds c)) = length (nthresholds c)" "min_value c \<le> d"
proof -
  have *: "\<forall>t\<in>set (nthresholds c). t < d"
    using assms all_less_last [of "nthresholds c"] by (force simp: hash_ok_def max_value_def)
  then show "length (filter (\<lambda>t. t < d) (nthresholds c)) = length (nthresholds c)"
    by (simp add: filter_id_conv)
  show "min_value c \<le> d"
    using assms(1) * by (cases "nthresholds c") (auto simp: hash_ok_def)
qed

lemma get_bucket_from_data_spec:
  assumes "hash_ok c"
  shows "get_bucket_from_data c d = bucket_spec c d"
  using assms bucket_above [OF assms, of d]
  by (auto simp: get_bucket_from_data_def bucket_spec_def hash_loop_mid max_buckets_def)

lemma resp_bucket_from_data_spec:
  assumes "hash_ok c" "min_value c = 0" "in_range 64 d" "max_value c \<le> 2 ^ 63"
  shows "resp_bucket_from_data c d = bucket_spec c d"
proof -
  have "d mod 2 ^ 64 \<ge> max_value c" if "d < min_value c \<or> d \<ge> max_value c"
  proof (cases "d < 0")
    case True
    have "d mod 2 ^ 64 = (d + 2 ^ 64) mod 2 ^ 64" by simp
    also have "\<dots> = d + 2 ^ 64" using True assms(3) by (intro mod_pos_pos_trivial) (auto simp: in_range_def)
    finally show ?thesis using assms(3,4) by (simp add: in_range_def)
  next
    case False
    then have "d mod 2 ^ 64 = d" using assms(3) by (intro mod_pos_pos_trivial) (auto simp: in_range_def)
    then show ?thesis using False that assms(2) by simp
  qed
  note far = this
  show ?thesis
  proof (cases "d < min_value c \<or> d \<ge> max_value c")
    case True
    then show ?thesis
      using far [OF True] bucket_above [OF assms(1), of d]
      by (cases "d < min_value c") (simp_all add: resp_bucket_from_data_def bucket_spec_def max_buckets_def del: power_numeral)
  next
    case False
    then show ?thesis using hash_loop_mid [OF assms(1), of d]
      by (simp add: resp_bucket_from_data_def bucket_spec_def del: power_numeral)
  qed
qed

lemma fixed_diff_bucket_spec:
  "fixed_diff_bucket PERCENT_HASH 10 d = bucket_spec PERCENT_HASH d"
proof (cases "0 \<le> d \<and> d \<le> 100")
  case True
  then have "d \<in> set [0..100]" by simp
  moreover have "\<forall>d\<in>set [0..100]. fixed_diff_bucket PERCENT_HASH 10 d = bucket_spec PERCENT_HASH d"
    by code_simp
  ultimately show ?thesis by blast
next
  case False
  then show ?thesis
    by (auto simp: PERCENT_HASH_thresholds fixed_diff_bucket_def bucket_spec_def max_value_def max_buckets_def)
qed

lemma hash_data_spec:
  assumes "hash_ok c" "in_range (arg_bits c) d"
  shows "hash_data c d = bucket_spec c d"
proof -
  have "signed_take_bit (arg_bits c - 1) d = d"
    using assms(2) by (simp add: in_range_def signed_take_bit_int_eq_self_iff)
  then show ?thesis using assms(1) by (simp add: hash_data_def get_bucket_from_data_spec)
qed

lemma bucket_spec_less:
  "bucket_spec c d < max_buckets c"
  by (simp add: bucket_spec_def max_buckets_def less_Suc_eq_le)

lemma hash_data_less:
  assumes "hash_ok c"
  shows "hash_data c d < max_buckets c"
  by (simp add: hash_data_def get_bucket_from_data_spec [OF assms] bucket_spec_less)

lemma filter_count_le_iff:
  fixes d :: int
  assumes "sorted_wrt (<) thr" "k < length thr"
  shows "length (filter (\<lambda>t. t < d) thr) \<le> k \<longleftrightarrow> d \<le> thr ! k"
  using assms
proof (induction thr arbitrary: k)
  case (Cons x xs)
  show ?case
  proof (cases "x < d")
    case True
    then show ?thesis using Cons by (cases k) auto
  next
    case False
    then have "filter (\<lambda>t. t < d) (x # xs) = []" using Cons.prems(1) by (auto simp: filter_empty_conv)
    moreover have "x \<le> (x # xs) ! k"
      using Cons.prems by (cases k) (auto simp: less_imp_le)
    ultimately show ?thesis using False by simp
  qed
qed simp

text \<open>The threshold of a bucket before the last one bounds what is in it and in those before it.\<close>

lemma bucket_le_iff:
  assumes c: "hash_ok c" and i: "i < max_buckets c - 1"
  shows "bucket_spec c d \<le> i \<longleftrightarrow> d \<le> get_bucket_max_threshold tbits c i"
proof -
  consider (1) "i = 0" | (3) "0 < i" "i - 1 < length (nthresholds c)"
    using i by (force simp: max_buckets_def)
  then show ?thesis
  proof cases
    case 1
    then show ?thesis by (auto simp: bucket_spec_def get_bucket_max_threshold_def)
  next
    case 3
    let ?thr = "nthresholds c" and ?k = "i - 1"
    have srt: "sorted_wrt (<) ?thr" and mn: "min_value c \<le> ?thr ! 0"
      using c by (auto simp: hash_ok_def hd_conv_nth)
    have mk: "min_value c \<le> ?thr ! ?k"
    proof (cases "?k = 0")
      case False
      then have "?thr ! 0 < ?thr ! ?k" using srt 3 by (simp add: sorted_wrt_iff_nth_less)
      then show ?thesis using mn by simp
    qed (use mn in simp)
    have "length (filter (\<lambda>t. t < d) ?thr) \<le> ?k \<longleftrightarrow> d \<le> ?thr ! ?k"
      by (rule filter_count_le_iff [OF srt 3(2)])
    moreover have "get_bucket_max_threshold tbits c i = ?thr ! ?k"
      using 3 i by (auto simp: get_bucket_max_threshold_def max_buckets_def)
    ultimately show ?thesis using 3 mk by (cases i) (auto simp: bucket_spec_def)
  qed
qed

section \<open>The contents of a histogram\<close>

definition serial_of :: "int list \<Rightarrow> HIST_SERIAL" where
  "serial_of ds = \<lparr> hs_count = of_nat (length ds), hs_sum = of_int (sum_list ds) \<rparr>"

definition buckets_of :: "(int \<Rightarrow> nat) \<Rightarrow> nat \<Rightarrow> int list \<Rightarrow> HIST_SERIAL list" where
  "buckets_of hash nb ds = map (\<lambda>b. serial_of (filter (\<lambda>d. hash d = b) ds)) [0..<nb]"

definition last_clock :: "64 word \<Rightarrow> (int \<times> 64 word) list \<Rightarrow> 64 word" where
  "last_clock start xs = last (start # filter (\<lambda>t. t \<noteq> 0) (map snd xs))"

definition max_of :: "int \<Rightarrow> int list \<Rightarrow> int" where
  "max_of m ds = foldl max m ds"

text \<open>The histogram that holds the values \<open>xs\<close>, each with the clock at its addition.\<close>

definition hist_of :: "(int \<Rightarrow> nat) \<Rightarrow> nat \<Rightarrow> nat \<Rightarrow> 64 word \<Rightarrow> (int \<times> 64 word) list \<Rightarrow> GY_HISTOGRAM" where
  "hist_of hash tbits nb start xs = \<lparr> end_clock_sec = last_clock start xs,
     stats = buckets_of hash nb (map fst xs), total_count = of_nat (length xs),
     max_val_seen = max_of (- (2 ^ (tbits - 1))) (map fst xs), start_clock_sec = start \<rparr>"

primrec add_all :: "(int \<Rightarrow> nat) \<Rightarrow> (int \<times> 64 word) list \<Rightarrow> GY_HISTOGRAM \<Rightarrow> GY_HISTOGRAM option" where
  "add_all hash [] g = Some g"
| "add_all hash (x # xs) g = (case add_data hash (fst x) (snd x) NO_BUCKET g of
       None \<Rightarrow> None
     | Some (_, g') \<Rightarrow> add_all hash xs g')"

lemma buckets_of_Nil: "buckets_of hash nb [] = replicate nb \<lparr> hs_count = 0, hs_sum = 0 \<rparr>"
  by (simp add: buckets_of_def serial_of_def map_replicate_const)

lemma length_buckets_of [simp]: "length (buckets_of hash nb ds) = nb"
  by (simp add: buckets_of_def)

lemma buckets_of_snoc:
  assumes "hash d < nb"
  shows "(buckets_of hash nb ds)[hash d := serial_add d (buckets_of hash nb ds ! hash d)]
       = buckets_of hash nb (ds @ [d])"
  using assms
  by (intro nth_equalityI) (auto simp: buckets_of_def serial_of_def serial_add_def nth_list_update)

lemma buckets_of_append:
  "map2 (\<lambda>s a. \<lparr> hs_count = hs_count s + hs_count a, hs_sum = hs_sum s + hs_sum a \<rparr>)
     (buckets_of hash nb ds) (buckets_of hash nb es) = buckets_of hash nb (ds @ es)"
  by (intro nth_equalityI) (auto simp: buckets_of_def serial_of_def)

lemma new_histogram_is: "new_histogram tbits c start = hist_of hash tbits (max_buckets c) start []"
  by (simp add: new_histogram_def hist_of_def buckets_of_Nil last_clock_def max_of_def)

lemma max_of_ge: "m \<le> max_of m ds"
  unfolding max_of_def by (induction ds rule: rev_induct) auto

lemma max_of_append_max: "max_of m (ds @ es) = max (max_of m ds) (max_of m es)"
proof (induction es rule: rev_induct)
  case Nil
  then show ?case using max_of_ge [of m ds] by (simp add: max_of_def)
next
  case (snoc e es)
  then show ?case by (simp add: max_of_def max.assoc)
qed

lemma add_data_snoc:
  assumes "hash (fst x) < nb"
  shows "add_data hash (fst x) (snd x) NO_BUCKET (hist_of hash tbits nb start xs)
       = Some (hash (fst x), hist_of hash tbits nb start (xs @ [x]))"
  using assms by (simp add: add_data_def hist_of_def buckets_of_snoc last_clock_def max_of_def max_def not_less)

lemma add_all_hist:
  assumes "\<forall>x\<in>set xs. hash (fst x) < nb"
  shows "add_all hash xs (hist_of hash tbits nb start ys) = Some (hist_of hash tbits nb start (ys @ xs))"
  using assms by (induction xs arbitrary: ys) (simp_all add: add_data_snoc)

lemma add_all_new:
  assumes "hash_ok c"
  shows "add_all (hash_data c) xs (new_histogram tbits c start)
       = Some (hist_of (hash_data c) tbits (max_buckets c) start xs)"
  using add_all_hist [of xs "hash_data c" "max_buckets c" tbits start "[]"] hash_data_less [OF assms]
  by (simp add: new_histogram_is [of _ _ _ "hash_data c"])

lemma if_less_max: "(if a < b then b else a) = max a b" and if_less_min: "(if b < a then b else a) = min a b"
  for a b :: "'a :: linorder"
  by (auto simp: max_def min_def)

lemma add_histogram_of:
  "add_histogram (hist_of hash tbits nb sb ys) (hist_of hash tbits nb sa xs) =
     (hist_of hash tbits nb sa (xs @ ys))\<lparr> end_clock_sec := min (last_clock sa xs) (last_clock sb ys),
       start_clock_sec := max sa sb \<rparr>"
  by (simp add: add_histogram_def update_from_serialized_def hist_of_def buckets_of_append max_of_append_max
      if_less_max if_less_min del: if_split)

section \<open>Percentiles\<close>

abbreviation "csum ss \<equiv> sum_list (map hs_count ss)"
abbreviation "ssum ss \<equiv> sum_list (map hs_sum ss)"

lemma pct_loop_result:
  "case pct_loop ss (length pre) (csum pre) (ssum pre) nc of
     (Some j, t, s) \<Rightarrow> length pre \<le> j \<and> j < length (pre @ ss) \<and> t = csum (take (Suc j) (pre @ ss)) \<and>
        s = ssum (take (Suc j) (pre @ ss)) \<and> nc \<le> t \<and>
        (\<forall>k. length pre \<le> k \<and> k < j \<longrightarrow> csum (take (Suc k) (pre @ ss)) < nc)
   | (None, t, s) \<Rightarrow> t = csum (pre @ ss) \<and> s = ssum (pre @ ss) \<and>
        (\<forall>k. length pre \<le> k \<and> k < length (pre @ ss) \<longrightarrow> csum (take (Suc k) (pre @ ss)) < nc)"
proof (induction ss arbitrary: pre)
  case (Cons a ss)
  show ?case
  proof (cases "nc \<le> csum pre + hs_count a")
    case False
    have head: "csum (take (Suc (length pre)) (pre @ a # ss)) < nc" using False by simp
    have "csum (take (Suc k) (pre @ a # ss)) < nc"
      if "length pre \<le> k" "Suc (length pre) \<le> k \<longrightarrow> csum (take (Suc k) (pre @ a # ss)) < nc" for k
      using that head by (cases "k = length pre") auto
    then show ?thesis
      using Cons [of "pre @ [a]"] False by (auto split: option.splits prod.splits)
  next
    case True
    have "\<not> (\<exists>k. length pre \<le> k \<and> k < length pre)" by simp
    then show ?thesis using True by auto
  qed
qed auto

lemma filter_upto_Suc:
  "length (filter (\<lambda>d. hash d < Suc k) ds) = length (filter (\<lambda>d. hash d < k) ds) + length (filter (\<lambda>d. hash d = k) ds)"
  "sum_list (filter (\<lambda>d. hash d < Suc k) ds) = sum_list (filter (\<lambda>d. hash d < k) ds) + sum_list (filter (\<lambda>d. hash d = k) ds)"
  for ds :: "int list"
  by (induction ds) auto

lemma sums_buckets_of:
  assumes "k \<le> nb"
  shows "csum (take k (buckets_of hash nb ds)) = of_nat (length (filter (\<lambda>d. hash d < k) ds))"
    and "ssum (take k (buckets_of hash nb ds)) = of_int (sum_list (filter (\<lambda>d. hash d < k) ds))"
  using assms
  by (induction k) (simp_all add: take_Suc_conv_app_nth filter_upto_Suc buckets_of_def serial_of_def)

text \<open>The values that count up to a bucket: those at or below its threshold, and all values for the last bucket,
  which has no upper end.\<close>

definition up_to_bucket :: "nat \<Rightarrow> HASH_CLASS \<Rightarrow> nat \<Rightarrow> int list \<Rightarrow> int list" where
  "up_to_bucket tbits c i ds =
     (if i = max_buckets c - 1 then ds else filter (\<lambda>d. d \<le> get_bucket_max_threshold tbits c i) ds)"

text \<open>The value of a percentile is the threshold of the first bucket up to which there are as many values as the
  cutoff asks for, or of the last one (the first, if there are no values) where there are not that many; with it
  come the number and the sum of the values up to this bucket.\<close>

definition percentile_spec :: "nat \<Rightarrow> HASH_CLASS \<Rightarrow> int list \<Rightarrow> nat \<Rightarrow> HIST_DATA \<Rightarrow> bool" where
  "percentile_spec tbits c ds nc r \<longleftrightarrow>
     (\<exists>i<max_buckets c. data_value r = get_bucket_max_threshold tbits c i \<and>
        (nc \<le> length (up_to_bucket tbits c i ds) \<or> length ds < nc \<and> i = (if ds = [] then 0 else max_buckets c - 1)) \<and>
        (\<forall>k<i. length (up_to_bucket tbits c k ds) < nc) \<and>
        hd_count r = of_nat (length (up_to_bucket tbits c i ds)) \<and>
        hd_sum r = of_int (sum_list (up_to_bucket tbits c i ds)))"

lemma threshold_top: "get_bucket_max_threshold tbits c (max_buckets c) = get_bucket_max_threshold tbits c (max_buckets c - 1)"
  by (simp add: get_bucket_max_threshold_def max_buckets_def)

definition thresholds_fit :: "nat \<Rightarrow> HASH_CLASS \<Rightarrow> bool" where
  "thresholds_fit tbits c \<longleftrightarrow> (\<forall>i. in_range tbits (get_bucket_max_threshold tbits c i))"

lemma percentile_one_ok:
  assumes c: "hash_ok c" "thresholds_fit tbits c" and ds: "\<forall>d\<in>set ds. in_range (arg_bits c) d"
      and len: "length ds < 2 ^ 64"
      and g: "stats g = buckets_of (hash_data c) (max_buckets c) ds" "total_count g = of_nat (length ds)"
  shows "percentile_spec tbits c ds (unat nc) (percentile_one tbits c g nc)"
proof -
  let ?nb = "max_buckets c" and ?T = "get_bucket_max_threshold tbits c" and ?U = "\<lambda>k. up_to_bucket tbits c k ds"
  let ?B = "buckets_of (hash_data c) ?nb ds"
  have nb: "0 < ?nb" by (simp add: max_buckets_def)
  have flt: "filter (\<lambda>d. hash_data c d < Suc k) ds = ?U k" if "k < ?nb" for k
  proof (cases "k = ?nb - 1")
    case True
    then show ?thesis using hash_data_less [OF c(1)] nb by (simp add: up_to_bucket_def)
  next
    case False
    then have "k < ?nb - 1" using that by simp
    then show ?thesis using ds False bucket_le_iff [OF c(1), of k _ tbits] unfolding up_to_bucket_def
      by (simp, intro filter_cong) (auto simp: hash_data_spec [OF c(1)] less_Suc_eq_le)
  qed
  have val: "signed_take_bit (tbits - Suc 0) (?T i) = ?T i" for i
    using c(2) by (simp add: thresholds_fit_def in_range_def signed_take_bit_int_eq_self_iff)
  have lt: "unat (of_nat (length (?U k)) :: 64 word) = length (?U k)" "length (?U k) \<le> length ds" for k
    using le_less_trans [OF length_filter_le len] len
    by (auto simp: up_to_bucket_def unat_of_nat take_bit_nat_eq_self)
  have sums: "csum (take (Suc k) ?B) = of_nat (length (?U k))"
      "ssum (take (Suc k) ?B) = of_int (sum_list (?U k))" if "k < ?nb" for k
    using that sums_buckets_of [of "Suc k" ?nb "hash_data c" ds] by (simp_all add: flt)
  have all: "?U (?nb - 1) = ds" by (simp add: up_to_bucket_def)
  obtain r t s where r: "pct_loop ?B 0 0 0 nc = (r, t, s)" by (cases "pct_loop ?B 0 0 0 nc")
  note res = pct_loop_result [where ss = ?B and pre = "[]" and nc = nc, simplified, unfolded r, simplified]
  show ?thesis
  proof (cases r)
    case (Some j)
    then have j: "j < ?nb" "t = csum (take (Suc j) ?B)" "s = ssum (take (Suc j) ?B)" "nc \<le> t"
      and below: "\<forall>k<j. csum (take (Suc k) ?B) < nc" using res by auto
    have "length (?U k) < unat nc" if "k < j" for k
      using below that j(1) sums(1) [of k] lt by (auto simp: word_less_nat_alt)
    moreover have "unat nc \<le> length (?U j)" using j sums(1) [OF j(1)] lt by (simp add: word_le_nat_alt)
    ultimately show ?thesis
      using j sums [OF j(1)] r Some by (auto simp: percentile_spec_def percentile_one_def g val)
  next
    case None
    then have n: "t = csum ?B" "s = ssum ?B" and below: "\<forall>k<?nb. csum (take (Suc k) ?B) < nc" using res by simp_all
    have ts: "t = of_nat (length ds)" "s = of_int (sum_list ds)"
      using sums [of "?nb - 1"] nb all n by simp_all
    have cnt: "length (?U k) < unat nc" if "k < ?nb" for k
      using below that sums(1) [of k] lt by (auto simp: word_less_nat_alt)
    have tc: "(of_nat (length ds) :: 64 word) > 0 \<longleftrightarrow> ds \<noteq> []"
      using lt(1) [of "?nb - 1"] all by (auto simp: word_less_nat_alt)
    have "unat nc > length ds" using cnt [of "?nb - 1"] nb by (simp only: all)
    moreover have "?U 0 = []" if "ds = []" using that by (simp add: up_to_bucket_def)
    ultimately show ?thesis using r None ts nb cnt tc all
      by (cases "ds = []")
        (auto simp: percentile_spec_def percentile_one_def g val threshold_top intro!: exI [of _ "if ds = [] then 0 else ?nb - 1"])
  qed
qed

lemma hist_classes_fit:
  assumes "c \<in> set hist_classes" "tbits = 32 \<or> tbits = 64"
  shows "thresholds_fit tbits c"
proof -
  have "in_range tbits (get_bucket_max_threshold tbits c i)" if "i < length (nthresholds c) + 1" for i
  proof (cases "i = 0")
    case False
    then have "get_bucket_max_threshold tbits c i \<in> set (nthresholds c)"
      using that by (auto simp: get_bucket_max_threshold_def max_buckets_def)
    moreover have "\<forall>t\<in>set (nthresholds c). in_range 32 t"
      using assms(1) unfolding hist_classes_def PERCENT_HASH_thresholds by (auto simp: class_defs in_range_def)
    ultimately show ?thesis using assms(2) by (force simp: in_range_def)
  qed (use assms in \<open>auto simp: hist_classes_def PERCENT_HASH_thresholds class_defs in_range_def get_bucket_max_threshold_def\<close>)
  moreover have "in_range tbits (get_bucket_max_threshold tbits c i)" if "\<not> i < length (nthresholds c) + 1" for i
    using that assms(2) by (auto simp: get_bucket_max_threshold_def max_buckets_def in_range_def Let_def)
  ultimately show ?thesis unfolding thresholds_fit_def by blast
qed

section \<open>History\<close>

primrec add_all_hist :: "(int \<Rightarrow> nat) \<Rightarrow> (int \<times> 64 word) list \<Rightarrow> GY_HISTOGRAM_DATA \<Rightarrow> GY_HISTOGRAM_DATA option" where
  "add_all_hist hash [] d = Some d"
| "add_all_hist hash (x # xs) d = (case add_data_hist hash (fst x) (snd x) NO_BUCKET d of
       None \<Rightarrow> None
     | Some (_, d') \<Rightarrow> add_all_hist hash xs d')"

lemma history_loop_rev:
  assumes "0 \<le> stop" "i < int (length dh)"
  shows "history_loop dh i stop = rev (drop (nat stop) (take (nat (i + 1)) dh))"
  using assms
proof (induction dh i stop rule: history_loop.induct)
  case (1 dh i stop)
  show ?case
  proof (cases "i \<ge> stop")
    case True
    then have "nat (i + 1) = Suc (nat i)" using 1 by simp
    then have "take (nat (i + 1)) dh = take (nat i) dh @ [dh ! nat i]"
      using 1 True by (simp add: take_Suc_conv_app_nth nat_less_iff)
    then show ?thesis using True 1 by (simp add: history_loop.simps [of dh i])
  next
    case False
    then show ?thesis by (simp add: history_loop.simps [of dh i])
  qed
qed

lemma get_history_rev:
  assumes "curridx d \<le> length (datahist d)"
  shows "get_history d = rev (take (curridx d) (datahist d)) @ rev (drop (curridx d) (datahist d))"
  using assms by (cases "length (datahist d) = 0") (simp_all add: get_history_def history_loop_rev)

definition ring_ok :: "nat \<Rightarrow> GY_HISTOGRAM_DATA \<Rightarrow> bool" where
  "ring_ok n d \<longleftrightarrow> length (datahist d) = n \<and> length (buckethist d) = n \<and> curridx d < n \<and> n < 256"

lemma ring_step:
  assumes "k < length dh" "k' = (if Suc k \<ge> length dh then 0 else Suc k)"
  shows "rev (take k' (dh[k := x])) @ rev (drop k' (dh[k := x]))
       = x # butlast (rev (take k dh) @ rev (drop k dh))"
proof -
  have dk: "rev (drop k dh) = rev (drop (Suc k) dh) @ [dh ! k]"
    using assms(1) by (simp add: Cons_nth_drop_Suc [symmetric])
  show ?thesis
  proof (cases "Suc k < length dh")
    case True
    then have "take k' (dh[k := x]) = take k dh @ [x]" "drop k' (dh[k := x]) = drop (Suc k) dh"
      using assms by (simp_all add: take_Suc_conv_app_nth)
    then show ?thesis by (simp add: dk butlast_append)
  next
    case False
    then have "k' = 0" "dh[k := x] = take k dh @ [x]"
      using assms by (auto simp: upd_conv_take_nth_drop)
    then show ?thesis using False by (simp add: dk butlast_append)
  qed
qed

lemma add_data_hist_step:
  assumes "ring_ok n d" "add_data hash (fst x) (snd x) NO_BUCKET (histogram d) = Some (b, g)"
  obtains d' cid where "add_data_hist hash (fst x) (snd x) NO_BUCKET d = Some (cid, d')" "ring_ok n d'"
    "histogram d' = g" "get_history d' = fst x # butlast (get_history d)"
proof -
  let ?k' = "if Suc (curridx d) \<ge> length (datahist d) then 0 else Suc (curridx d)"
  obtain cid where step: "add_data_hist hash (fst x) (snd x) NO_BUCKET d = Some (cid,
      d\<lparr> histogram := g, datahist := (datahist d)[curridx d := fst x],
         buckethist := (buckethist d)[curridx d := cid], curridx := ?k' \<rparr>)" (is "_ = Some (_, ?d')")
    using assms by (auto simp: add_data_hist_def ring_ok_def Let_def)
  have "ring_ok n ?d'" using assms(1) by (auto simp: ring_ok_def)
  moreover have "get_history ?d' = fst x # butlast (get_history d)"
    using assms(1) ring_step [of "curridx d" "datahist d" ?k' "fst x"] by (simp add: get_history_rev ring_ok_def)
  ultimately show ?thesis using that step by simp
qed

lemma take_Cons_butlast: "0 < n \<Longrightarrow> n \<le> length l \<Longrightarrow> x # butlast (take n l) = take n (x # l)"
  by (cases n) (simp_all add: butlast_take)

lemma add_all_hist_run:
  assumes "ring_ok n d" "histogram d = hist_of hash tbits nb start ys" "\<forall>x\<in>set xs. hash (fst x) < nb"
      "get_history d = take n (rev (map fst ys) @ replicate n 0)"
  shows "\<exists>d'. add_all_hist hash xs d = Some d' \<and> histogram d' = hist_of hash tbits nb start (ys @ xs) \<and>
    get_history d' = take n (rev (map fst (ys @ xs)) @ replicate n 0)"
  using assms
proof (induction xs arbitrary: d ys)
  case (Cons x xs)
  have ad: "add_data hash (fst x) (snd x) NO_BUCKET (histogram d) = Some (hash (fst x), hist_of hash tbits nb start (ys @ [x]))"
    using Cons.prems by (simp add: add_data_snoc)
  obtain d1 cid where d1: "add_data_hist hash (fst x) (snd x) NO_BUCKET d = Some (cid, d1)" "ring_ok n d1"
    "histogram d1 = hist_of hash tbits nb start (ys @ [x])" "get_history d1 = fst x # butlast (get_history d)"
    by (rule add_data_hist_step [OF Cons.prems(1) ad])
  have n: "0 < n" using Cons.prems(1) by (simp add: ring_ok_def)
  have "get_history d1 = take n (rev (map fst (ys @ [x])) @ replicate n 0)"
    unfolding d1(4) Cons.prems(4) by (subst take_Cons_butlast) (use n in simp_all)
  from Cons.IH [OF d1(2,3) _ this] show ?case using Cons.prems(3) d1(1) by simp
qed simp

lemma new_ring:
  assumes "0 < n" "n < 256"
  shows "ring_ok n (new_histogram_data tbits c n start)"
        "get_history (new_histogram_data tbits c n start) = replicate n 0"
  using assms by (simp_all add: new_histogram_data_def ring_ok_def get_history_rev)

section \<open>The cache of a time histogram\<close>

primrec add_all_cache :: "(int \<Rightarrow> nat) \<Rightarrow> (int \<times> int) list \<Rightarrow> TIME_HIST_CACHE \<Rightarrow> TIME_HIST_CACHE option" where
  "add_all_cache hash [] h = Some h"
| "add_all_cache hash (x # xs) h = (case add_cache hash (fst x) (snd x) h of
       None \<Rightarrow> None
     | Some (_, h') \<Rightarrow> add_all_cache hash xs h')"

text \<open>What was handed over for the second \<open>t\<close>, and is still in the cache for it, by bucket.\<close>

definition held_at :: "int \<Rightarrow> nat \<Rightarrow> TIME_HIST_CACHE \<Rightarrow> HIST_SERIAL" where
  "held_at t b h =
     (let es = map (\<lambda>e. snd e ! b) (filter (\<lambda>e. fst e = t) (flushed h @ [(tcurrbucket h, cache h)]))
      in \<lparr> hs_count = csum es, hs_sum = ssum es \<rparr>)"

lemma add_cache_step:
  assumes "hash d < nb" "length (cache h) = nb"
  obtains h' where "add_cache hash d t h = Some (hash d, h')" "length (cache h') = nb" "tcurrbucket h' = t"
    "\<And>t' b. b < nb \<Longrightarrow> held_at t' b h' = (if t' = t \<and> b = hash d then serial_add d (held_at t' b h) else held_at t' b h)"
proof -
  let ?h1 = "if t \<noteq> tcurrbucket h then (flush_to_histogram h)\<lparr> tcurrbucket := t \<rparr> else h"
  let ?h' = "?h1\<lparr> cache := (cache ?h1)[hash d := serial_add d (cache ?h1 ! hash d)] \<rparr>"
  have "held_at t' b ?h1 = held_at t' b h" if "b < nb" for t' b
    using that assms by (auto simp: held_at_def flush_to_histogram_def Let_def)
  moreover have "held_at t' b ?h' = (if t' = t \<and> b = hash d then serial_add d (held_at t' b ?h1) else held_at t' b ?h1)"
    if "b < nb" for t' b
  proof -
    have "tcurrbucket ?h1 = t" "length (cache ?h1) = nb" using assms by (auto simp: flush_to_histogram_def)
    then show ?thesis using assms that
      by (auto simp: held_at_def Let_def serial_add_def nth_list_update simp del: if_split_asm)
  qed
  ultimately show ?thesis
    using assms by (intro that [of ?h']) (auto simp: add_cache_def Let_def flush_to_histogram_def)
qed

lemma add_all_cache_run:
  assumes "\<forall>x\<in>set xs. hash (fst x) < nb" "length (cache h) = nb"
      "\<forall>t. \<forall>b<nb. held_at t b h = serial_of (map fst (filter (\<lambda>x. snd x = t \<and> hash (fst x) = b) ys))"
  shows "\<exists>h'. add_all_cache hash xs h = Some h' \<and> length (cache h') = nb \<and>
     (\<forall>t. \<forall>b<nb. held_at t b h' = serial_of (map fst (filter (\<lambda>x. snd x = t \<and> hash (fst x) = b) (ys @ xs))))"
  using assms
proof (induction xs arbitrary: h ys)
  case (Cons x xs)
  have hx: "hash (fst x) < nb" using Cons.prems(1) by simp
  obtain h1 where h1: "add_cache hash (fst x) (snd x) h = Some (hash (fst x), h1)" "length (cache h1) = nb"
    "tcurrbucket h1 = snd x" "\<And>t b. b < nb \<Longrightarrow> held_at t b h1 =
       (if t = snd x \<and> b = hash (fst x) then serial_add (fst x) (held_at t b h) else held_at t b h)"
    by (rule add_cache_step [of hash "fst x", OF hx Cons.prems(2), of "snd x"]) blast
  have "\<forall>t. \<forall>b<nb. held_at t b h1 = serial_of (map fst (filter (\<lambda>x. snd x = t \<and> hash (fst x) = b) (ys @ [x])))"
    using h1(4) Cons.prems(3) by (auto simp: serial_of_def serial_add_def)
  from Cons.IH [OF _ h1(2) this] show ?case using Cons.prems(1) h1(1) by simp
qed simp

section \<open>Properties\<close>

text \<open>(C25) Every hash class of the sources finds the bucket that holds the value: bucket 0 below the minimum, and
  otherwise one more than the number of thresholds below the value. The search that starts in the middle, the single unsigned
  comparison of \<open>RESP_TIME_HASH\<close> and the division of \<open>PERCENT_HASH\<close> all compute this bucket, it is in range of
  the array of the histogram, and the threshold of a bucket leads back to the bucket.\<close>

theorem bucket_search_correct:
  assumes "c \<in> set hist_classes" "in_range (arg_bits c) d"
  shows "hash_data c d = bucket_spec c d \<and> hash_data c d < max_buckets c \<and>
    resp_bucket_from_data RESP_TIME_HASH d = bucket_spec RESP_TIME_HASH d \<and>
    fixed_diff_bucket PERCENT_HASH 10 d = bucket_spec PERCENT_HASH d \<and>
    (\<forall>i<max_buckets c. get_bucketid_from_threshold c (get_bucket_max_threshold 64 c i) = i)"
proof -
  have ok: "hash_ok c" "hash_ok RESP_TIME_HASH"
    using assms(1) hist_classes_ok by (auto simp: list_all_iff hist_classes_def)
  have "in_range 64 d"
    using assms by (auto simp: hist_classes_def class_defs in_range_def)
  moreover have "list_all (\<lambda>c. list_all (\<lambda>i. get_bucketid_from_threshold c (get_bucket_max_threshold 64 c i) = i)
      [0..<max_buckets c]) hist_classes"
    by code_simp
  ultimately show ?thesis
    using ok assms hash_data_spec [OF ok(1)] bucket_spec_less fixed_diff_bucket_spec
      resp_bucket_from_data_spec [OF ok(2)]
    by (simp add: list_all_iff RESP_TIME_HASH_def max_value_def)
qed

theorem bucket_search_correct_witness:
  "hash_data SEMI_LOG_HASH 700 = 5 \<and> bucket_spec SEMI_LOG_HASH 700 = 5"
  using bucket_search_correct [of SEMI_LOG_HASH 700]
  by (simp add: hist_classes_def in_range_def SEMI_LOG_HASH_def bucket_spec_def)

text \<open>(C24) Percentiles: after any number of additions to a new histogram of \<open>int\<close> or \<open>int64_t\<close> (fewer than \<open>2 ^ 64\<close>, of
  values that fit the argument of the hash class) no assertion has failed, the total and the maximum are those of the
  values, and for every requested percentile the result is the threshold of the first bucket up to which there are
  as many values as its cutoff demands, together with the number and the sum of the values up to this bucket: those at
  or below its threshold, but all values if it is the last bucket. So the result bounds the values it counts only if
  none is above the threshold of the last bucket.\<close>

theorem percentiles_correct:
  assumes "c \<in> set hist_classes" "tbits = 32 \<or> tbits = 64" "length xs < 2 ^ 64"
    "\<forall>x\<in>set xs. in_range (arg_bits c) (fst x)"
  shows "\<exists>g. add_all (hash_data c) xs (new_histogram tbits c start) = Some g \<and>
    (case get_percentiles tbits c cutoff ps g of (n, mx, rs) \<Rightarrow>
       unat n = length xs \<and> mx = max_of (- (2 ^ (tbits - 1))) (map fst xs) \<and> length rs = length ps \<and>
       (\<forall>i<length ps. percentile_spec tbits c (map fst xs) (unat (cutoff n (ps ! i))) (rs ! i)))"
proof -
  have ok: "hash_ok c" using assms(1) hist_classes_ok by (auto simp: list_all_iff)
  show ?thesis
    using assms(3,4) percentile_one_ok [OF ok hist_classes_fit [OF assms(1,2)], of "map fst xs"]
    by (simp add: add_all_new [OF ok] get_percentiles_def hist_of_def unat_of_nat take_bit_nat_eq_self)
qed

theorem percentiles_correct_witness:
  "\<exists>g. add_all (hash_data DURATION_HASH) [(7, 1), (30, 1), (90, 2)] (new_histogram 32 DURATION_HASH 0) = Some g \<and>
     (case get_percentiles 32 DURATION_HASH (\<lambda>n p. p) [2] g of (n, mx, rs) \<Rightarrow>
        unat n = 3 \<and> percentile_spec 32 DURATION_HASH [7, 30, 90] 2 (rs ! 0))"
  using percentiles_correct [where c = DURATION_HASH and xs = "[(7, 1), (30, 1), (90, 2)]" and tbits = 32 and start = 0
    and cutoff = "\<lambda>n p. p" and ps = "[2]"]
  by (force simp: hist_classes_def DURATION_HASH_def in_range_def)

text \<open>A value above the threshold of the last bucket: \<open>RESP_TIME_HASH\<close> reports 32767 for a single value of 40000.\<close>

lemma percentile_below_value:
  "data_value (percentile_one 64 RESP_TIME_HASH (hist_of (hash_data RESP_TIME_HASH) 64 15 0 [(40000, 0)]) 1) = 32767"
  by code_simp

text \<open>(C26) Merging: adding the histogram of the values \<open>ys\<close> to that of \<open>xs\<close> gives the counts, sums, total and maximum
  of the histogram of \<open>xs @ ys\<close>. The interval of time, however, becomes the later of the starts and the earlier of
  the ends, not the hull of the two intervals.\<close>

theorem merge_histograms:
  assumes "c \<in> set hist_classes"
  shows "\<exists>a b ab. add_all (hash_data c) xs (new_histogram tbits c sa) = Some a \<and>
    add_all (hash_data c) ys (new_histogram tbits c sb) = Some b \<and>
    add_all (hash_data c) (xs @ ys) (new_histogram tbits c sa) = Some ab \<and>
    stats (add_histogram b a) = stats ab \<and> total_count (add_histogram b a) = total_count ab \<and>
    max_val_seen (add_histogram b a) = max_val_seen ab \<and>
    start_clock_sec (add_histogram b a) = max sa sb \<and>
    end_clock_sec (add_histogram b a) = min (last_clock sa xs) (last_clock sb ys)"
proof -
  have ok: "hash_ok c" using assms(1) hist_classes_ok by (auto simp: list_all_iff)
  show ?thesis
    by (simp add: add_all_new [OF ok] add_histogram_of)
qed

theorem merge_histograms_witness:
  "\<exists>a b. add_all (hash_data HASH_5_250) [(3, 12)] (new_histogram 32 HASH_5_250 10) = Some a \<and>
     add_all (hash_data HASH_5_250) [(90, 25)] (new_histogram 32 HASH_5_250 20) = Some b \<and>
     start_clock_sec (add_histogram b a) = 20 \<and> end_clock_sec (add_histogram b a) = 12"
  using merge_histograms [of HASH_5_250 "[(3, 12)]" 32 10 "[(90, 25)]" 20]
  by (fastforce simp: hist_classes_def last_clock_def max_def min_def)

text \<open>(C28) History: a histogram with a history of \<open>n\<close> entries returns the last \<open>n\<close> values, the newest first, padded with zeros
  when there were fewer, and its histogram is that of all values.\<close>

theorem history_newest_first:
  assumes "c \<in> set hist_classes" "0 < n" "n < 256"
  shows "\<exists>d g. add_all_hist (hash_data c) xs (new_histogram_data tbits c n start) = Some d \<and>
    get_history d = take n (rev (map fst xs) @ replicate n 0) \<and>
    add_all (hash_data c) xs (new_histogram tbits c start) = Some g \<and> histogram d = g"
proof -
  have ok: "hash_ok c" using assms(1) hist_classes_ok by (auto simp: list_all_iff)
  have "histogram (new_histogram_data tbits c n start) = hist_of (hash_data c) tbits (max_buckets c) start []"
    by (simp add: new_histogram_data_def new_histogram_is [of _ _ _ "hash_data c"])
  from add_all_hist_run [OF new_ring(1) [OF assms(2,3)] this, of xs] show ?thesis
    using hash_data_less [OF ok] new_ring(2) [OF assms(2,3)] by (auto simp: add_all_new [OF ok])
qed

theorem history_newest_first_witness:
  "\<exists>d. add_all_hist (hash_data HASH_1_3000) [(4, 0), (5, 0), (6, 0)] (new_histogram_data 32 HASH_1_3000 2 0) = Some d \<and>
     get_history d = [6, 5]"
  using history_newest_first [of HASH_1_3000 2 "[(4, 0), (5, 0), (6, 0)]" 32 0]
  by (force simp: hist_classes_def numeral_2_eq_2)

text \<open>(C27) The cache in front of a time histogram loses nothing: whatever the times of the additions, what was handed over for a
  second together with what the cache still holds for it is, bucket by bucket, the number and the sum of the values
  added in that second.\<close>

theorem cache_accounts_all:
  assumes "c \<in> set hist_classes" "b < max_buckets c"
  shows "\<exists>h. add_all_cache (hash_data c) xs (new_cache c t0) = Some h \<and>
    held_at t b h = serial_of (map fst (filter (\<lambda>x. snd x = t \<and> hash_data c (fst x) = b) xs))"
proof -
  have ok: "hash_ok c" using assms(1) hist_classes_ok by (auto simp: list_all_iff)
  have "\<forall>t. \<forall>b<max_buckets c. held_at t b (new_cache c t0) = serial_of (map fst (filter (\<lambda>x. snd x = t \<and> hash_data c (fst x) = b) []))"
    by (simp add: held_at_def new_cache_def serial_of_def)
  from add_all_cache_run [OF _ _ this, of xs] show ?thesis
    using hash_data_less [OF ok] assms(2) by (fastforce simp: new_cache_def)
qed

theorem cache_accounts_all_witness:
  "\<exists>h. add_all_cache (hash_data SEMI_LOG_HASH) [(5, 1), (6, 1), (7, 2)] (new_cache SEMI_LOG_HASH 0) = Some h \<and>
     held_at 1 2 h = serial_of [5, 6]"
proof -
  have "map fst (filter (\<lambda>x. snd x = 1 \<and> hash_data SEMI_LOG_HASH (fst x) = 2) [(5, 1), (6, 1), (7, 2 :: int)]) = [5, 6]"
    by code_simp
  then show ?thesis
    using cache_accounts_all [of SEMI_LOG_HASH 2 "[(5, 1), (6, 1), (7, 2)]" 0 1]
    by (simp add: hist_classes_def max_buckets_def SEMI_LOG_HASH_def)
qed

text \<open>A 64 bit value is cut to \<open>int\<close> by the hash classes other than \<open>RESP_TIME_HASH\<close> and \<open>PERCENT_HASH\<close>: a large one
  counts in the bucket of its low half.\<close>

lemma hash_data_cuts: "hash_data SEMI_LOG_HASH 4294967296 = 1 \<and> bucket_spec SEMI_LOG_HASH 4294967296 = 13"
  by code_simp

end
