(* ===== verification/Gy_Criterion.thy ===== *)
theory Gy_Criterion
  imports Gy_Registration "HOL-Library.Signed_Division"
begin

text \<open>
  One criterion of a filter, \<open>CRITERION_ONE\<close> of \<open>common/gy_query_criteria.h\<close>: the values it compares
  (\<open>NUMBER_CRITERION\<close> is a tagged union, kept here as its eight bytes), the arithmetic on two fields
  (\<open>apply_math_oper\<close>), the comparisons of numbers, strings and booleans, and \<open>match_criterian\<close>. The
  fields of a row come from the three callbacks; they, the IEEE arithmetic of the machine and
  the regular expressions of RE2 are the members of an argument. A trap of the processor
  (a division by zero or of the least number by -1) is \<open>None\<close>.
\<close>

section \<open>Numbers\<close>

datatype COMPARATORS_E = COMP_EQ | COMP_NEQ | COMP_LT | COMP_LE | COMP_GT | COMP_GE | COMP_BIT2 | COMP_BIT3
  | COMP_SUBSTR | COMP_NOTSUBSTR | COMP_LIKE | COMP_NOTLIKE | COMP_IN | COMP_NOTIN

datatype NUMBER_TYPES_E = NUM_INT8 | NUM_INT16 | NUM_INT32 | NUM_INT64 | NUM_DOUBLE | NUM_NAN

datatype JSON_TYPES_E = JSON_NUMBER | JSON_STRING | JSON_BOOL

type_synonym dbl = "64 word"

text \<open>The arithmetic of \<open>double\<close> on bit patterns. \<open>d_to_int\<close> truncates; what it is for a value outside of
  \<open>int64_t\<close> is undefined in C++.\<close>

record FLOAT_OPS =
  d_add :: "dbl \<Rightarrow> dbl \<Rightarrow> dbl"
  d_sub :: "dbl \<Rightarrow> dbl \<Rightarrow> dbl"
  d_mul :: "dbl \<Rightarrow> dbl \<Rightarrow> dbl"
  d_div :: "dbl \<Rightarrow> dbl \<Rightarrow> dbl"
  d_lt :: "dbl \<Rightarrow> dbl \<Rightarrow> bool"
  d_eq :: "dbl \<Rightarrow> dbl \<Rightarrow> bool"
  d_abs :: "dbl \<Rightarrow> dbl"
  d_of_int :: "int \<Rightarrow> dbl"
  d_to_int :: "dbl \<Rightarrow> int"
  d_epsilon :: dbl
  d_reltol :: dbl
  d_abstol :: dbl

definition gy_is_dbl_equal :: "FLOAT_OPS \<Rightarrow> dbl \<Rightarrow> dbl \<Rightarrow> bool" where
  "gy_is_dbl_equal F a b =
     (if d_eq F a b then True
      else let diff = d_abs F (d_sub F a b);
               mx = (if d_lt F (d_abs F a) (d_abs F b) then d_abs F b else d_abs F a);
               reltol = d_mul F mx (d_reltol F)
           in d_lt F diff reltol \<or> d_lt F diff (d_abstol F))"

text \<open>The union: a member of \<open>n\<close> bits is the low end of the eight bytes, and storing to it leaves the rest.\<close>

record NUMBER_CRITERION =
  nbits :: "64 word"
  ntype :: NUMBER_TYPES_E
  isvalid :: bool

definition get_num :: "nat \<Rightarrow> 64 word \<Rightarrow> int" where
  "get_num n b = signed_take_bit (n - 1) (uint b)"

definition put_num :: "nat \<Rightarrow> 64 word \<Rightarrow> int \<Rightarrow> 64 word" where
  "put_num n b v = (b AND NOT (mask n)) OR (of_int v AND mask n)"

definition width :: "NUMBER_TYPES_E \<Rightarrow> nat" where
  "width t = (case t of NUM_INT8 \<Rightarrow> 8 | NUM_INT16 \<Rightarrow> 16 | NUM_INT32 \<Rightarrow> 32 | _ \<Rightarrow> 64)"

text \<open>The constructors from an integer type and from \<open>double\<close>.\<close>

definition num_int :: "NUMBER_TYPES_E \<Rightarrow> int \<Rightarrow> NUMBER_CRITERION" where
  "num_int t v = \<lparr> nbits = put_num (width t) 0 v, ntype = t, isvalid = True \<rparr>"

definition num_dbl :: "dbl \<Rightarrow> NUMBER_CRITERION" where
  "num_dbl d = \<lparr> nbits = d, ntype = NUM_DOUBLE, isvalid = True \<rparr>"

definition no_num :: NUMBER_CRITERION where
  "no_num = \<lparr> nbits = 0, ntype = NUM_NAN, isvalid = False \<rparr>"

section \<open>Arithmetic\<close>

text \<open>\<open>x oper= i2\<close> or \<open>x oper= d2\<close> on the integer member of \<open>n\<close> bits. The operands are converted to
  \<open>int64_t\<close> or to \<open>double\<close> and the result is stored back. Multiplying a member of 32 bits by an integer
  works on the member of 8 bits.\<close>

definition int_div :: "int \<Rightarrow> int \<Rightarrow> int option" where
  "int_div v k = (if k = 0 \<or> v = - (2 ^ 63) \<and> k = - 1 then None else Some (v sdiv k))"

definition int_mod :: "int \<Rightarrow> int \<Rightarrow> int option" where
  "int_mod v k = (if k = 0 \<or> v = - (2 ^ 63) \<and> k = - 1 then None else Some (v smod k))"

definition int_oper ::
  "FLOAT_OPS \<Rightarrow> nat \<Rightarrow> char \<Rightarrow> bool \<Rightarrow> int \<Rightarrow> dbl \<Rightarrow> 64 word \<Rightarrow> 64 word option" where
  "int_oper F n oper is_i2 i2 d2 b =
     (let v = get_num n b; dv = d_of_int F v; k = (if is_i2 then i2 else d_to_int F d2); put = put_num n b in
      if oper = CHR ''+'' then Some (put (if is_i2 then v + i2 else d_to_int F (d_add F dv d2)))
      else if oper = CHR ''-'' then Some (put (if is_i2 then v - i2 else d_to_int F (d_sub F dv d2)))
      else if oper = CHR ''*'' then
        Some (if \<not> is_i2 then put (d_to_int F (d_mul F dv d2))
              else if n = 32 then put_num 8 b (get_num 8 b * i2) else put (v * i2))
      else if oper = CHR ''/'' then
        (if is_i2 then map_option put (int_div v i2) else Some (put (d_to_int F (d_div F dv d2))))
      else if oper = CHR ''%'' then map_option put (int_mod v k)
      else if oper = CHR ''&'' then Some (put (v AND k))
      else if oper = CHR ''|'' then Some (put (v OR k))
      else Some b)"

definition dbl_oper ::
  "FLOAT_OPS \<Rightarrow> char \<Rightarrow> bool \<Rightarrow> int \<Rightarrow> dbl \<Rightarrow> dbl \<Rightarrow> bool \<times> dbl" where
  "dbl_oper F oper is_i2 i2 d2 b =
     (let d = (if is_i2 then d_of_int F i2 else d2) in
      if oper = CHR ''+'' then (True, d_add F b d)
      else if oper = CHR ''-'' then (True, d_sub F b d)
      else if oper = CHR ''*'' then (True, d_mul F b d)
      else if oper = CHR ''/'' then (True, d_div F b d)
      else if oper = CHR ''%'' \<or> oper = CHR ''&'' \<or> oper = CHR ''|'' then (False, b)
      else (True, b))"

definition apply_math_oper ::
  "FLOAT_OPS \<Rightarrow> char \<Rightarrow> NUMBER_CRITERION \<Rightarrow> NUMBER_CRITERION \<Rightarrow> (bool \<times> NUMBER_CRITERION) option" where
  "apply_math_oper F oper num2 num =
     (let is_i2 = (ntype num2 \<noteq> NUM_DOUBLE); isdiv = (oper = CHR ''/'' \<or> oper = CHR ''%'');
          i2 = get_num (width (ntype num2)) (nbits num2);
          i2' = (if i2 = 0 \<and> isdiv then 1 else i2);
          d2 = (if d_eq F (nbits num2) (d_of_int F 0) \<and> isdiv then d_of_int F 1 else nbits num2)
      in if ntype num = NUM_DOUBLE then
           (case dbl_oper F oper is_i2 i2' d2 (nbits num) of (r, b) \<Rightarrow> Some (r, num\<lparr> nbits := b \<rparr>))
         else map_option (\<lambda>b. (True, num\<lparr> nbits := b \<rparr>))
                (int_oper F (width (ntype num)) oper is_i2 i2' d2 (nbits num)))"

section \<open>Comparisons\<close>

text \<open>\<open>match_num_criterian\<close> for the integer types; \<open>arr\<close> is the array of an \<open>in\<close> comparison. The array is
  searched in order and the result is that of the first hit.\<close>

definition match_num_criterian ::
  "COMPARATORS_E \<Rightarrow> nat \<Rightarrow> NUMBER_CRITERION list option \<Rightarrow> int \<Rightarrow> int \<Rightarrow> bool" where
  "match_num_criterian cmp n arr input crit = (case cmp of
       COMP_EQ \<Rightarrow> input = crit
     | COMP_NEQ \<Rightarrow> input \<noteq> crit
     | COMP_LT \<Rightarrow> input < crit
     | COMP_LE \<Rightarrow> input \<le> crit
     | COMP_GT \<Rightarrow> input > crit
     | COMP_GE \<Rightarrow> input \<ge> crit
     | COMP_BIT2 \<Rightarrow> input AND 3 = 3
     | COMP_BIT3 \<Rightarrow> input AND 7 = 7
     | COMP_IN \<Rightarrow> (case arr of None \<Rightarrow> False | Some a \<Rightarrow> list_ex (\<lambda>c. input = get_num n (nbits c)) a)
     | COMP_NOTIN \<Rightarrow> (case arr of None \<Rightarrow> False | Some a \<Rightarrow> \<not> list_ex (\<lambda>c. input = get_num n (nbits c)) a)
     | _ \<Rightarrow> False)"

definition match_dbl_criterian ::
  "FLOAT_OPS \<Rightarrow> COMPARATORS_E \<Rightarrow> NUMBER_CRITERION list option \<Rightarrow> dbl \<Rightarrow> dbl \<Rightarrow> bool" where
  "match_dbl_criterian F cmp arr input crit = (case cmp of
       COMP_EQ \<Rightarrow> gy_is_dbl_equal F input crit
     | COMP_NEQ \<Rightarrow> \<not> gy_is_dbl_equal F input crit
     | COMP_LT \<Rightarrow> d_lt F input crit \<and> d_lt F (d_epsilon F) (d_sub F crit input)
     | COMP_LE \<Rightarrow> gy_is_dbl_equal F input crit \<or> d_lt F input crit
     | COMP_GT \<Rightarrow> d_lt F crit input \<and> d_lt F (d_epsilon F) (d_sub F input crit)
     | COMP_GE \<Rightarrow> gy_is_dbl_equal F input crit \<or> d_lt F crit input
     | COMP_BIT2 \<Rightarrow> d_to_int F input AND 3 = 3
     | COMP_BIT3 \<Rightarrow> d_to_int F input AND 7 = 7
     | COMP_IN \<Rightarrow> (case arr of None \<Rightarrow> False | Some a \<Rightarrow> list_ex (\<lambda>c. gy_is_dbl_equal F input (nbits c)) a)
     | COMP_NOTIN \<Rightarrow> (case arr of None \<Rightarrow> False | Some a \<Rightarrow> \<not> list_ex (\<lambda>c. gy_is_dbl_equal F input (nbits c)) a)
     | _ \<Rightarrow> False)"

fun memmem :: "string \<Rightarrow> string \<Rightarrow> bool" where
  "memmem [] needle = (needle = [])"
| "memmem (c # cs) needle = (take (length needle) (c # cs) = needle \<or> memmem cs needle)"

text \<open>\<open>match_str_criterian\<close>; \<open>crit\<close> is \<open>None\<close> for a null pointer, \<open>regex\<close> for one that was not compiled, and \<open>pm\<close> is
  \<open>RE2::PartialMatch\<close>.\<close>

definition match_str_criterian ::
  "(string \<Rightarrow> string \<Rightarrow> bool) \<Rightarrow> COMPARATORS_E \<Rightarrow> string option \<Rightarrow> string list option \<Rightarrow> string \<Rightarrow> string option \<Rightarrow> bool"
  where
  "match_str_criterian pm cmp regex arr input crit = (case cmp of
       COMP_EQ \<Rightarrow> crit = Some input
     | COMP_NEQ \<Rightarrow> crit \<noteq> Some input
     | COMP_SUBSTR \<Rightarrow> (case crit of None \<Rightarrow> False | Some c \<Rightarrow> length c \<le> length input \<and> memmem input c)
     | COMP_NOTSUBSTR \<Rightarrow> (case crit of None \<Rightarrow> True | Some c \<Rightarrow> \<not> (length c \<le> length input \<and> memmem input c))
     | COMP_LIKE \<Rightarrow> (case regex of None \<Rightarrow> False | Some r \<Rightarrow> pm input r)
     | COMP_NOTLIKE \<Rightarrow> (case regex of None \<Rightarrow> False | Some r \<Rightarrow> \<not> pm input r)
     | COMP_IN \<Rightarrow> (case arr of None \<Rightarrow> False | Some a \<Rightarrow> list_ex (\<lambda>c. input = c) a)
     | COMP_NOTIN \<Rightarrow> (case arr of None \<Rightarrow> False | Some a \<Rightarrow> \<not> list_ex (\<lambda>c. input = c) a)
     | _ \<Rightarrow> False)"

definition match_bool_criterian :: "COMPARATORS_E \<Rightarrow> bool \<Rightarrow> bool \<Rightarrow> bool" where
  "match_bool_criterian cmp input crit = (case cmp of COMP_EQ \<Rightarrow> input = crit | COMP_NEQ \<Rightarrow> input \<noteq> crit | _ \<Rightarrow> False)"

section \<open>A criterion\<close>

text \<open>A subsystem is its number in \<open>SUBSYS_CLASS_E\<close>; a field is of type \<open>'f\<close>. \<open>math_oper\<close> is the NUL
  character when there is no operator.\<close>

definition SUBSYS_HOST :: int where "SUBSYS_HOST = 0"

record 'f CRITERION_ONE =
  pfield1 :: "'f option"
  subsys :: int
  fieldtype :: JSON_TYPES_E
  cmpr :: COMPARATORS_E
  is_valid :: bool
  is_timestamp_sec :: bool
  is_time_func :: bool
  math_oper :: char
  hash :: "64 word"
  pfield2 :: "'f option"
  field2_const :: dbl
  numval :: "NUMBER_CRITERION option"
  strval :: "string option"
  boolval :: "bool option"
  pexpr_val :: "'f option"
  regex :: "string option"
  force_double :: bool
  pnumarray :: "NUMBER_CRITERION list option"
  pstrarray :: "string list option"

record 'f ROW =
  get_num_field :: "'f \<Rightarrow> int \<Rightarrow> NUMBER_CRITERION"
  get_str_field :: "'f \<Rightarrow> int \<Rightarrow> string option"
  get_bool_field :: "'f \<Rightarrow> int \<Rightarrow> bool option"
  fops :: FLOAT_OPS
  partial_match :: "string \<Rightarrow> string \<Rightarrow> bool"

text \<open>The first operand of a comparison of numbers, after \<open>force_double\<close> and the arithmetic; an invalid field
  or an operator that does not apply is \<open>Some None\<close>.\<close>

definition num_input :: "'f ROW \<Rightarrow> 'f CRITERION_ONE \<Rightarrow> 'f \<Rightarrow> NUMBER_CRITERION option option" where
  "num_input R c f1 =
     (let n0 = get_num_field R f1 (subsys c) in
      if \<not> isvalid n0 then Some None
      else let n1 = (if force_double c then num_dbl (d_of_int (fops R) (get_num 64 (nbits n0))) else n0) in
        if math_oper c = CHR 0x00 then Some (Some n1)
        else let ni2 = (case pfield2 c of Some f2 \<Rightarrow> get_num_field R f2 (subsys c)
                                       | None \<Rightarrow> num_dbl (field2_const c)) in
          if \<not> isvalid ni2 then Some None
          else map_option (\<lambda>(ok, n). if ok then Some n else None) (apply_math_oper (fops R) (math_oper c) ni2 n1))"

text \<open>The second operand, and the type of the comparison that it decides; \<open>None\<close> when there is none. The type
  of the first operand is that of the field before the arithmetic.\<close>

definition num_crit ::
  "'f ROW \<Rightarrow> 'f CRITERION_ONE \<Rightarrow> int \<Rightarrow> NUMBER_TYPES_E \<Rightarrow> (NUMBER_CRITERION \<times> NUMBER_TYPES_E) option" where
  "num_crit R c tcurr type = (case numval c of
       Some v \<Rightarrow> let n2 = (if \<not> is_time_func c \<or> tcurr = 0 then v else num_int NUM_INT64 tcurr)
                  in Some (n2, if force_double c then NUM_DOUBLE else ntype n2)
     | None \<Rightarrow> (case pexpr_val c of
           Some f \<Rightarrow> let n2 = get_num_field R f (subsys c) in if isvalid n2 then Some (n2, type) else None
         | None \<Rightarrow> if pnumarray c = None then None else Some (no_num, type)))"

definition match_num :: "'f ROW \<Rightarrow> 'f CRITERION_ONE \<Rightarrow> int \<Rightarrow> 'f \<Rightarrow> bool option" where
  "match_num R c tcurr f1 = (case num_input R c f1 of
       None \<Rightarrow> None
     | Some None \<Rightarrow> Some False
     | Some (Some n1) \<Rightarrow> Some (case num_crit R c tcurr
             (if force_double c then NUM_DOUBLE else ntype (get_num_field R f1 (subsys c))) of
           None \<Rightarrow> False
         | Some (n2, type) \<Rightarrow>
             if type = NUM_NAN then False
             else if type = NUM_DOUBLE then match_dbl_criterian (fops R) (cmpr c) (pnumarray c) (nbits n1) (nbits n2)
             else match_num_criterian (cmpr c) (width type) (pnumarray c)
                    (get_num (width type) (nbits n1)) (get_num (width type) (nbits n2))))"

definition match_str :: "'f ROW \<Rightarrow> 'f CRITERION_ONE \<Rightarrow> 'f \<Rightarrow> bool" where
  "match_str R c f1 = (case get_str_field R f1 (subsys c) of
       None \<Rightarrow> False
     | Some s1 \<Rightarrow>
         let cmps = match_str_criterian (partial_match R) (cmpr c) (regex c) (pstrarray c) s1 in
         (case strval c of
            Some s \<Rightarrow> cmps (Some s)
          | None \<Rightarrow> (case pexpr_val c of
                Some f \<Rightarrow> (case get_str_field R f (subsys c) of None \<Rightarrow> False | Some s \<Rightarrow> cmps (Some s))
              | None \<Rightarrow> if pstrarray c = None then False else cmps None)))"

definition match_boolean :: "'f ROW \<Rightarrow> 'f CRITERION_ONE \<Rightarrow> 'f \<Rightarrow> bool" where
  "match_boolean R c f1 = (case get_bool_field R f1 (subsys c) of
       None \<Rightarrow> False
     | Some b1 \<Rightarrow> (case boolval c of
          Some b \<Rightarrow> match_bool_criterian (cmpr c) b1 b
        | None \<Rightarrow> (case pexpr_val c of
              Some f \<Rightarrow> (case get_bool_field R f (subsys c) of None \<Rightarrow> False | Some b \<Rightarrow> match_bool_criterian (cmpr c) b1 b)
            | None \<Rightarrow> False)))"

definition match_criterian :: "'f ROW \<Rightarrow> int \<Rightarrow> 'f CRITERION_ONE \<Rightarrow> bool option" where
  "match_criterian R tcurr c = (case pfield1 c of
       None \<Rightarrow> Some False
     | Some f1 \<Rightarrow>
         if \<not> is_valid c then Some False
         else if fieldtype c = JSON_NUMBER \<or> is_timestamp_sec c then match_num R c tcurr f1
         else if fieldtype c = JSON_STRING then Some (match_str R c f1)
         else Some (match_boolean R c f1))"

section \<open>Comparing a field with a number\<close>

text \<open>A criterion \<open>field cmp number\<close>, as the constructor makes it from a number without a fraction.\<close>

definition literal_crit :: "'f \<Rightarrow> COMPARATORS_E \<Rightarrow> int \<Rightarrow> 'f CRITERION_ONE" where
  "literal_crit f cmp k = \<lparr> pfield1 = Some f, subsys = 3, fieldtype = JSON_NUMBER, cmpr = cmp, is_valid = True,
     is_timestamp_sec = False, is_time_func = False, math_oper = CHR 0x00, hash = 0, pfield2 = None, field2_const = 0,
     numval = Some (num_int NUM_INT64 k), strval = None, boolval = None, pexpr_val = None, regex = None,
     force_double = False, pnumarray = None, pstrarray = None \<rparr>"

definition in_bits :: "nat \<Rightarrow> int \<Rightarrow> bool" where
  "in_bits n v \<longleftrightarrow> - (2 ^ (n - 1)) \<le> v \<and> v < 2 ^ (n - 1)"

lemma uint_put_num: "n \<le> 64 \<Longrightarrow> uint (put_num n 0 v) = take_bit n v"
  by (simp add: put_num_def take_bit_eq_mask [symmetric] unsigned_take_bit_eq unsigned_of_int take_bit_take_bit min_def)

lemma width_bounds: "0 < width t" "width t \<le> 64"
  by (simp_all add: width_def split: NUMBER_TYPES_E.split)

lemma get_put_num:
  assumes "0 < n" "n \<le> 64" "in_bits n v"
  shows "get_num n (put_num n 0 v) = v"
proof -
  have "signed_take_bit (n - 1) (take_bit n v) = signed_take_bit (n - 1) v"
    using assms(1) by (cases n) (simp_all add: signed_take_bit_take_bit)
  then show ?thesis
    using assms by (simp add: get_num_def uint_put_num in_bits_def signed_take_bit_int_eq_self_iff)
qed

lemma get64_put_num:
  assumes "n < 64"
  shows "get_num 64 (put_num n 0 v) = v mod 2 ^ n"
proof -
  have "take_bit n v < 2 ^ n" by simp
  also have "(2 :: int) ^ n \<le> 2 ^ 63" using assms by (intro power_increasing) auto
  finally have "take_bit n v < 2 ^ 63" .
  moreover have "- (2 ^ 63) \<le> take_bit n v" by (rule order_trans [of _ 0]) simp_all
  ultimately have "signed_take_bit 63 (take_bit n v) = take_bit n v"
    unfolding signed_take_bit_int_eq_self_iff by (intro conjI)
  then show ?thesis using assms by (simp add: get_num_def uint_put_num take_bit_eq_mod)
qed

lemma match_literal:
  assumes "get_num_field R f 3 = n1" "isvalid n1" "in_bits 64 k"
  shows "match_criterian R tcurr (literal_crit f cmp k) =
    Some (match_num_criterian cmp 64 None (get_num 64 (nbits n1)) k)"
  using assms get_put_num [of 64 k]
  by (simp add: match_criterian_def literal_crit_def match_num_def num_input_def num_crit_def num_int_def width_def)

lemma num_dbl_sel [simp]: "isvalid (num_dbl d)" "nbits (num_dbl d) = d" "ntype (num_dbl d) = NUM_DOUBLE"
  and num_int_sel [simp]: "isvalid (num_int t v)" "ntype (num_int t v) = t" "nbits (num_int t v) = put_num (width t) 0 v"
  by (simp_all add: num_dbl_def num_int_def)

text \<open>(C30) A comparison of a field with a number that has no fraction is done in 64 bits. It is the comparison
  of the two integers when the field is a 64 bit integer or is not negative. A negative value of a narrower
  integer field is taken for a large positive one, and of a \<open>double\<close> field the bit pattern is compared: with
  0.5 (\<open>0x3FE0000000000000\<close>) the criterion \<open>field > 50\<close> holds.\<close>

theorem integer_comparison:
  assumes "in_bits (width t) v" "in_bits 64 k" "t \<noteq> NUM_DOUBLE"
    "get_num_field R f 3 = num_int t v" "get_num_field R g 3 = num_dbl d"
  shows "(0 \<le> v \<or> width t = 64 \<longrightarrow> match_criterian R tcurr (literal_crit f cmp k) = Some (match_num_criterian cmp 64 None v k)) \<and>
    (v < 0 \<and> width t < 64 \<longrightarrow>
       match_criterian R tcurr (literal_crit f cmp k) = Some (match_num_criterian cmp 64 None (v + 2 ^ width t) k)) \<and>
    match_criterian R tcurr (literal_crit g cmp k) = Some (match_num_criterian cmp 64 None (sint d) k) \<and>
    (d = 0x3FE0000000000000 \<longrightarrow> match_criterian R tcurr (literal_crit g COMP_GT 50) = Some True)"
proof -
  have f: "match_criterian R tcurr (literal_crit f cmp k) =
      Some (match_num_criterian cmp 64 None (get_num 64 (put_num (width t) 0 v)) k)"
    using match_literal [OF assms(4) _ assms(2)] by simp
  have g: "match_criterian R tcurr (literal_crit g cm j) = Some (match_num_criterian cm 64 None (sint d) j)"
    if "in_bits 64 j" for cm j
    using match_literal [OF assms(5) _ that] by (simp add: get_num_def sint_uint)
  have m: "get_num 64 (put_num (width t) 0 v) = v mod 2 ^ width t" if "width t < 64" using that by (rule get64_put_num)
  have "get_num 64 (put_num 64 0 v) = v" if "width t = 64" using assms(1) that by (intro get_put_num) simp_all
  moreover have "v mod 2 ^ width t = v" if "0 \<le> v"
  proof -
    have "v < 2 ^ (width t - 1)" using assms(1) by (simp add: in_bits_def)
    also have "(2 :: int) ^ (width t - 1) \<le> 2 ^ width t" by (intro power_increasing) auto
    finally show ?thesis using that by simp
  qed
  moreover have "v mod 2 ^ width t = v + 2 ^ width t" if "v < 0"
  proof -
    have "- (2 ^ (width t - 1)) \<le> v" using assms(1) by (simp add: in_bits_def)
    moreover have "(2 :: int) ^ (width t - 1) \<le> 2 ^ width t" by (intro power_increasing) auto
    ultimately have "(v + 2 ^ width t) mod 2 ^ width t = v + 2 ^ width t"
      using that by (intro mod_pos_pos_trivial) linarith+
    then show ?thesis by simp
  qed
  ultimately have val: "get_num 64 (put_num (width t) 0 v) = (if v < 0 \<and> width t < 64 then v + 2 ^ width t else v)"
    using m width_bounds(2) [of t] by (cases "width t < 64") simp_all
  have "match_criterian R tcurr (literal_crit g COMP_GT 50) = Some True" if "d = 0x3FE0000000000000"
    using g [of 50 COMP_GT] that by (simp add: in_bits_def match_num_criterian_def)
  then show ?thesis using f g [OF assms(2)] val by auto
qed

definition no_floats :: FLOAT_OPS where
  "no_floats = \<lparr> d_add = \<lambda>a b. 0, d_sub = \<lambda>a b. 0, d_mul = \<lambda>a b. 0, d_div = \<lambda>a b. 0, d_lt = \<lambda>a b. False, d_eq = \<lambda>a b. a = b,
     d_abs = \<lambda>a. a, d_of_int = \<lambda>i. 0, d_to_int = \<lambda>a. 0, d_epsilon = 0, d_reltol = 0, d_abstol = 0 \<rparr>"

definition sample_row :: "string ROW" where
  "sample_row = \<lparr> get_num_field = \<lambda>f s. if f = ''cpu'' then num_dbl 0x3FE0000000000000 else num_int NUM_INT32 (- 5),
     get_str_field = \<lambda>f s. None, get_bool_field = \<lambda>f s. None, fops = no_floats, partial_match = \<lambda>a b. False \<rparr>"

theorem integer_comparison_witness:
  "match_criterian sample_row 0 (literal_crit ''delta'' COMP_LT 0) = Some False \<and>
   match_criterian sample_row 0 (literal_crit ''cpu'' COMP_GT 50) = Some True"
  using integer_comparison [of NUM_INT32 "- 5" 0 sample_row "''delta''" "''cpu''" "0x3FE0000000000000" 0 COMP_LT]
  by (simp add: in_bits_def width_def sample_row_def match_num_criterian_def)

section \<open>Arithmetic that goes wrong\<close>

text \<open>\<open>x * k\<close> of a 32 bit field changes only its lowest byte: 300 times 2 is 344.\<close>

lemma int32_times:
  "apply_math_oper F CHR ''*'' (num_int NUM_INT32 2) (num_int NUM_INT32 300) = Some (True, num_int NUM_INT32 344)"
proof -
  have "put_num 32 0 300 = 300" "put_num 32 0 344 = 344" "put_num 32 0 2 = 2"
    "get_num 8 300 = 44" "get_num 32 2 = 2" "put_num 8 300 88 = 344"
    by code_simp+
  then show ?thesis by (simp add: apply_math_oper_def int_oper_def width_def num_int_def)
qed

text \<open>The remainder of an integer field by a \<open>double\<close> field traps whenever the value of the latter is
  between -1 and 1 but not 0: only an exact zero is replaced by 1 before it is truncated.\<close>

lemma remainder_traps:
  assumes "ntype n \<noteq> NUM_DOUBLE" "d_to_int F d = 0" "\<not> d_eq F d (d_of_int F 0)"
  shows "apply_math_oper F CHR ''%'' (num_dbl d) n = None"
  using assms by (simp add: apply_math_oper_def int_oper_def int_mod_def Let_def)

text \<open>Without a division no arithmetic traps.\<close>

lemma no_trap:
  assumes "oper \<noteq> CHR ''/''" "oper \<noteq> CHR ''%''"
  shows "apply_math_oper F oper n2 n \<noteq> None"
  using assms by (auto simp: apply_math_oper_def int_oper_def Let_def split: prod.split)

lemma match_criterian_total:
  assumes "math_oper c \<noteq> CHR ''/''" "math_oper c \<noteq> CHR ''%''"
  shows "match_criterian R tcurr c \<noteq> None"
proof -
  have "\<exists>a b. apply_math_oper (fops R) (math_oper c) n2 n = Some (a, b)" for n2 n
    using no_trap [OF assms, of "fops R" n2 n] by simp
  then have "num_input R c f \<noteq> None" for f by (simp add: num_input_def Let_def)
  then have "match_num R c tcurr f \<noteq> None" for f
  proof -
    obtain y where "num_input R c f = Some y" using \<open>\<And>f. num_input R c f \<noteq> None\<close> by blast
    then show ?thesis by (cases y) (simp_all add: match_num_def)
  qed
  then show ?thesis by (simp add: match_criterian_def ex_bool_eq split: option.split)
qed

end
