(* ===== verification/Gy_Criteria.thy ===== *)
theory Gy_Criteria
  imports Gy_Criterion
begin

text \<open>
  Filters as a whole: \<open>CRITERIA_ONE_GROUP\<close> and \<open>CRITERIA_SET\<close> of \<open>common/gy_query_criteria.h\<close> and \<open>.cc\<close>, with the
  construction of the groups from the terms that \<open>GY_BOOLPARSE\<close> (\<open>common/gy_boolparse.cc\<close>) gets from the
  disjunctive normal form of the filter, and the numbering of its criteria by the hash of their text. The boolstuff library that computes the normal form is not
  part of the repository: its terms are an argument, a list of lists of indices of criteria. The text
  of a criterion becomes a \<open>CRITERION_ONE\<close> by a function that is an argument too.
\<close>

section \<open>Groups\<close>

datatype CRIT_RET_E = CRIT_FAIL | CRIT_PASS | CRIT_SKIP

datatype GROUP_OPER_E = OPER_OR | OPER_AND

record 'f CRITERIA_ONE_GROUP =
  pcritarr :: "'f CRITERION_ONE list"
  maxcrit :: nat
  oper :: GROUP_OPER_E

definition empty_group :: "'f CRITERIA_ONE_GROUP" where
  "empty_group = \<lparr> pcritarr = [], maxcrit = 0, oper = OPER_OR \<rparr>"

type_synonym memo = "(64 word \<times> bool) list"

definition MAX_CMAP_ENTRIES :: nat where "MAX_CMAP_ENTRIES = 64"

text \<open>Without an array of subsystems every criterion is evaluated.\<close>

definition is_subsystem_allowed :: "int \<Rightarrow> int list option \<Rightarrow> bool" where
  "is_subsystem_allowed s allowed = (case allowed of None \<Rightarrow> True | Some arr \<Rightarrow> s \<in> set arr)"

text \<open>The value of one criterion. Its hash, unless it is 0, is looked up among the results so far; a result is
  remembered as long as there are fewer than the maximal number of entries.\<close>

definition memo_eval ::
  "'f ROW \<Rightarrow> int \<Rightarrow> nat \<Rightarrow> 'f CRITERION_ONE \<Rightarrow> memo \<Rightarrow> (bool \<times> memo) option" where
  "memo_eval R tcurr max_mapsz c fmap =
     (let fhash = hash c in
      case (if fhash \<noteq> 0 then map_of fmap fhash else None) of
        Some b \<Rightarrow> Some (b, fmap)
      | None \<Rightarrow> do {
          b \<leftarrow> match_criterian R tcurr c;
          Some (b, if fhash \<noteq> 0 \<and> length fmap < max_mapsz then (fhash, b) # fmap else fmap)
        })"

primrec group_loop ::
  "'f ROW \<Rightarrow> int \<Rightarrow> int list option \<Rightarrow> nat \<Rightarrow> GROUP_OPER_E \<Rightarrow> 'f CRITERION_ONE list \<Rightarrow> memo \<Rightarrow> nat \<Rightarrow> nat \<Rightarrow> bool \<Rightarrow>
   (CRIT_RET_E \<times> memo) option" where
  "group_loop R tcurr allowed mx op [] fmap neval nskip iseval = Some
     (if iseval \<and> op = OPER_AND then CRIT_PASS
      else if neval = 0 \<or> nskip \<noteq> 0 then CRIT_SKIP
      else CRIT_FAIL, fmap)"
| "group_loop R tcurr allowed mx op (c # cs) fmap neval nskip iseval =
     (if \<not> is_subsystem_allowed (subsys c) allowed then
        group_loop R tcurr allowed mx op cs fmap neval (nskip + 1) iseval
      else do {
        (b, fmap') \<leftarrow> memo_eval R tcurr mx c fmap;
        if b then
          if op = OPER_OR then Some (CRIT_PASS, fmap')
          else group_loop R tcurr allowed mx op cs fmap' (neval + 1) nskip True
        else if op = OPER_AND then Some (CRIT_FAIL, fmap')
        else group_loop R tcurr allowed mx op cs fmap' (neval + 1) nskip iseval
      })"

definition match_criteria_group ::
  "'f ROW \<Rightarrow> int \<Rightarrow> int list option \<Rightarrow> nat \<Rightarrow> 'f CRITERIA_ONE_GROUP \<Rightarrow> memo \<Rightarrow> (CRIT_RET_E \<times> memo) option" where
  "match_criteria_group R tcurr allowed mx g fmap =
     group_loop R tcurr allowed mx (oper g) (pcritarr g) fmap 0 0 False"

text \<open>\<open>has_subsystem\<close>; the loop for \<open>match_all_criteria\<close> with the index and \<open>bret\<close>.\<close>

fun has_all_loop :: "int \<Rightarrow> int list \<Rightarrow> nat \<Rightarrow> bool \<Rightarrow> bool" where
  "has_all_loop s [] i bret = bret"
| "has_all_loop s (c # cs) i bret =
     (if c = s then (if \<not> bret \<and> i > 0 then False else has_all_loop s cs (i + 1) True)
      else if bret then False else has_all_loop s cs (i + 1) bret)"

definition has_subsystem :: "int \<Rightarrow> bool \<Rightarrow> int list \<Rightarrow> bool" where
  "has_subsystem s match_all subs = (if match_all then has_all_loop s subs 0 False else s \<in> set subs)"

section \<open>Sets of groups\<close>

record 'f CRITERIA_SET =
  l1_grp :: "'f CRITERIA_ONE_GROUP"
  pl2_grp :: "'f CRITERIA_ONE_GROUP list"
  psubsys_arr :: "int list"
  total_crit :: nat
  l1_oper :: GROUP_OPER_E

definition empty_set :: "'f CRITERIA_SET" where
  "empty_set = \<lparr> l1_grp = empty_group, pl2_grp = [], psubsys_arr = [], total_crit = 0, l1_oper = OPER_OR \<rparr>"

primrec set_loop ::
  "'f ROW \<Rightarrow> int \<Rightarrow> int list option \<Rightarrow> GROUP_OPER_E \<Rightarrow> 'f CRITERIA_ONE_GROUP list \<Rightarrow> memo \<Rightarrow> nat \<Rightarrow> nat \<Rightarrow> nat \<Rightarrow>
   CRIT_RET_E option" where
  "set_loop R tcurr allowed op [] fmap npass nfail nskip = Some
     (if npass \<noteq> 0 \<and> nskip = 0 then CRIT_PASS
      else if nskip \<noteq> 0 \<and> nfail = 0 then CRIT_SKIP
      else CRIT_FAIL)"
| "set_loop R tcurr allowed op (g # gs) fmap npass nfail nskip = do {
     (r, fmap') \<leftarrow> match_criteria_group R tcurr allowed MAX_CMAP_ENTRIES g fmap;
     case r of
       CRIT_PASS \<Rightarrow> if op = OPER_OR then Some CRIT_PASS else set_loop R tcurr allowed op gs fmap' (npass + 1) nfail nskip
     | CRIT_SKIP \<Rightarrow> set_loop R tcurr allowed op gs fmap' npass nfail (nskip + 1)
     | CRIT_FAIL \<Rightarrow> if op = OPER_AND then Some CRIT_FAIL else set_loop R tcurr allowed op gs fmap' npass (nfail + 1) nskip
   }"

definition match_criteria :: "'f ROW \<Rightarrow> int \<Rightarrow> int list option \<Rightarrow> 'f CRITERIA_SET \<Rightarrow> CRIT_RET_E option" where
  "match_criteria R tcurr allowed S =
     (if total_crit S = 0 then Some CRIT_SKIP
      else if (case allowed of None \<Rightarrow> False | Some arr \<Rightarrow> \<not> list_ex (\<lambda>s. s \<in> set (psubsys_arr S)) arr) then Some CRIT_SKIP
      else set_loop R tcurr allowed (l1_oper S)
             ((if pcritarr (l1_grp S) \<noteq> [] then [l1_grp S] else []) @ pl2_grp S) [] 0 0 0)"

definition validate_multihost_criteria :: "'f CRITERIA_SET \<Rightarrow> bool" where
  "validate_multihost_criteria S \<longleftrightarrow>
     total_crit S = 0 \<or> \<not> has_subsystem SUBSYS_HOST False (psubsys_arr S) \<or> l1_oper S \<noteq> OPER_OR \<or>
     (pcritarr (l1_grp S) \<noteq> [] \<longrightarrow> has_subsystem SUBSYS_HOST True (map subsys (pcritarr (l1_grp S)))) \<and>
     list_all (\<lambda>g. has_subsystem SUBSYS_HOST False (map subsys (pcritarr g))) (pl2_grp S)"

section \<open>From the normal form to the groups\<close>

definition MAX_ONE_GROUP_CRITERIA :: nat where "MAX_ONE_GROUP_CRITERIA = 64"
definition MAX_CRITERIA_GROUPS :: nat where "MAX_CRITERIA_GROUPS = 64"
definition MAX_QUERY_CRITERIA :: nat where "MAX_QUERY_CRITERIA = 256"

text \<open>What \<open>GY_BOOLPARSE\<close> holds: the texts of the criteria, the text of a single criterion, the indices of the
  terms, and the numbers of \<open>get_stats\<close>.\<close>

record GY_BOOLPARSE =
  mapvec :: "string list"
  firstcrit :: string
  idvec :: "nat list list"
  ncritgroups :: nat
  nl2groups :: nat
  nl1_crit :: nat
  max1crit :: nat
  bp_total_crit :: nat
  is_l1_and :: bool

type_synonym 'a res = "ERR_CODES_E + 'a"

definition single_parse :: "string \<Rightarrow> GY_BOOLPARSE" where
  "single_parse s = \<lparr> mapvec = [], firstcrit = s, idvec = [], ncritgroups = 1, nl2groups = 0, nl1_crit = 1,
     max1crit = 1, bp_total_crit = 1, is_l1_and = True \<rparr>"

text \<open>\<open>fnv1_hash\<close>: the characters are signed.\<close>

definition char_int :: "char \<Rightarrow> int" where
  "char_int c = (let n = of_char c :: int in if n \<ge> 128 then n - 256 else n)"

definition fnv1_hash :: "string \<Rightarrow> 32 word" where
  "fnv1_hash s = foldl (\<lambda>h c. (h XOR of_int (char_int c)) * 0x01000193) 0x811C9DC5 s"

text \<open>The criteria of a filter in the order of the text, as \<open>replace_expr_criteria\<close> numbers them: a criterion gets the
  number of the first one with the same hash, and only those with a new hash are stored in \<open>mapvec_\<close>. The
  numbers stand for the criteria in the expression of which the normal form is made.\<close>

definition intern_one ::
  "string \<Rightarrow> (32 word \<rightharpoonup> nat) \<times> string list \<times> nat list \<Rightarrow> (32 word \<rightharpoonup> nat) \<times> string list \<times> nat list" where
  "intern_one s = (\<lambda>(expmap, mv, ids). case expmap (fnv1_hash s) of
       None \<Rightarrow> (expmap(fnv1_hash s \<mapsto> length mv), mv @ [s], ids @ [length mv])
     | Some i \<Rightarrow> (expmap, mv, ids @ [i]))"

definition intern_criteria :: "string list \<Rightarrow> string list \<times> nat list" where
  "intern_criteria ss = snd (fold intern_one ss (Map.empty, [], []))"

text \<open>The loop over the terms of the normal form. A term is the set of its positive and of its negative
  variables; variables are indices of the stored criteria.\<close>

fun dnf_loop :: "nat \<Rightarrow> (nat list \<times> nat list) list \<Rightarrow> GY_BOOLPARSE \<Rightarrow> GY_BOOLPARSE res" where
  "dnf_loop ngroups [] p = Inr p"
| "dnf_loop ngroups ((pos, neg) # ts) p =
     (let ncrit = length pos; tot = bp_total_crit p + ncrit in
      if ncrit > MAX_ONE_GROUP_CRITERIA then Inl ERR_INVALID_REQUEST
      else if neg \<noteq> [] then Inl ERR_INVALID_REQUEST
      else if tot > MAX_QUERY_CRITERIA then Inl ERR_INVALID_REQUEST
      else if \<not> list_all (\<lambda>i. i < length (mapvec p)) pos then Inl ERR_SERV_ERROR
      else dnf_loop ngroups ts (p\<lparr>
        idvec := idvec p @ [pos], bp_total_crit := tot,
        max1crit := (if max1crit p < ncrit then ncrit else max1crit p),
        nl2groups := nl2groups p + (if ngroups > 1 \<and> ncrit > 1 then 1 else 0),
        nl1_crit := nl1_crit p + (if ngroups > 1 \<and> \<not> ncrit > 1 then ncrit else 0) \<rparr>))"

definition dnf_parse :: "string list \<Rightarrow> (nat list \<times> nat list) list \<Rightarrow> GY_BOOLPARSE res" where
  "dnf_parse texts terms =
     (if length terms > MAX_CRITERIA_GROUPS then Inl ERR_INVALID_REQUEST
      else case dnf_loop (length terms) terms \<lparr> mapvec = texts, firstcrit = [], idvec = [], ncritgroups = length terms,
             nl2groups = 0, nl1_crit = 0, max1crit = 0, bp_total_crit = 0, is_l1_and = False \<rparr> of
          Inl e \<Rightarrow> Inl e
        | Inr p \<Rightarrow> Inr (if length terms = 1 then p\<lparr> nl1_crit := bp_total_crit p, is_l1_and := True \<rparr> else p))"

definition get_group_criteria :: "GY_BOOLPARSE \<Rightarrow> nat \<Rightarrow> nat \<Rightarrow> string list res" where
  "get_group_criteria p grpnum maxelem =
     (if maxelem = 0 then Inr []
      else if grpnum \<ge> length (idvec p) then
        (if grpnum = 0 \<and> firstcrit p \<noteq> [] then Inr [firstcrit p] else Inl ERR_SERV_ERROR)
      else let vec = idvec p ! grpnum in
        if length vec > maxelem then Inl ERR_INVALID_REQUEST else Inr (map (\<lambda>i. mapvec p ! i) vec))"

text \<open>\<open>add_criterion\<close>: the text must not contain the two quoting marks, and a group that is full takes no more.
  \<open>mk\<close> is the constructor of \<open>CRITERION_ONE\<close>.\<close>

definition add_criterion ::
  "(string \<Rightarrow> 64 word \<Rightarrow> 'f CRITERION_ONE res) \<Rightarrow> bool \<Rightarrow> string \<Rightarrow> 'f CRITERIA_ONE_GROUP \<Rightarrow>
   ('f CRITERION_ONE option \<times> 'f CRITERIA_ONE_GROUP) res" where
  "add_criterion mk check_dollar_quote s g =
     (if length (pcritarr g) < maxcrit g then
        if check_dollar_quote \<and> (memmem s ''$a$'' \<or> memmem s ''$b$'') then Inl ERR_INVALID_REQUEST
        else case mk s (ucast (fnv1_hash s)) of
            Inl e \<Rightarrow> Inl e
          | Inr c \<Rightarrow> Inr (Some c, g\<lparr> pcritarr := pcritarr g @ [c] \<rparr>)
      else Inr (None, g))"

text \<open>The loop over the criteria of a group; besides the group it counts the criteria and collects their
  subsystems.\<close>

primrec add_loop ::
  "(string \<Rightarrow> 64 word \<Rightarrow> 'f CRITERION_ONE res) \<Rightarrow> bool \<Rightarrow> string list \<Rightarrow> 'f CRITERIA_ONE_GROUP \<Rightarrow> nat \<Rightarrow> int list \<Rightarrow>
   ('f CRITERIA_ONE_GROUP \<times> nat \<times> int list) res" where
  "add_loop mk chk [] g tot subs = Inr (g, tot, subs)"
| "add_loop mk chk (s # ss) g tot subs = (case add_criterion mk chk s g of
       Inl e \<Rightarrow> Inl e
     | Inr (None, g') \<Rightarrow> add_loop mk chk ss g' tot subs
     | Inr (Some c, g') \<Rightarrow> add_loop mk chk ss g' (tot + 1) (List.insert (subsys c) subs))"

text \<open>The loop of \<open>populate_groups\<close>. A group of more than one criterion becomes a second level group, unless it
  is the only one.\<close>

primrec pop_loop ::
  "(string \<Rightarrow> 64 word \<Rightarrow> 'f CRITERION_ONE res) \<Rightarrow> bool \<Rightarrow> GY_BOOLPARSE \<Rightarrow> nat list \<Rightarrow> 'f CRITERIA_SET \<Rightarrow> int list \<Rightarrow>
   ('f CRITERIA_SET \<times> int list) res" where
  "pop_loop mk chk p [] S subs = Inr (S, subs)"
| "pop_loop mk chk p (i # is) S subs = (case get_group_criteria p i (max1crit p) of
       Inl e \<Rightarrow> Inl e
     | Inr crits \<Rightarrow>
         if length crits > 1 \<and> ncritgroups p \<noteq> 1 then
           if length (pl2_grp S) < nl2groups p then
             case add_loop mk chk crits \<lparr> pcritarr = [], maxcrit = length crits, oper = OPER_AND \<rparr> (total_crit S) subs of
               Inl e \<Rightarrow> Inl e
             | Inr (g, tot, subs') \<Rightarrow> pop_loop mk chk p is (S\<lparr> pl2_grp := pl2_grp S @ [g], total_crit := tot \<rparr>) subs'
           else pop_loop mk chk p is S subs
         else
           case add_loop mk chk crits (l1_grp S) (total_crit S) subs of
             Inl e \<Rightarrow> Inl e
           | Inr (g, tot, subs') \<Rightarrow> pop_loop mk chk p is (S\<lparr> l1_grp := g, total_crit := tot \<rparr>) subs')"

definition populate_groups ::
  "(string \<Rightarrow> 64 word \<Rightarrow> 'f CRITERION_ONE res) \<Rightarrow> bool \<Rightarrow> int list \<Rightarrow> GY_BOOLPARSE \<Rightarrow> 'f CRITERIA_SET res" where
  "populate_groups mk is_multihost allowed p =
     (if ncritgroups p > MAX_CRITERIA_GROUPS then Inl ERR_INVALID_REQUEST
      else if max1crit p > MAX_ONE_GROUP_CRITERIA then Inl ERR_INVALID_REQUEST
      else
        let op = (if is_l1_and p then OPER_AND else OPER_OR);
            S0 = empty_set\<lparr> l1_oper := op,
                   l1_grp := (if nl1_crit p \<noteq> 0 then \<lparr> pcritarr = [], maxcrit = nl1_crit p, oper = op \<rparr> else empty_group) \<rparr>
        in case pop_loop mk is_multihost p [0..<ncritgroups p] S0 [] of
            Inl e \<Rightarrow> Inl e
          | Inr (S, subs) \<Rightarrow>
              if total_crit S = 0 then Inl ERR_SERV_ERROR
              else if allowed \<noteq> [] \<and> \<not> list_all (\<lambda>s. s \<in> set allowed) subs then Inl ERR_INVALID_REQUEST
              else if length subs > 2 then Inl ERR_INVALID_REQUEST
              else let S' = S\<lparr> psubsys_arr := subs \<rparr> in
                if is_multihost \<and> \<not> validate_multihost_criteria S' then Inl ERR_INVALID_REQUEST else Inr S')"

section \<open>The stored criteria\<close>

lemma intern_fold:
  assumes "fold intern_one ss (Map.empty, [], []) = (m, mv, ids)"
  shows "distinct (map fnv1_hash mv) \<and> length ids = length ss \<and>
    (\<forall>h i. m h = Some i \<longleftrightarrow> i < length mv \<and> fnv1_hash (mv ! i) = h) \<and>
    (\<forall>k<length ss. ids ! k < length mv \<and> fnv1_hash (mv ! (ids ! k)) = fnv1_hash (ss ! k))"
  using assms
proof (induction ss arbitrary: m mv ids rule: rev_induct)
  case (snoc s ss)
  obtain m0 mv0 ids0 where f: "fold intern_one ss (Map.empty, [], []) = (m0, mv0, ids0)" by (rule prod_cases3)
  note i = snoc.IH [OF f]
  have st: "intern_one s (m0, mv0, ids0) = (m, mv, ids)" using snoc.prems f by simp
  show ?case
  proof (cases "m0 (fnv1_hash s)")
    case None
    then have "m = m0(fnv1_hash s \<mapsto> length mv0)" "mv = mv0 @ [s]" "ids = ids0 @ [length mv0]"
      using st by (simp_all add: intern_one_def)
    moreover have ne: "fnv1_hash (mv0 ! j) \<noteq> fnv1_hash s" if "j < length mv0" for j
      using i None that by (metis option.distinct(1))
    moreover have "fnv1_hash s \<notin> fnv1_hash ` set mv0" using ne by (metis imageE in_set_conv_nth)
    ultimately show ?thesis using i by (auto simp: nth_append less_Suc_eq)
  next
    case (Some j)
    then have "m = m0" "mv = mv0" "ids = ids0 @ [j]" using st by (simp_all add: intern_one_def)
    then show ?thesis using i Some by (auto simp: nth_append less_Suc_eq)
  qed
qed simp

text \<open>The stored criteria have different hashes, so that no two of them share a remembered result; a criterion and the
  one that is stored for it have the same hash, but need not have the same text.\<close>

lemma intern_criteria_hashes:
  assumes "intern_criteria ss = (mv, ids)"
  shows "distinct (map fnv1_hash mv) \<and> length ids = length ss \<and>
    (\<forall>k<length ss. ids ! k < length mv \<and> fnv1_hash (mv ! (ids ! k)) = fnv1_hash (ss ! k))"
proof -
  obtain m where "fold intern_one ss (Map.empty, [], []) = (m, mv, ids)"
    using assms by (cases "fold intern_one ss (Map.empty, [], [])") (simp add: intern_criteria_def)
  from intern_fold [OF this] show ?thesis by blast
qed

section \<open>The result of a group and of a set\<close>

text \<open>The values \<open>val\<close> of the criteria in \<open>C\<close>, on a row where none traps, and a memory that agrees with them:
  the value is a function of the hash.\<close>

definition valued :: "'f ROW \<Rightarrow> int \<Rightarrow> ('f CRITERION_ONE \<Rightarrow> bool) \<Rightarrow> 'f CRITERION_ONE set \<Rightarrow> bool" where
  "valued R tcurr val C \<longleftrightarrow> (\<forall>c\<in>C. match_criterian R tcurr c = Some (val c)) \<and>
     (\<forall>c\<in>C. \<forall>d\<in>C. hash c \<noteq> 0 \<longrightarrow> hash c = hash d \<longrightarrow> val c = val d)"

definition memo_ok :: "('f CRITERION_ONE \<Rightarrow> bool) \<Rightarrow> 'f CRITERION_ONE set \<Rightarrow> memo \<Rightarrow> bool" where
  "memo_ok val C fmap \<longleftrightarrow> (\<forall>c\<in>C. \<forall>b. hash c \<noteq> 0 \<longrightarrow> map_of fmap (hash c) = Some b \<longrightarrow> b = val c)"

lemma valued_mono: "valued R tcurr val C \<Longrightarrow> D \<subseteq> C \<Longrightarrow> valued R tcurr val D"
  by (simp add: valued_def subset_iff)

lemma memo_eval_ok:
  assumes "valued R tcurr val C" "memo_ok val C fmap" "c \<in> C"
  obtains fmap' where "memo_eval R tcurr mx c fmap = Some (val c, fmap')" "memo_ok val C fmap'"
proof (cases "if hash c \<noteq> 0 then map_of fmap (hash c) else None")
  case None
  have m: "match_criterian R tcurr c = Some (val c)" using assms(1,3) by (simp add: valued_def)
  let ?f = "if hash c \<noteq> 0 \<and> length fmap < mx then (hash c, val c) # fmap else fmap"
  have "memo_eval R tcurr mx c fmap = Some (val c, ?f)"
    using None m by (simp add: memo_eval_def)
  moreover have "memo_ok val C ((hash c, val c) # fmap)"
    unfolding memo_ok_def
  proof (intro ballI allI impI)
    fix d b assume d: "d \<in> C" "hash d \<noteq> 0" "map_of ((hash c, val c) # fmap) (hash d) = Some b"
    show "b = val d"
    proof (cases "hash d = hash c")
      case True
      then have "val c = val d" using assms(1,3) d unfolding valued_def by metis
      then show ?thesis using d(3) True by simp
    next
      case False
      then show ?thesis using d assms(2) by (simp add: memo_ok_def)
    qed
  qed
  ultimately show ?thesis using that assms(2) by presburger
next
  case (Some b)
  then have "hash c \<noteq> 0" "map_of fmap (hash c) = Some b" by (auto split: if_splits)
  moreover from this have "b = val c" using assms(2,3) by (auto simp: memo_ok_def)
  ultimately show ?thesis using that [of fmap] assms(2) by (simp add: memo_eval_def)
qed

abbreviation "allowed_in al cs \<equiv> filter (\<lambda>c. is_subsystem_allowed (subsys c) al) cs"

text \<open>The result of a group. Criteria of other subsystems are passed over; an \<open>or\<close> group with such criteria is
  skipped where it would fail without them, an \<open>and\<close> group passes without them.\<close>

definition group_result ::
  "('f CRITERION_ONE \<Rightarrow> bool) \<Rightarrow> int list option \<Rightarrow> GROUP_OPER_E \<Rightarrow> 'f CRITERION_ONE list \<Rightarrow> CRIT_RET_E" where
  "group_result val al op cs =
     (let A = allowed_in al cs in
      if op = OPER_OR then
        if list_ex val A then CRIT_PASS else if A = [] \<or> length A \<noteq> length cs then CRIT_SKIP else CRIT_FAIL
      else if \<not> list_all val A then CRIT_FAIL else if A \<noteq> [] then CRIT_PASS else CRIT_SKIP)"

lemma group_loop_or:
  assumes "valued R tcurr val C" "memo_ok val C fmap" "set cs \<subseteq> C"
  shows "\<exists>fmap'. group_loop R tcurr al mx OPER_OR cs fmap ne ns ie =
      Some (if list_ex val (allowed_in al cs) then CRIT_PASS
            else if ne + length (allowed_in al cs) = 0 \<or> ns \<noteq> 0 \<or> length (allowed_in al cs) \<noteq> length cs
            then CRIT_SKIP else CRIT_FAIL, fmap') \<and> memo_ok val C fmap'"
  using assms(2,3)
proof (induction cs arbitrary: fmap ne ns ie)
  case (Cons c cs)
  show ?case
  proof (cases "is_subsystem_allowed (subsys c) al")
    case False
    have "length (allowed_in al cs) \<noteq> Suc (length cs)"
      using length_filter_le [of "\<lambda>c. is_subsystem_allowed (subsys c) al" cs] by linarith
    then show ?thesis
      using False Cons.IH [of fmap ne "ns + 1" ie] Cons.prems by (auto split: if_splits)
  next
    case True
    obtain fmap' where e: "memo_eval R tcurr mx c fmap = Some (val c, fmap')" "memo_ok val C fmap'"
      using memo_eval_ok [OF assms(1) Cons.prems(1), of c] Cons.prems(2) by auto
    show ?thesis
      using True e Cons.prems Cons.IH [of fmap' "ne + 1" ns ie] by (cases "val c") auto
  qed
qed simp

lemma group_loop_and:
  assumes "valued R tcurr val C" "memo_ok val C fmap" "set cs \<subseteq> C" "ie = (ne \<noteq> 0)"
  shows "\<exists>fmap'. group_loop R tcurr al mx OPER_AND cs fmap ne ns ie =
      Some (if \<not> list_all val (allowed_in al cs) then CRIT_FAIL
            else if ie \<or> allowed_in al cs \<noteq> [] then CRIT_PASS else CRIT_SKIP, fmap') \<and> memo_ok val C fmap'"
  using assms(2-)
proof (induction cs arbitrary: fmap ne ns ie)
  case (Cons c cs)
  show ?case
  proof (cases "is_subsystem_allowed (subsys c) al")
    case False
    then show ?thesis using Cons.IH [of fmap ie ne "ns + 1"] Cons.prems by (auto split: if_splits)
  next
    case True
    obtain fmap' where e: "memo_eval R tcurr mx c fmap = Some (val c, fmap')" "memo_ok val C fmap'"
      using memo_eval_ok [OF assms(1) Cons.prems(1), of c] Cons.prems(2) by auto
    show ?thesis
      using True e Cons.prems Cons.IH [of fmap' True "ne + 1" ns] by (cases "val c") auto
  qed
qed simp

lemma group_ok:
  assumes "valued R tcurr val C" "memo_ok val C fmap" "set (pcritarr g) \<subseteq> C"
  obtains fmap' where
    "match_criteria_group R tcurr al mx g fmap = Some (group_result val al (oper g) (pcritarr g), fmap')" "memo_ok val C fmap'"
proof (cases "oper g")
  case OPER_OR
  then show ?thesis
    using that group_loop_or [OF assms, of al mx 0 0 False] by (auto simp: match_criteria_group_def group_result_def Let_def)
next
  case OPER_AND
  then show ?thesis
    using that group_loop_and [OF assms, of False 0 al mx 0] by (auto simp: match_criteria_group_def group_result_def Let_def)
qed

abbreviation "set_results val al gs \<equiv> map (\<lambda>g. group_result val al (oper g) (pcritarr g)) gs"

definition set_result :: "GROUP_OPER_E \<Rightarrow> CRIT_RET_E list \<Rightarrow> CRIT_RET_E" where
  "set_result op rs =
     (if op = OPER_OR then
        if CRIT_PASS \<in> set rs then CRIT_PASS
        else if CRIT_SKIP \<in> set rs \<and> CRIT_FAIL \<notin> set rs then CRIT_SKIP else CRIT_FAIL
      else if CRIT_FAIL \<in> set rs then CRIT_FAIL
      else if CRIT_SKIP \<in> set rs then CRIT_SKIP
      else if rs \<noteq> [] then CRIT_PASS else CRIT_FAIL)"

lemma set_loop_or:
  assumes "valued R tcurr val C" "memo_ok val C fmap" "\<forall>g\<in>set gs. set (pcritarr g) \<subseteq> C"
  shows "set_loop R tcurr al OPER_OR gs fmap 0 nf nsk = Some
     (if CRIT_PASS \<in> set (set_results val al gs) then CRIT_PASS
      else if (nsk \<noteq> 0 \<or> CRIT_SKIP \<in> set (set_results val al gs)) \<and> nf = 0 \<and> CRIT_FAIL \<notin> set (set_results val al gs)
      then CRIT_SKIP else CRIT_FAIL)"
  using assms(2,3)
proof (induction gs arbitrary: fmap nf nsk)
  case (Cons g gs)
  obtain fmap' where e: "match_criteria_group R tcurr al MAX_CMAP_ENTRIES g fmap =
      Some (group_result val al (oper g) (pcritarr g), fmap')" "memo_ok val C fmap'"
    using group_ok [OF assms(1) Cons.prems(1), of g] Cons.prems(2) by auto
  show ?case
    using e Cons.prems Cons.IH [OF e(2)]
    by (cases "group_result val al (oper g) (pcritarr g)") auto
qed simp

lemma set_loop_and:
  assumes "valued R tcurr val C" "memo_ok val C fmap" "\<forall>g\<in>set gs. set (pcritarr g) \<subseteq> C"
  shows "set_loop R tcurr al OPER_AND gs fmap np 0 nsk = Some
     (if CRIT_FAIL \<in> set (set_results val al gs) then CRIT_FAIL
      else if nsk \<noteq> 0 \<or> CRIT_SKIP \<in> set (set_results val al gs) then CRIT_SKIP
      else if np \<noteq> 0 \<or> gs \<noteq> [] then CRIT_PASS else CRIT_FAIL)"
  using assms(2,3)
proof (induction gs arbitrary: fmap np nsk)
  case (Cons g gs)
  obtain fmap' where e: "match_criteria_group R tcurr al MAX_CMAP_ENTRIES g fmap =
      Some (group_result val al (oper g) (pcritarr g), fmap')" "memo_ok val C fmap'"
    using group_ok [OF assms(1) Cons.prems(1), of g] Cons.prems(2) by auto
  show ?case
    using e Cons.prems Cons.IH [OF e(2)]
    by (cases "group_result val al (oper g) (pcritarr g)") auto
qed simp

definition set_groups :: "'f CRITERIA_SET \<Rightarrow> 'f CRITERIA_ONE_GROUP list" where
  "set_groups S = (if pcritarr (l1_grp S) \<noteq> [] then [l1_grp S] else []) @ pl2_grp S"

definition no_subsystem :: "int list option \<Rightarrow> 'f CRITERIA_SET \<Rightarrow> bool" where
  "no_subsystem al S \<longleftrightarrow> (case al of None \<Rightarrow> False | Some arr \<Rightarrow> set arr \<inter> set (psubsys_arr S) = {})"

lemma match_criteria_result:
  assumes "valued R tcurr val (\<Union>g\<in>set (set_groups S). set (pcritarr g))"
  shows "match_criteria R tcurr al S = Some
     (if total_crit S = 0 \<or> no_subsystem al S then CRIT_SKIP
      else set_result (l1_oper S) (set_results val al (set_groups S)))"
proof -
  let ?C = "\<Union>g\<in>set (set_groups S). set (pcritarr g)"
  have "memo_ok val ?C []" by (simp add: memo_ok_def)
  moreover have "\<forall>g\<in>set (set_groups S). set (pcritarr g) \<subseteq> ?C" by blast
  ultimately have "set_loop R tcurr al (l1_oper S) (set_groups S) [] 0 0 0
      = Some (set_result (l1_oper S) (set_results val al (set_groups S)))"
    using set_loop_or [OF assms] set_loop_and [OF assms]
    by (cases "l1_oper S") (auto simp: set_result_def)
  moreover have "(case al of None \<Rightarrow> False | Some arr \<Rightarrow> \<not> list_ex (\<lambda>s. s \<in> set (psubsys_arr S)) arr)
      = no_subsystem al S"
    by (auto simp: no_subsystem_def list_ex_iff split: option.split)
  ultimately show ?thesis unfolding match_criteria_def set_groups_def [symmetric] by simp
qed

section \<open>What the groups of a filter hold\<close>

definition crit_of :: "(string \<Rightarrow> 64 word \<Rightarrow> 'f CRITERION_ONE res) \<Rightarrow> string \<Rightarrow> 'f CRITERION_ONE" where
  "crit_of mk s = projr (mk s (ucast (fnv1_hash s)))"

definition made :: "(string \<Rightarrow> 64 word \<Rightarrow> 'f CRITERION_ONE res) \<Rightarrow> string \<Rightarrow> bool" where
  "made mk s \<longleftrightarrow> mk s (ucast (fnv1_hash s)) = Inr (crit_of mk s)"

lemma add_loop_ok:
  assumes "add_loop mk chk ss g tot subs = Inr (g', tot', subs')" "length (pcritarr g) + length ss \<le> maxcrit g"
  shows "g' = g\<lparr> pcritarr := pcritarr g @ map (crit_of mk) ss \<rparr> \<and> tot' = tot + length ss \<and> list_all (made mk) ss"
  using assms
proof (induction ss arbitrary: g tot subs)
  case (Cons s ss)
  then have "length (pcritarr g) < maxcrit g" by simp
  with Cons.prems(1) obtain c where c: "mk s (ucast (fnv1_hash s)) = Inr c"
    "add_loop mk chk ss (g\<lparr> pcritarr := pcritarr g @ [c] \<rparr>) (tot + 1) (List.insert (subsys c) subs) = Inr (g', tot', subs')"
    by (auto simp: add_criterion_def split: if_splits sum.splits)
  then have "crit_of mk s = c" "made mk s" by (simp_all add: crit_of_def made_def)
  with Cons.IH [OF c(2)] Cons.prems(2) show ?case by simp
qed simp

definition and_group :: "(string \<Rightarrow> 64 word \<Rightarrow> 'f CRITERION_ONE res) \<Rightarrow> string list \<Rightarrow> 'f CRITERIA_ONE_GROUP" where
  "and_group mk ss = \<lparr> pcritarr = map (crit_of mk) ss, maxcrit = length ss, oper = OPER_AND \<rparr>"

abbreviation "big ss \<equiv> length ss > 1"

lemma pop_loop_many:
  assumes "pop_loop mk chk p is S subs = Inr (S', subs')" "ncritgroups p \<noteq> 1"
    "\<forall>i\<in>set is. get_group_criteria p i (max1crit p) = Inr (G i)"
    "length (pl2_grp S) + length (filter (\<lambda>i. big (G i)) is) \<le> nl2groups p"
    "length (pcritarr (l1_grp S)) + length (concat (map G (filter (\<lambda>i. \<not> big (G i)) is))) \<le> maxcrit (l1_grp S)"
  shows "pcritarr (l1_grp S') = pcritarr (l1_grp S) @ map (crit_of mk) (concat (map G (filter (\<lambda>i. \<not> big (G i)) is))) \<and>
    oper (l1_grp S') = oper (l1_grp S) \<and> pl2_grp S' = pl2_grp S @ map (\<lambda>i. and_group mk (G i)) (filter (\<lambda>i. big (G i)) is) \<and>
    l1_oper S' = l1_oper S \<and> list_all (\<lambda>i. list_all (made mk) (G i)) is"
  using assms
proof (induction "is" arbitrary: S subs)
  case (Cons i "is")
  show ?case
  proof (cases "big (G i)")
    case True
    then obtain g tot subs1 where
      a: "add_loop mk chk (G i) \<lparr> pcritarr = [], maxcrit = length (G i), oper = OPER_AND \<rparr> (total_crit S) subs = Inr (g, tot, subs1)"
        "pop_loop mk chk p is (S\<lparr> pl2_grp := pl2_grp S @ [g], total_crit := tot \<rparr>) subs1 = Inr (S', subs')"
      using Cons.prems by (auto split: sum.splits)
    have "g = and_group mk (G i)" "list_all (made mk) (G i)"
      using add_loop_ok [OF a(1)] by (auto simp: and_group_def)
    with Cons.IH [OF a(2)] True Cons.prems show ?thesis by simp
  next
    case False
    then obtain g tot subs1 where
      a: "add_loop mk chk (G i) (l1_grp S) (total_crit S) subs = Inr (g, tot, subs1)"
        "pop_loop mk chk p is (S\<lparr> l1_grp := g, total_crit := tot \<rparr>) subs1 = Inr (S', subs')"
      using Cons.prems by (auto split: sum.splits)
    have "g = (l1_grp S)\<lparr> pcritarr := pcritarr (l1_grp S) @ map (crit_of mk) (G i) \<rparr>" "list_all (made mk) (G i)"
      using add_loop_ok [OF a(1)] False Cons.prems by auto
    with Cons.IH [OF a(2)] False Cons.prems show ?thesis by simp
  qed
qed simp

lemma pop_loop_one:
  assumes "pop_loop mk chk p [i] S subs = Inr (S', subs')" "ncritgroups p = 1"
    "get_group_criteria p i (max1crit p) = Inr ss" "length (pcritarr (l1_grp S)) + length ss \<le> maxcrit (l1_grp S)"
  shows "pcritarr (l1_grp S') = pcritarr (l1_grp S) @ map (crit_of mk) ss \<and> oper (l1_grp S') = oper (l1_grp S) \<and>
    pl2_grp S' = pl2_grp S \<and> l1_oper S' = l1_oper S \<and> list_all (made mk) ss"
proof -
  obtain g tot where a: "add_loop mk chk ss (l1_grp S) (total_crit S) subs = Inr (g, tot, subs')"
    "S' = S\<lparr> l1_grp := g, total_crit := tot \<rparr>"
    using assms by (auto split: sum.splits)
  from add_loop_ok [OF a(1) assms(4)] a(2) show ?thesis by simp
qed

text \<open>The numbers of \<open>GY_BOOLPARSE\<close> are those that the groups need.\<close>

lemma dnf_loop_ok:
  assumes "dnf_loop n ts p = Inr p'"
  shows "idvec p' = idvec p @ map fst ts \<and> mapvec p' = mapvec p \<and> ncritgroups p' = ncritgroups p \<and>
    is_l1_and p' = is_l1_and p \<and> max1crit p \<le> max1crit p' \<and>
    (\<forall>t\<in>set ts. length (fst t) \<le> max1crit p' \<and> (\<forall>i\<in>set (fst t). i < length (mapvec p))) \<and>
    bp_total_crit p' = bp_total_crit p + length (concat (map fst ts)) \<and>
    (n > 1 \<longrightarrow> nl2groups p' = nl2groups p + length (filter big (map fst ts)) \<and>
      nl1_crit p' = nl1_crit p + length (concat (filter (\<lambda>l. \<not> big l) (map fst ts))))"
  using assms
proof (induction ts arbitrary: p)
  case (Cons t ts)
  obtain pos neg where t: "t = (pos, neg)" by (cases t)
  from Cons.prems Cons.IH show ?case
    by (fastforce simp: t Let_def list_all_iff split: if_splits)
qed simp

abbreviation "terms_of texts terms \<equiv> map (\<lambda>t. map (\<lambda>i. texts ! i) (fst t)) terms"

lemma dnf_parse_ok:
  assumes "dnf_parse texts terms = Inr p"
  shows "ncritgroups p = length terms \<and> idvec p = map fst terms \<and> mapvec p = texts \<and> is_l1_and p = (length terms = 1) \<and>
    (\<forall>t\<in>set terms. length (fst t) \<le> max1crit p \<and> (\<forall>i\<in>set (fst t). i < length texts)) \<and>
    (length terms = 1 \<longrightarrow> nl1_crit p = length (fst (hd terms))) \<and>
    (length terms > 1 \<longrightarrow> nl2groups p = length (filter big (map fst terms)) \<and>
       nl1_crit p = length (concat (filter (\<lambda>l. \<not> big l) (map fst terms))))"
proof -
  obtain p1 where p1: "dnf_loop (length terms) terms \<lparr> mapvec = texts, firstcrit = [], idvec = [], ncritgroups = length terms,
             nl2groups = 0, nl1_crit = 0, max1crit = 0, bp_total_crit = 0, is_l1_and = False \<rparr> = Inr p1"
    "p = (if length terms = 1 then p1\<lparr> nl1_crit := bp_total_crit p1, is_l1_and := True \<rparr> else p1)"
    using assms by (auto simp: dnf_parse_def split: if_splits sum.splits)
  have "length (concat (map fst terms)) = length (fst (hd terms))" if "length terms = 1"
    using that by (cases terms) auto
  with dnf_loop_ok [OF p1(1)] p1(2) show ?thesis by auto
qed

lemma dnf_group:
  assumes "dnf_parse texts terms = Inr p" "i < length terms" "fst (terms ! i) \<noteq> []"
  shows "get_group_criteria p i (max1crit p) = Inr (terms_of texts terms ! i)"
proof -
  note d = dnf_parse_ok [OF assms(1)]
  have l: "length (fst (terms ! i)) \<le> max1crit p" using d assms(2) by simp
  have "max1crit p \<noteq> 0" using l assms(3) by (cases "fst (terms ! i)") auto
  moreover have "idvec p = map fst terms" "mapvec p = texts" using d by auto
  ultimately show ?thesis using l assms(2) by (simp add: get_group_criteria_def Let_def not_less)
qed

text \<open>The groups of the set: a single term is the first level \<open>and\<close> group; of several terms those with one
  criterion are together in the first level \<open>or\<close> group, and each of the others is an \<open>and\<close> group.\<close>

definition groups_spec :: "(string \<Rightarrow> 64 word \<Rightarrow> 'f CRITERION_ONE res) \<Rightarrow> string list list \<Rightarrow> 'f CRITERIA_SET \<Rightarrow> bool" where
  "groups_spec mk ts S \<longleftrightarrow> list_all (list_all (made mk)) ts \<and>
     (if length ts = 1 then l1_oper S = OPER_AND \<and> oper (l1_grp S) = OPER_AND \<and>
        pcritarr (l1_grp S) = map (crit_of mk) (hd ts) \<and> pl2_grp S = []
      else l1_oper S = OPER_OR \<and> (pcritarr (l1_grp S) \<noteq> [] \<longrightarrow> oper (l1_grp S) = OPER_OR) \<and>
        pcritarr (l1_grp S) = map (crit_of mk) (concat (filter (\<lambda>l. \<not> big l) ts)) \<and>
        pl2_grp S = map (and_group mk) (filter big ts))"

lemma map_nth_filter: "map (\<lambda>i. f (xs ! i)) (filter (\<lambda>i. P (xs ! i)) [0..<length xs]) = map f (filter P xs)"
proof -
  have "map f (filter P xs) = map f (filter P (map ((!) xs) [0..<length xs]))" by (simp only: map_nth)
  then show ?thesis by (simp add: filter_map comp_def)
qed

lemma filter_big_terms: "length (filter big (map fst terms)) = length (filter big (terms_of texts terms))"
  "length (concat (filter (\<lambda>l. \<not> big l) (map fst terms))) = length (concat (filter (\<lambda>l. \<not> big l) (terms_of texts terms)))"
  by (induction terms) auto

lemma pop_loop_terms:
  assumes "pop_loop mk chk p [0..<length ts] S subs = Inr (S', subs')" "ncritgroups p \<noteq> 1"
    "\<forall>i<length ts. get_group_criteria p i (max1crit p) = Inr (ts ! i)"
    "length (pl2_grp S) + length (filter big ts) \<le> nl2groups p"
    "length (pcritarr (l1_grp S)) + length (concat (filter (\<lambda>l. \<not> big l) ts)) \<le> maxcrit (l1_grp S)"
  shows "pcritarr (l1_grp S') = pcritarr (l1_grp S) @ map (crit_of mk) (concat (filter (\<lambda>l. \<not> big l) ts)) \<and>
    oper (l1_grp S') = oper (l1_grp S) \<and> pl2_grp S' = pl2_grp S @ map (and_group mk) (filter big ts) \<and>
    l1_oper S' = l1_oper S \<and> list_all (list_all (made mk)) ts"
proof -
  have small: "map (\<lambda>i. ts ! i) (filter (\<lambda>i. \<not> big (ts ! i)) [0..<length ts]) = filter (\<lambda>l. \<not> big l) ts"
    using map_nth_filter [of "\<lambda>l. l" ts "\<lambda>l. \<not> big l"] by simp
  have large: "map (\<lambda>i. and_group mk (ts ! i)) (filter (\<lambda>i. big (ts ! i)) [0..<length ts]) = map (and_group mk) (filter big ts)"
    by (rule map_nth_filter)
  have nl: "length (filter (\<lambda>i. big (ts ! i)) [0..<length ts]) = length (filter big ts)"
    using arg_cong [OF large, of length] by simp
  from pop_loop_many [OF assms(1,2), of "\<lambda>i. ts ! i"] assms(3-) show ?thesis
    unfolding small large nl by (simp add: list_all_length)
qed

lemma populate_ok:
  assumes "dnf_parse texts terms = Inr p" "populate_groups mk mh al p = Inr S" "\<forall>t\<in>set terms. fst t \<noteq> []"
  shows "terms \<noteq> [] \<and> total_crit S \<noteq> 0 \<and> groups_spec mk (terms_of texts terms) S"
proof -
  let ?ts = "terms_of texts terms" and ?op = "if is_l1_and p then OPER_AND else OPER_OR"
  let ?S0 = "empty_set\<lparr> l1_oper := ?op,
       l1_grp := (if nl1_crit p \<noteq> 0 then \<lparr> pcritarr = [], maxcrit = nl1_crit p, oper = ?op \<rparr> else empty_group) \<rparr>"
  note d = dnf_parse_ok [OF assms(1)]
  obtain S1 subs where S1: "pop_loop mk mh p [0..<length terms] ?S0 [] = Inr (S1, subs)" "total_crit S1 \<noteq> 0"
    "S = S1\<lparr> psubsys_arr := subs \<rparr>"
    using assms(2) d by (auto simp: populate_groups_def Let_def split: if_splits sum.splits)
  have ne: "terms \<noteq> []" using S1(1,2) by (auto simp: empty_set_def)
  have G: "get_group_criteria p i (max1crit p) = Inr (?ts ! i)" if "i < length terms" for i
    using dnf_group [OF assms(1) that] assms(3) that by simp
  show ?thesis
  proof (cases "length terms = 1")
    case True
    then obtain t where t: "terms = [t]" by (cases terms) auto
    have "pop_loop mk mh p [0] ?S0 [] = Inr (S1, subs)" using S1(1) t by simp
    from pop_loop_one [OF this _ G [of 0]] show ?thesis
      using d t S1 assms(3) by (auto simp: groups_spec_def empty_set_def empty_group_def split: if_splits)
  next
    case False
    then have "length terms > 1" using ne by (cases terms) auto
    then have n2: "nl2groups p = length (filter big ?ts)" "nl1_crit p = length (concat (filter (\<lambda>l. \<not> big l) ?ts))"
      using d filter_big_terms [where terms = terms and texts = texts] by simp_all
    have l1: "pcritarr (l1_grp ?S0) = []" "pl2_grp ?S0 = []" "l1_oper ?S0 = OPER_OR"
      "maxcrit (l1_grp ?S0) = nl1_crit p" "oper (l1_grp ?S0) = OPER_OR"
      using False d by (auto simp: empty_set_def empty_group_def)
    have "pcritarr (l1_grp S1) = map (crit_of mk) (concat (filter (\<lambda>l. \<not> big l) ?ts)) \<and>
      oper (l1_grp S1) = OPER_OR \<and> pl2_grp S1 = map (and_group mk) (filter big ?ts) \<and>
      l1_oper S1 = OPER_OR \<and> list_all (list_all (made mk)) ?ts"
    proof -
      have pl: "pop_loop mk mh p [0..<length ?ts] ?S0 [] = Inr (S1, subs)" by (simp only: length_map S1(1))
      have gs: "\<forall>i<length ?ts. get_group_criteria p i (max1crit p) = Inr (?ts ! i)" using G by simp
      have ng: "ncritgroups p \<noteq> 1" using False d by simp
      have "length (pl2_grp ?S0) + length (filter big ?ts) \<le> nl2groups p"
        "length (pcritarr (l1_grp ?S0)) + length (concat (filter (\<lambda>l. \<not> big l) ?ts)) \<le> maxcrit (l1_grp ?S0)"
        unfolding l1 by (simp_all only: n2 list.size add_0 order_refl)
      from pop_loop_terms [OF pl ng gs this] show ?thesis unfolding l1 by (simp only: append_Nil)
    qed
    then show ?thesis
      using S1 ne False by (simp add: groups_spec_def)
  qed
qed

lemma group_result_all:
  "cs \<noteq> [] \<Longrightarrow> group_result val None op cs =
     (if op = OPER_OR then if list_ex val cs then CRIT_PASS else CRIT_FAIL
      else if list_all val cs then CRIT_PASS else CRIT_FAIL)"
  by (cases op) (auto simp: group_result_def is_subsystem_allowed_def)

lemma small_all_ex: "l \<noteq> [] \<Longrightarrow> \<not> big l \<Longrightarrow> (\<forall>s\<in>set l. Q s) \<longleftrightarrow> (\<exists>s\<in>set l. Q s)"
  by (cases l) auto

lemma dnf_set_result:
  assumes "groups_spec mk ts S" "\<forall>l\<in>set ts. l \<noteq> []" "ts \<noteq> []"
  shows "set_result (l1_oper S) (set_results val None (set_groups S)) =
    (if \<exists>l\<in>set ts. \<forall>s\<in>set l. val (crit_of mk s) then CRIT_PASS else CRIT_FAIL)"
proof (cases "length ts = 1")
  case True
  then obtain l where "ts = [l]" by (cases ts) auto
  then show ?thesis
    using assms by (auto simp: groups_spec_def set_groups_def set_result_def group_result_all list_all_iff)
next
  case False
  let ?sm = "concat (filter (\<lambda>l. \<not> big l) ts)"
  have S: "l1_oper S = OPER_OR" "pcritarr (l1_grp S) = map (crit_of mk) ?sm"
    "?sm \<noteq> [] \<Longrightarrow> oper (l1_grp S) = OPER_OR" "pl2_grp S = map (and_group mk) (filter big ts)"
    using assms(1) False by (auto simp: groups_spec_def)
  have l2: "group_result val None (oper (and_group mk l)) (pcritarr (and_group mk l)) =
      (if \<forall>s\<in>set l. val (crit_of mk s) then CRIT_PASS else CRIT_FAIL)" if "l \<noteq> []" for l
    using that by (simp add: and_group_def group_result_all list_all_iff)
  have l1: "group_result val None (oper (l1_grp S)) (pcritarr (l1_grp S)) =
      (if \<exists>s\<in>set ?sm. val (crit_of mk s) then CRIT_PASS else CRIT_FAIL)" if "?sm \<noteq> []"
    using that S(3) unfolding S(2) by (subst group_result_all) (auto simp: list_ex_iff)
  let ?rs = "set_results val None (set_groups S)"
  have rs: "set ?rs = (if ?sm \<noteq> [] then {if \<exists>s\<in>set ?sm. val (crit_of mk s) then CRIT_PASS else CRIT_FAIL} else {})
      \<union> (\<lambda>l. if \<forall>s\<in>set l. val (crit_of mk s) then CRIT_PASS else CRIT_FAIL) ` {l \<in> set ts. big l}"
    using l1 l2 assms(2) by (auto simp: set_groups_def S image_iff)
  have "CRIT_SKIP \<notin> set ?rs" unfolding rs by auto
  moreover have "CRIT_PASS \<in> set ?rs \<longleftrightarrow> (\<exists>l\<in>set ts. \<forall>s\<in>set l. val (crit_of mk s))"
  proof -
    have "(\<exists>l\<in>set ts. \<forall>s\<in>set l. val (crit_of mk s)) \<longleftrightarrow>
        (\<exists>s\<in>set ?sm. val (crit_of mk s)) \<or> (\<exists>l\<in>set ts. big l \<and> (\<forall>s\<in>set l. val (crit_of mk s)))"
      using assms(2) small_all_ex [where Q = "\<lambda>s. val (crit_of mk s)"] by (auto; metis)
    moreover have "(\<exists>s\<in>set ?sm. val (crit_of mk s)) \<Longrightarrow> ?sm \<noteq> []" by auto
    ultimately show ?thesis unfolding rs by (auto simp: image_iff split: if_splits)
  qed
  ultimately show ?thesis by (simp add: set_result_def S(1))
qed

lemma groups_crits:
  assumes "groups_spec mk ts S" "ts \<noteq> []"
  shows "(\<Union>g\<in>set (set_groups S). set (pcritarr g)) \<subseteq> crit_of mk ` set (concat ts)"
proof (cases "length ts = 1")
  case True
  then obtain l where "ts = [l]" by (cases ts) auto
  then show ?thesis using assms by (auto simp: groups_spec_def set_groups_def)
next
  case False
  then have "pcritarr (l1_grp S) = map (crit_of mk) (concat (filter (\<lambda>l. \<not> big l) ts))"
    "pl2_grp S = map (and_group mk) (filter big ts)"
    using assms(1) by (auto simp: groups_spec_def)
  then show ?thesis by (force simp: set_groups_def and_group_def split: if_splits)
qed

lemma ucast_32_64_inj: "(ucast a :: 64 word) = ucast b \<longleftrightarrow> a = b" for a b :: "32 word"
proof
  assume "(ucast a :: 64 word) = ucast b"
  then have "unat (ucast a :: 64 word) = unat (ucast b :: 64 word)" by simp
  moreover have "unat a < 2 ^ 64" "unat b < 2 ^ 64"
    using unsigned_less [of a, where 'a = nat] unsigned_less [of b, where 'a = nat] by simp_all
  ultimately show "a = b"
    by (simp add: unsigned_ucast_eq take_bit_nat_eq_self word_unat_eq_iff)
qed simp

lemma phase_fail_final:
  "group_result val (Some arr) op cs = CRIT_FAIL \<Longrightarrow> group_result val None op cs = CRIT_FAIL"
proof (cases op)
  case OPER_OR
  assume "group_result val (Some arr) op cs = CRIT_FAIL"
  then have n: "\<not> list_ex val (allowed_in (Some arr) cs)" "allowed_in (Some arr) cs \<noteq> []"
      "length (allowed_in (Some arr) cs) = length cs"
    using OPER_OR by (auto simp: group_result_def Let_def split: if_splits)
  have "allowed_in (Some arr) cs = cs" using n(3) by (metis filter_True length_filter_less order_less_irrefl)
  then show ?thesis using n OPER_OR by (simp add: group_result_def is_subsystem_allowed_def)
next
  case OPER_AND
  assume "group_result val (Some arr) op cs = CRIT_FAIL"
  then show ?thesis using OPER_AND
    by (auto simp: group_result_def is_subsystem_allowed_def list_all_iff Let_def split: if_splits)
qed

lemma phase_or_pass_final:
  "group_result val (Some arr) OPER_OR cs = CRIT_PASS \<Longrightarrow> group_result val None OPER_OR cs = CRIT_PASS"
  by (auto simp: group_result_def is_subsystem_allowed_def list_ex_iff Let_def split: if_splits)

section \<open>Properties\<close>

text \<open>(C20) A filter matches a row exactly when its disjunctive normal form does: for a filter whose terms were
  accepted, evaluating the groups that \<open>populate_groups\<close> has made of them gives \<open>CRIT_PASS\<close> if in some term every
  criterion holds, and \<open>CRIT_FAIL\<close> otherwise, never \<open>CRIT_SKIP\<close>. Neither the split into two levels nor the
  memory of results changes this, as long as criteria with the same hash agree. The criteria
  are those of the constructor \<open>mk\<close>, which stores the hash, and none of them traps on the row.\<close>

theorem filter_is_dnf:
  assumes mk: "\<forall>s h c. mk s h = Inr c \<longrightarrow> hash c = h"
    and p: "dnf_parse texts terms = Inr p" "\<forall>t\<in>set terms. fst t \<noteq> []"
    and S: "populate_groups mk mh allowed p = Inr S"
    and ev: "\<forall>s\<in>set texts. match_criterian R tcurr (crit_of mk s) = Some (v s)"
    and nocoll: "\<forall>s\<in>set texts. \<forall>s'\<in>set texts. fnv1_hash s = fnv1_hash s' \<longrightarrow> v s = v s'"
  shows "match_criteria R tcurr None S =
    Some (if \<exists>t\<in>set terms. \<forall>i\<in>set (fst t). v (texts ! i) then CRIT_PASS else CRIT_FAIL)"
proof -
  let ?ts = "terms_of texts terms" and ?val = "\<lambda>c. match_criterian R tcurr c = Some True"
  note po = populate_ok [OF p(1) S p(2)]
  have tx: "set (concat ?ts) \<subseteq> set texts" using dnf_parse_ok [OF p(1)] by fastforce
  have made: "made mk s" if "s \<in> set (concat ?ts)" for s
    using po that by (auto simp: groups_spec_def list_all_iff)
  have val: "match_criterian R tcurr (crit_of mk s) = Some (?val (crit_of mk s))" "?val (crit_of mk s) = v s"
    if "s \<in> set texts" for s using ev that by auto
  have crits: "(\<Union>g\<in>set (set_groups S). set (pcritarr g)) \<subseteq> crit_of mk ` set (concat ?ts)"
    using po groups_crits [of mk ?ts S] by simp
  have h: "hash (crit_of mk s) = ucast (fnv1_hash s)" if "s \<in> set (concat ?ts)" for s
    using mk made [OF that] by (simp add: made_def)
  have "valued R tcurr ?val (crit_of mk ` set (concat ?ts))"
    unfolding valued_def
  proof (intro conjI ballI impI)
    fix c assume "c \<in> crit_of mk ` set (concat ?ts)"
    then show "match_criterian R tcurr c = Some (?val c)" using val tx by blast
  next
    fix c d assume c: "c \<in> crit_of mk ` set (concat ?ts)" "d \<in> crit_of mk ` set (concat ?ts)" and "hash c = hash d"
    then obtain s s' where s: "s \<in> set (concat ?ts)" "s' \<in> set (concat ?ts)" "c = crit_of mk s" "d = crit_of mk s'" by blast
    then have "fnv1_hash s = fnv1_hash s'"
      using \<open>hash c = hash d\<close> h [of s] h [of s'] by (simp add: ucast_32_64_inj)
    moreover have st: "s \<in> set texts" "s' \<in> set texts" using subsetD [OF tx] s(1,2) by simp_all
    ultimately have "v s = v s'" by (intro nocoll [rule_format])
    then show "?val c = ?val d" using val(2) [OF st(1)] val(2) [OF st(2)] s(3,4) by simp
  qed
  then have "valued R tcurr ?val (\<Union>g\<in>set (set_groups S). set (pcritarr g))"
    using crits by (rule valued_mono)
  from match_criteria_result [OF this, of None] po have "match_criteria R tcurr None S =
      Some (set_result (l1_oper S) (set_results ?val None (set_groups S)))"
    by (simp add: no_subsystem_def)
  also have "\<dots> = Some (if \<exists>l\<in>set ?ts. \<forall>s\<in>set l. ?val (crit_of mk s) then CRIT_PASS else CRIT_FAIL)"
    using po p(2) dnf_set_result [of mk ?ts S ?val] by simp
  also have "(\<exists>l\<in>set ?ts. \<forall>s\<in>set l. ?val (crit_of mk s)) \<longleftrightarrow> (\<exists>t\<in>set terms. \<forall>i\<in>set (fst t). v (texts ! i))"
  proof -
    have "texts ! i \<in> set texts" if "t \<in> set terms" "i \<in> set (fst t)" for t i
      using dnf_parse_ok [OF p(1)] that by simp
    then have "?val (crit_of mk (texts ! i)) = v (texts ! i)" if "t \<in> set terms" "i \<in> set (fst t)" for t i
      using val(2) that by blast
    then show ?thesis by (simp cong: bex_cong ball_cong)
  qed
  finally show ?thesis .
qed

text \<open>A constructor for the examples: the criterion \<open>field > 0\<close> of the subsystem that the first character
  of the text names.\<close>

definition sample_mk :: "string \<Rightarrow> 64 word \<Rightarrow> string CRITERION_ONE res" where
  "sample_mk s h = Inr ((literal_crit s COMP_GT 0)\<lparr> hash := h, subsys := (if hd s = CHR ''h'' then 0 else 3) \<rparr>)"

definition sample_vals :: "string ROW" where
  "sample_vals = sample_row\<lparr> get_num_field := \<lambda>f s. num_int NUM_INT64 (if f \<in> {''sa'', ''sb''} then 1 else 0) \<rparr>"

definition sample_set :: "string list \<Rightarrow> (nat list \<times> nat list) list \<Rightarrow> string CRITERIA_SET" where
  "sample_set texts terms = projr (populate_groups sample_mk False [3, 0] (projr (dnf_parse texts terms)))"

theorem filter_is_dnf_witness:
  "match_criteria sample_vals 0 None (sample_set [''sa'', ''sb'', ''hd''] [([2], []), ([0, 1], [])]) = Some CRIT_PASS"
proof -
  let ?tx = "[''sa'', ''sb'', ''hd'']" and ?ts = "[([2], []), ([0, 1], [])] :: (nat list \<times> nat list) list"
  have p: "dnf_parse ?tx ?ts = Inr (projr (dnf_parse ?tx ?ts))" by code_simp
  have S: "populate_groups sample_mk False [3, 0] (projr (dnf_parse ?tx ?ts)) = Inr (sample_set ?tx ?ts)"
    by code_simp
  have ev: "\<forall>s\<in>set ?tx. match_criterian sample_vals 0 (crit_of sample_mk s) = Some (s \<noteq> ''hd'')" by code_simp
  have "\<forall>s\<in>set ?tx. \<forall>s'\<in>set ?tx. fnv1_hash s = fnv1_hash s' \<longrightarrow> (s \<noteq> ''hd'') = (s' \<noteq> ''hd'')" by code_simp
  from filter_is_dnf [OF _ p _ S ev this] show ?thesis by (simp add: sample_mk_def)
qed



text \<open>A pass in a phase does not mean that the filter holds, nor a failure that it does not: of
  \<open>sa and hd\<close> the phase without \<open>hd\<close> passes although \<open>hd\<close> fails; of \<open>sc or (ha and hb)\<close> the phase
  for the subsystem of \<open>sc\<close> fails although the other term holds.\<close>

lemma phase_results:
  "match_criteria sample_vals 0 (Some [3]) (sample_set [''sa'', ''hd''] [([0, 1], [])]) = Some CRIT_PASS \<and>
   match_criteria sample_vals 0 None (sample_set [''sa'', ''hd''] [([0, 1], [])]) = Some CRIT_FAIL \<and>
   match_criteria (sample_vals\<lparr> get_num_field := \<lambda>f s. num_int NUM_INT64 (if hd f = CHR ''h'' then 1 else 0) \<rparr>) 0 (Some [3])
     (sample_set [''sc'', ''ha'', ''hb''] [([0], []), ([1, 2], [])]) = Some CRIT_FAIL \<and>
   match_criteria (sample_vals\<lparr> get_num_field := \<lambda>f s. num_int NUM_INT64 (if hd f = CHR ''h'' then 1 else 0) \<rparr>) 0 None
     (sample_set [''sc'', ''ha'', ''hb''] [([0], []), ([1, 2], [])]) = Some CRIT_PASS"
  by (intro conjI; code_simp)

text \<open>Two different criteria can have the same hash. The second is then replaced by the first when the filter is read:
  a filter that asks for either of them becomes one that asks for the first, and fails although the second holds.\<close>

lemma hash_collision:
  "intern_criteria [''sererr = 151398'', ''p95resp5s > 13827''] = ([''sererr = 151398''], [0, 0]) \<and>
   match_criterian (sample_vals\<lparr> get_num_field := \<lambda>f s. num_int NUM_INT64 (if hd f = CHR ''p'' then 1 else 0) \<rparr>) 0
     (crit_of sample_mk ''p95resp5s > 13827'') = Some True \<and>
   match_criteria (sample_vals\<lparr> get_num_field := \<lambda>f s. num_int NUM_INT64 (if hd f = CHR ''p'' then 1 else 0) \<rparr>) 0 None
     (projr (populate_groups sample_mk False [3, 0] (single_parse ''sererr = 151398''))) = Some CRIT_FAIL"
  by (intro conjI; code_simp)

end
