(* ===== verification/Gy_Shyama_L1.thy ===== *)
theory Gy_Shyama_L1
  imports Gy_L1_Base
begin

text \<open>
  The dispatch of one message in the receiving threads of Shyama: the \<open>switch\<close> on the message type in the
  lambda \<open>handle_recv\<close> of \<open>SHCONN_HANDLER::handle_l1\<close> (\<open>server/gy_shconnhdlr.cc\<close>), with one definition per
  \<open>case\<close>, in the order of the source. \<open>c\<close> is the connection \<open>pconn1\<close>, \<open>h\<close> the header \<open>hdr\<close>, \<open>m\<close> the receive
  buffer, \<open>pn\<close> the address of the \<open>EVENT_NOTIFY\<close> and \<open>p\<close> the address of another struct after the header.

  The theorems are those for Madhava: the dispatch stays inside of the message, without an exception here;
  only registered Madhavas get an event scheduled, in the layout its consumer walks over; an unregistered
  connection can only register, a Madhava only with the secret of this Shyama.
\<close>

section \<open>State\<close>

datatype SH_TTYPE_E =
    SH_TTYPE_ACCEPT
  | SH_TTYPE_L1
  | SH_TTYPE_L2_DB
  | SH_TTYPE_L2_MISC
  | SH_TTYPE_L2_ALERT

text \<open>What Shyama knows of a Madhava (\<open>SHCONN_HANDLER::MADHAVA_INFO\<close>), as far as the registrations and the
  status messages use it.\<close>

record MADHAVA_INFO =
  madhava_id :: nat
  listener_port :: "string \<times> nat"
  prev_instance :: "string \<times> nat"
  tignore_till :: nat
  madhava_name :: string
  region_name :: string
  zone_name :: string
  last_status_tsec :: nat
  last_status_csec :: nat
  npartha_nodes :: "32 word"
  max_partha_nodes :: "32 word"
  approx_partha_conns :: "32 word"
  curr_par_adds :: "32 word"
  last_par_adds :: "32 word"

record SHCONNTRACK = CONNTRACK +
  madhava_shr :: "MADHAVA_INFO option"

text \<open>The versions and the secret of this Shyama, and the clocks at the time of the call: \<open>time(nullptr)\<close>,
  \<open>get_sec_time()\<close> and \<open>get_sec_clock()\<close>.\<close>

record SHYAMA =
  sh_version_num :: nat
  sh_min_partha_version :: nat
  sh_min_madhava_version :: nat
  sh_min_node_version :: nat
  shyama_secret :: "byte list"

record SH_CLOCKS =
  time_now :: "64 word"
  get_sec_time :: nat
  get_sec_clock :: nat

abbreviation (input) RESP_NUM_PARTHA :: nat where "RESP_NUM_PARTHA \<equiv> 2"

type_synonym sh_handler = "(SH_TTYPE_E, SHCONNTRACK) l1_case"

type_synonym sh_result = "(SH_TTYPE_E L1_ACTION \<times> stats_upd \<times> SHCONNTRACK \<times> mem) option"

section \<open>The cases of \<open>COMM_EVENT_NOTIFY\<close>\<close>

definition sh_NOTIFY_MS_TCP_CONN :: sh_handler where
  "sh_NOTIFY_MS_TCP_CONN c h m pn =
     l1_sched_valid (from_host HOST_MADHAVA c) (keep_mem m (MS_TCP_CONN_NOTIFY_validate h m pn)) SH_TTYPE_L2_MISC m"

definition sh_NOTIFY_MS_TCP_CONN_CLOSE :: sh_handler where
  "sh_NOTIFY_MS_TCP_CONN_CLOSE c h m pn =
     l1_sched_valid (from_host HOST_MADHAVA c) (keep_mem m (MS_TCP_CONN_CLOSE_validate h m pn)) SH_TTYPE_L2_MISC m"

definition sh_NOTIFY_NAT_TCP :: sh_handler where
  "sh_NOTIFY_NAT_TCP c h m pn =
     l1_sched_valid (from_host HOST_MADHAVA c) (keep_mem m (NAT_TCP_NOTIFY_validate h m pn)) SH_TTYPE_L2_MISC m"

definition sh_NOTIFY_MS_CLUSTER_STATE :: sh_handler where
  "sh_NOTIFY_MS_CLUSTER_STATE c h m pn =
     l1_sched_valid (from_host HOST_MADHAVA c) (keep_mem m (MS_CLUSTER_STATE_validate h m pn)) SH_TTYPE_L2_MISC m"

definition sh_NOTIFY_MS_PARTHA_PING :: sh_handler where
  "sh_NOTIFY_MS_PARTHA_PING c h m pn =
     l1_sched_valid (from_host HOST_MADHAVA c) (keep_mem m (MS_PARTHA_PING_validate h m pn)) SH_TTYPE_L2_DB m"

definition sh_NOTIFY_MS_SVC_CLUSTER_MESH :: sh_handler where
  "sh_NOTIFY_MS_SVC_CLUSTER_MESH c h m pn =
     l1_sched_valid (from_host HOST_MADHAVA c) (MS_SVC_CLUSTER_MESH_validate h m pn) SH_TTYPE_L2_MISC m"

definition sh_NOTIFY_MS_LISTENER_NAT_IP :: sh_handler where
  "sh_NOTIFY_MS_LISTENER_NAT_IP c h m pn =
     l1_sched_valid (from_host HOST_MADHAVA c) (MS_LISTENER_NAT_IP_validate h m pn) SH_TTYPE_L2_MISC m"

definition sh_NOTIFY_MS_REG_PARTHA :: sh_handler where
  "sh_NOTIFY_MS_REG_PARTHA c h m pn =
     l1_sched_valid (from_host HOST_MADHAVA c) (MS_REG_PARTHA_validate h m pn) SH_TTYPE_L2_MISC m"

definition sh_NOTIFY_ALERT_STAT_INFO :: sh_handler where
  "sh_NOTIFY_ALERT_STAT_INFO c h m pn =
     l1_sched_valid (from_host HOST_MADHAVA c) (ALERT_STAT_INFO_validate h m pn) SH_TTYPE_L2_ALERT m"

definition sh_NOTIFY_ALERT_STAT_CLOSE :: sh_handler where
  "sh_NOTIFY_ALERT_STAT_CLOSE c h m pn =
     l1_sched_valid (from_host HOST_MADHAVA c) (keep_mem m (ALERT_STAT_CLOSE_validate h m pn)) SH_TTYPE_L2_ALERT m"

text \<open>The counts of the message are 64 bits wide, those of \<open>MADHAVA_INFO\<close> 32.\<close>

definition status_update :: "SH_CLOCKS \<Rightarrow> nat \<Rightarrow> nat \<Rightarrow> MADHAVA_INFO \<Rightarrow> MADHAVA_INFO" where
  "status_update now nodes conns pmadhava = pmadhava\<lparr>
     last_status_tsec := get_sec_time now, last_status_csec := get_sec_clock now,
     npartha_nodes := of_nat nodes, approx_partha_conns := of_nat conns\<rparr>"

definition sh_NOTIFY_MADHAVA_SHYAMA_STATUS ::
  "SH_CLOCKS \<Rightarrow> SHCONNTRACK \<Rightarrow> COMM_HEADER \<Rightarrow> mem \<Rightarrow> nat \<Rightarrow> sh_result" where
  "sh_NOTIFY_MADHAVA_SHYAMA_STATUS now c h m pn =
     (if \<not> from_host HOST_MADHAVA c then with_conn c (invalid_msg [] m)
      else if MADHAVA_SHYAMA_STATUS_validate h = False then with_conn c (invalid_msg [] m)
      else case madhava_shr c of
        None \<Rightarrow> Some (L1_NEXT, [], c, m)
      | Some pmadhava \<Rightarrow> do {
          mid \<leftarrow> fld m (pn + csizeof EVENT_NOTIFY_t) MADHAVA_SHYAMA_STATUS_fields ''madhava_id_'';
          if mid = madhava_id pmadhava then do {
            nodes \<leftarrow> fld m (pn + csizeof EVENT_NOTIFY_t) MADHAVA_SHYAMA_STATUS_fields ''npartha_nodes_'';
            conns \<leftarrow> fld m (pn + csizeof EVENT_NOTIFY_t) MADHAVA_SHYAMA_STATUS_fields ''approx_partha_conns_'';
            Some (L1_NEXT, [], c\<lparr>madhava_shr := Some (status_update now nodes conns pmadhava)\<rparr>, m)
          }
          else Some (L1_NEXT, [], c, m)
        })"

definition sh_NOTIFY_PING_CONN :: sh_handler where
  "sh_NOTIFY_PING_CONN c h m pn =
     (if \<not> is_registered c then invalid_msg [] m else Some (L1_NEXT, [], m))"

text \<open>Every other subtype is ignored.\<close>

definition sh_event ::
  "SH_CLOCKS \<Rightarrow> NOTIFY_TYPE_E \<Rightarrow> SHCONNTRACK \<Rightarrow> COMM_HEADER \<Rightarrow> mem \<Rightarrow> nat \<Rightarrow> sh_result" where
  "sh_event now t c h m pn = (case t of
       NOTIFY_MS_TCP_CONN \<Rightarrow> with_conn c (sh_NOTIFY_MS_TCP_CONN c h m pn)
     | NOTIFY_MS_TCP_CONN_CLOSE \<Rightarrow> with_conn c (sh_NOTIFY_MS_TCP_CONN_CLOSE c h m pn)
     | NOTIFY_NAT_TCP \<Rightarrow> with_conn c (sh_NOTIFY_NAT_TCP c h m pn)
     | NOTIFY_MS_CLUSTER_STATE \<Rightarrow> with_conn c (sh_NOTIFY_MS_CLUSTER_STATE c h m pn)
     | NOTIFY_MS_PARTHA_PING \<Rightarrow> with_conn c (sh_NOTIFY_MS_PARTHA_PING c h m pn)
     | NOTIFY_MS_SVC_CLUSTER_MESH \<Rightarrow> with_conn c (sh_NOTIFY_MS_SVC_CLUSTER_MESH c h m pn)
     | NOTIFY_MS_LISTENER_NAT_IP \<Rightarrow> with_conn c (sh_NOTIFY_MS_LISTENER_NAT_IP c h m pn)
     | NOTIFY_MS_REG_PARTHA \<Rightarrow> with_conn c (sh_NOTIFY_MS_REG_PARTHA c h m pn)
     | NOTIFY_ALERT_STAT_INFO \<Rightarrow> with_conn c (sh_NOTIFY_ALERT_STAT_INFO c h m pn)
     | NOTIFY_ALERT_STAT_CLOSE \<Rightarrow> with_conn c (sh_NOTIFY_ALERT_STAT_CLOSE c h m pn)
     | NOTIFY_MADHAVA_SHYAMA_STATUS \<Rightarrow> sh_NOTIFY_MADHAVA_SHYAMA_STATUS now c h m pn
     | NOTIFY_PING_CONN \<Rightarrow> with_conn c (sh_NOTIFY_PING_CONN c h m pn)
     | _ \<Rightarrow> Some (L1_NEXT, [], c, m))"

definition sh_event_notify ::
  "SH_CLOCKS \<Rightarrow> SHCONNTRACK \<Rightarrow> COMM_HEADER \<Rightarrow> mem \<Rightarrow> nat \<Rightarrow> sh_result" where
  "sh_event_notify now c h m pn = do {
     subtype \<leftarrow> fld m pn EVENT_NOTIFY_fields ''subtype_'';
     case notify_of subtype of
       Some t \<Rightarrow> sh_event now t c h m pn
     | None \<Rightarrow> Some (L1_NEXT, [], c, m)
   }"

section \<open>Queries and responses\<close>

text \<open>A lookup of the Madhava of a Partha is validated and then left without an answer.\<close>

definition sh_query_cmd :: "bool \<Rightarrow> sh_handler" where
  "sh_query_cmd is_conn_closed c h m p =
     (if is_conn_closed = False \<and> cli_type c \<noteq> CLI_TYPE_REQ_ONLY then do {
        subtype \<leftarrow> fld m p QUERY_CMD_fields ''subtype_'';
        case query_of subtype of
          Some QUERY_PARTHA_MADHAVA \<Rightarrow> do {
            bret \<leftarrow> PARTHA_MADHAVA_REQ_validate h m (p + csizeof QUERY_CMD_t);
            if bret = False then invalid_msg [(''Partha Madhava Lookup Query'', 1)] m
            else Some (L1_NEXT, [(''Partha Madhava Lookup Query'', 1)], m)
          }
        | Some QUERY_WEB_JSON \<Rightarrow>
            (if \<not> is_registered c then invalid_msg [] m else Some (L1_SCHED SH_TTYPE_L2_DB True, [], m))
        | Some CRUD_GENERIC_JSON \<Rightarrow>
            (if \<not> is_registered c then invalid_msg [] m else Some (L1_SCHED SH_TTYPE_L2_DB True, [], m))
        | Some CRUD_ALERT_JSON \<Rightarrow>
            (if \<not> is_registered c then invalid_msg [] m else Some (L1_SCHED SH_TTYPE_L2_ALERT True, [], m))
        | _ \<Rightarrow> Some (L1_NEXT, [], m)
      }
      else Some (L1_NEXT, [], m))"

definition sh_num_partha :: "SHCONNTRACK \<Rightarrow> COMM_HEADER \<Rightarrow> mem \<Rightarrow> nat \<Rightarrow> sh_result" where
  "sh_num_partha c h m p = do {
     respformat \<leftarrow> fld m p QUERY_RESPONSE_fields ''respformat_'';
     seqid \<leftarrow> fld m p QUERY_RESPONSE_fields ''seqid_'';
     is_resp_complete \<leftarrow> fld m p QUERY_RESPONSE_fields ''is_resp_complete_'';
     if respformat = RESP_BINARY \<and> seqid > 0 \<and> is_resp_complete \<noteq> 0 then do {
       bret \<leftarrow> NUM_PARTHA_RESP_validate h m p;
       if bret = False then with_conn c (invalid_msg [(''Num Partha Resp'', 1)] m)
       else do {
         resp_len \<leftarrow> fld m p QUERY_RESPONSE_fields ''resp_len_'';
         let c' = c\<lparr>cb_tbl := (cb_tbl c)(seqid := None)\<rparr>;
         if cb_tbl c seqid = Some True
         then Some (L1_CALLBACK seqid (p + csizeof QUERY_RESPONSE_t) resp_len,
                [(''Num Partha Resp'', 1), (''Async Callback Handled'', 1)], c', m)
         else Some (L1_NEXT, [(''Num Partha Resp'', 1), (''Async Callback Missed'', 1)], c', m)
       }
     }
     else Some (L1_NEXT, [], c, m)
   }"

definition sh_query_resp :: "SHCONNTRACK \<Rightarrow> COMM_HEADER \<Rightarrow> mem \<Rightarrow> nat \<Rightarrow> sh_result" where
  "sh_query_resp c h m p =
     (if \<not> is_registered c then with_conn c (invalid_msg [] m)
      else do {
        bret \<leftarrow> QUERY_RESPONSE_validate h m p;
        if bret = False then Some (L1_CLOSE, [(''Invalid Message Error'', 1)], c, m)
        else do {
          subtype \<leftarrow> fld m p QUERY_RESPONSE_fields ''subtype_'';
          if subtype = RESP_NUM_PARTHA then sh_num_partha c h m p
          else if subtype = RESP_WEB_JSON then l1_web_json c m p
          else Some (L1_NEXT, [], c, m)
        }
      })"

section \<open>Registrations\<close>

definition sh_ps_register_req :: "SHYAMA \<Rightarrow> SH_CLOCKS \<Rightarrow> sh_handler" where
  "sh_ps_register_req g now c h m p =
     l1_connect ''Partha Register Req'' ''Partha Registration Fail'' ''Partha Registration Blocking Fail''
       PS_REGISTER_RESP (PS_REGISTER_REQ_S_validate h)
       (PS_REGISTER_REQ_S_validate_fields (sh_min_partha_version g) (sh_version_num g) (time_now now) m p) c m"

text \<open>A wrong secret is counted on its own.\<close>

definition sh_ms_register_req :: "SHYAMA \<Rightarrow> SH_CLOCKS \<Rightarrow> sh_handler" where
  "sh_ms_register_req g now c h m p = do {
     (a, st, m') \<leftarrow> l1_connect ''Madhava Register Req'' ''Madhava Registration Fail''
       ''Madhava Registration Blocking Fail'' MS_REGISTER_RESP (MS_REGISTER_REQ_S_validate h)
       (MS_REGISTER_REQ_S_validate_fields (sh_min_madhava_version g) (sh_version_num g) (shyama_secret g)
         (time_now now) m p) c m;
     Some (a, st @ (case a of
       L1_REGISTER_ERROR t e \<Rightarrow> if fst e = ERR_INVALID_SECRET then [(''Invalid Shyama Secret'', 1)] else []
     | _ \<Rightarrow> []), m')
   }"

definition sh_ns_register_req :: "SHYAMA \<Rightarrow> SH_CLOCKS \<Rightarrow> sh_handler" where
  "sh_ns_register_req g now c h m p =
     l1_connect ''Node Web Register Req'' ''Node Registration Fail'' ''Node Registration Blocking Fail''
       NS_REGISTER_RESP (NS_REGISTER_REQ_S_validate h)
       (NS_REGISTER_REQ_S_validate_fields (sh_min_node_version g) (sh_version_num g) (time_now now) m p) c m"

section \<open>The \<open>switch\<close> on the message type\<close>

definition sh_message ::
  "SHYAMA \<Rightarrow> SH_CLOCKS \<Rightarrow> bool \<Rightarrow> SHCONNTRACK \<Rightarrow> COMM_HEADER \<Rightarrow> mem \<Rightarrow> nat \<Rightarrow> sh_result" where
  "sh_message g now is_conn_closed c h m prdbuf =
     (let p = prdbuf + csizeof COMM_HEADER_t in case comm_type_of (data_type h) of
        Some COMM_EVENT_NOTIFY \<Rightarrow> sh_event_notify now c h m p
      | Some COMM_QUERY_CMD \<Rightarrow> with_conn c (sh_query_cmd is_conn_closed c h m p)
      | Some PS_REGISTER_REQ \<Rightarrow> with_conn c (sh_ps_register_req g now c h m p)
      | Some MS_REGISTER_REQ \<Rightarrow> with_conn c (sh_ms_register_req g now c h m p)
      | Some NS_REGISTER_REQ \<Rightarrow> with_conn c (sh_ns_register_req g now c h m p)
      | Some COMM_QUERY_RESP \<Rightarrow> sh_query_resp c h m p
      | _ \<Rightarrow> with_conn c (invalid_msg [] m))"

section \<open>Memory safety\<close>

lemmas sh_handler_defs =
  sh_NOTIFY_MS_TCP_CONN_def
  sh_NOTIFY_MS_TCP_CONN_CLOSE_def
  sh_NOTIFY_NAT_TCP_def
  sh_NOTIFY_MS_CLUSTER_STATE_def
  sh_NOTIFY_MS_PARTHA_PING_def
  sh_NOTIFY_MS_SVC_CLUSTER_MESH_def
  sh_NOTIFY_MS_LISTENER_NAT_IP_def
  sh_NOTIFY_MS_REG_PARTHA_def
  sh_NOTIFY_ALERT_STAT_INFO_def
  sh_NOTIFY_ALERT_STAT_CLOSE_def
  sh_NOTIFY_PING_CONN_def

lemma sh_handlers_safe:
  "handler_safe sh_NOTIFY_MS_TCP_CONN"
  "handler_safe sh_NOTIFY_MS_TCP_CONN_CLOSE"
  "handler_safe sh_NOTIFY_NAT_TCP"
  "handler_safe sh_NOTIFY_MS_CLUSTER_STATE"
  "handler_safe sh_NOTIFY_MS_PARTHA_PING"
  "handler_safe sh_NOTIFY_MS_SVC_CLUSTER_MESH"
  "handler_safe sh_NOTIFY_MS_LISTENER_NAT_IP"
  "handler_safe sh_NOTIFY_MS_REG_PARTHA"
  "handler_safe sh_NOTIFY_ALERT_STAT_INFO"
  "handler_safe sh_NOTIFY_ALERT_STAT_CLOSE"
  by (rule handler_safeI [OF sh_NOTIFY_MS_TCP_CONN_def MS_TCP_CONN_NOTIFY_safe]
      handler_safeI [OF sh_NOTIFY_MS_TCP_CONN_CLOSE_def MS_TCP_CONN_CLOSE_safe]
      handler_safeI [OF sh_NOTIFY_NAT_TCP_def NAT_TCP_NOTIFY_safe]
      handler_safeI [OF sh_NOTIFY_MS_CLUSTER_STATE_def MS_CLUSTER_STATE_safe]
      handler_safeI [OF sh_NOTIFY_MS_PARTHA_PING_def MS_PARTHA_PING_safe]
      handler_safeI [OF sh_NOTIFY_MS_SVC_CLUSTER_MESH_def MS_SVC_CLUSTER_MESH_safe]
      handler_safeI [OF sh_NOTIFY_MS_LISTENER_NAT_IP_def MS_LISTENER_NAT_IP_safe]
      handler_safeI [OF sh_NOTIFY_MS_REG_PARTHA_def MS_REG_PARTHA_safe]
      handler_safeI [OF sh_NOTIFY_ALERT_STAT_INFO_def ALERT_STAT_INFO_safe]
      handler_safeI [OF sh_NOTIFY_ALERT_STAT_CLOSE_def ALERT_STAT_CLOSE_safe])+

lemma sh_ping_safe: "handler_safe sh_NOTIFY_PING_CONN"
  by (rule handler_safe_const) (simp add: sh_NOTIFY_PING_CONN_def invalid_msg_def)

lemma status_members [gy_size]:
  "cmember MADHAVA_SHYAMA_STATUS_fields ''madhava_id_'' = (0, 8)"
  "cmember MADHAVA_SHYAMA_STATUS_fields ''npartha_nodes_'' = (8, 8)"
  "cmember MADHAVA_SHYAMA_STATUS_fields ''approx_partha_conns_'' = (16, 8)"
  by code_simp+

lemma sh_status_safe:
  assumes "event_hdr_in h m pn"
  shows "\<exists>a st c'. sh_NOTIFY_MADHAVA_SHYAMA_STATUS now c h m pn = Some (a, st, c', m)"
proof -
  have "fld m (pn + 8) MADHAVA_SHYAMA_STATUS_fields nm = Some (fldv m (pn + 8) MADHAVA_SHYAMA_STATUS_fields nm)"
    if "MADHAVA_SHYAMA_STATUS_validate h" "nm \<in> {''madhava_id_'', ''npartha_nodes_'', ''approx_partha_conns_''}" for nm
    using assms that
    by (intro fld_in) (auto simp: gy_size MADHAVA_SHYAMA_STATUS_validate_def exact_validate_def event_hdr_in_def event_in_def)
  then show ?thesis
    by (auto simp: sh_NOTIFY_MADHAVA_SHYAMA_STATUS_def with_conn_def invalid_msg_def split: option.splits)
qed

lemma sh_event_safe:
  assumes "hdr_ok h" and "event_hdr_in h m pn"
  shows "\<exists>a st c' m'. sh_event now t c h m pn = Some (a, st, c', m') \<and> payload_only h pn m m'"
proof -
  have safe: "\<exists>a st c' m'. with_conn c (f c h m pn) = Some (a, st, c', m') \<and> payload_only h pn m m'"
    if "handler_safe f" for f using that assms by (fastforce simp: handler_safe_def)
  have st: "\<exists>a st c' m'. sh_NOTIFY_MADHAVA_SHYAMA_STATUS now c h m pn = Some (a, st, c', m') \<and> payload_only h pn m m'"
    using sh_status_safe [OF assms(2), of now c] payload_only_refl by blast
  show ?thesis
    by (cases t) (simp_all add: sh_event_def safe sh_handlers_safe sh_ping_safe st del: with_conn_Some)
qed

lemma sh_event_notify_safe:
  assumes "hdr_ok h" and "event_hdr_in h m pn"
  shows "\<exists>a st c' m'. sh_event_notify now c h m pn = Some (a, st, c', m') \<and> payload_only h pn m m'"
proof -
  have "fld m pn EVENT_NOTIFY_fields ''subtype_'' = Some (fldv m pn EVENT_NOTIFY_fields ''subtype_'')"
    using assms(2) by (intro fld_in) (simp add: gy_size event_hdr_in_def event_in_def)
  then show ?thesis using sh_event_safe [OF assms]
    by (cases "notify_of (fldv m pn EVENT_NOTIFY_fields ''subtype_'')") (simp_all add: sh_event_notify_def)
qed

lemma partha_madhava_members [gy_size]:
  "cmember PARTHA_MADHAVA_REQ_fields ''partha_machine_id_hi_'' = (0, 8)"
  "cmember PARTHA_MADHAVA_REQ_fields ''partha_machine_id_lo_'' = (8, 8)"
  "cmember PARTHA_MADHAVA_REQ_fields ''partha_hostname_len_'' = (16, 4)"
  "cmember PARTHA_MADHAVA_REQ_fields ''extra_tags_len_'' = (20, 4)"
  by code_simp+

lemma sh_query_cmd_safe:
  assumes "40 \<le> act_len h" and "p + act_len h \<le> length m"
  shows "\<exists>a st. sh_query_cmd closed c h m (p + 16) = Some (a, st, m)"
proof -
  have f: "fld m (p + 16) QUERY_CMD_fields ''subtype_'' = Some (fldv m (p + 16) QUERY_CMD_fields ''subtype_'')"
    using assms by (intro fld_in) (simp add: gy_size)
  have "\<exists>b. PARTHA_MADHAVA_REQ_validate h m (40 + p) = Some b"
  proof (cases "64 \<le> act_len h")
    case True
    have "fld m (40 + p) PARTHA_MADHAVA_REQ_fields nm = Some (fldv m (40 + p) PARTHA_MADHAVA_REQ_fields nm)"
      if "nm \<in> {''partha_machine_id_hi_'', ''partha_machine_id_lo_'', ''partha_hostname_len_'', ''extra_tags_len_''}" for nm
      using assms True that by (intro fld_in) (auto simp: gy_size)
    then show ?thesis using True by (auto simp: PARTHA_MADHAVA_REQ_validate_def Let_def)
  qed (auto simp: PARTHA_MADHAVA_REQ_validate_def)
  then show ?thesis
    by (cases "query_of (fldv m (p + 16) QUERY_CMD_fields ''subtype_'')")
      (auto simp: sh_query_cmd_def f invalid_msg_def split: QUERY_TYPE_E.splits)
qed

lemma sh_query_resp_safe:
  assumes "48 \<le> act_len h" and "p + act_len h \<le> length m"
  shows "\<exists>a st c'. sh_query_resp c h m (p + 16) = Some (a, st, c', m)"
proof -
  have "fld m (p + 16) QUERY_RESPONSE_fields nm = Some (fldv m (p + 16) QUERY_RESPONSE_fields nm)"
    if "nm \<in> {''seqid_'', ''subtype_'', ''respformat_'', ''is_resp_complete_'', ''resp_len_''}" for nm
    using assms that by (intro fld_in) (auto simp: gy_size)
  then show ?thesis
    by (auto simp: sh_query_resp_def sh_num_partha_def l1_web_json_def QUERY_RESPONSE_validate_def
        NUM_PARTHA_RESP_validate_def single_resp_validate_def with_conn_def invalid_msg_def Let_def)
qed

lemma sh_registers_safe:
  assumes "p + act_len h \<le> length m"
  shows "\<exists>a st m'. sh_ps_register_req g now c h m (p + 16) = Some (a, st, m') \<and> msg_only h p m m'"
    and "\<exists>a st m'. sh_ms_register_req g now c h m (p + 16) = Some (a, st, m') \<and> msg_only h p m m'"
    and "\<exists>a st m'. sh_ns_register_req g now c h m (p + 16) = Some (a, st, m') \<and> msg_only h p m m'"
proof -
  show "\<exists>a st m'. sh_ps_register_req g now c h m (p + 16) = Some (a, st, m') \<and> msg_only h p m m'"
    unfolding sh_ps_register_req_def PS_REGISTER_REQ_S_validate_def
    by (rule l1_connect_safe [OF PS_REGISTER_REQ_S_layout assms PS_REGISTER_REQ_S_validate_fields_result])
  show "\<exists>a st m'. sh_ns_register_req g now c h m (p + 16) = Some (a, st, m') \<and> msg_only h p m m'"
    unfolding sh_ns_register_req_def NS_REGISTER_REQ_S_validate_def
    by (rule l1_connect_safe [OF NS_REGISTER_REQ_S_layout assms NS_REGISTER_REQ_S_validate_fields_result])
  have "\<exists>a st m'. (l1_connect ''Madhava Register Req'' ''Madhava Registration Fail''
       ''Madhava Registration Blocking Fail'' MS_REGISTER_RESP (exact_reg_validate MS_REGISTER_REQ_S_t h)
       (MS_REGISTER_REQ_S_validate_fields (sh_min_madhava_version g) (sh_version_num g) (shyama_secret g)
         (time_now now) m (p + 16)) c m :: SH_TTYPE_E l1_result) = Some (a, st, m') \<and> msg_only h p m m'"
    by (rule l1_connect_safe [OF MS_REGISTER_REQ_S_layout assms MS_REGISTER_REQ_S_validate_fields_result])
  then show "\<exists>a st m'. sh_ms_register_req g now c h m (p + 16) = Some (a, st, m') \<and> msg_only h p m m'"
    by (auto simp: sh_ms_register_req_def MS_REGISTER_REQ_S_validate_def)
qed

lemma sh_message_safe:
  assumes "validate_hdr h p mg" and "msg_in h m p"
  shows "\<exists>a st c' m'. sh_message g now closed c h m p = Some (a, st, c', m') \<and> msg_only h p m m'"
proof -
  obtain t where t: "data_type h = comm_type_val t" using assms(1) by (auto simp: validate_hdr_iff)
  note v = valid_msg [OF assms(1,2) t]
  have lift: "\<exists>a st c' m'. with_conn c r = Some (a, st, c', m') \<and> msg_only h p m m'"
    if "\<exists>a st m'. r = Some (a, st, m') \<and> msg_only h p m m'" for r
    using that by auto
  have inv: "\<exists>a st m'. invalid_msg [] m = Some (a, st, m') \<and> msg_only h p m m'" by (simp add: invalid_msg_def)
  show ?thesis
  proof (cases t)
    case COMM_EVENT_NOTIFY
    then have "event_hdr_in h m (p + 16)" using v by (simp add: event_hdr_in_def event_in_def)
    then obtain a st c' m' where "sh_event_notify now c h m (p + 16) = Some (a, st, c', m')" "payload_only h (p + 16) m m'"
      using sh_event_notify_safe [OF v(1)] by blast
    moreover from this(2) have "msg_only h p m m'"
      unfolding payload_only_def msg_only_def by (rule same_off_mono) (use v(2) in simp_all)
    ultimately show ?thesis using t COMM_EVENT_NOTIFY by (simp add: sh_message_def)
  next
    case COMM_QUERY_CMD
    then have "\<exists>a st m'. sh_query_cmd closed c h m (p + 16) = Some (a, st, m') \<and> msg_only h p m m'"
      using v sh_query_cmd_safe [of h p m closed c] msg_only_refl by auto
    then show ?thesis using t COMM_QUERY_CMD lift by (simp add: sh_message_def del: with_conn_Some)
  next
    case COMM_QUERY_RESP
    then show ?thesis using t v sh_query_resp_safe [of h p m c] by (auto simp: sh_message_def)
  qed (use t v inv lift sh_registers_safe [OF v(3)] in \<open>simp_all add: sh_message_def lift del: with_conn_Some\<close>)
qed


section \<open>Scheduled events\<close>

text \<open>The layout and the threads of each event that is scheduled.\<close>

definition sh_layout :: "NOTIFY_TYPE_E \<Rightarrow> elem_layout option" where
  "sh_layout t = (case t of
       NOTIFY_MS_TCP_CONN \<Rightarrow> Some (Array_elems MS_TCP_CONN_NOTIFY_MAX_NUM_CONNS (csizeof MS_TCP_CONN_NOTIFY_t))
     | NOTIFY_MS_TCP_CONN_CLOSE \<Rightarrow> Some (Array_elems MS_TCP_CONN_CLOSE_MAX_NUM_CONNS (csizeof MS_TCP_CONN_CLOSE_t))
     | NOTIFY_NAT_TCP \<Rightarrow> Some (Array_elems NAT_TCP_NOTIFY_MAX_NUM_CONNS (csizeof NAT_TCP_NOTIFY_t))
     | NOTIFY_MS_CLUSTER_STATE \<Rightarrow> Some (Array_elems MS_CLUSTER_STATE_MAX_NUM_CLUSTERS (csizeof MS_CLUSTER_STATE_t))
     | NOTIFY_MS_PARTHA_PING \<Rightarrow> Some (Array_elems MS_PARTHA_PING_MAX_PARTHA_PING (csizeof MS_PARTHA_PING_t))
     | NOTIFY_MS_SVC_CLUSTER_MESH \<Rightarrow> Some (Var_elems MS_SVC_CLUSTER_MESH_MAX_NUM_CLUSTERS (csizeof MS_SVC_CLUSTER_MESH_t) MS_SVC_CLUSTER_MESH_get_elem_size)
     | NOTIFY_MS_LISTENER_NAT_IP \<Rightarrow> Some (Var_elems MS_LISTENER_NAT_IP_MAX_NUM_LISTENERS (csizeof MS_LISTENER_NAT_IP_t) MS_LISTENER_NAT_IP_get_elem_size)
     | NOTIFY_MS_REG_PARTHA \<Rightarrow> Some (Array_elems MS_REG_PARTHA_MAX_REG_PARTHA (csizeof MS_REG_PARTHA_t))
     | NOTIFY_ALERT_STAT_INFO \<Rightarrow> Some (Var_elems ALERT_STAT_INFO_MAX_NUM_STATS (csizeof ALERT_STAT_INFO_t) ALERT_STAT_INFO_get_elem_size)
     | NOTIFY_ALERT_STAT_CLOSE \<Rightarrow> Some (Array_elems (2 ^ 32) (csizeof ALERT_STAT_CLOSE_t))
     | _ \<Rightarrow> None)"

definition sh_dest :: "NOTIFY_TYPE_E \<Rightarrow> SH_TTYPE_E" where
  "sh_dest t = (if t = NOTIFY_MS_PARTHA_PING then SH_TTYPE_L2_DB
     else if t \<in> {NOTIFY_ALERT_STAT_INFO, NOTIFY_ALERT_STAT_CLOSE} then SH_TTYPE_L2_ALERT
     else SH_TTYPE_L2_MISC)"

lemma MS_REG_PARTHA_accepts:
  "accepts MS_REG_PARTHA_validate (Array_elems MS_REG_PARTHA_MAX_REG_PARTHA (csizeof MS_REG_PARTHA_t))"
  unfolding accepts_def
proof (intro allI impI)
  fix h m pn m'
  assume i: "event_hdr_in h m pn" and "MS_REG_PARTHA_validate h m pn = Some (True, m')"
  with MS_REG_PARTHA_validate_correct [OF i]
  have n: "nevents_of m pn \<le> MS_REG_PARTHA_MAX_REG_PARTHA" "act_len h = 24 + nevents_of m pn * csizeof MS_REG_PARTHA_t"
    and s: "same_off m m' (pn + 8) (pn + act_len h - 16)" by auto
  from s have "same_on m m' pn (pn + 8)" by (rule same_off_on) simp
  then have "nevents_of m' pn = nevents_of m pn"
    unfolding nevents_of_def by (rule same_on_rdv) simp_all
  then show "layout_ok (Array_elems MS_REG_PARTHA_MAX_REG_PARTHA (csizeof MS_REG_PARTHA_t)) h m' pn"
    using n by (simp add: array_inside_def)
qed

lemma sh_sched:
  "handler_sched sh_NOTIFY_MS_TCP_CONN HOST_MADHAVA SH_TTYPE_L2_MISC
     (Some (Array_elems MS_TCP_CONN_NOTIFY_MAX_NUM_CONNS (csizeof MS_TCP_CONN_NOTIFY_t)))"
  "handler_sched sh_NOTIFY_MS_TCP_CONN_CLOSE HOST_MADHAVA SH_TTYPE_L2_MISC
     (Some (Array_elems MS_TCP_CONN_CLOSE_MAX_NUM_CONNS (csizeof MS_TCP_CONN_CLOSE_t)))"
  "handler_sched sh_NOTIFY_NAT_TCP HOST_MADHAVA SH_TTYPE_L2_MISC
     (Some (Array_elems NAT_TCP_NOTIFY_MAX_NUM_CONNS (csizeof NAT_TCP_NOTIFY_t)))"
  "handler_sched sh_NOTIFY_MS_CLUSTER_STATE HOST_MADHAVA SH_TTYPE_L2_MISC
     (Some (Array_elems MS_CLUSTER_STATE_MAX_NUM_CLUSTERS (csizeof MS_CLUSTER_STATE_t)))"
  "handler_sched sh_NOTIFY_MS_PARTHA_PING HOST_MADHAVA SH_TTYPE_L2_DB
     (Some (Array_elems MS_PARTHA_PING_MAX_PARTHA_PING (csizeof MS_PARTHA_PING_t)))"
  "handler_sched sh_NOTIFY_MS_SVC_CLUSTER_MESH HOST_MADHAVA SH_TTYPE_L2_MISC
     (Some (Var_elems MS_SVC_CLUSTER_MESH_MAX_NUM_CLUSTERS (csizeof MS_SVC_CLUSTER_MESH_t) MS_SVC_CLUSTER_MESH_get_elem_size))"
  "handler_sched sh_NOTIFY_MS_LISTENER_NAT_IP HOST_MADHAVA SH_TTYPE_L2_MISC
     (Some (Var_elems MS_LISTENER_NAT_IP_MAX_NUM_LISTENERS (csizeof MS_LISTENER_NAT_IP_t) MS_LISTENER_NAT_IP_get_elem_size))"
  "handler_sched sh_NOTIFY_MS_REG_PARTHA HOST_MADHAVA SH_TTYPE_L2_MISC
     (Some (Array_elems MS_REG_PARTHA_MAX_REG_PARTHA (csizeof MS_REG_PARTHA_t)))"
  "handler_sched sh_NOTIFY_ALERT_STAT_INFO HOST_MADHAVA SH_TTYPE_L2_ALERT
     (Some (Var_elems ALERT_STAT_INFO_MAX_NUM_STATS (csizeof ALERT_STAT_INFO_t) ALERT_STAT_INFO_get_elem_size))"
  "handler_sched sh_NOTIFY_ALERT_STAT_CLOSE HOST_MADHAVA SH_TTYPE_L2_ALERT
     (Some (Array_elems (2 ^ 32) (csizeof ALERT_STAT_CLOSE_t)))"
  by (rule handler_schedI [OF sh_NOTIFY_MS_TCP_CONN_def]
      handler_schedI [OF sh_NOTIFY_MS_TCP_CONN_CLOSE_def]
      handler_schedI [OF sh_NOTIFY_NAT_TCP_def]
      handler_schedI [OF sh_NOTIFY_MS_CLUSTER_STATE_def]
      handler_schedI [OF sh_NOTIFY_MS_PARTHA_PING_def]
      handler_schedI [OF sh_NOTIFY_MS_SVC_CLUSTER_MESH_def]
      handler_schedI [OF sh_NOTIFY_MS_LISTENER_NAT_IP_def]
      handler_schedI [OF sh_NOTIFY_MS_REG_PARTHA_def]
      handler_schedI [OF sh_NOTIFY_ALERT_STAT_INFO_def]
      handler_schedI [OF sh_NOTIFY_ALERT_STAT_CLOSE_def],
    simp only: option.pred_inject MS_TCP_CONN_NOTIFY_accepts MS_TCP_CONN_CLOSE_accepts NAT_TCP_NOTIFY_accepts
      MS_CLUSTER_STATE_accepts MS_PARTHA_PING_accepts MS_SVC_CLUSTER_MESH_accepts MS_LISTENER_NAT_IP_accepts
      MS_REG_PARTHA_accepts ALERT_STAT_INFO_accepts ALERT_STAT_CLOSE_accepts)+

lemma sh_event_sched:
  assumes "sh_event now t c h m pn = Some (L1_SCHED d j, st, c', m')"
  shows "from_host HOST_MADHAVA c \<and> c' = c \<and> d = sh_dest t \<and> \<not> j \<and>
    (\<exists>l. sh_layout t = Some l \<and> (hdr_ok h \<longrightarrow> event_hdr_in h m pn \<longrightarrow> layout_ok l h m' pn))"
proof -
  have s: "sh_NOTIFY_MADHAVA_SHYAMA_STATUS now c h m pn \<noteq> Some (L1_SCHED d j, st, c', m')"
    by (auto simp: sh_NOTIFY_MADHAVA_SHYAMA_STATUS_def invalid_msg_def bind_eq_Some_conv split: if_splits option.splits)
  show ?thesis
    using assms s
    by (cases t) (simp_all add: sh_event_def sh_layout_def sh_dest_def sh_NOTIFY_PING_CONN_def invalid_msg_def
        split: if_splits, (elim conjE, drule sh_sched [THEN handler_sched_iff], simp)+)
qed

text \<open>The threads of each query that is scheduled.\<close>

definition sh_query_dest :: "QUERY_TYPE_E \<Rightarrow> SH_TTYPE_E option" where
  "sh_query_dest q = (case q of
       QUERY_WEB_JSON \<Rightarrow> Some SH_TTYPE_L2_DB
     | CRUD_GENERIC_JSON \<Rightarrow> Some SH_TTYPE_L2_DB
     | CRUD_ALERT_JSON \<Rightarrow> Some SH_TTYPE_L2_ALERT
     | _ \<Rightarrow> None)"

lemma sh_query_cmd_result:
  assumes "sh_query_cmd closed c h m p = Some (a, st, m')"
  shows "a \<in> {L1_THROW, L1_NEXT} \<or> is_registered c \<and> \<not> closed \<and> cli_type c \<noteq> CLI_TYPE_REQ_ONLY \<and> m' = m \<and>
    (\<exists>q d. query_of (fldv m p QUERY_CMD_fields ''subtype_'') = Some q \<and> sh_query_dest q = Some d \<and> a = L1_SCHED d True)"
proof (cases "\<not> closed \<and> cli_type c \<noteq> CLI_TYPE_REQ_ONLY")
  case True
  then obtain v where v: "fld m p QUERY_CMD_fields ''subtype_'' = Some v"
    using assms by (auto simp: sh_query_cmd_def bind_eq_Some_conv)
  then have fv: "fldv m p QUERY_CMD_fields ''subtype_'' = v" by (simp add: fld_Some_iff)
  show ?thesis
  proof (cases "query_of v")
    case (Some q)
    then show ?thesis using assms True v fv
      by (cases q) (auto simp: sh_query_cmd_def sh_query_dest_def invalid_msg_def bind_eq_Some_conv split: if_splits)
  qed (use assms True v in \<open>simp add: sh_query_cmd_def\<close>)
qed (use assms in \<open>auto simp: sh_query_cmd_def\<close>)

lemma sh_query_resp_result:
  assumes "sh_query_resp c h m p = Some (a, st, c', m')"
  shows "(a \<in> {L1_THROW, L1_CLOSE, L1_NEXT} \<or> is_registered c \<and> (\<exists>s q n. a = L1_CALLBACK s q n)) \<and>
    (\<exists>tb. c' = c\<lparr>cb_tbl := tb\<rparr>)"
proof -
  have "\<exists>tb. c = c\<lparr>cb_tbl := tb\<rparr>" by (rule exI [of _ "cb_tbl c"]) simp
  then show ?thesis using assms
    by (auto simp: sh_query_resp_def sh_num_partha_def l1_web_json_def invalid_msg_def bind_eq_Some_conv Let_def
        split: if_splits)
qed

lemma sh_register_result:
  assumes "sh_ps_register_req g now c h m p = Some (a, st, m') \<or> sh_ns_register_req g now c h m p = Some (a, st, m') \<or>
    sh_ms_register_req g now c h m p = Some (a, st, m')"
  shows "a \<in> {L1_THROW, L1_CLOSE} \<or> \<not> is_registered c \<and> is_registration a"
  using assms
  by (auto simp: sh_ps_register_req_def sh_ns_register_req_def sh_ms_register_req_def l1_connect_def invalid_msg_def
      bind_eq_Some_conv split: if_splits option.splits)

lemma sh_event_registered:
  assumes "sh_event now t c h m pn = Some (a, st, c', m')"
  shows "(needs_registration a \<longrightarrow> is_registered c) \<and> \<not> is_registration a \<and>
    (c' = c \<or> (\<exists>pm pm'. madhava_shr c = Some pm \<and> c' = c\<lparr>madhava_shr := Some pm'\<rparr> \<and> madhava_id pm' = madhava_id pm))"
proof -
  have sched: "(needs_registration a \<longrightarrow> is_registered c) \<and> \<not> is_registration a"
    if "l1_sched_valid (from_host x c) r d m = Some (a, st, m')" for x r d
    using that by (auto simp: l1_sched_valid_def invalid_msg_def from_host_def bind_eq_Some_conv split: if_splits)
  have st: "(needs_registration a \<longrightarrow> is_registered c) \<and> \<not> is_registration a \<and>
      (c' = c \<or> (\<exists>pm pm'. madhava_shr c = Some pm \<and> c' = c\<lparr>madhava_shr := Some pm'\<rparr> \<and> madhava_id pm' = madhava_id pm))"
    if "sh_NOTIFY_MADHAVA_SHYAMA_STATUS now c h m pn = Some (a, st, c', m')"
    using that by (fastforce simp: sh_NOTIFY_MADHAVA_SHYAMA_STATUS_def status_update_def invalid_msg_def bind_eq_Some_conv
        split: if_splits option.splits)
  show ?thesis
    using assms
    by (cases t) (auto simp: sh_event_def sh_handler_defs invalid_msg_def split: if_splits dest!: sched st)
qed

lemma registration_exclusive: "is_registration a \<Longrightarrow> \<not> needs_registration a"
  by (cases a) simp_all

text \<open>What a message can change of the connection, and what it needs.\<close>

lemma sh_message_reg:
  assumes "sh_message g now closed c h m p = Some (a, st, c', m')"
  shows "(needs_registration a \<longrightarrow> is_registered c) \<and> (is_registration a \<longrightarrow> \<not> is_registered c) \<and>
    is_registered c' = is_registered c \<and> host_type c' = host_type c \<and> cli_type c' = cli_type c \<and>
    map_option madhava_id (madhava_shr c') = map_option madhava_id (madhava_shr c)"
proof (cases "comm_type_of (data_type h)")
  case None
  then show ?thesis using assms by (auto simp: sh_message_def invalid_msg_def Let_def)
next
  case (Some t)
  show ?thesis
  proof (cases t)
    case COMM_EVENT_NOTIFY
    then have "sh_event_notify now c h m (p + 16) = Some (a, st, c', m')" using assms Some by (simp add: sh_message_def)
    then show ?thesis
      by (auto simp: sh_event_notify_def bind_eq_Some_conv split: option.splits dest!: sh_event_registered)
  next
    case COMM_QUERY_CMD
    then have "sh_query_cmd closed c h m (p + 16) = Some (a, st, m')" "c' = c" using assms Some by (simp_all add: sh_message_def)
    then show ?thesis using sh_query_cmd_result by fastforce
  next
    case COMM_QUERY_RESP
    then have "sh_query_resp c h m (p + 16) = Some (a, st, c', m')" using assms Some by (simp add: sh_message_def)
    from sh_query_resp_result [OF this] show ?thesis by auto
  qed (use assms Some sh_register_result [of g now c h m "p + 16" a st m'] registration_exclusive [of a] in
      \<open>auto simp: sh_message_def invalid_msg_def Let_def\<close>)
qed

lemma sh_message_registers:
  assumes "sh_message g now closed c h m p = Some (L1_REGISTER MS_REGISTER_RESP s, st, c', m')"
  shows "MS_REGISTER_REQ_S_validate h \<and>
    MS_REGISTER_REQ_S_validate_fields (sh_min_madhava_version g) (sh_version_num g) (shyama_secret g) (time_now now) m (p + 16)
      = Some (None, m')"
proof (cases "comm_type_of (data_type h)")
  case None
  then show ?thesis using assms by (simp add: sh_message_def invalid_msg_def)
next
  case (Some t)
  show ?thesis
  proof (cases t)
    case COMM_EVENT_NOTIFY
    then show ?thesis using assms Some
      by (auto simp: sh_message_def sh_event_notify_def bind_eq_Some_conv Let_def split: option.splits dest!: sh_event_registered)
  next
    case COMM_QUERY_CMD
    then show ?thesis using assms Some sh_query_cmd_result by (fastforce simp: sh_message_def)
  next
    case COMM_QUERY_RESP
    then show ?thesis using assms Some sh_query_resp_result by (fastforce simp: sh_message_def)
  qed (use assms Some l1_connect_registers in \<open>auto simp: sh_message_def invalid_msg_def sh_ps_register_req_def
        sh_ns_register_req_def sh_ms_register_req_def bind_eq_Some_conv dest!: l1_connect_registers\<close>)
qed

lemma sh_message_sched:
  assumes "validate_hdr h p mg" and "msg_in h m p"
    and "sh_message g now closed c h m p = Some (L1_SCHED d j, st, c', m')"
  shows "is_registered c \<and> c' = c \<and>
    (data_type h = comm_type_val COMM_EVENT_NOTIFY \<and> host_type c = HOST_MADHAVA \<and> \<not> j \<and>
       (\<exists>t l. fldv m (p + 16) EVENT_NOTIFY_fields ''subtype_'' = notify_val t \<and> d = sh_dest t \<and>
          sh_layout t = Some l \<and> layout_ok l h m' (p + 16)) \<or>
     data_type h = comm_type_val COMM_QUERY_CMD \<and> j \<and> \<not> closed \<and> cli_type c \<noteq> CLI_TYPE_REQ_ONLY \<and> m' = m \<and>
       (\<exists>q. query_of (fldv m (p + 16) QUERY_CMD_fields ''subtype_'') = Some q \<and> sh_query_dest q = Some d))"
proof -
  obtain t where t: "data_type h = comm_type_val t" using assms(1) by (auto simp: validate_hdr_iff)
  note v = valid_msg [OF assms(1,2) t]
  show ?thesis
  proof (cases t)
    case COMM_EVENT_NOTIFY
    then have ein: "event_hdr_in h m (p + 16)" using v by (simp add: event_hdr_in_def event_in_def)
    from COMM_EVENT_NOTIFY obtain s where s: "fldv m (p + 16) EVENT_NOTIFY_fields ''subtype_'' = notify_val s"
        "sh_event now s c h m (p + 16) = Some (L1_SCHED d j, st, c', m')"
      using assms(3) t
      by (auto simp: sh_message_def sh_event_notify_def bind_eq_Some_conv fld_Some_iff Let_def split: option.splits)
    from sh_event_sched [OF s(2)] s(1) v(1) ein t COMM_EVENT_NOTIFY show ?thesis by (auto simp: from_host_def)
  next
    case COMM_QUERY_CMD
    then have "sh_query_cmd closed c h m (p + 16) = Some (L1_SCHED d j, st, m')" "c' = c"
      using assms(3) t by (simp_all add: sh_message_def)
    then show ?thesis using t COMM_QUERY_CMD sh_query_cmd_result by fastforce
  qed (use assms(3) t sh_query_resp_result sh_register_result [of g now c h m "p + 16" "L1_SCHED d j" st m'] in
      \<open>fastforce simp: sh_message_def invalid_msg_def\<close>)+
qed

section \<open>Properties\<close>

text \<open>(C8) Whatever a peer of Shyama sends: on a message that passed \<open>COMM_HEADER::validate\<close> and is complete in the
  receive buffer, the dispatch reads and writes inside of the buffer, always comes to a decision, and changes no
  byte outside of the payload of this message.\<close>

theorem shyama_stays_inside:
  assumes "validate_hdr h p mg" and "msg_in h m p"
  shows "\<exists>a st c' m'. sh_message g now closed c h m p = Some (a, st, c', m') \<and> msg_only h p m m'"
  by (rule sh_message_safe [OF assms])

text \<open>An event \<open>NOTIFY_MS_CLUSTER_STATE\<close> with no elements, and a registered Madhava.\<close>

definition sample_ms_hdr :: COMM_HEADER where
  "sample_ms_hdr = \<lparr>magic = magic_val MS_HDR_MAGIC, total_sz = 24, data_type = comm_type_val COMM_EVENT_NOTIFY,
     padding_sz = 0\<rparr>"

definition sample_ms_msg :: mem where
  "sample_ms_msg = replicate 16 0 @ [0xE, 5, 0, 0] @ replicate 4 0"

definition sample_madhava_conn :: SHCONNTRACK where
  "sample_madhava_conn = \<lparr>is_registered = True, host_type = HOST_MADHAVA, cli_type = 1, cb_tbl = Map.empty,
     madhava_shr = None\<rparr>"

definition sample_shyama :: SHYAMA where
  "sample_shyama = \<lparr>sh_version_num = 0, sh_min_partha_version = 0, sh_min_madhava_version = 0, sh_min_node_version = 0,
     shyama_secret = []\<rparr>"

definition sample_now :: SH_CLOCKS where
  "sample_now = \<lparr>time_now = 0, get_sec_time = 0, get_sec_clock = 1000\<rparr>"

lemma sample_ms_valid:
  "validate_hdr sample_ms_hdr 0 (magic_val MS_HDR_MAGIC)" "msg_in sample_ms_hdr sample_ms_msg 0"
  by (auto simp: validate_hdr_iff sample_ms_hdr_def msg_in_def sample_ms_msg_def)

lemma sample_ms_subtype:
  "fldv sample_ms_msg 16 EVENT_NOTIFY_fields ''subtype_'' = notify_val NOTIFY_MS_CLUSTER_STATE"
  by (simp add: fldv_def rdv_def gy_size sample_ms_msg_def notify_val.simps)

lemma sample_ms_sched:
  "sh_message g now False sample_madhava_conn sample_ms_hdr sample_ms_msg 0 =
     Some (L1_SCHED SH_TTYPE_L2_MISC False, [], sample_madhava_conn, sample_ms_msg)"
proof -
  have "fld sample_ms_msg 16 EVENT_NOTIFY_fields ''subtype_'' = Some (notify_val NOTIFY_MS_CLUSTER_STATE)"
    using sample_ms_subtype by (subst fld_in) (simp_all add: gy_size sample_ms_msg_def)
  moreover have "fld sample_ms_msg 16 EVENT_NOTIFY_fields ''nevents_'' = Some 0"
    by (simp add: fld_nevents nevents_of_def rdv_def sample_ms_msg_def)
  ultimately show ?thesis
    by (simp add: sh_message_def sample_ms_hdr_def sh_event_notify_def sh_event_def sh_NOTIFY_MS_CLUSTER_STATE_def
        l1_sched_valid_def from_host_def sample_madhava_conn_def MS_CLUSTER_STATE_validate_def bounded_array_validate_def
        keep_mem_def get_act_len_def with_conn_def Let_def)
qed

theorem shyama_stays_inside_witness:
  "\<exists>a st c' m'. sh_message sample_shyama sample_now False sample_madhava_conn sample_ms_hdr sample_ms_msg 0 =
     Some (a, st, c', m') \<and> msg_only sample_ms_hdr 0 sample_ms_msg m'"
  by (rule shyama_stays_inside [OF sample_ms_valid])

text \<open>(C9) Only a registered connection gets a message scheduled by Shyama. An event is scheduled only for a Madhava,
  pings of Parthas for the database threads, alerts for the alert threads and all others for the miscellaneous
  threads; in the event as it is handed over, the walk of the consumer over the announced elements stays inside of
  the message, at aligned addresses. A query is scheduled, as it came, only on an open connection that is not for
  events only: those of the web server and the generic definitions for the database threads, those on alerts for
  the alert threads.\<close>

theorem shyama_scheduled:
  assumes "validate_hdr h p mg" and "msg_in h m p"
    and "sh_message g now closed c h m p = Some (L1_SCHED d j, st, c', m')"
  shows "is_registered c \<and> c' = c \<and>
    (data_type h = comm_type_val COMM_EVENT_NOTIFY \<and> host_type c = HOST_MADHAVA \<and> \<not> j \<and>
       (\<exists>t l. fldv m (p + 16) EVENT_NOTIFY_fields ''subtype_'' = notify_val t \<and> d = sh_dest t \<and>
          sh_layout t = Some l \<and> layout_ok l h m' (p + 16)) \<or>
     data_type h = comm_type_val COMM_QUERY_CMD \<and> j \<and> \<not> closed \<and> cli_type c \<noteq> CLI_TYPE_REQ_ONLY \<and> m' = m \<and>
       (\<exists>q. query_of (fldv m (p + 16) QUERY_CMD_fields ''subtype_'') = Some q \<and> sh_query_dest q = Some d))"
  by (rule sh_message_sched [OF assms])

theorem shyama_scheduled_witness:
  "is_registered sample_madhava_conn \<and> (\<exists>l. sh_layout NOTIFY_MS_CLUSTER_STATE = Some l \<and> layout_ok l sample_ms_hdr sample_ms_msg (0 + 16))"
proof -
  have "t = NOTIFY_MS_CLUSTER_STATE" if "notify_val NOTIFY_MS_CLUSTER_STATE = notify_val t" for t
    using notify_of_val [of t] notify_of_val [of NOTIFY_MS_CLUSTER_STATE] that by simp
  then show ?thesis
    using shyama_scheduled [OF sample_ms_valid sample_ms_sched] sample_ms_subtype by (auto simp: sample_ms_hdr_def)
qed

text \<open>An acceptable registration request of a Madhava at \<open>p\<close>.\<close>

definition madhava_request_ok :: "SHYAMA \<Rightarrow> SH_CLOCKS \<Rightarrow> mem \<Rightarrow> nat \<Rightarrow> bool" where
  "madhava_request_ok g now m p \<longleftrightarrow> (let f = fldv m p MS_REGISTER_REQ_S_fields in
     \<not> strcmp_differs (take 63 (member_bytes m p MS_REGISTER_REQ_S_fields ''shyama_secret_'')) (shyama_secret g) \<and>
     f ''comm_version_'' \<noteq> 0 \<and> f ''madhava_version_'' \<ge> sh_min_madhava_version g \<and>
     f ''min_shyama_version_'' \<le> sh_version_num g \<and> f ''madhava_port_'' \<noteq> 0 \<and>
     f ''max_partha_nodes_'' \<in> {1..MAX_PARTHA_PER_MADHAVA} \<and> \<not> clock_differs (time_now now) (of_nat (f ''curr_sec_'')))"

lemma registers_ok:
  assumes "validate_hdr h p mg" and "msg_in h m p"
    and "sh_message g now closed c h m p = Some (L1_REGISTER MS_REGISTER_RESP s, st, c', m')"
  shows "madhava_request_ok g now m (p + 16)"
proof -
  obtain t where t: "data_type h = comm_type_val t" using assms(1) by (auto simp: validate_hdr_iff)
  have r: "exact_reg_validate MS_REGISTER_REQ_S_t h"
    "MS_REGISTER_REQ_S_validate_fields (sh_min_madhava_version g) (sh_version_num g) (shyama_secret g) (time_now now) m (p + 16)
       = Some (None, m')"
    using sh_message_registers [OF assms(3)] by (simp_all add: MS_REGISTER_REQ_S_validate_def)
  have "p + 16 + csizeof MS_REGISTER_REQ_S_t \<le> length m"
    using r(1) valid_msg(3) [OF assms(1,2) t] by (simp add: exact_reg_validate_def)
  from MS_REGISTER_REQ_S_validate_fields_result [OF this, of "sh_min_madhava_version g" "sh_version_num g"
      "shyama_secret g" "time_now now"]
  show ?thesis unfolding r(2) reg_result_def madhava_request_ok_def by (auto simp: Let_def not_less split: if_splits)
qed

text \<open>(C31) A connection that has not registered with Shyama can only register: nothing it sends is handed to another
  thread as an event, query or response. A registered connection cannot register again, and no message
  turns the connection into that of another Madhava. The registration of a Madhava is handed on only if it shows
  the secret of this Shyama, has supported versions, a port, a number of Parthas within the limit and a clock within a
  minute.\<close>

theorem shyama_registration:
  assumes "validate_hdr h p mg" and "msg_in h m p" and "sh_message g now closed c h m p = Some (a, st, c', m')"
  shows "(needs_registration a \<longrightarrow> is_registered c) \<and> (is_registration a \<longrightarrow> \<not> is_registered c) \<and>
    is_registered c' = is_registered c \<and> host_type c' = host_type c \<and>
    map_option madhava_id (madhava_shr c') = map_option madhava_id (madhava_shr c) \<and>
    (\<forall>s. a = L1_REGISTER MS_REGISTER_RESP s \<longrightarrow> madhava_request_ok g now m (p + 16))"
  using sh_message_reg [OF assms(3)] registers_ok [OF assms(1,2), of g now closed c _ st c' m'] assms(3) by blast

text \<open>A request with the versions 0, an empty secret, a port and one Partha.\<close>

definition sample_register_ms :: mem where
  "sample_register_ms = replicate 16 0 @ [1] @ replicate 279 0 @ [1] @ replicate 287 0 @ [1] @ replicate 807 0"

definition sample_register_ms_hdr :: COMM_HEADER where
  "sample_register_ms_hdr = \<lparr>magic = magic_val MS_HDR_MAGIC, total_sz = 1392, data_type = comm_type_val MS_REGISTER_REQ,
     padding_sz = 0\<rparr>"

lemma sample_register_ms_valid:
  "validate_hdr sample_register_ms_hdr 0 (magic_val MS_HDR_MAGIC)" "msg_in sample_register_ms_hdr sample_register_ms 0"
  by (auto simp: validate_hdr_iff sample_register_ms_hdr_def msg_in_def sample_register_ms_def)

theorem shyama_registration_witness:
  "\<exists>st m'. sh_message sample_shyama sample_now False (sample_madhava_conn\<lparr>is_registered := False\<rparr>) sample_register_ms_hdr
       sample_register_ms 0 = Some (L1_REGISTER MS_REGISTER_RESP ''Madhava Registration Blocking Fail'', st,
       sample_madhava_conn\<lparr>is_registered := False\<rparr>, m') \<and>
     madhava_request_ok sample_shyama sample_now sample_register_ms (0 + 16)"
proof -
  have "(16 :: nat) + csizeof MS_REGISTER_REQ_S_t \<le> length sample_register_ms" by (simp add: sample_register_ms_def)
  from MS_REGISTER_REQ_S_validate_fields_result [OF this, of 0 0 "[]" 0]
  obtain m' where "MS_REGISTER_REQ_S_validate_fields 0 0 [] 0 sample_register_ms 16 = Some (None, m')"
    by (auto simp: fldv_def rdv_def gy_size sample_register_ms_def clock_differs_def labs64_def strcmp_differs_def
        member_bytes_def reg_result_def)
  then have d: "sh_message sample_shyama sample_now False (sample_madhava_conn\<lparr>is_registered := False\<rparr>) sample_register_ms_hdr
       sample_register_ms 0 = Some (L1_REGISTER MS_REGISTER_RESP ''Madhava Registration Blocking Fail'',
       [(''Madhava Register Req'', 1)], sample_madhava_conn\<lparr>is_registered := False\<rparr>, m')"
    by (simp add: sh_message_def sample_register_ms_hdr_def sample_shyama_def sample_now_def sample_madhava_conn_def
        sh_ms_register_req_def l1_connect_def MS_REGISTER_REQ_S_validate_def exact_reg_validate_def
        get_act_len_def with_conn_def Let_def)
  from shyama_registration [OF sample_register_ms_valid d] d show ?thesis by blast
qed

end
