(* ===== verification/Gy_Shyama_Recv.thy ===== *)
theory Gy_Shyama_Recv
  imports Gy_Recv_Limits Gy_Shyama_L1
begin

text \<open>
  The receive loop of a Shyama: \<open>handle_recv\<close> of \<open>server/gy_shconnhdlr.cc\<close>, which is the loop of \<open>Gy_L1_Recv\<close> with the
  dispatch of \<open>Gy_Shyama_L1\<close> and \<open>TTYPE_L2_DB\<close> as the threads that get each request in an array of its own.

  The events of a Madhava for the miscellaneous threads meet the contract of the loop. The events for the database and
  the alert threads do not: behind another event in the same read they are handed over with an address in a
  buffer that is no longer theirs.
\<close>

section \<open>The dispatch of a Shyama\<close>

text \<open>The decisions of \<open>sh_message\<close>, as the loop goes on with them.\<close>

definition sh_rx_message ::
  "SHYAMA \<Rightarrow> SH_CLOCKS \<Rightarrow> bool \<Rightarrow> SHCONNTRACK \<Rightarrow> COMM_HEADER \<Rightarrow> mem \<Rightarrow> nat \<Rightarrow>
   (SH_TTYPE_E RX_ACTION \<times> stats_upd \<times> SHCONNTRACK \<times> mem) option" where
  "sh_rx_message g now is_conn_closed c h m rdp = do {
     (a, st, c', m') \<leftarrow> sh_message g now is_conn_closed c h m rdp;
     case a of
       L1_THROW \<Rightarrow> Some (RX_THROW, st, c', m')
     | L1_CLOSE \<Rightarrow> Some (RX_CLOSE, st, c', m')
     | L1_SCHED dest is_json \<Rightarrow> Some (RX_SCHED dest is_json, st, c', m')
     | L1_REGISTER resp blocking_fail \<Rightarrow> Some (RX_REGISTER blocking_fail, st, c', m')
     | L1_REGISTER_ERROR resp err \<Rightarrow> Some (RX_CLOSE, st, c', m')
     | _ \<Rightarrow> Some (RX_NEXT, st, c', m')
   }"

section \<open>Events of a Madhava\<close>

text \<open>A registered connection on which a Madhava only sends events, and messages other than an event for the
  database or alert threads.\<close>

definition madhava_events :: "SHCONNTRACK \<Rightarrow> bool" where
  "madhava_events c \<longleftrightarrow> is_registered c \<and> host_type c = HOST_MADHAVA \<and> cli_type c = CLI_TYPE_REQ_ONLY"

definition misc_message :: "mem \<Rightarrow> bool" where
  "misc_message f \<longleftrightarrow> fldv f 0 COMM_HEADER_fields ''data_type_'' \<noteq> unat (comm_type_val COMM_EVENT_NOTIFY) \<or>
     fldv f 16 EVENT_NOTIFY_fields ''subtype_'' \<notin>
       notify_val ` {NOTIFY_MS_PARTHA_PING, NOTIFY_ALERT_STAT_INFO, NOTIFY_ALERT_STAT_CLOSE}"

text \<open>The fields that \<open>misc_message\<close> looks at, in the buffer the message lies in.\<close>

lemma message_fields:
  assumes "validate_hdr h p mg" and "load_header m p = Some h"
  shows "fldv (take (unat (total_sz h)) (drop p m)) 16 EVENT_NOTIFY_fields ''subtype_'' =
      fldv m (p + 16) EVENT_NOTIFY_fields ''subtype_''"
    and "fldv (take (unat (total_sz h)) (drop p m)) 0 COMM_HEADER_fields ''data_type_'' = unat (data_type h)"
proof -
  obtain t where "16 + header_payload t + unat (padding_sz h) \<le> unat (total_sz h)"
    using assms(1) by (auto simp: validate_hdr_iff)
  then have n: "24 \<le> unat (total_sz h)" using header_payload_pos [of t] by simp
  show "fldv (take (unat (total_sz h)) (drop p m)) 16 EVENT_NOTIFY_fields ''subtype_'' =
      fldv m (p + 16) EVENT_NOTIFY_fields ''subtype_''"
    using n by (simp add: fldv_def gy_size rdv_slice)
  have "unat (data_type h) = fldv m p COMM_HEADER_fields ''data_type_''"
    using load_header_type [OF assms(2)] rdv_4_bound [of m "p + 8"] by (simp add: fldv_def gy_size unat_of_nat)
  then show "fldv (take (unat (total_sz h)) (drop p m)) 0 COMM_HEADER_fields ''data_type_'' = unat (data_type h)"
    using n by (simp add: fldv_def gy_size rdv_slice)
qed

lemma sh_rx_message_madhava:
  assumes "validate_hdr h p mg" and "msg_in h m p" and "load_header m p = Some h"
    and "misc_message (take (unat (total_sz h)) (drop p m))" and "madhava_events c"
  shows "\<exists>a st c' m'. sh_rx_message g now closed c h m p = Some (a, st, c', m') \<and>
    same_off m m' p (p + unat (total_sz h)) \<and> madhava_events c' \<and>
    (a = RX_THROW \<or> a = RX_CLOSE \<or> a = RX_NEXT \<or> (\<exists>j. a = RX_SCHED SH_TTYPE_L2_MISC j))"
proof -
  obtain a st c' m' where l: "sh_message g now closed c h m p = Some (a, st, c', m')" "msg_only h p m m'"
    using sh_message_safe [OF assms(1,2), of g now closed c] by blast
  have "same_off m m' p (p + unat (total_sz h))"
    by (rule same_off_mono [OF l(2) [unfolded msg_only_def]])
      (simp_all add: hdr_ok_act_len [OF hdr_ok_validate [OF assms(1)]])
  moreover have c': "madhava_events c'" "\<not> is_registration a"
    using sh_message_reg [OF l(1)] assms(5) by (auto simp: madhava_events_def)
  moreover have "d = SH_TTYPE_L2_MISC" if "a = L1_SCHED d j" for d j
    using sh_message_sched [of h p mg m g now closed c d j st c' m'] assms(1,2,4,5) l(1) that
    by (auto simp: madhava_events_def misc_message_def message_fields [OF assms(1,3)] sh_dest_def)
  ultimately show ?thesis using l(1) by (cases a) (auto simp: sh_rx_message_def)
qed

interpretation madhava: recv_disp "sh_rx_message g now closed" "magic_val MS_HDR_MAGIC"
  SH_TTYPE_L2_DB SH_TTYPE_L2_MISC madhava_events misc_message for g now closed
  by unfold_locales (simp, rule sh_rx_message_madhava)

section \<open>Two events as an example\<close>

text \<open>Two events with no elements, \<open>NOTIFY_MS_CLUSTER_STATE\<close> for the miscellaneous threads and
  \<open>NOTIFY_MS_PARTHA_PING\<close> for the database threads, and a new connection.\<close>

definition sample_state :: mem where
  "sample_state = [5, 0x77, 0x77, 5, 24, 0, 0, 0, 14, 0, 0, 0, 0, 0, 0, 0, 0xE, 5, 0, 0, 0, 0, 0, 0]"

definition sample_ping :: mem where
  "sample_ping = [5, 0x77, 0x77, 5, 24, 0, 0, 0, 14, 0, 0, 0, 0, 0, 0, 0, 0xF, 5, 0, 0, 0, 0, 0, 0]"

definition sample_sh_env :: "(SH_TTYPE_E, SHCONNTRACK) ENV" where
  "sample_sh_env = \<lparr>safe_malloc = zero_buf, mpmc_write = \<lambda>k. True,
     dispatch = sh_rx_message sample_shyama sample_now False, comm_magic = magic_val MS_HDR_MAGIC,
     ttype_misc = SH_TTYPE_L2_MISC, ttype_rd = SH_TTYPE_L2_DB\<rparr>"

definition new_sh_recv :: "SHCONNTRACK \<Rightarrow> (SH_TTYPE_E, SHCONNTRACK) RECV" where
  "new_sh_recv c = \<lparr>heap = [], released = {}, pdirbuf = None, rd_max = 0, rd_data = 0, pending_sz = 0, rd_requests = [],
     prdbuf = None, max_buf_sz = 0, data_sz = 0, hdr = empty_header, dbonearr = [], pbufstart = None,
     dest_thr_type = SH_TTYPE_L2_MISC, sent = [], conn = c, statsmap = []\<rparr>"

text \<open>What was handed over: the threads, the buffer that goes with the array and the addresses of the messages.\<close>

definition handed_arrays :: "('d, 'c) RECV \<Rightarrow> ('d \<times> nat option \<times> (nat \<times> nat) list) list" where
  "handed_arrays s = map (\<lambda>x. (sent_dest x, sent_buf x, map pwrbuf (sent_arr x))) (sent s)"

lemma length_ms_samples [simp]: "length sample_state = 24" "length sample_ping = 24"
  by (simp_all add: sample_state_def sample_ping_def)

lemma ms_samples_hdr: "load_header sample_state 0 = Some sample_ms_hdr" "load_header sample_ping 0 = Some sample_ms_hdr"
  by (simp_all add: load_header_def fld_def rd_def rdv_def gy_size sample_state_def sample_ping_def sample_ms_hdr_def
      magic_val.simps comm_type_val.simps)

text \<open>Wherever an event of one of the two subtypes with no elements lies in a buffer, it is scheduled.\<close>

lemma empty_event_sched:
  assumes "load_header m p = Some h" and "msg_in h m p" and "f = take (unat (total_sz h)) (drop p m)"
    and "load_header f 0 = Some sample_ms_hdr" and "rd f 16 4 = Some (notify_val t)" "rd f 20 4 = Some 0"
    and "t \<in> {NOTIFY_MS_CLUSTER_STATE, NOTIFY_MS_PARTHA_PING}" and "madhava_events c"
  shows "sh_rx_message g now closed c h m p = Some (RX_SCHED (sh_dest t) False, [], c, m)"
proof -
  let ?n = "unat (total_sz h)"
  have n: "24 \<le> length f" "length f = ?n" "p + ?n \<le> length m"
    using assms(2,3,6) by (auto simp: rd_Some_iff msg_in_def)
  then have h: "h = sample_ms_hdr" using load_header_slice [of ?n p m] assms(1,3,4) by simp
  have "rd m (p + 16) 4 = Some (notify_val t)" "rd m (p + 20) 4 = Some 0"
    using rd_slice [of 16 4 ?n p m] rd_slice [of 20 4 ?n p m] n assms(3,5,6) by simp_all
  then have fl: "fld m (p + 16) EVENT_NOTIFY_fields ''subtype_'' = Some (notify_val t)"
      "fld m (p + 16) EVENT_NOTIFY_fields ''nevents_'' = Some 0"
    by (simp_all add: fld_def gy_size add.commute)
  have "data_type h = comm_type_val COMM_EVENT_NOTIFY" "get_act_len h = 24"
    by (simp_all add: h sample_ms_hdr_def get_act_len_def)
  then show ?thesis using assms(7,8) fl
    by (auto simp: sh_rx_message_def sh_message_def sh_event_notify_def sh_event_def sh_dest_def
        sh_NOTIFY_MS_CLUSTER_STATE_def sh_NOTIFY_MS_PARTHA_PING_def l1_sched_valid_def from_host_def madhava_events_def
        MS_CLUSTER_STATE_validate_def MS_PARTHA_PING_validate_def bounded_array_validate_def keep_mem_def
        with_conn_def Let_def)
qed

text \<open>The states of a call on a read with the two events.\<close>

definition both_read :: "(SH_TTYPE_E, SHCONNTRACK) RECV" where
  "both_read = (new_sh_recv sample_madhava_conn)\<lparr>heap := [sample_state @ sample_ping @ drop 48 (zero_buf 0 4096)],
     pdirbuf := Some 0, rd_max := 4096, rd_data := 48, prdbuf := Some (0, 0), max_buf_sz := 4096, data_sz := 48,
     hdr := snd (set_type_len empty_header COMM_MIN_TYPE 0 INV_HDR_MAGIC)\<rparr>"

definition state_scheduled :: "(SH_TTYPE_E, SHCONNTRACK) RECV" where
  "state_scheduled = scheduled_state both_read 0 0 sample_ms_hdr sample_state SH_TTYPE_L2_MISC False [] sample_madhava_conn"

definition ping_scheduled :: "(SH_TTYPE_E, SHCONNTRACK) RECV" where
  "ping_scheduled = state_scheduled\<lparr>
     heap := [sample_state @ sample_ping @ drop 48 (zero_buf 0 4096), sample_ping @ drop 24 (zero_buf 1 4096)],
     released := {0}, pdirbuf := Some 1, rd_data := 24, prdbuf := Some (1, 24), max_buf_sz := 4072, data_sz := 0,
     rd_requests := [(sample_state, RX_SCHED SH_TTYPE_L2_MISC False, sample_state),
       (sample_ping, RX_SCHED SH_TTYPE_L2_DB False, sample_ping)],
     dbonearr := [\<lparr>pwrbuf = (0, 24), wrlen = 24, wr_type = data_type sample_ms_hdr\<rparr>], pbufstart := Some 1,
     dest_thr_type := SH_TTYPE_L2_DB,
     sent := [\<lparr>sent_dest = SH_TTYPE_L2_MISC, sent_buf = Some 0,
       sent_arr = [\<lparr>pwrbuf = (0, 0), wrlen = 24, wr_type = data_type sample_ms_hdr\<rparr>], sent_json = False, sent_ok = True\<rparr>]\<rparr>"

lemma sample_madhava_events: "madhava_events sample_madhava_conn"
  by (simp add: madhava_events_def sample_madhava_conn_def)

lemma ms_samples_rd:
  "rd sample_state 16 4 = Some (notify_val NOTIFY_MS_CLUSTER_STATE)" "rd sample_state 20 4 = Some 0"
  "rd sample_ping 16 4 = Some (notify_val NOTIFY_MS_PARTHA_PING)" "rd sample_ping 20 4 = Some 0"
  by (simp_all add: rd_def rdv_def sample_state_def sample_ping_def notify_val.simps)

lemma both_read_first: "recv_step sample_sh_env True both_read = Some (RX_OK state_scheduled)"
proof -
  let ?m = "sample_state @ sample_ping @ drop 48 (zero_buf 0 4096)"
  have rb: "rbuf both_read 0 0" "area both_read = sample_state @ sample_ping"
    by (simp_all add: rbuf_def area_def both_read_def new_sh_recv_def)
  have "load_header ?m 0 = Some sample_ms_hdr" using load_header_slice [of 24 0 ?m] by (simp add: ms_samples_hdr)
  then have "sh_rx_message sample_shyama sample_now False sample_madhava_conn sample_ms_hdr ?m 0 =
      Some (RX_SCHED (sh_dest NOTIFY_MS_CLUSTER_STATE) False, [], sample_madhava_conn, ?m)"
    using sample_madhava_events
    by (intro empty_event_sched [OF _ _ refl]) (simp_all add: msg_in_def sample_ms_hdr_def ms_samples_hdr [unfolded sample_ms_hdr_def] ms_samples_rd)
  then have "recv_step sample_sh_env True both_read = recv_flush sample_sh_env True state_scheduled"
    unfolding state_scheduled_def using sample_ms_valid(1)
    by (intro recv_step_sched [OF rb ms_samples_hdr(1)])
      (simp_all add: sample_sh_env_def both_read_def new_sh_recv_def sample_ms_hdr_def sh_dest_def)
  also have "\<dots> = Some (RX_OK state_scheduled)"
    by (simp add: recv_flush_def state_scheduled_def scheduled_state_def both_read_def new_sh_recv_def)
  finally show ?thesis .
qed

lemma both_read_second: "recv_step sample_sh_env True state_scheduled = Some (RX_OK ping_scheduled)"
proof -
  let ?m = "sample_state @ sample_ping @ drop 48 (zero_buf 0 4096)"
  have rb: "rbuf state_scheduled 0 24" "area state_scheduled = sample_ping @ []"
    by (simp_all add: rbuf_def area_def state_scheduled_def scheduled_state_def both_read_def new_sh_recv_def)
  have "load_header ?m 24 = Some sample_ms_hdr" using load_header_slice [of 24 24 ?m] by (simp add: ms_samples_hdr)
  then have "sh_rx_message sample_shyama sample_now False sample_madhava_conn sample_ms_hdr ?m 24 =
      Some (RX_SCHED (sh_dest NOTIFY_MS_PARTHA_PING) False, [], sample_madhava_conn, ?m)"
    using sample_madhava_events
    by (intro empty_event_sched [OF _ _ refl]) (simp_all add: msg_in_def sample_ms_hdr_def ms_samples_hdr [unfolded sample_ms_hdr_def] ms_samples_rd)
  then have d: "dispatch sample_sh_env (conn state_scheduled) sample_ms_hdr (heap state_scheduled ! 0) 24 =
      Some (RX_SCHED SH_TTYPE_L2_DB False, [], sample_madhava_conn, heap state_scheduled ! 0)"
    by (simp add: sample_sh_env_def state_scheduled_def scheduled_state_def both_read_def new_sh_recv_def sh_dest_def)
  show ?thesis
    using sample_ms_valid(1)
    by (subst recv_step_dispatch [OF rb ms_samples_hdr(2) _ _ d])
      (simp_all add: sample_ms_hdr_def sample_sh_env_def recv_act_def schedule_db_array_def alloc_def copy_to_def buf_def
        send_and_reset_def send_db_array_def use_buf_def set_buf_def dealloc_def act_size_def set_variables_def reset_buf_def
        recv_advance_def recv_flush_def state_scheduled_def scheduled_state_def both_read_def new_sh_recv_def
        ping_scheduled_def Let_def)
qed

section \<open>Properties\<close>

text \<open>An example of a ping that is handed over in a buffer of other threads. A Madhava sends its cluster state and then its pings of
  Parthas, and both arrive in one read. The call returns normally, but the array for the database threads
  comes with the new buffer 1 while its only message is at byte 24 of buffer 0, which went to the miscellaneous threads
  and is freed there.\<close>

theorem ping_in_foreign_buffer:
  "\<exists>s. handle_recv sample_sh_env 1 [SOCK_DATA (sample_state @ sample_ping)] (new_sh_recv sample_madhava_conn) =
       Some ([], RECV_BYTES 48, s) \<and>
     handed_arrays s = [(SH_TTYPE_L2_MISC, Some 0, [(0, 0)]), (SH_TTYPE_L2_DB, Some 1, [(0, 24)])]"
proof -
  have s0: "data_sz state_scheduled = 24" "data_sz ping_scheduled = 0"
    by (simp_all add: state_scheduled_def ping_scheduled_def scheduled_state_def both_read_def)
  have "recv_parse sample_sh_env True state_scheduled = Some (RX_OK ping_scheduled)"
    by (subst recv_parse.simps) (simp add: both_read_second s0)
  then have parse: "recv_parse sample_sh_env True both_read = Some (RX_OK ping_scheduled)"
    by (subst recv_parse.simps) (simp add: both_read_first s0)
  define s1 where "s1 = (new_sh_recv sample_madhava_conn)\<lparr>heap := [zero_buf 0 4096], pdirbuf := Some 0, rd_max := 4096,
     hdr := snd (set_type_len empty_header COMM_MIN_TYPE 0 INV_HDR_MAGIC)\<rparr>"
  have start: "recv_start sample_sh_env (new_sh_recv sample_madhava_conn) = Some (RX_OK s1)"
    by (simp add: recv_start_def new_sh_recv_def alloc_def set_buf_def dealloc_def act_size_def Let_def s1_def sample_sh_env_def)
  have "recv_store (sample_state @ sample_ping) (set_variables s1) = Some both_read"
    by (simp add: recv_store_def set_variables_def buf_def s1_def both_read_def new_sh_recv_def Let_def)
  then have loop: "recv_loop sample_sh_env 1 False 0 [SOCK_DATA (sample_state @ sample_ping)] s1 =
      Some ([], 48, RX_OK ping_scheduled)"
    using parse by (subst recv_loop.simps)
      (auto simp: set_variables_def s1_def new_sh_recv_def sample_state_def Let_def)
  have "\<exists>s. recv_finish sample_sh_env 48 ping_scheduled = Some (RX_OK s) \<and>
      handed_arrays (scope_exit s) = [(SH_TTYPE_L2_MISC, Some 0, [(0, 0)]), (SH_TTYPE_L2_DB, Some 1, [(0, 24)])]"
    by (simp add: recv_finish_def ping_scheduled_def state_scheduled_def scheduled_state_def both_read_def new_sh_recv_def
        send_and_reset_def send_db_array_def reset_buf_def dealloc_def scope_exit_def handed_arrays_def sample_sh_env_def Let_def)
  moreover have "pending_sz (new_sh_recv sample_madhava_conn) = 0" by (simp add: new_sh_recv_def)
  ultimately show ?thesis using start loop by (auto simp: handle_recv_def)
qed

text \<open>(C10) The events of a Madhava survive the way TCP cuts them. On a connection on which a Madhava only sends
  events, if no message is an event for the database or the alert threads and no read fills the room that is
  left in the buffer, then after calls that have not closed the connection the loop has given to the
  dispatch exactly the messages the whole stream consists of, each once and in order, and keeps the
  incomplete message at the end; what the dispatch has scheduled has left in an array, each message once and
  in the buffer that goes with its array, and was handed over exactly if a queue took the array: if the
  queues take every array, the other threads get all scheduled messages.\<close>

theorem madhava_stream:
  assumes "recv_calls e n cs s = Some s'" and "idle SH_TTYPE_L2_MISC s []" and "madhava_events (conn s)"
    and "env_ok (sh_rx_message g now closed) (magic_val MS_HDR_MAGIC) SH_TTYPE_L2_DB e"
    and "\<forall>f\<in>set (fst (split_frames (magic_val MS_HDR_MAGIC) (concat cs))). misc_message f"
    and "queue_log e s"
  shows "\<exists>fs rest. split_frames (magic_val MS_HDR_MAGIC) (concat cs) = (fs, rest, True) \<and>
    idle SH_TTYPE_L2_MISC s' rest \<and> seen s' = seen s @ fs \<and>
    map (entry_bytes (heap s')) (concat (map sent_arr (sent s'))) = scheduled (rd_requests s') \<and>
    (\<forall>x\<in>set (sent s'). sent_fine (heap s') (released s') x) \<and>
    (\<forall>k<length (sent s'). sent_ok (sent s' ! k) = mpmc_write e k) \<and>
    ((\<forall>k. mpmc_write e k) \<longrightarrow> delivered s' = scheduled (rd_requests s'))"
proof -
  let ?F = "split_frames (magic_val MS_HDR_MAGIC)"
  have nil: "?F [] = ([], [], True)" by (simp add: split_frames.simps)
  have fine: "\<forall>f\<in>set (fst (?F ([] @ concat cs))). misc_message f" using assms(5) by simp
  obtain fs rest where i: "?F (concat cs) = (fs, rest, True)" "idle SH_TTYPE_L2_MISC s' rest" "seen s' = seen s @ fs"
    using madhava.recv_calls_stream [OF assms(1-4) fine nil] by auto
  have q: "queue_log e s'" by (rule madhava.recv_calls_log [OF assms(1-4) fine nil assms(6)])
  have "delivered s' = handed s'" if "\<forall>k. mpmc_write e k"
    using queue_log_all [OF q that] i(2) by (auto simp: delivered_def handed_def idle_def)
  then show ?thesis using i q [unfolded queue_log_def]
    by (auto simp: idle_def rlog_def handed_def waiting_def rinv_def rbuf_def)
qed

lemma new_sh_recv_log: "queue_log e (new_sh_recv c)"
  by (simp add: queue_log_def new_sh_recv_def)

lemma sample_sh_env_ok: "env_ok (sh_rx_message sample_shyama sample_now False) (magic_val MS_HDR_MAGIC) SH_TTYPE_L2_DB sample_sh_env"
  by (simp add: env_ok_def sample_sh_env_def pool_ok_def)

lemma new_sh_recv_idle: "idle dst (new_sh_recv c) []"
  by (simp add: idle_def new_sh_recv_def rlog_def handed_def)

lemma sample_state_frames: "split_frames (magic_val MS_HDR_MAGIC) sample_state = ([sample_state], [], True)"
  using sample_ms_valid(1)
  by (subst split_frames.simps) (simp add: ms_samples_hdr split_frames.simps sample_ms_hdr_def)

lemma sample_state_misc: "misc_message sample_state"
  by (simp add: misc_message_def fldv_def rdv_def gy_size sample_state_def notify_val.simps)

lemma sample_state_call:
  "\<exists>s'. recv_calls sample_sh_env 1 [sample_state] (new_sh_recv sample_madhava_conn) = Some s'"
proof -
  have ne: "sample_state \<noteq> []" "length sample_state < room sample_sh_env (new_sh_recv sample_madhava_conn)"
    by (simp_all add: room_def new_sh_recv_def sample_sh_env_def sample_state_def)
  have "madhava_events (conn (new_sh_recv sample_madhava_conn))" using sample_madhava_events by (simp add: new_sh_recv_def)
  from madhava.handle_recv_piece [OF new_sh_recv_idle this sample_sh_env_ok ne, of 1]
  obtain r s' where c: "handle_recv sample_sh_env 1 [SOCK_DATA sample_state] (new_sh_recv sample_madhava_conn) = Some ([], r, s')"
    "r \<noteq> RECV_BYTES 24 \<Longrightarrow> stopped (sh_rx_message sample_shyama sample_now False) madhava_events
       (new_sh_recv sample_madhava_conn) [sample_state] True s'"
    using sample_state_frames sample_state_misc by (auto split: if_splits)
  have "\<not> refuses (sh_rx_message sample_shyama sample_now False) madhava_events sample_state a" for a
    using empty_event_sched [of _ _ _ sample_state NOTIFY_MS_CLUSTER_STATE] ms_samples_hdr ms_samples_rd
    by (fastforce simp: refuses_def)
  then have "r = RECV_BYTES 24" using c(2) by (auto simp: stopped_def)
  then show ?thesis using c(1) ne by auto
qed

theorem madhava_stream_witness:
  "\<exists>s'. recv_calls sample_sh_env 1 [sample_state] (new_sh_recv sample_madhava_conn) = Some s' \<and> seen s' = [sample_state] \<and>
     delivered s' = scheduled (rd_requests s')"
proof -
  obtain s' where s': "recv_calls sample_sh_env 1 [sample_state] (new_sh_recv sample_madhava_conn) = Some s'"
    using sample_state_call by blast
  have "madhava_events (conn (new_sh_recv sample_madhava_conn))" using sample_madhava_events by (simp add: new_sh_recv_def)
  from madhava_stream [OF s' new_sh_recv_idle this sample_sh_env_ok _ new_sh_recv_log] s' show ?thesis
    using sample_state_frames sample_state_misc by (auto simp: seen_def new_sh_recv_def sample_sh_env_def)
qed

end
