(* ===== verification/Gy_Placement.thy ===== *)
theory Gy_Placement
  imports Gy_Shyama_L1
begin

text \<open>
  Which Madhava a Partha works with: the tables of Shyama and the handlers of its L2 threads that change them
  (\<open>server/gy_shconnhdlr.cc\<close>, \<open>.h\<close>): \<open>handle_misc_madhava_reg\<close>, \<open>assign_partha_madhava\<close>, \<open>handle_misc_partha_reg\<close>,
  \<open>handle_madhava_reg_partha\<close>, \<open>handle_ms_partha_ping\<close> \<open>cleanup_db_partha_entries\<close> and the part
  of \<open>sync_partha_madhava_node_stats\<close> that walks over the Madhavas.

  A \<open>MADHAVA_INFO\<close> is a shared object: \<open>objs\<close> maps references to objects, the tables hold references. An object that left
  the table of Madhavas is destroyed with its last connection, and it leaves the table only without connections; so a weak pointer
  to it can be locked as long as it is in the table. The order in which the hash table is walked is that of the list
  \<open>madhava_tbl\<close>; where a new element goes is an argument. Requests are records of their members; the
  clocks, the hash function of the keys, the connections and the results of queue writes are in \<open>PL_ENV\<close>. Each
  handler is one step, without the interleavings of the locks it takes.
\<close>

section \<open>State\<close>

type_synonym machid = "nat \<times> nat"

record ParthaDbStat =
  db_cluster :: string
  db_region :: string
  db_zone :: string
  db_madhava_id :: nat
  tdel_after :: nat
  tping :: nat

record SH_PARTHA_INFO =
  p_hostname :: string
  p_cluster :: string
  p_region :: string
  p_zone :: string
  last_register_tusec :: "64 word"
  ident_key :: "64 word"
  tdb_updated :: nat
  tinit :: nat
  new_registered :: bool
  madhava_weak :: nat
  p_madhava_id :: nat

record SHSTATE =
  objs :: "nat \<Rightarrow> MADHAVA_INFO"
  nobjs :: nat
  madhava_tbl :: "nat list"
  curr_madhava :: "nat option"
  curr_madhava_id :: nat
  nmadhava_partha :: "64 word"
  last_madhava_chg_tusec :: "64 word"
  last_new_madhava_cusec :: "64 word"
  last_mn_db_upd_tusec :: "64 word"
  pardbmap :: "machid \<rightharpoonup> ParthaDbStat"
  partha_tbl :: "machid \<rightharpoonup> SH_PARTHA_INFO"

record PL_ENV =
  usec_time :: "64 word"
  usec_clock :: "64 word"
  sec_clock :: nat
  sec_time :: nat
  min_madhava :: nat
  cityhash64 :: "64 word \<Rightarrow> string \<Rightarrow> string \<Rightarrow> 64 word"
  resp_conn :: "nat \<Rightarrow> bool"
  num_conns :: "nat \<Rightarrow> nat"
  last_oper_time :: "nat \<Rightarrow> 64 word"
  madhava_l1_write :: bool
  partha_l1_write :: bool
  ins_at :: nat

abbreviation (input) USEC_PER_SEC :: "64 word" where "USEC_PER_SEC \<equiv> 1000000"
abbreviation (input) USEC_PER_MINUTE :: "64 word" where "USEC_PER_MINUTE \<equiv> 60000000"
abbreviation (input) MAX_MADHAVA_PER_SHYAMA :: nat where "MAX_MADHAVA_PER_SHYAMA \<equiv> 1024"
abbreviation (input) MAX_HOST_DISCONNECT_RAM_USEC :: "64 word" where "MAX_HOST_DISCONNECT_RAM_USEC \<equiv> 86400000000"

definition upd_obj :: "nat \<Rightarrow> (MADHAVA_INFO \<Rightarrow> MADHAVA_INFO) \<Rightarrow> SHSTATE \<Rightarrow> SHSTATE" where
  "upd_obj r f s = s\<lparr>objs := (objs s)(r := f (objs s r))\<rparr>"

text \<open>The lookup by the id of a Madhava.\<close>

definition find_madhava :: "SHSTATE \<Rightarrow> nat \<Rightarrow> nat option" where
  "find_madhava s i = find (\<lambda>r. madhava_id (objs s r) = i) (madhava_tbl s)"

section \<open>Registration of a Madhava\<close>

record MS_REQ =
  rq_madhava_id :: nat
  rq_listener :: "string \<times> nat"
  rq_region :: string
  rq_zone :: string
  rq_name :: string
  rq_max_partha :: "32 word"
  rq_last_partha :: "32 word"

text \<open>The object is new or an existing one; \<open>close_all_conns\<close> of an older instance is the flag, then the flags of the response.\<close>

datatype MS_REG_RET =
    MS_DISCONNECTED
  | MS_REFUSED ERR_CODES_E
  | MS_REGISTERED nat bool nat

definition new_madhava_info :: "nat \<Rightarrow> string \<times> nat \<Rightarrow> MADHAVA_INFO" where
  "new_madhava_info i lp = \<lparr>madhava_id = i, listener_port = lp, prev_instance = ([], 0), tignore_till = 0, madhava_name = [],
     region_name = [], zone_name = [], last_status_tsec = 0, last_status_csec = 0, npartha_nodes = 0, max_partha_nodes = 0,
     approx_partha_conns = 0, curr_par_adds = 0, last_par_adds = 0\<rparr>"

definition set_registered :: "MS_REQ \<Rightarrow> MADHAVA_INFO \<Rightarrow> MADHAVA_INFO" where
  "set_registered pms pminfo = pminfo\<lparr>npartha_nodes := rq_last_partha pms, max_partha_nodes := rq_max_partha pms,
     region_name := rq_region pms, zone_name := rq_zone pms, madhava_name := rq_name pms\<rparr>"

definition handle_misc_madhava_reg :: "PL_ENV \<Rightarrow> bool \<Rightarrow> MS_REQ \<Rightarrow> SHSTATE \<Rightarrow> MS_REG_RET \<times> SHSTATE" where
  "handle_misc_madhava_reg e connected pms s =
     (if \<not> connected then (MS_DISCONNECTED, s)
      else case find_madhava s (rq_madhava_id pms) of
        None \<Rightarrow>
          (if length (madhava_tbl s) \<ge> MAX_MADHAVA_PER_SHYAMA then (MS_REFUSED ERR_MAX_LIMIT, s)
           else let r = nobjs s;
               s1 = s\<lparr>objs := (objs s)(r := new_madhava_info (rq_madhava_id pms) (rq_listener pms)), nobjs := Suc r,
                      madhava_tbl := take (ins_at e) (madhava_tbl s) @ r # drop (ins_at e) (madhava_tbl s),
                      last_madhava_chg_tusec := usec_time e, last_new_madhava_cusec := usec_clock e\<rparr>
             in (MS_REGISTERED r False (if rq_last_partha pms > 0 then 3 else 0), upd_obj r (set_registered pms) s1))
      | Some r \<Rightarrow>
          let pminfo = objs s r in
          if listener_port pminfo \<noteq> rq_listener pms then
            if prev_instance pminfo = rq_listener pms \<and> unat (usec_time e div USEC_PER_SEC) < tignore_till pminfo
            then (MS_REFUSED ERR_ID_REUSED, s)
            else (MS_REGISTERED r True 0, upd_obj r (\<lambda>pm. set_registered pms (pm\<lparr>prev_instance := listener_port pm,
                    tignore_till := sec_time e + 120, listener_port := rq_listener pms\<rparr>)) s)
          else (MS_REGISTERED r False 0, upd_obj r (set_registered pms) s))"

section \<open>The choice of a Madhava\<close>

text \<open>The variables that the lambda \<open>check_madhava\<close> captures.\<close>

record SEARCH =
  regionerr :: nat
  zoneerr :: nat
  ign_zone :: bool
  ign_region :: bool
  ign_madid :: nat

definition check_madhava :: "nat \<Rightarrow> string \<Rightarrow> string \<Rightarrow> nat \<Rightarrow> SEARCH \<times> SHSTATE \<Rightarrow> bool \<times> SEARCH \<times> SHSTATE" where
  "check_madhava min_csec region zone r = (\<lambda>(q, s).
     let pmad = objs s r in
     if madhava_id pmad \<noteq> ign_madid q \<and> last_status_csec pmad > min_csec then
       if region \<noteq> [] \<and> zone \<noteq> [] \<and> \<not> ign_region q \<and> region \<noteq> region_name pmad
       then (False, q\<lparr>regionerr := regionerr q + 1\<rparr>, s)
       else if region \<noteq> [] \<and> zone \<noteq> [] \<and> \<not> ign_region q \<and> \<not> ign_zone q \<and> zone \<noteq> zone_name pmad
       then (False, q\<lparr>zoneerr := zoneerr q + 1\<rparr>, s)
       else let npar = npartha_nodes pmad in
         if npar + 1 < max_partha_nodes pmad then
           let nc = curr_par_adds pmad + 1; nl = last_par_adds pmad;
               s1 = upd_obj r (\<lambda>pm. pm\<lparr>curr_par_adds := nc\<rparr>) s
           in if npar + nc + nl < max_partha_nodes pmad
              then (True, q, if npar = 0 then s1\<lparr>nmadhava_partha := nmadhava_partha s1 + 1\<rparr> else s1)
              else (False, q, s1)
         else (False, q, s)
     else (False, q, s))"

primrec walk_madhavas ::
  "nat \<Rightarrow> string \<Rightarrow> string \<Rightarrow> nat list \<Rightarrow> SEARCH \<times> SHSTATE \<Rightarrow> nat option \<times> SEARCH \<times> SHSTATE" where
  "walk_madhavas min_csec region zone [] qs = (None, qs)"
| "walk_madhavas min_csec region zone (r # rs) qs =
     (let (ok, qs1) = check_madhava min_csec region zone r qs
      in if ok then (Some r, qs1) else walk_madhavas min_csec region zone rs qs1)"

text \<open>A walk only if none was found so far, with other variables.\<close>

definition retry_walk ::
  "nat \<Rightarrow> string \<Rightarrow> string \<Rightarrow> (SEARCH \<Rightarrow> bool) \<Rightarrow> (SEARCH \<Rightarrow> SEARCH) \<Rightarrow> nat option \<times> SEARCH \<times> SHSTATE \<Rightarrow>
   nat option \<times> SEARCH \<times> SHSTATE" where
  "retry_walk min_csec region zone cond upd = (\<lambda>(m, q, s).
     if m = None \<and> cond q then walk_madhavas min_csec region zone (madhava_tbl s) (upd q, s) else (m, q, s))"

definition try_madhava ::
  "nat \<Rightarrow> string \<Rightarrow> string \<Rightarrow> nat option \<Rightarrow> SEARCH \<times> SHSTATE \<Rightarrow> bool \<times> SEARCH \<times> SHSTATE" where
  "try_madhava min_csec region zone m qs =
     (case m of None \<Rightarrow> (False, qs) | Some r \<Rightarrow> check_madhava min_csec region zone r qs)"

text \<open>The Madhava of an earlier registration that the database knows.\<close>

definition prev_madhava :: "string \<Rightarrow> string \<Rightarrow> nat \<Rightarrow> ParthaDbStat option \<Rightarrow> SHSTATE \<Rightarrow> nat option" where
  "prev_madhava region zone ign dbstat s = (case dbstat of
       None \<Rightarrow> None
     | Some d \<Rightarrow> if db_madhava_id d = ign then None
         else if region \<noteq> db_region d \<or> zone \<noteq> db_zone d then None
         else find_madhava s (db_madhava_id d))"

definition assign_partha_madhava ::
  "nat \<Rightarrow> machid \<Rightarrow> string \<Rightarrow> string \<Rightarrow> nat \<Rightarrow> SHSTATE \<Rightarrow> nat option \<times> SHSTATE" where
  "assign_partha_madhava clk mid region zone ign s0 =
     (let min_csec = max (clk - 600) 60;
          s = s0\<lparr>pardbmap := (pardbmap s0)(mid := None)\<rparr>;
          prev = prev_madhava region zone ign (pardbmap s0 mid) s;
          (ok, q1, s1) = try_madhava min_csec region zone prev
             (\<lparr>regionerr = 0, zoneerr = 0, ign_zone = False, ign_region = False, ign_madid = ign\<rparr>, s)
      in if ok then (prev, s1)
         else let curr = curr_madhava s1; (ok2, q2, s2) = try_madhava min_csec region zone curr (q1, s1)
         in if ok2 then (curr, s2)
         else let (m, q, s3) =
             retry_walk min_csec region zone (\<lambda>q. ign_madid q \<noteq> 0) (\<lambda>q. q\<lparr>ign_madid := 0\<rparr>)
               (retry_walk min_csec region zone (\<lambda>q. regionerr q > 0) (\<lambda>q. q\<lparr>ign_region := True\<rparr>)
                 (retry_walk min_csec region zone (\<lambda>q. zoneerr q > 0) (\<lambda>q. q\<lparr>ign_zone := True\<rparr>)
                   (walk_madhavas min_csec region zone (madhava_tbl s2) (q2, s2))))
         in case m of
              None \<Rightarrow> (None, s3)
            | Some r \<Rightarrow> (Some r, s3\<lparr>curr_madhava := Some r, curr_madhava_id := madhava_id (objs s3 r)\<rparr>))"

section \<open>Registration of a Partha\<close>

record PS_REQ =
  ps_machid :: machid
  ps_hostname :: string
  ps_cluster :: string
  ps_region :: string
  ps_zone :: string
  ps_curr_sec :: int
  ps_last_mdisconn_sec :: int
  ps_last_madhava_id :: nat

record PS_RESP =
  rs_error_code :: ERR_CODES_E
  rs_ident_key :: "64 word"
  rs_madhava_expiry_sec :: nat
  rs_madhava_id :: nat
  rs_madhava_listener :: "string \<times> nat"
  rs_madhava_name :: string

text \<open>What the handler sends: the key of a Partha to a Madhava (its reference), and the response to the Partha.\<close>

datatype PL_OUT =
    SM_PARTHA_IDENT nat machid "64 word" nat bool string
  | PS_RESPONSE PS_RESP

datatype PR_RET = PR_RET int | PR_THROW

definition zero_resp :: PS_RESP where
  "zero_resp = \<lparr>rs_error_code = ERR_SUCCESS, rs_ident_key = 0, rs_madhava_expiry_sec = 0, rs_madhava_id = 0,
     rs_madhava_listener = ([], 0), rs_madhava_name = []\<rparr>"

definition upd_pinfo :: "PS_REQ \<Rightarrow> SH_PARTHA_INFO \<Rightarrow> SH_PARTHA_INFO" where
  "upd_pinfo preg pinfo = pinfo\<lparr>p_hostname := ps_hostname preg, p_cluster := ps_cluster preg,
     p_region := ps_region preg, p_zone := ps_zone preg\<rparr>"

definition set_ident_key :: "PL_ENV \<Rightarrow> SH_PARTHA_INFO \<Rightarrow> SH_PARTHA_INFO" where
  "set_ident_key e pinfo = pinfo\<lparr>last_register_tusec := usec_time e,
     ident_key := cityhash64 e (usec_time e) (p_cluster pinfo) (p_hostname pinfo)\<rparr>"

definition new_partha_info :: "PL_ENV \<Rightarrow> nat \<Rightarrow> nat \<Rightarrow> SH_PARTHA_INFO" where
  "new_partha_info e r i = \<lparr>p_hostname = [], p_cluster = [], p_region = [], p_zone = [], last_register_tusec = 0,
     ident_key = 0, tdb_updated = 0, tinit = sec_time e, new_registered = True, madhava_weak = r, p_madhava_id = i\<rparr>"

definition lock_madhava :: "SHSTATE \<Rightarrow> SH_PARTHA_INFO \<Rightarrow> nat option" where
  "lock_madhava s pinfo = (if madhava_weak pinfo \<in> set (madhava_tbl s) then Some (madhava_weak pinfo) else None)"

text \<open>The sum is one of signed 64 bit numbers, which wraps around: the program is compiled with
  \<open>-fno-strict-overflow\<close>.\<close>

definition mdisconn_limit :: "int \<Rightarrow> int" where
  "mdisconn_limit t = signed_take_bit 63 (t + 1800)"

text \<open>The rest of the variables that the lookup sets: \<open>ign_madid\<close> and \<open>errbyreassign\<close>.\<close>

datatype PAR_LOOKUP =
    PAR_FOUND nat PS_RESP SHSTATE
  | PAR_NOT_FOUND nat bool SHSTATE

definition parlam :: "PL_ENV \<Rightarrow> PS_REQ \<Rightarrow> SH_PARTHA_INFO \<Rightarrow> SHSTATE \<Rightarrow> PAR_LOOKUP" where
  "parlam e preg pinfo s =
     (let del = PAR_NOT_FOUND (ps_last_madhava_id preg) True (s\<lparr>partha_tbl := (partha_tbl s)(ps_machid preg := None)\<rparr>) in
      case lock_madhava s pinfo of
        None \<Rightarrow> del
      | Some r \<Rightarrow>
          let pmad = objs s r;
              pinfo' = set_ident_key e (upd_pinfo preg pinfo);
              found = PAR_FOUND r (zero_resp\<lparr>rs_ident_key := ident_key pinfo',
                  rs_madhava_expiry_sec := sec_time e + 300 - 5, rs_madhava_id := madhava_id pmad,
                  rs_madhava_listener := listener_port pmad, rs_madhava_name := madhava_name pmad\<rparr>)
                (s\<lparr>partha_tbl := (partha_tbl s)(ps_machid preg := Some pinfo')\<rparr>)
          in if ps_last_mdisconn_sec preg > 0 \<and> ps_curr_sec preg > mdisconn_limit (ps_last_mdisconn_sec preg) \<and>
                madhava_id pmad = ps_last_madhava_id preg \<and>
                last_register_tusec pinfo < usec_time e - 5 * USEC_PER_MINUTE \<and> last_register_tusec pinfo > 0
             then del else found)"

definition lookup_partha :: "PL_ENV \<Rightarrow> PS_REQ \<Rightarrow> SHSTATE \<Rightarrow> PAR_LOOKUP" where
  "lookup_partha e preg s =
     (case partha_tbl s (ps_machid preg) of None \<Rightarrow> PAR_NOT_FOUND 0 False s | Some pinfo \<Rightarrow> parlam e preg pinfo s)"

definition send_par :: "PL_ENV \<Rightarrow> PS_RESP \<Rightarrow> PL_OUT list \<Rightarrow> SHSTATE \<Rightarrow> PR_RET \<times> PL_OUT list \<times> SHSTATE" where
  "send_par e resp outs s = (PR_RET (if partha_l1_write e then 0 else - 1), outs @ [PS_RESPONSE resp], s)"

definition refuse_par :: "SHSTATE \<Rightarrow> PR_RET \<times> PL_OUT list \<times> SHSTATE" where
  "refuse_par s = (PR_RET (- 1), [PS_RESPONSE (zero_resp\<lparr>rs_error_code := ERR_MADHAVA_UNAVAIL\<rparr>)], s)"

text \<open>The key is scheduled on the connection before the L1 thread is signalled.\<close>

definition send_madhava_key ::
  "PL_ENV \<Rightarrow> PS_REQ \<Rightarrow> bool \<Rightarrow> nat \<Rightarrow> PS_RESP \<Rightarrow> SHSTATE \<Rightarrow> PL_OUT list \<times> PS_RESP \<times> SHSTATE" where
  "send_madhava_key e preg is_new r resp s =
     (if \<not> resp_conn e r then ([], resp\<lparr>rs_error_code := ERR_MADHAVA_UNAVAIL\<rparr>, s)
      else ([SM_PARTHA_IDENT r (ps_machid preg) (rs_ident_key resp) (sec_time e + 300) is_new (ps_hostname preg)],
            if madhava_l1_write e then resp else resp\<lparr>rs_error_code := ERR_BLOCKING_ERROR\<rparr>,
            s\<lparr>last_madhava_chg_tusec := usec_time e\<rparr>))"

definition key_and_response ::
  "PL_ENV \<Rightarrow> PS_REQ \<Rightarrow> bool \<Rightarrow> nat \<Rightarrow> PS_RESP \<Rightarrow> SHSTATE \<Rightarrow> PR_RET \<times> PL_OUT list \<times> SHSTATE" where
  "key_and_response e preg is_new r resp s =
     (let (outs, resp1, s1) = send_madhava_key e preg is_new r resp s in send_par e resp1 outs s1)"

definition register_new_partha ::
  "PL_ENV \<Rightarrow> PS_REQ \<Rightarrow> nat \<Rightarrow> SHSTATE \<Rightarrow> PR_RET \<times> PL_OUT list \<times> SHSTATE" where
  "register_new_partha e preg ign s0 =
     (case assign_partha_madhava (sec_clock e) (ps_machid preg) (ps_region preg) (ps_zone preg) ign s0 of
        (None, s) \<Rightarrow> refuse_par s
      | (Some r, s) \<Rightarrow>
          let pmad = objs s r;
              pinfo = set_ident_key e (upd_pinfo preg (new_partha_info e r (madhava_id pmad)));
              resp = zero_resp\<lparr>rs_ident_key := ident_key pinfo, rs_madhava_id := madhava_id pmad,
                       rs_madhava_listener := listener_port pmad\<rparr>
          in if partha_tbl s (ps_machid preg) \<noteq> None then (PR_THROW, [], s)
             else key_and_response e preg True r resp (s\<lparr>partha_tbl := (partha_tbl s)(ps_machid preg := Some pinfo)\<rparr>))"

definition handle_misc_partha_reg ::
  "PL_ENV \<Rightarrow> bool \<Rightarrow> PS_REQ \<Rightarrow> SHSTATE \<Rightarrow> PR_RET \<times> PL_OUT list \<times> SHSTATE" where
  "handle_misc_partha_reg e connected preg s =
     (if \<not> connected then (PR_RET 1, [], s)
      else case lookup_partha e preg s of
        PAR_FOUND r resp s1 \<Rightarrow> key_and_response e preg False r resp s1
      | PAR_NOT_FOUND ign errbyreassign s1 \<Rightarrow>
          if length (madhava_tbl s1) < min_madhava e then refuse_par s1
          else if errbyreassign then refuse_par s1
          else if last_new_madhava_cusec s1 + 15 * USEC_PER_SEC > usec_clock e then refuse_par s1
          else register_new_partha e preg ign s1)"

section \<open>Parthas that a Madhava reports\<close>

record MS_REG_PARTHA_ELEM =
  rp_machid :: machid
  rp_hostname :: string
  rp_cluster :: string
  rp_region :: string
  rp_zone :: string

definition reg_partha_one :: "PL_ENV \<Rightarrow> nat \<Rightarrow> MS_REG_PARTHA_ELEM \<Rightarrow> SHSTATE \<Rightarrow> SHSTATE" where
  "reg_partha_one e r pone s =
     (if partha_tbl s (rp_machid pone) \<noteq> None then s
      else s\<lparr>pardbmap := (pardbmap s)(rp_machid pone := None),
             partha_tbl := (partha_tbl s)(rp_machid pone \<mapsto>
               (new_partha_info e r (madhava_id (objs s r)))\<lparr>p_hostname := rp_hostname pone, p_cluster := rp_cluster pone,
                 p_region := rp_region pone, p_zone := rp_zone pone, new_registered := False\<rparr>)\<rparr>)"

definition handle_madhava_reg_partha :: "PL_ENV \<Rightarrow> nat option \<Rightarrow> MS_REG_PARTHA_ELEM list \<Rightarrow> SHSTATE \<Rightarrow> bool \<times> SHSTATE" where
  "handle_madhava_reg_partha e m elems s =
     (case m of None \<Rightarrow> (False, s) | Some r \<Rightarrow> (True, fold (reg_partha_one e r) elems s))"

text \<open>The rows of \<open>parthatbl\<close> that a ping writes: the id, the group names, the Madhava and the time of deletion.\<close>

type_synonym partha_row = "machid \<times> (string \<times> string \<times> string) \<times> nat \<times> nat option"

record PING_CNT =
  nupd :: nat
  ndel :: nat
  ping_rows :: "partha_row list"

definition partha_ping_one ::
  "nat \<Rightarrow> nat \<Rightarrow> machid \<times> bool \<Rightarrow> PING_CNT \<times> SHSTATE \<Rightarrow> PING_CNT \<times> SHSTATE" where
  "partha_ping_one tcurr madid = (\<lambda>(mid, is_deleted) (c, s).
     let tdel = tcurr + 3 * 86400 in
     case partha_tbl s mid of
       None \<Rightarrow>
         (case pardbmap s mid of
            None \<Rightarrow> (c, s)
          | Some dstat \<Rightarrow>
              if is_deleted then
                if tdel_after dstat = 0
                then (c\<lparr>ndel := ndel c + 1, ping_rows := ping_rows c @
                          [(mid, (db_cluster dstat, db_region dstat, db_zone dstat), madid, Some tdel)]\<rparr>,
                      s\<lparr>pardbmap := (pardbmap s)(mid \<mapsto> dstat\<lparr>tdel_after := tdel\<rparr>)\<rparr>)
                else (c, s)
              else (c, s\<lparr>pardbmap := (pardbmap s)(mid \<mapsto> dstat\<lparr>db_madhava_id := madid, tping := tcurr\<rparr>)\<rparr>))
     | Some pp \<Rightarrow>
         if p_madhava_id pp \<noteq> madid then (c, s)
         else let row = (mid, (p_cluster pp, p_region pp, p_zone pp), madid, if is_deleted then Some tdel else None);
                  c1 = c\<lparr>ping_rows := ping_rows c @ [row]\<rparr>
           in if is_deleted
              then (c1\<lparr>ndel := ndel c + 1\<rparr>,
                    s\<lparr>partha_tbl := (partha_tbl s)(mid := None),
                      pardbmap := (pardbmap s)(mid \<mapsto>
                        (case pardbmap s mid of
                           None \<Rightarrow> \<lparr>db_cluster = p_cluster pp, db_region = p_region pp, db_zone = p_zone pp,
                                    db_madhava_id = madid, tdel_after = tdel, tping = tcurr\<rparr>
                         | Some dstat \<Rightarrow> dstat\<lparr>db_cluster := p_cluster pp, db_region := p_region pp,
                                    db_zone := p_zone pp, db_madhava_id := madid, tdel_after := tdel\<rparr>))\<rparr>)
              else (c1\<lparr>nupd := nupd c + 1\<rparr>, s\<lparr>partha_tbl := (partha_tbl s)(mid \<mapsto> pp\<lparr>tdb_updated := tcurr\<rparr>)\<rparr>))"

definition handle_ms_partha_ping ::
  "nat \<Rightarrow> nat option \<Rightarrow> (machid \<times> bool) list \<Rightarrow> SHSTATE \<Rightarrow> (PING_CNT \<times> SHSTATE) option" where
  "handle_ms_partha_ping tcurr m elems s =
     (case m of None \<Rightarrow> None
      | Some r \<Rightarrow> Some (fold (partha_ping_one tcurr (madhava_id (objs s r))) elems (\<lparr>nupd = 0, ndel = 0, ping_rows = []\<rparr>, s)))"

section \<open>Periodic work\<close>

text \<open>\<open>cleanup_db_partha_entries\<close> walks over both tables, in orders that are arguments, and deletes at most
  \<open>maxdel\<close> elements. The result is the list of the ids that it deletes from the database.\<close>

abbreviation (input) maxdel :: nat where "maxdel \<equiv> 25000"

definition tmin_ping :: "nat \<Rightarrow> nat \<Rightarrow> int" where
  "tmin_ping tcurr tprocstart =
     (let t = int tcurr - 30 * 3600 in if t < int tprocstart \<and> tprocstart > 0 then 0 else t)"

definition stale_dbstat :: "nat \<Rightarrow> int \<Rightarrow> ParthaDbStat \<Rightarrow> bool" where
  "stale_dbstat tcurr tmin dstat =
     (tdel_after dstat > 0 \<and> tdel_after dstat < tcurr \<or> int (tping dstat) < tmin \<and> tping dstat > 0)"

primrec cleanup_pardb :: "nat \<Rightarrow> int \<Rightarrow> machid list \<Rightarrow> machid list \<times> SHSTATE \<Rightarrow> machid list \<times> SHSTATE" where
  "cleanup_pardb tcurr tmin [] ds = ds"
| "cleanup_pardb tcurr tmin (mid # mids) ds = (case ds of (del, s) \<Rightarrow>
     if length del < maxdel then cleanup_pardb tcurr tmin mids
       (case pardbmap s mid of
          Some dstat \<Rightarrow> if stale_dbstat tcurr tmin dstat
            then (del @ [mid], s\<lparr>pardbmap := (pardbmap s)(mid := None)\<rparr>) else ds
        | None \<Rightarrow> ds)
     else ds)"

primrec cleanup_partha :: "int \<Rightarrow> machid list \<Rightarrow> machid list \<times> SHSTATE \<Rightarrow> machid list \<times> SHSTATE" where
  "cleanup_partha tmin [] ds = ds"
| "cleanup_partha tmin (mid # mids) ds = (case ds of (del, s) \<Rightarrow>
     (case partha_tbl s mid of
        Some pinfo \<Rightarrow>
          if int (tdb_updated pinfo) < tmin \<and> int (tinit pinfo) < tmin
          then let ds1 = (del @ [mid], s\<lparr>partha_tbl := (partha_tbl s)(mid := None)\<rparr>)
               in if length del + 1 < maxdel then cleanup_partha tmin mids ds1 else ds1
          else cleanup_partha tmin mids ds
      | None \<Rightarrow> cleanup_partha tmin mids ds))"

definition cleanup_db_partha_entries :: "nat \<Rightarrow> nat \<Rightarrow> machid list \<Rightarrow> machid list \<Rightarrow> SHSTATE \<Rightarrow> machid list \<times> SHSTATE" where
  "cleanup_db_partha_entries tcurr tprocstart dborder parorder s =
     (let tmin = tmin_ping tcurr tprocstart
      in cleanup_partha tmin parorder (cleanup_pardb tcurr tmin dborder ([], s)))"

record SYNC_CNT =
  nmad :: "64 word"
  nmaddel :: nat
  nmaddel_with_par :: nat

definition sync_madhava :: "PL_ENV \<Rightarrow> nat \<Rightarrow> SYNC_CNT \<times> SHSTATE \<Rightarrow> SYNC_CNT \<times> SHSTATE" where
  "sync_madhava e r = (\<lambda>(c, s).
     let s1 = upd_obj r (\<lambda>pm. pm\<lparr>last_par_adds := curr_par_adds pm, curr_par_adds := 0\<rparr>) s;
         pmad = objs s1 r; tlast = last_mn_db_upd_tusec s; nconn = num_conns e r;
         cmin_statsec = of_nat (sec_clock e) - 10 :: 64 word;
         c1 = (if nconn > 0 \<and> last_status_csec pmad > unat cmin_statsec \<and> npartha_nodes pmad \<noteq> 0
               then c\<lparr>nmad := nmad c + 1\<rparr> else c)
     in if last_oper_time e r > tlast then (c1, s1)
        else if nconn = 0 \<and> tlast - last_oper_time e r > MAX_HOST_DISCONNECT_RAM_USEC then
          (c1\<lparr>nmaddel := nmaddel c1 + 1, nmaddel_with_par := nmaddel_with_par c1 + (if npartha_nodes pmad \<noteq> 0 then 1 else 0)\<rparr>,
           s1\<lparr>madhava_tbl := remove1 r (madhava_tbl s1),
              curr_madhava := (if curr_madhava s1 = Some r then None else curr_madhava s1)\<rparr>)
        else (c1, s1))"

text \<open>The compare and exchange compares with \<open>last_mad\<close>, from which the deleted Madhavas were taken off before.\<close>

definition sync_partha_madhava_node_stats :: "PL_ENV \<Rightarrow> SHSTATE \<Rightarrow> SHSTATE" where
  "sync_partha_madhava_node_stats e s =
     (let (c, s1) = fold (sync_madhava e) (madhava_tbl s) (\<lparr>nmad = 0, nmaddel = 0, nmaddel_with_par = 0\<rparr>, s);
          last_mad = nmadhava_partha s - of_nat (nmaddel_with_par c);
          s2 = (if nmad c > last_mad \<and> nmadhava_partha s1 = last_mad then s1\<lparr>nmadhava_partha := nmad c\<rparr> else s1);
          s3 = (if nmaddel_with_par c \<noteq> 0 then s2\<lparr>last_madhava_chg_tusec := usec_time e\<rparr> else s2)
      in s3\<lparr>last_mn_db_upd_tusec := usec_time e\<rparr>)"

end
