(* ===== verification/Gy_Choice.thy ===== *)
theory Gy_Choice
  imports Gy_Placement
begin

text \<open>
  The choice of a Madhava for a new Partha (\<open>assign_partha_madhava\<close> of \<open>Gy_Placement\<close>): what the chosen one has, in
  which order of preference it is found, and that one is found when some Madhava has room. Then a consequence of the way
  additions are counted: attempts that are refused count too.
\<close>

section \<open>Properties of the choice\<close>

text \<open>A Madhava as seen by the choice: it answers, has the group the search asks for, and has room.\<close>

definition answering :: "nat \<Rightarrow> nat \<Rightarrow> MADHAVA_INFO \<Rightarrow> bool" where
  "answering clk ign pm \<longleftrightarrow> madhava_id pm \<noteq> ign \<and> last_status_csec pm > max (clk - 600) 60"

definition same_region :: "string \<Rightarrow> string \<Rightarrow> MADHAVA_INFO \<Rightarrow> bool" where
  "same_region region zone pm \<longleftrightarrow> region \<noteq> [] \<and> zone \<noteq> [] \<longrightarrow> region_name pm = region"

definition same_zone :: "string \<Rightarrow> string \<Rightarrow> MADHAVA_INFO \<Rightarrow> bool" where
  "same_zone region zone pm \<longleftrightarrow> region \<noteq> [] \<and> zone \<noteq> [] \<longrightarrow> region_name pm = region \<and> zone_name pm = zone"

definition has_room :: "MADHAVA_INFO \<Rightarrow> bool" where
  "has_room pm \<longleftrightarrow> npartha_nodes pm + 1 < max_partha_nodes pm \<and>
     npartha_nodes pm + (curr_par_adds pm + 1) + last_par_adds pm < max_partha_nodes pm"

text \<open>After a success the assigned Partha is counted.\<close>

definition within_limit :: "MADHAVA_INFO \<Rightarrow> bool" where
  "within_limit pm \<longleftrightarrow> npartha_nodes pm + 1 < max_partha_nodes pm \<and>
     npartha_nodes pm + curr_par_adds pm + last_par_adds pm < max_partha_nodes pm"

definition group_ok :: "string \<Rightarrow> string \<Rightarrow> SEARCH \<Rightarrow> MADHAVA_INFO \<Rightarrow> bool" where
  "group_ok region zone q pm \<longleftrightarrow>
     ign_region q \<or> same_region region zone pm \<and> (ign_zone q \<or> same_zone region zone pm)"

definition search_eq :: "SEARCH \<Rightarrow> SEARCH \<Rightarrow> bool" where
  "search_eq q q' \<longleftrightarrow> ign_zone q' = ign_zone q \<and> ign_region q' = ign_region q \<and> ign_madid q' = ign_madid q \<and>
     regionerr q \<le> regionerr q' \<and> zoneerr q \<le> zoneerr q'"

text \<open>The frame of the choice: only counts of additions change.\<close>

definition adds_only :: "SHSTATE \<Rightarrow> SHSTATE \<Rightarrow> bool" where
  "adds_only s s' \<longleftrightarrow> s\<lparr>objs := objs s', nmadhava_partha := nmadhava_partha s'\<rparr> = s' \<and>
     (\<forall>r. (objs s r)\<lparr>curr_par_adds := curr_par_adds (objs s' r)\<rparr> = objs s' r)"

lemma adds_onlyD:
  assumes "adds_only s s'"
  shows "madhava_tbl s' = madhava_tbl s" "curr_madhava s' = curr_madhava s" "curr_madhava_id s' = curr_madhava_id s"
    "nobjs s' = nobjs s" "pardbmap s' = pardbmap s" "partha_tbl s' = partha_tbl s"
    "objs s' r = (objs s r)\<lparr>curr_par_adds := curr_par_adds (objs s' r)\<rparr>"
proof -
  have "s' = s\<lparr>objs := objs s', nmadhava_partha := nmadhava_partha s'\<rparr>" using assms by (simp add: adds_only_def)
  then obtain f n where s': "s' = s\<lparr>objs := f, nmadhava_partha := n\<rparr>" by blast
  show "madhava_tbl s' = madhava_tbl s" "curr_madhava s' = curr_madhava s" "curr_madhava_id s' = curr_madhava_id s"
    "nobjs s' = nobjs s" "pardbmap s' = pardbmap s" "partha_tbl s' = partha_tbl s"
    by (simp_all add: s')
  show "objs s' r = (objs s r)\<lparr>curr_par_adds := curr_par_adds (objs s' r)\<rparr>" using assms by (simp add: adds_only_def)
qed

lemma adds_only_refl [simp]: "adds_only s s"
  by (simp add: adds_only_def)

lemma adds_only_trans:
  assumes "adds_only s t" "adds_only t u"
  shows "adds_only s u"
proof -
  have "u = t\<lparr>objs := objs u, nmadhava_partha := nmadhava_partha u\<rparr>"
    "t = s\<lparr>objs := objs t, nmadhava_partha := nmadhava_partha t\<rparr>"
    using assms by (simp_all add: adds_only_def)
  then obtain f n g m where *: "u = t\<lparr>objs := f, nmadhava_partha := n\<rparr>" "t = s\<lparr>objs := g, nmadhava_partha := m\<rparr>" by blast
  have "(objs s r)\<lparr>curr_par_adds := curr_par_adds (objs u r)\<rparr> = objs u r" for r
  proof -
    obtain x y where "objs t r = (objs s r)\<lparr>curr_par_adds := x\<rparr>" "objs u r = (objs t r)\<lparr>curr_par_adds := y\<rparr>"
      using adds_onlyD(7)[OF assms(1), of r] adds_onlyD(7)[OF assms(2), of r] by blast
    then show ?thesis by simp
  qed
  then show ?thesis by (simp add: adds_only_def *)
qed

lemma adds_only_fields:
  assumes "adds_only s s'"
  shows "madhava_id (objs s' r) = madhava_id (objs s r)" "answering clk ign (objs s' r) = answering clk ign (objs s r)"
    "same_region region zone (objs s' r) = same_region region zone (objs s r)"
    "same_zone region zone (objs s' r) = same_zone region zone (objs s r)"
    "group_ok region zone q (objs s' r) = group_ok region zone q (objs s r)"
  by (subst adds_onlyD(7)[OF assms], simp add: answering_def same_region_def same_zone_def group_ok_def)+

lemma adds_only_upd: "adds_only s (upd_obj r (\<lambda>pm. pm\<lparr>curr_par_adds := f pm\<rparr>) s)"
  by (simp add: adds_only_def upd_obj_def)

lemma adds_only_npartha [simp]: "adds_only s (t\<lparr>nmadhava_partha := n\<rparr>) \<longleftrightarrow> adds_only s t"
proof -
  have "s\<lparr>objs := objs t, nmadhava_partha := n\<rparr> = t\<lparr>nmadhava_partha := n\<rparr> \<longleftrightarrow>
      s\<lparr>objs := objs t, nmadhava_partha := nmadhava_partha t\<rparr> = t"
    by (cases s; cases t) auto
  then show ?thesis by (simp add: adds_only_def)
qed

text \<open>One check, in the terms of the predicates.\<close>

definition count_add :: "nat \<Rightarrow> SHSTATE \<Rightarrow> SHSTATE" where
  "count_add r = upd_obj r (\<lambda>pm. pm\<lparr>curr_par_adds := curr_par_adds pm + 1\<rparr>)"

lemma check_madhava_eq:
  "check_madhava (max (clk - 600) 60) region zone r (q, s) =
     (if \<not> answering clk (ign_madid q) (objs s r) then (False, q, s)
      else if \<not> ign_region q \<and> \<not> same_region region zone (objs s r) then (False, q\<lparr>regionerr := regionerr q + 1\<rparr>, s)
      else if \<not> ign_region q \<and> \<not> ign_zone q \<and> \<not> same_zone region zone (objs s r) then (False, q\<lparr>zoneerr := zoneerr q + 1\<rparr>, s)
      else if has_room (objs s r) then
        (True, q, if npartha_nodes (objs s r) = 0 then (count_add r s)\<lparr>nmadhava_partha := nmadhava_partha s + 1\<rparr> else count_add r s)
      else (False, q, if npartha_nodes (objs s r) + 1 < max_partha_nodes (objs s r) then count_add r s else s))"
  by (simp add: check_madhava_def Let_def answering_def same_region_def same_zone_def has_room_def count_add_def upd_obj_def)

lemma count_add_simps [simp]:
  "adds_only s (count_add r s)" "x \<noteq> r \<Longrightarrow> objs (count_add r s) x = objs s x"
  "has_room (objs s r) \<Longrightarrow> within_limit (objs (count_add r s) r)"
  by (simp_all add: count_add_def adds_only_upd) (simp_all add: upd_obj_def has_room_def within_limit_def)

lemma check_ok:
  assumes "check_madhava (max (clk - 600) 60) region zone r (q, s) = (ok, q', s')"
  shows "ok \<longleftrightarrow> answering clk (ign_madid q) (objs s r) \<and> group_ok region zone q (objs s r) \<and> has_room (objs s r)"
    and "ok \<Longrightarrow> within_limit (objs s' r)"
  using assms by (auto simp: check_madhava_eq group_ok_def same_region_def same_zone_def split: if_splits)

lemma check_frame:
  assumes "check_madhava (max (clk - 600) 60) region zone r (q, s) = (ok, q', s')"
  shows "adds_only s s'" "search_eq q q'"
  using assms by (auto simp: check_madhava_eq search_eq_def split: if_splits)

lemma check_keeps_room:
  assumes "check_madhava (max (clk - 600) 60) region zone r (q, s) = (False, q', s')" "has_room (objs s x)"
  shows "objs s' x = objs s x"
  using assms by (cases "x = r") (auto simp: check_madhava_eq split: if_splits)

lemma check_errors:
  assumes "check_madhava (max (clk - 600) 60) region zone r (q, s) = (ok, q', s')" "answering clk (ign_madid q) (objs s r)"
    "\<not> ign_region q"
  shows "\<not> same_region region zone (objs s r) \<Longrightarrow> regionerr q' > 0"
    and "\<not> ign_zone q \<Longrightarrow> same_region region zone (objs s r) \<Longrightarrow> \<not> same_zone region zone (objs s r) \<Longrightarrow> zoneerr q' > 0"
  using assms by (auto simp: check_madhava_eq split: if_splits)

lemma search_eq_trans: "search_eq p q \<Longrightarrow> search_eq q r \<Longrightarrow> search_eq p r"
  by (auto simp: search_eq_def)

lemma search_eq_refl [simp]: "search_eq q q"
  by (simp add: search_eq_def)

lemma search_eqD:
  assumes "search_eq q q'"
  shows "ign_madid q' = ign_madid q" "ign_region q' = ign_region q" "ign_zone q' = ign_zone q"
    "group_ok region zone q' = group_ok region zone q" "regionerr q > 0 \<Longrightarrow> regionerr q' > 0" "zoneerr q > 0 \<Longrightarrow> zoneerr q' > 0"
  using assms by (auto simp: search_eq_def group_ok_def fun_eq_iff)

text \<open>A walk.\<close>

lemma walk_frame:
  "walk_madhavas (max (clk - 600) 60) region zone rs (q, s) = (m, q', s') \<Longrightarrow> adds_only s s' \<and> search_eq q q'"
proof (induction rs arbitrary: q s)
  case (Cons r rs)
  obtain ok q1 s1 where c: "check_madhava (max (clk - 600) 60) region zone r (q, s) = (ok, q1, s1)" by (metis prod_cases3)
  have "adds_only s1 s' \<and> search_eq q1 q'"
    using Cons c by (cases ok) auto
  then show ?case using check_frame[OF c] by (meson adds_only_trans search_eq_trans)
qed simp

lemma walk_some:
  assumes "walk_madhavas (max (clk - 600) 60) region zone rs (q, s) = (Some r, q', s')"
  shows "r \<in> set rs \<and> answering clk (ign_madid q) (objs s r) \<and> group_ok region zone q (objs s r) \<and> within_limit (objs s' r)"
  using assms
proof (induction rs arbitrary: q s)
  case (Cons a rs)
  obtain ok q1 s1 where c: "check_madhava (max (clk - 600) 60) region zone a (q, s) = (ok, q1, s1)" by (metis prod_cases3)
  show ?case
  proof (cases ok)
    case True
    then show ?thesis using Cons.prems c check_ok[OF c] by auto
  next
    case False
    then have "walk_madhavas (max (clk - 600) 60) region zone rs (q1, s1) = (Some r, q', s')" using Cons.prems c by simp
    from Cons.IH[OF this] show ?thesis using check_frame[OF c] by (simp add: search_eqD adds_only_fields)
  qed
qed simp

lemma walk_none_keeps:
  "walk_madhavas (max (clk - 600) 60) region zone rs (q, s) = (None, q', s') \<Longrightarrow> has_room (objs s x) \<Longrightarrow> objs s' x = objs s x"
proof (induction rs arbitrary: q s)
  case (Cons a rs)
  then obtain q1 s1 where c: "check_madhava (max (clk - 600) 60) region zone a (q, s) = (False, q1, s1)"
    and w: "walk_madhavas (max (clk - 600) 60) region zone rs (q1, s1) = (None, q', s')"
    by (auto split: prod.splits if_splits)
  show ?case using Cons.IH[OF w] check_keeps_room[OF c Cons.prems(2)] Cons.prems(2) by simp
qed simp

lemma walk_none:
  assumes "walk_madhavas (max (clk - 600) 60) region zone rs (q, s) = (None, q', s')" "has_room (objs s x)" "x \<in> set rs"
    "answering clk (ign_madid q) (objs s x)"
  shows "\<not> group_ok region zone q (objs s x) \<and>
    (if same_region region zone (objs s x) then zoneerr q' > 0 else regionerr q' > 0)"
  using assms
proof (induction rs arbitrary: q s)
  case (Cons a rs)
  then obtain q1 s1 where c: "check_madhava (max (clk - 600) 60) region zone a (q, s) = (False, q1, s1)"
    and w: "walk_madhavas (max (clk - 600) 60) region zone rs (q1, s1) = (None, q', s')"
    by (auto split: prod.splits if_splits)
  note f = check_frame[OF c] and k = check_keeps_room[OF c Cons.prems(2)] and fw = walk_frame[OF w]
  show ?case
  proof (cases "x = a")
    case True
    then have "\<not> group_ok region zone q (objs s x)" using check_ok(1)[OF c] Cons.prems by simp
    with True show ?thesis using check_errors[OF c] Cons.prems fw by (auto simp: group_ok_def search_eqD)
  next
    case False
    then show ?thesis using Cons.IH[OF w] Cons.prems k f by (simp add: search_eqD)
  qed
qed simp

text \<open>A walk that may be skipped.\<close>

lemma retry_walk_None:
  assumes "retry_walk (max (clk - 600) 60) region zone cond upd (m, q, s) = (None, q', s')"
  shows "m = None" "adds_only s s'" "search_eq (if cond q then upd q else q) q'"
    and "has_room (objs s x) \<Longrightarrow> objs s' x = objs s x"
    and "cond q \<Longrightarrow> x \<in> set (madhava_tbl s) \<Longrightarrow> has_room (objs s x) \<Longrightarrow> answering clk (ign_madid (upd q)) (objs s x) \<Longrightarrow>
      \<not> group_ok region zone (upd q) (objs s x) \<and>
      (if same_region region zone (objs s x) then zoneerr q' > 0 else regionerr q' > 0)"
proof -
  show m: "m = None" using assms by (cases m) (simp_all add: retry_walk_def)
  consider "cond q" "walk_madhavas (max (clk - 600) 60) region zone (madhava_tbl s) (upd q, s) = (None, q', s')"
    | "\<not> cond q" "q' = q" "s' = s"
    using assms m by (cases "cond q") (simp_all add: retry_walk_def)
  note c = this
  show "adds_only s s'" "search_eq (if cond q then upd q else q) q'"
    by (cases rule: c; use walk_frame in force)+
  show "has_room (objs s x) \<Longrightarrow> objs s' x = objs s x"
    by (cases rule: c; use walk_none_keeps in force)
  show "\<not> group_ok region zone (upd q) (objs s x) \<and>
      (if same_region region zone (objs s x) then zoneerr q' > 0 else regionerr q' > 0)"
    if "cond q" "x \<in> set (madhava_tbl s)" "has_room (objs s x)" "answering clk (ign_madid (upd q)) (objs s x)"
    by (cases rule: c; use walk_none[OF _ that(3,2,4)] that in blast)
qed

lemma retry_walk_Some:
  assumes "retry_walk (max (clk - 600) 60) region zone cond upd (m, q, s) = (Some r, q', s')"
  obtains "m = Some r" "q' = q" "s' = s"
  | "m = None" "cond q" "r \<in> set (madhava_tbl s)" "answering clk (ign_madid (upd q)) (objs s r)"
    "group_ok region zone (upd q) (objs s r)" "within_limit (objs s' r)" "adds_only s s'"
proof (cases "m = None \<and> cond q")
  case True
  then have w: "walk_madhavas (max (clk - 600) 60) region zone (madhava_tbl s) (upd q, s) = (Some r, q', s')"
    using assms by (simp add: retry_walk_def)
  show ?thesis using walk_some[OF w] walk_frame[OF w] True that(2) by blast
next
  case False
  then have "(m, q, s) = (Some r, q', s')" using assms by (auto simp: retry_walk_def)
  then show ?thesis using that(1) by simp
qed

lemma try_madhava_frame:
  assumes "try_madhava (max (clk - 600) 60) region zone m (q, s) = (ok, q', s')"
  shows "adds_only s s'" "search_eq q q'"
    and "\<not> ok \<Longrightarrow> has_room (objs s x) \<Longrightarrow> objs s' x = objs s x"
    and "ok \<Longrightarrow> \<exists>r. m = Some r \<and> answering clk (ign_madid q) (objs s r) \<and> group_ok region zone q (objs s r) \<and> within_limit (objs s' r)"
proof -
  have "adds_only s s' \<and> search_eq q q' \<and> (\<not> ok \<and> has_room (objs s x) \<longrightarrow> objs s' x = objs s x) \<and>
    (ok \<longrightarrow> (\<exists>r. m = Some r \<and> answering clk (ign_madid q) (objs s r) \<and> group_ok region zone q (objs s r) \<and> within_limit (objs s' r)))"
  proof (cases m)
    case (Some r)
    then have c: "check_madhava (max (clk - 600) 60) region zone r (q, s) = (ok, q', s')"
      using assms by (simp add: try_madhava_def)
    show ?thesis using check_frame[OF c] check_ok[OF c] c check_keeps_room[of clk region zone r q s q' s' x] Some by auto
  qed (use assms in \<open>simp add: try_madhava_def\<close>)
  then show "adds_only s s'" "search_eq q q'" "\<not> ok \<Longrightarrow> has_room (objs s x) \<Longrightarrow> objs s' x = objs s x"
    "ok \<Longrightarrow> \<exists>r. m = Some r \<and> answering clk (ign_madid q) (objs s r) \<and> group_ok region zone q (objs s r) \<and> within_limit (objs s' r)"
    by blast+
qed

text \<open>
  The way to a result: by the database, by the Madhava of the last choice, or by one of four walks, each of which comes after
  failures of those before. \<open>no_room_for\<close> says that no Madhava with some property has room.
\<close>

definition no_room_for :: "(MADHAVA_INFO \<Rightarrow> bool) \<Rightarrow> nat \<Rightarrow> nat \<Rightarrow> SHSTATE \<Rightarrow> bool" where
  "no_room_for P clk ign s \<longleftrightarrow>
     (\<forall>r\<in>set (madhava_tbl s). answering clk ign (objs s r) \<and> P (objs s r) \<longrightarrow> \<not> has_room (objs s r))"

text \<open>What failed checks leave: a Madhava with room is as before.\<close>

definition keeps :: "SHSTATE \<Rightarrow> SHSTATE \<Rightarrow> bool" where
  "keeps s s' \<longleftrightarrow> adds_only s s' \<and> (\<forall>x. has_room (objs s x) \<longrightarrow> objs s' x = objs s x)"

lemma keeps_refl [simp]: "keeps s s"
  by (simp add: keeps_def)

lemma keeps_trans: "keeps s t \<Longrightarrow> keeps t u \<Longrightarrow> keeps s u"
  unfolding keeps_def by (metis adds_only_trans)

lemma no_room_for_keeps: "keeps s s' \<Longrightarrow> no_room_for P clk ign s' \<Longrightarrow> no_room_for P clk ign s"
  unfolding keeps_def no_room_for_def by (metis adds_onlyD(1))

lemma no_room_for_either:
  "no_room_for P clk ign s \<Longrightarrow> no_room_for (\<lambda>pm. \<not> P pm) clk ign s \<Longrightarrow> no_room_for (\<lambda>_. True) clk ign s"
  by (auto simp: no_room_for_def)

definition fresh_search :: "nat \<Rightarrow> SEARCH \<Rightarrow> bool" where
  "fresh_search ign q \<longleftrightarrow> \<not> ign_region q \<and> \<not> ign_zone q \<and> ign_madid q = ign"

text \<open>The walks one after the other, each on the result of the one before.\<close>

abbreviation (input) walk1 :: "nat \<Rightarrow> string \<Rightarrow> string \<Rightarrow> SEARCH \<Rightarrow> SHSTATE \<Rightarrow> nat option \<times> SEARCH \<times> SHSTATE" where
  "walk1 clk region zone q s \<equiv> walk_madhavas (max (clk - 600) 60) region zone (madhava_tbl s) (q, s)"

abbreviation (input) walk2 :: "nat \<Rightarrow> string \<Rightarrow> string \<Rightarrow> SEARCH \<Rightarrow> SHSTATE \<Rightarrow> nat option \<times> SEARCH \<times> SHSTATE" where
  "walk2 clk region zone q s \<equiv> retry_walk (max (clk - 600) 60) region zone (\<lambda>q. zoneerr q > 0) (\<lambda>q. q\<lparr>ign_zone := True\<rparr>)
     (walk1 clk region zone q s)"

abbreviation (input) walk3 :: "nat \<Rightarrow> string \<Rightarrow> string \<Rightarrow> SEARCH \<Rightarrow> SHSTATE \<Rightarrow> nat option \<times> SEARCH \<times> SHSTATE" where
  "walk3 clk region zone q s \<equiv> retry_walk (max (clk - 600) 60) region zone (\<lambda>q. regionerr q > 0) (\<lambda>q. q\<lparr>ign_region := True\<rparr>)
     (walk2 clk region zone q s)"

abbreviation (input) walk4 :: "nat \<Rightarrow> string \<Rightarrow> string \<Rightarrow> SEARCH \<Rightarrow> SHSTATE \<Rightarrow> nat option \<times> SEARCH \<times> SHSTATE" where
  "walk4 clk region zone q s \<equiv> retry_walk (max (clk - 600) 60) region zone (\<lambda>q. ign_madid q \<noteq> 0) (\<lambda>q. q\<lparr>ign_madid := 0\<rparr>)
     (walk3 clk region zone q s)"

lemma walk1_None:
  assumes "walk1 clk region zone q s = (None, q', s')" "fresh_search ign q"
  shows "no_room_for (same_zone region zone) clk ign s" "keeps s s'" "fresh_search ign q'"
    and "zoneerr q' > 0 \<or> no_room_for (same_region region zone) clk ign s"
    and "regionerr q' > 0 \<or> no_room_for (\<lambda>pm. \<not> same_region region zone pm) clk ign s"
proof -
  note w = walk_none[OF assms(1)]
  show "no_room_for (same_zone region zone) clk ign s" "zoneerr q' > 0 \<or> no_room_for (same_region region zone) clk ign s"
    "regionerr q' > 0 \<or> no_room_for (\<lambda>pm. \<not> same_region region zone pm) clk ign s"
    using w assms(2) by (fastforce simp: no_room_for_def fresh_search_def group_ok_def same_zone_def same_region_def)+
  show "keeps s s'" "fresh_search ign q'"
    using walk_frame[OF assms(1)] walk_none_keeps[OF assms(1)] assms(2)
    by (auto simp: fresh_search_def search_eq_def keeps_def)
qed

lemma walk2_None:
  assumes "walk2 clk region zone q s = (None, q', s')" "fresh_search ign q"
  shows "no_room_for (same_region region zone) clk ign s" "keeps s s'" "\<not> ign_region q'" "ign_madid q' = ign"
    and "regionerr q' > 0 \<or> no_room_for (\<lambda>pm. \<not> same_region region zone pm) clk ign s"
proof -
  obtain m q1 s1 where w1: "walk1 clk region zone q s = (m, q1, s1)" by (metis prod_cases3)
  note r = retry_walk_None[OF assms(1)[unfolded w1]]
  note w = walk1_None[OF w1[unfolded r(1)] assms(2)]
  show "keeps s s'" by (rule keeps_trans[OF w(2)]) (use r(2,4) in \<open>simp add: keeps_def\<close>)
  have "no_room_for (same_region region zone) clk ign s1" if "zoneerr q1 > 0"
    using r(5)[OF that] w(3) by (fastforce simp: no_room_for_def fresh_search_def group_ok_def)
  then show "no_room_for (same_region region zone) clk ign s" using w(4) no_room_for_keeps[OF w(2), of "same_region region zone" clk ign] by argo
  show "\<not> ign_region q'" "ign_madid q' = ign" "regionerr q' > 0 \<or> no_room_for (\<lambda>pm. \<not> same_region region zone pm) clk ign s"
    using r(3) w(3,5) by (auto simp: fresh_search_def search_eq_def split: if_splits)
qed

lemma walk3_None:
  assumes "walk3 clk region zone q s = (None, q', s')" "fresh_search ign q"
  shows "no_room_for (\<lambda>_. True) clk ign s" "keeps s s'" "ign_madid q' = ign"
proof -
  obtain m q2 s2 where w2: "walk2 clk region zone q s = (m, q2, s2)" by (metis prod_cases3)
  note r = retry_walk_None[OF assms(1)[unfolded w2]]
  note w = walk2_None[OF w2[unfolded r(1)] assms(2)]
  show "keeps s s'" by (rule keeps_trans[OF w(2)]) (use r(2,4) in \<open>simp add: keeps_def\<close>)
  have "no_room_for (\<lambda>_. True) clk ign s2" if "regionerr q2 > 0"
    using r(5)[OF that] w(4) by (fastforce simp: no_room_for_def group_ok_def)
  then show "no_room_for (\<lambda>_. True) clk ign s"
    using w(5) no_room_for_keeps[OF w(2), of "\<lambda>_. True" clk ign] no_room_for_either[OF w(1)] by argo
  show "ign_madid q' = ign" using r(3) w(4) by (auto simp: search_eq_def split: if_splits)
qed

text \<open>A result of the walks. The last one also takes the Madhava that was to be ignored.\<close>

definition fitting :: "nat \<Rightarrow> nat \<Rightarrow> string \<Rightarrow> string \<Rightarrow> SHSTATE \<Rightarrow> MADHAVA_INFO \<Rightarrow> bool" where
  "fitting clk ign region zone s pm \<longleftrightarrow> (answering clk ign pm \<or> answering clk 0 pm \<and> no_room_for (\<lambda>_. True) clk ign s) \<and>
     (same_zone region zone pm \<or> no_room_for (same_zone region zone) clk ign s) \<and>
     (same_region region zone pm \<or> no_room_for (same_region region zone) clk ign s)"

lemma fittingI1:
  "answering clk ign pm \<Longrightarrow> group_ok region zone q pm \<Longrightarrow> fresh_search ign q \<Longrightarrow> fitting clk ign region zone s pm"
  by (auto simp: fitting_def group_ok_def fresh_search_def)

lemma no_room_for_mono: "no_room_for P clk ign s \<Longrightarrow> (\<And>pm. Q pm \<Longrightarrow> P pm) \<Longrightarrow> no_room_for Q clk ign s"
  by (auto simp: no_room_for_def)

definition chosen :: "nat \<Rightarrow> nat \<Rightarrow> string \<Rightarrow> string \<Rightarrow> SHSTATE \<Rightarrow> nat \<Rightarrow> SHSTATE \<Rightarrow> bool" where
  "chosen clk ign region zone s r s' \<longleftrightarrow>
     r \<in> set (madhava_tbl s) \<and> fitting clk ign region zone s (objs s r) \<and> within_limit (objs s' r) \<and> adds_only s s'"

lemma walk1_Some:
  assumes "walk1 clk region zone q s = (Some r, q', s')" "fresh_search ign q"
  shows "chosen clk ign region zone s r s'"
  using walk_some[OF assms(1)] walk_frame[OF assms(1)] fittingI1[OF _ _ assms(2)] assms(2)
  by (auto simp: fresh_search_def chosen_def)

text \<open>The step from a walk to the next: the result is that of the first walk, or the first one had none.\<close>

lemma walk_next:
  assumes "retry_walk (max (clk - 600) 60) region zone cond upd w = (Some r, q', s')"
    and "\<And>q1 s1. w = (Some r, q1, s1) \<Longrightarrow> chosen clk ign region zone s r s1"
    and "\<And>q1 s1. w = (None, q1, s1) \<Longrightarrow> keeps s s1"
    and "\<And>q1 s1. w = (None, q1, s1) \<Longrightarrow> answering clk (ign_madid (upd q1)) (objs s r) \<Longrightarrow> group_ok region zone (upd q1) (objs s r) \<Longrightarrow>
      fitting clk ign region zone s (objs s r)"
  shows "chosen clk ign region zone s r s'"
proof -
  obtain m q1 s1 where w: "w = (m, q1, s1)" by (metis prod_cases3)
  show ?thesis
  proof (rule retry_walk_Some[OF assms(1)[unfolded w]])
    assume a: "m = None" "r \<in> set (madhava_tbl s1)" "answering clk (ign_madid (upd q1)) (objs s1 r)"
      "group_ok region zone (upd q1) (objs s1 r)" "within_limit (objs s' r)" "adds_only s1 s'"
    have k: "adds_only s s1" using assms(3) w a(1) by (simp add: keeps_def)
    show ?thesis using assms(4)[OF w[unfolded a(1)]] a adds_only_trans[OF k a(6)]
      by (auto simp: chosen_def adds_onlyD(1)[OF k] adds_only_fields[OF k])
  qed (use assms(2) w in simp)
qed

lemma walk2_Some:
  assumes "walk2 clk region zone q s = (Some r, q', s')" and q: "fresh_search ign q"
  shows "chosen clk ign region zone s r s'"
  by (rule walk_next[OF assms(1)])
    (use walk1_Some[OF _ q] walk1_None[OF _ q] in \<open>auto simp: fitting_def group_ok_def fresh_search_def\<close>)

lemma walk3_Some:
  assumes "walk3 clk region zone q s = (Some r, q', s')" and q: "fresh_search ign q"
  shows "chosen clk ign region zone s r s'"
proof (rule walk_next[OF assms(1)])
  fix q1 s1
  assume w: "walk2 clk region zone q s = (None, q1, s1)" "answering clk (ign_madid (q1\<lparr>ign_region := True\<rparr>)) (objs s r)"
  have "no_room_for (same_zone region zone) clk ign s"
    by (rule no_room_for_mono[OF walk2_None(1)[OF w(1) q]]) (auto simp: same_zone_def same_region_def)
  then show "fitting clk ign region zone s (objs s r)" using walk2_None[OF w(1) q] w(2) by (simp add: fitting_def)
qed (use walk2_Some[OF _ q] walk2_None[OF _ q] in simp_all)

lemma walk4_Some:
  assumes "walk4 clk region zone q s = (Some r, q', s')" and q: "fresh_search ign q"
  shows "chosen clk ign region zone s r s'"
  by (rule walk_next[OF assms(1)])
    (use walk3_Some[OF _ q] walk3_None[OF _ q] no_room_for_mono[of "\<lambda>_. True"] in \<open>auto simp: fitting_def\<close>)

lemma walk4_None:
  assumes "walk4 clk region zone q s = (None, q', s')" "fresh_search ign q"
  shows "no_room_for (\<lambda>_. True) clk ign s" "adds_only s s'"
proof -
  obtain m q3 s3 where w3: "walk3 clk region zone q s = (m, q3, s3)" by (metis prod_cases3)
  note r = retry_walk_None[OF assms(1)[unfolded w3]]
  note w = walk3_None[OF w3[unfolded r(1)] assms(2)]
  show "no_room_for (\<lambda>_. True) clk ign s" "adds_only s s'" using w adds_only_trans[OF _ r(2)] by (simp_all add: keeps_def)
qed

lemma fitting_keeps: "keeps s s' \<Longrightarrow> fitting clk ign region zone s' (objs s' r) \<Longrightarrow> fitting clk ign region zone s (objs s r)"
  unfolding fitting_def using no_room_for_keeps[of s s'] adds_only_fields[of s s'] unfolding keeps_def by blast

text \<open>The whole choice. The Madhava of the last choice need not be in the table for these lemmas.\<close>

definition db_erased :: "machid \<Rightarrow> SHSTATE \<Rightarrow> SHSTATE" where
  "db_erased mid s = s\<lparr>pardbmap := (pardbmap s)(mid := None)\<rparr>"

lemma no_room_for_db_erased [simp]: "no_room_for P clk ign (db_erased mid s) = no_room_for P clk ign s"
  by (simp add: no_room_for_def db_erased_def)

lemma fitting_db_erased [simp]: "fitting clk ign region zone (db_erased mid s) = fitting clk ign region zone s"
  by (simp add: fitting_def fun_eq_iff)

lemma assign_stages:
  assumes "assign_partha_madhava clk mid region zone ign s0 = (m, s')"
  obtains prev ok1 q1 s1 ok2 q2 s2 m4 q4 s4 where
    "\<And>r. prev = Some r \<Longrightarrow> r \<in> set (madhava_tbl s0)"
    "try_madhava (max (clk - 600) 60) region zone prev
       (\<lparr>regionerr = 0, zoneerr = 0, ign_zone = False, ign_region = False, ign_madid = ign\<rparr>, db_erased mid s0) = (ok1, q1, s1)"
    "try_madhava (max (clk - 600) 60) region zone (curr_madhava s1) (q1, s1) = (ok2, q2, s2)"
    "walk4 clk region zone q2 s2 = (m4, q4, s4)"
    "(m, s') = (if ok1 then (prev, s1) else if ok2 then (curr_madhava s1, s2) else case m4 of None \<Rightarrow> (None, s4)
      | Some r \<Rightarrow> (Some r, s4\<lparr>curr_madhava := Some r, curr_madhava_id := madhava_id (objs s4 r)\<rparr>))"
proof -
  let ?s = "db_erased mid s0"
  define q0 where "q0 = \<lparr>regionerr = 0, zoneerr = 0, ign_zone = False, ign_region = False, ign_madid = ign\<rparr>"
  define prev where "prev = prev_madhava region zone ign (pardbmap s0 mid) ?s"
  obtain ok1 q1 s1 where t1: "try_madhava (max (clk - 600) 60) region zone prev (q0, ?s) = (ok1, q1, s1)" by (metis prod_cases3)
  obtain ok2 q2 s2 where t2: "try_madhava (max (clk - 600) 60) region zone (curr_madhava s1) (q1, s1) = (ok2, q2, s2)" by (metis prod_cases3)
  obtain m4 q4 s4 where w: "walk4 clk region zone q2 s2 = (m4, q4, s4)" by (metis prod_cases3)
  have res: "(m, s') = (if ok1 then (prev, s1) else if ok2 then (curr_madhava s1, s2) else case m4 of None \<Rightarrow> (None, s4)
      | Some r \<Rightarrow> (Some r, s4\<lparr>curr_madhava := Some r, curr_madhava_id := madhava_id (objs s4 r)\<rparr>))"
    using assms unfolding assign_partha_madhava_def Let_def db_erased_def[of mid s0, symmetric] prev_def[symmetric] q0_def[symmetric]
      t1 prod.case t2 w by (rule sym)
  have p: "r \<in> set (madhava_tbl s0)" if "prev = Some r" for r
    using that unfolding prev_def prev_madhava_def find_madhava_def
    by (auto simp: db_erased_def find_Some_iff split: option.splits if_splits)
  show thesis by (rule that[OF p t1[unfolded q0_def] t2 w res])
qed

lemma assign_split:
  assumes "assign_partha_madhava clk mid region zone ign s0 = (m, s')"
  obtains (one) r s where "m = Some r" "r \<in> set (madhava_tbl s0) \<or> curr_madhava s0 = Some r"
      "fitting clk ign region zone s0 (objs s0 r)" "within_limit (objs s' r)" "adds_only (db_erased mid s0) s"
      "s' = s\<lparr>curr_madhava := curr_madhava s', curr_madhava_id := curr_madhava_id s'\<rparr>"
      "curr_madhava s' \<in> {curr_madhava s0, Some r}"
  | (none) "m = None" "no_room_for (\<lambda>_. True) clk ign s0" "adds_only (db_erased mid s0) s'"
  using assms
proof (rule assign_stages)
  let ?s = "db_erased mid s0" and ?q = "\<lparr>regionerr = 0, zoneerr = 0, ign_zone = False, ign_region = False, ign_madid = ign\<rparr>"
  fix prev ok1 q1 s1 ok2 q2 s2 m4 q4 s4
  assume prev: "\<And>r. prev = Some r \<Longrightarrow> r \<in> set (madhava_tbl s0)"
    and t1: "try_madhava (max (clk - 600) 60) region zone prev (?q, ?s) = (ok1, q1, s1)"
    and t2: "try_madhava (max (clk - 600) 60) region zone (curr_madhava s1) (q1, s1) = (ok2, q2, s2)"
    and w: "walk4 clk region zone q2 s2 = (m4, q4, s4)"
    and res: "(m, s') = (if ok1 then (prev, s1) else if ok2 then (curr_madhava s1, s2) else case m4 of None \<Rightarrow> (None, s4)
      | Some r \<Rightarrow> (Some r, s4\<lparr>curr_madhava := Some r, curr_madhava_id := madhava_id (objs s4 r)\<rparr>))"
  note f1 = try_madhava_frame[OF t1] and f2 = try_madhava_frame[OF t2]
  have q: "fresh_search ign ?q" "fresh_search ign q1" "fresh_search ign q2"
    using f1(2) f2(2) by (auto simp: fresh_search_def search_eq_def)
  have k1: "keeps ?s s1" if "\<not> ok1" using f1(1,3) that by (simp add: keeps_def)
  have k2: "keeps ?s s2" if "\<not> ok1" "\<not> ok2"
    by (rule keeps_trans[OF k1[OF that(1)]]) (use f2(1,3) that(2) in \<open>simp add: keeps_def\<close>)
  have s: "madhava_tbl ?s = madhava_tbl s0" "curr_madhava ?s = curr_madhava s0" "objs ?s = objs s0" by (simp_all add: db_erased_def)
  note d1 = adds_onlyD[OF f1(1)] and d2 = adds_onlyD[OF adds_only_trans[OF f1(1) f2(1)]]
  consider "ok1" | "\<not> ok1" "ok2" | r where "\<not> ok1" "\<not> ok2" "m4 = Some r" | "\<not> ok1" "\<not> ok2" "m4 = None" by fast
  then show thesis
  proof cases
    case 1
    then obtain r where "prev = Some r" "answering clk ign (objs s0 r)" "group_ok region zone ?q (objs s0 r)" "within_limit (objs s1 r)"
      using f1(4) s(3) by auto
    then show thesis using 1 res f1(1) d1(2) s prev fittingI1[OF _ _ q(1)] by (intro one[of r s1]) auto
  next
    case 2
    then obtain r where "curr_madhava s1 = Some r" "answering clk ign (objs s1 r)" "group_ok region zone q1 (objs s1 r)" "within_limit (objs s2 r)"
      using f2(4) q(2) by (auto simp: fresh_search_def)
    then show thesis using 2 res d1(2) d2(2) s fittingI1[OF _ _ q(2)] adds_only_fields[OF f1(1)] adds_only_trans[OF f1(1) f2(1)]
      by (intro one[of r s2]) auto
  next
    case 3
    note c = walk4_Some[OF w[unfolded 3(3)] q(3)] and k = k2[OF 3(1,2)]
    show thesis using 3 res c k d2(1) s fitting_keeps[OF k, of clk ign region zone r] adds_only_trans[of ?s s2 s4]
      by (intro one[of r s4]) (auto simp: chosen_def keeps_def)
  next
    case 4
    note c = walk4_None[OF w[unfolded 4(3)] q(3)] and k = k2[OF 4(1,2)]
    show thesis using 4 res c k no_room_for_keeps[OF k, of "\<lambda>_. True" clk ign] adds_only_trans[of ?s s2 s4]
      by (intro none) (auto simp: keeps_def)
  qed
qed

text \<open>(C11) The choice of a Madhava for a Partha. A Madhava that is chosen is in the table or is the one of the last choice; it sent
  its status within the last ten minutes; with this Partha and all others given to it in this and the last minute it stays
  below its limit; it is of the Partha's zone unless no answering Madhava of that zone has room, and of its region unless
  none of the region has; and it is the one to be avoided only if no other has room. None is chosen only if no
  answering Madhava of the table, of whatever region, has room, but for the one to be avoided.
\<close>

theorem assign_choice:
  "case assign_partha_madhava clk mid region zone ign s of
     (Some r, s') \<Rightarrow> (r \<in> set (madhava_tbl s) \<or> curr_madhava s = Some r) \<and>
       fitting clk ign region zone s (objs s r) \<and> within_limit (objs s' r)
   | (None, s') \<Rightarrow> no_room_for (\<lambda>_. True) clk ign s"
proof -
  obtain m s' where a: "assign_partha_madhava clk mid region zone ign s = (m, s')" by (metis surj_pair)
  show ?thesis using a by (cases rule: assign_split[OF a]) simp_all
qed

section \<open>Refused attempts count\<close>

text \<open>
  One Madhava, which reports no Parthas at all, and Parthas of its zone that ask again and again: in every minute first the status
  of the Madhava, then requests, then \<open>sync_partha_madhava_node_stats\<close>.
\<close>

definition attempt :: "nat \<Rightarrow> string \<Rightarrow> string \<Rightarrow> machid \<Rightarrow> SHSTATE \<Rightarrow> SHSTATE" where
  "attempt clk region zone mid s = snd (assign_partha_madhava clk mid region zone 0 s)"

definition minute :: "nat \<Rightarrow> string \<Rightarrow> string \<Rightarrow> PL_ENV \<times> machid list \<Rightarrow> SHSTATE \<Rightarrow> SHSTATE" where
  "minute r region zone = (\<lambda>(e, mids) s.
     sync_partha_madhava_node_stats e (fold (attempt (sec_clock e) region zone) mids
       (upd_obj r (status_update \<lparr>time_now = of_nat (sec_time e), get_sec_time = sec_time e, get_sec_clock = sec_clock e\<rparr> 0 0) s)))"

definition lone :: "nat \<Rightarrow> string \<Rightarrow> string \<Rightarrow> nat \<Rightarrow> SHSTATE \<Rightarrow> bool" where
  "lone r region zone k s \<longleftrightarrow> madhava_tbl s = [r] \<and> curr_madhava s = Some r \<and> pardbmap s = Map.empty \<and>
     madhava_id (objs s r) \<noteq> 0 \<and> same_zone region zone (objs s r) \<and>
     npartha_nodes (objs s r) = 0 \<and> unat (max_partha_nodes (objs s r)) = k"

lemma has_room_empty:
  assumes "npartha_nodes pm = 0" "unat (curr_par_adds pm) + unat (last_par_adds pm) + 1 < 2 ^ 32" "1 < unat (max_partha_nodes pm)"
  shows "has_room pm \<longleftrightarrow> unat (curr_par_adds pm) + 1 + unat (last_par_adds pm) < unat (max_partha_nodes pm)"
proof -
  have "unat (curr_par_adds pm + 1) = unat (curr_par_adds pm) + 1" using assms(2) by (simp add: unat_word_ariths)
  then have "unat (curr_par_adds pm + 1 + last_par_adds pm) = unat (curr_par_adds pm) + 1 + unat (last_par_adds pm)"
    using assms(2) by (simp add: unat_word_ariths(1)[of "curr_par_adds pm + 1"])
  then show ?thesis using assms(1,3) by (simp add: has_room_def word_less_nat_alt)
qed

lemma lone_assign:
  assumes l: "lone r region zone k s" and a: "answering clk 0 (objs s r)" and k: "1 < k"
    and c: "unat (curr_par_adds (objs s r)) + unat (last_par_adds (objs s r)) + 2 < 2 ^ 32"
  shows "assign_partha_madhava clk mid region zone 0 s =
    (if unat (curr_par_adds (objs s r)) + 1 + unat (last_par_adds (objs s r)) < k
     then (Some r, (count_add r s)\<lparr>nmadhava_partha := nmadhava_partha s + 1\<rparr>) else (None, count_add r (count_add r s)))"
proof -
  define q where "q = \<lparr>regionerr = 0, zoneerr = 0, ign_zone = False, ign_region = False, ign_madid = 0\<rparr>"
  let ?t = "count_add r s"
  have s: "s\<lparr>pardbmap := (pardbmap s)(mid := None)\<rparr> = s" "pardbmap s mid = None" using l by (simp_all add: lone_def fun_upd_idem)
  have t: "objs ?t r = (objs s r)\<lparr>curr_par_adds := curr_par_adds (objs s r) + 1\<rparr>" "madhava_tbl ?t = [r]" "curr_madhava s = Some r"
    using l by (simp_all add: count_add_def upd_obj_def lone_def)
  have g: "same_zone region zone (objs s r)" "same_region region zone (objs s r)" "npartha_nodes (objs s r) = 0"
    "unat (max_partha_nodes (objs s r)) = k" "same_zone region zone (objs ?t r)" "same_region region zone (objs ?t r)"
    using l by (auto simp: lone_def same_zone_def same_region_def t)
  have a': "answering clk 0 (objs ?t r)" using a by (simp add: answering_def t)
  have m: "1 < max_partha_nodes (objs s r)" using g(4) k by (simp add: word_less_nat_alt)
  have u: "unat (curr_par_adds (objs s r) + 1) = unat (curr_par_adds (objs s r)) + 1" using c by (simp add: unat_word_ariths)
  have h: "has_room (objs s r) \<longleftrightarrow> unat (curr_par_adds (objs s r)) + 1 + unat (last_par_adds (objs s r)) < k"
    using has_room_empty[OF g(3)] c k g(4) by simp
  have h': "has_room (objs ?t r) \<longleftrightarrow> unat (curr_par_adds (objs s r)) + 2 + unat (last_par_adds (objs s r)) < k"
    using has_room_empty[of "objs ?t r"] c k g(3,4) by (simp add: t u)
  have c1: "check_madhava (max (clk - 600) 60) region zone r (q, s) =
      (if has_room (objs s r) then (True, q, ?t\<lparr>nmadhava_partha := nmadhava_partha s + 1\<rparr>) else (False, q, ?t))"
    using a g m by (simp add: check_madhava_eq q_def)
  have c2: "check_madhava (max (clk - 600) 60) region zone r (q, ?t) = (False, q, count_add r ?t)" if "\<not> has_room (objs s r)"
    using a' g m that h h' by (simp add: check_madhava_eq q_def t)
  show ?thesis
    unfolding assign_partha_madhava_def Let_def q_def[symmetric]
    using c1 c2 h by (simp add: s t prev_madhava_def try_madhava_def retry_walk_def q_def)
qed

lemma lone_attempt:
  assumes l: "lone r region zone k s" and a: "answering clk 0 (objs s r)" and k: "1 < k"
    and c: "unat (curr_par_adds (objs s r)) + unat (last_par_adds (objs s r)) + 2 < 2 ^ 32"
  obtains d where "d \<in> {1, 2}" "lone r region zone k (attempt clk region zone mid s)"
    "objs (attempt clk region zone mid s) r = (objs s r)\<lparr>curr_par_adds := curr_par_adds (objs s r) + of_nat d\<rparr>"
proof (cases "unat (curr_par_adds (objs s r)) + 1 + unat (last_par_adds (objs s r)) < k")
  case True
  then show thesis using lone_assign[OF assms, of mid] l
    by (intro that[of 1]) (simp_all add: attempt_def lone_def count_add_def upd_obj_def same_zone_def)
next
  case False
  then show thesis using lone_assign[OF assms, of mid] l
    by (intro that[of 2]) (simp_all add: attempt_def lone_def count_add_def upd_obj_def same_zone_def add.assoc)
qed

lemma lone_attempts:
  assumes "lone r region zone k s" "answering clk 0 (objs s r)" "1 < k"
    and "unat (curr_par_adds (objs s r)) + unat (last_par_adds (objs s r)) + 2 * length mids < 2 ^ 32"
  shows "\<exists>d. length mids \<le> d \<and> d \<le> 2 * length mids \<and> lone r region zone k (fold (attempt clk region zone) mids s) \<and>
    objs (fold (attempt clk region zone) mids s) r = (objs s r)\<lparr>curr_par_adds := curr_par_adds (objs s r) + of_nat d\<rparr>"
  using assms
proof (induction mids arbitrary: s)
  case (Cons mid mids)
  let ?t = "attempt clk region zone mid s"
  have c: "unat (curr_par_adds (objs s r)) + unat (last_par_adds (objs s r)) + 2 < 2 ^ 32" using Cons.prems(4) by simp
  obtain d where d: "d \<in> {1, 2}" and l: "lone r region zone k ?t"
    and o: "objs ?t r = (objs s r)\<lparr>curr_par_adds := curr_par_adds (objs s r) + of_nat d\<rparr>"
    by (rule lone_attempt[OF Cons.prems(1-3) c, of mid])
  have u: "unat (curr_par_adds (objs s r) + of_nat d) = unat (curr_par_adds (objs s r)) + d"
    using d Cons.prems(4) by (auto simp: unat_word_ariths)
  have "answering clk 0 (objs ?t r)" using Cons.prems(2) by (simp add: o answering_def)
  moreover have "unat (curr_par_adds (objs ?t r)) + unat (last_par_adds (objs ?t r)) + 2 * length mids < 2 ^ 32"
    using Cons.prems(4) d by (auto simp: o u)
  ultimately obtain d' where d': "length mids \<le> d'" "d' \<le> 2 * length mids" "lone r region zone k (fold (attempt clk region zone) mids ?t)"
    "objs (fold (attempt clk region zone) mids ?t) r = (objs ?t r)\<lparr>curr_par_adds := curr_par_adds (objs ?t r) + of_nat d'\<rparr>"
    using Cons.IH[OF l _ Cons.prems(3)] by blast
  then show ?case using d by (intro exI[of _ "d + d'"]) (auto simp: o add.assoc)
qed simp

lemma lone_sync:
  assumes "lone r region zone k s" "num_conns e r > 0"
  shows "lone r region zone k (sync_partha_madhava_node_stats e s)"
    "objs (sync_partha_madhava_node_stats e s) r = (objs s r)\<lparr>last_par_adds := curr_par_adds (objs s r), curr_par_adds := 0\<rparr>"
  using assms by (simp_all add: sync_partha_madhava_node_stats_def sync_madhava_def lone_def upd_obj_def Let_def same_zone_def)

text \<open>After one minute with enough attempts the count of the last minute alone is above the limit.\<close>

definition flooded :: "nat \<Rightarrow> string \<Rightarrow> string \<Rightarrow> nat \<Rightarrow> SHSTATE \<Rightarrow> bool" where
  "flooded r region zone k s \<longleftrightarrow> lone r region zone k s \<and> curr_par_adds (objs s r) = 0 \<and>
     k \<le> unat (last_par_adds (objs s r)) \<and> unat (last_par_adds (objs s r)) \<le> 2 ^ 30"

definition busy_minute :: "nat \<Rightarrow> nat \<Rightarrow> PL_ENV \<times> machid list \<Rightarrow> bool" where
  "busy_minute r k = (\<lambda>(e, mids). num_conns e r > 0 \<and> sec_clock e > 60 \<and> k \<le> length mids \<and> length mids \<le> 2 ^ 29)"

lemma minute_flooded:
  assumes "lone r region zone k s" "1 < k" "curr_par_adds (objs s r) = 0" "unat (last_par_adds (objs s r)) \<le> 2 ^ 30"
    "busy_minute r k em"
  shows "flooded r region zone k (minute r region zone em s)"
    "last_status_csec (objs (minute r region zone em s) r) = sec_clock (fst em)"
proof -
  obtain e mids where em: "em = (e, mids)" by (metis surj_pair)
  define t where "t = upd_obj r (status_update \<lparr>time_now = of_nat (sec_time e), get_sec_time = sec_time e, get_sec_clock = sec_clock e\<rparr> 0 0) s"
  have t: "lone r region zone k t" "answering (sec_clock e) 0 (objs t r)" "curr_par_adds (objs t r) = 0"
    "last_par_adds (objs t r) = last_par_adds (objs s r)" "last_status_csec (objs t r) = sec_clock e"
    using assms by (simp_all add: t_def em lone_def upd_obj_def status_update_def same_zone_def answering_def busy_minute_def)
  have b: "num_conns e r > 0" "length mids \<le> 2 ^ 29" "k \<le> length mids" using assms(5) by (simp_all add: em busy_minute_def)
  let ?u = "fold (attempt (sec_clock e) region zone) mids t"
  obtain d where d: "length mids \<le> d" "d \<le> 2 * length mids" "lone r region zone k ?u"
    "objs ?u r = (objs t r)\<lparr>curr_par_adds := of_nat d\<rparr>"
    using lone_attempts[OF t(1,2) assms(2), of mids] b(2) assms(4) t(3,4) by auto
  have "unat (of_nat d :: 32 word) = d" using d(2) b(2) by (simp add: unat_of_nat take_bit_nat_eq_self)
  then show "flooded r region zone k (minute r region zone em s)" using lone_sync[OF d(3) b(1)] d b
    by (simp add: flooded_def minute_def em t_def)
  show "last_status_csec (objs (minute r region zone em s) r) = sec_clock (fst em)"
    using lone_sync(2)[OF d(3) b(1)] d(4) t(5) by (simp add: minute_def em t_def)
qed

lemma flooded_refuses:
  assumes "flooded r region zone k s" "1 < k"
  shows "fst (assign_partha_madhava clk mid region zone 0 s) = None"
proof (cases "answering clk 0 (objs s r)")
  case True
  have "unat (curr_par_adds (objs s r)) + unat (last_par_adds (objs s r)) + 2 < 2 ^ 32" using assms(1) by (simp add: flooded_def)
  then show ?thesis using lone_assign[OF _ True assms(2), of region zone mid] assms(1) by (simp add: flooded_def)
next
  case False
  obtain m s' where a: "assign_partha_madhava clk mid region zone 0 s = (m, s')" by (metis surj_pair)
  show ?thesis using False assms a by (cases rule: assign_split[OF a]) (auto simp: flooded_def lone_def fitting_def)
qed

text \<open>(C32) Attempts that are refused are counted as additions, so that a Madhava may refuse for ever. Take one Madhava that reports no
  Partha at all and may have \<open>k\<close>. If in each of some minutes at least \<open>k\<close> attempts are made to assign it a Partha, then
  after the first such minute no attempt succeeds, although the Madhava answers, is of the right zone, and is empty. The
  premises bound the number of attempts, so that no count wraps around.
\<close>

theorem refused_attempts_starve:
  assumes "lone r region zone k s" "1 < k" "curr_par_adds (objs s r) = 0" "unat (last_par_adds (objs s r)) \<le> 2 ^ 30"
    and "minutes \<noteq> []" "list_all (busy_minute r k) minutes"
    and "t = fold (minute r region zone) minutes s"
  shows "npartha_nodes (objs t r) = 0 \<and> madhava_tbl t = [r] \<and> last_status_csec (objs t r) = sec_clock (fst (last minutes)) \<and>
    fst (assign_partha_madhava clk mid region zone 0 t) = None"
proof -
  have "flooded r region zone k t \<and> last_status_csec (objs t r) = sec_clock (fst (last minutes))"
    using assms(5-7)
  proof (induction minutes arbitrary: t rule: rev_induct)
    case (snoc em ms)
    let ?u = "fold (minute r region zone) ms s"
    have "lone r region zone k ?u \<and> curr_par_adds (objs ?u r) = 0 \<and> unat (last_par_adds (objs ?u r)) \<le> 2 ^ 30"
      using snoc.IH[of ?u] snoc.prems(2) assms(1,3,4) by (cases "ms = []") (auto simp: flooded_def)
    then show ?case using minute_flooded[OF _ assms(2), of r region zone ?u em] snoc.prems by simp
  qed simp
  then show ?thesis using flooded_refuses[of r region zone k t clk mid] assms(2) by (simp add: flooded_def lone_def)
qed

definition sample_sh_madhava :: MADHAVA_INFO where
  "sample_sh_madhava = (new_madhava_info 17 (''m'', 10037))\<lparr>region_name := ''r'', zone_name := ''z'', max_partha_nodes := 2,
     last_status_csec := 1000\<rparr>"

definition sample_shstate :: SHSTATE where
  "sample_shstate = \<lparr>objs = (\<lambda>_. sample_sh_madhava), nobjs = 1, madhava_tbl = [0], curr_madhava = Some 0, curr_madhava_id = 17,
     nmadhava_partha = 0, last_madhava_chg_tusec = 0, last_new_madhava_cusec = 0, last_mn_db_upd_tusec = 0,
     pardbmap = Map.empty, partha_tbl = Map.empty\<rparr>"

definition sample_pl_env :: "nat \<Rightarrow> PL_ENV" where
  "sample_pl_env clk = \<lparr>usec_time = of_nat clk * 1000000, usec_clock = of_nat clk * 1000000, sec_clock = clk, sec_time = clk,
     min_madhava = 1, cityhash64 = (\<lambda>t c h. t + of_nat (length c + length h)), resp_conn = (\<lambda>_. True), num_conns = (\<lambda>_. 1),
     last_oper_time = (\<lambda>_. of_nat clk * 1000000), madhava_l1_write = True, partha_l1_write = True, ins_at = 0\<rparr>"

theorem refused_attempts_starve_witness:
  "fst (assign_partha_madhava 1120 (3, 3) ''r'' ''z'' 0
     (fold (minute 0 ''r'' ''z'') [(sample_pl_env 1000, [(1, 1), (2, 2)]), (sample_pl_env 1060, [(1, 1), (3, 3)])] sample_shstate)) = None"
proof -
  have "lone 0 ''r'' ''z'' 2 sample_shstate" "curr_par_adds (objs sample_shstate 0) = 0" "last_par_adds (objs sample_shstate 0) = 0"
    by (simp_all add: lone_def sample_shstate_def sample_sh_madhava_def new_madhava_info_def same_zone_def)
  then show ?thesis
    using refused_attempts_starve[of 0 "''r''" "''z''" 2 sample_shstate
        "[(sample_pl_env 1000, [(1, 1), (2, 2)]), (sample_pl_env 1060, [(1, 1), (3, 3)])]", OF _ _ _ _ _ _ refl, of 1120 "(3, 3)"]
    by (simp add: busy_minute_def sample_pl_env_def)
qed

end
