(* ===== verification/Gy_Shyama_Tables.thy ===== *)
theory Gy_Shyama_Tables
  imports Gy_Choice
begin

text \<open>
  The tables of Shyama over any sequence of the operations of \<open>Gy_Placement\<close>: a step relation, what holds of every reachable
  state, and what the registration of a Partha sends to whom.
\<close>

section \<open>Steps\<close>

inductive sh_step :: "SHSTATE \<Rightarrow> SHSTATE \<Rightarrow> bool" where
  madhava_reg: "handle_misc_madhava_reg e connected pms s = (ret, s') \<Longrightarrow> sh_step s s'"
| partha_reg: "handle_misc_partha_reg e connected preg s = (ret, outs, s') \<Longrightarrow> sh_step s s'"
| madhava_status: "r \<in> set (madhava_tbl s) \<Longrightarrow> sh_step s (upd_obj r (status_update now nodes conns) s)"
| madhava_partha: "r \<in> set (madhava_tbl s) \<Longrightarrow> handle_madhava_reg_partha e (Some r) elems s = (ok, s') \<Longrightarrow> sh_step s s'"
| partha_ping: "r \<in> set (madhava_tbl s) \<Longrightarrow> handle_ms_partha_ping tcurr (Some r) pings s = Some (c, s') \<Longrightarrow> sh_step s s'"
| cleanup: "cleanup_db_partha_entries tcurr tproc dborder parorder s = (del, s') \<Longrightarrow> sh_step s s'"
| sync: "sh_step s (sync_partha_madhava_node_stats e s)"

text \<open>At the start the database may know Parthas (\<open>read_db_partha_info\<close>).\<close>

definition sh_init :: "(machid \<rightharpoonup> ParthaDbStat) \<Rightarrow> SHSTATE" where
  "sh_init db = \<lparr>objs = (\<lambda>_. new_madhava_info 0 ([], 0)), nobjs = 0, madhava_tbl = [], curr_madhava = None, curr_madhava_id = 0,
     nmadhava_partha = 0, last_madhava_chg_tusec = 0, last_new_madhava_cusec = 0, last_mn_db_upd_tusec = 0,
     pardbmap = db, partha_tbl = Map.empty\<rparr>"

section \<open>Invariant\<close>

definition obj_ids :: "SHSTATE \<Rightarrow> nat \<Rightarrow> nat" where
  "obj_ids s r = madhava_id (objs s r)"

definition tbl_inv :: "SHSTATE \<Rightarrow> bool" where
  "tbl_inv s \<longleftrightarrow> distinct (map (obj_ids s) (madhava_tbl s)) \<and> set (madhava_tbl s) \<subseteq> {..<nobjs s} \<and>
     length (madhava_tbl s) \<le> MAX_MADHAVA_PER_SHYAMA \<and>
     set_option (curr_madhava s) \<subseteq> set (madhava_tbl s)"

definition partha_inv :: "SHSTATE \<Rightarrow> bool" where
  "partha_inv s \<longleftrightarrow> (\<forall>mid p. partha_tbl s mid = Some p \<longrightarrow>
     pardbmap s mid = None \<and> madhava_weak p < nobjs s \<and> p_madhava_id p = obj_ids s (madhava_weak p))"

definition sh_inv :: "SHSTATE \<Rightarrow> bool" where
  "sh_inv s \<longleftrightarrow> tbl_inv s \<and> partha_inv s"

lemma partha_invD:
  "sh_inv s \<Longrightarrow> partha_tbl s mid = Some p \<Longrightarrow> pardbmap s mid = None \<and> madhava_weak p < nobjs s \<and> p_madhava_id p = obj_ids s (madhava_weak p)"
  unfolding sh_inv_def partha_inv_def by blast

lemma obj_ids_upd [simp]:
  "(\<And>pm. madhava_id (f pm) = madhava_id pm) \<Longrightarrow> obj_ids (upd_obj r f s) = obj_ids s"
  by (auto simp: obj_ids_def upd_obj_def fun_eq_iff)

lemma upd_obj_fields [simp]:
  "madhava_tbl (upd_obj r f s) = madhava_tbl s" "nobjs (upd_obj r f s) = nobjs s" "curr_madhava (upd_obj r f s) = curr_madhava s"
  "partha_tbl (upd_obj r f s) = partha_tbl s" "pardbmap (upd_obj r f s) = pardbmap s"
  by (simp_all add: upd_obj_def)

lemma obj_ids_fields [simp]:
  "obj_ids (s\<lparr>madhava_tbl := a\<rparr>) = obj_ids s" "obj_ids (s\<lparr>curr_madhava := b\<rparr>) = obj_ids s" "obj_ids (s\<lparr>curr_madhava_id := c\<rparr>) = obj_ids s"
  "obj_ids (s\<lparr>pardbmap := d\<rparr>) = obj_ids s" "obj_ids (s\<lparr>partha_tbl := f\<rparr>) = obj_ids s" "obj_ids (s\<lparr>last_madhava_chg_tusec := g\<rparr>) = obj_ids s"
  "obj_ids (s\<lparr>nmadhava_partha := h\<rparr>) = obj_ids s" "obj_ids (s\<lparr>last_mn_db_upd_tusec := i\<rparr>) = obj_ids s"
  by (simp_all add: obj_ids_def fun_eq_iff)

lemma tbl_inv_upd [simp]: "(\<And>pm. madhava_id (f pm) = madhava_id pm) \<Longrightarrow> tbl_inv (upd_obj r f s) = tbl_inv s"
  by (simp add: tbl_inv_def)

lemma partha_inv_upd [simp]: "(\<And>pm. madhava_id (f pm) = madhava_id pm) \<Longrightarrow> partha_inv (upd_obj r f s) = partha_inv s"
  by (simp add: partha_inv_def)

lemma inv_other_fields [simp]:
  "tbl_inv (s\<lparr>pardbmap := d\<rparr>) = tbl_inv s" "tbl_inv (s\<lparr>partha_tbl := f\<rparr>) = tbl_inv s"
  "tbl_inv (s\<lparr>last_madhava_chg_tusec := g\<rparr>) = tbl_inv s" "tbl_inv (s\<lparr>nmadhava_partha := h\<rparr>) = tbl_inv s"
  "tbl_inv (s\<lparr>last_mn_db_upd_tusec := i\<rparr>) = tbl_inv s" "tbl_inv (s\<lparr>curr_madhava_id := c\<rparr>) = tbl_inv s"
  "partha_inv (s\<lparr>madhava_tbl := a\<rparr>) = partha_inv s" "partha_inv (s\<lparr>curr_madhava := b\<rparr>) = partha_inv s"
  "partha_inv (s\<lparr>last_madhava_chg_tusec := g\<rparr>) = partha_inv s" "partha_inv (s\<lparr>nmadhava_partha := h\<rparr>) = partha_inv s"
  "partha_inv (s\<lparr>last_mn_db_upd_tusec := i\<rparr>) = partha_inv s" "partha_inv (s\<lparr>curr_madhava_id := c\<rparr>) = partha_inv s"
  by (simp_all add: tbl_inv_def partha_inv_def)

lemma adds_only_inv:
  assumes "adds_only s s'"
  shows "tbl_inv s' = tbl_inv s" "partha_inv s' = partha_inv s"
proof -
  have "obj_ids s' = obj_ids s" using adds_only_fields(1)[OF assms] by (simp add: obj_ids_def fun_eq_iff)
  then show "tbl_inv s' = tbl_inv s" "partha_inv s' = partha_inv s"
    by (simp_all add: tbl_inv_def partha_inv_def adds_onlyD[OF assms])
qed

lemma partha_inv_db_erased: "partha_inv s \<Longrightarrow> partha_inv (db_erased mid s)"
  by (auto simp: partha_inv_def db_erased_def)

lemma tbl_inv_db_erased [simp]: "tbl_inv (db_erased mid s) = tbl_inv s"
  by (simp add: db_erased_def)

subsection \<open>Madhavas\<close>

lemma find_madhava_None: "find_madhava s i = None \<longleftrightarrow> i \<notin> obj_ids s ` set (madhava_tbl s)"
  by (auto simp: find_madhava_def find_None_iff obj_ids_def)

lemma new_madhava_inv:
  assumes "sh_inv s" "i \<notin> obj_ids s ` set (madhava_tbl s)" "length (madhava_tbl s) < MAX_MADHAVA_PER_SHYAMA"
  shows "sh_inv (s\<lparr>objs := (objs s)(nobjs s := new_madhava_info i lp), nobjs := Suc (nobjs s),
     madhava_tbl := take n (madhava_tbl s) @ nobjs s # drop n (madhava_tbl s), last_madhava_chg_tusec := a, last_new_madhava_cusec := b\<rparr>)"
    (is "sh_inv ?s")
proof -
  let ?l = "madhava_tbl s"
  have ids: "obj_ids ?s r = (if r = nobjs s then i else obj_ids s r)" for r by (simp add: obj_ids_def new_madhava_info_def)
  have old: "map (obj_ids ?s) xs = map (obj_ids s) xs" if "set xs \<subseteq> set ?l" for xs
    using assms(1) that by (auto simp: ids sh_inv_def tbl_inv_def)
  let ?a = "map (obj_ids s) (take n ?l)" and ?b = "map (obj_ids s) (drop n ?l)"
  have m: "map (obj_ids ?s) (madhava_tbl ?s) = ?a @ i # ?b"
    using old[OF set_take_subset] old[OF set_drop_subset] ids[of "nobjs s"] by simp
  have "?a @ ?b = map (obj_ids s) ?l" by (simp flip: map_append)
  moreover have "distinct (?a @ i # ?b) \<longleftrightarrow> distinct (?a @ ?b) \<and> i \<notin> set (?a @ ?b)" by auto
  ultimately have "distinct (map (obj_ids ?s) (madhava_tbl ?s)) = distinct (i # map (obj_ids s) ?l)" by (simp only: m distinct.simps conj_commute)
  moreover have "set (madhava_tbl ?s) = insert (nobjs s) (set ?l)" using set_append[of "take n ?l" "drop n ?l"] by auto
  ultimately have "tbl_inv ?s"
    using assms unfolding sh_inv_def tbl_inv_def by (simp only: distinct.simps) (auto simp flip: obj_ids_def)
  moreover have "partha_inv ?s"
    unfolding partha_inv_def
  proof (intro allI impI)
    fix mid p assume "partha_tbl ?s mid = Some p"
    then have "partha_tbl s mid = Some p" by simp
    from partha_invD[OF assms(1) this]
    show "pardbmap ?s mid = None \<and> madhava_weak p < nobjs ?s \<and> p_madhava_id p = obj_ids ?s (madhava_weak p)" by (simp add: ids)
  qed
  ultimately show ?thesis by (simp add: sh_inv_def)
qed

lemma madhava_reg_inv:
  assumes "sh_inv s" "handle_misc_madhava_reg e connected pms s = (ret, s')"
  shows "sh_inv s'"
proof (cases "connected \<and> find_madhava s (rq_madhava_id pms) = None \<and> length (madhava_tbl s) < MAX_MADHAVA_PER_SHYAMA")
  case True
  then have "rq_madhava_id pms \<notin> obj_ids s ` set (madhava_tbl s)" "length (madhava_tbl s) < MAX_MADHAVA_PER_SHYAMA"
    by (simp_all flip: find_madhava_None)
  from new_madhava_inv[OF assms(1) this, of "usec_clock e" "usec_time e" "ins_at e" "rq_listener pms"] show ?thesis
    using assms(2) True by (auto simp: handle_misc_madhava_reg_def Let_def sh_inv_def set_registered_def)
next
  case False
  then show ?thesis using assms
    by (auto simp: handle_misc_madhava_reg_def Let_def sh_inv_def set_registered_def split: if_splits option.splits)
qed

text \<open>A walk of \<open>sync\<close> only removes.\<close>

lemma sync_madhava_inv:
  assumes "sh_inv s" "sync_madhava e r (c, s) = (c', s')"
  shows "sh_inv s'"
proof -
  let ?f = "\<lambda>pm :: MADHAVA_INFO. pm\<lparr>last_par_adds := curr_par_adds pm, curr_par_adds := 0\<rparr>"
  have i: "sh_inv (upd_obj r ?f s)" using assms(1) by (simp add: sh_inv_def)
  then have "distinct (madhava_tbl (upd_obj r ?f s))" by (simp add: sh_inv_def tbl_inv_def distinct_map)
  then have rm: "remove1 r (madhava_tbl s) = filter (\<lambda>x. x \<noteq> r) (madhava_tbl s)"
    by (simp add: distinct_remove1_removeAll removeAll_filter_not_eq) (metis)
  have "sh_inv ((upd_obj r ?f s)\<lparr>madhava_tbl := remove1 r (madhava_tbl s),
      curr_madhava := (if curr_madhava s = Some r then None else curr_madhava s)\<rparr>)"
    using i by (auto simp: sh_inv_def tbl_inv_def rm distinct_map_filter intro: le_trans[OF length_filter_le])
  then show ?thesis using assms(2) i by (auto simp: sync_madhava_def Let_def split: if_splits)
qed

lemma sync_inv:
  assumes "sh_inv s"
  shows "sh_inv (sync_partha_madhava_node_stats e s)"
proof -
  have fold: "sh_inv (snd (fold (sync_madhava e) rs (c, t)))" if "sh_inv t" for rs c t
    using that
  proof (induction rs arbitrary: c t)
    case (Cons r rs)
    obtain c' t' where "sync_madhava e r (c, t) = (c', t')" by (metis surj_pair)
    then show ?case using Cons.IH[of t' c'] sync_madhava_inv[OF Cons.prems] by simp
  qed simp
  obtain c t where t: "fold (sync_madhava e) (madhava_tbl s) (\<lparr>nmad = 0, nmaddel = 0, nmaddel_with_par = 0\<rparr>, s) = (c, t)"
    by (metis surj_pair)
  have "sh_inv t" using fold[OF assms, of "madhava_tbl s" "\<lparr>nmad = 0, nmaddel = 0, nmaddel_with_par = 0\<rparr>"] by (simp add: t)
  then show ?thesis by (simp add: sync_partha_madhava_node_stats_def t Let_def sh_inv_def)
qed

subsection \<open>Parthas\<close>

lemma assign_inv:
  assumes "sh_inv s" "assign_partha_madhava clk mid region zone ign s = (m, s')"
  shows "sh_inv s'" "pardbmap s' mid = None" "partha_tbl s' = partha_tbl s" "set_option m \<subseteq> set (madhava_tbl s')"
proof -
  have base: "sh_inv t \<and> pardbmap t mid = None \<and> partha_tbl t = partha_tbl s \<and> madhava_tbl t = madhava_tbl s \<and>
      curr_madhava t = curr_madhava s"
    if "adds_only (db_erased mid s) t" for t
    using assms(1) adds_only_inv[OF that] partha_inv_db_erased[of s mid] adds_onlyD[OF that]
    by (simp add: sh_inv_def) (simp add: db_erased_def)
  have "sh_inv s' \<and> pardbmap s' mid = None \<and> partha_tbl s' = partha_tbl s \<and> set_option m \<subseteq> set (madhava_tbl s')"
    using assms(2)
  proof (cases rule: assign_split)
    case (one r t)
    have r: "r \<in> set (madhava_tbl s)" using one(2) assms(1) by (auto simp: sh_inv_def tbl_inv_def)
    obtain c i where c: "s' = t\<lparr>curr_madhava := c, curr_madhava_id := i\<rparr>" using one(6) by blast
    have "c \<in> {curr_madhava s, Some r}" using one(7) by (simp add: c)
    then have "set_option c \<subseteq> set (madhava_tbl s)" using r assms(1) by (auto simp: sh_inv_def tbl_inv_def)
    then show ?thesis using base[OF one(5)] r one(1) by (auto simp: c sh_inv_def tbl_inv_def)
  next
    case none
    then show ?thesis using base by simp
  qed
  then show "sh_inv s'" "pardbmap s' mid = None" "partha_tbl s' = partha_tbl s" "set_option m \<subseteq> set (madhava_tbl s')" by simp_all
qed

lemma sh_inv_partha_upd:
  assumes "sh_inv s" "\<And>p. v = Some p \<Longrightarrow> pardbmap s mid = None \<and> madhava_weak p < nobjs s \<and> p_madhava_id p = obj_ids s (madhava_weak p)"
  shows "sh_inv (s\<lparr>partha_tbl := (partha_tbl s)(mid := v)\<rparr>)"
  using assms by (auto simp: sh_inv_def partha_inv_def)

lemma sh_inv_pardb_upd:
  assumes "sh_inv s" "partha_tbl s mid = None \<or> v = None"
  shows "sh_inv (s\<lparr>pardbmap := (pardbmap s)(mid := v)\<rparr>)"
  using assms by (auto simp: sh_inv_def partha_inv_def)

definition found_resp :: "PL_ENV \<Rightarrow> PS_REQ \<Rightarrow> SH_PARTHA_INFO \<Rightarrow> MADHAVA_INFO \<Rightarrow> PS_RESP" where
  "found_resp e preg pinfo pmad = zero_resp\<lparr>rs_ident_key := ident_key (set_ident_key e (upd_pinfo preg pinfo)),
     rs_madhava_expiry_sec := sec_time e + 300 - 5, rs_madhava_id := madhava_id pmad,
     rs_madhava_listener := listener_port pmad, rs_madhava_name := madhava_name pmad\<rparr>"

lemma parlam_cases:
  obtains "parlam e preg pinfo s =
      PAR_NOT_FOUND (ps_last_madhava_id preg) True (s\<lparr>partha_tbl := (partha_tbl s)(ps_machid preg := None)\<rparr>)"
  | "madhava_weak pinfo \<in> set (madhava_tbl s)"
    "parlam e preg pinfo s = PAR_FOUND (madhava_weak pinfo) (found_resp e preg pinfo (objs s (madhava_weak pinfo)))
      (s\<lparr>partha_tbl := (partha_tbl s)(ps_machid preg := Some (set_ident_key e (upd_pinfo preg pinfo)))\<rparr>)"
proof (cases "madhava_weak pinfo \<in> set (madhava_tbl s)")
  case True
  have "parlam e preg pinfo s \<in> {
      PAR_NOT_FOUND (ps_last_madhava_id preg) True (s\<lparr>partha_tbl := (partha_tbl s)(ps_machid preg := None)\<rparr>),
      PAR_FOUND (madhava_weak pinfo) (found_resp e preg pinfo (objs s (madhava_weak pinfo)))
        (s\<lparr>partha_tbl := (partha_tbl s)(ps_machid preg := Some (set_ident_key e (upd_pinfo preg pinfo)))\<rparr>)}"
    unfolding parlam_def lock_madhava_def Let_def found_resp_def
    by (simp only: True if_True option.case split: if_split, simp)
  then show thesis using True that by blast
qed (use that(1) in \<open>simp add: parlam_def lock_madhava_def\<close>)

lemma sh_inv_found:
  assumes "sh_inv s" "partha_tbl s mid = Some pinfo"
  shows "sh_inv (s\<lparr>partha_tbl := (partha_tbl s)(mid := Some (set_ident_key e (upd_pinfo preg pinfo)))\<rparr>)"
  using assms partha_invD[OF assms] by (intro sh_inv_partha_upd) (auto simp: set_ident_key_def upd_pinfo_def)

lemma key_and_response_inv:
  assumes "sh_inv s" "key_and_response e preg is_new r resp s = (ret, outs, s')"
  shows "sh_inv s'"
  using assms by (auto simp: key_and_response_def send_madhava_key_def send_par_def sh_inv_def split: if_splits)

lemma register_new_inv:
  assumes "sh_inv s" "register_new_partha e preg ign s = (ret, outs, s')"
  shows "sh_inv s'"
proof -
  obtain m t where a: "assign_partha_madhava (sec_clock e) (ps_machid preg) (ps_region preg) (ps_zone preg) ign s = (m, t)"
    by (metis surj_pair)
  note i = assign_inv[OF assms(1) a]
  show ?thesis
  proof (cases m)
    case (Some r)
    let ?p = "set_ident_key e (upd_pinfo preg (new_partha_info e r (madhava_id (objs t r))))"
    have "r < nobjs t" using i(1,4) Some by (auto simp: sh_inv_def tbl_inv_def)
    then have "sh_inv (t\<lparr>partha_tbl := (partha_tbl t)(ps_machid preg := Some ?p)\<rparr>)"
      using i(1,2) by (intro sh_inv_partha_upd) (auto simp: set_ident_key_def upd_pinfo_def new_partha_info_def obj_ids_def)
    then show ?thesis using assms(2) i(1)
      by (auto simp: register_new_partha_def a Some Let_def split: if_splits elim: key_and_response_inv)
  qed (use assms(2) i(1) in \<open>simp add: register_new_partha_def a refuse_par_def\<close>)
qed

lemma partha_reg_inv:
  assumes "sh_inv s" "handle_misc_partha_reg e connected preg s = (ret, outs, s')"
  shows "sh_inv s'"
proof (cases "partha_tbl s (ps_machid preg)")
  case None
  then show ?thesis using assms register_new_inv[OF assms(1), of e preg 0 ret outs s']
    by (auto simp: handle_misc_partha_reg_def lookup_partha_def refuse_par_def split: if_splits)
next
  case (Some pinfo)
  note a = assms(2)[unfolded handle_misc_partha_reg_def lookup_partha_def Some option.case refuse_par_def]
  show ?thesis
  proof (cases rule: parlam_cases[of e preg pinfo s])
    case 1
    then show ?thesis using a assms(1) sh_inv_partha_upd[OF assms(1), of None "ps_machid preg"] by (auto split: if_splits)
  next
    case 2
    then show ?thesis using a assms(1) key_and_response_inv[OF sh_inv_found[OF assms(1) Some]] by (auto split: if_splits)
  qed
qed

lemma reg_partha_one_inv:
  assumes "sh_inv s" "r \<in> set (madhava_tbl s)"
  shows "sh_inv (reg_partha_one e r pone s)" "madhava_tbl (reg_partha_one e r pone s) = madhava_tbl s"
proof -
  let ?p = "(new_partha_info e r (madhava_id (objs s r)))\<lparr>p_hostname := rp_hostname pone, p_cluster := rp_cluster pone,
    p_region := rp_region pone, p_zone := rp_zone pone, new_registered := False\<rparr>"
  have "sh_inv (s\<lparr>pardbmap := (pardbmap s)(rp_machid pone := None)\<rparr>)" by (rule sh_inv_pardb_upd[OF assms(1)]) simp
  moreover have "r < nobjs s" using assms by (auto simp: sh_inv_def tbl_inv_def)
  ultimately have "sh_inv (s\<lparr>pardbmap := (pardbmap s)(rp_machid pone := None), partha_tbl := (partha_tbl s)(rp_machid pone := Some ?p)\<rparr>)"
    using sh_inv_partha_upd[of "s\<lparr>pardbmap := (pardbmap s)(rp_machid pone := None)\<rparr>" "Some ?p" "rp_machid pone"]
    by (simp add: new_partha_info_def obj_ids_def)
  then show "sh_inv (reg_partha_one e r pone s)" using assms(1) by (simp add: reg_partha_one_def)
  show "madhava_tbl (reg_partha_one e r pone s) = madhava_tbl s" by (simp add: reg_partha_one_def)
qed

lemma madhava_partha_inv:
  "sh_inv s \<Longrightarrow> r \<in> set (madhava_tbl s) \<Longrightarrow> sh_inv (fold (reg_partha_one e r) elems s)"
  by (induction elems arbitrary: s) (simp_all add: reg_partha_one_inv)

lemma partha_ping_one_inv:
  assumes "sh_inv s"
  shows "sh_inv (snd (partha_ping_one tcurr madid (mid, d) (c, s)))"
proof (cases "partha_tbl s mid")
  case None
  then show ?thesis using assms sh_inv_pardb_upd[OF assms disjI1[OF None]]
    by (simp add: partha_ping_one_def Let_def split: option.split)
next
  case (Some p)
  let ?d = "s\<lparr>partha_tbl := (partha_tbl s)(mid := None)\<rparr>"
  have "sh_inv ?d" by (rule sh_inv_partha_upd[OF assms]) simp
  then have "sh_inv (s\<lparr>partha_tbl := (partha_tbl s)(mid := None), pardbmap := (pardbmap s)(mid := v)\<rparr>)" for v
    using sh_inv_pardb_upd[of ?d mid v] by simp
  moreover have "sh_inv (s\<lparr>partha_tbl := (partha_tbl s)(mid := Some (p\<lparr>tdb_updated := tcurr\<rparr>))\<rparr>)"
    using partha_invD[OF assms Some] by (intro sh_inv_partha_upd[OF assms]) auto
  ultimately show ?thesis using assms Some by (simp add: partha_ping_one_def Let_def)
qed

lemma partha_ping_inv: "sh_inv (snd cs) \<Longrightarrow> sh_inv (snd (fold (partha_ping_one tcurr madid) pings cs))"
proof (induction pings arbitrary: cs)
  case (Cons x xs)
  then show ?case using partha_ping_one_inv[of "snd cs" tcurr madid "fst x" "snd x" "fst cs"] by simp
qed simp

lemma cleanup_pardb_inv: "sh_inv (snd ds) \<Longrightarrow> sh_inv (snd (cleanup_pardb tcurr tmin mids ds))"
proof (induction mids arbitrary: ds)
  case (Cons mid mids)
  have "sh_inv ((snd ds)\<lparr>pardbmap := (pardbmap (snd ds))(mid := None)\<rparr>)" by (rule sh_inv_pardb_upd[OF Cons.prems]) simp
  then show ?case using Cons by (cases ds) (simp split: option.split)
qed simp

lemma cleanup_partha_inv: "sh_inv (snd ds) \<Longrightarrow> sh_inv (snd (cleanup_partha tmin mids ds))"
proof (induction mids arbitrary: ds)
  case (Cons mid mids)
  have "sh_inv ((snd ds)\<lparr>partha_tbl := (partha_tbl (snd ds))(mid := None)\<rparr>)" by (rule sh_inv_partha_upd[OF Cons.prems]) simp
  then show ?case using Cons by (cases ds) (simp add: Let_def split: option.split)
qed simp

lemma sh_step_inv: "sh_step s s' \<Longrightarrow> sh_inv s \<Longrightarrow> sh_inv s'"
proof (induction rule: sh_step.induct)
  case (madhava_reg e connected pms s ret s')
  then show ?case using madhava_reg_inv by blast
next
  case (partha_reg e connected preg s ret outs s')
  then show ?case using partha_reg_inv by blast
next
  case (madhava_status r s now nodes conns)
  then show ?case by (simp add: sh_inv_def status_update_def)
next
  case (madhava_partha r s e elems ok s')
  then show ?case using madhava_partha_inv[of s r e elems] by (simp add: handle_madhava_reg_partha_def)
next
  case (partha_ping r s tcurr pings c s')
  have "snd (c, s') = s'" by simp
  then show ?case
    using partha_ping partha_ping_inv[of "(\<lparr>nupd = 0, ndel = 0, ping_rows = []\<rparr>, s)" tcurr "madhava_id (objs s r)" pings]
    by (simp add: handle_ms_partha_ping_def)
next
  case (cleanup tcurr tproc dborder parorder s del s')
  have "sh_inv (snd (cleanup_pardb tcurr (tmin_ping tcurr tproc) dborder ([], s)))"
    by (rule cleanup_pardb_inv) (simp add: cleanup.prems)
  from cleanup_partha_inv[OF this, of "tmin_ping tcurr tproc" parorder] show ?case
    using cleanup.hyps by (simp add: cleanup_db_partha_entries_def Let_def)
next
  case (sync s e)
  then show ?case by (rule sync_inv)
qed

lemma sh_init_inv: "sh_inv (sh_init db)"
  by (simp add: sh_inv_def tbl_inv_def partha_inv_def sh_init_def)

lemma sh_reachable_inv: "sh_step\<^sup>*\<^sup>* (sh_init db) s \<Longrightarrow> sh_inv s"
  by (induction rule: rtranclp_induct) (simp_all add: sh_init_inv sh_step_inv)

text \<open>(C12) The tables of Shyama are consistent after any sequence of registrations, status messages, reports, pings, cleanups and
  periodic synchronisations, from whatever the database held: no two Madhavas of the table have the same id, there are at most 1024,
  the Madhava of the last choice is in the table, and a Partha that is registered is not at the same time in the map
  of the database's Parthas, and belongs to the Madhava object whose id its entry has.
\<close>

theorem tables_consistent:
  assumes "sh_step\<^sup>*\<^sup>* (sh_init db) s"
  shows "distinct (map (\<lambda>r. madhava_id (objs s r)) (madhava_tbl s)) \<and> length (madhava_tbl s) \<le> MAX_MADHAVA_PER_SHYAMA \<and>
    set_option (curr_madhava s) \<subseteq> set (madhava_tbl s) \<and>
    (\<forall>mid p. partha_tbl s mid = Some p \<longrightarrow> pardbmap s mid = None \<and> p_madhava_id p = madhava_id (objs s (madhava_weak p)))"
proof -
  have "obj_ids s = (\<lambda>r. madhava_id (objs s r))" by (simp add: obj_ids_def fun_eq_iff)
  then show ?thesis using sh_reachable_inv[OF assms] by (auto simp: sh_inv_def tbl_inv_def partha_inv_def)
qed

text \<open>A Madhava registers, then sends its status.\<close>

definition sample_ms_req :: MS_REQ where
  "sample_ms_req = \<lparr>rq_madhava_id = 17, rq_listener = (''m'', 10037), rq_region = ''r'', rq_zone = ''z'', rq_name = ''mad'',
     rq_max_partha = 100, rq_last_partha = 0\<rparr>"

definition sample_registered :: SHSTATE where
  "sample_registered = upd_obj 0 (status_update \<lparr>time_now = 1000, get_sec_time = 1000, get_sec_clock = 1000\<rparr> 0 0)
     (snd (handle_misc_madhava_reg (sample_pl_env 1000) True sample_ms_req (sh_init Map.empty)))"

lemma sample_registered_eq:
  "madhava_tbl sample_registered = [0]" "curr_madhava sample_registered = None" "partha_tbl sample_registered = Map.empty"
  "pardbmap sample_registered = Map.empty" "last_new_madhava_cusec sample_registered = 1000000000"
  "objs sample_registered 0 = (new_madhava_info 17 (''m'', 10037))\<lparr>madhava_name := ''mad'', region_name := ''r'', zone_name := ''z'',
     max_partha_nodes := 100, last_status_tsec := 1000, last_status_csec := 1000\<rparr>"
  by (simp_all add: sample_registered_def handle_misc_madhava_reg_def sh_init_def find_madhava_def sample_ms_req_def sample_pl_env_def
      upd_obj_def set_registered_def status_update_def new_madhava_info_def Let_def)

lemma sample_registered_reachable: "sh_step\<^sup>*\<^sup>* (sh_init Map.empty) sample_registered"
proof -
  let ?s = "snd (handle_misc_madhava_reg (sample_pl_env 1000) True sample_ms_req (sh_init Map.empty))"
  have "sh_step (sh_init Map.empty) ?s" by (rule sh_step.madhava_reg[OF surjective_pairing])
  moreover have "sh_step ?s sample_registered"
    unfolding sample_registered_def by (rule sh_step.madhava_status) (use sample_registered_eq(1) in \<open>simp add: sample_registered_def\<close>)
  ultimately show ?thesis by (meson converse_rtranclp_into_rtranclp rtranclp.rtrancl_refl)
qed

theorem tables_consistent_witness:
  "distinct (map (\<lambda>r. madhava_id (objs sample_registered r)) (madhava_tbl sample_registered)) \<and> madhava_tbl sample_registered = [0]"
  using tables_consistent[OF sample_registered_reachable] by (simp add: sample_registered_eq)

section \<open>What a registration of a Partha sends\<close>

lemma key_and_response_success:
  assumes "key_and_response e preg is_new r resp s = (ret, outs, s')" "PS_RESPONSE q \<in> set outs" "rs_error_code q = ERR_SUCCESS"
  shows "q = resp" "s' = s\<lparr>last_madhava_chg_tusec := usec_time e\<rparr>"
    "outs = [SM_PARTHA_IDENT r (ps_machid preg) (rs_ident_key resp) (sec_time e + 300) is_new (ps_hostname preg), PS_RESPONSE resp]"
  using assms by (auto simp: key_and_response_def send_madhava_key_def send_par_def split: if_splits)

lemma refuse_par_no_success:
  "refuse_par s = (ret, outs, s') \<Longrightarrow> PS_RESPONSE q \<in> set outs \<Longrightarrow> rs_error_code q \<noteq> ERR_SUCCESS"
  by (auto simp: refuse_par_def)

text \<open>What a successful registration has done.\<close>

definition registered_with :: "PL_ENV \<Rightarrow> PS_REQ \<Rightarrow> bool \<Rightarrow> PS_RESP \<Rightarrow> PL_OUT list \<Rightarrow> SHSTATE \<Rightarrow> bool" where
  "registered_with e preg is_new resp outs s \<longleftrightarrow> (\<exists>r p. r \<in> set (madhava_tbl s) \<and>
     outs = [SM_PARTHA_IDENT r (ps_machid preg) (rs_ident_key resp) (sec_time e + 300) is_new (ps_hostname preg), PS_RESPONSE resp] \<and>
     partha_tbl s (ps_machid preg) = Some p \<and> madhava_weak p = r \<and> ident_key p = rs_ident_key resp \<and>
     rs_madhava_id resp = madhava_id (objs s r) \<and> rs_madhava_listener resp = listener_port (objs s r) \<and>
     rs_madhava_expiry_sec resp = (if is_new then 0 else sec_time e + 295))"

lemma register_new_success:
  assumes "sh_inv s" "register_new_partha e preg ign s = (ret, outs, s')" "PS_RESPONSE resp \<in> set outs" "rs_error_code resp = ERR_SUCCESS"
  shows "registered_with e preg True resp outs s'"
proof -
  obtain m t where a: "assign_partha_madhava (sec_clock e) (ps_machid preg) (ps_region preg) (ps_zone preg) ign s = (m, t)"
    by (metis surj_pair)
  note i = assign_inv[OF assms(1) a]
  show ?thesis
  proof (cases m)
    case None
    then show ?thesis using assms refuse_par_no_success by (simp add: register_new_partha_def a)
  next
    case (Some r)
    let ?p = "set_ident_key e (upd_pinfo preg (new_partha_info e r (madhava_id (objs t r))))"
    let ?r = "zero_resp\<lparr>rs_ident_key := ident_key ?p, rs_madhava_id := madhava_id (objs t r), rs_madhava_listener := listener_port (objs t r)\<rparr>"
    have k: "key_and_response e preg True r ?r (t\<lparr>partha_tbl := (partha_tbl t)(ps_machid preg := Some ?p)\<rparr>) = (ret, outs, s')"
      using assms(2,3) by (auto simp: register_new_partha_def a Some Let_def split: if_splits)
    show ?thesis using key_and_response_success[OF k assms(3,4)] i(4) Some
      by (simp add: registered_with_def zero_resp_def) (simp add: set_ident_key_def upd_pinfo_def new_partha_info_def)
  qed
qed

text \<open>(C13) A Partha that gets a successful response can work with the Madhava it is told. In any reachable state, if the handler sends a
  response without error, then exactly two messages were sent: before the response, the Partha's key to a Madhava of
  the table; the response has the same key and the id and address of that Madhava, the entry of the Partha has both; a Partha that was
  registered keeps its Madhava. But the response to a new Partha has no time of expiry, the others do.
\<close>

theorem partha_registration:
  assumes "sh_step\<^sup>*\<^sup>* (sh_init db) s" "handle_misc_partha_reg e True preg s = (ret, outs, s')"
    and "PS_RESPONSE resp \<in> set outs" "rs_error_code resp = ERR_SUCCESS"
  shows "registered_with e preg (partha_tbl s (ps_machid preg) = None) resp outs s' \<and>
    (\<forall>p. partha_tbl s (ps_machid preg) = Some p \<longrightarrow>
       (\<exists>p'. partha_tbl s' (ps_machid preg) = Some p' \<and> madhava_weak p' = madhava_weak p))"
proof (cases "partha_tbl s (ps_machid preg)")
  case None
  then have "register_new_partha e preg 0 s = (ret, outs, s')"
    using assms(2-4) refuse_par_no_success[of s] by (auto simp: handle_misc_partha_reg_def lookup_partha_def split: if_splits)
  from register_new_success[OF sh_reachable_inv[OF assms(1)] this assms(3,4)] show ?thesis using None by simp
next
  case (Some pinfo)
  note a = assms(2)[unfolded handle_misc_partha_reg_def lookup_partha_def Some option.case]
  show ?thesis
  proof (cases rule: parlam_cases[of e preg pinfo s])
    case 1
    then show ?thesis using a assms(3,4) refuse_par_no_success by (auto split: if_splits)
  next
    case 2
    then have k: "key_and_response e preg False (madhava_weak pinfo) (found_resp e preg pinfo (objs s (madhava_weak pinfo)))
      (s\<lparr>partha_tbl := (partha_tbl s)(ps_machid preg := Some (set_ident_key e (upd_pinfo preg pinfo)))\<rparr>) = (ret, outs, s')"
      using a by simp
    show ?thesis using key_and_response_success[OF k assms(3,4)] 2(1) Some
      by (simp add: registered_with_def found_resp_def zero_resp_def) (simp add: set_ident_key_def upd_pinfo_def)
  qed
qed

definition sample_ps_req :: PS_REQ where
  "sample_ps_req = \<lparr>ps_machid = (5, 6), ps_hostname = ''host'', ps_cluster = ''c'', ps_region = ''r'', ps_zone = ''z'', ps_curr_sec = 1020,
     ps_last_mdisconn_sec = 0, ps_last_madhava_id = 0\<rparr>"

definition sample_reg :: "PR_RET \<times> PL_OUT list \<times> SHSTATE" where
  "sample_reg = handle_misc_partha_reg (sample_pl_env 1020) True sample_ps_req sample_registered"

lemma sample_assign:
  "assign_partha_madhava 1020 (5, 6) ''r'' ''z'' 0 sample_registered =
     (Some 0, (count_add 0 sample_registered)\<lparr>nmadhava_partha := nmadhava_partha sample_registered + 1,
       curr_madhava := Some 0, curr_madhava_id := 17\<rparr>)"
proof -
  have s: "sample_registered\<lparr>pardbmap := (pardbmap sample_registered)((5, 6) := None)\<rparr> = sample_registered"
    by (simp add: sample_registered_eq fun_upd_idem)
  have c: "check_madhava 420 ''r'' ''z'' 0 (q, sample_registered) =
      (True, q, (count_add 0 sample_registered)\<lparr>nmadhava_partha := nmadhava_partha sample_registered + 1\<rparr>)" if "ign_madid q = 0" for q
    using check_madhava_eq[of 1020 "''r''" "''z''" 0 q sample_registered] that
    by (simp add: sample_registered_eq answering_def same_region_def same_zone_def has_room_def new_madhava_info_def)
  show ?thesis unfolding assign_partha_madhava_def Let_def s
    by (simp add: sample_registered_eq prev_madhava_def try_madhava_def retry_walk_def c)
      (simp add: count_add_def upd_obj_def sample_registered_eq new_madhava_info_def)
qed

theorem partha_registration_witness:
  "\<exists>resp. rs_error_code resp = ERR_SUCCESS \<and> registered_with (sample_pl_env 1020) sample_ps_req True resp (fst (snd sample_reg)) (snd (snd sample_reg))"
proof -
  obtain resp where "PS_RESPONSE resp \<in> set (fst (snd sample_reg))" "rs_error_code resp = ERR_SUCCESS"
    by (simp add: sample_reg_def handle_misc_partha_reg_def lookup_partha_def sample_registered_eq register_new_partha_def
        sample_pl_env_def sample_ps_req_def sample_assign Let_def key_and_response_def send_madhava_key_def send_par_def zero_resp_def
        count_add_def upd_obj_def)
  with partha_registration[OF sample_registered_reachable _ this, of "sample_pl_env 1020" sample_ps_req "fst sample_reg" "snd (snd sample_reg)"]
  show ?thesis by (auto simp: sample_reg_def sample_registered_eq)
qed

section \<open>Consequences for reassignment and for the count of Madhavas\<close>

text \<open>
  A Partha whose Madhava does not accept it is taken out of the table, and its next request is that of a new Partha; that
  request is given the Madhava of the last choice if it has room, also when this is the one that did not accept it.
\<close>

lemma assign_last_choice:
  assumes "pardbmap s mid = None" "curr_madhava s = Some r" "answering clk 0 (objs s r)" "same_zone region zone (objs s r)" "has_room (objs s r)"
  shows "fst (assign_partha_madhava clk mid region zone 0 s) = Some r"
proof -
  have "s\<lparr>pardbmap := (pardbmap s)(mid := None)\<rparr> = s" using assms(1) by (simp add: fun_upd_idem)
  moreover have "same_region region zone (objs s r)" using assms(4) by (simp add: same_zone_def same_region_def)
  ultimately show ?thesis
    using assms by (simp add: assign_partha_madhava_def Let_def prev_madhava_def try_madhava_def check_madhava_eq)
qed

lemma reassigned_to_same:
  assumes "sh_inv s" "partha_tbl s (ps_machid preg) = Some p" "curr_madhava s = Some (madhava_weak p)"
    and "parlam e preg p s = PAR_NOT_FOUND ign True s1"
    and "answering clk 0 (objs s (madhava_weak p))" "same_zone region zone (objs s (madhava_weak p))" "has_room (objs s (madhava_weak p))"
  shows "fst (assign_partha_madhava clk (ps_machid preg) region zone 0 s1) = Some (madhava_weak p)"
proof -
  have "s1 = s\<lparr>partha_tbl := (partha_tbl s)(ps_machid preg := None)\<rparr>"
    using assms(4) by (cases rule: parlam_cases[of e preg p s]) simp_all
  then show ?thesis using partha_invD[OF assms(1,2)] assms by (intro assign_last_choice) simp_all
qed

text \<open>The count of Madhavas with Parthas stays as it is when one of them is deleted: the exchange then fails.\<close>

lemma sync_madhava_count: "nmadhava_partha (snd (sync_madhava e r cs)) = nmadhava_partha (snd cs)"
  by (cases cs) (simp add: sync_madhava_def Let_def upd_obj_def)

lemma sync_walk_count: "nmadhava_partha (snd (fold (sync_madhava e) rs cs)) = nmadhava_partha (snd cs)"
  by (induction rs arbitrary: cs) (simp_all add: sync_madhava_count)

lemma deleted_madhava_still_counted:
  assumes "fold (sync_madhava e) (madhava_tbl s) (\<lparr>nmad = 0, nmaddel = 0, nmaddel_with_par = 0\<rparr>, s) = (c, t)"
    "0 < nmaddel_with_par c" "nmaddel_with_par c < 2 ^ 64"
  shows "nmadhava_partha (sync_partha_madhava_node_stats e s) = nmadhava_partha s"
proof -
  have "nmadhava_partha t = nmadhava_partha s"
    using sync_walk_count[of e "madhava_tbl s" "(\<lparr>nmad = 0, nmaddel = 0, nmaddel_with_par = 0\<rparr>, s)"] assms(1) by simp
  moreover have "(of_nat (nmaddel_with_par c) :: 64 word) \<noteq> 0"
    using assms(2,3) by (simp add: word_of_nat_eq_0_iff nat_dvd_not_less)
  ultimately show ?thesis using assms(2) by (simp add: sync_partha_madhava_node_stats_def assms(1) Let_def)
qed

end
