(* ===== verification/Spec2Isabelle.thy ===== *)
theory Spec2Isabelle
  imports Gy_Recv_Limits Gy_Top_Lists Gy_Histogram Gy_Criteria Gy_Shyama_Recv Gy_Shyama_Tables
begin

text \<open>
  \<^bold>\<open>Verification of Gyeeta: wire protocol, receiving threads, placement of hosts, top lists, histograms and filters\<close>

  Gyeeta watches services on many hosts. A Partha agent runs on every host and sends events to a Madhava
  server, the Madhavas send to a Shyama server, and Node web servers query both. All of them speak one
  binary protocol (\<open>common/gy_comm_proto.h\<close>, \<open>.cc\<close>): a 16 byte \<open>COMM_HEADER\<close>, then structs that are read
  in place in the receive buffer. A server has L1 threads that read the sockets, cut the stream into
  messages, validate each one and hand it with its buffer to L2 threads, which update the tables. The
  development follows this path.

  \<^bold>\<open>Memory and structs.\<close> \<open>Gy_Prelude\<close> has the byte memory: loads and stores outside of it are \<open>None\<close>, so that a
  result \<open>Some\<close> is memory safety. \<open>Gy_Wire_Types\<close> has the members of the structs in the order of the
  source; offsets and sizes follow from the layout rules of the x86-64 ABI.

  \<^bold>\<open>Header and validators.\<close> \<open>Gy_Comm_Header\<close> is \<open>COMM_HEADER\<close> with \<open>set_type_len\<close> of the sender and \<open>validate\<close>
  of the receiver, and the round trip between them. \<open>Gy_Elem_Loop\<close> is the loop that the \<open>validate\<close>
  functions of events with elements of variable size share, with the contract \<open>elem_msg\<close> between the loop
  and an element; \<open>Gy_Var_Events\<close> interprets it for every such event, \<open>Gy_Fixed_Events\<close> and
  \<open>Gy_Task_Events\<close> have the other events, \<open>Gy_Query_Msgs\<close> the queries and responses and \<open>Gy_Registration\<close>
  the connect and register requests with all their error returns. The lemmas say which messages are
  accepted, that only bytes of the message are touched, and that the walk of the consumer over an
  accepted message stays inside. Two validators fall short of this: \<open>CPU_MEM_STATE_NOTIFY::validate\<close> reads behind
  a message that is shorter than its struct, and \<open>TASK_MINI_ADD::validate\<close> bounds only the first element.

  \<^bold>\<open>Receiving threads.\<close> \<open>Gy_L1_Base\<close> has what the servers share, \<open>Gy_Madhava_L1\<close> the \<open>switch\<close> of
  \<open>MCONN_HANDLER::handle_l1\<close> with one definition per \<open>case\<close>, \<open>Gy_L1_Recv\<close> the lambda \<open>handle_recv\<close> around it with
  its receive buffer and the array of scheduled messages. \<open>Gy_L1_Framing\<close> states what the loop is to do
  (\<open>split_frames\<close> of the whole stream) and proves it for every dispatch that meets the contract
  \<open>recv_disp\<close>, which \<open>Gy_Madhava_Recv\<close> interprets for the connections of Parthas. The theorems on the stream hold for
  connections that only send events, as long as no read fills the room left in the buffer; an array of
  scheduled messages reaches other threads only if a queue takes it, which is an argument (\<open>mpmc_write\<close>), and
  \<open>delivered\<close> are the messages of the arrays that were taken. \<open>Gy_Shyama_L1\<close> is the \<open>switch\<close> of
  \<open>SHCONN_HANDLER::handle_l1\<close> (\<open>server/gy_shconnhdlr.cc\<close>), whose \<open>handle_recv\<close> is that of Madhava, and \<open>Gy_Shyama_Recv\<close> interprets
  \<open>recv_disp\<close> for the events of Madhavas that are not for the database or the alert threads. The termination measure of the loop is the
  number of unread bytes; the reads of the socket are an explicit list, and \<open>nsyscall\<close> of a call is its fuel
  in the source too (\<open>max_syscall\<close>). \<open>Gy_Recv_Limits\<close> shows the cases the loop handles wrongly.

  \<^bold>\<open>Placement of hosts.\<close> \<open>Gy_Placement\<close> has the tables of Shyama and the handlers that register Madhavas and Parthas, choose a
  Madhava for a Partha and keep the tables up to date. \<open>Gy_Choice\<close> shows what the choice promises, and how refused
  attempts use up the limit of a Madhava; \<open>Gy_Shyama_Tables\<close> has the step relation over all these operations with its invariant, and what a
  registration sends. Objects are references into a store, so that a Madhava that is updated is updated for everyone
  who refers to it; a handler is one step.

  \<^bold>\<open>Top lists.\<close> \<open>Gy_Std_Heap\<close> has the heap algorithms of the C++ library, \<open>Gy_Prio_Queue\<close> the bounded priority queue
  of \<open>common/gy_statistics.h\<close> over them, \<open>Gy_Top_Lists\<close> the loop of \<open>MCONN_HANDLER::partha_listener_state\<close> that fills the
  lists of a Partha. The contract \<open>strict_weak\<close> of the comparators is interpreted for the four listener lists.

  \<^bold>\<open>Histograms.\<close> \<open>Gy_Histogram\<close> has the hash classes, \<open>GY_HISTOGRAM\<close>, \<open>GY_HISTOGRAM_DATA\<close> and \<open>TIME_HIST_CACHE\<close> of
  \<open>common/gy_statistics.h\<close>, with counts that wrap at 64 bits and values of the width of their type. The lemmas show the
  bucket of every value, the counts and sums after any additions and merges, what the percentiles count, the
  history and the cache.

  \<^bold>\<open>Filters.\<close> \<open>Gy_Criterion\<close> evaluates one criterion of a query or alert filter on a row, \<open>Gy_Criteria\<close> the groups of
  criteria (\<open>common/gy_query_criteria.h\<close>, \<open>.cc\<close>, \<open>common/gy_boolparse.cc\<close>): the numbering of the criteria of a
  filter by the hash of their text, the groups made of the terms of its normal form, and their evaluation, in
  one go or in phases.

  \<^bold>\<open>Arguments.\<close> What is not in the repository or has no value in the source is an argument: the buffers of the
  pool allocator and the result of writing to a queue (\<open>ENV\<close>), the clocks, the order of hash tables and the hash of keys (\<open>PL_ENV\<close>), the callbacks of a row, IEEE
  arithmetic and RE2 (\<open>ROW\<close>, \<open>FLOAT_OPS\<close>), the terms of the boolstuff library, and the constructor of a
  criterion from its text.

  \<^bold>\<open>Not modelled.\<close> The eBPF programs and their loaders, the collection of host data from \<open>/proc\<close> and netlink, the
  database rows written through libpq, SQL and JSON texts, the protocol parsers of traced services, process start and
  settings: they are system calls, generated code or calls of libraries that are not in the repository.
  Of the L2 handlers only those named above are modelled, without their database writes and log output. The RCU tables, pools and locks are replaced by the values they hold, so that interleavings of threads inside of one operation are not covered.
\<close>

end
